(* ===== verification/Prelude.thy ===== *)
theory Prelude
  imports Main "HOL-Library.Word"
begin

unbundle bit_operations_syntax

text \<open>
  What every component of the model shares: the machine types, the faults a C++ function
  can end in, sequencing of functions that may fault, bounded reads of a byte buffer, and
  the lemmas on lists and words the component proofs use.

  A fault is the end of the program's defined behaviour. \<open>Assert_Failed\<close> is a failing
  \<open>assert\<close> (the build files do not define NDEBUG), \<open>Out_Of_Range\<close> the exception of
  \<open>std::array::at\<close>, \<open>Over_Read\<close> and \<open>Over_Write\<close> an access outside the buffer the
  caller handed over, \<open>Past_End\<close> the increment of an end iterator, \<open>Bad_Optional\<close> the
  dereference of an empty \<open>std::optional\<close> or null pointer, \<open>Not_Returning\<close> a wait
  that never ends, \<open>Signed_Overflow\<close> the overflow of a signed addition or subtraction, or of the
  number a text is read as, \<open>Use_After_Free\<close> the use of an object that has been deleted.
\<close>

section \<open>Machine types\<close>

type_synonym u8 = "8 word"
type_synonym u16 = "16 word"
type_synonym u32 = "32 word"
type_synonym bytes = "8 word list"

section \<open>Faults and results\<close>

datatype fault =
    Assert_Failed
  | Out_Of_Range
  | Over_Read
  | Over_Write
  | Past_End
  | Bad_Optional
  | Not_Returning
  | Signed_Overflow
  | Use_After_Free

type_synonym 'a result = "fault + 'a"

fun rbind :: "'a result \<Rightarrow> ('a \<Rightarrow> 'b result) \<Rightarrow> 'b result" where
  "rbind (Inl e) f = Inl e"
| "rbind (Inr x) f = f x"

named_theorems result_simps \<open>equations for sequencing functions that may fault\<close>

lemma rbind_eq_Inr [result_simps]:
  "rbind r f = Inr y \<longleftrightarrow> (\<exists>x. r = Inr x \<and> f x = Inr y)"
  by (cases r) auto

lemma rbind_eq_Inl [result_simps]:
  "rbind r f = Inl e \<longleftrightarrow> r = Inl e \<or> (\<exists>x. r = Inr x \<and> f x = Inl e)"
  by (cases r) auto

lemma rbind_Inr [simp]: "rbind r Inr = r"
  by (cases r) auto

lemma rbind_assoc: "rbind (rbind r f) g = rbind r (\<lambda>x. rbind (f x) g)"
  by (cases r) auto

lemma rbind_cong [fundef_cong]:
  "r = r' \<Longrightarrow> (\<And>x. r' = Inr x \<Longrightarrow> f x = f' x) \<Longrightarrow> rbind r f = rbind r' f'"
  by (cases r') auto

definition rassert :: "bool \<Rightarrow> unit result" where
  "rassert b = (if b then Inr () else Inl Assert_Failed)"

lemma rassert_simps [simp]: "rassert True = Inr ()" "rassert False = Inl Assert_Failed"
  by (simp_all add: rassert_def)

lemma rassert_eq_Inr [result_simps]: "rassert b = Inr u \<longleftrightarrow> b"
  by (simp add: rassert_def)

text \<open>Running a faulting step over a list of inputs: the first fault ends the run.\<close>

fun rfold :: "('a \<Rightarrow> 's \<Rightarrow> 's result) \<Rightarrow> 'a list \<Rightarrow> 's \<Rightarrow> 's result" where
  "rfold f [] s = Inr s"
| "rfold f (x # xs) s = rbind (f x s) (rfold f xs)"

lemma rfold_append: "rfold f (xs @ ys) s = rbind (rfold f xs s) (rfold f ys)"
proof (induction xs arbitrary: s)
  case Nil
  then show ?case by simp
next
  case (Cons x xs)
  then show ?case by (cases "f x s") simp_all
qed

lemma rfold_invariant:
  assumes "rfold f xs s = Inr t" and "P s"
    and "\<And>x s t. P s \<Longrightarrow> f x s = Inr t \<Longrightarrow> P t"
  shows "P t"
  using assms(1,2)
proof (induction xs arbitrary: s)
  case Nil
  then show ?case by simp
next
  case (Cons x xs)
  then show ?case by (auto simp: result_simps intro: assms(3))
qed

lemma sorted_le_last: "sorted xs \<Longrightarrow> x \<in> set xs \<Longrightarrow> x \<le> List.last xs"
  by (induction xs) auto

section \<open>Lookup by key\<close>

lemma find_key_distinct:
  "distinct (map f xs) \<Longrightarrow> find (\<lambda>y. f y = k) xs = Some x \<longleftrightarrow> x \<in> set xs \<and> f x = k"
  by (induction xs) (auto simp: image_iff)

lemma find_key_self:
  "distinct (map f xs) \<Longrightarrow> x \<in> set xs \<Longrightarrow> find (\<lambda>y. f y = f x) xs = Some x"
  by (simp add: find_key_distinct)

lemma find_key_None: "k \<notin> f ` set xs \<Longrightarrow> find (\<lambda>y. f y = k) xs = None"
  by (induction xs) auto

section \<open>Bounded reads\<close>

text \<open>\<open>slice bs i n\<close> is what \<open>memcpy\<close> reads from \<open>&bs[i]\<close> with length \<open>n\<close>.\<close>

definition slice :: "'a list \<Rightarrow> nat \<Rightarrow> nat \<Rightarrow> 'a list" where
  "slice bs i n = take n (drop i bs)"

definition read_slice :: "'a list \<Rightarrow> nat \<Rightarrow> nat \<Rightarrow> 'a list result" where
  "read_slice bs i n = (if i + n \<le> length bs then Inr (slice bs i n) else Inl Over_Read)"

definition read_at :: "'a list \<Rightarrow> nat \<Rightarrow> 'a result" where
  "read_at bs i = (if i < length bs then Inr (bs ! i) else Inl Over_Read)"

lemma length_slice [simp]: "i + n \<le> length bs \<Longrightarrow> length (slice bs i n) = n"
  by (simp add: slice_def)

lemma slice_mid: "slice (xs @ ys @ zs) (length xs) (length ys) = ys"
  by (simp add: slice_def)

lemma read_slice_mid:
  "i = length xs \<Longrightarrow> n = length ys \<Longrightarrow> read_slice (xs @ ys @ zs) i n = Inr ys"
  by (simp add: read_slice_def slice_mid)

lemma read_at_mid: "i = length xs \<Longrightarrow> read_at (xs @ y # zs) i = Inr y"
  by (simp add: read_at_def nth_append)

text \<open>\<open>memcpy\<close> into a buffer of fixed size.\<close>

definition write_slice :: "'a list \<Rightarrow> nat \<Rightarrow> 'a list \<Rightarrow> 'a list result" where
  "write_slice buf off data =
     (if off + length data \<le> length buf
      then Inr (take off buf @ data @ drop (off + length data) buf) else Inl Over_Write)"

lemma write_slice_fresh:
  "off = length xs \<Longrightarrow> length data \<le> n \<Longrightarrow>
     write_slice (xs @ replicate n z) off data = Inr (xs @ data @ replicate (n - length data) z)"
  by (simp add: write_slice_def)

text \<open>A big-endian 16-bit value in memory, as \<open>htons\<close> of the two bytes reads it on a
  little-endian machine.\<close>

definition be16 :: "u8 \<Rightarrow> u8 \<Rightarrow> nat" where
  "be16 hi lo = 256 * unat hi + unat lo"

definition be16_bytes :: "nat \<Rightarrow> bytes" where
  "be16_bytes n = [of_nat (n div 256), of_nat (n mod 256)]"

lemma unat_u8_lt [simp]: "unat (b :: u8) < 256"
  by (rule order_less_le_trans [OF unsigned_less]) simp

lemma unat_u16_lt [simp]: "unat (w :: u16) < 65536"
  by (rule order_less_le_trans [OF unsigned_less]) simp

lemma be16_lt [simp]: "be16 hi lo < 65536"
  unfolding be16_def using unat_u8_lt [of hi] unat_u8_lt [of lo] by linarith

lemma unat_of_nat_u8: "n < 256 \<Longrightarrow> unat (of_nat n :: u8) = n"
  by (simp add: unat_of_nat)

lemma unat_of_nat_u16: "n < 65536 \<Longrightarrow> unat (of_nat n :: u16) = n"
  by (simp add: unat_of_nat)

lemma be16_be16_bytes:
  "n < 65536 \<Longrightarrow> be16 (of_nat (n div 256)) (of_nat (n mod 256)) = n"
  by (simp add: be16_def unat_of_nat_u8)

lemma length_be16_bytes [simp]: "length (be16_bytes n) = 2"
  by (simp add: be16_bytes_def)

definition read_be16 :: "bytes \<Rightarrow> nat \<Rightarrow> nat result" where
  "read_be16 bs i = (if i + 2 \<le> length bs then Inr (be16 (bs ! i) (bs ! Suc i)) else Inl Over_Read)"

lemma read_be16_mid:
  assumes "i = length xs" and "n < 65536"
  shows "read_be16 (xs @ be16_bytes n @ zs) i = Inr n"
  using assms by (simp add: read_be16_def be16_bytes_def nth_append be16_be16_bytes)

section \<open>Indices modulo the 16-bit sequence space\<close>

lemma mod_65536_succ_less: "(s + 1) mod 65536 < (65536 :: nat)"
  by simp

end
