(* ===== verification/Rtp_Header.thy ===== *)
theory Rtp_Header
  imports Prelude
begin

text \<open>
  The packet headers of \<open>app/videostreaming/vscommon/rtp/RTP.hpp\<close>: the RTP header, the
  NALU header (which is also the FU indicator) and FU header of H.264, and their H.265
  counterparts. The source lays packed bit-fields over the received bytes; a little-endian
  compiler gives the first declared field the lowest bits, which is what the \<open>_of\<close>
  functions below read out.
\<close>

section \<open>RTP header\<close>

record rtp_header =
  cc :: u8
  extension :: u8
  padding :: u8
  version :: u8
  payload :: u8
  marker :: u8
  sequence :: u16
  timestamp :: u32
  sources :: u32

definition bitfield :: "u8 \<Rightarrow> nat \<Rightarrow> nat \<Rightarrow> u8" where
  "bitfield b lo w = drop_bit lo b AND mask w"

definition le16 :: "u8 \<Rightarrow> u8 \<Rightarrow> u16" where
  "le16 b0 b1 = of_nat (unat b0 + 256 * unat b1)"

definition le32 :: "u8 \<Rightarrow> u8 \<Rightarrow> u8 \<Rightarrow> u8 \<Rightarrow> u32" where
  "le32 b0 b1 b2 b3 =
     of_nat (unat b0 + 256 * unat b1 + 65536 * unat b2 + 16777216 * unat b3)"

definition rtp_header_of :: "bytes \<Rightarrow> rtp_header" where
  "rtp_header_of bs = \<lparr>
     cc = bitfield (bs ! 0) 0 4, extension = bitfield (bs ! 0) 4 1,
     padding = bitfield (bs ! 0) 5 1, version = bitfield (bs ! 0) 6 2,
     payload = bitfield (bs ! 1) 0 7, marker = bitfield (bs ! 1) 7 1,
     sequence = le16 (bs ! 2) (bs ! 3),
     timestamp = le32 (bs ! 4) (bs ! 5) (bs ! 6) (bs ! 7),
     sources = le32 (bs ! 8) (bs ! 9) (bs ! 10) (bs ! 11)\<rparr>"

abbreviation sizeof_rtp_header :: nat where
  "sizeof_rtp_header \<equiv> 12"

text \<open>\<open>htons\<close> and \<open>htonl\<close> on a little-endian machine: the bytes in reverse order.\<close>

definition htons :: "u16 \<Rightarrow> u16" where
  "htons w = of_nat (256 * (unat w mod 256) + unat w div 256)"

definition htonl :: "u32 \<Rightarrow> u32" where
  "htonl w = of_nat (16777216 * (unat w mod 256) + 65536 * (unat w div 256 mod 256)
     + 256 * (unat w div 65536 mod 256) + unat w div 16777216)"

definition getSequence :: "rtp_header \<Rightarrow> nat" where
  "getSequence h = unat (htons (sequence h))"

definition getTimestamp :: "rtp_header \<Rightarrow> nat" where
  "getTimestamp h = unat (htonl (timestamp h))"

definition getSources :: "rtp_header \<Rightarrow> nat" where
  "getSources h = unat (htonl (sources h))"

text \<open>The constructor of \<open>RTPPacket\<close>: header, payload and its two assertions.\<close>

definition RTPPacket :: "bytes \<Rightarrow> (rtp_header \<times> bytes) result" where
  "RTPPacket rtp_data =
     rbind (rassert (length rtp_data \<ge> sizeof_rtp_header)) (\<lambda>_.
     rbind (rassert (padding (rtp_header_of rtp_data) = 0)) (\<lambda>_.
     Inr (rtp_header_of rtp_data, drop sizeof_rtp_header rtp_data)))"

section \<open>H.264\<close>

record nalu_header =
  nh_type :: u8
  nh_nri :: u8
  nh_f :: u8

definition nalu_header_of :: "u8 \<Rightarrow> nalu_header" where
  "nalu_header_of b = \<lparr>nh_type = bitfield b 0 5, nh_nri = bitfield b 5 2, nh_f = bitfield b 7 1\<rparr>"

record fu_header =
  fu_type :: u8
  fu_r :: u8
  fu_e :: u8
  fu_s :: u8

definition fu_header_of :: "u8 \<Rightarrow> fu_header" where
  "fu_header_of b = \<lparr>fu_type = bitfield b 0 5, fu_r = bitfield b 5 1, fu_e = bitfield b 6 1,
     fu_s = bitfield b 7 1\<rparr>"

text \<open>The accessors of \<open>RTPPacketH264\<close> on the payload of a packet.\<close>

definition getNALUHeaderH264 :: "bytes \<Rightarrow> nalu_header result" where
  "getNALUHeaderH264 p = rbind (rassert (length p \<ge> 1)) (\<lambda>_. Inr (nalu_header_of (p ! 0)))"

definition getFuHeader :: "bytes \<Rightarrow> fu_header result" where
  "getFuHeader p =
     rbind (getNALUHeaderH264 p) (\<lambda>h.
     rbind (rassert (nh_type h = 28)) (\<lambda>_.
     rbind (read_at p 1) (\<lambda>b. Inr (fu_header_of b))))"

definition getFuPayload :: "bytes \<Rightarrow> bytes result" where
  "getFuPayload p = read_slice p 2 (length p - 2)"

section \<open>H.265\<close>

record nal_unit_header_h265 =
  h265_f :: u8
  h265_type :: u8
  h265_layerId :: u8
  h265_tid :: u8

definition nal_unit_header_h265_of :: "u8 \<Rightarrow> u8 \<Rightarrow> nal_unit_header_h265" where
  "nal_unit_header_h265_of b0 b1 = \<lparr>
     h265_f = bitfield b0 0 1, h265_type = bitfield b0 1 6,
     h265_layerId = bitfield b0 7 1 OR push_bit 1 (bitfield b1 0 5),
     h265_tid = bitfield b1 5 3\<rparr>"

record fu_header_h265 =
  fuType265 :: u8
  fu_e265 :: u8
  fu_s265 :: u8

definition fu_header_h265_of :: "u8 \<Rightarrow> fu_header_h265" where
  "fu_header_h265_of b = \<lparr>fuType265 = bitfield b 0 6, fu_e265 = bitfield b 6 1,
     fu_s265 = bitfield b 7 1\<rparr>"

definition getNALUHeaderH265 :: "bytes \<Rightarrow> nal_unit_header_h265 result" where
  "getNALUHeaderH265 p =
     rbind (rassert (length p \<ge> 2)) (\<lambda>_. Inr (nal_unit_header_h265_of (p ! 0) (p ! 1)))"

definition getFuHeaderH265 :: "bytes \<Rightarrow> fu_header_h265 result" where
  "getFuHeaderH265 p =
     rbind (getNALUHeaderH265 p) (\<lambda>h.
     rbind (rassert (h265_type h = 49)) (\<lambda>_.
     rbind (read_at p 2) (\<lambda>b. Inr (fu_header_h265_of b))))"

definition getFuPayloadH265 :: "bytes \<Rightarrow> bytes result" where
  "getFuPayloadH265 p = read_slice p 3 (length p - 3)"

section \<open>Bit-level lemmas\<close>

lemma getSequence_of:
  "getSequence (rtp_header_of bs) = be16 (bs ! 2) (bs ! 3)"
proof -
  let ?a = "unat (bs ! 2)" and ?b = "unat (bs ! 3)"
  have a: "?a < 256" and b: "?b < 256" by simp_all
  have n: "unat (le16 (bs ! 2) (bs ! 3)) = ?a + 256 * ?b"
    unfolding le16_def using a b by (intro unat_of_nat_u16) linarith
  have swap: "256 * ((?a + 256 * ?b) mod 256) + (?a + 256 * ?b) div 256 = 256 * ?a + ?b"
    using a by simp
  have "256 * ?a + ?b < 65536"
    using a b by linarith
  then have "unat (htons (le16 (bs ! 2) (bs ! 3))) = 256 * ?a + ?b"
    unfolding htons_def n swap by (rule unat_of_nat_u16)
  then show ?thesis
    by (simp add: getSequence_def rtp_header_of_def be16_def)
qed

lemma getSequence_lt [simp]: "getSequence h < 65536"
  by (simp add: getSequence_def)

lemma bit_bitfield:
  "bit (bitfield b lo w) n \<longleftrightarrow> n < 8 \<and> n < w \<and> bit b (lo + n)"
  by (auto simp: bitfield_def bit_simps)

text \<open>Two octets are equal when their eight bits are.\<close>

lemma u8_eqI:
  fixes x y :: u8
  assumes "bit x 0 = bit y 0" "bit x 1 = bit y 1" "bit x 2 = bit y 2" "bit x 3 = bit y 3"
    "bit x 4 = bit y 4" "bit x 5 = bit y 5" "bit x 6 = bit y 6" "bit x 7 = bit y 7"
  shows "x = y"
proof (rule bit_word_eqI)
  fix n assume "n < LENGTH(8)"
  then have "n = 0 \<or> n = 1 \<or> n = 2 \<or> n = 3 \<or> n = 4 \<or> n = 5 \<or> n = 6 \<or> n = 7" by auto
  then show "bit x n = bit y n" using assms by (elim disjE) simp_all
qed

lemmas u8_bits = bit_or_iff bit_and_iff bit_push_bit_iff bit_bitfield

text \<open>Taking the H.264 header octet apart and putting it together again is the identity.\<close>

lemma nalu_header_of_fields:
  "nh_type (nalu_header_of b) = bitfield b 0 5"
  "nh_nri (nalu_header_of b) = bitfield b 5 2"
  "nh_f (nalu_header_of b) = bitfield b 7 1"
  by (simp_all add: nalu_header_of_def)

lemma bit_0x1f: "bit (0x1f :: u8) n \<longleftrightarrow> n < 5"
proof -
  have "(0x1f :: u8) = mask 5" by (simp add: mask_eq_exp_minus_1)
  then have "bit (0x1f :: u8) n \<longleftrightarrow> bit (mask 5 :: u8) n" by simp
  also have "\<dots> \<longleftrightarrow> n < 5" unfolding bit_mask_iff by auto
  finally show ?thesis .
qed

lemma h264_header_reassembled:
  "(nh_type (nalu_header_of b) AND 0x1f) OR push_bit 5 (nh_nri (nalu_header_of b))
     OR push_bit 7 (nh_f (nalu_header_of b)) = b"
proof (rule bit_word_eqI)
  fix n assume "n < LENGTH(8)"
  then have "n < 5 \<or> n = 5 \<or> n = 6 \<or> n = 7" by auto
  then show "bit ((nh_type (nalu_header_of b) AND 0x1f) OR push_bit 5 (nh_nri (nalu_header_of b))
     OR push_bit 7 (nh_f (nalu_header_of b))) n = bit b n"
    unfolding nalu_header_of_fields bit_or_iff bit_and_iff bit_push_bit_iff bit_bitfield bit_0x1f
    by (elim disjE) simp_all
qed

end
