(* ===== verification/Rtp_Decoder.thy ===== *)
theory Rtp_Decoder
  imports Rtp_Header
begin

text \<open>
  The RTP depacketiser \<open>RTPDecoder\<close> of \<open>app/videostreaming/vscommon/rtp/ParseRTP.h\<close> and
  \<open>ParseRTP.cpp\<close>: the state of the class, one definition per member function, and the
  lemmas on the NALU buffer and on the sequence-number check.

  The array \<open>m_curr_nalu\<close> with its fill level \<open>m_nalu_data_length\<close> is the list of the bytes
  below the fill level (nothing above it is ever read). The callback is recorded: \<open>m_cb\<close> says
  whether one is set, \<open>forwarded\<close> lists its calls, each with the creation time and the NALU
  handed over. \<open>now\<close> is the reading of the clock while a packet is parsed. Logging is left out.
\<close>

section \<open>State\<close>

definition NALU_MAXLEN :: nat where
  "NALU_MAXLEN = 1024 * 1024"

record rtp_decoder =
  m_cb :: bool
  forwarded :: "(int \<times> bytes) list"
  m_curr_nalu :: bytes
  m_feed_incomplete_frames :: bool
  m_total_n_fragments_for_current_fu :: int
  lastSequenceNumber :: int
  flagPacketHasGoneMissing :: bool
  m_n_gaps :: int
  m_n_lost_packets :: int
  timePointStartOfReceivingNALU :: int
  curr_packet_diff :: int

abbreviation m_nalu_data_length :: "rtp_decoder \<Rightarrow> nat" where
  "m_nalu_data_length d \<equiv> length (m_curr_nalu d)"

definition rtp_decoder_new :: "bool \<Rightarrow> bool \<Rightarrow> rtp_decoder" where
  "rtp_decoder_new cb feed_incomplete_frames = \<lparr>
     m_cb = cb, forwarded = [], m_curr_nalu = [],
     m_feed_incomplete_frames = feed_incomplete_frames,
     m_total_n_fragments_for_current_fu = 0, lastSequenceNumber = -1,
     flagPacketHasGoneMissing = False, m_n_gaps = 0, m_n_lost_packets = 0,
     timePointStartOfReceivingNALU = 0, curr_packet_diff = 0\<rparr>"

definition rtp_reset :: "rtp_decoder \<Rightarrow> rtp_decoder" where
  "rtp_reset d = d\<lparr>m_curr_nalu := [], lastSequenceNumber := -1,
     flagPacketHasGoneMissing := False, m_n_gaps := 0\<rparr>"

section \<open>Sequence numbers\<close>

definition diff_between_packets :: "int \<Rightarrow> int \<Rightarrow> int" where
  "diff_between_packets last_packet curr_packet =
     (if curr_packet < last_packet then curr_packet + 65535 + 1 - last_packet
      else curr_packet - last_packet)"

definition validateRTPPacket :: "rtp_header \<Rightarrow> rtp_decoder \<Rightarrow> rtp_decoder \<times> bool" where
  "validateRTPPacket h d =
     (let seqNr = int (getSequence h) in
      if seqNr = lastSequenceNumber d then (d, False)
      else if lastSequenceNumber d = -1 then
        (d\<lparr>flagPacketHasGoneMissing := False, lastSequenceNumber := seqNr\<rparr>, True)
      else
        let d1 = d\<lparr>curr_packet_diff := diff_between_packets (lastSequenceNumber d) seqNr\<rparr>;
            d2 = (if seqNr \<noteq> (lastSequenceNumber d + 1) mod (65535 + 1)
                  then d1\<lparr>flagPacketHasGoneMissing := \<not> m_feed_incomplete_frames d,
                          m_n_gaps := m_n_gaps d + 1,
                          m_n_lost_packets :=
                            m_n_lost_packets d + (seqNr - lastSequenceNumber d)\<rparr>
                  else d1)
        in (d2\<lparr>lastSequenceNumber := seqNr\<rparr>, True))"

section \<open>The NALU buffer\<close>

definition append_nalu_data :: "bytes \<Rightarrow> rtp_decoder \<Rightarrow> rtp_decoder result" where
  "append_nalu_data data d =
     (if m_nalu_data_length d + length data > NALU_MAXLEN then Inr d
      else if m_nalu_data_length d \<ge> NALU_MAXLEN then Inl Out_Of_Range
      else Inr (d\<lparr>m_curr_nalu := m_curr_nalu d @ data\<rparr>))"

definition append_nalu_data_byte :: "u8 \<Rightarrow> rtp_decoder \<Rightarrow> rtp_decoder result" where
  "append_nalu_data_byte b d = append_nalu_data [b] d"

definition append_empty :: "nat \<Rightarrow> rtp_decoder \<Rightarrow> rtp_decoder result" where
  "append_empty data_len d =
     (if m_nalu_data_length d + data_len > NALU_MAXLEN then Inr d
      else if m_nalu_data_length d \<ge> NALU_MAXLEN then Inl Out_Of_Range
      else Inr (d\<lparr>m_curr_nalu := m_curr_nalu d @ replicate data_len 0\<rparr>))"

definition write_h264_h265_nalu_start :: "bool \<Rightarrow> rtp_decoder \<Rightarrow> rtp_decoder result" where
  "write_h264_h265_nalu_start use_4_bytes d =
     (let d0 = d\<lparr>m_curr_nalu := []\<rparr> in
      if use_4_bytes then
        rbind (append_nalu_data_byte 0 d0) (\<lambda>d1.
        rbind (append_nalu_data_byte 0 d1) (\<lambda>d2.
        rbind (append_nalu_data_byte 0 d2) (\<lambda>d3.
        rbind (append_nalu_data_byte 1 d3) (\<lambda>d4.
        rbind (rassert (m_nalu_data_length d4 = 4)) (\<lambda>_. Inr d4)))))
      else
        rbind (append_nalu_data_byte 0 d0) (\<lambda>d1.
        rbind (append_nalu_data_byte 0 d1) (\<lambda>d2.
        rbind (append_nalu_data_byte 1 d2) (\<lambda>d3.
        rbind (rassert (m_nalu_data_length d3 = 3)) (\<lambda>_. Inr d3)))))"

definition check_has_valid_prefix :: "bytes \<Rightarrow> bool \<Rightarrow> bool" where
  "check_has_valid_prefix nalu use_4_bytes_start_code =
     (if length nalu < 5 then False
      else if use_4_bytes_start_code then
        nalu ! 0 = 0 \<and> nalu ! 1 = 0 \<and> nalu ! 2 = 0 \<and> nalu ! 3 = 1
      else nalu ! 0 = 0 \<and> nalu ! 1 = 0 \<and> nalu ! 2 = 1)"

definition check_curr_nalu_has_valid_prefix :: "bool \<Rightarrow> rtp_decoder \<Rightarrow> bool" where
  "check_curr_nalu_has_valid_prefix use_4 d = check_has_valid_prefix (m_curr_nalu d) use_4"

definition forwardNALU :: "rtp_decoder \<Rightarrow> rtp_decoder" where
  "forwardNALU d =
     (if m_cb d then
        if \<not> check_curr_nalu_has_valid_prefix True d then d
        else d\<lparr>forwarded := forwarded d @ [(timePointStartOfReceivingNALU d, m_curr_nalu d)],
               m_curr_nalu := []\<rparr>
      else d\<lparr>m_curr_nalu := []\<rparr>)"

section \<open>H.264\<close>

definition h264_nal_header_byte :: "u8 \<Rightarrow> nalu_header \<Rightarrow> u8" where
  "h264_nal_header_byte typ h = (typ AND 0x1f) OR push_bit 5 (nh_nri h) OR push_bit 7 (nh_f h)"

definition h264_reconstruct_and_forward_one_nalu ::
  "int \<Rightarrow> bytes \<Rightarrow> nat \<Rightarrow> nat \<Rightarrow> rtp_decoder \<Rightarrow> rtp_decoder result" where
  "h264_reconstruct_and_forward_one_nalu now data off data_size d =
     rbind (rassert (data_size > 1)) (\<lambda>_.
     rbind (read_at data off) (\<lambda>b.
     let h = nalu_header_of b;
         d1 = d\<lparr>timePointStartOfReceivingNALU := now, flagPacketHasGoneMissing := False\<rparr> in
     rbind (write_h264_h265_nalu_start True d1) (\<lambda>d2.
     rbind (append_nalu_data_byte (h264_nal_header_byte (nh_type h) h) d2) (\<lambda>d3.
     rbind (read_slice data (off + 1) (data_size - 1)) (\<lambda>rest.
     rbind (append_nalu_data rest d3) (\<lambda>d4.
     Inr ((forwardNALU d4)\<lparr>m_curr_nalu := []\<rparr>)))))))"

text \<open>The loop over the NALUs of an aggregation packet (STAP-A).\<close>

function h264_aggregated :: "int \<Rightarrow> bytes \<Rightarrow> nat \<Rightarrow> rtp_decoder \<Rightarrow> rtp_decoder result" where
  "h264_aggregated now rtp_payload offset d =
     (case read_be16 rtp_payload (offset + 1) of
        Inl e \<Rightarrow> Inl e
      | Inr nalu_size \<Rightarrow>
          (case h264_reconstruct_and_forward_one_nalu now rtp_payload (offset + 3) nalu_size d of
             Inl e \<Rightarrow> Inl e
           | Inr d1 \<Rightarrow>
               (if \<not> (length rtp_payload > offset + 2 + nalu_size + 3) then Inr d1
                else h264_aggregated now rtp_payload (offset + 2 + nalu_size) d1)))"
  by pat_completeness auto
termination
  by (relation "measure (\<lambda>(now, p, offset, d). length p - offset)") auto

declare h264_aggregated.simps [simp del]

definition h264_fu :: "int \<Rightarrow> bytes \<Rightarrow> rtp_decoder \<Rightarrow> rtp_decoder result" where
  "h264_fu now rtp_payload d =
     rbind (getNALUHeaderH264 rtp_payload) (\<lambda>nalu_header.
     rbind (getFuHeader rtp_payload) (\<lambda>fu_header.
     rbind (getFuPayload rtp_payload) (\<lambda>fu_payload.
       if fu_e fu_header = 1 then
         rbind (append_nalu_data fu_payload d) (\<lambda>d1.
         let d2 = (if \<not> flagPacketHasGoneMissing d1 then forwardNALU d1 else d1)
         in Inr (d2\<lparr>m_total_n_fragments_for_current_fu := 0, m_curr_nalu := []\<rparr>))
       else if fu_s fu_header = 1 then
         let d1 = d\<lparr>timePointStartOfReceivingNALU := now, m_total_n_fragments_for_current_fu := 0,
                    flagPacketHasGoneMissing := False\<rparr> in
         rbind (write_h264_h265_nalu_start True d1) (\<lambda>d2.
         rbind (append_nalu_data_byte (h264_nal_header_byte (fu_type fu_header) nalu_header) d2) (\<lambda>d3.
         append_nalu_data fu_payload d3))
       else
         rbind (append_nalu_data fu_payload d) (\<lambda>d1.
         Inr (d1\<lparr>m_total_n_fragments_for_current_fu :=
                   m_total_n_fragments_for_current_fu d1 + 1\<rparr>)))))"

text \<open>The case distinction on the NALU type of a validated packet.\<close>

definition h264_dispatch :: "int \<Rightarrow> bytes \<Rightarrow> rtp_decoder \<Rightarrow> rtp_decoder result" where
  "h264_dispatch now rtp_payload d =
     rbind (getNALUHeaderH264 rtp_payload) (\<lambda>nalu_header.
       if nh_type nalu_header = 28 then h264_fu now rtp_payload d
       else if nh_type nalu_header > 0 \<and> nh_type nalu_header < 24 then
         h264_reconstruct_and_forward_one_nalu now rtp_payload 0 (length rtp_payload) d
       else if nh_type nalu_header = 24 then h264_aggregated now rtp_payload 0 d
       else Inr d)"

definition parseRTPH264toNALU :: "int \<Rightarrow> bytes \<Rightarrow> rtp_decoder \<Rightarrow> rtp_decoder result" where
  "parseRTPH264toNALU now rtp_data d =
     (if length rtp_data \<le> sizeof_rtp_header + 1 then Inr d
      else
        rbind (RTPPacket rtp_data) (\<lambda>(header, rtp_payload).
        case validateRTPPacket header d of
          (d1, False) \<Rightarrow> Inr d1
        | (d1, True) \<Rightarrow> h264_dispatch now rtp_payload d1))"

section \<open>H.265\<close>

definition FU_NAL :: "u8 \<Rightarrow> u8" where
  "FU_NAL v = v AND 0x3F"

definition h265_forward_one_nalu ::
  "int \<Rightarrow> bytes \<Rightarrow> nat \<Rightarrow> nat \<Rightarrow> bool \<Rightarrow> rtp_decoder \<Rightarrow> rtp_decoder result" where
  "h265_forward_one_nalu now data off data_size write_4_bytes d =
     (let d1 = d\<lparr>timePointStartOfReceivingNALU := now, flagPacketHasGoneMissing := False\<rparr> in
      rbind (write_h264_h265_nalu_start write_4_bytes d1) (\<lambda>d2.
      rbind (read_slice data off data_size) (\<lambda>nalu.
      rbind (append_nalu_data nalu d2) (\<lambda>d3.
      Inr ((forwardNALU d3)\<lparr>m_curr_nalu := []\<rparr>)))))"

function h265_aggregated :: "int \<Rightarrow> bytes \<Rightarrow> nat \<Rightarrow> rtp_decoder \<Rightarrow> rtp_decoder result" where
  "h265_aggregated now rtp_payload offset d =
     (case read_be16 rtp_payload (offset + 1 + 1) of
        Inl e \<Rightarrow> Inl e
      | Inr nalu_size \<Rightarrow>
          (case h265_forward_one_nalu now rtp_payload (offset + 1 + 3) nalu_size True d of
             Inl e \<Rightarrow> Inl e
           | Inr d1 \<Rightarrow>
               (if \<not> (length rtp_payload > offset + 2 + nalu_size + 3) then Inr d1
                else h265_aggregated now rtp_payload (offset + 2 + nalu_size) d1)))"
  by pat_completeness auto
termination
  by (relation "measure (\<lambda>(now, p, offset, d). length p - offset)") auto

declare h265_aggregated.simps [simp del]

definition h265_fu :: "int \<Rightarrow> bytes \<Rightarrow> bytes \<Rightarrow> rtp_decoder \<Rightarrow> rtp_decoder result" where
  "h265_fu now rtp_data rtp_payload d =
     rbind (getFuHeaderH265 rtp_payload) (\<lambda>fu_header.
     rbind (getFuPayloadH265 rtp_payload) (\<lambda>fu_payload.
       if fu_e265 fu_header \<noteq> 0 then
         rbind (append_nalu_data fu_payload d) (\<lambda>d1.
         Inr ((forwardNALU d1)\<lparr>m_curr_nalu := []\<rparr>))
       else if fu_s265 fu_header \<noteq> 0 then
         let d1 = d\<lparr>timePointStartOfReceivingNALU := now, flagPacketHasGoneMissing := False\<rparr> in
         rbind (write_h264_h265_nalu_start True d1) (\<lambda>d2.
         rbind (read_at rtp_data (sizeof_rtp_header + 2)) (\<lambda>variableNoIdea.
         rbind (read_at rtp_data sizeof_rtp_header) (\<lambda>ptr0.
         rbind (append_nalu_data_byte (push_bit 1 (FU_NAL variableNoIdea) OR (ptr0 AND 0x81)) d2) (\<lambda>d3.
         rbind (read_at rtp_data (sizeof_rtp_header + 1)) (\<lambda>ptr1.
         rbind (append_nalu_data_byte ptr1 d3) (\<lambda>d4.
         append_nalu_data fu_payload d4))))))
       else append_nalu_data fu_payload d))"

definition h265_dispatch :: "int \<Rightarrow> bytes \<Rightarrow> bytes \<Rightarrow> rtp_decoder \<Rightarrow> rtp_decoder result" where
  "h265_dispatch now rtp_data rtp_payload d =
     rbind (getNALUHeaderH265 rtp_payload) (\<lambda>h.
       if h265_type h > 50 then Inr d
       else if h265_type h = 48 then h265_aggregated now rtp_payload 0 d
       else if h265_type h = 49 then h265_fu now rtp_data rtp_payload d
       else h265_forward_one_nalu now rtp_payload 0 (length rtp_payload) True d)"

definition parseRTPH265toNALU :: "int \<Rightarrow> bytes \<Rightarrow> rtp_decoder \<Rightarrow> rtp_decoder result" where
  "parseRTPH265toNALU now rtp_data d =
     (if length rtp_data \<le> sizeof_rtp_header + 2 then Inr d
      else
        rbind (RTPPacket rtp_data) (\<lambda>(header, rtp_payload).
        case validateRTPPacket header d of
          (d1, False) \<Rightarrow> Inr d1
        | (d1, True) \<Rightarrow> h265_dispatch now rtp_data rtp_payload d1))"

section \<open>MJPEG\<close>

text \<open>Experimental: looks at the main header of the packet and produces nothing.\<close>

definition parse_rtp_mjpeg :: "bytes \<Rightarrow> rtp_decoder \<Rightarrow> rtp_decoder result" where
  "parse_rtp_mjpeg rtp_data d =
     (if length rtp_data \<le> sizeof_rtp_header + 8 then Inr d
      else rbind (RTPPacket rtp_data) (\<lambda>_. Inr d))"

section \<open>Streams\<close>

text \<open>A stream of packets, each with the time it arrived.\<close>

definition parse_stream_h264 :: "(int \<times> bytes) list \<Rightarrow> rtp_decoder \<Rightarrow> rtp_decoder result" where
  "parse_stream_h264 = rfold (\<lambda>(now, pkt). parseRTPH264toNALU now pkt)"

definition parse_stream_h265 :: "(int \<times> bytes) list \<Rightarrow> rtp_decoder \<Rightarrow> rtp_decoder result" where
  "parse_stream_h265 = rfold (\<lambda>(now, pkt). parseRTPH265toNALU now pkt)"

section \<open>The buffer operations on a buffer with room\<close>

abbreviation start_code :: bytes where
  "start_code \<equiv> [0, 0, 0, 1]"

named_theorems decoder_simps \<open>results of the decoder's helpers where they do not fault\<close>

lemma NALU_MAXLEN_gt [simp]: "5 < NALU_MAXLEN"
  by (simp add: NALU_MAXLEN_def)

lemma append_nalu_data_fits [decoder_simps]:
  "m_nalu_data_length d + length data \<le> NALU_MAXLEN \<Longrightarrow> m_nalu_data_length d < NALU_MAXLEN \<Longrightarrow>
     append_nalu_data data d = Inr (d\<lparr>m_curr_nalu := m_curr_nalu d @ data\<rparr>)"
  by (simp add: append_nalu_data_def)

lemma append_nalu_data_byte_fits [decoder_simps]:
  "m_nalu_data_length d < NALU_MAXLEN \<Longrightarrow>
     append_nalu_data_byte b d = Inr (d\<lparr>m_curr_nalu := m_curr_nalu d @ [b]\<rparr>)"
  by (simp add: append_nalu_data_byte_def append_nalu_data_def)

lemma write_start_4 [decoder_simps]:
  "write_h264_h265_nalu_start True d = Inr (d\<lparr>m_curr_nalu := start_code\<rparr>)"
  by (simp add: write_h264_h265_nalu_start_def append_nalu_data_byte_fits NALU_MAXLEN_def)

lemma forwardNALU_valid [decoder_simps]:
  "m_cb d \<Longrightarrow> m_curr_nalu d = start_code @ b # nal \<Longrightarrow>
     forwardNALU d = d\<lparr>forwarded := forwarded d @ [(timePointStartOfReceivingNALU d, m_curr_nalu d)],
                       m_curr_nalu := []\<rparr>"
  by (simp add: forwardNALU_def check_curr_nalu_has_valid_prefix_def check_has_valid_prefix_def)

end
