(* ===== verification/Rtp_Streams.thy ===== *)
theory Rtp_Streams
  imports Rtp_Decoder
begin

text \<open>
  What a sender does and what a depacketiser must do with it, for both codecs: packets sent in
  order, the state of the decoder between packets, and two interfaces. \<open>fragment_parser\<close> is the
  contract of fragment handling, \<open>unit_parser\<close> the contract of a parser that handles every unit a
  sender may send. The theories on H.264 and H.265 interpret both.
\<close>

section \<open>Packets sent in order\<close>

text \<open>A twelve-byte header the decoder accepts, carrying sequence number \<open>seq\<close>.\<close>

definition rtp_hdr_ok :: "bytes \<Rightarrow> nat \<Rightarrow> bool" where
  "rtp_hdr_ok hdr seq \<longleftrightarrow>
     length hdr = 12 \<and> \<not> bit (hdr ! 0) 5 \<and> be16 (hdr ! 2) (hdr ! 3) = seq"

text \<open>\<open>rtp_sent seq ps pkts\<close>: the packets \<open>pkts\<close> (each with its arrival time) carry the
  payloads \<open>ps\<close> and the consecutive sequence numbers \<open>seq\<close>, \<open>seq + 1\<close>, \<dots> modulo \<open>2 ^ 16\<close>.\<close>

fun rtp_sent :: "nat \<Rightarrow> bytes list \<Rightarrow> (int \<times> bytes) list \<Rightarrow> bool" where
  "rtp_sent seq [] pkts \<longleftrightarrow> pkts = []"
| "rtp_sent seq (p # ps) [] \<longleftrightarrow> False"
| "rtp_sent seq (p # ps) ((now, pkt) # pkts) \<longleftrightarrow>
     rtp_hdr_ok (take 12 pkt) (seq mod 65536) \<and> drop 12 pkt = p \<and> rtp_sent (Suc seq) ps pkts"

lemma rtp_sent_Cons:
  "rtp_sent seq (p # ps) pkts \<longleftrightarrow>
     (\<exists>now pkt rest. pkts = (now, pkt) # rest \<and> rtp_hdr_ok (take 12 pkt) (seq mod 65536) \<and>
        drop 12 pkt = p \<and> rtp_sent (Suc seq) ps rest)"
  by (cases pkts) auto

lemma rtp_sent_append:
  assumes "rtp_sent seq (ps @ qs) pkts"
  obtains as bs where "pkts = as @ bs" and "rtp_sent seq ps as"
    and "rtp_sent (seq + length ps) qs bs"
  using assms
proof (induction ps arbitrary: seq pkts thesis)
  case Nil
  then show ?case by simp
next
  case (Cons p ps)
  from Cons.prems(2) obtain now pkt rest where pkts: "pkts = (now, pkt) # rest"
    and pkt: "rtp_hdr_ok (take 12 pkt) (seq mod 65536)" "drop 12 pkt = p"
    and rest: "rtp_sent (Suc seq) (ps @ qs) rest"
    by (auto simp: rtp_sent_Cons)
  from rest obtain as bs where "rest = as @ bs" "rtp_sent (Suc seq) ps as"
    "rtp_sent (Suc seq + length ps) qs bs"
    using Cons.IH by blast
  then show ?case
    using pkts pkt by (intro Cons.prems(1) [of "(now, pkt) # as" bs]) simp_all
qed

lemma and_1_eq_0: "w AND 1 = 0 \<longleftrightarrow> \<not> bit w 0"
  for w :: u8
  by (simp add: and_one_eq bit_0 even_iff_mod_2_eq_zero)

lemma padding_bit: "padding (rtp_header_of bs) = 0 \<longleftrightarrow> \<not> bit (bs ! 0) 5"
  by (simp add: rtp_header_of_def bitfield_def and_1_eq_0 bit_drop_bit_eq)

text \<open>The decoder expects \<open>seq\<close> next (any number, for the first packet of the stream).\<close>

definition expects :: "nat \<Rightarrow> rtp_decoder \<Rightarrow> bool" where
  "expects seq d \<longleftrightarrow> lastSequenceNumber d = -1 \<or>
     (0 \<le> lastSequenceNumber d \<and> lastSequenceNumber d < 65536 \<and>
      (lastSequenceNumber d + 1) mod 65536 = int (seq mod 65536))"

definition accepted :: "nat \<Rightarrow> rtp_decoder \<Rightarrow> rtp_decoder" where
  "accepted seq d = d\<lparr>lastSequenceNumber := int seq,
     flagPacketHasGoneMissing := lastSequenceNumber d \<noteq> -1 \<and> flagPacketHasGoneMissing d,
     curr_packet_diff := (if lastSequenceNumber d = -1 then curr_packet_diff d
        else diff_between_packets (lastSequenceNumber d) (int seq))\<rparr>"

lemma accepted_sel [simp]:
  "lastSequenceNumber (accepted seq d) = int seq"
  "m_curr_nalu (accepted seq d) = m_curr_nalu d"
  "forwarded (accepted seq d) = forwarded d"
  "m_cb (accepted seq d) = m_cb d"
  "m_n_gaps (accepted seq d) = m_n_gaps d"
  "m_feed_incomplete_frames (accepted seq d) = m_feed_incomplete_frames d"
  "timePointStartOfReceivingNALU (accepted seq d) = timePointStartOfReceivingNALU d"
  "flagPacketHasGoneMissing (accepted seq d) \<longleftrightarrow>
     lastSequenceNumber d \<noteq> -1 \<and> flagPacketHasGoneMissing d"
  by (simp_all add: accepted_def)

lemma expects_accepted: "expects (Suc seq) (accepted (seq mod 65536) d)"
  by (simp add: expects_def zmod_int mod_simps ac_simps)

lemma validate_in_order:
  assumes "expects seq d" and "getSequence h = seq mod 65536"
  shows "validateRTPPacket h d = (accepted (seq mod 65536) d, True)"
proof (cases "lastSequenceNumber d = -1")
  case True
  then show ?thesis
    using assms by (simp add: validateRTPPacket_def accepted_def)
next
  case False
  with assms(1) have r: "0 \<le> lastSequenceNumber d" "lastSequenceNumber d < 65536"
    and nxt: "(lastSequenceNumber d + 1) mod 65536 = int (seq mod 65536)"
    by (simp_all add: expects_def)
  have "int (seq mod 65536) \<noteq> lastSequenceNumber d"
  proof
    assume "int (seq mod 65536) = lastSequenceNumber d"
    with nxt r show False
      by (cases "lastSequenceNumber d = 65535") auto
  qed
  then show ?thesis
    using assms(2) False nxt by (simp add: validateRTPPacket_def accepted_def Let_def)
qed

text \<open>A packet received in order reaches the dispatch on the NALU type.\<close>

lemma rtp_header_of_take: "12 \<le> length pkt \<Longrightarrow> rtp_header_of (take 12 pkt) = rtp_header_of pkt"
  by (simp add: rtp_header_of_def)

lemma RTPPacket_ok:
  assumes "rtp_hdr_ok (take 12 pkt) seq"
  shows "RTPPacket pkt = Inr (rtp_header_of pkt, drop 12 pkt)" and "12 \<le> length pkt"
    and "getSequence (rtp_header_of pkt) = seq"
proof -
  show l: "12 \<le> length pkt" using assms by (simp add: rtp_hdr_ok_def min_def split: if_splits)
  then have "\<not> bit (pkt ! 0) 5" using assms by (simp add: rtp_hdr_ok_def)
  then show "RTPPacket pkt = Inr (rtp_header_of pkt, drop 12 pkt)"
    using l by (simp add: RTPPacket_def padding_bit)
  show "getSequence (rtp_header_of pkt) = seq"
    using assms l by (simp add: rtp_hdr_ok_def getSequence_of)
qed

section \<open>Delivered NALUs\<close>

text \<open>The state after a complete NALU has been handed to the callback.\<close>

definition delivered :: "int \<Rightarrow> bytes \<Rightarrow> rtp_decoder \<Rightarrow> rtp_decoder" where
  "delivered now n d = d\<lparr>timePointStartOfReceivingNALU := now, flagPacketHasGoneMissing := False,
     forwarded := forwarded d @ [(now, start_code @ n)], m_curr_nalu := []\<rparr>"

lemma delivered_sel [simp]:
  "lastSequenceNumber (delivered now n d) = lastSequenceNumber d"
  "m_cb (delivered now n d) = m_cb d"
  "forwarded (delivered now n d) = forwarded d @ [(now, start_code @ n)]"
  "m_curr_nalu (delivered now n d) = []"
  "flagPacketHasGoneMissing (delivered now n d) = False"
  "m_n_gaps (delivered now n d) = m_n_gaps d"
  by (simp_all add: delivered_def)

fun delivered_all :: "int \<Rightarrow> bytes list \<Rightarrow> rtp_decoder \<Rightarrow> rtp_decoder" where
  "delivered_all now [] d = d"
| "delivered_all now (n # ns) d = delivered_all now ns (delivered now n d)"

lemma delivered_all_sel [simp]:
  "lastSequenceNumber (delivered_all now ns d) = lastSequenceNumber d"
  "m_cb (delivered_all now ns d) = m_cb d"
  "forwarded (delivered_all now ns d) = forwarded d @ map (\<lambda>n. (now, start_code @ n)) ns"
  "m_n_gaps (delivered_all now ns d) = m_n_gaps d"
  "ns \<noteq> [] \<Longrightarrow> m_curr_nalu (delivered_all now ns d) = []"
  "m_curr_nalu d = [] \<Longrightarrow> m_curr_nalu (delivered_all now ns d) = []"
proof (induction ns arbitrary: d)
  case (Cons n ns)
  { case 5 show ?case using Cons by simp }
qed (simp_all)

section \<open>Between packets\<close>

text \<open>While fragments of one NALU arrive in order.\<close>

definition assembling :: "int \<Rightarrow> bytes \<Rightarrow> rtp_decoder \<Rightarrow> rtp_decoder \<Rightarrow> bool" where
  "assembling now buf d0 d \<longleftrightarrow>
     m_cb d \<and> m_curr_nalu d = buf \<and> \<not> flagPacketHasGoneMissing d \<and>
     timePointStartOfReceivingNALU d = now \<and> forwarded d = forwarded d0 \<and>
     m_n_gaps d = m_n_gaps d0"

text \<open>Between units: the buffer is empty, the callback set, \<open>seq\<close> expected next.\<close>

definition between_units :: "nat \<Rightarrow> rtp_decoder \<Rightarrow> bool" where
  "between_units seq d \<longleftrightarrow> m_cb d \<and> m_curr_nalu d = [] \<and> expects seq d"

definition unit_received :: "(int \<times> bytes) list \<Rightarrow> bytes list \<Rightarrow> rtp_decoder \<Rightarrow> rtp_decoder \<Rightarrow> bool" where
  "unit_received pkts ns d d' \<longleftrightarrow>
     forwarded d' = forwarded d @ map (\<lambda>n. (fst (hd pkts), start_code @ n)) ns \<and>
     m_n_gaps d' = m_n_gaps d"

abbreviation parse_stream ::
  "(int \<Rightarrow> bytes \<Rightarrow> rtp_decoder \<Rightarrow> rtp_decoder result) \<Rightarrow> (int \<times> bytes) list \<Rightarrow> rtp_decoder \<Rightarrow>
   rtp_decoder result" where
  "parse_stream parse \<equiv> rfold (\<lambda>(now, pkt). parse now pkt)"

section \<open>Interface: reassembling fragments\<close>

text \<open>A parser whose handling of first, middle and last fragments obeys these laws delivers
  every NALU cut into fragments. \<open>hdr\<close> is the header of the NALU, \<open>hdr_bytes hdr\<close> its octets.\<close>

locale fragment_parser =
  fixes parse :: "int \<Rightarrow> bytes \<Rightarrow> rtp_decoder \<Rightarrow> rtp_decoder result"
    and frag_start frag_mid frag_end :: "'h \<Rightarrow> bytes \<Rightarrow> bytes"
    and hdr_bytes :: "'h \<Rightarrow> bytes"
  assumes hdr_nonempty: "hdr_bytes hdr \<noteq> []"
    and start: "rtp_hdr_ok (take 12 pkt) (seq mod 65536) \<Longrightarrow> drop 12 pkt = frag_start hdr c \<Longrightarrow>
      expects seq d \<Longrightarrow> m_cb d \<Longrightarrow> length (start_code @ hdr_bytes hdr @ c) < NALU_MAXLEN \<Longrightarrow>
      \<exists>d'. parse t pkt d = Inr d' \<and> assembling t (start_code @ hdr_bytes hdr @ c) d d' \<and>
        expects (Suc seq) d'"
    and mid: "rtp_hdr_ok (take 12 pkt) (seq mod 65536) \<Longrightarrow> drop 12 pkt = frag_mid hdr c \<Longrightarrow>
      expects seq d \<Longrightarrow> assembling now buf d0 d \<Longrightarrow> length (buf @ c) < NALU_MAXLEN \<Longrightarrow>
      \<exists>d'. parse t pkt d = Inr d' \<and> assembling now (buf @ c) d0 d' \<and> expects (Suc seq) d'"
    and stop: "rtp_hdr_ok (take 12 pkt) (seq mod 65536) \<Longrightarrow> drop 12 pkt = frag_end hdr c \<Longrightarrow>
      expects seq d \<Longrightarrow> assembling now (start_code @ b # x) d0 d \<Longrightarrow>
      length (start_code @ b # x @ c) < NALU_MAXLEN \<Longrightarrow>
      \<exists>d'. parse t pkt d = Inr d' \<and> between_units (Suc seq) d' \<and>
        forwarded d' = forwarded d0 @ [(now, start_code @ b # x @ c)] \<and> m_n_gaps d' = m_n_gaps d0"
begin

lemma middles:
  assumes "rtp_sent seq (map (frag_mid hdr) cs) pkts" and "expects seq d"
    and "assembling now buf d0 d" and "length (buf @ concat cs) < NALU_MAXLEN"
  shows "\<exists>d'. parse_stream parse pkts d = Inr d' \<and> assembling now (buf @ concat cs) d0 d' \<and>
           expects (seq + length cs) d'"
  using assms
proof (induction cs arbitrary: seq pkts d buf)
  case Nil
  then show ?case by simp
next
  case (Cons c cs)
  from Cons.prems(1) obtain t pkt rest where pkts: "pkts = (t, pkt) # rest"
    and pkt: "rtp_hdr_ok (take 12 pkt) (seq mod 65536)" "drop 12 pkt = frag_mid hdr c"
    and rest: "rtp_sent (Suc seq) (map (frag_mid hdr) cs) rest"
    by (auto simp: rtp_sent_Cons)
  have "length (buf @ c) < NALU_MAXLEN" using Cons.prems(4) by simp
  from mid [OF pkt Cons.prems(2,3) this] obtain d1
    where d1: "parse t pkt d = Inr d1" "assembling now (buf @ c) d0 d1" "expects (Suc seq) d1"
    by blast
  have "length ((buf @ c) @ concat cs) < NALU_MAXLEN" using Cons.prems(4) by simp
  from Cons.IH [OF rest d1(3,2) this] obtain d' where "parse_stream parse rest d1 = Inr d'"
    "assembling now ((buf @ c) @ concat cs) d0 d'" "expects (Suc seq + length cs) d'"
    by blast
  then show ?case by (intro exI [of _ d']) (simp add: pkts d1)
qed

lemma fragmented_unit:
  assumes sent: "rtp_sent seq (frag_start hdr c0 # map (frag_mid hdr) cs @ [frag_end hdr ce]) pkts"
    and fits: "length (start_code @ hdr_bytes hdr @ c0 @ concat cs @ ce) < NALU_MAXLEN"
    and bu: "between_units seq d"
  shows "\<exists>d'. parse_stream parse pkts d = Inr d' \<and>
           unit_received pkts [hdr_bytes hdr @ c0 @ concat cs @ ce] d d' \<and>
           between_units (seq + length cs + 2) d'"
proof -
  from sent obtain t pkt rest where pkts: "pkts = (t, pkt) # rest"
    and pkt: "rtp_hdr_ok (take 12 pkt) (seq mod 65536)" "drop 12 pkt = frag_start hdr c0"
    and rest: "rtp_sent (Suc seq) (map (frag_mid hdr) cs @ [frag_end hdr ce]) rest"
    by (auto simp: rtp_sent_Cons)
  from rest obtain ms es where rs: "rest = ms @ es"
    and ms: "rtp_sent (Suc seq) (map (frag_mid hdr) cs) ms"
    and es: "rtp_sent (Suc seq + length cs) [frag_end hdr ce] es"
    by (rule rtp_sent_append) simp
  from es obtain te pe where es': "es = [(te, pe)]"
    and pe: "rtp_hdr_ok (take 12 pe) ((Suc seq + length cs) mod 65536)"
      "drop 12 pe = frag_end hdr ce"
    by (auto simp: rtp_sent_Cons)
  have exp: "expects seq d" and cb: "m_cb d" using bu by (simp_all add: between_units_def)
  have "length (start_code @ hdr_bytes hdr @ c0) < NALU_MAXLEN" using fits by simp
  from start [OF pkt exp cb this] obtain d1 where d1: "parse t pkt d = Inr d1"
    "assembling t (start_code @ hdr_bytes hdr @ c0) d d1" "expects (Suc seq) d1"
    by blast
  have "length ((start_code @ hdr_bytes hdr @ c0) @ concat cs) < NALU_MAXLEN" using fits by simp
  from middles [OF ms d1(3,2) this] obtain d2 where d2: "parse_stream parse ms d1 = Inr d2"
    "assembling t ((start_code @ hdr_bytes hdr @ c0) @ concat cs) d d2"
    "expects (Suc seq + length cs) d2"
    by blast
  obtain b x where hb: "hdr_bytes hdr = b # x" using hdr_nonempty by (cases "hdr_bytes hdr") auto
  have asm: "assembling t (start_code @ b # (x @ c0 @ concat cs)) d d2"
    using d2(2) by (simp add: hb)
  have "length (start_code @ b # (x @ c0 @ concat cs) @ ce) < NALU_MAXLEN"
    using fits by (simp add: hb)
  from stop [OF pe d2(3) asm this] obtain d' where d': "parse te pe d2 = Inr d'"
    "between_units (Suc (Suc seq + length cs)) d'"
    "forwarded d' = forwarded d @ [(t, start_code @ b # (x @ c0 @ concat cs) @ ce)]"
    "m_n_gaps d' = m_n_gaps d"
    by blast
  then show ?thesis
    by (intro exI [of _ d'])
      (simp add: pkts rs es' d1(1) d2(1) rfold_append unit_received_def hb)
qed

end

section \<open>Interface: a stream of units\<close>

text \<open>A parser that delivers each unit a sender may send, from between units to between units,
  delivers every stream of units.\<close>

locale unit_parser =
  fixes parse :: "int \<Rightarrow> bytes \<Rightarrow> rtp_decoder \<Rightarrow> rtp_decoder result"
    and payloads :: "'u \<Rightarrow> bytes list"
    and nalus :: "'u \<Rightarrow> bytes list"
    and ok :: "'u \<Rightarrow> bool"
  assumes payloads_nonempty: "payloads u \<noteq> []"
    and unit_delivered: "rtp_sent seq (payloads u) pkts \<Longrightarrow> ok u \<Longrightarrow> between_units seq d \<Longrightarrow>
      \<exists>d'. parse_stream parse pkts d = Inr d' \<and> unit_received pkts (nalus u) d d' \<and>
        between_units (seq + length (payloads u)) d'"

text \<open>The callbacks a stream must cause: the NALUs of each unit, stamped with the arrival of
  the unit's first packet.\<close>

fun expected_frames ::
  "('u \<Rightarrow> bytes list) \<Rightarrow> ('u \<Rightarrow> bytes list) \<Rightarrow> 'u list \<Rightarrow> (int \<times> bytes) list \<Rightarrow> (int \<times> bytes) list" where
  "expected_frames payloads nalus [] pkts = []"
| "expected_frames payloads nalus (u # us) pkts =
     map (\<lambda>n. (fst (hd pkts), start_code @ n)) (nalus u) @
     expected_frames payloads nalus us (drop (length (payloads u)) pkts)"

lemma rtp_sent_length: "rtp_sent seq ps pkts \<Longrightarrow> length pkts = length ps"
  by (induction seq ps pkts rule: rtp_sent.induct) auto

lemma expected_frames_prefix:
  "length as = length (payloads u) \<Longrightarrow> as \<noteq> [] \<Longrightarrow>
     expected_frames payloads nalus (u # us) (as @ bs) =
     map (\<lambda>n. (fst (hd as), start_code @ n)) (nalus u) @ expected_frames payloads nalus us bs"
  by simp

context unit_parser begin

lemma stream_delivered:
  assumes "rtp_sent seq (concat (map payloads us)) pkts"
    and "list_all ok us" and "between_units seq d"
  shows "\<exists>d'. parse_stream parse pkts d = Inr d' \<and>
           forwarded d' = forwarded d @ expected_frames payloads nalus us pkts \<and>
           m_n_gaps d' = m_n_gaps d \<and>
           between_units (seq + length (concat (map payloads us))) d'"
  using assms
proof (induction us arbitrary: seq pkts d)
  case Nil
  then show ?case by simp
next
  case (Cons u us)
  from Cons.prems(1) obtain as bs where pkts: "pkts = as @ bs"
    and as: "rtp_sent seq (payloads u) as"
    and bs: "rtp_sent (seq + length (payloads u)) (concat (map payloads us)) bs"
    by (auto elim: rtp_sent_append)
  from unit_delivered [OF as _ Cons.prems(3)] Cons.prems(2) obtain d1
    where d1: "parse_stream parse as d = Inr d1" "unit_received as (nalus u) d d1"
      "between_units (seq + length (payloads u)) d1"
    by auto
  from Cons.IH [OF bs _ d1(3)] Cons.prems(2) obtain d'
    where d': "parse_stream parse bs d1 = Inr d'"
      "forwarded d' = forwarded d1 @ expected_frames payloads nalus us bs"
      "m_n_gaps d' = m_n_gaps d1"
      "between_units (seq + length (payloads u) + length (concat (map payloads us))) d'"
    by auto
  have len: "length as = length (payloads u)" using rtp_sent_length [OF as] .
  then have "as \<noteq> []" using payloads_nonempty [of u] by auto
  then show ?case
    using d1 d' expected_frames_prefix [of as payloads u nalus us bs] len
    by (intro exI [of _ d']) (simp add: pkts rfold_append unit_received_def add.assoc)
qed

end

text \<open>A unit that is one packet.\<close>

lemma one_packet_unit:
  assumes "rtp_sent seq [p] pkts" and "between_units seq d"
    and "\<And>t pkt. rtp_hdr_ok (take 12 pkt) (seq mod 65536) \<Longrightarrow> drop 12 pkt = p \<Longrightarrow>
           parse t pkt d = Inr (delivered_all t ns (accepted (seq mod 65536) d))"
  shows "\<exists>d'. parse_stream parse pkts d = Inr d' \<and> unit_received pkts ns d d' \<and>
           between_units (Suc seq) d'"
proof -
  from assms(1) obtain t pkt where pkts: "pkts = [(t, pkt)]"
    and pkt: "rtp_hdr_ok (take 12 pkt) (seq mod 65536)" "drop 12 pkt = p"
    by (auto simp: rtp_sent_Cons)
  let ?d' = "delivered_all t ns (accepted (seq mod 65536) d)"
  have "between_units (Suc seq) ?d'"
    using assms(2) expects_accepted [of seq d] by (simp add: between_units_def expects_def)
  then show ?thesis
    using assms(3) [OF pkt]
    by (intro exI [of _ ?d']) (simp add: pkts unit_received_def)
qed

text \<open>A twelve-byte header with the given sequence number, for examples.\<close>

abbreviation hdr_seq :: "u8 \<Rightarrow> u8 \<Rightarrow> bytes" where
  "hdr_seq hi lo \<equiv> [0x80, 96, hi, lo, 0, 0, 0, 0, 0, 0, 0, 0]"

end
