(* ===== verification/Rtp_H264.thy ===== *)
theory Rtp_H264
  imports Rtp_Streams
begin

text \<open>
  H.264 over RTP: the payload formats of RFC 6184 as a specification of the sender, and the
  theorem that the decoder turns a stream of packets sent in order back into exactly the NALUs
  that were sent.
\<close>

section \<open>The sender\<close>

text \<open>RFC 6184: a NALU alone in a packet, several in a STAP-A packet, or one cut into
  fragments (FU-A). A fragmented NALU is its header octet \<open>b\<close>, the first, the middle and the
  last chunk of what follows.\<close>

datatype h264_unit =
    Single bytes
  | Stap_A u8 "bytes list"
  | Fu_A u8 bytes "bytes list" bytes

definition fu_indicator :: "u8 \<Rightarrow> u8" where
  "fu_indicator b = (b AND 0xE0) OR 28"

definition fu_header_byte :: "bool \<Rightarrow> bool \<Rightarrow> u8 \<Rightarrow> u8" where
  "fu_header_byte s e b =
     (if s then 0x80 else 0) OR (if e then 0x40 else 0) OR (b AND 0x1F)"

fun h264_unit_payloads :: "h264_unit \<Rightarrow> bytes list" where
  "h264_unit_payloads (Single n) = [n]"
| "h264_unit_payloads (Stap_A hdr ns) = [hdr # concat (map (\<lambda>n. be16_bytes (length n) @ n) ns)]"
| "h264_unit_payloads (Fu_A b c0 cs ce) =
     (fu_indicator b # fu_header_byte True False b # c0) #
     map (\<lambda>c. fu_indicator b # fu_header_byte False False b # c) cs @
     [fu_indicator b # fu_header_byte False True b # ce]"

fun h264_unit_nalus :: "h264_unit \<Rightarrow> bytes list" where
  "h264_unit_nalus (Single n) = [n]"
| "h264_unit_nalus (Stap_A hdr ns) = ns"
| "h264_unit_nalus (Fu_A b c0 cs ce) = [b # c0 @ concat cs @ ce]"

definition h264_nal_type :: "u8 \<Rightarrow> nat" where
  "h264_nal_type b = unat (bitfield b 0 5)"

fun h264_unit_ok :: "h264_unit \<Rightarrow> bool" where
  "h264_unit_ok (Single n) \<longleftrightarrow> 2 \<le> length n \<and> length n + 4 < NALU_MAXLEN \<and>
     0 < h264_nal_type (hd n) \<and> h264_nal_type (hd n) < 24"
| "h264_unit_ok (Stap_A hdr ns) \<longleftrightarrow> ns \<noteq> [] \<and> h264_nal_type hdr = 24 \<and>
     list_all (\<lambda>n. 2 \<le> length n \<and> length n < 65536) ns"
| "h264_unit_ok (Fu_A b c0 cs ce) \<longleftrightarrow>
     length (c0 @ concat cs @ ce) + 5 < NALU_MAXLEN"

lemma fu_indicator_header:
  "nalu_header_of (fu_indicator b) =
     \<lparr>nh_type = 28, nh_nri = nh_nri (nalu_header_of b), nh_f = nh_f (nalu_header_of b)\<rparr>"
proof -
  have "bitfield (fu_indicator b) 0 5 = 28"
    by (rule u8_eqI) (simp_all add: fu_indicator_def u8_bits)
  moreover have "bitfield (fu_indicator b) 5 2 = bitfield b 5 2"
    by (rule u8_eqI) (simp_all add: fu_indicator_def u8_bits)
  moreover have "bitfield (fu_indicator b) 7 1 = bitfield b 7 1"
    by (rule u8_eqI) (simp_all add: fu_indicator_def u8_bits)
  ultimately show ?thesis by (simp add: nalu_header_of_def)
qed

lemma fu_header_byte_fields:
  "fu_type (fu_header_of (fu_header_byte s e b)) = nh_type (nalu_header_of b)"
  "fu_e (fu_header_of (fu_header_byte s e b)) = of_bool e"
  "fu_s (fu_header_of (fu_header_byte s e b)) = of_bool s"
proof -
  show "fu_type (fu_header_of (fu_header_byte s e b)) = nh_type (nalu_header_of b)"
    unfolding fu_header_of_def nalu_header_of_def fu_header.simps nalu_header.simps
    by (rule u8_eqI) (simp_all add: fu_header_byte_def u8_bits)
  show "fu_e (fu_header_of (fu_header_byte s e b)) = of_bool e"
    unfolding fu_header_of_def fu_header.simps
    by (rule u8_eqI) (simp_all add: fu_header_byte_def u8_bits)
  show "fu_s (fu_header_of (fu_header_byte s e b)) = of_bool s"
    unfolding fu_header_of_def fu_header.simps
    by (rule u8_eqI) (simp_all add: fu_header_byte_def u8_bits)
qed

lemma h264_nal_header_byte_of:
  "h264_nal_header_byte (nh_type (nalu_header_of b)) (nalu_header_of b) = b"
  by (simp add: h264_nal_header_byte_def h264_header_reassembled)

section \<open>One payload at a time\<close>

lemma parse_h264_in_order:
  assumes "rtp_hdr_ok (take 12 pkt) (seq mod 65536)" and "expects seq d"
    and "2 \<le> length (drop 12 pkt)"
  shows "parseRTPH264toNALU now pkt d = h264_dispatch now (drop 12 pkt) (accepted (seq mod 65536) d)"
proof -
  note pkt = RTPPacket_ok [OF assms(1)]
  have "\<not> length pkt \<le> 12 + 1" using assms(3) pkt(2) by simp
  then show ?thesis
    using pkt(1) validate_in_order [OF assms(2) pkt(3)]
    by (simp add: parseRTPH264toNALU_def)
qed

lemma h264_reconstruct_delivers:
  assumes "m_cb d" and n: "2 \<le> length n" "length n + 4 < NALU_MAXLEN"
    and off: "off = length pre" "sz = length n"
  shows "h264_reconstruct_and_forward_one_nalu now (pre @ n @ post) off sz d =
           Inr (delivered now n d)"
proof -
  obtain b rest where nb: "n = b # rest" using n by (cases n) auto
  have rd: "read_slice (pre @ n @ post) (off + 1) (sz - 1) = Inr rest"
    using read_slice_mid [of "off + 1" "pre @ [b]" "sz - 1" rest post] by (simp add: nb off)
  have at: "read_at (pre @ n @ post) off = Inr b"
    using read_at_mid [of off pre b "rest @ post"] by (simp add: nb off)
  show ?thesis
    using assms(1) n(1,2)
    unfolding h264_reconstruct_and_forward_one_nalu_def at rd
    by (cases rest) (simp_all add: off nb decoder_simps h264_nal_header_byte_of delivered_def)
qed

lemma getNALUHeaderH264_Cons [simp]:
  "getNALUHeaderH264 (b # p) = Inr (nalu_header_of b)"
  by (simp add: getNALUHeaderH264_def)

lemma unat_type: "unat (nh_type (nalu_header_of b)) = h264_nal_type b"
  by (simp add: nalu_header_of_def h264_nal_type_def)

lemma h264_type_cases:
  "0 < nh_type (nalu_header_of b) \<longleftrightarrow> 0 < h264_nal_type b"
  "nh_type (nalu_header_of b) < 24 \<longleftrightarrow> h264_nal_type b < 24"
  "nh_type (nalu_header_of b) = 24 \<longleftrightarrow> h264_nal_type b = 24"
  "nh_type (nalu_header_of b) = 28 \<longleftrightarrow> h264_nal_type b = 28"
  by (simp_all add: word_less_nat_alt word_unat_eq_iff unat_type)

lemma dispatch_single:
  assumes "h264_unit_ok (Single n)" and "m_cb d"
  shows "h264_dispatch now n d = Inr (delivered now n d)"
proof -
  obtain b rest where n: "n = b # rest" using assms(1) by (cases n) auto
  have "h264_reconstruct_and_forward_one_nalu now n 0 (length n) d = Inr (delivered now n d)"
    using h264_reconstruct_delivers [of d n 0 "[]" "length n" now "[]"] assms by simp
  then show ?thesis
    using assms(1) by (simp add: n h264_dispatch_def h264_type_cases)
qed

lemma dispatch_stap_a:
  assumes "h264_nal_type hdr = 24" and "0 < length p"
  shows "h264_dispatch now (hdr # p) d = h264_aggregated now (hdr # p) 0 d"
  using assms by (simp add: h264_dispatch_def h264_type_cases)

text \<open>The aggregation loop delivers what it finds, from any offset that is the end of a
  previous NALU.\<close>

abbreviation stap_entry :: "bytes \<Rightarrow> bytes" where
  "stap_entry n \<equiv> be16_bytes (length n) @ n"

lemma h264_aggregated_delivers:
  assumes "ns \<noteq> []" and "list_all (\<lambda>n. 2 \<le> length n \<and> length n < 65536) ns" and "m_cb d"
    and "length pre = Suc offset"
  shows "h264_aggregated now (pre @ concat (map stap_entry ns)) offset d =
           Inr (delivered_all now ns d)"
  using assms
proof (induction ns arbitrary: offset pre d)
  case Nil
  then show ?case by simp
next
  case (Cons n ns)
  let ?p = "pre @ concat (map stap_entry (n # ns))"
  let ?post = "concat (map stap_entry ns)"
  have n: "2 \<le> length n" "length n < 65536" using Cons.prems by simp_all
  have rd: "read_be16 ?p (offset + 1) = Inr (length n)"
    using read_be16_mid [of "offset + 1" pre "length n" "n @ ?post"] n Cons.prems(4) by simp
  have "h264_reconstruct_and_forward_one_nalu now ((pre @ be16_bytes (length n)) @ n @ ?post)
          (offset + 3) (length n) d = Inr (delivered now n d)"
    using n Cons.prems(3,4) by (intro h264_reconstruct_delivers) (simp_all add: NALU_MAXLEN_def)
  then have one: "h264_reconstruct_and_forward_one_nalu now ?p (offset + 3) (length n) d =
      Inr (delivered now n d)" by simp
  have step: "h264_aggregated now ?p offset d =
      (if \<not> (length ?p > offset + 2 + length n + 3) then Inr (delivered now n d)
       else h264_aggregated now ?p (offset + 2 + length n) (delivered now n d))"
    by (subst h264_aggregated.simps) (simp only: rd one sum.case)
  show ?case
  proof (cases ns)
    case Nil
    then have "\<not> (length ?p > offset + 2 + length n + 3)"
      using Cons.prems(4) by simp
    then show ?thesis unfolding step by (simp add: Nil)
  next
    case (Cons n' ns')
    have "h264_aggregated now ((pre @ stap_entry n) @ ?post) (offset + 2 + length n)
        (delivered now n d) = Inr (delivered_all now ns (delivered now n d))"
      using Cons.prems Cons by (intro Cons.IH) simp_all
    moreover have "length ?p > offset + 2 + length n + 3"
      using Cons Cons.prems(2,4) by auto
    ultimately show ?thesis unfolding step by simp
  qed
qed

section \<open>Fragments\<close>

abbreviation fu_payload_of :: "bool \<Rightarrow> bool \<Rightarrow> u8 \<Rightarrow> bytes \<Rightarrow> bytes" where
  "fu_payload_of s e b c \<equiv> fu_indicator b # fu_header_byte s e b # c"

lemma fu_accessors:
  "getFuHeader (fu_payload_of s e b c) = Inr (fu_header_of (fu_header_byte s e b))"
  "getFuPayload (fu_payload_of s e b c) = Inr c"
  by (simp_all add: getFuHeader_def getFuPayload_def fu_indicator_header read_at_def
      read_slice_def slice_def)

lemma dispatch_fu: "h264_dispatch now (fu_payload_of s e b c) d = h264_fu now (fu_payload_of s e b c) d"
  by (simp add: h264_dispatch_def fu_indicator_header)

lemma fu_header_byte_of_indicator:
  "h264_nal_header_byte (fu_type (fu_header_of (fu_header_byte s e b)))
     (nalu_header_of (fu_indicator b)) = b"
  using h264_nal_header_byte_of [of b]
  by (simp add: fu_header_byte_fields fu_indicator_header h264_nal_header_byte_def)

lemma dispatch_fu_start:
  assumes "length c + 5 < NALU_MAXLEN"
  shows "h264_dispatch now (fu_payload_of True False b c) d =
     Inr (d\<lparr>timePointStartOfReceivingNALU := now, m_total_n_fragments_for_current_fu := 0,
            flagPacketHasGoneMissing := False, m_curr_nalu := start_code @ b # c\<rparr>)"
  using assms unfolding dispatch_fu h264_fu_def fu_accessors
  by (simp add: fu_header_byte_fields(2,3) fu_header_byte_of_indicator decoder_simps)

lemma dispatch_fu_middle:
  assumes "m_nalu_data_length d + length c < NALU_MAXLEN"
  shows "h264_dispatch now (fu_payload_of False False b c) d =
     Inr (d\<lparr>m_curr_nalu := m_curr_nalu d @ c,
            m_total_n_fragments_for_current_fu := m_total_n_fragments_for_current_fu d + 1\<rparr>)"
  using assms unfolding dispatch_fu h264_fu_def fu_accessors
  by (simp add: fu_header_byte_fields(2,3) decoder_simps)

lemma dispatch_fu_end:
  assumes "m_nalu_data_length d + length c < NALU_MAXLEN"
  shows "h264_dispatch now (fu_payload_of False True b c) d =
     Inr ((if flagPacketHasGoneMissing d then d else forwardNALU (d\<lparr>m_curr_nalu := m_curr_nalu d @ c\<rparr>))
       \<lparr>m_total_n_fragments_for_current_fu := 0, m_curr_nalu := []\<rparr>)"
  using assms unfolding dispatch_fu h264_fu_def fu_accessors
  by (simp add: fu_header_byte_fields(2,3) decoder_simps)

text \<open>The decoder keeps the contract of fragment handling.\<close>

interpretation h264f: fragment_parser parseRTPH264toNALU
  "fu_payload_of True False" "fu_payload_of False False" "fu_payload_of False True" "\<lambda>b. [b]"
proof (unfold_locales, goal_cases)
  case 1
  then show ?case by simp
next
  case (2 pkt seq b c d t)
  let ?a = "accepted (seq mod 65536) d"
  have "parseRTPH264toNALU t pkt d = h264_dispatch t (fu_payload_of True False b c) ?a"
    using parse_h264_in_order [OF 2(1) 2(3)] 2(2) by simp
  also have "\<dots> = Inr (?a\<lparr>timePointStartOfReceivingNALU := t,
      m_total_n_fragments_for_current_fu := 0, flagPacketHasGoneMissing := False,
      m_curr_nalu := start_code @ b # c\<rparr>)"
    using 2(5) by (intro dispatch_fu_start) simp
  finally show ?case
    using 2(4) expects_accepted [of seq d] by (simp add: assembling_def expects_def)
next
  case (3 pkt seq b c d now buf d0 t)
  let ?a = "accepted (seq mod 65536) d"
  have buf: "m_curr_nalu ?a = buf" using 3(4) by (simp add: assembling_def)
  have "parseRTPH264toNALU t pkt d = h264_dispatch t (fu_payload_of False False b c) ?a"
    using parse_h264_in_order [OF 3(1) 3(3)] 3(2) by simp
  also have "\<dots> = Inr (?a\<lparr>m_curr_nalu := buf @ c,
      m_total_n_fragments_for_current_fu := m_total_n_fragments_for_current_fu ?a + 1\<rparr>)"
    using 3(5) buf by (subst dispatch_fu_middle) simp_all
  finally show ?case
    using 3(4) expects_accepted [of seq d] by (auto simp: assembling_def expects_def)
next
  case (4 pkt seq b c d now b' x d0 t)
  let ?a = "accepted (seq mod 65536) d"
  have a: "m_curr_nalu ?a = start_code @ b' # x" "m_cb ?a" "\<not> flagPacketHasGoneMissing ?a"
      "timePointStartOfReceivingNALU ?a = now" "forwarded ?a = forwarded d0"
      "m_n_gaps ?a = m_n_gaps d0"
    using 4(4) by (simp_all add: assembling_def)
  have "parseRTPH264toNALU t pkt d = h264_dispatch t (fu_payload_of False True b c) ?a"
    using parse_h264_in_order [OF 4(1) 4(3)] 4(2) by simp
  also have "\<dots> = Inr (?a\<lparr>forwarded := forwarded d0 @ [(now, start_code @ b' # x @ c)],
      m_total_n_fragments_for_current_fu := 0, m_curr_nalu := []\<rparr>)"
    using 4(5) a by (subst dispatch_fu_end) (simp_all add: decoder_simps)
  finally show ?case
    using a expects_accepted [of seq d] by (simp add: between_units_def expects_def)
qed

section \<open>Whole streams\<close>

lemma h264_unit:
  assumes "rtp_sent seq (h264_unit_payloads u) pkts" and "h264_unit_ok u" and "between_units seq d"
  shows "\<exists>d'. parse_stream parseRTPH264toNALU pkts d = Inr d' \<and>
           unit_received pkts (h264_unit_nalus u) d d' \<and>
           between_units (seq + length (h264_unit_payloads u)) d'"
proof (cases u)
  case (Single n)
  have "parseRTPH264toNALU t pkt d = Inr (delivered_all t [n] (accepted (seq mod 65536) d))"
    if "rtp_hdr_ok (take 12 pkt) (seq mod 65536)" "drop 12 pkt = n" for t pkt
    using that assms(2,3) by (simp add: Single parse_h264_in_order dispatch_single between_units_def)
  then show ?thesis
    using one_packet_unit [of seq n pkts d parseRTPH264toNALU "[n]"] assms by (simp add: Single)
next
  case (Stap_A hdr ns)
  let ?p = "concat (map stap_entry ns)"
  have ns: "ns \<noteq> []" "h264_nal_type hdr = 24"
    "list_all (\<lambda>n. 2 \<le> length n \<and> length n < 65536) ns"
    using assms(2) by (simp_all add: Stap_A)
  then have p: "0 < length ?p" by (cases ns) simp_all
  then have len: "2 \<le> length (hdr # ?p)" by (cases ?p) simp_all
  have "parseRTPH264toNALU t pkt d = Inr (delivered_all t ns (accepted (seq mod 65536) d))"
    if "rtp_hdr_ok (take 12 pkt) (seq mod 65536)" "drop 12 pkt = hdr # ?p" for t pkt
    using parse_h264_in_order [OF that(1), of d t] that(2) len assms(3)
      dispatch_stap_a [OF ns(2) p] h264_aggregated_delivers [OF ns(1,3), of _ "[hdr]" 0]
    by (simp add: between_units_def)
  then show ?thesis
    using one_packet_unit [of seq "hdr # ?p" pkts d parseRTPH264toNALU ns] assms
    by (simp add: Stap_A)
next
  case (Fu_A b c0 cs ce)
  then show ?thesis
    using h264f.fragmented_unit [of seq b c0 cs ce pkts d] assms by (simp add: comp_def)
qed

interpretation h264s: unit_parser parseRTPH264toNALU h264_unit_payloads h264_unit_nalus h264_unit_ok
proof unfold_locales
  show "h264_unit_payloads u \<noteq> []" for u by (cases u) simp_all
qed (rule h264_unit)

text \<open>C1. Any sequence of H.264 NALUs, each sent alone in a packet, together with others in an
  aggregation packet or cut into any number of fragments of any size, comes out of the decoder
  complete, in the order sent, behind the start code 0,0,0,1 and stamped with the time its first
  packet arrived; no gap is counted and nothing is left in the buffer. The sequence numbers may
  start anywhere and wrap around at 65536.\<close>

theorem h264_stream_roundtrip:
  assumes "rtp_sent seq (concat (map h264_unit_payloads us)) pkts"
    and "list_all h264_unit_ok us" and "between_units seq d"
  shows "\<exists>d'. parse_stream_h264 pkts d = Inr d' \<and>
           forwarded d' = forwarded d @ expected_frames h264_unit_payloads h264_unit_nalus us pkts \<and>
           m_n_gaps d' = m_n_gaps d \<and> m_curr_nalu d' = []"
  using h264s.stream_delivered [OF assms] by (auto simp: between_units_def parse_stream_h264_def)

text \<open>Three units in four packets, the sequence number wrapping around on the way.\<close>

definition demo_packets :: "(int \<times> bytes) list" where
  "demo_packets = [
     (10, hdr_seq 255 254 @ [0x67, 1, 2]),
     (11, hdr_seq 255 255 @ [0x7C, 0x85, 7, 8]),
     (12, hdr_seq 0 0 @ [0x7C, 0x45, 9]),
     (13, hdr_seq 0 1 @ [0x78, 0, 2, 0x68, 5, 0, 3, 0x41, 6, 7])]"

definition demo_units :: "h264_unit list" where
  "demo_units = [Single [0x67, 1, 2], Fu_A 0x65 [7, 8] [] [9],
     Stap_A 0x78 [[0x68, 5], [0x41, 6, 7]]]"

lemma demo_sent: "rtp_sent 65534 (concat (map h264_unit_payloads demo_units)) demo_packets"
  by (simp add: demo_units_def demo_packets_def rtp_hdr_ok_def be16_def be16_bytes_def
      fu_indicator_def fu_header_byte_def)

lemma demo_ok: "list_all h264_unit_ok demo_units"
  by (simp add: demo_units_def NALU_MAXLEN_def h264_nal_type_def bitfield_def
      mask_eq_exp_minus_1)

lemma demo_start: "between_units 65534 (rtp_decoder_new True False)"
  by (simp add: between_units_def expects_def rtp_decoder_new_def)

lemma demo_frames:
  "expected_frames h264_unit_payloads h264_unit_nalus demo_units demo_packets =
     [(10, start_code @ [0x67, 1, 2]), (11, start_code @ [0x65, 7, 8, 9]),
      (13, start_code @ [0x68, 5]), (13, start_code @ [0x41, 6, 7])]"
  by (simp add: demo_units_def demo_packets_def)

theorem h264_stream_roundtrip_witness:
  "\<exists>d'. parse_stream_h264 demo_packets (rtp_decoder_new True False) = Inr d' \<and>
     forwarded d' = [(10, start_code @ [0x67, 1, 2]), (11, start_code @ [0x65, 7, 8, 9]),
       (13, start_code @ [0x68, 5]), (13, start_code @ [0x41, 6, 7])]"
  using h264_stream_roundtrip [OF demo_sent demo_ok demo_start]
  by (auto simp: demo_frames rtp_decoder_new_def)

end
