(* ===== verification/Rtp_Loss.thy ===== *)
theory Rtp_Loss
  imports Rtp_H264
begin

text \<open>
  Lost packets: what the H.264 parser of \<open>app/videostreaming/vscommon/rtp/ParseRTP.cpp\<close> makes of a stream of which any packets are
  missing. The sender is that of \<open>Rtp_H264\<close>; a list of flags says which packets arrive.
\<close>

section \<open>A stream with losses\<close>

fun kept :: "bool list \<Rightarrow> 'a list \<Rightarrow> 'a list" where
  "kept (True # ks) (p # ps) = p # kept ks ps"
| "kept (False # ks) (p # ps) = kept ks ps"
| "kept _ _ = []"

text \<open>\<open>m\<close> packets have been lost since the last one that arrived. With 65535 of them the sequence number would repeat.\<close>

fun gaps_ok :: "nat \<Rightarrow> bool list \<Rightarrow> bool" where
  "gaps_ok m [] \<longleftrightarrow> m < 65535"
| "gaps_ok m (True # ks) \<longleftrightarrow> m < 65535 \<and> gaps_ok 0 ks"
| "gaps_ok m (False # ks) \<longleftrightarrow> gaps_ok (Suc m) ks"

fun gap_after :: "nat \<Rightarrow> bool list \<Rightarrow> nat" where
  "gap_after m [] = m"
| "gap_after m (True # ks) = gap_after 0 ks"
| "gap_after m (False # ks) = gap_after (Suc m) ks"

text \<open>A fragment without payload makes no sense; RFC 6184 forbids it.\<close>

fun fragments_filled :: "h264_unit \<Rightarrow> bool" where
  "fragments_filled (Fu_A b c0 cs ce) \<longleftrightarrow> [] \<notin> set cs \<and> ce \<noteq> []"
| "fragments_filled _ \<longleftrightarrow> True"

text \<open>What must come out: the NALUs of the units of which all packets arrived, with the time of the first one.\<close>

fun complete_frames :: "h264_unit list \<Rightarrow> bool list \<Rightarrow> (int \<times> bytes) list \<Rightarrow> (int \<times> bytes) list" where
  "complete_frames [] ks pkts = []"
| "complete_frames (u # us) ks pkts =
     (let n = length (h264_unit_payloads u) in
      (if list_all id (take n ks) then map (\<lambda>nal. (fst (hd pkts), start_code @ nal)) (h264_unit_nalus u) else [])
      @ complete_frames us (drop n ks) (drop n pkts))"

lemma kept_append:
  "length ks = length ps \<Longrightarrow> kept (ks @ ks') (ps @ ps') = kept ks ps @ kept ks' ps'"
proof (induction ks arbitrary: ps)
  case (Cons k ks)
  then show ?case by (cases ps; cases k) auto
qed simp

lemma gaps_append: "gaps_ok m (ks @ ks') \<Longrightarrow> gaps_ok (gap_after m ks) ks'"
  by (induction m ks rule: gap_after.induct) auto

lemma gaps_bound: "gaps_ok m ks \<Longrightarrow> m < 65535"
  by (induction m ks rule: gap_after.induct) auto

section \<open>One packet\<close>

definition lossy :: "nat \<Rightarrow> nat \<Rightarrow> rtp_decoder \<Rightarrow> bool" where
  "lossy seq m d \<longleftrightarrow>
     m_cb d \<and> \<not> m_feed_incomplete_frames d \<and> 0 \<le> lastSequenceNumber d \<and> lastSequenceNumber d < 65536
     \<and> (lastSequenceNumber d + 1 + int m) mod 65536 = int (seq mod 65536)"

lemma lossy_upd [simp]:
  "lossy seq m (d\<lparr>m_curr_nalu := b\<rparr>) = lossy seq m d" "lossy seq m (d\<lparr>timePointStartOfReceivingNALU := t\<rparr>) = lossy seq m d"
  "lossy seq m (d\<lparr>forwarded := f\<rparr>) = lossy seq m d" "lossy seq m (d\<lparr>flagPacketHasGoneMissing := g\<rparr>) = lossy seq m d"
  "lossy seq m (d\<lparr>m_total_n_fragments_for_current_fu := n\<rparr>) = lossy seq m d"
  by (simp_all add: lossy_def)

lemma lossy_lost: "lossy seq m d \<Longrightarrow> lossy (Suc seq) (Suc m) d"
proof -
  assume "lossy seq m d"
  moreover have "(lastSequenceNumber d + 1 + int (Suc m)) mod 65536 = ((lastSequenceNumber d + 1 + int m) mod 65536 + 1) mod 65536"
    by (simp add: mod_simps ac_simps)
  moreover have "(int (seq mod 65536) + 1) mod 65536 = int (Suc seq mod 65536)"
    by (simp add: zmod_int mod_simps ac_simps)
  ultimately show ?thesis by (simp add: lossy_def)
qed

lemma mod_wrap: "x mod 65536 = (if x < 65536 then x else x - 65536)" if "0 \<le> x" "x < 131072" for x :: int
proof (cases "x < 65536")
  case False
  then show ?thesis
    using that minus_mod_self2 [of x 65536] mod_pos_pos_trivial [of "x - 65536" 65536] by simp
qed (use that in simp)

lemma validate_lossy:
  assumes "lossy seq m d" and "m < 65535" and "getSequence h = seq mod 65536"
  shows "\<exists>d1. validateRTPPacket h d = (d1, True) \<and> lossy (Suc seq) 0 d1 \<and> m_curr_nalu d1 = m_curr_nalu d
    \<and> forwarded d1 = forwarded d \<and> timePointStartOfReceivingNALU d1 = timePointStartOfReceivingNALU d
    \<and> (flagPacketHasGoneMissing d1 \<longleftrightarrow> flagPacketHasGoneMissing d \<or> 0 < m)"
proof -
  let ?l = "lastSequenceNumber d" and ?s = "int (seq mod 65536)"
  have l: "0 \<le> ?l" "?l < 65536" "m_cb d" "\<not> m_feed_incomplete_frames d" and s: "(?l + 1 + int m) mod 65536 = ?s"
    using assms(1) by (simp_all add: lossy_def)
  have s': "?s = (if ?l + 1 + int m < 65536 then ?l + 1 + int m else ?l + 1 + int m - 65536)"
    unfolding s [symmetric] using l assms(2) by (intro mod_wrap) simp_all
  have ne: "?s \<noteq> ?l" unfolding s' using assms(2) l by (cases "?l + 1 + int m < 65536") simp_all
  have l1: "(?l + 1) mod 65536 = (if ?l + 1 < 65536 then ?l + 1 else ?l + 1 - 65536)"
    using l by (intro mod_wrap) simp_all
  have next_: "?s \<noteq> (?l + 1) mod 65536 \<longleftrightarrow> 0 < m"
    unfolding s' l1 using assms(2) l by (cases "?l + 1 + int m < 65536"; cases "?l + 1 < 65536") simp_all
  have "(?s + 1) mod 65536 = int (Suc seq mod 65536)"
    by (simp add: zmod_int mod_simps ac_simps)
  then show ?thesis
    using assms(3) l ne next_
    by (auto simp: validateRTPPacket_def Let_def lossy_def)
qed

lemma parse_lossy:
  assumes "lossy seq m d" and "m < 65535" and "rtp_hdr_ok (take 12 pkt) (seq mod 65536)" and "2 \<le> length (drop 12 pkt)"
  shows "\<exists>d1. parseRTPH264toNALU now pkt d = h264_dispatch now (drop 12 pkt) d1 \<and> lossy (Suc seq) 0 d1
    \<and> m_curr_nalu d1 = m_curr_nalu d \<and> forwarded d1 = forwarded d
    \<and> timePointStartOfReceivingNALU d1 = timePointStartOfReceivingNALU d
    \<and> (flagPacketHasGoneMissing d1 \<longleftrightarrow> flagPacketHasGoneMissing d \<or> 0 < m)"
proof -
  note pkt = RTPPacket_ok [OF assms(3)]
  have "\<not> length pkt \<le> 12 + 1" using assms(4) pkt(2) by simp
  then show ?thesis
    using pkt(1) validate_lossy [OF assms(1,2) pkt(3)]
    by (auto simp: parseRTPH264toNALU_def)
qed

text \<open>A middle fragment changes nothing but the buffer, a last one empties it and, with the flag set, forwards nothing, however
  full the buffer is.\<close>

lemma append_filled: "c \<noteq> [] \<Longrightarrow> \<exists>buf. append_nalu_data c d = Inr (d\<lparr>m_curr_nalu := buf\<rparr>)"
  by (cases c; cases "m_nalu_data_length d + length c > NALU_MAXLEN")
    (auto simp: append_nalu_data_def intro: exI [of _ "m_curr_nalu d"])

lemma middle_any:
  assumes "c \<noteq> []"
  shows "\<exists>buf. h264_dispatch now (fu_payload_of False False b c) d =
    Inr (d\<lparr>m_curr_nalu := buf, m_total_n_fragments_for_current_fu := m_total_n_fragments_for_current_fu d + 1\<rparr>)"
  using append_filled [OF assms, of d] unfolding dispatch_fu h264_fu_def fu_accessors
  by (auto simp: fu_header_byte_fields(2,3))

lemma end_flagged:
  assumes "c \<noteq> []" and "flagPacketHasGoneMissing d"
  shows "h264_dispatch now (fu_payload_of False True b c) d =
    Inr (d\<lparr>m_total_n_fragments_for_current_fu := 0, m_curr_nalu := []\<rparr>)"
  using append_filled [OF assms(1), of d] assms(2) unfolding dispatch_fu h264_fu_def fu_accessors
  by (auto simp: fu_header_byte_fields(2,3))

section \<open>One unit\<close>

text \<open>Between units the buffer is empty unless packets have just been lost.\<close>

definition at_unit :: "nat \<Rightarrow> nat \<Rightarrow> rtp_decoder \<Rightarrow> bool" where
  "at_unit seq m d \<longleftrightarrow> lossy seq m d \<and> (m = 0 \<longrightarrow> m_curr_nalu d = [])"

text \<open>\<open>passes ks pkts d d'\<close>: the decoder takes what arrives of \<open>pkts\<close>.\<close>

abbreviation passes :: "bool list \<Rightarrow> (int \<times> bytes) list \<Rightarrow> rtp_decoder \<Rightarrow> rtp_decoder \<Rightarrow> bool" where
  "passes ks pkts d d' \<equiv> parse_stream parseRTPH264toNALU (kept ks pkts) d = Inr d'"

text \<open>Once a fragment is missing, the rest of the unit produces nothing.\<close>

lemma rest_broken:
  assumes "rtp_sent seq (map (fu_payload_of False False b) cs @ [fu_payload_of False True b ce]) pkts"
    and "length ks = Suc (length cs)" and "gaps_ok m ks" and "lossy seq m d" and "0 < m \<or> flagPacketHasGoneMissing d"
    and "[] \<notin> set cs" "ce \<noteq> []"
  shows "\<exists>d'. passes ks pkts d d' \<and> at_unit (seq + length ks) (gap_after m ks) d' \<and> forwarded d' = forwarded d"
  using assms
proof (induction cs arbitrary: seq pkts ks m d)
  case Nil
  then obtain k where k: "ks = [k]" by (cases ks) auto
  from Nil.prems(1) obtain t pkt where pkts: "pkts = [(t, pkt)]"
    and pkt: "rtp_hdr_ok (take 12 pkt) (seq mod 65536)" "drop 12 pkt = fu_payload_of False True b ce"
    by (auto simp: rtp_sent_Cons)
  show ?case
  proof (cases k)
    case True
    have "m < 65535" using gaps_bound [OF Nil.prems(3)] .
    from parse_lossy [OF Nil.prems(4) this pkt(1), of t] pkt(2) Nil.prems(5) obtain d1
      where d1: "parseRTPH264toNALU t pkt d = h264_dispatch t (fu_payload_of False True b ce) d1" "lossy (Suc seq) 0 d1"
        "forwarded d1 = forwarded d" "flagPacketHasGoneMissing d1" by auto
    with end_flagged [OF Nil.prems(7) d1(4), of t b] True show ?thesis
      by (simp add: k pkts at_unit_def)
  next
    case False
    with lossy_lost [OF Nil.prems(4)] show ?thesis by (simp add: k pkts at_unit_def)
  qed
next
  case (Cons c cs)
  from Cons.prems(2) obtain k ks' where k: "ks = k # ks'" "length ks' = Suc (length cs)" by (cases ks) auto
  from Cons.prems(1) obtain t pkt rest where pkts: "pkts = (t, pkt) # rest"
    and pkt: "rtp_hdr_ok (take 12 pkt) (seq mod 65536)" "drop 12 pkt = fu_payload_of False False b c"
    and rest: "rtp_sent (Suc seq) (map (fu_payload_of False False b) cs @ [fu_payload_of False True b ce]) rest"
    by (auto simp: rtp_sent_Cons)
  show ?case
  proof (cases k)
    case True
    have "m < 65535" using gaps_bound [OF Cons.prems(3)] .
    from parse_lossy [OF Cons.prems(4) this pkt(1), of t] pkt(2) Cons.prems(5) obtain d1
      where d1: "parseRTPH264toNALU t pkt d = h264_dispatch t (fu_payload_of False False b c) d1" "lossy (Suc seq) 0 d1"
        "forwarded d1 = forwarded d" "flagPacketHasGoneMissing d1" by auto
    obtain buf where buf: "h264_dispatch t (fu_payload_of False False b c) d1 =
        Inr (d1\<lparr>m_curr_nalu := buf, m_total_n_fragments_for_current_fu := m_total_n_fragments_for_current_fu d1 + 1\<rparr>)"
      using middle_any [of c t b d1] Cons.prems(6) by auto
    let ?d2 = "d1\<lparr>m_curr_nalu := buf, m_total_n_fragments_for_current_fu := m_total_n_fragments_for_current_fu d1 + 1\<rparr>"
    have "lossy (Suc seq) 0 ?d2" using d1(2) by (simp add: lossy_def)
    with Cons.IH [OF rest k(2), of 0 ?d2] Cons.prems d1 buf True k(1)
    show ?thesis by (auto simp: pkts)
  next
    case False
    from Cons.IH [OF rest k(2), of "Suc m" d] lossy_lost [OF Cons.prems(4)] Cons.prems False k(1)
    show ?thesis by (auto simp: pkts)
  qed
qed

text \<open>As long as none is missing, the unit is assembled.\<close>

lemma rest_whole:
  assumes "rtp_sent seq (map (fu_payload_of False False b) cs @ [fu_payload_of False True b ce]) pkts"
    and "length ks = Suc (length cs)" and "gaps_ok 0 ks" and "lossy seq 0 d" and "\<not> flagPacketHasGoneMissing d"
    and "m_curr_nalu d = start_code @ b' # x" and "length (start_code @ b' # x @ concat cs @ ce) < NALU_MAXLEN"
    and "[] \<notin> set cs" "ce \<noteq> []"
  shows "\<exists>d'. passes ks pkts d d' \<and> at_unit (seq + length ks) (gap_after 0 ks) d' \<and>
    forwarded d' = forwarded d @
      (if list_all id ks then [(timePointStartOfReceivingNALU d, start_code @ b' # x @ concat cs @ ce)] else [])"
  using assms
proof (induction cs arbitrary: seq pkts ks d x)
  case Nil
  then obtain k where k: "ks = [k]" by (cases ks) auto
  from Nil.prems(1) obtain t pkt where pkts: "pkts = [(t, pkt)]"
    and pkt: "rtp_hdr_ok (take 12 pkt) (seq mod 65536)" "drop 12 pkt = fu_payload_of False True b ce"
    by (auto simp: rtp_sent_Cons)
  show ?case
  proof (cases k)
    case True
    from parse_lossy [OF Nil.prems(4) _ pkt(1), of t] pkt(2) Nil.prems(5,6) obtain d1
      where d1: "parseRTPH264toNALU t pkt d = h264_dispatch t (fu_payload_of False True b ce) d1" "lossy (Suc seq) 0 d1"
        "forwarded d1 = forwarded d" "\<not> flagPacketHasGoneMissing d1" "m_curr_nalu d1 = start_code @ b' # x"
        "timePointStartOfReceivingNALU d1 = timePointStartOfReceivingNALU d" by auto
    have "m_nalu_data_length d1 + length ce < NALU_MAXLEN" using Nil.prems(7) d1(5) by simp
    from dispatch_fu_end [OF this, of t b] d1 True show ?thesis
      by (auto simp: k pkts at_unit_def decoder_simps lossy_def)
  next
    case False
    with lossy_lost [OF Nil.prems(4)] show ?thesis by (simp add: k pkts at_unit_def)
  qed
next
  case (Cons c cs)
  from Cons.prems(2) obtain k ks' where k: "ks = k # ks'" "length ks' = Suc (length cs)" by (cases ks) auto
  from Cons.prems(1) obtain t pkt rest where pkts: "pkts = (t, pkt) # rest"
    and pkt: "rtp_hdr_ok (take 12 pkt) (seq mod 65536)" "drop 12 pkt = fu_payload_of False False b c"
    and rest: "rtp_sent (Suc seq) (map (fu_payload_of False False b) cs @ [fu_payload_of False True b ce]) rest"
    by (auto simp: rtp_sent_Cons)
  show ?case
  proof (cases k)
    case True
    from parse_lossy [OF Cons.prems(4) _ pkt(1), of t] pkt(2) Cons.prems(5,6) obtain d1
      where d1: "parseRTPH264toNALU t pkt d = h264_dispatch t (fu_payload_of False False b c) d1" "lossy (Suc seq) 0 d1"
        "forwarded d1 = forwarded d" "\<not> flagPacketHasGoneMissing d1" "m_curr_nalu d1 = start_code @ b' # x"
        "timePointStartOfReceivingNALU d1 = timePointStartOfReceivingNALU d" by auto
    let ?d2 = "d1\<lparr>m_curr_nalu := m_curr_nalu d1 @ c,
      m_total_n_fragments_for_current_fu := m_total_n_fragments_for_current_fu d1 + 1\<rparr>"
    have "m_nalu_data_length d1 + length c < NALU_MAXLEN" using Cons.prems(7) d1(5) by simp
    from dispatch_fu_middle [OF this, of t b]
    have one: "parseRTPH264toNALU t pkt d = Inr ?d2" using d1(1) by simp
    have ih: "\<exists>d'. passes ks' rest ?d2 d' \<and> at_unit (Suc seq + length ks') (gap_after 0 ks') d' \<and>
      forwarded d' = forwarded ?d2 @ (if list_all id ks'
        then [(timePointStartOfReceivingNALU ?d2, start_code @ b' # (x @ c) @ concat cs @ ce)] else [])"
    proof (rule Cons.IH [OF rest k(2)])
      show "gaps_ok 0 ks'" using Cons.prems(3) True k(1) by simp
      show "lossy (Suc seq) 0 ?d2" using d1(2) by (simp add: lossy_def)
    qed (use d1 Cons.prems in simp_all)
    show ?thesis
      using ih one True k(1) d1(3,6) by (cases "list_all id ks'") (simp_all add: pkts id_def)
  next
    case False
    from rest_broken [OF rest k(2), of "Suc 0" d] lossy_lost [OF Cons.prems(4)] Cons.prems False k(1)
    show ?thesis by (auto simp: pkts)
  qed
qed

lemma lossy_delivered: "lossy seq m (delivered_all t ns d) = lossy seq m d"
  by (induction ns arbitrary: d) (simp_all add: delivered_def)

lemma delivered_all_empty: "ns \<noteq> [] \<Longrightarrow> m_curr_nalu (delivered_all t ns d) = []"
  by (induction ns arbitrary: d) (simp, case_tac ns, simp_all)

text \<open>A unit of one packet arrives or does not.\<close>

lemma one_packet_lossy:
  assumes "rtp_sent seq [p] pkts" and "length ks = 1" and "gaps_ok m ks" and "at_unit seq m d" and "2 \<le> length p"
    and deliver: "\<And>t d1. m_cb d1 \<Longrightarrow> h264_dispatch t p d1 = Inr (delivered_all t ns d1)" and "ns \<noteq> []"
  shows "\<exists>d'. passes ks pkts d d' \<and> at_unit (seq + length ks) (gap_after m ks) d' \<and> forwarded d' = forwarded d @
    (if list_all id ks then map (\<lambda>nal. (fst (hd pkts), start_code @ nal)) ns else [])"
proof -
  obtain k where k: "ks = [k]" using assms(2) by (cases ks) auto
  obtain t pkt where pkts: "pkts = [(t, pkt)]" and pkt: "rtp_hdr_ok (take 12 pkt) (seq mod 65536)" "drop 12 pkt = p"
    using assms(1) by (auto simp: rtp_sent_Cons)
  have d: "lossy seq m d" using assms(4) by (simp add: at_unit_def)
  show ?thesis
  proof (cases k)
    case True
    have "m < 65535" using gaps_bound [OF assms(3)] .
    from parse_lossy [OF d this pkt(1), of t] pkt(2) assms(5) obtain d1
      where d1: "parseRTPH264toNALU t pkt d = h264_dispatch t p d1" "lossy (Suc seq) 0 d1" "forwarded d1 = forwarded d" by auto
    have "m_cb d1" using d1(2) by (simp add: lossy_def)
    then have "parseRTPH264toNALU t pkt d = Inr (delivered_all t ns d1)" using d1(1) deliver by simp
    then show ?thesis
      using d1(2,3) True assms(7) by (simp add: k pkts at_unit_def lossy_delivered delivered_all_empty)
  next
    case False
    with lossy_lost [OF d] show ?thesis by (simp add: k pkts at_unit_def)
  qed
qed

lemma fragmented_lossy:
  assumes "rtp_sent seq (h264_unit_payloads (Fu_A b c0 cs ce)) pkts" and "h264_unit_ok (Fu_A b c0 cs ce)"
    and "fragments_filled (Fu_A b c0 cs ce)" and "length ks = length (h264_unit_payloads (Fu_A b c0 cs ce))"
    and "gaps_ok m ks" and "lossy seq m d"
  shows "\<exists>d'. passes ks pkts d d' \<and> at_unit (seq + length ks) (gap_after m ks) d' \<and> forwarded d' = forwarded d @
    (if list_all id ks then [(fst (hd pkts), start_code @ b # c0 @ concat cs @ ce)] else [])"
proof -
  obtain k ks' where k: "ks = k # ks'" "length ks' = Suc (length cs)" using assms(4) by (cases ks) auto
  obtain t pkt rest where pkts: "pkts = (t, pkt) # rest"
    and pkt: "rtp_hdr_ok (take 12 pkt) (seq mod 65536)" "drop 12 pkt = fu_payload_of True False b c0"
    and rest: "rtp_sent (Suc seq) (map (fu_payload_of False False b) cs @ [fu_payload_of False True b ce]) rest"
    using assms(1) by (auto simp: rtp_sent_Cons)
  have len: "length (start_code @ b # c0 @ concat cs @ ce) < NALU_MAXLEN" using assms(2) by simp
  have cs: "[] \<notin> set cs" "ce \<noteq> []" using assms(3) by simp_all
  show ?thesis
  proof (cases k)
    case True
    have "m < 65535" using gaps_bound [OF assms(5)] .
    from parse_lossy [OF assms(6) this pkt(1), of t] pkt(2) obtain d1
      where d1: "parseRTPH264toNALU t pkt d = h264_dispatch t (fu_payload_of True False b c0) d1" "lossy (Suc seq) 0 d1"
        "forwarded d1 = forwarded d" by auto
    let ?d2 = "d1\<lparr>timePointStartOfReceivingNALU := t, m_total_n_fragments_for_current_fu := 0,
            flagPacketHasGoneMissing := False, m_curr_nalu := start_code @ b # c0\<rparr>"
    have one: "parseRTPH264toNALU t pkt d = Inr ?d2"
      using d1(1) dispatch_fu_start [of c0 t b d1] len by simp
    have "gaps_ok 0 ks'" "lossy (Suc seq) 0 ?d2" using assms(5) True k(1) d1(2) by simp_all
    from rest_whole [OF rest k(2) this, of b c0] len cs one True k(1) d1(3)
    show ?thesis by (cases "list_all id ks'") (simp_all add: pkts id_def)
  next
    case False
    have "gaps_ok (Suc m) ks'" using assms(5) False k(1) by simp
    from rest_broken [OF rest k(2) this lossy_lost [OF assms(6)] _ cs] False k(1)
    show ?thesis by (simp add: pkts)
  qed
qed

lemma lossy_unit:
  assumes "rtp_sent seq (h264_unit_payloads u) pkts" and "h264_unit_ok u" and "fragments_filled u"
    and "length ks = length (h264_unit_payloads u)" and "gaps_ok m ks" and "at_unit seq m d"
  shows "\<exists>d'. passes ks pkts d d' \<and> at_unit (seq + length ks) (gap_after m ks) d' \<and> forwarded d' = forwarded d @
    (if list_all id ks then map (\<lambda>nal. (fst (hd pkts), start_code @ nal)) (h264_unit_nalus u) else [])"
proof (cases u)
  case (Single n)
  have "h264_dispatch t n d1 = Inr (delivered_all t [n] d1)" if "m_cb d1" for t d1
    using dispatch_single [of n d1 t] assms(2) that by (simp add: Single)
  with one_packet_lossy [of seq n pkts ks m d "[n]"] assms show ?thesis
    by (cases "list_all id ks") (simp_all add: Single)
next
  case (Stap_A hdr ns)
  let ?p = "concat (map stap_entry ns)"
  have ns: "ns \<noteq> []" "h264_nal_type hdr = 24" "list_all (\<lambda>n. 2 \<le> length n \<and> length n < 65536) ns"
    using assms(2) by (simp_all add: Stap_A)
  then have p: "0 < length ?p" by (cases ns) simp_all
  then have len: "2 \<le> length (hdr # ?p)" by (cases ?p) simp_all
  have "h264_dispatch t (hdr # ?p) d1 = Inr (delivered_all t ns d1)" if "m_cb d1" for t d1
    using dispatch_stap_a [OF ns(2) p] h264_aggregated_delivers [OF ns(1,3) that, of "[hdr]" 0] by simp
  with one_packet_lossy [of seq "hdr # ?p" pkts ks m d ns] assms len ns(1) show ?thesis
    by (cases "list_all id ks") (simp_all add: Stap_A)
next
  case (Fu_A b c0 cs ce)
  have "lossy seq m d" using assms(6) by (simp add: at_unit_def)
  with fragmented_lossy [of seq b c0 cs ce pkts ks m d] assms show ?thesis
    by (cases "list_all id ks") (simp_all add: Fu_A)
qed

section \<open>Any loss\<close>

lemma gap_after_append: "gap_after m (ks @ ks') = gap_after (gap_after m ks) ks'"
  by (induction m ks rule: gap_after.induct) auto

lemma gaps_prefix: "gaps_ok m (ks @ ks') \<Longrightarrow> gaps_ok m ks"
  by (induction m ks rule: gap_after.induct) (auto dest: gaps_bound)

lemma stream_lossy:
  assumes "rtp_sent seq (concat (map h264_unit_payloads us)) pkts" and "list_all h264_unit_ok us"
    and "list_all fragments_filled us" and "length ks = length pkts" and "gaps_ok m ks" and "at_unit seq m d"
  shows "\<exists>d'. passes ks pkts d d' \<and> forwarded d' = forwarded d @ complete_frames us ks pkts"
  using assms
proof (induction us arbitrary: seq pkts ks m d)
  case Nil
  then show ?case by (cases pkts; cases ks) simp_all
next
  case (Cons u us)
  let ?n = "length (h264_unit_payloads u)"
  obtain as bs where pkts: "pkts = as @ bs" and as: "rtp_sent seq (h264_unit_payloads u) as"
    and bs: "rtp_sent (seq + ?n) (concat (map h264_unit_payloads us)) bs"
    using Cons.prems(1) by (auto elim: rtp_sent_append)
  have len: "length as = ?n" using rtp_sent_length [OF as] .
  obtain k1 k2 where ks: "ks = k1 @ k2" and k1: "length k1 = ?n" and k2: "length k2 = length bs"
    using Cons.prems(4) len by (intro that [of "take ?n ks" "drop ?n ks"]) (simp_all add: pkts)
  have g: "gaps_ok m k1" "gaps_ok (gap_after m k1) k2"
    using Cons.prems(5) gaps_prefix gaps_append unfolding ks by blast+
  have u: "h264_unit_ok u" "fragments_filled u" "list_all h264_unit_ok us" "list_all fragments_filled us"
    using Cons.prems(2,3) by simp_all
  from lossy_unit [OF as u(1,2) k1 g(1) Cons.prems(6)] obtain d1
    where d1: "passes k1 as d d1" "at_unit (seq + ?n) (gap_after m k1) d1"
      "forwarded d1 = forwarded d @
        (if list_all id k1 then map (\<lambda>nal. (fst (hd as), start_code @ nal)) (h264_unit_nalus u) else [])"
    unfolding k1 by auto
  from Cons.IH [OF bs u(3,4) k2 g(2) d1(2)] obtain d'
    where d': "passes k2 bs d1 d'" "forwarded d' = forwarded d1 @ complete_frames us k2 bs"
    by auto
  have "as \<noteq> []" using len by (cases u) auto
  then have "fst (hd pkts) = fst (hd as)" by (simp add: pkts)
  moreover have "take ?n ks = k1" "drop ?n ks = k2" "drop ?n pkts = bs" using k1 len by (simp_all add: ks pkts)
  moreover have "kept ks pkts = kept k1 as @ kept k2 bs" using k1 len by (simp add: ks pkts kept_append)
  ultimately show ?case using d1 d' by (intro exI [of _ d']) (simp add: rfold_append Let_def)
qed

text \<open>C10. Any packets of an H.264 stream may be lost, 65534 in a row at most. Out of the parser come exactly the NALUs of the
  units of which every packet arrived, complete, in the order sent and stamped with the time of their first packet; of a
  fragmented NALU that misses its first, a middle or its last fragment nothing is forwarded, and nothing of it gets into the
  NALUs that follow. The option to feed incomplete frames is off, no fragment is empty and the parser has received a packet
  before: a new one does not know what precedes its first packet, and then only the test for the start code in \<open>forwardNALU\<close>
  keeps the tail of a NALU from being forwarded.\<close>

theorem h264_incomplete_dropped:
  assumes "rtp_sent seq (concat (map h264_unit_payloads us)) pkts" and "list_all h264_unit_ok us"
    and "list_all fragments_filled us" and "length ks = length pkts" and "gaps_ok 0 ks"
    and "between_units seq d" and "\<not> m_feed_incomplete_frames d"
    and "0 \<le> lastSequenceNumber d" and "lastSequenceNumber d < 65536"
  shows "\<exists>d'. parse_stream_h264 (kept ks pkts) d = Inr d' \<and>
    forwarded d' = forwarded d @ complete_frames us ks pkts"
proof -
  have "at_unit seq 0 d"
    using assms(6-) by (auto simp: at_unit_def lossy_def between_units_def expects_def)
  from stream_lossy [OF assms(1-5) this] show ?thesis by (simp add: parse_stream_h264_def)
qed

text \<open>The last fragment of the second unit is lost: the SPS and the two NALUs of the aggregation packet come out.\<close>

theorem h264_incomplete_dropped_witness:
  "\<exists>d'. parse_stream_h264 (kept [True, True, False, True] demo_packets)
      ((rtp_decoder_new True False)\<lparr>lastSequenceNumber := 65533\<rparr>) = Inr d' \<and>
    forwarded d' = [(10, start_code @ [0x67, 1, 2]), (13, start_code @ [0x68, 5]), (13, start_code @ [0x41, 6, 7])]"
proof -
  let ?d = "(rtp_decoder_new True False)\<lparr>lastSequenceNumber := 65533\<rparr>"
  have "list_all fragments_filled demo_units" "length [True, True, False, True] = length demo_packets"
    "gaps_ok 0 [True, True, False, True]" "between_units 65534 ?d" "\<not> m_feed_incomplete_frames ?d"
    "0 \<le> lastSequenceNumber ?d" "lastSequenceNumber ?d < 65536"
    by (simp_all add: demo_units_def demo_packets_def between_units_def expects_def rtp_decoder_new_def)
  note h264_incomplete_dropped [OF demo_sent demo_ok this]
  moreover have "complete_frames demo_units [True, True, False, True] demo_packets =
      [(10, start_code @ [0x67, 1, 2]), (13, start_code @ [0x68, 5]), (13, start_code @ [0x41, 6, 7])]"
    by (simp add: demo_units_def demo_packets_def)
  ultimately show ?thesis by (simp add: rtp_decoder_new_def)
qed

end
