(* ===== verification/Rtp_H265.thy ===== *)
theory Rtp_H265
  imports Rtp_Streams
begin

text \<open>
  H.265 over RTP: the payload formats of RFC 7798 as a specification of the sender (without the
  DONL fields, which the code says never to be present), and the theorem that the decoder turns a
  stream of packets sent in order back into exactly the NALUs that were sent.
\<close>

section \<open>The sender\<close>

datatype h265_unit =
    Single265 bytes
  | Ap265 u8 u8 "bytes list"
  | Fu265 u8 u8 bytes "bytes list" bytes

definition h265_fu_indicator :: "u8 \<Rightarrow> u8" where
  "h265_fu_indicator b0 = (b0 AND 0x81) OR 0x62"

definition h265_fu_header_byte :: "bool \<Rightarrow> bool \<Rightarrow> u8 \<Rightarrow> u8" where
  "h265_fu_header_byte s e b0 =
     (if s then 0x80 else 0) OR (if e then 0x40 else 0) OR (drop_bit 1 b0 AND 0x3F)"

abbreviation fu265_payload :: "bool \<Rightarrow> bool \<Rightarrow> u8 \<times> u8 \<Rightarrow> bytes \<Rightarrow> bytes" where
  "fu265_payload s e h c \<equiv>
     h265_fu_indicator (fst h) # snd h # h265_fu_header_byte s e (fst h) # c"

abbreviation ap_entry :: "bytes \<Rightarrow> bytes" where
  "ap_entry n \<equiv> be16_bytes (length n) @ n"

fun h265_unit_payloads :: "h265_unit \<Rightarrow> bytes list" where
  "h265_unit_payloads (Single265 n) = [n]"
| "h265_unit_payloads (Ap265 b0 b1 ns) = [b0 # b1 # concat (map ap_entry ns)]"
| "h265_unit_payloads (Fu265 b0 b1 c0 cs ce) =
     fu265_payload True False (b0, b1) c0 # map (fu265_payload False False (b0, b1)) cs @
     [fu265_payload False True (b0, b1) ce]"

fun h265_unit_nalus :: "h265_unit \<Rightarrow> bytes list" where
  "h265_unit_nalus (Single265 n) = [n]"
| "h265_unit_nalus (Ap265 b0 b1 ns) = ns"
| "h265_unit_nalus (Fu265 b0 b1 c0 cs ce) = [b0 # b1 # c0 @ concat cs @ ce]"

definition h265_nal_type :: "u8 \<Rightarrow> nat" where
  "h265_nal_type b0 = unat (bitfield b0 1 6)"

fun h265_unit_ok :: "h265_unit \<Rightarrow> bool" where
  "h265_unit_ok (Single265 n) \<longleftrightarrow> 3 \<le> length n \<and> length n + 4 < NALU_MAXLEN \<and>
     h265_nal_type (hd n) < 48"
| "h265_unit_ok (Ap265 b0 b1 ns) \<longleftrightarrow> ns \<noteq> [] \<and> h265_nal_type b0 = 48 \<and>
     list_all (\<lambda>n. 1 \<le> length n \<and> length n < 65536) ns"
| "h265_unit_ok (Fu265 b0 b1 c0 cs ce) \<longleftrightarrow>
     length (c0 @ concat cs @ ce) + 6 < NALU_MAXLEN"

section \<open>Header octets\<close>

lemma unat_h265_type: "unat (h265_type (nal_unit_header_h265_of b0 b1)) = h265_nal_type b0"
  by (simp add: nal_unit_header_h265_of_def h265_nal_type_def)

lemma h265_type_cases:
  "50 < h265_type (nal_unit_header_h265_of b0 b1) \<longleftrightarrow> 50 < h265_nal_type b0"
  "h265_type (nal_unit_header_h265_of b0 b1) = 48 \<longleftrightarrow> h265_nal_type b0 = 48"
  "h265_type (nal_unit_header_h265_of b0 b1) = 49 \<longleftrightarrow> h265_nal_type b0 = 49"
  by (simp_all add: word_less_nat_alt word_unat_eq_iff unat_h265_type)

lemma h265_fu_indicator_type: "h265_nal_type (h265_fu_indicator b0) = 49"
proof -
  have "bitfield (h265_fu_indicator b0) 1 6 = 49"
    by (rule u8_eqI) (simp_all add: h265_fu_indicator_def u8_bits)
  then show ?thesis by (simp add: h265_nal_type_def)
qed

lemma h265_fu_header_byte_fields:
  "fu_e265 (fu_header_h265_of (h265_fu_header_byte s e b0)) = of_bool e"
  "fu_s265 (fu_header_h265_of (h265_fu_header_byte s e b0)) = of_bool s"
  unfolding fu_header_h265_of_def fu_header_h265.simps
  by (rule u8_eqI; simp add: h265_fu_header_byte_def u8_bits bit_drop_bit_eq)+

text \<open>The manipulation of the header octet in the source restores it.\<close>

lemma h265_header_restored:
  "push_bit 1 (FU_NAL (h265_fu_header_byte s e b0)) OR (h265_fu_indicator b0 AND 0x81) = b0"
  unfolding h265_fu_header_byte_def h265_fu_indicator_def FU_NAL_def
  by (rule u8_eqI; unfold u8_bits bit_drop_bit_eq; simp add: bit_drop_bit_eq u8_bits eval_nat_numeral)

section \<open>One payload at a time\<close>

lemma parse_h265_in_order:
  assumes "rtp_hdr_ok (take 12 pkt) (seq mod 65536)" and "expects seq d"
    and "3 \<le> length (drop 12 pkt)"
  shows "parseRTPH265toNALU now pkt d = h265_dispatch now pkt (drop 12 pkt) (accepted (seq mod 65536) d)"
proof -
  note pkt = RTPPacket_ok [OF assms(1)]
  have "\<not> length pkt \<le> 12 + 2" using assms(3) pkt(2) by simp
  then show ?thesis
    using pkt(1) validate_in_order [OF assms(2) pkt(3)]
    by (simp add: parseRTPH265toNALU_def)
qed

lemma h265_forward_delivers:
  assumes "m_cb d" and n: "1 \<le> length n" "length n + 4 < NALU_MAXLEN"
    and off: "off = length pre" "sz = length n"
  shows "h265_forward_one_nalu now (pre @ n @ post) off sz True d = Inr (delivered now n d)"
proof -
  have rd: "read_slice (pre @ n @ post) off sz = Inr n"
    using off by (intro read_slice_mid)
  obtain b rest where nb: "n = b # rest" using n by (cases n) auto
  show ?thesis
    using assms(1) n(1,2) unfolding h265_forward_one_nalu_def rd
    by (simp add: nb decoder_simps delivered_def)
qed

lemma getNALUHeaderH265_Cons [simp]:
  "getNALUHeaderH265 (b0 # b1 # p) = Inr (nal_unit_header_h265_of b0 b1)"
  by (simp add: getNALUHeaderH265_def)

lemma dispatch_single265:
  assumes "h265_unit_ok (Single265 n)" and "m_cb d"
  shows "h265_dispatch now pkt n d = Inr (delivered now n d)"
proof -
  obtain b0 b1 rest where n: "n = b0 # b1 # rest"
    using assms(1) by (cases n; cases "tl n") auto
  have "h265_forward_one_nalu now n 0 (length n) True d = Inr (delivered now n d)"
    using h265_forward_delivers [of d n 0 "[]" "length n" now "[]"] assms by simp
  then show ?thesis
    using assms(1) by (simp add: n h265_dispatch_def h265_type_cases)
qed

lemma h265_aggregated_delivers:
  assumes "ns \<noteq> []" and "list_all (\<lambda>n. 1 \<le> length n \<and> length n < 65536) ns" and "m_cb d"
    and "length pre = offset + 2"
  shows "h265_aggregated now (pre @ concat (map ap_entry ns)) offset d =
           Inr (delivered_all now ns d)"
  using assms
proof (induction ns arbitrary: offset pre d)
  case Nil
  then show ?case by simp
next
  case (Cons n ns)
  let ?p = "pre @ concat (map ap_entry (n # ns))"
  let ?post = "concat (map ap_entry ns)"
  have n: "1 \<le> length n" "length n < 65536" using Cons.prems by simp_all
  have rd: "read_be16 ?p (offset + 1 + 1) = Inr (length n)"
    using read_be16_mid [of "offset + 1 + 1" pre "length n" "n @ ?post"] n Cons.prems(4) by simp
  have "h265_forward_one_nalu now ((pre @ be16_bytes (length n)) @ n @ ?post)
          (offset + 1 + 3) (length n) True d = Inr (delivered now n d)"
    using n Cons.prems(3,4) by (intro h265_forward_delivers) (simp_all add: NALU_MAXLEN_def)
  then have one: "h265_forward_one_nalu now ?p (offset + 1 + 3) (length n) True d =
      Inr (delivered now n d)" by simp
  have step: "h265_aggregated now ?p offset d =
      (if \<not> (length ?p > offset + 2 + length n + 3) then Inr (delivered now n d)
       else h265_aggregated now ?p (offset + 2 + length n) (delivered now n d))"
    by (subst h265_aggregated.simps) (simp only: rd one sum.case)
  show ?case
  proof (cases ns)
    case Nil
    then have "\<not> (length ?p > offset + 2 + length n + 3)"
      using Cons.prems(4) by simp
    then show ?thesis unfolding step by (simp add: Nil)
  next
    case (Cons n' ns')
    have "h265_aggregated now ((pre @ ap_entry n) @ ?post) (offset + 2 + length n)
        (delivered now n d) = Inr (delivered_all now ns (delivered now n d))"
      using Cons.prems Cons by (intro Cons.IH) simp_all
    moreover have "length ?p > offset + 2 + length n + 3"
      using Cons Cons.prems(2,4) by (cases n') auto
    ultimately show ?thesis unfolding step by simp
  qed
qed

section \<open>Fragments\<close>

lemma dispatch_fu265:
  "h265_dispatch now pkt (fu265_payload s e h c) d = h265_fu now pkt (fu265_payload s e h c) d"
  by (simp add: h265_dispatch_def h265_type_cases h265_fu_indicator_type)

lemma fu265_accessors:
  "getFuHeaderH265 (fu265_payload s e h c) = Inr (fu_header_h265_of (h265_fu_header_byte s e (fst h)))"
  "getFuPayloadH265 (fu265_payload s e h c) = Inr c"
  by (simp_all add: getFuHeaderH265_def getFuPayloadH265_def h265_type_cases
      h265_fu_indicator_type read_at_def read_slice_def slice_def)

lemma read_payload:
  assumes "drop 12 pkt = fu265_payload s e h c"
  shows "read_at pkt 12 = Inr (h265_fu_indicator (fst h))" "read_at pkt (12 + 1) = Inr (snd h)"
    "read_at pkt (12 + 2) = Inr (h265_fu_header_byte s e (fst h))"
proof -
  have l: "length pkt = 15 + length c"
    using arg_cong [OF assms, of length] by simp
  have nth: "pkt ! (12 + i) = fu265_payload s e h c ! i" for i
    using assms l by (metis nth_drop le_add1 linorder_not_le add_leD1 length_drop
        zero_less_numeral le_add_same_cancel1 trans_le_add1 numeral_le_iff add.commute
        nat_le_linear drop_all list.distinct(1))
  show "read_at pkt 12 = Inr (h265_fu_indicator (fst h))"
    using nth [of 0] l by (simp add: read_at_def)
  show "read_at pkt (12 + 1) = Inr (snd h)"
    using nth [of 1] l by (simp add: read_at_def)
  show "read_at pkt (12 + 2) = Inr (h265_fu_header_byte s e (fst h))"
    using nth [of 2] l by (simp add: read_at_def)
qed

lemma dispatch_fu265_start:
  assumes "length c + 6 < NALU_MAXLEN" and "drop 12 pkt = fu265_payload True False h c"
  shows "h265_dispatch now pkt (fu265_payload True False h c) d =
     Inr (d\<lparr>timePointStartOfReceivingNALU := now, flagPacketHasGoneMissing := False,
            m_curr_nalu := start_code @ fst h # snd h # c\<rparr>)"
  using assms(1) unfolding dispatch_fu265 h265_fu_def fu265_accessors read_payload [OF assms(2)]
  by (simp add: h265_fu_header_byte_fields h265_header_restored [simplified] decoder_simps)

lemma dispatch_fu265_middle:
  assumes "m_nalu_data_length d + length c < NALU_MAXLEN"
  shows "h265_dispatch now pkt (fu265_payload False False h c) d =
     Inr (d\<lparr>m_curr_nalu := m_curr_nalu d @ c\<rparr>)"
  using assms unfolding dispatch_fu265 h265_fu_def fu265_accessors
  by (simp add: h265_fu_header_byte_fields decoder_simps)

lemma dispatch_fu265_end:
  assumes "m_nalu_data_length d + length c < NALU_MAXLEN"
  shows "h265_dispatch now pkt (fu265_payload False True h c) d =
     Inr ((forwardNALU (d\<lparr>m_curr_nalu := m_curr_nalu d @ c\<rparr>))\<lparr>m_curr_nalu := []\<rparr>)"
  using assms unfolding dispatch_fu265 h265_fu_def fu265_accessors
  by (simp add: h265_fu_header_byte_fields decoder_simps)

text \<open>The decoder keeps the contract of fragment handling.\<close>

interpretation h265f: fragment_parser parseRTPH265toNALU
  "fu265_payload True False" "fu265_payload False False" "fu265_payload False True"
  "\<lambda>h. [fst h, snd h]"
proof (unfold_locales, goal_cases)
  case 1
  then show ?case by simp
next
  case (2 pkt seq h c d t)
  let ?a = "accepted (seq mod 65536) d"
  have "parseRTPH265toNALU t pkt d = h265_dispatch t pkt (fu265_payload True False h c) ?a"
    using parse_h265_in_order [OF 2(1) 2(3)] 2(2) by simp
  also have "\<dots> = Inr (?a\<lparr>timePointStartOfReceivingNALU := t,
      flagPacketHasGoneMissing := False, m_curr_nalu := start_code @ fst h # snd h # c\<rparr>)"
    using 2(2,5) by (intro dispatch_fu265_start) simp_all
  finally show ?case
    using 2(4) expects_accepted [of seq d] by (simp add: assembling_def expects_def)
next
  case (3 pkt seq h c d now buf d0 t)
  let ?a = "accepted (seq mod 65536) d"
  have buf: "m_curr_nalu ?a = buf" using 3(4) by (simp add: assembling_def)
  have "parseRTPH265toNALU t pkt d = h265_dispatch t pkt (fu265_payload False False h c) ?a"
    using parse_h265_in_order [OF 3(1) 3(3)] 3(2) by simp
  also have "\<dots> = Inr (?a\<lparr>m_curr_nalu := buf @ c\<rparr>)"
    using 3(5) buf by (subst dispatch_fu265_middle) simp_all
  finally show ?case
    using 3(4) expects_accepted [of seq d] by (auto simp: assembling_def expects_def)
next
  case (4 pkt seq h c d now b' x d0 t)
  let ?a = "accepted (seq mod 65536) d"
  have a: "m_curr_nalu ?a = start_code @ b' # x" "m_cb ?a"
      "timePointStartOfReceivingNALU ?a = now" "forwarded ?a = forwarded d0"
      "m_n_gaps ?a = m_n_gaps d0"
    using 4(4) by (simp_all add: assembling_def)
  have "parseRTPH265toNALU t pkt d = h265_dispatch t pkt (fu265_payload False True h c) ?a"
    using parse_h265_in_order [OF 4(1) 4(3)] 4(2) by simp
  also have "\<dots> = Inr (?a\<lparr>forwarded := forwarded d0 @ [(now, start_code @ b' # x @ c)],
      m_curr_nalu := []\<rparr>)"
    using 4(5) a by (subst dispatch_fu265_end) (simp_all add: decoder_simps)
  finally show ?case
    using a expects_accepted [of seq d] by (simp add: between_units_def expects_def)
qed

section \<open>Whole streams\<close>

lemma h265_unit:
  assumes "rtp_sent seq (h265_unit_payloads u) pkts" and "h265_unit_ok u" and "between_units seq d"
  shows "\<exists>d'. parse_stream parseRTPH265toNALU pkts d = Inr d' \<and>
           unit_received pkts (h265_unit_nalus u) d d' \<and>
           between_units (seq + length (h265_unit_payloads u)) d'"
proof (cases u)
  case (Single265 n)
  have "parseRTPH265toNALU t pkt d = Inr (delivered_all t [n] (accepted (seq mod 65536) d))"
    if "rtp_hdr_ok (take 12 pkt) (seq mod 65536)" "drop 12 pkt = n" for t pkt
    using that assms(2,3)
    by (simp add: Single265 parse_h265_in_order dispatch_single265 between_units_def)
  then show ?thesis
    using one_packet_unit [of seq n pkts d parseRTPH265toNALU "[n]"] assms by (simp add: Single265)
next
  case (Ap265 b0 b1 ns)
  let ?p = "concat (map ap_entry ns)"
  have ns: "ns \<noteq> []" "h265_nal_type b0 = 48"
    "list_all (\<lambda>n. 1 \<le> length n \<and> length n < 65536) ns"
    using assms(2) by (simp_all add: Ap265)
  then have len: "3 \<le> length (b0 # b1 # ?p)" by (cases ns) simp_all
  have "parseRTPH265toNALU t pkt d = Inr (delivered_all t ns (accepted (seq mod 65536) d))"
    if "rtp_hdr_ok (take 12 pkt) (seq mod 65536)" "drop 12 pkt = b0 # b1 # ?p" for t pkt
    using parse_h265_in_order [OF that(1), of d t] that(2) len assms(3) ns(2)
      h265_aggregated_delivers [OF ns(1,3), of _ "[b0, b1]" 0]
    by (simp add: between_units_def h265_dispatch_def h265_type_cases)
  then show ?thesis
    using one_packet_unit [of seq "b0 # b1 # ?p" pkts d parseRTPH265toNALU ns] assms
    by (simp add: Ap265)
next
  case (Fu265 b0 b1 c0 cs ce)
  then show ?thesis
    using h265f.fragmented_unit [of seq "(b0, b1)" c0 cs ce pkts d] assms by (simp add: comp_def)
qed

interpretation h265s: unit_parser parseRTPH265toNALU h265_unit_payloads h265_unit_nalus h265_unit_ok
proof unfold_locales
  show "h265_unit_payloads u \<noteq> []" for u by (cases u) simp_all
qed (rule h265_unit)

text \<open>C5. Any sequence of H.265 NALUs, each sent alone in a packet, together with others in an
  aggregation packet (without DONL fields) or cut into any number of fragments of any size, comes
  out of the decoder complete and in the order sent: in particular the bit manipulation of the
  fragment headers restores the two header octets of the NALU.\<close>

theorem h265_stream_roundtrip:
  assumes "rtp_sent seq (concat (map h265_unit_payloads us)) pkts"
    and "list_all h265_unit_ok us" and "between_units seq d"
  shows "\<exists>d'. parse_stream_h265 pkts d = Inr d' \<and>
           forwarded d' = forwarded d @ expected_frames h265_unit_payloads h265_unit_nalus us pkts \<and>
           m_n_gaps d' = m_n_gaps d \<and> m_curr_nalu d' = []"
  using h265s.stream_delivered [OF assms] by (auto simp: between_units_def parse_stream_h265_def)

definition demo265_packets :: "(int \<times> bytes) list" where
  "demo265_packets = [
     (10, hdr_seq 0 7 @ [0x40, 1, 2]),
     (11, hdr_seq 0 8 @ [0x62, 1, 0x93, 7, 8]),
     (12, hdr_seq 0 9 @ [0x62, 1, 0x13, 9]),
     (13, hdr_seq 0 10 @ [0x62, 1, 0x53]),
     (14, hdr_seq 0 11 @ [0x60, 1, 0, 2, 0x42, 1, 0, 3, 0x44, 1, 7])]"

definition demo265_units :: "h265_unit list" where
  "demo265_units = [Single265 [0x40, 1, 2], Fu265 0x26 1 [7, 8] [[9]] [],
     Ap265 0x60 1 [[0x42, 1], [0x44, 1, 7]]]"

lemma demo265_sent:
  "rtp_sent 7 (concat (map h265_unit_payloads demo265_units)) demo265_packets"
  by (simp add: demo265_units_def demo265_packets_def rtp_hdr_ok_def be16_def be16_bytes_def
      h265_fu_indicator_def h265_fu_header_byte_def)

lemma demo265_ok: "list_all h265_unit_ok demo265_units"
  by (simp add: demo265_units_def NALU_MAXLEN_def h265_nal_type_def bitfield_def
      mask_eq_exp_minus_1)

lemma demo265_start: "between_units 7 (rtp_decoder_new True False)"
  by (simp add: between_units_def expects_def rtp_decoder_new_def)

theorem h265_stream_roundtrip_witness:
  "\<exists>d'. parse_stream_h265 demo265_packets (rtp_decoder_new True False) = Inr d' \<and>
     forwarded d' = [(10, start_code @ [0x40, 1, 2]), (11, start_code @ [0x26, 1, 7, 8, 9]),
       (14, start_code @ [0x42, 1]), (14, start_code @ [0x44, 1, 7])]"
  using h265_stream_roundtrip [OF demo265_sent demo265_ok demo265_start]
  by (auto simp: demo265_units_def demo265_packets_def rtp_decoder_new_def)

end
