(* ===== verification/Rtp_Safety.thy ===== *)
theory Rtp_Safety
  imports Rtp_H264 Rtp_H265
begin

text \<open>
  The decoder on arbitrary input: its invariant, the packets that end in a fault, and what it
  does when packets are lost.
\<close>

section \<open>The invariant\<close>

definition frame_ok :: "int \<times> bytes \<Rightarrow> bool" where
  "frame_ok f \<longleftrightarrow> check_has_valid_prefix (snd f) True \<and> length (snd f) \<le> NALU_MAXLEN"

definition decoder_inv :: "rtp_decoder \<Rightarrow> bool" where
  "decoder_inv d \<longleftrightarrow>
     m_nalu_data_length d \<le> NALU_MAXLEN \<and>
     -1 \<le> lastSequenceNumber d \<and> lastSequenceNumber d < 65536 \<and>
     0 \<le> m_n_gaps d \<and> list_all frame_ok (forwarded d)"

named_theorems decoder_inv_rules \<open>each operation keeps the decoder's invariant\<close>

lemma decoder_inv_new: "decoder_inv (rtp_decoder_new cb feed)"
  by (simp add: decoder_inv_def rtp_decoder_new_def)

lemma decoder_inv_reset: "decoder_inv d \<Longrightarrow> decoder_inv (rtp_reset d)"
  by (simp add: decoder_inv_def rtp_reset_def)

lemma decoder_inv_updates [simp]:
  "decoder_inv (d\<lparr>timePointStartOfReceivingNALU := t\<rparr>) = decoder_inv d"
  "decoder_inv (d\<lparr>flagPacketHasGoneMissing := f\<rparr>) = decoder_inv d"
  "decoder_inv (d\<lparr>m_total_n_fragments_for_current_fu := n\<rparr>) = decoder_inv d"
  "decoder_inv (d\<lparr>curr_packet_diff := i\<rparr>) = decoder_inv d"
  "decoder_inv d \<Longrightarrow> decoder_inv (d\<lparr>m_curr_nalu := []\<rparr>)"
  by (simp_all add: decoder_inv_def)

lemma validate_inv [decoder_inv_rules]:
  "decoder_inv d \<Longrightarrow> validateRTPPacket h d = (d', ok) \<Longrightarrow> decoder_inv d'"
  using getSequence_lt [of h]
  by (auto simp: validateRTPPacket_def Let_def decoder_inv_def split: if_splits)

lemma append_nalu_data_inv [decoder_inv_rules]:
  "append_nalu_data data d = Inr d' \<Longrightarrow> decoder_inv d \<Longrightarrow> decoder_inv d'"
  by (auto simp: append_nalu_data_def decoder_inv_def split: if_splits)

lemma append_nalu_data_byte_inv [decoder_inv_rules]:
  "append_nalu_data_byte b d = Inr d' \<Longrightarrow> decoder_inv d \<Longrightarrow> decoder_inv d'"
  unfolding append_nalu_data_byte_def by (rule append_nalu_data_inv)

lemma write_start_inv [decoder_inv_rules]:
  "write_h264_h265_nalu_start four d = Inr d' \<Longrightarrow> decoder_inv d \<Longrightarrow> decoder_inv d'"
  by (auto simp: write_h264_h265_nalu_start_def Let_def result_simps split: if_splits
      elim!: append_nalu_data_byte_inv)

lemma forwardNALU_inv [decoder_inv_rules]: "decoder_inv d \<Longrightarrow> decoder_inv (forwardNALU d)"
  by (auto simp: forwardNALU_def decoder_inv_def frame_ok_def check_curr_nalu_has_valid_prefix_def)

lemma h264_reconstruct_inv [decoder_inv_rules]:
  "h264_reconstruct_and_forward_one_nalu now p off sz d = Inr d' \<Longrightarrow> decoder_inv d \<Longrightarrow>
     decoder_inv d'"
  by (auto simp: h264_reconstruct_and_forward_one_nalu_def Let_def result_simps
      intro!: decoder_inv_updates(5) forwardNALU_inv
      elim!: append_nalu_data_inv append_nalu_data_byte_inv write_start_inv)

lemma h264_aggregated_inv [decoder_inv_rules]:
  "h264_aggregated now p off d = Inr d' \<Longrightarrow> decoder_inv d \<Longrightarrow> decoder_inv d'"
proof (induction now p off d rule: h264_aggregated.induct)
  case (1 now p off d)
  from "1.prems"(1) show ?case
    by (subst (asm) h264_aggregated.simps)
      (use "1.IH" "1.prems"(2) h264_reconstruct_inv in \<open>fastforce split: sum.splits if_splits\<close>)
qed

lemma h264_fu_inv [decoder_inv_rules]:
  "h264_fu now p d = Inr d' \<Longrightarrow> decoder_inv d \<Longrightarrow> decoder_inv d'"
  by (auto simp: h264_fu_def Let_def result_simps split: if_splits
      intro!: decoder_inv_updates(5) forwardNALU_inv
      elim!: append_nalu_data_inv append_nalu_data_byte_inv write_start_inv)

lemma h264_dispatch_inv [decoder_inv_rules]:
  "h264_dispatch now p d = Inr d' \<Longrightarrow> decoder_inv d \<Longrightarrow> decoder_inv d'"
  by (auto simp: h264_dispatch_def result_simps split: if_splits
      elim: h264_fu_inv h264_reconstruct_inv h264_aggregated_inv)

lemma parseRTPH264toNALU_inv:
  "parseRTPH264toNALU now pkt d = Inr d' \<Longrightarrow> decoder_inv d \<Longrightarrow> decoder_inv d'"
proof (cases "length pkt \<le> 13")
  case False
  assume *: "parseRTPH264toNALU now pkt d = Inr d'" and inv: "decoder_inv d"
  obtain d1 b where v: "validateRTPPacket (rtp_header_of pkt) d = (d1, b)" by fastforce
  with * False show ?thesis
    using validate_inv [OF inv v] h264_dispatch_inv
    by (cases b) (auto simp: parseRTPH264toNALU_def RTPPacket_def result_simps)
qed (simp add: parseRTPH264toNALU_def)

lemma h265_forward_inv [decoder_inv_rules]:
  "h265_forward_one_nalu now p off sz four d = Inr d' \<Longrightarrow> decoder_inv d \<Longrightarrow> decoder_inv d'"
  by (auto simp: h265_forward_one_nalu_def Let_def result_simps
      intro!: decoder_inv_updates(5) forwardNALU_inv
      elim!: append_nalu_data_inv write_start_inv)

lemma h265_aggregated_inv [decoder_inv_rules]:
  "h265_aggregated now p off d = Inr d' \<Longrightarrow> decoder_inv d \<Longrightarrow> decoder_inv d'"
proof (induction now p off d rule: h265_aggregated.induct)
  case (1 now p off d)
  from "1.prems"(1) show ?case
    by (subst (asm) h265_aggregated.simps)
      (use "1.IH" "1.prems"(2) h265_forward_inv in \<open>fastforce split: sum.splits if_splits\<close>)
qed

lemma h265_fu_inv [decoder_inv_rules]:
  "h265_fu now pkt p d = Inr d' \<Longrightarrow> decoder_inv d \<Longrightarrow> decoder_inv d'"
  by (auto simp: h265_fu_def Let_def result_simps split: if_splits
      intro!: decoder_inv_updates(5) forwardNALU_inv
      elim!: append_nalu_data_inv append_nalu_data_byte_inv write_start_inv)

lemma h265_dispatch_inv [decoder_inv_rules]:
  "h265_dispatch now pkt p d = Inr d' \<Longrightarrow> decoder_inv d \<Longrightarrow> decoder_inv d'"
  by (auto simp: h265_dispatch_def result_simps split: if_splits
      elim: h265_fu_inv h265_forward_inv h265_aggregated_inv)

lemma parseRTPH265toNALU_inv:
  "parseRTPH265toNALU now pkt d = Inr d' \<Longrightarrow> decoder_inv d \<Longrightarrow> decoder_inv d'"
proof (cases "length pkt \<le> 14")
  case False
  assume *: "parseRTPH265toNALU now pkt d = Inr d'" and inv: "decoder_inv d"
  obtain d1 b where v: "validateRTPPacket (rtp_header_of pkt) d = (d1, b)" by fastforce
  with * False show ?thesis
    using validate_inv [OF inv v] h265_dispatch_inv
    by (cases b) (auto simp: parseRTPH265toNALU_def RTPPacket_def result_simps)
qed (simp add: parseRTPH265toNALU_def)

text \<open>C7. On whatever packets arrive, in whatever order, of either codec: as long as the
  program runs, the NALU buffer never holds more than \<open>NALU_MAXLEN\<close> bytes, the remembered
  sequence number is -1 or a 16-bit value, and every NALU handed to the callback begins with
  0,0,0,1 and has between 5 and \<open>NALU_MAXLEN\<close> bytes.\<close>

theorem decoder_stream_invariant:
  assumes "parse_stream_h264 pkts (rtp_decoder_new cb feed) = Inr d \<or>
           parse_stream_h265 pkts (rtp_decoder_new cb feed) = Inr d"
  shows "decoder_inv d"
  using assms
proof
  assume "parse_stream_h264 pkts (rtp_decoder_new cb feed) = Inr d"
  then show ?thesis
    unfolding parse_stream_h264_def
    by (rule rfold_invariant [where P = decoder_inv])
      (auto simp: decoder_inv_new intro: parseRTPH264toNALU_inv)
next
  assume "parse_stream_h265 pkts (rtp_decoder_new cb feed) = Inr d"
  then show ?thesis
    unfolding parse_stream_h265_def
    by (rule rfold_invariant [where P = decoder_inv])
      (auto simp: decoder_inv_new intro: parseRTPH265toNALU_inv)
qed

theorem decoder_stream_invariant_witness:
  "\<exists>d. parse_stream_h264 demo_packets (rtp_decoder_new True False) = Inr d \<and> decoder_inv d"
proof -
  obtain d where d: "parse_stream_h264 demo_packets (rtp_decoder_new True False) = Inr d"
    using h264s.stream_delivered [OF demo_sent demo_ok demo_start]
    by (auto simp: parse_stream_h264_def)
  then show ?thesis
    using decoder_stream_invariant [of demo_packets True False d] by blast
qed

section \<open>Which packets fault\<close>

lemma write_start_total: "\<exists>d'. write_h264_h265_nalu_start True d = Inr d' \<and>
    d' = d\<lparr>m_curr_nalu := start_code\<rparr>"
  by (simp add: decoder_simps)

lemma append_total:
  assumes "m_nalu_data_length d < NALU_MAXLEN"
  shows "\<exists>d'. append_nalu_data data d = Inr d'"
  using assms by (simp add: append_nalu_data_def)

lemma append_total_nonempty:
  assumes "data \<noteq> []"
  shows "\<exists>d'. append_nalu_data data d = Inr d'"
  using assms by (cases data) (simp_all add: append_nalu_data_def)

text \<open>The header of a NALU and the first bytes of its body always fit.\<close>

lemma h264_reconstruct_total:
  assumes "1 < sz" and "off + sz \<le> length p"
  shows "\<exists>d'. h264_reconstruct_and_forward_one_nalu now p off sz d = Inr d'"
proof -
  let ?rest = "slice p (off + 1) (sz - 1)"
  have at: "read_at p off = Inr (p ! off)" using assms by (simp add: read_at_def)
  have rd: "read_slice p (off + 1) (sz - 1) = Inr ?rest"
    using assms by (simp add: read_slice_def)
  have "?rest \<noteq> []" using assms by (simp add: slice_def)
  then have app: "\<exists>d'. append_nalu_data ?rest a = Inr d'" for a
    by (rule append_total_nonempty)
  define d3 where "d3 = d\<lparr>timePointStartOfReceivingNALU := now, flagPacketHasGoneMissing := False,
      m_curr_nalu := start_code @
        [h264_nal_header_byte (nh_type (nalu_header_of (p ! off))) (nalu_header_of (p ! off))]\<rparr>"
  obtain d4 where d4: "append_nalu_data ?rest d3 = Inr d4" using app by blast
  have "h264_reconstruct_and_forward_one_nalu now p off sz d =
      Inr ((forwardNALU d4)\<lparr>m_curr_nalu := []\<rparr>)"
    unfolding h264_reconstruct_and_forward_one_nalu_def at rd
    using assms(1) d4 by (simp add: decoder_simps NALU_MAXLEN_def d3_def)
  then show ?thesis ..
qed

lemma h264_reconstruct_faults:
  assumes "\<not> (1 < sz \<and> off + sz \<le> length p)"
  shows "\<exists>e. h264_reconstruct_and_forward_one_nalu now p off sz d = Inl e"
proof (cases "h264_reconstruct_and_forward_one_nalu now p off sz d")
  case (Inr d')
  then show ?thesis
    using assms
    by (auto simp: h264_reconstruct_and_forward_one_nalu_def Let_def result_simps read_slice_def
        split: if_splits)
qed simp

text \<open>A well-formed aggregation packet: every entry has its two size bytes and a complete NALU
  of at least two bytes.\<close>

function stap_wf :: "bytes \<Rightarrow> nat \<Rightarrow> bool" where
  "stap_wf p off \<longleftrightarrow> off + 3 \<le> length p \<and>
     (let sz = be16 (p ! Suc off) (p ! (off + 2)) in
      1 < sz \<and> off + 3 + sz \<le> length p \<and>
      (length p > off + 2 + sz + 3 \<longrightarrow> stap_wf p (off + 2 + sz)))"
  by pat_completeness auto
termination
  by (relation "measure (\<lambda>(p, off). length p - off)") auto

declare stap_wf.simps [simp del]

lemma h264_aggregated_iff:
  "(\<exists>d'. h264_aggregated now p off d = Inr d') \<longleftrightarrow> stap_wf p off"
proof (induction now p off d rule: h264_aggregated.induct)
  case (1 now p off d)
  show ?case
  proof (cases "off + 3 \<le> length p")
    case False
    then have "read_be16 p (off + 1) = Inl Over_Read" by (simp add: read_be16_def)
    with False show ?thesis
      by (subst h264_aggregated.simps, subst stap_wf.simps) simp
  next
    case True
    let ?sz = "be16 (p ! Suc off) (p ! (off + 2))"
    have rd: "read_be16 p (off + 1) = Inr ?sz"
      using True by (simp add: read_be16_def)
    show ?thesis
    proof (cases "1 < ?sz \<and> off + 3 + ?sz \<le> length p")
      case False
      then obtain e where
        "h264_reconstruct_and_forward_one_nalu now p (off + 3) ?sz d = Inl e"
        using h264_reconstruct_faults [of ?sz "off + 3" p now d] by blast
      with False rd show ?thesis
        by (subst h264_aggregated.simps, subst stap_wf.simps) (auto simp: Let_def)
    next
      case ok: True
      then obtain d1 where
        d1: "h264_reconstruct_and_forward_one_nalu now p (off + 3) ?sz d = Inr d1"
        using h264_reconstruct_total [of ?sz "off + 3" p now d] by blast
      have step: "h264_aggregated now p off d =
          (if \<not> (length p > off + 2 + ?sz + 3) then Inr d1
           else h264_aggregated now p (off + 2 + ?sz) d1)"
        by (subst h264_aggregated.simps) (simp only: rd d1 sum.case)
      have wf: "stap_wf p off \<longleftrightarrow>
          (length p > off + 2 + ?sz + 3 \<longrightarrow> stap_wf p (off + 2 + ?sz))"
        using ok True by (subst stap_wf.simps) (simp only: Let_def simp_thms)
      show ?thesis
        unfolding step wf using "1.IH" [OF rd d1] by simp
    qed
  qed
qed

text \<open>C8. The aggregation loop of the H.264 parser terminates on every packet, and it stays
  inside the packet exactly when every entry carries a NALU of at least two bytes that is wholly
  contained in it. The code checks none of this: a packet that announces more bytes than it has is
  read past its end, one that announces fewer than two bytes runs into the assertion.\<close>

theorem h264_stap_a_safe_iff:
  "(\<exists>d'. h264_aggregated now p 0 d = Inr d') \<longleftrightarrow> stap_wf p 0"
  by (rule h264_aggregated_iff)

lemma h264_fu_total:
  assumes "2 \<le> length p" and "nh_type (nalu_header_of (p ! 0)) = 28"
    and "m_nalu_data_length d < NALU_MAXLEN \<or> 3 \<le> length p"
  shows "\<exists>d'. h264_fu now p d = Inr d'"
proof -
  have hdr: "getNALUHeaderH264 p = Inr (nalu_header_of (p ! 0))"
    using assms(1) by (simp add: getNALUHeaderH264_def)
  have fu: "getFuHeader p = Inr (fu_header_of (p ! 1))"
    using assms(1,2) hdr by (simp add: getFuHeader_def read_at_def)
  have pl: "getFuPayload p = Inr (slice p 2 (length p - 2))"
    using assms(1) by (simp add: getFuPayload_def read_slice_def)
  obtain d1 where d1: "append_nalu_data (slice p 2 (length p - 2)) d = Inr d1"
  proof -
    have "slice p 2 (length p - 2) \<noteq> []" if "3 \<le> length p"
      using that by (simp add: slice_def)
    then show ?thesis
      using assms(3) append_total append_total_nonempty that by blast
  qed
  have d2: "\<exists>d2. append_nalu_data c (a\<lparr>m_curr_nalu := [0, 0, 0, 1, b]\<rparr>) = Inr d2" for a b c
    by (rule append_total) (simp add: NALU_MAXLEN_def)
  show ?thesis
    unfolding h264_fu_def hdr fu pl using d1 d2
    by (simp add: decoder_simps NALU_MAXLEN_def Let_def)
qed

lemma h264_dispatch_total:
  assumes "2 \<le> length p" and "h264_nal_type (p ! 0) \<noteq> 24"
    and "m_nalu_data_length d < NALU_MAXLEN \<or> 3 \<le> length p"
  shows "\<exists>d'. h264_dispatch now p d = Inr d'"
proof -
  have hdr: "getNALUHeaderH264 p = Inr (nalu_header_of (p ! 0))"
    using assms(1) by (simp add: getNALUHeaderH264_def)
  have single: "\<exists>d'. h264_reconstruct_and_forward_one_nalu now p 0 (length p) d = Inr d'"
    using assms(1) by (intro h264_reconstruct_total) simp_all
  have fu: "\<exists>d'. h264_fu now p d = Inr d'" if "nh_type (nalu_header_of (p ! 0)) = 28"
    using assms that by (intro h264_fu_total)
  show ?thesis
    unfolding h264_dispatch_def hdr using assms(2) single fu
    by (auto simp: h264_type_cases)
qed

lemma validate_keeps_buffer:
  "validateRTPPacket h d = (d', b) \<Longrightarrow> m_curr_nalu d' = m_curr_nalu d"
  by (auto simp: validateRTPPacket_def Let_def split: if_splits)

lemma parse_h264_no_fault:
  assumes "length pkt \<le> 13 \<or> \<not> bit (pkt ! 0) 5 \<and> h264_nal_type (pkt ! 12) \<noteq> 24"
    and "m_nalu_data_length d < NALU_MAXLEN \<or> length pkt \<noteq> 14"
  shows "\<exists>d'. parseRTPH264toNALU now pkt d = Inr d'"
proof (cases "length pkt \<le> 13")
  case False
  then have p: "2 \<le> length (drop 12 pkt)" and p0: "drop 12 pkt ! 0 = pkt ! 12" by simp_all
  have pkt: "RTPPacket pkt = Inr (rtp_header_of pkt, drop 12 pkt)"
    using False assms(1) by (simp add: RTPPacket_def padding_bit)
  obtain d1 b where v: "validateRTPPacket (rtp_header_of pkt) d = (d1, b)" by fastforce
  have "\<exists>d'. h264_dispatch now (drop 12 pkt) d1 = Inr d'"
    using p assms validate_keeps_buffer [OF v] p0 by (intro h264_dispatch_total) auto
  then show ?thesis
    using False v by (cases b) (simp_all add: parseRTPH264toNALU_def pkt)
qed (simp add: parseRTPH264toNALU_def)

text \<open>Exactly which packets fault: those with the padding bit set; of the others, if they are not a repetition of the last one,
  malformed aggregation packets, and a last or middle fragment without payload that meets a buffer that is exactly full.\<close>

definition packet_handled :: "rtp_decoder \<Rightarrow> bytes \<Rightarrow> bool" where
  "packet_handled d pkt \<longleftrightarrow>
     length pkt \<le> 13
     \<or> (\<not> bit (pkt ! 0) 5
        \<and> (int (be16 (pkt ! 2) (pkt ! 3)) = lastSequenceNumber d
           \<or> (h264_nal_type (pkt ! 12) = 24 \<longrightarrow> stap_wf (drop 12 pkt) 0)
             \<and> (h264_nal_type (pkt ! 12) = 28 \<and> length pkt = 14 \<and> (bit (pkt ! 13) 6 \<or> \<not> bit (pkt ! 13) 7) \<longrightarrow>
                m_nalu_data_length d \<noteq> NALU_MAXLEN)))"

lemma fu_bits:
  "fu_e (fu_header_of b) = 1 \<longleftrightarrow> bit b 6" "fu_s (fu_header_of b) = 1 \<longleftrightarrow> bit b 7"
  by (simp_all add: fu_header_of_def bitfield_def and_one_eq mod_2_eq_odd bit_0 [symmetric] bit_drop_bit_eq)

lemma h264_fu_empty:
  assumes "length p = 2" and "nh_type (nalu_header_of (p ! 0)) = 28"
  shows "(\<exists>d'. h264_fu now p d = Inr d') \<longleftrightarrow>
    \<not> ((bit (p ! 1) 6 \<or> \<not> bit (p ! 1) 7) \<and> m_nalu_data_length d = NALU_MAXLEN)"
proof -
  have hdr: "getNALUHeaderH264 p = Inr (nalu_header_of (p ! 0))"
    using assms(1) by (simp add: getNALUHeaderH264_def)
  have fu: "getFuHeader p = Inr (fu_header_of (p ! 1))"
    using assms(1,2) hdr by (simp add: getFuHeader_def read_at_def)
  have pl: "getFuPayload p = Inr []"
    using assms(1) by (simp add: getFuPayload_def read_slice_def slice_def)
  have app: "(\<exists>d'. append_nalu_data [] a = Inr d') \<longleftrightarrow> m_nalu_data_length a \<noteq> NALU_MAXLEN" for a
    by (auto simp: append_nalu_data_def)
  have start: "\<exists>d2. append_nalu_data [] (a\<lparr>m_curr_nalu := [0, 0, 0, 1, b]\<rparr>) = Inr d2" for a b
    by (simp add: append_nalu_data_def NALU_MAXLEN_def)
  show ?thesis
    unfolding h264_fu_def hdr fu pl using app [of d] start
    by (cases "append_nalu_data [] d")
      (auto simp: fu_bits decoder_simps NALU_MAXLEN_def Let_def)
qed

lemma dispatch_iff:
  assumes "2 \<le> length p"
  shows "(\<exists>d'. h264_dispatch now p d = Inr d') \<longleftrightarrow>
    (h264_nal_type (p ! 0) = 24 \<longrightarrow> stap_wf p 0)
    \<and> (h264_nal_type (p ! 0) = 28 \<and> length p = 2 \<and> (bit (p ! 1) 6 \<or> \<not> bit (p ! 1) 7) \<longrightarrow> m_nalu_data_length d \<noteq> NALU_MAXLEN)"
proof (cases "h264_nal_type (p ! 0) = 24")
  case True
  have "getNALUHeaderH264 p = Inr (nalu_header_of (p ! 0))"
    using assms by (simp add: getNALUHeaderH264_def)
  with True show ?thesis by (simp add: h264_dispatch_def h264_type_cases h264_aggregated_iff)
next
  case False
  show ?thesis
  proof (cases "h264_nal_type (p ! 0) = 28 \<and> length p = 2")
    case True
    then have "getNALUHeaderH264 p = Inr (nalu_header_of (p ! 0))"
      by (simp add: getNALUHeaderH264_def)
    with True show ?thesis
      using h264_fu_empty [of p now d] by (auto simp: h264_dispatch_def h264_type_cases)
  next
    case other: False
    then have "\<exists>d'. h264_dispatch now p d = Inr d'"
    proof (cases "length p = 2")
      case True
      with other have "h264_nal_type (p ! 0) \<noteq> 28" by simp
      moreover have "getNALUHeaderH264 p = Inr (nalu_header_of (p ! 0))"
        using assms by (simp add: getNALUHeaderH264_def)
      moreover have "\<exists>d'. h264_reconstruct_and_forward_one_nalu now p 0 (length p) d = Inr d'"
        using assms by (intro h264_reconstruct_total) simp_all
      ultimately show ?thesis using False by (auto simp: h264_dispatch_def h264_type_cases)
    qed (use assms False in \<open>intro h264_dispatch_total; simp\<close>)
    with False other show ?thesis by auto
  qed
qed

lemma validate_repeated:
  "validateRTPPacket h d = (d', b) \<Longrightarrow> b \<longleftrightarrow> int (getSequence h) \<noteq> lastSequenceNumber d"
  by (auto simp: validateRTPPacket_def Let_def split: if_splits)

lemma parse_h264_iff: "(\<exists>d'. parseRTPH264toNALU now pkt d = Inr d') \<longleftrightarrow> packet_handled d pkt"
proof (cases "length pkt \<le> 13")
  case False
  obtain d1 b where v: "validateRTPPacket (rtp_header_of pkt) d = (d1, b)" by fastforce
  have seq: "getSequence (rtp_header_of pkt) = be16 (pkt ! 2) (pkt ! 3)" using False by (simp add: getSequence_of)
  show ?thesis
    using False dispatch_iff [of "drop 12 pkt" now d1] validate_keeps_buffer [OF v] validate_repeated [OF v] v
    by (cases b) (auto simp: parseRTPH264toNALU_def RTPPacket_def padding_bit packet_handled_def seq rassert_def)
qed (simp add: parseRTPH264toNALU_def packet_handled_def)

text \<open>C9. For every received datagram and every state of the decoder, the H.264 parser returns without a fault exactly if the
  datagram is too short to be looked at, or its padding bit is clear and it repeats the last sequence number or is neither
  a malformed aggregation packet nor a fragment without payload that is not a first one and meets a full buffer.\<close>

theorem h264_parse_total:
  "(\<exists>d'. parseRTPH264toNALU now pkt d = Inr d') \<longleftrightarrow> packet_handled d pkt"
  by (rule parse_h264_iff)

text \<open>One bit of the RTP header decides whether the program survives: any packet long enough
  to be parsed whose padding bit is set fails the assertion in the constructor of
  \<open>RTPPacket\<close>, with either codec and in every state of the decoder. (RFC 3550 lets any
  sender set it.)\<close>

theorem padding_bit_aborts:
  assumes "15 \<le> length pkt" and "bit (pkt ! 0) 5"
  shows "parseRTPH264toNALU now pkt d = Inl Assert_Failed \<and>
         parseRTPH265toNALU now pkt d = Inl Assert_Failed"
  using assms
  by (simp_all add: parseRTPH264toNALU_def parseRTPH265toNALU_def RTPPacket_def padding_bit)

theorem padding_bit_aborts_witness:
  "parseRTPH264toNALU 0 (0xA0 # replicate 14 0) (rtp_decoder_new True False) = Inl Assert_Failed \<and>
   parseRTPH265toNALU 0 (0xA0 # replicate 14 0) (rtp_decoder_new True False) = Inl Assert_Failed"
  by (rule padding_bit_aborts) simp_all

section \<open>Lost packets\<close>

text \<open>The H.265 parser does not keep the promise the header file makes (incomplete fragments
  are dropped): it never looks at its missing-packet flag. Whatever middle fragments are lost
  between the first and the last one, the NALU is handed on with the lost bytes cut out.\<close>

theorem h265_incomplete_forwarded:
  assumes first: "rtp_hdr_ok (take 12 p0) (seq mod 65536)" "drop 12 p0 = fu265_payload True False h c0"
    and last: "rtp_hdr_ok (take 12 p1) (seq' mod 65536)" "drop 12 p1 = fu265_payload False True h ce"
    and gap: "seq' mod 65536 \<noteq> seq mod 65536" "seq' mod 65536 \<noteq> Suc seq mod 65536"
    and d: "between_units seq d" "\<not> m_feed_incomplete_frames d"
    and fits: "length c0 + length ce + 6 < NALU_MAXLEN"
  shows "\<exists>d'. parse_stream_h265 [(t0, p0), (t1, p1)] d = Inr d' \<and> m_n_gaps d' = m_n_gaps d + 1 \<and>
           forwarded d' = forwarded d @ [(t0, start_code @ [fst h, snd h] @ c0 @ ce)]"
proof -
  let ?a = "accepted (seq mod 65536) d"
  let ?d1 = "?a\<lparr>timePointStartOfReceivingNALU := t0, flagPacketHasGoneMissing := False,
      m_curr_nalu := start_code @ fst h # snd h # c0\<rparr>"
  have "parseRTPH265toNALU t0 p0 d = h265_dispatch t0 p0 (fu265_payload True False h c0) ?a"
    using parse_h265_in_order [OF first(1), of d] first(2) d(1) by (simp add: between_units_def)
  also have "\<dots> = Inr ?d1"
    using fits first(2) by (intro dispatch_fu265_start) simp_all
  finally have one: "parseRTPH265toNALU t0 p0 d = Inr ?d1" .
  note pkt = RTPPacket_ok [OF last(1)]
  have ne: "int (seq' mod 65536) \<noteq> int (seq mod 65536)"
    "int (seq' mod 65536) \<noteq> (int (seq mod 65536) + 1) mod 65536"
  proof -
    have "(int (seq mod 65536) + 1) mod 65536 = int (Suc seq mod 65536)"
      by (simp add: zmod_int mod_simps ac_simps)
    then show "int (seq' mod 65536) \<noteq> int (seq mod 65536)"
      "int (seq' mod 65536) \<noteq> (int (seq mod 65536) + 1) mod 65536"
      using gap by (simp_all only: of_nat_eq_iff not_False_eq_True)
  qed
  obtain d2 where d2: "validateRTPPacket (rtp_header_of p1) ?d1 = (d2, True)"
    "m_curr_nalu d2 = m_curr_nalu ?d1" "forwarded d2 = forwarded d" "m_cb d2"
    "timePointStartOfReceivingNALU d2 = t0" "m_n_gaps d2 = m_n_gaps d + 1"
    using d pkt(3) ne by (simp add: validateRTPPacket_def Let_def between_units_def)
  have fits2: "m_nalu_data_length d2 + length ce < NALU_MAXLEN"
    using d2(2) fits by simp
  have len: "\<not> length p1 \<le> 12 + 2"
    using arg_cong [OF last(2), of length] by simp
  have "parseRTPH265toNALU t1 p1 ?d1 = h265_dispatch t1 p1 (fu265_payload False True h ce) d2"
    using pkt(1) len d2(1) last(2) by (simp add: parseRTPH265toNALU_def)
  also have "\<dots> = Inr (d2\<lparr>forwarded := forwarded d @ [(t0, start_code @ fst h # snd h # c0 @ ce)],
      m_curr_nalu := []\<rparr>)"
    using d2 by (subst dispatch_fu265_end [OF fits2]) (simp add: decoder_simps)
  finally show ?thesis
    using one d2 by (simp add: parse_stream_h265_def)
qed

theorem h265_incomplete_forwarded_witness:
  "\<exists>d'. parse_stream_h265 [(1, hdr_seq 0 7 @ [0x62, 1, 0x93, 10, 11]),
      (2, hdr_seq 0 9 @ [0x62, 1, 0x53, 14, 15])] (rtp_decoder_new True False) = Inr d' \<and>
     m_n_gaps d' = 1 \<and> forwarded d' = [(1, [0, 0, 0, 1, 0x26, 1, 10, 11, 14, 15])]"
  using h265_incomplete_forwarded [of "hdr_seq 0 7 @ [0x62, 1, 0x93, 10, 11]" 7 "(0x26, 1)" "[10, 11]"
      "hdr_seq 0 9 @ [0x62, 1, 0x53, 14, 15]" 9 "[14, 15]" "rtp_decoder_new True False" 1 2]
  by (simp add: rtp_hdr_ok_def be16_def h265_fu_indicator_def h265_fu_header_byte_def
      between_units_def expects_def rtp_decoder_new_def NALU_MAXLEN_def)

text \<open>The statistics of lost packets: each time at least one packet is missing the gap
  counter goes up by one, but the counter of lost packets goes up by the difference of the
  sequence numbers, one more than the number \<open>n\<close> of packets lost, and when the sequence number
  wraps around inside the gap it goes down by almost 65536.\<close>

theorem lost_packet_statistics:
  assumes "0 < n" and "n < 65535" and "lastSequenceNumber d = int l" and "l < 65536"
    and "getSequence h = (l + 1 + n) mod 65536"
  shows "\<exists>d'. validateRTPPacket h d = (d', True) \<and> m_n_gaps d' = m_n_gaps d + 1 \<and>
           m_n_lost_packets d' = m_n_lost_packets d + int n + 1 -
             (if l + 1 + n < 65536 then 0 else 65536)"
proof -
  have "int ((l + 1 + n) mod 65536) =
      int l + int n + 1 - (if l + 1 + n < 65536 then 0 else 65536)"
    using assms(2,4) by (auto simp: mod_if)
  moreover have "(int l + 1) mod 65536 = (if l = 65535 then 0 else int l + 1)"
    using assms(4) by auto
  ultimately show ?thesis
    using assms by (auto simp: validateRTPPacket_def Let_def mod_if split: if_splits)
qed

theorem lost_packet_statistics_witness:
  "\<exists>d'. validateRTPPacket (rtp_header_of (hdr_seq 0 1))
      ((rtp_decoder_new True False)\<lparr>lastSequenceNumber := 65535\<rparr>) = (d', True) \<and>
     m_n_gaps d' = 1 \<and> m_n_lost_packets d' = -65534"
  using lost_packet_statistics [of 1 "(rtp_decoder_new True False)\<lparr>lastSequenceNumber := 65535\<rparr>"
      65535 "rtp_header_of (hdr_seq 0 1)"]
  by (simp add: getSequence_of be16_def rtp_decoder_new_def)

end
