(* ===== verification/Decimal.thy ===== *)
theory Decimal
  imports Prelude
begin

text \<open>
  Decimal texts as \<open>std::to_string\<close> and \<open>QString::number\<close> print them, and a reader that
  inverts the printer. Texts are lists of characters.
\<close>

definition digit_char :: "nat \<Rightarrow> char" where
  "digit_char d = char_of (48 + d)"

function nat_to_string :: "nat \<Rightarrow> string" where
  "nat_to_string n =
     (if n < 10 then [digit_char n] else nat_to_string (n div 10) @ [digit_char (n mod 10)])"
  by pat_completeness auto
termination
  by (relation "measure id") auto

declare nat_to_string.simps [simp del]

definition int_to_string :: "int \<Rightarrow> string" where
  "int_to_string i = (if i < 0 then CHR ''-'' # nat_to_string (nat (- i)) else nat_to_string (nat i))"

definition digit_value :: "char \<Rightarrow> nat" where
  "digit_value c = of_char c - 48"

definition string_to_nat :: "string \<Rightarrow> nat" where
  "string_to_nat s = foldl (\<lambda>n c. 10 * n + digit_value c) 0 s"

definition string_to_int :: "string \<Rightarrow> int" where
  "string_to_int s = (case s of [] \<Rightarrow> 0
     | c # cs \<Rightarrow> (if c = CHR ''-'' then - int (string_to_nat cs) else int (string_to_nat s)))"

lemma digit_value_char [simp]: "d < 10 \<Longrightarrow> digit_value (digit_char d) = d"
  by (simp add: digit_value_def digit_char_def)

lemma digit_char_not_minus: "d < 10 \<Longrightarrow> digit_char d \<noteq> CHR ''-''"
proof
  assume "d < 10" and "digit_char d = CHR ''-''"
  then have "(of_char (digit_char d) :: nat) = of_char (CHR ''-'')"
    by simp
  then show False
    using \<open>d < 10\<close> by (simp add: digit_char_def)
qed

lemma string_to_nat_snoc: "string_to_nat (s @ [c]) = 10 * string_to_nat s + digit_value c"
  by (simp add: string_to_nat_def)

lemma string_to_nat_to_string [simp]: "string_to_nat (nat_to_string n) = n"
proof (induction n rule: nat_to_string.induct)
  case (1 n)
  then show ?case
    by (subst nat_to_string.simps) (auto simp: string_to_nat_snoc, simp add: string_to_nat_def)
qed

lemma nat_to_string_head: "\<exists>d cs. d < 10 \<and> nat_to_string n = digit_char d # cs"
proof (induction n rule: nat_to_string.induct)
  case (1 n)
  show ?case
  proof (cases "n < 10")
    case True
    then show ?thesis by (subst nat_to_string.simps) auto
  next
    case False
    with 1 obtain d cs where "d < 10" "nat_to_string (n div 10) = digit_char d # cs" by blast
    with False show ?thesis by (subst nat_to_string.simps) auto
  qed
qed

lemma string_to_int_to_string [simp]: "string_to_int (int_to_string i) = i"
proof (cases "i < 0")
  case True
  then show ?thesis by (simp add: int_to_string_def string_to_int_def)
next
  case False
  obtain d cs where "d < 10" and h: "nat_to_string (nat i) = digit_char d # cs"
    using nat_to_string_head by blast
  then have "string_to_int (int_to_string i) = int (string_to_nat (nat_to_string (nat i)))"
    using False by (simp add: int_to_string_def string_to_int_def digit_char_not_minus)
  with False show ?thesis by simp
qed

lemma int_to_string_inj [simp]: "int_to_string i = int_to_string j \<longleftrightarrow> i = j"
  by (metis string_to_int_to_string)

end
