(* ===== verification/Nalu_Types.thy ===== *)
theory Nalu_Types
  imports Decimal
begin

text \<open>
  The NAL unit types of \<open>app/videostreaming/vscommon/nalu/NALUnitType.hpp\<close>: the two
  enumerations, the two \<open>switch\<close> statements that name a type, and what the names are worth.

  An enumeration is the list of its enumerators with their values, a switch the list of its
  cases, each the enumerator it tests and the text it assigns; the names of the enumerators are
  those of the source. A switch on \<open>n\<close> takes the case whose enumerator has the value \<open>n\<close>.
\<close>

section \<open>H.264\<close>

definition h264_enumerators :: "(string \<times> int) list" where
  "h264_enumerators = [
    (''NAL_UNIT_TYPE_UNSPECIFIED'', 0),
    (''NAL_UNIT_TYPE_CODED_SLICE_NON_IDR'', 1),
    (''NAL_UNIT_TYPE_CODED_SLICE_DATA_PARTITION_A'', 2),
    (''NAL_UNIT_TYPE_CODED_SLICE_DATA_PARTITION_B'', 3),
    (''NAL_UNIT_TYPE_CODED_SLICE_DATA_PARTITION_C'', 4),
    (''NAL_UNIT_TYPE_CODED_SLICE_IDR'', 5),
    (''NAL_UNIT_TYPE_SEI'', 6),
    (''NAL_UNIT_TYPE_SPS'', 7),
    (''NAL_UNIT_TYPE_PPS'', 8),
    (''NAL_UNIT_TYPE_AUD'', 9),
    (''NAL_UNIT_TYPE_END_OF_SEQUENCE'', 10),
    (''NAL_UNIT_TYPE_END_OF_STREAM'', 11),
    (''NAL_UNIT_TYPE_FILLER'', 12),
    (''NAL_UNIT_TYPE_SPS_EXT'', 13),
    (''NAL_UNIT_TYPE_PREFIX_NAL'', 14),
    (''NAL_UNIT_TYPE_SUBSET_SPS'', 15),
    (''NAL_UNIT_TYPE_DPS'', 16),
    (''NAL_UNIT_TYPE_CODED_SLICE_AUX'', 19),
    (''NAL_UNIT_TYPE_CODED_SLICE_SVC_EXTENSION'', 20)]"

definition h264_switch :: "(string \<times> string) list" where
  "h264_switch = [
    (''NAL_UNIT_TYPE_UNSPECIFIED'', ''NAL_UNIT_TYPE_UNSPECIFIED''),
    (''NAL_UNIT_TYPE_CODED_SLICE_NON_IDR'', ''NAL_UNIT_TYPE_CODED_SLICE_NON_IDR''),
    (''NAL_UNIT_TYPE_CODED_SLICE_DATA_PARTITION_A'', ''NAL_UNIT_TYPE_CODED_SLICE_DATA_PARTITION_A''),
    (''NAL_UNIT_TYPE_CODED_SLICE_DATA_PARTITION_B'', ''NAL_UNIT_TYPE_CODED_SLICE_DATA_PARTITION_B''),
    (''NAL_UNIT_TYPE_CODED_SLICE_DATA_PARTITION_C'', ''NAL_UNIT_TYPE_CODED_SLICE_DATA_PARTITION_C''),
    (''NAL_UNIT_TYPE_CODED_SLICE_IDR'', ''NAL_UNIT_TYPE_CODED_SLICE_IDR''),
    (''NAL_UNIT_TYPE_SEI'', ''NAL_UNIT_TYPE_SEI''),
    (''NAL_UNIT_TYPE_SPS'', ''NAL_UNIT_TYPE_SPS''),
    (''NAL_UNIT_TYPE_PPS'', ''NAL_UNIT_TYPE_PPS''),
    (''NAL_UNIT_TYPE_AUD'', ''NAL_UNIT_TYPE_AUD''),
    (''NAL_UNIT_TYPE_END_OF_SEQUENCE'', ''NAL_UNIT_TYPE_END_OF_SEQUENCE''),
    (''NAL_UNIT_TYPE_END_OF_STREAM'', ''NAL_UNIT_TYPE_END_OF_STREAM''),
    (''NAL_UNIT_TYPE_FILLER'', ''NAL_UNIT_TYPE_FILLER''),
    (''NAL_UNIT_TYPE_SPS_EXT'', ''SNAL_UNIT_TYPE_SPS_EXT''),
    (''NAL_UNIT_TYPE_CODED_SLICE_AUX'', ''NAL_UNIT_TYPE_CODED_SLICE_AUX'')]"

section \<open>H.265\<close>

text \<open>The first enumerator is 0 and every other one more than the one before it.\<close>

definition h265_enumerator_names :: "string list" where
  "h265_enumerator_names = [
    ''NAL_UNIT_CODED_SLICE_TRAIL_N'',
    ''NAL_UNIT_CODED_SLICE_TRAIL_R'',
    ''NAL_UNIT_CODED_SLICE_TSA_N'',
    ''NAL_UNIT_CODED_SLICE_TSA_R'',
    ''NAL_UNIT_CODED_SLICE_STSA_N'',
    ''NAL_UNIT_CODED_SLICE_STSA_R'',
    ''NAL_UNIT_CODED_SLICE_RADL_N'',
    ''NAL_UNIT_CODED_SLICE_RADL_R'',
    ''NAL_UNIT_CODED_SLICE_RASL_N'',
    ''NAL_UNIT_CODED_SLICE_RASL_R'',
    ''NAL_UNIT_RESERVED_VCL_N10'',
    ''NAL_UNIT_RESERVED_VCL_R11'',
    ''NAL_UNIT_RESERVED_VCL_N12'',
    ''NAL_UNIT_RESERVED_VCL_R13'',
    ''NAL_UNIT_RESERVED_VCL_N14'',
    ''NAL_UNIT_RESERVED_VCL_R15'',
    ''NAL_UNIT_CODED_SLICE_BLA_W_LP'',
    ''NAL_UNIT_CODED_SLICE_BLA_W_RADL'',
    ''NAL_UNIT_CODED_SLICE_BLA_N_LP'',
    ''NAL_UNIT_CODED_SLICE_IDR_W_RADL'',
    ''NAL_UNIT_CODED_SLICE_IDR_N_LP'',
    ''NAL_UNIT_CODED_SLICE_CRA'',
    ''NAL_UNIT_RESERVED_IRAP_VCL22'',
    ''NAL_UNIT_RESERVED_IRAP_VCL23'',
    ''NAL_UNIT_RESERVED_VCL24'',
    ''NAL_UNIT_RESERVED_VCL25'',
    ''NAL_UNIT_RESERVED_VCL26'',
    ''NAL_UNIT_RESERVED_VCL27'',
    ''NAL_UNIT_RESERVED_VCL28'',
    ''NAL_UNIT_RESERVED_VCL29'',
    ''NAL_UNIT_RESERVED_VCL30'',
    ''NAL_UNIT_RESERVED_VCL31'',
    ''NAL_UNIT_VPS'',
    ''NAL_UNIT_SPS'',
    ''NAL_UNIT_PPS'',
    ''NAL_UNIT_ACCESS_UNIT_DELIMITER'',
    ''NAL_UNIT_EOS'',
    ''NAL_UNIT_EOB'',
    ''NAL_UNIT_FILLER_DATA'',
    ''NAL_UNIT_PREFIX_SEI'',
    ''NAL_UNIT_SUFFIX_SEI'',
    ''NAL_UNIT_RESERVED_NVCL41'',
    ''NAL_UNIT_RESERVED_NVCL42'',
    ''NAL_UNIT_RESERVED_NVCL43'',
    ''NAL_UNIT_RESERVED_NVCL44'',
    ''NAL_UNIT_RESERVED_NVCL45'',
    ''NAL_UNIT_RESERVED_NVCL46'',
    ''NAL_UNIT_RESERVED_NVCL47'',
    ''NAL_UNIT_UNSPECIFIED_48'',
    ''NAL_UNIT_UNSPECIFIED_49'',
    ''NAL_UNIT_UNSPECIFIED_50'',
    ''NAL_UNIT_UNSPECIFIED_51'',
    ''NAL_UNIT_UNSPECIFIED_52'',
    ''NAL_UNIT_UNSPECIFIED_53'',
    ''NAL_UNIT_UNSPECIFIED_54'',
    ''NAL_UNIT_UNSPECIFIED_55'',
    ''NAL_UNIT_UNSPECIFIED_56'',
    ''NAL_UNIT_UNSPECIFIED_57'',
    ''NAL_UNIT_UNSPECIFIED_58'',
    ''NAL_UNIT_UNSPECIFIED_59'',
    ''NAL_UNIT_UNSPECIFIED_60'',
    ''NAL_UNIT_UNSPECIFIED_61'',
    ''NAL_UNIT_UNSPECIFIED_62'',
    ''NAL_UNIT_UNSPECIFIED_63'',
    ''NAL_UNIT_INVALID'']"

definition h265_enumerators :: "(string \<times> int) list" where
  "h265_enumerators = zip h265_enumerator_names (map int [0..<length h265_enumerator_names])"

definition h265_switch :: "(string \<times> string) list" where
  "h265_switch = [
    (''NAL_UNIT_CODED_SLICE_TRAIL_N'', ''NAL_UNIT_CODED_SLICE_TRAIL_N''),
    (''NAL_UNIT_CODED_SLICE_TRAIL_R'', ''NAL_UNIT_CODED_SLICE_TRAIL_R''),
    (''NAL_UNIT_CODED_SLICE_TSA_N'', ''NAL_UNIT_CODED_SLICE_TSA_N''),
    (''NAL_UNIT_CODED_SLICE_TSA_R'', ''NAL_UNIT_CODED_SLICE_TSA_R''),
    (''NAL_UNIT_CODED_SLICE_STSA_N'', ''NAL_UNIT_CODED_SLICE_STSA_N''),
    (''NAL_UNIT_CODED_SLICE_STSA_R'', ''NAL_UNIT_CODED_SLICE_STSA_R''),
    (''NAL_UNIT_CODED_SLICE_RADL_N'', ''NAL_UNIT_CODED_SLICE_RADL_N''),
    (''NAL_UNIT_CODED_SLICE_RADL_R'', ''NAL_UNIT_CODED_SLICE_RADL_R''),
    (''NAL_UNIT_CODED_SLICE_RASL_N'', ''NAL_UNIT_CODED_SLICE_RASL_N''),
    (''NAL_UNIT_CODED_SLICE_RASL_R'', ''NAL_UNIT_CODED_SLICE_RASL_R''),
    (''NAL_UNIT_RESERVED_VCL_N10'', ''NAL_UNIT_RESERVED_VCL_N10''),
    (''NAL_UNIT_RESERVED_VCL_R11'', ''NAL_UNIT_RESERVED_VCL_R11''),
    (''NAL_UNIT_RESERVED_VCL_N12'', ''NAL_UNIT_RESERVED_VCL_N12''),
    (''NAL_UNIT_RESERVED_VCL_R13'', ''NAL_UNIT_RESERVED_VCL_R13''),
    (''NAL_UNIT_RESERVED_VCL_N14'', ''NAL_UNIT_RESERVED_VCL_N14''),
    (''NAL_UNIT_RESERVED_VCL_R15'', ''NAL_UNIT_RESERVED_VCL_R15''),
    (''NAL_UNIT_CODED_SLICE_BLA_W_LP'', ''NAL_UNIT_CODED_SLICE_BLA_W_LP''),
    (''NAL_UNIT_CODED_SLICE_BLA_W_RADL'', ''NAL_UNIT_CODED_SLICE_BLA_W_RADL''),
    (''NAL_UNIT_CODED_SLICE_BLA_N_LP'', ''NAL_UNIT_CODED_SLICE_BLA_N_LP''),
    (''NAL_UNIT_CODED_SLICE_IDR_W_RADL'', ''NAL_UNIT_CODED_SLICE_IDR_W_RADL''),
    (''NAL_UNIT_CODED_SLICE_IDR_N_LP'', ''NAL_UNIT_CODED_SLICE_IDR_N_LP''),
    (''NAL_UNIT_CODED_SLICE_CRA'', ''NAL_UNIT_CODED_SLICE_CRA''),
    (''NAL_UNIT_RESERVED_IRAP_VCL22'', ''NAL_UNIT_RESERVED_IRAP_VCL22''),
    (''NAL_UNIT_RESERVED_IRAP_VCL23'', ''NAL_UNIT_RESERVED_IRAP_VCL23''),
    (''NAL_UNIT_RESERVED_VCL24'', ''NAL_UNIT_RESERVED_VCL24''),
    (''NAL_UNIT_RESERVED_VCL25'', ''NAL_UNIT_RESERVED_VCL25''),
    (''NAL_UNIT_RESERVED_VCL26'', ''NAL_UNIT_RESERVED_VCL26''),
    (''NAL_UNIT_RESERVED_VCL27'', ''NAL_UNIT_RESERVED_VCL27''),
    (''NAL_UNIT_RESERVED_VCL28'', ''NAL_UNIT_RESERVED_VCL28''),
    (''NAL_UNIT_RESERVED_VCL29'', ''NAL_UNIT_RESERVED_VCL29''),
    (''NAL_UNIT_RESERVED_VCL30'', ''NAL_UNIT_RESERVED_VCL30''),
    (''NAL_UNIT_RESERVED_VCL31'', ''NAL_UNIT_RESERVED_VCL31''),
    (''NAL_UNIT_VPS'', ''NAL_UNIT_VPS''),
    (''NAL_UNIT_SPS'', ''NAL_UNIT_SPS''),
    (''NAL_UNIT_PPS'', ''NAL_UNIT_PPS''),
    (''NAL_UNIT_ACCESS_UNIT_DELIMITER'', ''NAL_UNIT_ACCESS_UNIT_DELIMITER''),
    (''NAL_UNIT_EOS'', ''NAL_UNIT_EOS''),
    (''NAL_UNIT_EOB'', ''NAL_UNIT_EOB''),
    (''NAL_UNIT_FILLER_DATA'', ''NAL_UNIT_FILLER_DATA''),
    (''NAL_UNIT_PREFIX_SEI'', ''NAL_UNIT_PREFIX_SEI''),
    (''NAL_UNIT_SUFFIX_SEI'', ''NAL_UNIT_SUFFIX_SEI''),
    (''NAL_UNIT_RESERVED_NVCL41'', ''NAL_UNIT_RESERVED_NVCL41''),
    (''NAL_UNIT_RESERVED_NVCL42'', ''NAL_UNIT_RESERVED_NVCL42''),
    (''NAL_UNIT_RESERVED_NVCL43'', ''NAL_UNIT_RESERVED_NVCL43''),
    (''NAL_UNIT_RESERVED_NVCL44'', ''NAL_UNIT_RESERVED_NVCL44''),
    (''NAL_UNIT_RESERVED_NVCL45'', ''NAL_UNIT_RESERVED_NVCL45''),
    (''NAL_UNIT_RESERVED_NVCL46'', ''NAL_UNIT_RESERVED_NVCL46''),
    (''NAL_UNIT_RESERVED_NVCL47'', ''NAL_UNIT_RESERVED_NVCL47''),
    (''NAL_UNIT_UNSPECIFIED_48'', ''NAL_UNIT_UNSPECIFIED_48''),
    (''NAL_UNIT_UNSPECIFIED_49'', ''NAL_UNIT_UNSPECIFIED_49''),
    (''NAL_UNIT_UNSPECIFIED_50'', ''NAL_UNIT_UNSPECIFIED_50''),
    (''NAL_UNIT_UNSPECIFIED_51'', ''NAL_UNIT_UNSPECIFIED_51''),
    (''NAL_UNIT_UNSPECIFIED_52'', ''NAL_UNIT_UNSPECIFIED_52''),
    (''NAL_UNIT_UNSPECIFIED_53'', ''NAL_UNIT_UNSPECIFIED_53''),
    (''NAL_UNIT_UNSPECIFIED_54'', ''NAL_UNIT_UNSPECIFIED_54''),
    (''NAL_UNIT_UNSPECIFIED_55'', ''NAL_UNIT_UNSPECIFIED_55''),
    (''NAL_UNIT_UNSPECIFIED_56'', ''NAL_UNIT_UNSPECIFIED_56''),
    (''NAL_UNIT_UNSPECIFIED_57'', ''NAL_UNIT_UNSPECIFIED_57''),
    (''NAL_UNIT_UNSPECIFIED_58'', ''NAL_UNIT_UNSPECIFIED_58''),
    (''NAL_UNIT_UNSPECIFIED_59'', ''NAL_UNIT_UNSPECIFIED_59''),
    (''NAL_UNIT_UNSPECIFIED_60'', ''NAL_UNIT_UNSPECIFIED_60''),
    (''NAL_UNIT_UNSPECIFIED_61'', ''NAL_UNIT_UNSPECIFIED_61''),
    (''NAL_UNIT_UNSPECIFIED_62'', ''NAL_UNIT_UNSPECIFIED_62''),
    (''NAL_UNIT_UNSPECIFIED_63'', ''NAL_UNIT_UNSPECIFIED_63''),
    (''NAL_UNIT_INVALID'', ''NAL_UNIT_INVALID'')]"

section \<open>Naming a type\<close>

fun switch_on :: "(string \<times> int) list \<Rightarrow> (string \<times> string) list \<Rightarrow> int \<Rightarrow> string option" where
  "switch_on enum [] n = None"
| "switch_on enum ((label, text) # cases) n =
     (if map_of enum label = Some n then Some text else switch_on enum cases n)"

definition h264_unit_type_to_string :: "int \<Rightarrow> string" where
  "h264_unit_type_to_string n =
     (case switch_on h264_enumerators h264_switch n of
        Some nal_unit_type_name \<Rightarrow> nal_unit_type_name
      | None \<Rightarrow> ''Unknown'' @ int_to_string n)"

definition h265_unit_type_to_string :: "int \<Rightarrow> string" where
  "h265_unit_type_to_string n =
     (case switch_on h265_enumerators h265_switch n of
        Some nal_unit_type_name \<Rightarrow> nal_unit_type_name
      | None \<Rightarrow> ''Unknown'' @ int_to_string n)"

section \<open>What the names are worth\<close>

lemma h265_switch_diagonal: "h265_switch = map (\<lambda>x. (x, x)) h265_enumerator_names"
  by (simp add: h265_switch_def h265_enumerator_names_def)

lemma distinct_h265_names: "distinct h265_enumerator_names"
  unfolding h265_enumerator_names_def by code_simp

lemma length_h265_names [simp]: "length h265_enumerator_names = 65"
  by (simp add: h265_enumerator_names_def)

lemma h265_names_head: "x \<in> set h265_enumerator_names \<Longrightarrow> hd x = CHR ''N''"
proof -
  have "list_all (\<lambda>x. hd x = CHR ''N'') h265_enumerator_names"
    by (simp add: h265_enumerator_names_def)
  then show "x \<in> set h265_enumerator_names \<Longrightarrow> hd x = CHR ''N''"
    by (simp add: list_all_iff)
qed

text \<open>A switch that gives every enumerator its own name.\<close>

lemma switch_on_diagonal:
  "switch_on enum (map (\<lambda>x. (x, x)) xs) n = find (\<lambda>x. map_of enum x = Some n) xs"
  by (induction xs) auto

lemma h265_value:
  "i < 65 \<Longrightarrow> map_of h265_enumerators (h265_enumerator_names ! i) = Some (int i)"
  unfolding h265_enumerators_def
  by (subst map_of_zip_nth) (auto simp: distinct_h265_names)

lemma h265_switch_case:
  assumes "i < 65"
  shows "h265_unit_type_to_string (int i) = h265_enumerator_names ! i"
proof -
  have "find (\<lambda>x. map_of h265_enumerators x = Some (int i)) h265_enumerator_names
          = Some (h265_enumerator_names ! i)"
    using assms by (auto simp: find_Some_iff h265_value intro!: exI [of _ i])
  then show ?thesis
    by (simp add: h265_unit_type_to_string_def h265_switch_diagonal switch_on_diagonal)
qed

lemma h265_switch_default:
  assumes "\<not> (0 \<le> n \<and> n < 65)"
  shows "h265_unit_type_to_string n = ''Unknown'' @ int_to_string n"
proof -
  have "map_of h265_enumerators x \<noteq> Some n" for x
  proof
    assume "map_of h265_enumerators x = Some n"
    then have "n \<in> set (map int [0..<65])"
      unfolding h265_enumerators_def by (auto dest!: map_of_SomeD set_zip_rightD)
    with assms show False by auto
  qed
  then have "find (\<lambda>x. map_of h265_enumerators x = Some n) h265_enumerator_names = None"
    by (simp add: find_None_iff)
  then show ?thesis
    by (simp add: h265_unit_type_to_string_def h265_switch_diagonal switch_on_diagonal)
qed

lemma h265_name_head:
  "hd (h265_unit_type_to_string n) = (if 0 \<le> n \<and> n < 65 then CHR ''N'' else CHR ''U'')"
proof (cases "0 \<le> n \<and> n < 65")
  case True
  then obtain i where "n = int i" "i < 65"
    by (metis nat_int int_nat_eq nat_less_iff of_nat_numeral)
  with h265_names_head [of "h265_enumerator_names ! i"] True show ?thesis
    by (simp add: h265_switch_case)
qed (simp add: h265_switch_default)

text \<open>The text shown for an H.265 NAL unit type determines the type: for every integer,
  in the enumeration or not, two types with the same text are equal.\<close>

theorem h265_type_names_unique:
  "h265_unit_type_to_string m = h265_unit_type_to_string n \<longleftrightarrow> m = n"
proof
  assume eq: "h265_unit_type_to_string m = h265_unit_type_to_string n"
  then have heads: "(0 \<le> m \<and> m < 65) = (0 \<le> n \<and> n < 65)"
    using h265_name_head [of m] h265_name_head [of n] by (auto split: if_splits)
  show "m = n"
  proof (cases "0 \<le> n \<and> n < 65")
    case True
    with heads obtain i j where "m = int i" "i < 65" "n = int j" "j < 65"
      by (metis nat_int int_nat_eq nat_less_iff of_nat_numeral)
    with eq show ?thesis
      by (simp add: h265_switch_case nth_eq_iff_index_eq distinct_h265_names)
  next
    case False
    with heads eq show ?thesis
      by (simp add: h265_switch_default)
  qed
qed simp

text \<open>For H.264 the text is the enumerator's name, except for five types: the text for
  SPS extensions is misspelt, and the switch has no case for the types 14, 15, 16 and 20.\<close>

theorem h264_type_names_wrong:
  "[(name, v) \<leftarrow> h264_enumerators. h264_unit_type_to_string v \<noteq> name] =
     [(''NAL_UNIT_TYPE_SPS_EXT'', 13), (''NAL_UNIT_TYPE_PREFIX_NAL'', 14),
      (''NAL_UNIT_TYPE_SUBSET_SPS'', 15), (''NAL_UNIT_TYPE_DPS'', 16),
      (''NAL_UNIT_TYPE_CODED_SLICE_SVC_EXTENSION'', 20)]"
  by code_simp

end
