(* ===== verification/Nalu.thy ===== *)
theory Nalu
  imports Nalu_Types
begin

text \<open>
  The class \<open>NALU\<close> of \<open>app/videostreaming/vscommon/nalu/NALU.hpp\<close>: a view of one NAL unit
  with its start code, the checks of its constructor, and the classification of the unit. The
  copy \<open>NALUBuffer\<close> owns its bytes and is built by the same constructor, so a buffered
  NALU is a value of the same record.

  \<open>nalu_data\<close> are the \<open>m_data_len\<close> bytes at \<open>m_data\<close>. The prefix checks read byte by byte
  and stop at the first mismatch; a read past the end is \<open>Over_Read\<close>.
\<close>

section \<open>State and constructor\<close>

record nalu =
  nalu_data :: bytes
  IS_H265_PACKET :: bool
  creationTime :: int
  m_nalu_prefix_size :: nat

fun starts_with :: "bytes \<Rightarrow> bytes \<Rightarrow> bool result" where
  "starts_with [] bs = Inr True"
| "starts_with (p # ps) [] = Inl Over_Read"
| "starts_with (p # ps) (b # bs) = (if b = p then starts_with ps bs else Inr False)"

definition hasValidPrefixLong :: "bytes \<Rightarrow> bool result" where
  "hasValidPrefixLong p = starts_with [0, 0, 0, 1] p"

definition hasValidPrefixShort :: "bytes \<Rightarrow> bool result" where
  "hasValidPrefixShort p = starts_with [0, 0, 1] p"

definition hasValidPrefix :: "bytes \<Rightarrow> bool result" where
  "hasValidPrefix p =
     rbind (hasValidPrefixLong p) (\<lambda>long. if long then Inr True else hasValidPrefixShort p)"

definition get_nalu_prefix_size :: "bytes \<Rightarrow> nat result" where
  "get_nalu_prefix_size p =
     rbind (hasValidPrefixLong p) (\<lambda>long. if long then Inr 4 else Inr 3)"

definition getMinimumNaluSize :: "bool \<Rightarrow> nat" where
  "getMinimumNaluSize isH265 = (if isH265 then 6 else 5)"

definition NALU :: "bytes \<Rightarrow> bool \<Rightarrow> int \<Rightarrow> nalu result" where
  "NALU data is_h265 creation_time =
     rbind (hasValidPrefix data) (\<lambda>valid.
     rbind (rassert valid) (\<lambda>_.
     rbind (rassert (length data \<ge> getMinimumNaluSize is_h265)) (\<lambda>_.
     rbind (get_nalu_prefix_size data) (\<lambda>prefix_size.
     Inr \<lparr>nalu_data = data, IS_H265_PACKET = is_h265, creationTime = creation_time,
          m_nalu_prefix_size = prefix_size\<rparr>))))"

definition NALUBuffer :: "nalu \<Rightarrow> nalu result" where
  "NALUBuffer n = NALU (nalu_data n) (IS_H265_PACKET n) (creationTime n)"

section \<open>Accessors\<close>

definition getSize :: "nalu \<Rightarrow> nat" where
  "getSize n = length (nalu_data n)"

definition getDataWithoutPrefix :: "nalu \<Rightarrow> bytes" where
  "getDataWithoutPrefix n = drop (m_nalu_prefix_size n) (nalu_data n)"

definition get_nal_unit_type :: "nalu \<Rightarrow> nat" where
  "get_nal_unit_type n =
     (if IS_H265_PACKET n then unat (drop_bit 1 (getDataWithoutPrefix n ! 0 AND 0x7E))
      else unat (getDataWithoutPrefix n ! 0 AND 0x1f))"

definition get_nal_unit_type_as_string :: "nalu \<Rightarrow> string" where
  "get_nal_unit_type_as_string n =
     (if IS_H265_PACKET n then h265_unit_type_to_string (int (get_nal_unit_type n))
      else h264_unit_type_to_string (int (get_nal_unit_type n)))"

text \<open>The value of an enumerator of \<open>NALUnitType\<close>.\<close>

definition h264_type :: "string \<Rightarrow> nat" where
  "h264_type name = nat (the (map_of h264_enumerators name))"

definition h265_type_of :: "string \<Rightarrow> nat" where
  "h265_type_of name = nat (the (map_of h265_enumerators name))"

section \<open>Classification\<close>

definition isSPS :: "nalu \<Rightarrow> bool" where
  "isSPS n = (if IS_H265_PACKET n then get_nal_unit_type n = h265_type_of ''NAL_UNIT_SPS''
              else get_nal_unit_type n = h264_type ''NAL_UNIT_TYPE_SPS'')"

definition isPPS :: "nalu \<Rightarrow> bool" where
  "isPPS n = (if IS_H265_PACKET n then get_nal_unit_type n = h265_type_of ''NAL_UNIT_PPS''
              else get_nal_unit_type n = h264_type ''NAL_UNIT_TYPE_PPS'')"

definition isVPS :: "nalu \<Rightarrow> bool result" where
  "isVPS n = rbind (rassert (IS_H265_PACKET n))
               (\<lambda>_. Inr (get_nal_unit_type n = h265_type_of ''NAL_UNIT_VPS''))"

definition is_aud :: "nalu \<Rightarrow> bool" where
  "is_aud n = (if IS_H265_PACKET n
               then get_nal_unit_type n = h265_type_of ''NAL_UNIT_ACCESS_UNIT_DELIMITER''
               else get_nal_unit_type n = h264_type ''NAL_UNIT_TYPE_AUD'')"

definition is_sei :: "nalu \<Rightarrow> bool" where
  "is_sei n = (if IS_H265_PACKET n
               then get_nal_unit_type n = h265_type_of ''NAL_UNIT_PREFIX_SEI''
                    \<or> get_nal_unit_type n = h265_type_of ''NAL_UNIT_SUFFIX_SEI''
               else get_nal_unit_type n = h264_type ''NAL_UNIT_TYPE_SEI'')"

definition is_dps :: "nalu \<Rightarrow> bool" where
  "is_dps n = (if IS_H265_PACKET n then False
               else get_nal_unit_type n = h264_type ''NAL_UNIT_TYPE_DPS'')"

definition is_config :: "nalu \<Rightarrow> bool result" where
  "is_config n = (if isSPS n \<or> isPPS n then Inr True
                  else if IS_H265_PACKET n then isVPS n else Inr False)"

definition is_keyframe :: "nalu \<Rightarrow> bool" where
  "is_keyframe n = (if IS_H265_PACKET n then False
                    else get_nal_unit_type n = h264_type ''NAL_UNIT_TYPE_CODED_SLICE_IDR'')"

definition is_frame_but_not_keyframe :: "nalu \<Rightarrow> bool" where
  "is_frame_but_not_keyframe n =
     (if IS_H265_PACKET n then False
      else get_nal_unit_type n = h264_type ''NAL_UNIT_TYPE_CODED_SLICE_NON_IDR'')"

text \<open>\<open>webrtc::SpsParser::ParseSps\<close> is third-party code: the parameter \<open>parse_sps\<close>. It gets
  the SPS without its start code and its one header byte.\<close>

definition sps_get_width_height :: "(bytes \<Rightarrow> (int \<times> int) option) \<Rightarrow> nalu \<Rightarrow> (int \<times> int) result" where
  "sps_get_width_height parse_sps n =
     rbind (rassert (isSPS n)) (\<lambda>_.
     rbind (rassert (\<not> IS_H265_PACKET n)) (\<lambda>_.
     case parse_sps (drop 1 (getDataWithoutPrefix n)) of
       Some (width, height) \<Rightarrow> Inr (width, height)
     | None \<Rightarrow> Inr (640, 480)))"

section \<open>Start codes in raw memory\<close>

definition has_valid_prefix :: "bytes \<Rightarrow> bool result" where
  "has_valid_prefix p =
     rbind (starts_with [0, 0, 0, 1] p) (\<lambda>long. if long then Inr True else starts_with [0, 0, 1] p)"

definition write_prefix :: "bytes \<Rightarrow> bool \<Rightarrow> bytes" where
  "write_prefix p long_prefix = (if long_prefix then p[0 := 0, 1 := 0, 2 := 0, 3 := 1]
                                 else p[0 := 0, 1 := 0, 2 := 1])"

section \<open>The constructor\<close>

text \<open>A buffer a NALU can be made of: start code, and one header byte (two for H.265).\<close>

definition nalu_bytes_ok :: "bool \<Rightarrow> bytes \<Rightarrow> bool" where
  "nalu_bytes_ok is_h265 data \<longleftrightarrow>
     (take 4 data = [0, 0, 0, 1] \<or> take 3 data = [0, 0, 1])
       \<and> getMinimumNaluSize is_h265 \<le> length data"

definition nalu_of :: "bytes \<Rightarrow> bool \<Rightarrow> int \<Rightarrow> nalu" where
  "nalu_of data is_h265 t = \<lparr>nalu_data = data, IS_H265_PACKET = is_h265, creationTime = t,
     m_nalu_prefix_size = (if take 4 data = [0, 0, 0, 1] then 4 else 3)\<rparr>"

lemma nalu_of_sel [simp]:
  "nalu_data (nalu_of data h t) = data" "IS_H265_PACKET (nalu_of data h t) = h"
  "creationTime (nalu_of data h t) = t" "getSize (nalu_of data h t) = length data"
  by (simp_all add: nalu_of_def getSize_def)

lemma starts_with_take:
  "length ps \<le> length bs \<Longrightarrow> starts_with ps bs = Inr (take (length ps) bs = ps)"
  by (induction ps bs rule: starts_with.induct) auto

lemma starts_with_True: "starts_with ps bs = Inr True \<longleftrightarrow> take (length ps) bs = ps"
  by (induction ps bs rule: starts_with.induct) auto

lemma starts_with_long:
  "4 \<le> length bs \<Longrightarrow> starts_with [0, 0, 0, 1] bs = Inr (take 4 bs = [0, 0, 0, 1])"
  "starts_with [0, 0, 0, 1] bs = Inr True \<longleftrightarrow> take 4 bs = [0, 0, 0, 1]"
  using starts_with_take [of "[0, 0, 0, 1]" bs] starts_with_True [of "[0, 0, 0, 1]" bs]
  by (simp_all add: eval_nat_numeral)

lemma starts_with_short:
  "3 \<le> length bs \<Longrightarrow> starts_with [0, 0, 1] bs = Inr (take 3 bs = [0, 0, 1])"
  "starts_with [0, 0, 1] bs = Inr True \<longleftrightarrow> take 3 bs = [0, 0, 1]"
  using starts_with_take [of "[0, 0, 1]" bs] starts_with_True [of "[0, 0, 1]" bs]
  by (simp_all add: eval_nat_numeral)

lemma hasValidPrefix_True:
  "hasValidPrefix p = Inr True \<Longrightarrow> take 4 p = [0, 0, 0, 1] \<or> take 3 p = [0, 0, 1]"
  unfolding hasValidPrefix_def hasValidPrefixLong_def hasValidPrefixShort_def
  by (auto simp: result_simps starts_with_long starts_with_short split: if_splits)

lemma NALU_ok:
  assumes "nalu_bytes_ok is_h265 data"
  shows "NALU data is_h265 t = Inr (nalu_of data is_h265 t)"
proof -
  have "4 \<le> length data"
    using assms by (auto simp: nalu_bytes_ok_def getMinimumNaluSize_def split: if_splits)
  with assms show ?thesis
    by (auto simp: NALU_def hasValidPrefix_def hasValidPrefixLong_def hasValidPrefixShort_def
        get_nalu_prefix_size_def starts_with_long(1) starts_with_short(1) nalu_bytes_ok_def nalu_of_def)
qed

lemma NALU_Inr: "NALU data is_h265 t = Inr n \<longleftrightarrow> nalu_bytes_ok is_h265 data \<and> n = nalu_of data is_h265 t"
proof
  assume n: "NALU data is_h265 t = Inr n"
  then have ok: "nalu_bytes_ok is_h265 data"
    by (auto simp: NALU_def nalu_bytes_ok_def result_simps dest: hasValidPrefix_True)
  with n NALU_ok [OF ok, of t] show "nalu_bytes_ok is_h265 data \<and> n = nalu_of data is_h265 t"
    by simp
qed (simp add: NALU_ok)

lemma NALU_short_aborts:
  "take 4 data = [0, 0, 0, 1] \<Longrightarrow> length data < getMinimumNaluSize is_h265 \<Longrightarrow>
     NALU data is_h265 t = Inl Assert_Failed"
  by (cases "4 \<le> length data")
    (auto simp: NALU_def hasValidPrefix_def hasValidPrefixLong_def starts_with_long(1))

text \<open>A NALU the constructor has accepted.\<close>

definition nalu_ok :: "nalu \<Rightarrow> bool" where
  "nalu_ok n \<longleftrightarrow> NALU (nalu_data n) (IS_H265_PACKET n) (creationTime n) = Inr n"

lemma nalu_ok_of [simp]: "nalu_ok (nalu_of data h t) \<longleftrightarrow> nalu_bytes_ok h data"
  by (auto simp: nalu_ok_def NALU_Inr)

lemma nalu_ok_eq: "nalu_ok n \<Longrightarrow> n = nalu_of (nalu_data n) (IS_H265_PACKET n) (creationTime n)"
  by (simp add: nalu_ok_def NALU_Inr)

lemma NALUBuffer_copy [simp]: "nalu_ok n \<Longrightarrow> NALUBuffer n = Inr n"
  by (simp add: nalu_ok_def NALUBuffer_def)

section \<open>The classes are disjoint\<close>

lemma h264_type_values [simp]:
  "h264_type ''NAL_UNIT_TYPE_SPS'' = 7" "h264_type ''NAL_UNIT_TYPE_PPS'' = 8"
  "h264_type ''NAL_UNIT_TYPE_AUD'' = 9" "h264_type ''NAL_UNIT_TYPE_SEI'' = 6"
  "h264_type ''NAL_UNIT_TYPE_DPS'' = 16" "h264_type ''NAL_UNIT_TYPE_CODED_SLICE_IDR'' = 5"
  "h264_type ''NAL_UNIT_TYPE_CODED_SLICE_NON_IDR'' = 1"
  by (simp_all add: h264_type_def h264_enumerators_def)

lemma h265_type_of_nth: "i < 65 \<Longrightarrow> h265_type_of (h265_enumerator_names ! i) = i"
  by (simp add: h265_type_of_def h265_value)

lemma h265_type_values [simp]:
  "h265_type_of ''NAL_UNIT_VPS'' = 32" "h265_type_of ''NAL_UNIT_SPS'' = 33"
  "h265_type_of ''NAL_UNIT_PPS'' = 34" "h265_type_of ''NAL_UNIT_ACCESS_UNIT_DELIMITER'' = 35"
  "h265_type_of ''NAL_UNIT_PREFIX_SEI'' = 39" "h265_type_of ''NAL_UNIT_SUFFIX_SEI'' = 40"
  using h265_type_of_nth [of 32] h265_type_of_nth [of 33] h265_type_of_nth [of 34]
    h265_type_of_nth [of 35] h265_type_of_nth [of 39] h265_type_of_nth [of 40]
  by (simp_all add: h265_enumerator_names_def)

lemmas nalu_classes = isSPS_def isPPS_def isVPS_def is_aud_def is_sei_def is_dps_def
  is_config_def is_keyframe_def is_frame_but_not_keyframe_def

text \<open>Configuration data as one test on the type.\<close>

definition config_type :: "bool \<Rightarrow> nat \<Rightarrow> bool" where
  "config_type is_h265 t = (if is_h265 then t \<in> {32, 33, 34} else t \<in> {7, 8})"

lemma is_config_total: "is_config n = Inr (config_type (IS_H265_PACKET n) (get_nal_unit_type n))"
  by (auto simp: nalu_classes config_type_def)

lemma write_prefix_valid:
  assumes "(if long then 4 else 3) \<le> length p"
  shows "has_valid_prefix (write_prefix p long) = Inr True"
proof (cases long)
  case True
  then obtain a b c d rest where "p = a # b # c # d # rest"
    using assms by (auto simp: Suc_le_length_iff numeral_eq_Suc)
  with True show ?thesis
    by (simp add: has_valid_prefix_def write_prefix_def eval_nat_numeral)
next
  case False
  then obtain a b c rest where "p = a # b # c # rest"
    using assms by (auto simp: Suc_le_length_iff numeral_eq_Suc)
  with False show ?thesis
    by (simp add: has_valid_prefix_def write_prefix_def eval_nat_numeral)
qed

end
