(* ===== verification/Codec_Config.thy ===== *)
theory Codec_Config
  imports Nalu
begin

text \<open>
  The class \<open>CodecConfigFinder\<close> of
  \<open>app/videostreaming/vscommon/nalu/CodecConfigFinder.hpp\<close>: it keeps the newest parameter sets
  (SPS, PPS, for H.265 also VPS) seen in a stream of NALUs, tells when a decoder can be
  configured, hands out the configuration bytes and detects that a parameter set has changed.
  A null pointer is \<open>None\<close>; dereferencing it is \<open>Bad_Optional\<close>. Debug output is left out.
\<close>

section \<open>State and operations\<close>

record codec_config =
  SPS :: "nalu option"
  PPS :: "nalu option"
  VPS :: "nalu option"

definition codec_config_new :: codec_config where
  "codec_config_new = \<lparr>SPS = None, PPS = None, VPS = None\<rparr>"

definition deref :: "'a option \<Rightarrow> 'a result" where
  "deref p = (case p of None \<Rightarrow> Inl Bad_Optional | Some x \<Rightarrow> Inr x)"

definition save_if_config :: "nalu \<Rightarrow> codec_config \<Rightarrow> (codec_config \<times> bool) result" where
  "save_if_config n c =
     (if getSize n \<le> 0 then Inr (c, False)
      else if isSPS n then
        rbind (NALUBuffer n) (\<lambda>b. Inr (c\<lparr>SPS := Some b\<rparr>, True))
      else if isPPS n then
        rbind (NALUBuffer n) (\<lambda>b. Inr (c\<lparr>PPS := Some b\<rparr>, True))
      else
        rbind (if IS_H265_PACKET n then isVPS n else Inr False) (\<lambda>vps.
          if vps then rbind (NALUBuffer n) (\<lambda>b. Inr (c\<lparr>VPS := Some b\<rparr>, True))
          else Inr (c, False)))"

definition all_config_available :: "bool \<Rightarrow> codec_config \<Rightarrow> bool" where
  "all_config_available is_h265 c =
     (if is_h265 then SPS c \<noteq> None \<and> PPS c \<noteq> None \<and> VPS c \<noteq> None
      else SPS c \<noteq> None \<and> PPS c \<noteq> None)"

definition get_config_data :: "bool \<Rightarrow> codec_config \<Rightarrow> bytes result" where
  "get_config_data is_h265 c =
     rbind (rassert (all_config_available is_h265 c)) (\<lambda>_.
       if is_h265 then
         rbind (deref (SPS c)) (\<lambda>sps.
         rbind (deref (PPS c)) (\<lambda>pps.
         rbind (deref (VPS c)) (\<lambda>vps.
         let ret = replicate (getSize sps + getSize pps + getSize vps) 0 in
         rbind (write_slice ret 0 (nalu_data vps)) (\<lambda>ret1.
         let offset = getSize vps in
         rbind (write_slice ret1 offset (nalu_data sps)) (\<lambda>ret2.
         let offset2 = offset + getSize sps in
         write_slice ret2 offset2 (nalu_data pps))))))
       else
         rbind (deref (SPS c)) (\<lambda>sps.
         rbind (deref (PPS c)) (\<lambda>pps.
         let ret = replicate (getSize sps + getSize pps) 0 in
         rbind (write_slice ret 0 (nalu_data sps)) (\<lambda>ret1.
         write_slice ret1 (getSize sps) (nalu_data pps)))))"

definition compare_nalu :: "nalu \<Rightarrow> nalu \<Rightarrow> bool" where
  "compare_nalu n1 n2 = (if getSize n1 \<noteq> getSize n2 then False else nalu_data n1 = nalu_data n2)"

definition check_is_still_same_config_data :: "nalu \<Rightarrow> codec_config \<Rightarrow> bool result" where
  "check_is_still_same_config_data n c =
     rbind (rassert (all_config_available (IS_H265_PACKET n) c)) (\<lambda>_.
       if isSPS n then rbind (deref (SPS c)) (\<lambda>sps. Inr (compare_nalu n sps))
       else if isPPS n then rbind (deref (PPS c)) (\<lambda>pps. Inr (compare_nalu n pps))
       else
         rbind (if IS_H265_PACKET n then isVPS n else Inr False) (\<lambda>vps.
           if vps then rbind (deref (VPS c)) (\<lambda>v. Inr (compare_nalu n v)) else Inr True))"

definition appendNaluData :: "bytes \<Rightarrow> nalu \<Rightarrow> bytes" where
  "appendNaluData buff n = nalu_data n @ buff"

definition codec_config_reset :: "codec_config \<Rightarrow> codec_config" where
  "codec_config_reset c = c\<lparr>SPS := None, PPS := None, VPS := None\<rparr>"

definition config_width_height ::
  "(bytes \<Rightarrow> (int \<times> int) option) \<Rightarrow> codec_config \<Rightarrow> (int \<times> int) result" where
  "config_width_height parse_sps c =
     rbind (rassert (SPS c \<noteq> None)) (\<lambda>_.
     rbind (deref (SPS c)) (\<lambda>sps. sps_get_width_height parse_sps sps))"

definition getCSD0 :: "codec_config \<Rightarrow> nalu result" where
  "getCSD0 c = deref (SPS c)"

definition getCSD1 :: "codec_config \<Rightarrow> nalu result" where
  "getCSD1 c = deref (PPS c)"

definition getVPS :: "codec_config \<Rightarrow> nalu result" where
  "getVPS c = deref (VPS c)"

section \<open>The slots\<close>

lemma deref_simps [simp]: "deref (Some x) = Inr x" "deref None = Inl Bad_Optional"
  by (simp_all add: deref_def)

lemma compare_nalu_iff [simp]: "compare_nalu m n \<longleftrightarrow> nalu_data m = nalu_data n"
  by (auto simp: compare_nalu_def getSize_def)

lemma nalu_ok_size: "nalu_ok n \<Longrightarrow> 0 < getSize n"
  by (auto simp: nalu_ok_def NALU_Inr nalu_bytes_ok_def getSize_def getMinimumNaluSize_def
      split: if_splits)

definition isVPS_class :: "nalu \<Rightarrow> bool" where
  "isVPS_class n \<longleftrightarrow> IS_H265_PACKET n \<and> get_nal_unit_type n = 32"

text \<open>The slot a NALU belongs to, as an update.\<close>

definition config_save :: "nalu \<Rightarrow> codec_config \<Rightarrow> codec_config" where
  "config_save n c =
     (if isSPS n then c\<lparr>SPS := Some n\<rparr> else if isPPS n then c\<lparr>PPS := Some n\<rparr>
      else if isVPS_class n then c\<lparr>VPS := Some n\<rparr> else c)"

lemma classes_disjoint:
  "isSPS n \<Longrightarrow> \<not> isPPS n" "isSPS n \<Longrightarrow> \<not> isVPS_class n" "isPPS n \<Longrightarrow> \<not> isVPS_class n"
  by (auto simp: nalu_classes isVPS_class_def split: if_splits)

lemma is_config_classes: "is_config n = Inr (isSPS n \<or> isPPS n \<or> isVPS_class n)"
  by (auto simp: is_config_def isVPS_def isVPS_class_def)

lemma save_if_config_ok:
  assumes "nalu_ok n"
  shows "save_if_config n c = Inr (config_save n c, isSPS n \<or> isPPS n \<or> isVPS_class n)"
  using assms nalu_ok_size [OF assms]
  by (auto simp: save_if_config_def config_save_def isVPS_class_def isVPS_def)

lemma check_same_ok:
  assumes "all_config_available (IS_H265_PACKET n) c"
  shows "check_is_still_same_config_data n c =
    Inr ((isSPS n \<longrightarrow> nalu_data n = nalu_data (the (SPS c)))
       \<and> (isPPS n \<longrightarrow> nalu_data n = nalu_data (the (PPS c)))
       \<and> (isVPS_class n \<longrightarrow> nalu_data n = nalu_data (the (VPS c))))"
  using assms classes_disjoint [of n]
  by (auto simp: check_is_still_same_config_data_def all_config_available_def isVPS_def
      isVPS_class_def split: if_splits)

lemma get_config_data_264:
  "get_config_data False (c\<lparr>SPS := Some s, PPS := Some p\<rparr>) = Inr (nalu_data s @ nalu_data p)"
  using write_slice_fresh [of 0 "[]" "nalu_data s" "getSize s + getSize p" 0]
    write_slice_fresh [of "getSize s" "nalu_data s" "nalu_data p" "getSize p" 0]
  by (simp add: get_config_data_def all_config_available_def getSize_def)

lemma get_config_data_265:
  "get_config_data True \<lparr>SPS = Some s, PPS = Some p, VPS = Some v\<rparr>
     = Inr (nalu_data v @ nalu_data s @ nalu_data p)"
  using write_slice_fresh [of 0 "[]" "nalu_data v" "getSize s + getSize p + getSize v" 0]
    write_slice_fresh [of "getSize v" "nalu_data v" "nalu_data s" "getSize s + getSize p" 0]
    write_slice_fresh [of "getSize v + getSize s" "nalu_data v @ nalu_data s" "nalu_data p"
      "getSize p" 0]
  by (simp add: get_config_data_def all_config_available_def getSize_def)

section \<open>The configuration of a stream\<close>

text \<open>Feeding a stream of NALUs, and what its configuration bytes should be: the newest
  parameter sets, in the order the decoders want them.\<close>

definition save_stream :: "nalu list \<Rightarrow> codec_config \<Rightarrow> codec_config result" where
  "save_stream = rfold (\<lambda>n c. rbind (save_if_config n c) (\<lambda>(c', _). Inr c'))"

definition newest :: "(nalu \<Rightarrow> bool) \<Rightarrow> nalu list \<Rightarrow> nalu option" where
  "newest P ns = find P (rev ns)"

definition stream_config :: "bool \<Rightarrow> nalu list \<Rightarrow> bytes option" where
  "stream_config is_h265 ns =
     (case (newest isVPS_class ns, newest isSPS ns, newest isPPS ns) of
        (vps, Some sps, Some pps) \<Rightarrow>
          if \<not> is_h265 then Some (nalu_data sps @ nalu_data pps)
          else map_option (\<lambda>v. nalu_data v @ nalu_data sps @ nalu_data pps) vps
      | _ \<Rightarrow> None)"

definition config_after :: "nalu list \<Rightarrow> codec_config" where
  "config_after ns = \<lparr>SPS = newest isSPS ns, PPS = newest isPPS ns, VPS = newest isVPS_class ns\<rparr>"

lemma newest_snoc: "newest P (ns @ [n]) = (if P n then Some n else newest P ns)"
  by (simp add: newest_def)

lemma config_save_after: "config_save n (config_after ns) = config_after (ns @ [n])"
  using classes_disjoint [of n] by (simp add: config_save_def config_after_def newest_snoc)

lemma save_stream_after:
  "\<forall>n \<in> set ns. nalu_ok n \<Longrightarrow> save_stream ns codec_config_new = Inr (config_after ns)"
proof (induction ns rule: rev_induct)
  case Nil
  then show ?case
    by (simp add: save_stream_def codec_config_new_def config_after_def newest_def)
next
  case (snoc n ns)
  then show ?case
    by (simp add: save_stream_def rfold_append save_if_config_ok config_save_after)
qed

lemma get_config_data_after:
  "(if all_config_available h (config_after ns)
    then rbind (get_config_data h (config_after ns)) (\<lambda>d. Inr (Some d)) else Inr None)
   = Inr (stream_config h ns)"
proof (cases "newest isSPS ns = None \<or> newest isPPS ns = None")
  case True
  then show ?thesis
    by (auto simp: all_config_available_def config_after_def stream_config_def split: option.splits)
next
  case False
  then obtain s p where sp: "newest isSPS ns = Some s" "newest isPPS ns = Some p" by auto
  show ?thesis
  proof (cases h)
    case True
    with sp show ?thesis
      by (cases "newest isVPS_class ns")
        (simp_all add: all_config_available_def config_after_def stream_config_def get_config_data_265)
  next
    case False
    have "config_after ns = (config_after ns)\<lparr>SPS := Some s, PPS := Some p\<rparr>"
      by (simp add: config_after_def sp)
    then have "get_config_data False (config_after ns) = Inr (nalu_data s @ nalu_data p)"
      by (metis get_config_data_264)
    with False sp show ?thesis
      by (simp add: all_config_available_def config_after_def stream_config_def)
  qed
qed

text \<open>The finder fed with any stream of accepted NALUs has a configuration exactly when the
  stream has had every parameter set its codec needs, and then it is the newest ones: SPS and PPS
  for H.264; VPS, SPS and PPS, in this order, for H.265. No step faults.\<close>

theorem config_is_newest_parameter_sets:
  assumes "\<forall>n \<in> set ns. nalu_ok n"
  shows "\<exists>c. save_stream ns codec_config_new = Inr c \<and>
    (if all_config_available h c
     then rbind (get_config_data h c) (\<lambda>d. Inr (Some d)) else Inr None) = Inr (stream_config h ns)"
  using save_stream_after [OF assms] get_config_data_after by blast

definition demo_nalu :: "u8 \<Rightarrow> u8 \<Rightarrow> nalu" where
  "demo_nalu header b = nalu_of [0, 0, 0, 1, header, b] False 0"

lemma demo_nalu_ok: "nalu_ok (demo_nalu header b)"
  by (simp add: demo_nalu_def nalu_bytes_ok_def getMinimumNaluSize_def eval_nat_numeral)

text \<open>An SPS, an IDR slice, a PPS and a newer SPS.\<close>

theorem config_is_newest_parameter_sets_witness:
  "\<exists>c. save_stream [demo_nalu 0x67 1, demo_nalu 0x65 2, demo_nalu 0x68 3, demo_nalu 0x67 4]
         codec_config_new = Inr c \<and>
    (if all_config_available False c
     then rbind (get_config_data False c) (\<lambda>d. Inr (Some d)) else Inr None)
    = Inr (Some ([0, 0, 0, 1, 0x67, 4] @ [0, 0, 0, 1, 0x68, 3]))"
proof -
  have "stream_config False [demo_nalu 0x67 1, demo_nalu 0x65 2, demo_nalu 0x68 3, demo_nalu 0x67 4]
    = Some ([0, 0, 0, 1, 0x67, 4] @ [0, 0, 0, 1, 0x68, 3])"
    by (simp add: stream_config_def newest_def isSPS_def isPPS_def isVPS_class_def demo_nalu_def
        nalu_of_def get_nal_unit_type_def getDataWithoutPrefix_def)
  with config_is_newest_parameter_sets
    [of "[demo_nalu 0x67 1, demo_nalu 0x65 2, demo_nalu 0x68 3, demo_nalu 0x67 4]" False]
  show ?thesis
    by (simp add: demo_nalu_ok)
qed

end
