(* ===== verification/Frame_Queue.thy ===== *)
theory Frame_Queue
  imports Prelude
begin

text \<open>
  The bounded queue between the receiving thread and the decoder thread, \<open>ThreadsafeQueue\<close> of
  \<open>app/common/ThreadsafeQueue.hpp\<close>. Every member function runs its critical sections under
  one mutex, so a run of the program is a sequence of critical sections: an enqueue, a dequeue
  that finds an element, a dequeue that starts to wait, and the end of a wait, by a wake-up or by
  the time-out. \<open>queue_step\<close> is one critical section of one thread, \<open>queue_run\<close> any
  interleaving of them.
\<close>

section \<open>The contract of a bounded first-in first-out buffer\<close>

text \<open>\<open>put\<close> reports whether the element was taken; \<open>contents\<close> are the elements inside,
  oldest first.\<close>

locale bounded_fifo =
  fixes put :: "'a \<Rightarrow> 's \<Rightarrow> 's \<times> bool"
    and get :: "'s \<Rightarrow> ('a \<times> 's) option"
    and contents :: "'s \<Rightarrow> 'a list"
    and cap :: nat
  assumes put_room: "length (contents s) < cap \<Longrightarrow>
      snd (put x s) \<and> contents (fst (put x s)) = contents s @ [x]"
    and put_full: "cap \<le> length (contents s) \<Longrightarrow> put x s = (s, False)"
    and get_empty: "contents s = [] \<Longrightarrow> get s = None"
    and get_front: "contents s = x # xs \<Longrightarrow> \<exists>s'. get s = Some (x, s') \<and> contents s' = xs"
begin

lemma put_iff: "snd (put x s) \<longleftrightarrow> length (contents s) < cap"
  using put_room [of s x] put_full [of s x] by (cases "length (contents s) < cap") auto

lemma put_contents:
  "contents (fst (put x s)) = contents s @ (if snd (put x s) then [x] else [])"
  using put_room [of s x] put_full [of s x] put_iff [of x s]
  by (cases "length (contents s) < cap") auto

lemma put_bounded:
  "length (contents s) \<le> cap \<Longrightarrow> length (contents (fst (put x s))) \<le> cap"
  using put_iff [of x s] by (simp add: put_contents)

lemma get_Some: "get s = Some (x, s') \<Longrightarrow> contents s = x # contents s'"
  using get_empty [of s] get_front [of s] by (cases "contents s") auto

lemma get_None: "get s = None \<longleftrightarrow> contents s = []"
  using get_empty [of s] get_front [of s] by (cases "contents s") auto

text \<open>Offering a sequence of elements to a buffer nobody reads: the first ones that fit stay.\<close>

lemma put_all:
  assumes "length (contents s) \<le> cap"
  shows "contents (fold (\<lambda>x s. fst (put x s)) xs s)
           = contents s @ take (cap - length (contents s)) xs"
  using assms
proof (induction xs arbitrary: s)
  case Nil
  then show ?case by simp
next
  case (Cons x xs)
  have "length (contents (fst (put x s))) \<le> cap"
    using Cons.prems by (rule put_bounded)
  note Cons.IH [OF this]
  then show ?case
    using put_iff [of x s] Cons.prems
    by (cases "length (contents s) < cap") (auto simp: put_contents take_Cons')
qed

end

section \<open>The operations\<close>

text \<open>\<open>queue.size() >= m_capacity\<close> compares at the width of \<open>size_t\<close>.\<close>

definition try_enqueue :: "int \<Rightarrow> 'a \<Rightarrow> 'a list \<Rightarrow> 'a list \<times> bool" where
  "try_enqueue m_capacity element queue =
     (if length queue \<ge> unat (of_int m_capacity :: 64 word) then (queue, False)
      else (queue @ [element], True))"

text \<open>The first critical section of \<open>wait_dequeue_timed\<close>: nothing means that the caller waits.\<close>

definition dequeue_front :: "'a list \<Rightarrow> ('a \<times> 'a list) option" where
  "dequeue_front queue = (case queue of [] \<Rightarrow> None | tmp # rest \<Rightarrow> Some (tmp, rest))"

text \<open>After the wait, with the value of the predicate at its end.\<close>

definition dequeue_after_wait :: "bool \<Rightarrow> 'a list \<Rightarrow> ('a option \<times> 'a list) result" where
  "dequeue_after_wait res queue =
     (if \<not> res then Inr (None, queue)
      else rbind (rassert (queue \<noteq> [])) (\<lambda>_. Inr (Some (hd queue), tl queue)))"

text \<open>A call during which nothing else happens: the wait ends with the predicate as it was.\<close>

definition wait_dequeue_timed :: "'a list \<Rightarrow> ('a option \<times> 'a list) result" where
  "wait_dequeue_timed queue =
     (case dequeue_front queue of
        Some (tmp, rest) \<Rightarrow> Inr (Some tmp, rest)
      | None \<Rightarrow> dequeue_after_wait (queue \<noteq> []) queue)"

lemma unat_capacity: "0 \<le> c \<Longrightarrow> c < 2 ^ 31 \<Longrightarrow> unat (of_int c :: 64 word) = nat c"
  by (simp add: unat_eq_nat_uint uint_word_of_int_eq take_bit_int_eq_self)

interpretation frame_queue: bounded_fifo "try_enqueue 20" dequeue_front id 20
  by unfold_locales (auto simp: try_enqueue_def dequeue_front_def)

lemma wait_dequeue_timed_simps [simp]:
  "wait_dequeue_timed [] = Inr (None, [])" "wait_dequeue_timed (x # xs) = Inr (Some x, xs)"
  by (simp_all add: wait_dequeue_timed_def dequeue_front_def dequeue_after_wait_def)

section \<open>Threads\<close>

record 'a queue_state =
  queue_items :: "'a list"
  queue_waiting :: "nat set"

datatype 'a queue_event =
    Enqueue 'a bool
  | Wait_Begins nat
  | Returns nat "'a option"

definition queue_new :: "'a queue_state" where
  "queue_new = \<lparr>queue_items = [], queue_waiting = {}\<rparr>"

inductive queue_step :: "int \<Rightarrow> 'a queue_state \<Rightarrow> 'a queue_event \<Rightarrow> 'a queue_state \<Rightarrow> bool"
  for m_capacity :: int where
  enqueue: "try_enqueue m_capacity x (queue_items s) = (q, ok) \<Longrightarrow>
    queue_step m_capacity s (Enqueue x ok) (s\<lparr>queue_items := q\<rparr>)"
| dequeue: "t \<notin> queue_waiting s \<Longrightarrow> dequeue_front (queue_items s) = Some (x, q) \<Longrightarrow>
    queue_step m_capacity s (Returns t (Some x)) (s\<lparr>queue_items := q\<rparr>)"
| wait: "t \<notin> queue_waiting s \<Longrightarrow> dequeue_front (queue_items s) = None \<Longrightarrow>
    queue_step m_capacity s (Wait_Begins t) (s\<lparr>queue_waiting := insert t (queue_waiting s)\<rparr>)"
| wake: "t \<in> queue_waiting s \<Longrightarrow> queue_items s \<noteq> [] \<Longrightarrow>
    dequeue_after_wait True (queue_items s) = Inr (r, q) \<Longrightarrow>
    queue_step m_capacity s (Returns t r)
      (s\<lparr>queue_items := q, queue_waiting := queue_waiting s - {t}\<rparr>)"
| timeout: "t \<in> queue_waiting s \<Longrightarrow>
    dequeue_after_wait (queue_items s \<noteq> []) (queue_items s) = Inr (r, q) \<Longrightarrow>
    queue_step m_capacity s (Returns t r)
      (s\<lparr>queue_items := q, queue_waiting := queue_waiting s - {t}\<rparr>)"

inductive queue_run :: "int \<Rightarrow> 'a queue_event list \<Rightarrow> 'a queue_state \<Rightarrow> bool"
  for m_capacity :: int where
  start: "queue_run m_capacity [] queue_new"
| step: "queue_run m_capacity tr s \<Longrightarrow> queue_step m_capacity s e s' \<Longrightarrow>
    queue_run m_capacity (tr @ [e]) s'"

inductive_cases queue_stepE: "queue_step c s e s'"

fun accepted_by :: "'a queue_event \<Rightarrow> 'a list" where
  "accepted_by (Enqueue x True) = [x]"
| "accepted_by _ = []"

fun returned_by :: "'a queue_event \<Rightarrow> 'a list" where
  "returned_by (Returns t (Some x)) = [x]"
| "returned_by _ = []"

lemma try_enqueue_accepted:
  "try_enqueue c x q = (q', ok) \<Longrightarrow> q' = q @ accepted_by (Enqueue x ok)"
  by (auto simp: try_enqueue_def split: if_splits)

lemma dequeue_after_wait_returned:
  "dequeue_after_wait res q = Inr (r, q') \<Longrightarrow> q = returned_by (Returns t r) @ q'"
  by (cases q) (auto simp: dequeue_after_wait_def split: if_splits)

lemma dequeue_after_wait_length:
  "dequeue_after_wait res q = Inr (r, q') \<Longrightarrow> length q' \<le> length q"
  by (auto simp: dequeue_after_wait_def result_simps split: if_splits)

lemma queue_step_items:
  "queue_step c s e s' \<Longrightarrow> queue_items s @ accepted_by e = returned_by e @ queue_items s'"
  by (erule queue_stepE)
    (auto simp: dequeue_front_def dest: dequeue_after_wait_returned try_enqueue_accepted
      split: list.splits)

lemma queue_step_bounded:
  assumes "queue_step c s e s'" and "length (queue_items s) \<le> unat (of_int c :: 64 word)"
  shows "length (queue_items s') \<le> unat (of_int c :: 64 word)"
  using assms
  by (cases rule: queue_step.cases)
    (auto simp: try_enqueue_def dequeue_front_def split: list.splits if_splits
      dest: dequeue_after_wait_length)

lemma queue_run_invariant:
  assumes "queue_run c tr s"
  shows "concat (map accepted_by tr) = concat (map returned_by tr) @ queue_items s
       \<and> length (queue_items s) \<le> unat (of_int c :: 64 word)"
  using assms
proof (induction rule: queue_run.induct)
  case start
  then show ?case by (simp add: queue_new_def)
next
  case (step tr s e s')
  then show ?case
    using queue_step_items [OF step.hyps(2)] queue_step_bounded [OF step.hyps(2)] by simp
qed

lemma queue_step_refused:
  assumes "queue_step c s e s'"
  shows "(\<forall>x. e = Enqueue x False \<longrightarrow> unat (of_int c :: 64 word) \<le> length (queue_items s))
       \<and> (\<forall>t. e = Returns t None \<longrightarrow> queue_items s = [])"
  using assms
  by (cases rule: queue_step.cases)
    (auto simp: try_enqueue_def dequeue_after_wait_def split: if_splits)

text \<open>C13. In every interleaving of producers and consumers the elements returned so far are
  the elements accepted so far, in the same order, less those still in the queue, which are at
  most the capacity; an element is refused only when the queue is full, and a consumer goes away
  empty-handed only when the queue is empty.\<close>

theorem queue_fifo_bounded:
  assumes "queue_run m_capacity (tr @ [e]) s'" and "0 \<le> m_capacity" and "m_capacity < 2 ^ 31"
  shows "\<exists>s. queue_run m_capacity tr s \<and>
     concat (map accepted_by (tr @ [e])) = concat (map returned_by (tr @ [e])) @ queue_items s'
     \<and> length (queue_items s') \<le> nat m_capacity
     \<and> (\<forall>x. e = Enqueue x False \<longrightarrow> length (queue_items s) = nat m_capacity)
     \<and> (\<forall>t. e = Returns t None \<longrightarrow> queue_items s = [])"
proof -
  obtain s where s: "queue_run m_capacity tr s" "queue_step m_capacity s e s'"
    using assms(1) by (cases rule: queue_run.cases) auto
  show ?thesis
    using queue_run_invariant [OF assms(1)] queue_run_invariant [OF s(1)]
      queue_step_refused [OF s(2)] s(1) unat_capacity [OF assms(2,3)]
    by (intro exI [of _ s]) auto
qed

text \<open>Capacity 1: a consumer waits, an element comes and is returned to it, a second one comes,
  a third is refused.\<close>

lemma demo_queue_run:
  "queue_run 1 [Wait_Begins 7, Enqueue CHR ''a'' True, Returns 7 (Some (CHR ''a'')),
      Enqueue CHR ''b'' True, Enqueue CHR ''c'' False]
     \<lparr>queue_items = ''b'', queue_waiting = {}\<rparr>"
proof -
  note st = queue_run.step
  have r1: "queue_run 1 [Wait_Begins 7] \<lparr>queue_items = '''', queue_waiting = {7}\<rparr>"
    using st [OF queue_run.start queue_step.wait [of 7]]
    by (simp add: queue_new_def dequeue_front_def)
  have r2: "queue_run 1 ([Wait_Begins 7] @ [Enqueue CHR ''a'' True])
      \<lparr>queue_items = ''a'', queue_waiting = {7}\<rparr>"
    using st [OF r1 queue_step.enqueue [of 1 "CHR ''a''" _ "''a''" True]]
    by (simp add: try_enqueue_def)
  have r3: "queue_run 1 (([Wait_Begins 7] @ [Enqueue CHR ''a'' True]) @ [Returns 7 (Some (CHR ''a''))])
      \<lparr>queue_items = '''', queue_waiting = {}\<rparr>"
    using st [OF r2 queue_step.wake [of 7 _ "Some (CHR ''a'')" "''''"]]
    by (simp add: dequeue_after_wait_def)
  have r4: "queue_run 1 ((([Wait_Begins 7] @ [Enqueue CHR ''a'' True]) @ [Returns 7 (Some (CHR ''a''))])
        @ [Enqueue CHR ''b'' True])
      \<lparr>queue_items = ''b'', queue_waiting = {}\<rparr>"
    using st [OF r3 queue_step.enqueue [of 1 "CHR ''b''" _ "''b''" True]]
    by (simp add: try_enqueue_def)
  show ?thesis
    using st [OF r4 queue_step.enqueue [of 1 "CHR ''c''" _ "''b''" False]]
    by (simp add: try_enqueue_def)
qed

theorem queue_fifo_bounded_witness:
  "\<exists>s. queue_run 1 [Wait_Begins 7, Enqueue CHR ''a'' True, Returns 7 (Some (CHR ''a'')),
      Enqueue CHR ''b'' True] s \<and> length (queue_items s) = 1"
  using queue_fifo_bounded
    [of 1 "[Wait_Begins 7, Enqueue CHR ''a'' True, Returns 7 (Some (CHR ''a'')), Enqueue CHR ''b'' True]"
      "Enqueue CHR ''c'' False" "\<lparr>queue_items = ''b'', queue_waiting = {}\<rparr>"] demo_queue_run
  by auto

end
