(* ===== verification/Video_Receiver.thy ===== *)
theory Video_Receiver
  imports Rtp_Safety Codec_Config Frame_Queue "HOL-Library.Sublist"
begin

text \<open>
  The class \<open>RTPReceiver\<close> of \<open>app/videostreaming/vscommon/rtp/rtpreceiver.h\<close> and
  \<open>rtpreceiver.cpp\<close>: UDP packets go through the depacketiser, each NALU it forwards through
  \<open>queue_data\<close>, which first collects the parameter sets, then queues the video frames for the
  decoder thread (or hands them to a registered callback) and watches for a change of the
  parameter sets. \<open>BitrateCalculator\<close> and \<open>FPSCalculator\<close> of \<open>app/common/TimeHelper.hpp\<close>
  are part of its state.

  The calls of \<open>DecodingStatistcs\<close> and \<open>HUDLogMessagesModel\<close> are recorded in
  \<open>statistics\<close>; a rate is recorded as the number of bits or frames and the milliseconds it is
  the quotient of. \<open>now\<close> (nanoseconds) is the clock while one packet is handled. Both mutexes
  make the handlers atomic. The dump file is never opened (\<open>if(false)\<close> in the constructor).
\<close>

section \<open>State\<close>

datatype statistic =
    Measured_Bitrate "64 word" int
  | Missing_Rtp_Packets int
  | Keyframe_Interval int
  | Keyframe_Interval_More_Than int
  | Rtp_Fps int int
  | Decoder_Dropped_Frames int
  | Decoder_Unhealthy

record bitrate_calculator =
  nBytes :: "64 word"
  first_time :: bool
  last_caluclation :: int

record fps_calculator =
  m_n_frames_since_last :: int
  m_last_n_nalus_recalculation :: int

record rtp_receiver =
  is_h265 :: bool
  m_rtp_decoder :: rtp_decoder
  m_keyframe_finder :: codec_config
  m_data_queue :: "nalu list"
  m_new_nalu_cb :: bool
  cb_calls :: "nalu list"
  config_has_changed_during_decode :: bool
  n_dropped_frames :: int
  n_frames_non_idr :: int
  n_frames_idr :: int
  m_rtp_bitrate :: bitrate_calculator
  m_estimate_fps_calculator :: fps_calculator
  m_last_log_hud_dropped_frame :: int
  statistics :: "statistic list"

abbreviation seconds :: "int \<Rightarrow> int" where
  "seconds n \<equiv> n * 1000000000"

abbreviation milliseconds_of :: "int \<Rightarrow> int" where
  "milliseconds_of t \<equiv> t div 1000000"

text \<open>The member \<open>nBytes\<close> has no initialiser: its first value is a parameter.\<close>

definition rtp_receiver_new :: "64 word \<Rightarrow> int \<Rightarrow> bool \<Rightarrow> bool \<Rightarrow> rtp_receiver" where
  "rtp_receiver_new garbage now h265 feed_incomplete_frames = \<lparr>
     is_h265 = h265, m_rtp_decoder = rtp_decoder_new True feed_incomplete_frames,
     m_keyframe_finder = codec_config_new, m_data_queue = [], m_new_nalu_cb = False,
     cb_calls = [], config_has_changed_during_decode = False, n_dropped_frames = 0,
     n_frames_non_idr = 0, n_frames_idr = 0,
     m_rtp_bitrate = \<lparr>nBytes = garbage, first_time = True, last_caluclation = 0\<rparr>,
     m_estimate_fps_calculator =
       \<lparr>m_n_frames_since_last = 0, m_last_n_nalus_recalculation = now\<rparr>,
     m_last_log_hud_dropped_frame = now, statistics = []\<rparr>"

abbreviation report :: "statistic list \<Rightarrow> rtp_receiver \<Rightarrow> rtp_receiver" where
  "report xs r \<equiv> r\<lparr>statistics := statistics r @ xs\<rparr>"

section \<open>Rates\<close>

definition addBytes :: "int \<Rightarrow> nat \<Rightarrow> bitrate_calculator \<Rightarrow> bitrate_calculator \<times> statistic list" where
  "addBytes now bytes b =
     (let b1 = b\<lparr>nBytes := nBytes b + of_nat bytes\<rparr> in
      if first_time b1 then (b1\<lparr>first_time := False, last_caluclation := now\<rparr>, [])
      else
        let delta = now - last_caluclation b1 in
        if delta \<ge> seconds 1 then
          (b1\<lparr>nBytes := 0, last_caluclation := now\<rparr>,
           [Measured_Bitrate (nBytes b1 * 8) (milliseconds_of delta)])
        else (b1, []))"

definition on_new_frame :: "fps_calculator \<Rightarrow> fps_calculator" where
  "on_new_frame f = f\<lparr>m_n_frames_since_last := m_n_frames_since_last f + 1\<rparr>"

definition time_since_last_recalculation :: "int \<Rightarrow> fps_calculator \<Rightarrow> int" where
  "time_since_last_recalculation now f = now - m_last_n_nalus_recalculation f"

definition recalculate_fps_and_clear :: "int \<Rightarrow> fps_calculator \<Rightarrow> fps_calculator \<times> statistic" where
  "recalculate_fps_and_clear now f =
     (\<lparr>m_n_frames_since_last = 0, m_last_n_nalus_recalculation = now\<rparr>,
      Rtp_Fps (m_n_frames_since_last f) (milliseconds_of (now - m_last_n_nalus_recalculation f)))"

section \<open>The handlers\<close>

text \<open>The estimate of the keyframe interval.\<close>

definition count_frame :: "nalu \<Rightarrow> rtp_receiver \<Rightarrow> rtp_receiver" where
  "count_frame n r =
     (let r1 = (if is_frame_but_not_keyframe n
                then r\<lparr>n_frames_non_idr := n_frames_non_idr r + 1\<rparr> else r);
          r2 = (if is_keyframe n then r1\<lparr>n_frames_idr := n_frames_idr r1 + 1\<rparr> else r1);
          r3 = (if n_frames_idr r2 \<ge> 3
                then (report [Keyframe_Interval
                         ((n_frames_non_idr r2 + n_frames_idr r2) div n_frames_idr r2)] r2)
                       \<lparr>n_frames_idr := 0, n_frames_non_idr := 0\<rparr>
                else r2)
      in if n_frames_non_idr r3 > 60 * 3 \<and> n_frames_idr r3 = 0
         then report [Keyframe_Interval_More_Than (n_frames_non_idr r3)] r3 else r3)"

definition estimate_fps :: "int \<Rightarrow> rtp_receiver \<Rightarrow> rtp_receiver" where
  "estimate_fps now r =
     (let f = on_new_frame (m_estimate_fps_calculator r) in
      if time_since_last_recalculation now f > seconds 2 then
        let (f', fps) = recalculate_fps_and_clear now f
        in report [fps] (r\<lparr>m_estimate_fps_calculator := f'\<rparr>)
      else r\<lparr>m_estimate_fps_calculator := f\<rparr>)"

definition deliver_frame :: "int \<Rightarrow> nalu \<Rightarrow> rtp_receiver \<Rightarrow> rtp_receiver result" where
  "deliver_frame now n r =
     (if m_new_nalu_cb r then Inr (r\<lparr>cb_calls := cb_calls r @ [n]\<rparr>)
      else
        rbind (NALUBuffer n) (\<lambda>buffer.
        case try_enqueue 20 buffer (m_data_queue r) of
          (q, True) \<Rightarrow> Inr (r\<lparr>m_data_queue := q\<rparr>)
        | (q, False) \<Rightarrow>
            let r1 = r\<lparr>m_data_queue := q, n_dropped_frames := n_dropped_frames r + 1\<rparr>;
                r2 = report [Decoder_Dropped_Frames (n_dropped_frames r1)] r1
            in Inr (if now - m_last_log_hud_dropped_frame r2 > seconds 3
                    then (report [Decoder_Unhealthy] r2)\<lparr>m_last_log_hud_dropped_frame := now\<rparr>
                    else r2)))"

definition queue_data :: "int \<Rightarrow> bytes \<Rightarrow> rtp_receiver \<Rightarrow> rtp_receiver result" where
  "queue_data now data r =
     rbind (NALU data (is_h265 r) now) (\<lambda>n.
     let r1 = count_frame n r in
     if all_config_available (is_h265 r1) (m_keyframe_finder r1) then
       rbind (check_is_still_same_config_data n (m_keyframe_finder r1)) (\<lambda>same.
       if \<not> same then Inr (r1\<lparr>config_has_changed_during_decode := True\<rparr>)
       else
         rbind (is_config n) (\<lambda>config.
         if config then Inr r1
         else if is_aud n then Inr r1
         else if is_sei n then Inr r1
         else if is_dps n then Inr r1
         else deliver_frame now n (estimate_fps now r1)))
     else
       rbind (save_if_config n (m_keyframe_finder r1)) (\<lambda>(c, _).
       Inr (r1\<lparr>m_keyframe_finder := c\<rparr>)))"

definition nalu_data_callback :: "int \<Rightarrow> bytes \<Rightarrow> rtp_receiver \<Rightarrow> rtp_receiver result" where
  "nalu_data_callback now data r = queue_data now data r"

text \<open>The decoder calls \<open>nalu_data_callback\<close> for each NALU it forwards; nothing in the callback
  touches the decoder.\<close>

definition udp_raw_data_callback :: "int \<Rightarrow> bytes \<Rightarrow> rtp_receiver \<Rightarrow> rtp_receiver result" where
  "udp_raw_data_callback now pkt r =
     (let (b, stats) = addBytes now (length pkt) (m_rtp_bitrate r);
          r1 = report stats (r\<lparr>m_rtp_bitrate := b\<rparr>);
          d = m_rtp_decoder r1
      in rbind (if is_h265 r1 then parseRTPH265toNALU now pkt d
                else parseRTPH264toNALU now pkt d) (\<lambda>d'.
         rfold (\<lambda>(creation_time, nalu). nalu_data_callback now nalu)
           (drop (length (forwarded d)) (forwarded d')) (r1\<lparr>m_rtp_decoder := d'\<rparr>)))"

text \<open>The receiver thread's callback, set up in the constructor.\<close>

definition on_udp_packet :: "int \<Rightarrow> bytes \<Rightarrow> rtp_receiver \<Rightarrow> rtp_receiver result" where
  "on_udp_packet now pkt r =
     rbind (udp_raw_data_callback now pkt r) (\<lambda>r'.
     Inr (report [Missing_Rtp_Packets (m_n_gaps (m_rtp_decoder r'))] r'))"

definition receive_packets :: "(int \<times> bytes) list \<Rightarrow> rtp_receiver \<Rightarrow> rtp_receiver result" where
  "receive_packets = rfold (\<lambda>(now, pkt). on_udp_packet now pkt)"

definition get_next_frame :: "rtp_receiver \<Rightarrow> (nalu option \<times> rtp_receiver) result" where
  "get_next_frame r =
     rbind (wait_dequeue_timed (m_data_queue r)) (\<lambda>(x, q). Inr (x, r\<lparr>m_data_queue := q\<rparr>))"

definition register_new_nalu_callback :: "bool \<Rightarrow> rtp_receiver \<Rightarrow> rtp_receiver" where
  "register_new_nalu_callback cb r = r\<lparr>m_new_nalu_cb := cb\<rparr>"

definition receiver_get_config_data :: "rtp_receiver \<Rightarrow> bytes option result" where
  "receiver_get_config_data r =
     (if all_config_available (is_h265 r) (m_keyframe_finder r)
      then rbind (get_config_data (is_h265 r) (m_keyframe_finder r)) (\<lambda>d. Inr (Some d))
      else Inr None)"

definition receiver_width_height ::
  "(bytes \<Rightarrow> (int \<times> int) option) \<Rightarrow> rtp_receiver \<Rightarrow> (int \<times> int) result" where
  "receiver_width_height parse_sps r = config_width_height parse_sps (m_keyframe_finder r)"

end
