(* ===== verification/Video_Stream.thy ===== *)
theory Video_Stream
  imports Video_Receiver
begin

text \<open>
  The H.264 video path end to end. \<open>video_step\<close> specifies what a receiver does with a stream of
  NALUs; the handlers of \<open>RTPReceiver\<close> behind the depacketiser implement it, packet by packet.
\<close>

section \<open>The decoder only adds to its calls\<close>

definition extends :: "rtp_decoder \<Rightarrow> rtp_decoder \<Rightarrow> bool" where
  "extends d d' \<longleftrightarrow> prefix (forwarded d) (forwarded d')"

lemma extends_refl [simp]: "extends d d"
  by (simp add: extends_def)

lemma extends_trans: "extends d d1 \<Longrightarrow> extends d1 d2 \<Longrightarrow> extends d d2"
  unfolding extends_def by (rule prefix_order.trans)

lemma extends_same: "forwarded d' = forwarded d \<Longrightarrow> extends d d'"
  by (simp add: extends_def)

lemma append_forwarded:
  "append_nalu_data data d = Inr d' \<Longrightarrow> forwarded d' = forwarded d"
  "append_nalu_data_byte b d = Inr d' \<Longrightarrow> forwarded d' = forwarded d"
  by (auto simp: append_nalu_data_byte_def append_nalu_data_def split: if_splits)

lemma write_start_forwarded:
  "write_h264_h265_nalu_start four d = Inr d' \<Longrightarrow> forwarded d' = forwarded d"
  by (cases four) (auto simp: write_h264_h265_nalu_start_def result_simps dest!: append_forwarded)

lemma forwardNALU_extends: "extends d (forwardNALU d)"
  by (simp add: forwardNALU_def extends_def)

lemma forwardNALU_reset_extends:
  "forwarded d1 = forwarded d \<Longrightarrow> extends d ((forwardNALU d1)\<lparr>m_curr_nalu := []\<rparr>)"
  using forwardNALU_extends [of d1] by (simp add: extends_def)

lemma h264_reconstruct_extends:
  "h264_reconstruct_and_forward_one_nalu now p off sz d = Inr d' \<Longrightarrow> extends d d'"
  by (auto simp: h264_reconstruct_and_forward_one_nalu_def Let_def result_simps
      dest!: append_forwarded write_start_forwarded intro!: forwardNALU_reset_extends)

lemma h264_aggregated_extends: "h264_aggregated now p off d = Inr d' \<Longrightarrow> extends d d'"
proof (induction now p off d rule: h264_aggregated.induct)
  case (1 now p off d)
  from "1.prems" show ?case
    by (subst (asm) h264_aggregated.simps)
      (use "1.IH" h264_reconstruct_extends extends_trans
        in \<open>fastforce split: sum.splits if_splits\<close>)
qed

lemma forwardNALU_prefix:
  "forwarded d1 = forwarded d \<Longrightarrow> prefix (forwarded d) (forwarded (forwardNALU d1))"
  using forwardNALU_extends [of d1] by (simp add: extends_def)

lemma h264_fu_extends: "h264_fu now p d = Inr d' \<Longrightarrow> extends d d'"
  by (auto simp: h264_fu_def Let_def result_simps extends_def split: if_splits
      dest!: append_forwarded write_start_forwarded intro!: forwardNALU_prefix)

lemma validate_forwarded: "validateRTPPacket h d = (d', b) \<Longrightarrow> forwarded d' = forwarded d"
  by (auto simp: validateRTPPacket_def Let_def split: if_splits)

lemma h264_dispatch_extends: "h264_dispatch now p d = Inr d' \<Longrightarrow> extends d d'"
  by (auto simp: h264_dispatch_def result_simps split: if_splits
      dest: h264_fu_extends h264_reconstruct_extends h264_aggregated_extends)

lemma h264_parse_extends: "parseRTPH264toNALU now pkt d = Inr d' \<Longrightarrow> extends d d'"
proof (cases "length pkt \<le> 13")
  case False
  assume *: "parseRTPH264toNALU now pkt d = Inr d'"
  obtain d1 b where v: "validateRTPPacket (rtp_header_of pkt) d = (d1, b)" by fastforce
  with * False show ?thesis
    using extends_same [OF validate_forwarded [OF v]] h264_dispatch_extends extends_trans
    by (cases b) (auto simp: parseRTPH264toNALU_def RTPPacket_def result_simps)
qed (simp add: parseRTPH264toNALU_def)

lemma h265_forward_extends:
  "h265_forward_one_nalu now p off sz four d = Inr d' \<Longrightarrow> extends d d'"
  by (auto simp: h265_forward_one_nalu_def Let_def result_simps
      dest!: append_forwarded write_start_forwarded intro!: forwardNALU_reset_extends)

lemma h265_aggregated_extends: "h265_aggregated now p off d = Inr d' \<Longrightarrow> extends d d'"
proof (induction now p off d rule: h265_aggregated.induct)
  case (1 now p off d)
  from "1.prems" show ?case
    by (subst (asm) h265_aggregated.simps)
      (use "1.IH" h265_forward_extends extends_trans
        in \<open>fastforce split: sum.splits if_splits\<close>)
qed

lemma h265_fu_extends: "h265_fu now pkt p d = Inr d' \<Longrightarrow> extends d d'"
  by (auto simp: h265_fu_def Let_def result_simps dest!: append_forwarded write_start_forwarded
      intro: extends_same forwardNALU_reset_extends split: if_splits)

lemma h265_dispatch_extends: "h265_dispatch now pkt p d = Inr d' \<Longrightarrow> extends d d'"
  by (auto simp: h265_dispatch_def result_simps split: if_splits
      dest: h265_fu_extends h265_forward_extends h265_aggregated_extends)

lemma h265_parse_extends: "parseRTPH265toNALU now pkt d = Inr d' \<Longrightarrow> extends d d'"
proof (cases "length pkt \<le> 14")
  case False
  assume *: "parseRTPH265toNALU now pkt d = Inr d'"
  obtain d1 b where v: "validateRTPPacket (rtp_header_of pkt) d = (d1, b)" by fastforce
  with * False show ?thesis
    using extends_same [OF validate_forwarded [OF v]] h265_dispatch_extends extends_trans
    by (cases b) (auto simp: parseRTPH265toNALU_def RTPPacket_def result_simps)
qed (simp add: parseRTPH265toNALU_def)

section \<open>What the receiver promises for H.264\<close>

text \<open>The abstract state: the parameter sets in use, the frames waiting for the decoder, and
  whether a different parameter set has been seen. A frame is a NALU behind its start code.\<close>

record video_state =
  v_sps :: "bytes option"
  v_pps :: "bytes option"
  v_frames :: "bytes list"
  v_changed :: bool

definition frame_type :: "bytes \<Rightarrow> nat" where
  "frame_type f = h264_nal_type (f ! 4)"

definition video_step :: "bytes \<Rightarrow> video_state \<Rightarrow> video_state" where
  "video_step f v =
     (case (v_sps v, v_pps v) of
        (Some sps, Some pps) \<Rightarrow>
          if frame_type f = 7 \<and> f \<noteq> sps \<or> frame_type f = 8 \<and> f \<noteq> pps then v\<lparr>v_changed := True\<rparr>
          else if frame_type f \<in> {6, 7, 8, 9, 16} \<or> 20 \<le> length (v_frames v) then v
          else v\<lparr>v_frames := v_frames v @ [f]\<rparr>
      | _ \<Rightarrow>
          if frame_type f = 7 then v\<lparr>v_sps := Some f\<rparr>
          else if frame_type f = 8 then v\<lparr>v_pps := Some f\<rparr> else v)"

definition video_state_of :: "rtp_receiver \<Rightarrow> video_state" where
  "video_state_of r = \<lparr>
     v_sps = map_option nalu_data (SPS (m_keyframe_finder r)),
     v_pps = map_option nalu_data (PPS (m_keyframe_finder r)),
     v_frames = map nalu_data (m_data_queue r),
     v_changed = config_has_changed_during_decode r\<rparr>"

section \<open>The handlers implement it\<close>

lemma count_frame_sel [simp]:
  "is_h265 (count_frame n r) = is_h265 r" "m_rtp_decoder (count_frame n r) = m_rtp_decoder r"
  "m_keyframe_finder (count_frame n r) = m_keyframe_finder r"
  "m_data_queue (count_frame n r) = m_data_queue r"
  "m_new_nalu_cb (count_frame n r) = m_new_nalu_cb r" "cb_calls (count_frame n r) = cb_calls r"
  "config_has_changed_during_decode (count_frame n r) = config_has_changed_during_decode r"
  by (simp_all add: count_frame_def Let_def)

lemma estimate_fps_sel [simp]:
  "is_h265 (estimate_fps t r) = is_h265 r" "m_rtp_decoder (estimate_fps t r) = m_rtp_decoder r"
  "m_keyframe_finder (estimate_fps t r) = m_keyframe_finder r"
  "m_data_queue (estimate_fps t r) = m_data_queue r"
  "m_new_nalu_cb (estimate_fps t r) = m_new_nalu_cb r" "cb_calls (estimate_fps t r) = cb_calls r"
  "config_has_changed_during_decode (estimate_fps t r) = config_has_changed_during_decode r"
  by (simp_all add: estimate_fps_def Let_def split: prod.split)

lemma mask_5_bitfield: "(b :: u8) AND 0x1f = bitfield b 0 5"
  by (simp add: bitfield_def mask_eq_exp_minus_1)

lemma nal_type_of_frame:
  assumes "take 4 f = [0, 0, 0, 1]" "5 \<le> length f"
  shows "get_nal_unit_type (nalu_of f False t) = frame_type f"
  using assms by (simp add: get_nal_unit_type_def getDataWithoutPrefix_def nalu_of_def frame_type_def
      h264_nal_type_def mask_5_bitfield)

lemma check_has_valid_prefix_take:
  "check_has_valid_prefix f True \<longleftrightarrow> take 4 f = [0, 0, 0, 1] \<and> 5 \<le> length f"
proof (cases "5 \<le> length f")
  case True
  then obtain a b c d rest where "f = a # b # c # d # rest"
    by (auto simp: Suc_le_length_iff numeral_eq_Suc)
  with True show ?thesis
    by (auto simp: check_has_valid_prefix_def nth_Cons numeral_eq_Suc)
qed (simp add: check_has_valid_prefix_def)

lemma deliver_frame_queue:
  assumes "\<not> m_new_nalu_cb r" and "nalu_ok n"
  shows "\<exists>r'. deliver_frame now n r = Inr r' \<and> is_h265 r' = is_h265 r
    \<and> m_rtp_decoder r' = m_rtp_decoder r \<and> m_keyframe_finder r' = m_keyframe_finder r
    \<and> m_new_nalu_cb r' = m_new_nalu_cb r
    \<and> config_has_changed_during_decode r' = config_has_changed_during_decode r
    \<and> m_data_queue r' = (if 20 \<le> length (m_data_queue r) then m_data_queue r
                          else m_data_queue r @ [n])"
  using assms by (simp add: deliver_frame_def try_enqueue_def Let_def)

text \<open>What a decoder has no use for: parameter sets, delimiters, SEI and DPS.\<close>

lemma skip_264:
  assumes "\<not> IS_H265_PACKET n"
  shows "rbind (is_config n) (\<lambda>config. if config then A else if is_aud n then A
           else if is_sei n then A else if is_dps n then A else B)
         = (if get_nal_unit_type n \<in> {6, 7, 8, 9, 16} then A else B)"
  using assms by (simp add: is_config_total config_type_def is_aud_def is_sei_def is_dps_def)

definition runs_264 :: "rtp_receiver \<Rightarrow> bool" where
  "runs_264 r \<longleftrightarrow> \<not> is_h265 r \<and> \<not> m_new_nalu_cb r"

lemma frame_nalu:
  assumes "check_has_valid_prefix f True"
  shows "nalu_ok (nalu_of f False now)" "NALU f False now = Inr (nalu_of f False now)"
    "get_nal_unit_type (nalu_of f False now) = frame_type f"
proof -
  have f: "take 4 f = [0, 0, 0, 1]" "5 \<le> length f"
    using assms by (simp_all add: check_has_valid_prefix_take)
  then show ok: "nalu_ok (nalu_of f False now)"
    by (simp add: nalu_bytes_ok_def getMinimumNaluSize_def)
  then show "NALU f False now = Inr (nalu_of f False now)"
    by (simp add: nalu_ok_def)
  show "get_nal_unit_type (nalu_of f False now) = frame_type f"
    using f by (rule nal_type_of_frame)
qed

text \<open>Before the configuration is complete.\<close>

lemma queue_data_collecting:
  assumes "\<not> is_h265 r" and "check_has_valid_prefix f True"
    and "\<not> all_config_available False (m_keyframe_finder r)"
  shows "queue_data now f r = Inr ((count_frame (nalu_of f False now) r)
           \<lparr>m_keyframe_finder := config_save (nalu_of f False now) (m_keyframe_finder r)\<rparr>)"
  using assms frame_nalu [OF assms(2), of now]
  by (simp add: queue_data_def Let_def save_if_config_ok)

lemma collecting_implements:
  assumes "\<not> is_h265 r" and "check_has_valid_prefix f True"
    and "\<not> all_config_available False (m_keyframe_finder r)"
  shows "video_state_of (r'\<lparr>m_keyframe_finder := config_save (nalu_of f False now) (m_keyframe_finder r)\<rparr>)
       = video_step f (video_state_of (r'\<lparr>m_keyframe_finder := m_keyframe_finder r\<rparr>))"
proof -
  let ?n = "nalu_of f False now" and ?c = "m_keyframe_finder r"
  have types: "isSPS ?n = (frame_type f = 7)" "isPPS ?n = (frame_type f = 8)" "\<not> isVPS_class ?n"
    using frame_nalu [OF assms(2), of now] by (simp_all add: isSPS_def isPPS_def isVPS_class_def)
  show ?thesis
    using assms(3)
    by (cases "SPS ?c"; cases "PPS ?c")
      (simp_all add: video_state_of_def video_step_def config_save_def types all_config_available_def)
qed

text \<open>Once it is complete.\<close>

abbreviation new_parameter_set :: "bytes \<Rightarrow> nalu \<Rightarrow> nalu \<Rightarrow> bool" where
  "new_parameter_set f s p \<equiv>
     frame_type f = 7 \<and> f \<noteq> nalu_data s \<or> frame_type f = 8 \<and> f \<noteq> nalu_data p"

lemma queue_data_configured:
  assumes "\<not> is_h265 r" and "check_has_valid_prefix f True"
    and "SPS (m_keyframe_finder r) = Some s" and "PPS (m_keyframe_finder r) = Some p"
  shows "queue_data now f r =
    (let n = nalu_of f False now; r1 = count_frame n r in
     if new_parameter_set f s p then Inr (r1\<lparr>config_has_changed_during_decode := True\<rparr>)
     else if frame_type f \<in> {6, 7, 8, 9, 16} then Inr r1
     else deliver_frame now n (estimate_fps now r1))"
proof -
  let ?n = "nalu_of f False now" and ?c = "m_keyframe_finder r"
  note n = frame_nalu [OF assms(2), of now]
  have all: "all_config_available False ?c" and h: "is_h265 r = False"
    using assms by (simp_all add: all_config_available_def)
  have same: "check_is_still_same_config_data ?n ?c = Inr (\<not> new_parameter_set f s p)"
    using all check_same_ok [of ?n ?c] n assms(3,4)
    by (auto simp: isSPS_def isPPS_def isVPS_class_def)
  show ?thesis
    unfolding queue_data_def n h Let_def rbind.simps count_frame_sel same
    using all by (simp only: skip_264 nalu_of_sel n if_True not_False_eq_True) simp
qed

lemma video_step_configured:
  assumes "v_sps v = Some (nalu_data s)" and "v_pps v = Some (nalu_data p)"
  shows "video_step f v =
    (if new_parameter_set f s p then v\<lparr>v_changed := True\<rparr>
     else if frame_type f \<in> {6, 7, 8, 9, 16} then v
     else if 20 \<le> length (v_frames v) then v else v\<lparr>v_frames := v_frames v @ [f]\<rparr>)"
  unfolding video_step_def assms option.case prod.case by argo

lemma configured_implements:
  assumes "runs_264 r" and "check_has_valid_prefix f True"
    and "SPS (m_keyframe_finder r) = Some s" and "PPS (m_keyframe_finder r) = Some p"
  shows "\<exists>r'. queue_data now f r = Inr r' \<and> video_state_of r' = video_step f (video_state_of r)
    \<and> runs_264 r' \<and> m_rtp_decoder r' = m_rtp_decoder r"
proof -
  let ?n = "nalu_of f False now" and ?v = "video_state_of r"
  let ?r = "count_frame ?n r"
  have h: "\<not> is_h265 r" using assms(1) by (simp add: runs_264_def)
  note q = queue_data_configured [OF h assms(2-4), of now, unfolded Let_def]
  have v: "v_sps ?v = Some (nalu_data s)" "v_pps ?v = Some (nalu_data p)"
    using assms(3,4) by (simp_all add: video_state_of_def)
  note step = video_step_configured [OF v, of f]
  consider (changed) "new_parameter_set f s p"
    | (skipped) "\<not> new_parameter_set f s p" "frame_type f \<in> {6, 7, 8, 9, 16}"
    | (frame) "\<not> new_parameter_set f s p" "frame_type f \<notin> {6, 7, 8, 9, 16}"
    by blast
  then show ?thesis
  proof cases
    case changed
    show ?thesis
      unfolding q step if_P [OF changed] using assms(1)
      by (simp add: runs_264_def video_state_of_def)
  next
    case skipped
    show ?thesis
      unfolding q step if_not_P [OF skipped(1)] if_P [OF skipped(2)] using assms(1)
      by (simp add: runs_264_def video_state_of_def)
  next
    case frame
    have "\<not> m_new_nalu_cb (estimate_fps now ?r)"
      using assms(1) by (simp add: runs_264_def)
    from deliver_frame_queue [OF this frame_nalu(1) [OF assms(2), of now], of now] obtain r'
      where r': "deliver_frame now ?n (estimate_fps now ?r) = Inr r'" "runs_264 r'"
        "m_rtp_decoder r' = m_rtp_decoder r" "m_keyframe_finder r' = m_keyframe_finder r"
        "config_has_changed_during_decode r' = config_has_changed_during_decode r"
        "m_data_queue r' = (if 20 \<le> length (m_data_queue r) then m_data_queue r
                            else m_data_queue r @ [?n])"
      using assms(1) by (auto simp: runs_264_def)
    show ?thesis
      unfolding q step if_not_P [OF frame(1)] if_not_P [OF frame(2)]
      using r' by (simp add: video_state_of_def)
  qed
qed

lemma queue_data_implements:
  assumes "runs_264 r" and "check_has_valid_prefix f True"
  shows "\<exists>r'. queue_data now f r = Inr r' \<and> video_state_of r' = video_step f (video_state_of r)
    \<and> runs_264 r' \<and> m_rtp_decoder r' = m_rtp_decoder r"
proof (cases "all_config_available False (m_keyframe_finder r)")
  case True
  then show ?thesis
    using configured_implements [OF assms] by (auto simp: all_config_available_def)
next
  case False
  have h: "\<not> is_h265 r" using assms(1) by (simp add: runs_264_def)
  show ?thesis
    using queue_data_collecting [OF h assms(2) False, of now]
      collecting_implements [OF h assms(2) False, of now "count_frame (nalu_of f False now) r"]
      assms(1)
    by (simp add: runs_264_def video_state_of_def)
qed

lemma frames_implement:
  assumes "runs_264 r" and "list_all (\<lambda>(t, f). check_has_valid_prefix f True) fs"
  shows "\<exists>r'. rfold (\<lambda>(t, f). nalu_data_callback now f) fs r = Inr r'
    \<and> video_state_of r' = fold video_step (map snd fs) (video_state_of r)
    \<and> runs_264 r' \<and> m_rtp_decoder r' = m_rtp_decoder r"
  using assms
proof (induction fs arbitrary: r)
  case Nil
  then show ?case by simp
next
  case (Cons f fs)
  obtain r1 where r1: "queue_data now (snd f) r = Inr r1"
    "video_state_of r1 = video_step (snd f) (video_state_of r)"
    "runs_264 r1" "m_rtp_decoder r1 = m_rtp_decoder r"
    using queue_data_implements [OF Cons.prems(1), of "snd f" now] Cons.prems(2) by auto
  from Cons.IH [OF r1(3)] Cons.prems(2) obtain r'
    where "rfold (\<lambda>(t, f). nalu_data_callback now f) fs r1 = Inr r'"
      "video_state_of r' = fold video_step (map snd fs) (video_state_of r1)"
      "runs_264 r'" "m_rtp_decoder r' = m_rtp_decoder r1"
    by auto
  with r1 show ?case
    by (intro exI [of _ r'], cases f) (simp add: nalu_data_callback_def [abs_def])
qed

text \<open>The frames a run of the decoder has added.\<close>

definition new_frames :: "rtp_decoder \<Rightarrow> rtp_decoder \<Rightarrow> (int \<times> bytes) list" where
  "new_frames d d' = drop (length (forwarded d)) (forwarded d')"

lemma new_frames_refl [simp]: "new_frames d d = []"
  by (simp add: new_frames_def)

lemma new_frames_trans:
  "extends d d1 \<Longrightarrow> extends d1 d2 \<Longrightarrow> new_frames d d2 = new_frames d d1 @ new_frames d1 d2"
  by (auto simp: extends_def new_frames_def prefix_def)

lemma packet_implements:
  assumes "runs_264 r" and "decoder_inv (m_rtp_decoder r)"
    and "parseRTPH264toNALU now pkt (m_rtp_decoder r) = Inr d'"
  shows "\<exists>r'. on_udp_packet now pkt r = Inr r' \<and> runs_264 r' \<and> m_rtp_decoder r' = d'
    \<and> video_state_of r' = fold video_step (map snd (new_frames (m_rtp_decoder r) d'))
                              (video_state_of r)"
proof -
  let ?d = "m_rtp_decoder r"
  obtain b stats where b: "addBytes now (length pkt) (m_rtp_bitrate r) = (b, stats)"
    by fastforce
  let ?r = "(report stats (r\<lparr>m_rtp_bitrate := b\<rparr>))\<lparr>m_rtp_decoder := d'\<rparr>"
  have run: "runs_264 ?r" and st: "video_state_of ?r = video_state_of r"
    using assms(1) by (simp_all add: runs_264_def video_state_of_def)
  have "decoder_inv d'"
    using parseRTPH264toNALU_inv [OF assms(3,2)] .
  then have "list_all (\<lambda>(t, f). check_has_valid_prefix f True) (new_frames ?d d')"
    by (auto simp: decoder_inv_def new_frames_def list_all_iff frame_ok_def dest!: in_set_dropD)
  from frames_implement [OF run this, of now] obtain r1
    where r1: "rfold (\<lambda>(t, f). nalu_data_callback now f) (new_frames ?d d') ?r = Inr r1"
      "video_state_of r1 = fold video_step (map snd (new_frames ?d d')) (video_state_of r)"
      "runs_264 r1" "m_rtp_decoder r1 = d'"
    unfolding st by auto
  have u: "udp_raw_data_callback now pkt r = Inr r1"
    using assms(1,3) r1(1) by (simp add: udp_raw_data_callback_def b runs_264_def new_frames_def)
  show ?thesis
    using r1 by (simp add: on_udp_packet_def u runs_264_def video_state_of_def)
qed

lemma packets_implement:
  assumes "runs_264 r" and "decoder_inv (m_rtp_decoder r)"
    and "parse_stream_h264 pkts (m_rtp_decoder r) = Inr d'"
  shows "\<exists>r'. receive_packets pkts r = Inr r' \<and> runs_264 r' \<and> m_rtp_decoder r' = d'
    \<and> extends (m_rtp_decoder r) d'
    \<and> video_state_of r' = fold video_step (map snd (new_frames (m_rtp_decoder r) d'))
                              (video_state_of r)"
  using assms
proof (induction pkts arbitrary: r)
  case Nil
  then show ?case by (simp add: receive_packets_def parse_stream_h264_def)
next
  case (Cons p pkts)
  obtain now pkt where p: "p = (now, pkt)" by fastforce
  from Cons.prems(3) obtain d1 where d1: "parseRTPH264toNALU now pkt (m_rtp_decoder r) = Inr d1"
    "parse_stream_h264 pkts d1 = Inr d'"
    by (auto simp: parse_stream_h264_def p result_simps)
  from packet_implements [OF Cons.prems(1,2) d1(1)] obtain r1
    where r1: "on_udp_packet now pkt r = Inr r1" "runs_264 r1" "m_rtp_decoder r1 = d1"
      "video_state_of r1 = fold video_step (map snd (new_frames (m_rtp_decoder r) d1))
         (video_state_of r)"
    by blast
  have "decoder_inv (m_rtp_decoder r1)"
    using parseRTPH264toNALU_inv [OF d1(1) Cons.prems(2)] r1(3) by simp
  from Cons.IH [OF r1(2) this] d1(2) r1(3) obtain r' where
    r': "receive_packets pkts r1 = Inr r'" "runs_264 r'" "m_rtp_decoder r' = d'" "extends d1 d'"
      "video_state_of r' = fold video_step (map snd (new_frames d1 d')) (video_state_of r1)"
    by auto
  have e: "extends (m_rtp_decoder r) d1" using h264_parse_extends [OF d1(1)] .
  then show ?case
    using r1 r' extends_trans [OF e r'(4)] new_frames_trans [OF e r'(4)]
    by (intro exI [of _ r']) (simp add: receive_packets_def p)
qed

lemma snd_expected_frames:
  "map snd (expected_frames payloads nalus us pkts)
     = map (\<lambda>n. start_code @ n) (concat (map nalus us))"
  by (induction us arbitrary: pkts) (auto simp: comp_def)

section \<open>End to end\<close>

text \<open>C2. A receiver for H.264 fed with any sequence of NALUs sent in order (alone, aggregated or
  fragmented, the sequence numbers starting anywhere) does not fault and does with them what the
  specification \<open>video_step\<close> says: it keeps the first SPS and PPS, then queues the NALUs that
  are frames while there is room, and notices a parameter set that differs.\<close>

theorem h264_receiver_end_to_end:
  assumes "rtp_sent seq (concat (map h264_unit_payloads us)) pkts"
    and "list_all h264_unit_ok us" and "between_units seq (m_rtp_decoder r)"
    and "decoder_inv (m_rtp_decoder r)" and "\<not> is_h265 r" and "\<not> m_new_nalu_cb r"
  shows "\<exists>r'. receive_packets pkts r = Inr r' \<and>
    video_state_of r' = fold video_step (map (\<lambda>n. start_code @ n) (concat (map h264_unit_nalus us)))
                             (video_state_of r)"
proof -
  have run: "runs_264 r" using assms(5,6) by (simp add: runs_264_def)
  obtain d' where d': "parse_stream_h264 pkts (m_rtp_decoder r) = Inr d'"
    "forwarded d' = forwarded (m_rtp_decoder r) @ expected_frames h264_unit_payloads h264_unit_nalus us pkts"
    using h264s.stream_delivered [OF assms(1-3)] by (auto simp: parse_stream_h264_def)
  then have "map snd (new_frames (m_rtp_decoder r) d')
      = map (\<lambda>n. start_code @ n) (concat (map h264_unit_nalus us))"
    by (simp add: new_frames_def snd_expected_frames)
  with packets_implement [OF run assms(4) d'(1)] show ?thesis
    by auto
qed

lemma fresh_264:
  "runs_264 (rtp_receiver_new g t False feed)"
  "decoder_inv (m_rtp_decoder (rtp_receiver_new g t False feed))"
  "between_units seq (m_rtp_decoder (rtp_receiver_new g t False feed))"
  "\<not> is_h265 (rtp_receiver_new g t False feed)" "\<not> m_new_nalu_cb (rtp_receiver_new g t False feed)"
  "video_state_of (rtp_receiver_new g t False feed)
     = \<lparr>v_sps = None, v_pps = None, v_frames = [], v_changed = False\<rparr>"
  by (simp_all add: rtp_receiver_new_def runs_264_def decoder_inv_new between_units_def expects_def
      video_state_of_def codec_config_new_def) (simp_all add: rtp_decoder_new_def)

theorem h264_receiver_end_to_end_witness:
  "\<exists>r'. receive_packets demo_packets (rtp_receiver_new 0 0 False False) = Inr r' \<and>
     video_state_of r' = \<lparr>v_sps = Some (start_code @ [0x67, 1, 2]), v_pps = Some (start_code @ [0x68, 5]),
       v_frames = [start_code @ [0x41, 6, 7]], v_changed = False\<rparr>"
  using h264_receiver_end_to_end [OF demo_sent demo_ok fresh_264(3) fresh_264(2,4,5)]
  by (auto simp: fresh_264(6) demo_units_def video_step_def frame_type_def h264_nal_type_def
      bitfield_def mask_eq_exp_minus_1)

section \<open>A stream that begins with its parameter sets\<close>

definition frame_nal :: "bytes \<Rightarrow> bool" where
  "frame_nal n \<longleftrightarrow> h264_nal_type (hd n) \<notin> {6, 7, 8, 9, 16}"

lemma frame_type_start:
  "n \<noteq> [] \<Longrightarrow> frame_type (start_code @ n) = h264_nal_type (hd n)"
  "n \<noteq> [] \<Longrightarrow> frame_type (0 # 0 # 0 # 1 # n) = h264_nal_type (hd n)"
  by (cases n; simp add: frame_type_def)+

lemma video_step_frames:
  assumes "v_sps v = Some s" and "v_pps v = Some p"
    and "\<not> (frame_type f = 7 \<and> f \<noteq> s \<or> frame_type f = 8 \<and> f \<noteq> p)"
  shows "video_step f v = v\<lparr>v_frames :=
    (if frame_type f \<in> {6, 7, 8, 9, 16} then v_frames v else fst (try_enqueue 20 f (v_frames v)))\<rparr>"
  using assms(3) by (auto simp: video_step_def assms(1,2) try_enqueue_def)

lemma fold_video_step:
  assumes "v_sps v = Some s" and "v_pps v = Some p"
    and "\<forall>f \<in> set fs. \<not> (frame_type f = 7 \<and> f \<noteq> s \<or> frame_type f = 8 \<and> f \<noteq> p)"
  shows "fold video_step fs v = v\<lparr>v_frames := fold (\<lambda>x q. fst (try_enqueue 20 x q))
    (filter (\<lambda>f. frame_type f \<notin> {6, 7, 8, 9, 16}) fs) (v_frames v)\<rparr>"
  using assms
proof (induction fs arbitrary: v)
  case Nil
  then show ?case by simp
next
  case (Cons f fs)
  have "video_step f v = v\<lparr>v_frames :=
    (if frame_type f \<in> {6, 7, 8, 9, 16} then v_frames v else fst (try_enqueue 20 f (v_frames v)))\<rparr>"
    using Cons.prems by (intro video_step_frames) auto
  then show ?case
    using Cons.IH [of "video_step f v"] Cons.prems by simp
qed

lemma units_nonempty:
  assumes "list_all h264_unit_ok us" and "n \<in> set (concat (map h264_unit_nalus us))"
  shows "n \<noteq> []"
proof -
  from assms obtain u where "h264_unit_ok u" "n \<in> set (h264_unit_nalus u)"
    by (auto simp: list_all_iff)
  then show ?thesis by (cases u) (auto simp: list_all_iff)
qed

text \<open>A receiver just started, sent an H.264 stream that begins with an SPS and a PPS and later
  repeats them unchanged, has the configuration bytes for the decoder, and its queue holds the
  frames of the stream in order, all of them as long as the decoder fetches none and there are
  at most 20, and none of the NALUs a decoder has no use for.\<close>

theorem h264_frames_reach_the_decoder:
  assumes "rtp_sent seq (concat (map h264_unit_payloads us)) pkts" and "list_all h264_unit_ok us"
    and "concat (map h264_unit_nalus us) = sps # pps # ns"
    and "h264_nal_type (hd sps) = 7" and "h264_nal_type (hd pps) = 8"
    and "\<forall>n \<in> set ns. (h264_nal_type (hd n) = 7 \<longrightarrow> n = sps) \<and> (h264_nal_type (hd n) = 8 \<longrightarrow> n = pps)"
  shows "\<exists>r'. receive_packets pkts (rtp_receiver_new g t False feed) = Inr r' \<and>
    receiver_get_config_data r' = Inr (Some ((start_code @ sps) @ (start_code @ pps))) \<and>
    map nalu_data (m_data_queue r') = take 20 (map (\<lambda>n. start_code @ n) (filter frame_nal ns)) \<and>
    \<not> config_has_changed_during_decode r'"
proof -
  let ?r = "rtp_receiver_new g t False feed" and ?fs = "map (\<lambda>n. start_code @ n) ns"
  let ?v = "\<lparr>v_sps = Some (start_code @ sps), v_pps = Some (start_code @ pps), v_frames = [], v_changed = False\<rparr>"
  have ne: "n \<noteq> []" if "n \<in> insert sps (insert pps (set ns))" for n
    using units_nonempty [OF assms(2), of n] that assms(3) by simp
  obtain d' where d': "parse_stream_h264 pkts (m_rtp_decoder ?r) = Inr d'"
    "forwarded d' = forwarded (m_rtp_decoder ?r) @ expected_frames h264_unit_payloads h264_unit_nalus us pkts"
    using h264s.stream_delivered [OF assms(1,2) fresh_264(3) [where g = g and t = t and feed = feed]]
    by (auto simp: parse_stream_h264_def)
  obtain r' where r': "receive_packets pkts ?r = Inr r'" "runs_264 r'"
    "video_state_of r' = fold video_step (map (\<lambda>n. start_code @ n) (sps # pps # ns)) (video_state_of ?r)"
    using packets_implement [OF fresh_264(1,2) d'(1)] d'(2)
    by (auto simp: new_frames_def snd_expected_frames assms(3))
  have "video_state_of r' = fold video_step ?fs ?v"
    using r'(3) assms(4,5) ne by (simp add: fresh_264(6) video_step_def frame_type_start)
  also have "\<dots> = ?v\<lparr>v_frames := fold (\<lambda>x q. fst (try_enqueue 20 x q))
      (filter (\<lambda>f. frame_type f \<notin> {6, 7, 8, 9, 16}) ?fs) []\<rparr>"
    using fold_video_step [of ?v "start_code @ sps" "start_code @ pps" ?fs] assms(6) ne
    by (auto simp: frame_type_start)
  also have "filter (\<lambda>f. frame_type f \<notin> {6, 7, 8, 9, 16}) ?fs = map (\<lambda>n. start_code @ n) (filter frame_nal ns)"
  proof -
    have "filter (\<lambda>n. frame_type (start_code @ n) \<notin> {6, 7, 8, 9, 16}) ns = filter frame_nal ns"
      using ne by (intro filter_cong) (simp_all add: frame_nal_def frame_type_start)
    then show ?thesis by (simp add: filter_map comp_def)
  qed
  finally have v: "video_state_of r' = ?v\<lparr>v_frames := take 20 (map (\<lambda>n. start_code @ n) (filter frame_nal ns))\<rparr>"
    using frame_queue.put_all [of "[]"] by simp
  then have q: "map nalu_data (m_data_queue r') = take 20 (map (\<lambda>n. start_code @ n) (filter frame_nal ns))"
    "\<not> config_has_changed_during_decode r'"
    by (simp_all add: video_state_of_def)
  from v obtain s p where sp: "SPS (m_keyframe_finder r') = Some s" "PPS (m_keyframe_finder r') = Some p"
    "nalu_data s = start_code @ sps" "nalu_data p = start_code @ pps"
    by (auto simp: video_state_of_def)
  have "(m_keyframe_finder r')\<lparr>SPS := Some s, PPS := Some p\<rparr> = m_keyframe_finder r'"
    using sp by simp
  then have "get_config_data False (m_keyframe_finder r') = Inr (nalu_data s @ nalu_data p)"
    using get_config_data_264 [where c = "m_keyframe_finder r'" and s = s and p = p] by metis
  then have "receiver_get_config_data r' = Inr (Some ((start_code @ sps) @ (start_code @ pps)))"
    using r'(2) sp by (simp add: receiver_get_config_data_def runs_264_def all_config_available_def)
  with r'(1) q show ?thesis by blast
qed


text \<open>An SPS, an IDR slice in two fragments behind a PPS, an access unit delimiter.\<close>

definition demo_video_packets :: "(int \<times> bytes) list" where
  "demo_video_packets = [
     (10, hdr_seq 0 1 @ [0x67, 1, 2]), (11, hdr_seq 0 2 @ [0x68, 5]),
     (12, hdr_seq 0 3 @ [0x7C, 0x85, 7, 8]), (13, hdr_seq 0 4 @ [0x7C, 0x45, 9]),
     (14, hdr_seq 0 5 @ [0x09, 0xF0]), (15, hdr_seq 0 6 @ [0x41, 3])]"

definition demo_video_units :: "h264_unit list" where
  "demo_video_units = [Single [0x67, 1, 2], Single [0x68, 5], Fu_A 0x65 [7, 8] [] [9],
     Single [0x09, 0xF0], Single [0x41, 3]]"

theorem h264_frames_reach_the_decoder_witness:
  "\<exists>r'. receive_packets demo_video_packets (rtp_receiver_new 0 0 False False) = Inr r' \<and>
     receiver_get_config_data r' = Inr (Some [0, 0, 0, 1, 0x67, 1, 2, 0, 0, 0, 1, 0x68, 5]) \<and>
     map nalu_data (m_data_queue r') = [start_code @ [0x65, 7, 8, 9], start_code @ [0x41, 3]]"
proof -
  have sent: "rtp_sent 1 (concat (map h264_unit_payloads demo_video_units)) demo_video_packets"
    by (simp add: demo_video_units_def demo_video_packets_def rtp_hdr_ok_def be16_def
        fu_indicator_def fu_header_byte_def)
  have ok: "list_all h264_unit_ok demo_video_units"
    by (simp add: demo_video_units_def NALU_MAXLEN_def h264_nal_type_def bitfield_def
        mask_eq_exp_minus_1)
  have nalus: "concat (map h264_unit_nalus demo_video_units)
      = [0x67, 1, 2] # [0x68, 5] # [[0x65, 7, 8, 9], [0x09, 0xF0], [0x41, 3]]"
    by (simp add: demo_video_units_def)
  show ?thesis
    using h264_frames_reach_the_decoder [OF sent ok nalus, of 0 0 False]
    by (auto simp: h264_nal_type_def bitfield_def mask_eq_exp_minus_1 frame_nal_def)
qed

end
