(* ===== verification/Video_Safety.thy ===== *)
theory Video_Safety
  imports Video_Stream
begin

text \<open>
  The receiver on arbitrary packets: its invariant under every interleaving of the two threads,
  the packets it survives, one it does not survive, and what never changes once a decoder is
  configured.
\<close>

section \<open>Arbitrary packets\<close>

text \<open>A NALU the decoder has no use for.\<close>

definition skipped_nalu :: "nalu \<Rightarrow> bool" where
  "skipped_nalu n \<longleftrightarrow> config_type (IS_H265_PACKET n) (get_nal_unit_type n)
     \<or> is_aud n \<or> is_sei n \<or> is_dps n"

definition slot_ok :: "bool \<Rightarrow> (nalu \<Rightarrow> bool) \<Rightarrow> nalu option \<Rightarrow> bool" where
  "slot_ok h P x \<longleftrightarrow> (\<forall>n. x = Some n \<longrightarrow> nalu_ok n \<and> IS_H265_PACKET n = h \<and> P n)"

definition finder_inv :: "bool \<Rightarrow> codec_config \<Rightarrow> bool" where
  "finder_inv h c \<longleftrightarrow> slot_ok h isSPS (SPS c) \<and> slot_ok h isPPS (PPS c) \<and> slot_ok h isVPS_class (VPS c)"

definition receiver_inv :: "rtp_receiver \<Rightarrow> bool" where
  "receiver_inv r \<longleftrightarrow>
     decoder_inv (m_rtp_decoder r) \<and> finder_inv (is_h265 r) (m_keyframe_finder r)
     \<and> length (m_data_queue r) \<le> 20
     \<and> (\<forall>n \<in> set (m_data_queue r) \<union> set (cb_calls r).
          nalu_ok n \<and> IS_H265_PACKET n = is_h265 r \<and> \<not> skipped_nalu n)
     \<and> (all_config_available (is_h265 r) (m_keyframe_finder r)
        \<or> m_data_queue r = [] \<and> cb_calls r = [])"

lemma receiver_inv_new: "receiver_inv (rtp_receiver_new g t h feed)"
  by (simp add: receiver_inv_def rtp_receiver_new_def decoder_inv_new finder_inv_def slot_ok_def
      codec_config_new_def)

lemma receiver_inv_count [simp]: "receiver_inv (count_frame n r) = receiver_inv r"
  by (simp add: receiver_inv_def)

lemma receiver_inv_fps [simp]: "receiver_inv (estimate_fps t r) = receiver_inv r"
  by (simp add: receiver_inv_def)

lemma receiver_inv_fields [simp]:
  "receiver_inv (r\<lparr>statistics := x\<rparr>) = receiver_inv r"
  "receiver_inv (r\<lparr>m_rtp_bitrate := b\<rparr>) = receiver_inv r"
  "receiver_inv (r\<lparr>config_has_changed_during_decode := c\<rparr>) = receiver_inv r"
  "receiver_inv (r\<lparr>m_new_nalu_cb := c\<rparr>) = receiver_inv r"
  "receiver_inv (r\<lparr>n_dropped_frames := i\<rparr>) = receiver_inv r"
  "receiver_inv (r\<lparr>m_last_log_hud_dropped_frame := i\<rparr>) = receiver_inv r"
  by (simp_all add: receiver_inv_def)

lemma deliver_frame_inv:
  assumes "deliver_frame now n r = Inr r'" and "receiver_inv r" and "nalu_ok n"
    and "IS_H265_PACKET n = is_h265 r" and "\<not> skipped_nalu n"
    and "all_config_available (is_h265 r) (m_keyframe_finder r)"
  shows "receiver_inv r'"
proof (cases "m_new_nalu_cb r")
  case True
  with assms show ?thesis
    by (auto simp: deliver_frame_def receiver_inv_def)
next
  case False
  show ?thesis
  proof (cases "20 \<le> length (m_data_queue r)")
    case True
    with False assms(1-3) show ?thesis
      by (auto simp: deliver_frame_def try_enqueue_def Let_def split: if_splits)
  next
    case room: False
    with False assms(1,3) have "r' = r\<lparr>m_data_queue := m_data_queue r @ [n]\<rparr>"
      by (simp add: deliver_frame_def try_enqueue_def)
    with room assms show ?thesis
      by (auto simp: receiver_inv_def)
  qed
qed

lemma finder_inv_save:
  "finder_inv h c \<Longrightarrow> nalu_ok n \<Longrightarrow> IS_H265_PACKET n = h \<Longrightarrow> finder_inv h (config_save n c)"
  by (auto simp: finder_inv_def config_save_def slot_ok_def)

text \<open>The three outcomes once the configuration is complete.\<close>

lemma queue_data_cases:
  assumes "queue_data now f r = Inr r'"
    and "all_config_available (is_h265 r) (m_keyframe_finder r)"
  obtains (unchanged) "r' = count_frame (nalu_of f (is_h265 r) now) r
      \<or> r' = (count_frame (nalu_of f (is_h265 r) now) r)\<lparr>config_has_changed_during_decode := True\<rparr>"
    | (deliver) "deliver_frame now (nalu_of f (is_h265 r) now)
        (estimate_fps now (count_frame (nalu_of f (is_h265 r) now) r)) = Inr r'"
      "\<not> skipped_nalu (nalu_of f (is_h265 r) now)"
proof -
  let ?n = "nalu_of f (is_h265 r) now" and ?c = "m_keyframe_finder r"
  have N: "NALU f (is_h265 r) now = Inr ?n"
    using assms(1) by (auto simp: queue_data_def result_simps NALU_Inr)
  obtain same where same: "check_is_still_same_config_data ?n ?c = Inr same"
    using check_same_ok [of ?n ?c] assms(2) by simp
  from assms same show thesis
    by (simp add: queue_data_def N Let_def is_config_total skipped_nalu_def that split: if_splits)
qed

lemma queue_data_inv:
  assumes "queue_data now f r = Inr r'" and "receiver_inv r"
  shows "receiver_inv r' \<and> is_h265 r' = is_h265 r \<and> m_rtp_decoder r' = m_rtp_decoder r"
proof -
  let ?n = "nalu_of f (is_h265 r) now" and ?c = "m_keyframe_finder r"
  have N: "NALU f (is_h265 r) now = Inr ?n" and ok: "nalu_ok ?n"
    using assms(1) by (auto simp: queue_data_def result_simps NALU_Inr)
  show ?thesis
  proof (cases "all_config_available (is_h265 r) ?c")
    case False
    then have "r' = (count_frame ?n r)\<lparr>m_keyframe_finder := config_save ?n ?c\<rparr>"
      using assms(1) by (simp add: queue_data_def N Let_def save_if_config_ok [OF ok])
    then show ?thesis
      using assms(2) False finder_inv_save [OF _ ok]
      by (simp add: receiver_inv_def)
  next
    case True
    show ?thesis
      using assms(1) True
    proof (cases rule: queue_data_cases)
      case unchanged
      then show ?thesis using assms(2) by auto
    next
      case deliver
      have "is_h265 r' = is_h265 r \<and> m_rtp_decoder r' = m_rtp_decoder r"
        using deliver(1) ok
        by (auto simp: deliver_frame_def try_enqueue_def Let_def split: if_splits)
      with deliver_frame_inv [OF deliver(1) _ ok _ deliver(2)] True assms(2) show ?thesis
        by simp
    qed
  qed
qed

lemma frames_inv:
  assumes "rfold (\<lambda>(t, f). nalu_data_callback now f) fs r = Inr r'" and "receiver_inv r"
  shows "receiver_inv r'"
  using assms by (rule rfold_invariant) (auto simp: nalu_data_callback_def dest: queue_data_inv)

lemma on_udp_packet_inv:
  assumes "on_udp_packet now pkt r = Inr r'" and "receiver_inv r"
  shows "receiver_inv r'"
proof -
  obtain b stats where b: "addBytes now (length pkt) (m_rtp_bitrate r) = (b, stats)"
    by fastforce
  let ?r = "report stats (r\<lparr>m_rtp_bitrate := b\<rparr>)"
  from assms(1) obtain d' r1 where
    d': "(if is_h265 r then parseRTPH265toNALU now pkt (m_rtp_decoder r)
          else parseRTPH264toNALU now pkt (m_rtp_decoder r)) = Inr d'"
    and r1: "rfold (\<lambda>(t, f). nalu_data_callback now f)
        (drop (length (forwarded (m_rtp_decoder r))) (forwarded d')) (?r\<lparr>m_rtp_decoder := d'\<rparr>) = Inr r1"
    and r': "r' = report [Missing_Rtp_Packets (m_n_gaps (m_rtp_decoder r1))] r1"
    by (cases "is_h265 r")
      (auto simp: on_udp_packet_def udp_raw_data_callback_def b Let_def result_simps)
  have "decoder_inv d'"
    using d' assms(2) parseRTPH264toNALU_inv parseRTPH265toNALU_inv
    by (auto simp: receiver_inv_def split: if_splits)
  then have "receiver_inv (?r\<lparr>m_rtp_decoder := d'\<rparr>)"
    using assms(2) by (simp add: receiver_inv_def)
  from frames_inv [OF r1 this] show ?thesis
    by (simp add: r')
qed

text \<open>What the two threads do with a receiver.\<close>

datatype receiver_op =
    Packet int bytes
  | Next_Frame
  | Register bool

fun receiver_do :: "receiver_op \<Rightarrow> rtp_receiver \<Rightarrow> rtp_receiver result" where
  "receiver_do (Packet now pkt) r = on_udp_packet now pkt r"
| "receiver_do Next_Frame r = rbind (get_next_frame r) (\<lambda>(x, r'). Inr r')"
| "receiver_do (Register cb) r = Inr (register_new_nalu_callback cb r)"

lemma receiver_do_inv: "receiver_do op r = Inr r' \<Longrightarrow> receiver_inv r \<Longrightarrow> receiver_inv r'"
proof (cases op)
  case Next_Frame
  assume "receiver_do op r = Inr r'" "receiver_inv r"
  then show ?thesis
    by (cases "m_data_queue r") (auto simp: Next_Frame get_next_frame_def receiver_inv_def)
qed (auto simp: register_new_nalu_callback_def intro: on_udp_packet_inv)

text \<open>C11. Whatever packets arrive, for either codec and interleaved in any way with the decoder
  thread fetching frames and callbacks being registered, as long as the program runs: the queue
  holds at most 20 NALUs; everything queued or handed to the callback is a valid NALU of the
  receiver's codec that is not a parameter set, delimiter, SEI or DPS; each parameter set kept is
  of its class; and no frame is let through before the configuration is complete.\<close>

theorem receiver_invariant:
  assumes "rfold receiver_do ops (rtp_receiver_new g t h feed) = Inr r"
  shows "receiver_inv r"
  using assms receiver_inv_new by (rule rfold_invariant) (rule receiver_do_inv)

theorem receiver_invariant_witness:
  "\<exists>r. rfold receiver_do (map (\<lambda>(t, p). Packet t p) demo_packets @ [Next_Frame])
      (rtp_receiver_new 0 0 False False) = Inr r \<and> receiver_inv r"
proof -
  obtain r1 where r1: "receive_packets demo_packets (rtp_receiver_new 0 0 False False) = Inr r1"
  proof -
    have "\<exists>d'. parse_stream_h264 demo_packets (m_rtp_decoder (rtp_receiver_new 0 0 False False)) = Inr d'"
      using h264s.stream_delivered [OF demo_sent demo_ok fresh_264(3) [where g = 0 and t = 0 and feed = False]]
      by (auto simp: parse_stream_h264_def)
    then show ?thesis
      using packets_implement [OF fresh_264(1,2)] that by blast
  qed
  have "rfold receiver_do (map (\<lambda>(t, p). Packet t p) ps) = receive_packets ps" for ps
    unfolding receive_packets_def
  proof (induction ps)
    case (Cons p ps)
    show ?case by (rule ext, cases p) (simp add: Cons)
  qed (simp add: fun_eq_iff)
  then have "\<exists>r. rfold receiver_do (map (\<lambda>(t, p). Packet t p) demo_packets @ [Next_Frame])
      (rtp_receiver_new 0 0 False False) = Inr r"
    using r1 by (cases "m_data_queue r1") (simp_all add: rfold_append get_next_frame_def)
  then show ?thesis
    using receiver_invariant by blast
qed

section \<open>Survival\<close>

lemma queue_data_265_short:
  assumes "is_h265 r" and "take 4 f = start_code" and "length f < 6"
  shows "queue_data now f r = Inl Assert_Failed"
  using assms NALU_short_aborts [of f True now]
  by (simp add: queue_data_def getMinimumNaluSize_def)

lemma deliver_frame_total:
  assumes "nalu_ok n"
  shows "\<exists>r'. deliver_frame now n r = Inr r'"
  using assms by (simp add: deliver_frame_def try_enqueue_def Let_def)

lemma queue_data_total:
  assumes "nalu_bytes_ok (is_h265 r) f"
  shows "\<exists>r'. queue_data now f r = Inr r'"
proof -
  let ?n = "nalu_of f (is_h265 r) now" and ?c = "m_keyframe_finder r"
  have ok: "nalu_ok ?n" using assms by simp
  have N: "NALU f (is_h265 r) now = Inr ?n" by (rule NALU_ok) (rule assms)
  show ?thesis
  proof (cases "all_config_available (is_h265 r) ?c")
    case False
    then show ?thesis
      by (simp add: queue_data_def N Let_def save_if_config_ok [OF ok])
  next
    case True
    obtain same where same: "check_is_still_same_config_data ?n ?c = Inr same"
      using check_same_ok [of ?n ?c] True by simp
    show ?thesis
      using True deliver_frame_total [OF ok]
      by (simp add: queue_data_def N Let_def same is_config_total)
  qed
qed

lemma packet_total_264:
  assumes "receiver_inv r" and "\<not> is_h265 r"
    and "parseRTPH264toNALU now pkt (m_rtp_decoder r) = Inr d'"
  shows "\<exists>r'. on_udp_packet now pkt r = Inr r' \<and> \<not> is_h265 r' \<and> m_rtp_decoder r' = d'"
proof -
  obtain b stats where b: "addBytes now (length pkt) (m_rtp_bitrate r) = (b, stats)"
    by fastforce
  let ?r = "(report stats (r\<lparr>m_rtp_bitrate := b\<rparr>))\<lparr>m_rtp_decoder := d'\<rparr>"
  have "decoder_inv d'"
    using assms(1) parseRTPH264toNALU_inv [OF assms(3)] by (simp add: receiver_inv_def)
  then have fs: "list_all (\<lambda>(t, f). nalu_bytes_ok False f)
      (drop (length (forwarded (m_rtp_decoder r))) (forwarded d'))"
    by (auto simp: decoder_inv_def list_all_iff frame_ok_def check_has_valid_prefix_take
        nalu_bytes_ok_def getMinimumNaluSize_def dest!: in_set_dropD)
  have all: "\<exists>r'. rfold (\<lambda>(t, f). nalu_data_callback now f) fs s = Inr r' \<and> \<not> is_h265 r' \<and> m_rtp_decoder r' = m_rtp_decoder s"
    if "list_all (\<lambda>(t, f). nalu_bytes_ok False f) fs" "receiver_inv s" "\<not> is_h265 s" for fs s
    using that
  proof (induction fs arbitrary: s)
    case (Cons f fs)
    obtain s1 where s1: "queue_data now (snd f) s = Inr s1"
      using queue_data_total [of s "snd f" now] Cons.prems by auto
    then have "receiver_inv s1" "\<not> is_h265 s1" "m_rtp_decoder s1 = m_rtp_decoder s"
      using queue_data_inv [OF s1] Cons.prems by auto
    moreover from this Cons.IH [of s1] Cons.prems(1) obtain s2
      where "rfold (\<lambda>(t, f). nalu_data_callback now f) fs s1 = Inr s2" "\<not> is_h265 s2" "m_rtp_decoder s2 = m_rtp_decoder s1"
      by auto
    ultimately show ?case
      using s1 by (cases f) (simp add: nalu_data_callback_def [abs_def])
  qed simp
  have "receiver_inv ?r" "\<not> is_h265 ?r"
    using assms(1,2) \<open>decoder_inv d'\<close> by (simp_all add: receiver_inv_def)
  from all [OF fs this] show ?thesis
    using assms(2,3) by (auto simp: on_udp_packet_def udp_raw_data_callback_def b Let_def)
qed

text \<open>A packet that the depacketiser handles in every state: too short to be looked at, or with a clear padding bit, more than two bytes of payload
  and, if it is an aggregation packet, well-formed.\<close>

definition harmless_packet :: "bytes \<Rightarrow> bool" where
  "harmless_packet pkt \<longleftrightarrow>
     length pkt \<le> 13
     \<or> (14 < length pkt \<and> \<not> bit (pkt ! 0) 5 \<and> (h264_nal_type (pkt ! 12) = 24 \<longrightarrow> stap_wf (drop 12 pkt) 0))"

lemma harmless_handled: "harmless_packet pkt \<Longrightarrow> packet_handled d pkt"
  by (auto simp: harmless_packet_def packet_handled_def)

lemma receive_tracks_264:
  assumes "receiver_inv r" and "\<not> is_h265 r"
  shows "(\<exists>r'. receive_packets pkts r = Inr r') \<longleftrightarrow> (\<exists>d'. parse_stream_h264 pkts (m_rtp_decoder r) = Inr d')"
  using assms
proof (induction pkts arbitrary: r)
  case Nil
  then show ?case by (simp add: receive_packets_def parse_stream_h264_def)
next
  case (Cons p pkts)
  obtain now pkt where p: "p = (now, pkt)" by fastforce
  show ?case
  proof (cases "parseRTPH264toNALU now pkt (m_rtp_decoder r)")
    case (Inl e)
    with Cons.prems(2) have "on_udp_packet now pkt r = Inl e"
      by (simp add: on_udp_packet_def udp_raw_data_callback_def Let_def split: prod.split)
    with Inl show ?thesis by (simp add: receive_packets_def parse_stream_h264_def p)
  next
    case (Inr d')
    from packet_total_264 [OF Cons.prems this] obtain r1
      where r1: "on_udp_packet now pkt r = Inr r1" "\<not> is_h265 r1" "m_rtp_decoder r1 = d'" by blast
    with Cons.IH [of r1] on_udp_packet_inv [OF r1(1) Cons.prems(1)] Inr show ?thesis
      by (simp add: receive_packets_def parse_stream_h264_def p)
  qed
qed

lemma harmless_stream: "\<forall>(now, pkt) \<in> set pkts. harmless_packet pkt \<Longrightarrow> \<exists>d'. parse_stream_h264 pkts d = Inr d'"
proof (induction pkts arbitrary: d)
  case (Cons p pkts)
  obtain now pkt where p: "p = (now, pkt)" by fastforce
  obtain d1 where "parseRTPH264toNALU now pkt d = Inr d1"
    using Cons.prems parse_h264_iff [of now pkt d] harmless_handled by (auto simp: p)
  with Cons show ?case by (simp add: parse_stream_h264_def p)
qed (simp add: parse_stream_h264_def)

text \<open>C12. Behind the depacketiser nothing can stop the H.264 receiver: it handles a sequence of packets without a fault exactly if
  the depacketiser alone does. It does so for every sequence of packets that are each too short to be looked at or have a clear padding
  bit, more than two bytes of payload and, if they are aggregation packets, well-formed entries, whatever else they contain.\<close>

theorem h264_receiver_survives:
  assumes "receiver_inv r" and "\<not> is_h265 r"
  shows "((\<exists>r'. receive_packets pkts r = Inr r') \<longleftrightarrow> (\<exists>d'. parse_stream_h264 pkts (m_rtp_decoder r) = Inr d'))
    \<and> ((\<forall>(now, pkt) \<in> set pkts. harmless_packet pkt) \<longrightarrow> (\<exists>r'. receive_packets pkts r = Inr r'))"
  using receive_tracks_264 [OF assms, of pkts] harmless_stream [of pkts "m_rtp_decoder r"] by blast

theorem h264_receiver_survives_witness:
  "\<exists>r'. receive_packets [(1, hdr_seq 0 1 @ [0x7C, 0x45, 9]), (2, [1, 2, 3]), (3, hdr_seq 9 9 @ [0x1F, 0, 0]),
      (4, hdr_seq 9 10 @ [0x78, 0, 2, 0x68, 5])] (rtp_receiver_new 0 0 False True) = Inr r'"
proof -
  have "stap_wf [0x78, 0, 2, 0x68, 5] 0" by (subst stap_wf.simps) (simp add: be16_def Let_def)
  then show ?thesis
    by (intro h264_receiver_survives [THEN conjunct2, THEN mp])
      (simp_all add: receiver_inv_new fresh_264 harmless_packet_def h264_nal_type_def bitfield_def mask_eq_exp_minus_1)
qed

lemma parse_h265_short_aggregate:
  assumes "m_cb d" and "rtp_hdr_ok hdr seq" and "int seq \<noteq> lastSequenceNumber d"
  shows "\<exists>d'. parseRTPH265toNALU now (hdr @ [0x60, 0x01, 0, 1, b]) d = Inr d' \<and>
    forwarded d' = forwarded d @ [(now, start_code @ [b])]"
proof -
  let ?p = "[0x60, 0x01, 0, 1, b] :: bytes"
  have hdr: "length hdr = 12" "\<not> bit (hdr ! 0) 5" "getSequence (rtp_header_of hdr) = seq"
    using assms(2) by (simp_all add: rtp_hdr_ok_def getSequence_of)
  have head: "rtp_header_of (hdr @ ?p) = rtp_header_of hdr"
    using hdr(1) rtp_header_of_take [of "hdr @ ?p"] by simp
  have pkt: "RTPPacket (hdr @ ?p) = Inr (rtp_header_of hdr, ?p)"
    using hdr head by (simp add: RTPPacket_def padding_bit nth_append)
  obtain d1 ok where v: "validateRTPPacket (rtp_header_of hdr) d = (d1, ok)"
    by fastforce
  then have d1: "ok" "m_cb d1" "forwarded d1 = forwarded d"
    using assms(1,3) hdr(3) by (auto simp: validateRTPPacket_def Let_def split: if_splits)
  have be: "read_be16 ?p (0 + 1 + 1) = Inr 1"
    by (simp add: read_be16_def be16_def)
  have fw: "\<exists>d2. h265_forward_one_nalu now ?p (0 + 1 + 3) 1 True d1 = Inr d2 \<and>
      forwarded d2 = forwarded d1 @ [(now, start_code @ [b])]"
    using d1(2) by (simp add: h265_forward_one_nalu_def decoder_simps Let_def read_slice_def
        slice_def NALU_MAXLEN_def)
  then have ag: "\<exists>d2. h265_aggregated now ?p 0 d1 = Inr d2 \<and>
      forwarded d2 = forwarded d1 @ [(now, start_code @ [b])]"
    unfolding h265_aggregated.simps [of now ?p 0 d1] be by auto
  have ty: "\<exists>h. getNALUHeaderH265 ?p = Inr h \<and> h265_type h = 48"
    by (simp add: getNALUHeaderH265_def nal_unit_header_h265_of_def bitfield_def mask_eq_exp_minus_1)
  show ?thesis
    using ag ty hdr(1) d1(1,3)
    by (auto simp: parseRTPH265toNALU_def pkt v h265_dispatch_def)
qed

text \<open>One H.265 packet stops the program: an aggregation packet whose entry announces a
  NALU of a single byte is forwarded as a start code and one byte, and the constructor of
  \<open>NALU\<close> asserts that an H.265 NALU has at least six bytes.\<close>

theorem h265_short_nalu_aborts:
  assumes "is_h265 r" and "m_cb (m_rtp_decoder r)"
    and "rtp_hdr_ok hdr seq" and "int seq \<noteq> lastSequenceNumber (m_rtp_decoder r)"
  shows "on_udp_packet now (hdr @ [0x60, 0x01, 0, 1, b]) r = Inl Assert_Failed"
proof -
  let ?pkt = "hdr @ [0x60, 0x01, 0, 1, b]"
  obtain bc stats where bc: "addBytes now (length ?pkt) (m_rtp_bitrate r) = (bc, stats)"
    by fastforce
  obtain d' where "parseRTPH265toNALU now ?pkt (m_rtp_decoder r) = Inr d'"
    "forwarded d' = forwarded (m_rtp_decoder r) @ [(now, start_code @ [b])]"
    using parse_h265_short_aggregate [OF assms(2-4)] by blast
  then show ?thesis
    using assms(1) queue_data_265_short [of _ "start_code @ [b]" now] bc
    by (simp add: on_udp_packet_def udp_raw_data_callback_def Let_def nalu_data_callback_def)
qed

theorem h265_short_nalu_aborts_witness:
  "on_udp_packet 5 (hdr_seq 0 7 @ [0x60, 0x01, 0, 1, 0x26]) (rtp_receiver_new 0 0 True False)
     = Inl Assert_Failed"
  by (rule h265_short_nalu_aborts [where seq = 7])
    (simp_all add: rtp_receiver_new_def rtp_decoder_new_def rtp_hdr_ok_def be16_def)

section \<open>The configuration, once complete\<close>

definition config_kept :: "rtp_receiver \<Rightarrow> rtp_receiver \<Rightarrow> bool" where
  "config_kept r r' \<longleftrightarrow> is_h265 r' = is_h265 r \<and> m_keyframe_finder r' = m_keyframe_finder r \<and>
     (config_has_changed_during_decode r \<longrightarrow> config_has_changed_during_decode r')"

lemma config_kept_fields [simp]:
  "config_kept r (r'\<lparr>statistics := x\<rparr>) = config_kept r r'"
  "config_kept r (r'\<lparr>m_rtp_bitrate := b\<rparr>) = config_kept r r'"
  "config_kept r (r'\<lparr>m_rtp_decoder := d\<rparr>) = config_kept r r'"
  "config_kept r (r'\<lparr>m_data_queue := q\<rparr>) = config_kept r r'"
  "config_kept r (r'\<lparr>cb_calls := q\<rparr>) = config_kept r r'"
  "config_kept r (r'\<lparr>m_new_nalu_cb := c\<rparr>) = config_kept r r'"
  "config_kept r (r'\<lparr>n_dropped_frames := i\<rparr>) = config_kept r r'"
  "config_kept r (r'\<lparr>m_last_log_hud_dropped_frame := i\<rparr>) = config_kept r r'"
  "config_kept r (count_frame n r') = config_kept r r'"
  "config_kept r (estimate_fps t r') = config_kept r r'"
  "config_kept r r' \<Longrightarrow> config_kept r (r'\<lparr>config_has_changed_during_decode := True\<rparr>)"
  by (simp_all add: config_kept_def)

lemma deliver_frame_kept:
  "deliver_frame now n s = Inr s' \<Longrightarrow> config_kept r s \<Longrightarrow> config_kept r s'"
  by (auto simp: deliver_frame_def try_enqueue_def Let_def result_simps split: if_splits)

lemma queue_data_kept:
  assumes "all_config_available (is_h265 r) (m_keyframe_finder r)"
    and "queue_data now f s = Inr s'" and "config_kept r s"
  shows "config_kept r s'"
proof -
  have all: "all_config_available (is_h265 s) (m_keyframe_finder s)"
    using assms(1,3) by (simp add: config_kept_def)
  show ?thesis
    using assms(2) all
  proof (cases rule: queue_data_cases)
    case unchanged
    then show ?thesis using assms(3) by auto
  next
    case deliver
    then show ?thesis using assms(3) by (auto intro: deliver_frame_kept)
  qed
qed

lemma receiver_do_kept:
  assumes "all_config_available (is_h265 r) (m_keyframe_finder r)"
    and "receiver_do op s = Inr s'" and "config_kept r s"
  shows "config_kept r s'"
proof (cases op)
  case (Packet now pkt)
  obtain b stats where b: "addBytes now (length pkt) (m_rtp_bitrate s) = (b, stats)"
    by fastforce
  have frames: "rfold (\<lambda>(t, f). nalu_data_callback now f) fs u = Inr u' \<Longrightarrow> config_kept r u \<Longrightarrow>
      config_kept r u'" for fs u u'
    by (rule rfold_invariant) (auto simp: nalu_data_callback_def dest: queue_data_kept [OF assms(1)])
  show ?thesis
    using assms(2,3)
    by (auto simp: Packet on_udp_packet_def udp_raw_data_callback_def b Let_def result_simps
        dest!: frames)
next
  case Next_Frame
  with assms(2,3) show ?thesis
    by (cases "m_data_queue s") (auto simp: get_next_frame_def)
next
  case (Register cb)
  with assms(2,3) show ?thesis
    by (auto simp: register_new_nalu_callback_def)
qed

text \<open>Once a receiver has its configuration it keeps it: whatever packets follow, the
  configuration bytes it hands out stay the same, and once a different parameter set has been
  noticed the flag that tells the decoder to start over is never withdrawn.\<close>

theorem config_data_is_kept:
  assumes "receiver_get_config_data r = Inr (Some data)" and "rfold receiver_do ops r = Inr r'"
  shows "receiver_get_config_data r' = Inr (Some data) \<and>
    (config_has_changed_during_decode r \<longrightarrow> config_has_changed_during_decode r')"
proof -
  have all: "all_config_available (is_h265 r) (m_keyframe_finder r)"
    using assms(1) by (auto simp: receiver_get_config_data_def split: if_splits)
  have "config_kept r r'"
    using assms(2) by (rule rfold_invariant) (auto simp: config_kept_def [of r r] receiver_do_kept [OF all])
  then show ?thesis
    using assms(1) by (simp add: config_kept_def receiver_get_config_data_def all)
qed

definition demo_configured :: rtp_receiver where
  "demo_configured = (rtp_receiver_new 0 0 False False)\<lparr>m_keyframe_finder :=
     \<lparr>SPS = Some (demo_nalu 0x67 1), PPS = Some (demo_nalu 0x68 2), VPS = None\<rparr>\<rparr>"

theorem config_data_is_kept_witness:
  "\<exists>r'. rfold receiver_do [Packet 1 (hdr_seq 0 1 @ [0x67, 9])] demo_configured = Inr r' \<and>
     receiver_get_config_data r' = Inr (Some [0, 0, 0, 1, 0x67, 1, 0, 0, 0, 1, 0x68, 2])"
proof -
  have cfg: "receiver_get_config_data demo_configured
      = Inr (Some [0, 0, 0, 1, 0x67, 1, 0, 0, 0, 1, 0x68, 2])"
    by (simp add: demo_configured_def receiver_get_config_data_def rtp_receiver_new_def
        all_config_available_def get_config_data_def demo_nalu_def getSize_def write_slice_def
        eval_nat_numeral)
  have inv: "receiver_inv demo_configured"
    using receiver_inv_new [of 0 0 False False] demo_nalu_ok
    by (auto simp: demo_configured_def receiver_inv_def finder_inv_def slot_ok_def
        rtp_receiver_new_def demo_nalu_def nalu_of_def isSPS_def isPPS_def
        get_nal_unit_type_def getDataWithoutPrefix_def)
  have dec: "\<exists>d'. parseRTPH264toNALU 1 (hdr_seq 0 1 @ [0x67, 9]) (m_rtp_decoder demo_configured) = Inr d'"
    by (rule parse_h264_no_fault)
      (simp_all add: demo_configured_def rtp_receiver_new_def rtp_decoder_new_def h264_nal_type_def
        bitfield_def mask_eq_exp_minus_1 NALU_MAXLEN_def)
  have "\<not> is_h265 demo_configured"
    by (simp add: demo_configured_def rtp_receiver_new_def)
  with dec packet_total_264 [OF inv] obtain r'
    where "on_udp_packet 1 (hdr_seq 0 1 @ [0x67, 9]) demo_configured = Inr r'"
    by blast
  then have run: "rfold receiver_do [Packet 1 (hdr_seq 0 1 @ [0x67, 9])] demo_configured = Inr r'"
    by simp
  with config_data_is_kept [OF cfg run] show ?thesis
    by blast
qed

end
