(* ===== verification/Raw_Receiver.thy ===== *)
theory Raw_Receiver
  imports Video_Safety
begin

text \<open>
  The class \<open>RawReceiver\<close> of \<open>app/videostreaming/vscommon/custom/rawreceiver.h\<close> and
  \<open>rawreceiver.cpp\<close>: NALUs without RTP, cut out of a byte stream by their start codes.

  The loop body of \<open>udp_raw_data_callback\<close> is \<open>scan_byte\<close>: it yields the NALU handed to
  \<open>raw_nalu_callback\<close>, if any. The array \<open>m_curr_nalu\<close> is \<open>nalu_memory\<close>; has no initialiser, so its first
  contents are a parameter; an index outside of it is \<open>Over_Write\<close>.
\<close>

section \<open>The scanner\<close>

record scanner =
  nalu_memory :: "int \<Rightarrow> u8"
  nalu_data_position :: int
  nalu_search_state :: int

definition RAW_NALU_MAXLEN :: int where
  "RAW_NALU_MAXLEN = 1024 * 1024"

definition scanner_new :: "(int \<Rightarrow> u8) \<Rightarrow> scanner" where
  "scanner_new garbage =
     \<lparr>nalu_memory = garbage, nalu_data_position = 0, nalu_search_state = 0\<rparr>"

definition read_bytes :: "(int \<Rightarrow> u8) \<Rightarrow> int \<Rightarrow> bytes" where
  "read_bytes mem n = map (\<lambda>i. mem (int i)) [0..<nat n]"

definition write_prefix_raw :: "(int \<Rightarrow> u8) \<Rightarrow> bool \<Rightarrow> int \<Rightarrow> u8" where
  "write_prefix_raw p long_prefix =
     (if long_prefix then p(0 := 0, 1 := 0, 2 := 0, 3 := 1) else p(0 := 0, 1 := 0, 2 := 1))"

definition store_byte :: "u8 \<Rightarrow> scanner \<Rightarrow> scanner result" where
  "store_byte b s =
     (if 0 \<le> nalu_data_position s \<and> nalu_data_position s < RAW_NALU_MAXLEN then
        let s1 = s\<lparr>nalu_memory := (nalu_memory s)(nalu_data_position s := b),
                   nalu_data_position := nalu_data_position s + 1\<rparr>
        in Inr (if nalu_data_position s1 \<ge> RAW_NALU_MAXLEN - 1 then s1\<lparr>nalu_data_position := 0\<rparr>
                else s1)
      else Inl Over_Write)"

definition scan_byte :: "u8 \<Rightarrow> scanner \<Rightarrow> (scanner \<times> bytes option) result" where
  "scan_byte b s =
     rbind (store_byte b s) (\<lambda>s.
       if nalu_search_state s \<in> {0, 1} then
         Inr (s\<lparr>nalu_search_state := (if b = 0 then nalu_search_state s + 1 else 0)\<rparr>, None)
       else if nalu_search_state s \<in> {2, 3} then
         if b = 0 then
           let s1 = (if nalu_search_state s = 3
                     then s\<lparr>nalu_data_position := nalu_data_position s - 1\<rparr> else s)
           in Inr (s1\<lparr>nalu_search_state := 3\<rparr>, None)
         else if b = 1 then
           let parsed_prefix_len = (if nalu_search_state s = 3 then 4 else 3 :: int) in
           rbind (has_valid_prefix (read_bytes (nalu_memory s) 4)) (\<lambda>valid.
           let out = (if valid \<and> nalu_data_position s > 4
                      then Some (read_bytes (nalu_memory s) (nalu_data_position s - parsed_prefix_len))
                      else None)
           in Inr (s\<lparr>nalu_memory := write_prefix_raw (nalu_memory s) (parsed_prefix_len = 4),
                     nalu_data_position := parsed_prefix_len, nalu_search_state := 0\<rparr>, out))
         else Inr (s\<lparr>nalu_search_state := 0\<rparr>, None)
       else Inr (s, None))"

text \<open>The calls of \<open>raw_nalu_callback\<close> a stream of bytes causes.\<close>

fun scan_bytes :: "bytes \<Rightarrow> scanner \<Rightarrow> (scanner \<times> bytes list) result" where
  "scan_bytes [] s = Inr (s, [])"
| "scan_bytes (b # bs) s =
     rbind (scan_byte b s) (\<lambda>(s1, out).
     rbind (scan_bytes bs s1) (\<lambda>(s2, outs).
     Inr (s2, (case out of None \<Rightarrow> outs | Some n \<Rightarrow> n # outs))))"

lemma scan_bytes_append:
  "scan_bytes (as @ bs) s =
     rbind (scan_bytes as s) (\<lambda>(s1, o1).
     rbind (scan_bytes bs s1) (\<lambda>(s2, o2). Inr (s2, o1 @ o2)))"
proof (induction as arbitrary: s)
  case Nil
  then show ?case by (cases "scan_bytes bs s") auto
next
  case (Cons a as)
  show ?case
  proof (cases "scan_byte a s")
    case (Inr p)
    obtain s1 out where p: "p = (s1, out)" by fastforce
    show ?thesis
    proof (cases "scan_bytes as s1")
      case inner: (Inr q)
      obtain s2 outs where q: "q = (s2, outs)" by fastforce
      show ?thesis
        by (cases "scan_bytes bs s2") (auto simp: Cons Inr p inner q split: option.split)
    qed (simp add: Cons Inr p)
  qed simp
qed

section \<open>Finding the NALUs again\<close>

text \<open>What follows the start code of a NALU: by the rules of both codecs two zero bytes in a row
  are never followed by another zero or by a one, and the last byte is not zero. \<open>z\<close> counts the
  zeros just seen.\<close>

fun clean :: "nat \<Rightarrow> bytes \<Rightarrow> bool" where
  "clean z [] \<longleftrightarrow> z = 0"
| "clean z (b # bs) \<longleftrightarrow>
     (if b = 0 then z < 2 \<and> clean (Suc z) bs else (b = 1 \<longrightarrow> z < 2) \<and> clean 0 bs)"

definition holds :: "bytes \<Rightarrow> scanner \<Rightarrow> bool" where
  "holds buf s \<longleftrightarrow> read_bytes (nalu_memory s) (int (length buf)) = buf \<and>
     nalu_data_position s = int (length buf)"

lemma read_bytes_update:
  "read_bytes (mem(int n := b)) (1 + int n) = read_bytes mem (int n) @ [b]"
proof -
  have "nat (1 + int n) = Suc n" by simp
  then show ?thesis by (simp add: read_bytes_def)
qed

lemma store_byte_holds:
  assumes "holds buf s" and "int (length buf) + 1 < RAW_NALU_MAXLEN - 1"
  shows "\<exists>s'. store_byte b s = Inr s' \<and> holds (buf @ [b]) s' \<and>
    nalu_search_state s' = nalu_search_state s"
  using assms by (simp add: store_byte_def holds_def read_bytes_update add.commute)

lemma scan_byte_inside:
  assumes "holds buf s" and "int (length buf) + 1 < RAW_NALU_MAXLEN - 1"
    and "nalu_search_state s = int z" and "z < 3"
    and "b = 0 \<longrightarrow> z < 2" and "b = 1 \<longrightarrow> z < 2"
  shows "\<exists>s'. scan_byte b s = Inr (s', None) \<and> holds (buf @ [b]) s' \<and>
    nalu_search_state s' = (if b = 0 then int (Suc z) else 0)"
proof -
  obtain s1 where s1: "store_byte b s = Inr s1" "holds (buf @ [b]) s1"
    "nalu_search_state s1 = int z"
    using store_byte_holds [OF assms(1,2), of b] assms(3) by auto
  consider "z = 0" | "z = 1" | "z = 2" using assms(4) by linarith
  then show ?thesis
    using s1 assms(5,6) by cases (auto simp: scan_byte_def holds_def)
qed

lemma scan_clean:
  assumes "holds buf s" and "int (length buf + length bs) < RAW_NALU_MAXLEN - 1"
    and "nalu_search_state s = int z" and "z < 3" and "clean z bs"
  shows "\<exists>s'. scan_bytes bs s = Inr (s', []) \<and> holds (buf @ bs) s' \<and> nalu_search_state s' = 0"
  using assms
proof (induction bs arbitrary: buf s z)
  case Nil
  then show ?case by simp
next
  case (Cons b bs)
  have ok: "b = 0 \<longrightarrow> z < 2" "b = 1 \<longrightarrow> z < 2"
    using Cons.prems(5) by (auto split: if_splits)
  from scan_byte_inside [OF Cons.prems(1) _ Cons.prems(3,4) ok] Cons.prems(2) obtain s1
    where s1: "scan_byte b s = Inr (s1, None)" "holds (buf @ [b]) s1"
      "nalu_search_state s1 = (if b = 0 then int (Suc z) else 0)"
    by auto
  have "\<exists>s'. scan_bytes bs s1 = Inr (s', []) \<and> holds ((buf @ [b]) @ bs) s' \<and> nalu_search_state s' = 0"
  proof (rule Cons.IH [OF s1(2)])
    show "nalu_search_state s1 = int (if b = 0 then Suc z else 0)"
      using s1(3) by simp
  qed (use Cons.prems(2,5) ok in \<open>auto split: if_splits\<close>)
  then show ?case
    using s1(1) by auto
qed

lemma read_bytes_take: "m \<le> n \<Longrightarrow> read_bytes mem (int m) = take m (read_bytes mem (int n))"
  by (simp add: read_bytes_def take_map)

text \<open>The long and the short start code.\<close>

definition start_of :: "bool \<Rightarrow> bytes" where
  "start_of long = (if long then [0, 0, 0, 1] else [0, 0, 1])"

lemma length_start_of [simp]: "length (start_of long) = (if long then 4 else 3)"
  by (simp add: start_of_def)

lemma has_valid_prefix_total: "\<exists>v. has_valid_prefix (read_bytes mem 4) = Inr v"
  by (auto simp: has_valid_prefix_def starts_with_long(1) starts_with_short(1) read_bytes_def)

lemma read_bytes_prefix:
  "read_bytes (write_prefix_raw mem True) 4 = start_of True"
  "read_bytes (write_prefix_raw mem False) 3 = start_of False"
  by (simp_all add: read_bytes_def write_prefix_raw_def start_of_def upt_rec)

lemma prefix_of_memory:
  assumes "read_bytes mem (int n) = buf @ xs" and "4 \<le> length buf"
  shows "has_valid_prefix (read_bytes mem 4) = Inr (take 4 buf = start_of True \<or> take 3 buf = start_of False)"
proof -
  have "length (read_bytes mem (int n)) = n" by (simp add: read_bytes_def)
  with assms have "4 \<le> n" by simp
  then have m: "read_bytes mem 4 = take 4 buf"
    using read_bytes_take [of 4 n mem] assms by simp
  have "take 3 (take 4 buf) = take 3 buf" by (simp add: min_def)
  with assms(2) show ?thesis
    by (simp add: m has_valid_prefix_def starts_with_long(1) starts_with_short(1) start_of_def)
qed

text \<open>A byte that is written while the scanner is about to see a start code.\<close>

lemma scan_start_code:
  assumes "holds buf s" and "nalu_search_state s = 0"
    and "int (length buf) + 4 < RAW_NALU_MAXLEN - 1"
  shows "\<exists>s1. scan_bytes (butlast (start_of long)) s = Inr (s1, [])
    \<and> holds (buf @ butlast (start_of long)) s1
    \<and> nalu_search_state s1 = (if long then 3 else 2)"
proof -
  obtain s1 where s1: "scan_byte 0 s = Inr (s1, None)" "holds (buf @ [0]) s1" "nalu_search_state s1 = 1"
    using scan_byte_inside [OF assms(1), of 0 0] assms(2,3) by auto
  obtain s2 where s2: "scan_byte 0 s1 = Inr (s2, None)" "holds (buf @ [0, 0]) s2" "nalu_search_state s2 = 2"
    using scan_byte_inside [OF s1(2), of 1 0] s1(3) assms(3) by auto
  obtain s3 where "store_byte 0 s2 = Inr s3" "holds (buf @ [0, 0, 0]) s3" "nalu_search_state s3 = 2"
    using store_byte_holds [OF s2(2), of 0] s2(3) assms(3) by auto
  then have "\<exists>s3. scan_byte 0 s2 = Inr (s3, None) \<and> holds (buf @ [0, 0, 0]) s3 \<and> nalu_search_state s3 = 3"
    by (simp add: scan_byte_def holds_def)
  then show ?thesis
    using s1 s2 by (cases long) (auto simp: start_of_def)
qed

lemma scan_start:
  assumes "holds buf s" and "nalu_search_state s = 0"
    and "int (length buf) + 4 < RAW_NALU_MAXLEN - 1"
    and "buf = [] \<or> 5 \<le> length buf \<and> (take 4 buf = start_of True \<or> take 3 buf = start_of False)"
  shows "\<exists>s'. scan_bytes (start_of long) s = Inr (s', if buf = [] then [] else [buf])
    \<and> holds (start_of long) s' \<and> nalu_search_state s' = 0"
proof -
  let ?zs = "butlast (start_of long)"
  obtain s1 where s1: "scan_bytes ?zs s = Inr (s1, [])" "holds (buf @ ?zs) s1"
    "nalu_search_state s1 = (if long then 3 else 2)"
    using scan_start_code [OF assms(1-3), of long] by auto
  have z: "length ?zs = (if long then 3 else 2)" "start_of long = ?zs @ [1]"
    by (simp_all add: start_of_def)
  obtain s2 where s2: "store_byte 1 s1 = Inr s2" "holds ((buf @ ?zs) @ [1]) s2"
    "nalu_search_state s2 = (if long then 3 else 2)"
    using store_byte_holds [OF s1(2), of 1] s1(3) assms(3) z(1) by (auto split: if_splits)
  let ?mem = "nalu_memory s2" and ?l = "if long then 4 else 3 :: nat"
  have mem: "read_bytes ?mem (int (length buf + ?l)) = buf @ start_of long"
    and pos: "nalu_data_position s2 = int (length buf + ?l)"
    using s2(2) z by (auto simp: holds_def)
  have front: "read_bytes ?mem (int (length buf)) = buf"
    using mem read_bytes_take [of "length buf" "length buf + ?l" ?mem] by simp
  have after: "holds (start_of long) (s2\<lparr>nalu_memory := write_prefix_raw ?mem long,
      nalu_data_position := int ?l, nalu_search_state := 0\<rparr>)"
    using read_bytes_prefix by (cases long) (simp_all add: holds_def start_of_def)
  obtain v where v: "has_valid_prefix (read_bytes ?mem 4) = Inr v" and "buf \<noteq> [] \<longrightarrow> v"
    using has_valid_prefix_total [of ?mem] prefix_of_memory [OF mem] assms(4) by fastforce
  then have "scan_byte 1 s1 = Inr (s2\<lparr>nalu_memory := write_prefix_raw ?mem long,
      nalu_data_position := int ?l, nalu_search_state := 0\<rparr>, if buf = [] then None else Some buf)"
    using s2 pos front assms(4) by (cases long) (auto simp: scan_byte_def)
  then have "scan_bytes [1] s1 = Inr (s2\<lparr>nalu_memory := write_prefix_raw ?mem long,
      nalu_data_position := int ?l, nalu_search_state := 0\<rparr>, if buf = [] then [] else [buf])"
    by simp
  then have "scan_bytes (?zs @ [1]) s = Inr (s2\<lparr>nalu_memory := write_prefix_raw ?mem long,
      nalu_data_position := int ?l, nalu_search_state := 0\<rparr>, if buf = [] then [] else [buf])"
    by (simp add: scan_bytes_append s1(1))
  then show ?thesis
    unfolding z(2) [symmetric] using after by simp
qed

text \<open>A NALU as sent: which start code precedes it, and what follows the start code.\<close>

definition raw_nalu_ok :: "bool \<times> bytes \<Rightarrow> bool" where
  "raw_nalu_ok n \<longleftrightarrow> clean 0 (snd n) \<and> 2 \<le> length (snd n) \<and>
     int (length (snd n)) + 8 < RAW_NALU_MAXLEN - 1"

definition raw_nalu :: "bool \<times> bytes \<Rightarrow> bytes" where
  "raw_nalu n = start_of (fst n) @ snd n"

lemma scan_nalu:
  assumes "holds (start_of long) s" and "nalu_search_state s = 0" and "raw_nalu_ok (long, n)"
  shows "\<exists>s'. scan_bytes (n @ start_of next) s = Inr (s', [raw_nalu (long, n)])
    \<and> holds (start_of next) s' \<and> nalu_search_state s' = 0"
proof -
  have n: "clean 0 n" "2 \<le> length n" "int (length n) + 8 < RAW_NALU_MAXLEN - 1"
    using assms(3) by (simp_all add: raw_nalu_ok_def)
  obtain s1 where s1: "scan_bytes n s = Inr (s1, [])" "holds (start_of long @ n) s1"
    "nalu_search_state s1 = 0"
    using scan_clean [OF assms(1), of n 0] assms(2) n by (cases long) auto
  have valid: "5 \<le> length (start_of long @ n) \<and>
      (take 4 (start_of long @ n) = start_of True \<or> take 3 (start_of long @ n) = start_of False)"
    using n(2) by (cases long) (simp_all add: start_of_def)
  then have "start_of long @ n = [] \<or> 5 \<le> length (start_of long @ n) \<and>
      (take 4 (start_of long @ n) = start_of True \<or> take 3 (start_of long @ n) = start_of False)"
    by blast
  with scan_start [OF s1(2,3), of "next"] n(3) valid obtain s2
    where "scan_bytes (start_of next) s1 = Inr (s2, [start_of long @ n])"
      "holds (start_of next) s2" "nalu_search_state s2 = 0"
    by (auto split: if_splits)
  then show ?thesis
    using s1 by (simp add: scan_bytes_append raw_nalu_def)
qed

lemma scan_nalus:
  assumes "holds (start_of long) s" and "nalu_search_state s = 0"
    and "list_all raw_nalu_ok ((long, n) # ns)"
  shows "\<exists>s'. scan_bytes (n @ concat (map raw_nalu ns) @ start_of final) s
      = Inr (s', map raw_nalu ((long, n) # ns))
    \<and> holds (start_of final) s' \<and> nalu_search_state s' = 0"
  using assms
proof (induction ns arbitrary: long n s)
  case Nil
  then show ?case using scan_nalu [of long s n final] by simp
next
  case (Cons m ns)
  obtain s1 where s1: "scan_bytes (n @ start_of (fst m)) s = Inr (s1, [raw_nalu (long, n)])"
    "holds (start_of (fst m)) s1" "nalu_search_state s1 = 0"
    using scan_nalu [OF Cons.prems(1,2), of n "fst m"] Cons.prems(3) by auto
  from Cons.IH [OF s1(2,3), of "snd m"] Cons.prems(3) obtain s2 where
    s2: "scan_bytes (snd m @ concat (map raw_nalu ns) @ start_of final) s1
       = Inr (s2, map raw_nalu (m # ns))" "holds (start_of final) s2" "nalu_search_state s2 = 0"
    by auto
  have "n @ concat (map raw_nalu (m # ns)) @ start_of final
      = (n @ start_of (fst m)) @ (snd m @ concat (map raw_nalu ns) @ start_of final)"
    by (simp add: raw_nalu_def)
  then show ?case
    using s1(1) s2 by (simp only: scan_bytes_append) simp
qed

text \<open>The calls of \<open>raw_nalu_callback\<close> for a sequence of UDP packets.\<close>

fun scan_packets :: "bytes list \<Rightarrow> scanner \<Rightarrow> (scanner \<times> bytes list) result" where
  "scan_packets [] s = Inr (s, [])"
| "scan_packets (p # ps) s =
     rbind (scan_bytes p s) (\<lambda>(s1, o1).
     rbind (scan_packets ps s1) (\<lambda>(s2, o2). Inr (s2, o1 @ o2)))"

lemma scan_packets_concat: "scan_packets ps s = scan_bytes (concat ps) s"
  by (induction ps arbitrary: s) (simp_all add: scan_bytes_append)

text \<open>C18. NALUs that obey the rules of both codecs, sent one after the other with long or short
  start codes and closed by one more start code, are found again by the scanner, complete and in
  order, however the byte stream is cut into UDP packets and whatever the array held before.\<close>

theorem raw_stream_roundtrip:
  assumes "list_all raw_nalu_ok ns" and "concat pkts = concat (map raw_nalu ns) @ start_of final"
  shows "\<exists>s'. scan_packets pkts (scanner_new garbage) = Inr (s', map raw_nalu ns)"
proof -
  have new: "holds [] (scanner_new garbage)" "nalu_search_state (scanner_new garbage) = 0"
    by (simp_all add: holds_def scanner_new_def read_bytes_def)
  have first: "\<exists>s. scan_bytes (start_of long) (scanner_new garbage) = Inr (s, [])
      \<and> holds (start_of long) s \<and> nalu_search_state s = 0" for long
    using scan_start [OF new, of long] by (simp add: RAW_NALU_MAXLEN_def)
  show ?thesis
  proof (cases ns)
    case Nil
    then show ?thesis using first [of final] assms(2) by (auto simp: scan_packets_concat)
  next
    case (Cons m ms)
    obtain s where s: "scan_bytes (start_of (fst m)) (scanner_new garbage) = Inr (s, [])"
      "holds (start_of (fst m)) s" "nalu_search_state s = 0"
      using first by blast
    obtain s' where s': "scan_bytes (snd m @ concat (map raw_nalu ms) @ start_of final) s
        = Inr (s', map raw_nalu ns)"
      using scan_nalus [OF s(2,3), of "snd m" ms final] assms(1) Cons by auto
    have "concat pkts = start_of (fst m) @ snd m @ concat (map raw_nalu ms) @ start_of final"
      using assms(2) Cons by (simp add: raw_nalu_def)
    then show ?thesis
      using s(1) s' by (simp add: scan_packets_concat scan_bytes_append)
  qed
qed

text \<open>Two NALUs in three packets, a start code divided between two of them.\<close>

theorem raw_stream_roundtrip_witness:
  "\<exists>s'. scan_packets [[0, 0, 0, 1, 0x67, 9, 0], [0, 3, 5, 0, 0], [1, 0x68, 7, 0, 0, 0, 1]]
      (scanner_new (\<lambda>_. 255)) = Inr (s', [[0, 0, 0, 1, 0x67, 9, 0, 0, 3, 5], [0, 0, 1, 0x68, 7]])"
  using raw_stream_roundtrip
    [of "[(True, [0x67, 9, 0, 0, 3, 5]), (False, [0x68, 7])]"
      "[[0, 0, 0, 1, 0x67, 9, 0], [0, 3, 5, 0, 0], [1, 0x68, 7, 0, 0, 0, 1]]" True "\<lambda>_. 255"]
  by (simp add: raw_nalu_ok_def raw_nalu_def start_of_def RAW_NALU_MAXLEN_def)

section \<open>Past the end and before the beginning\<close>

definition scanner_inv :: "scanner \<Rightarrow> bool" where
  "scanner_inv s \<longleftrightarrow> -1 \<le> nalu_data_position s \<and> nalu_data_position s < RAW_NALU_MAXLEN - 1
     \<and> nalu_search_state s \<in> {0, 1, 2, 3}
     \<and> (nalu_data_position s = -1 \<longrightarrow> nalu_search_state s = 3)"

text \<open>A NALU the scanner hands on.\<close>

definition raw_out_ok :: "bytes \<Rightarrow> bool" where
  "raw_out_ok n \<longleftrightarrow> length n < nat RAW_NALU_MAXLEN \<and>
     (4 \<le> length n \<longrightarrow> take 4 n = start_of True \<or> take 3 n = start_of False)"

lemma scanner_inv_new: "scanner_inv (scanner_new g)"
  by (simp add: scanner_inv_def scanner_new_def RAW_NALU_MAXLEN_def)

lemma store_byte_inv:
  "store_byte b s = Inr s' \<Longrightarrow> scanner_inv s \<Longrightarrow>
     0 \<le> nalu_data_position s' \<and> nalu_data_position s' < RAW_NALU_MAXLEN - 1
     \<and> nalu_search_state s' = nalu_search_state s"
  by (auto simp: store_byte_def scanner_inv_def Let_def RAW_NALU_MAXLEN_def split: if_splits)

lemma length_read_bytes [simp]: "length (read_bytes mem n) = nat n"
  by (simp add: read_bytes_def)

lemma out_ok:
  assumes "has_valid_prefix (read_bytes mem 4) = Inr True" and "n < RAW_NALU_MAXLEN"
  shows "raw_out_ok (read_bytes mem n)"
proof -
  have v: "take 4 (read_bytes mem 4) = start_of True \<or> take 3 (read_bytes mem 4) = start_of False"
    using assms(1) by (simp add: has_valid_prefix_def starts_with_long(1) starts_with_short(1)
        start_of_def split: if_splits)
  have "take 4 (read_bytes mem n) = read_bytes mem 4" if "4 \<le> nat n"
    using read_bytes_take [of 4 "nat n" mem] that by (cases "0 \<le> n") simp_all
  then have "take 4 (read_bytes mem n) = start_of True \<or> take 3 (read_bytes mem n) = start_of False"
    if "4 \<le> nat n"
  proof -
    have "take 3 (read_bytes mem n) = take 3 (take 4 (read_bytes mem n))" by simp
    with v that \<open>4 \<le> nat n \<Longrightarrow> take 4 (read_bytes mem n) = read_bytes mem 4\<close> show ?thesis
      by (metis take_all length_read_bytes nat_numeral order_refl)
  qed
  then show ?thesis
    using assms(2) by (simp add: raw_out_ok_def RAW_NALU_MAXLEN_def)
qed

lemma scan_byte_inv:
  assumes "scan_byte b s = Inr (s', out)" and "scanner_inv s"
  shows "scanner_inv s' \<and> (\<forall>n. out = Some n \<longrightarrow> raw_out_ok n)"
proof -
  obtain s1 where s1: "store_byte b s = Inr s1"
    using assms(1) by (auto simp: scan_byte_def result_simps)
  note inv = store_byte_inv [OF s1 assms(2)]
  obtain v where v: "has_valid_prefix (read_bytes (nalu_memory s1) 4) = Inr v"
    using has_valid_prefix_total by blast
  show ?thesis
    using assms(1) inv assms(2) v
    by (auto simp: scan_byte_def s1 scanner_inv_def RAW_NALU_MAXLEN_def Let_def
        split: if_splits intro!: out_ok)
qed

lemma scan_bytes_inv:
  "scan_bytes bs s = Inr (s', outs) \<Longrightarrow> scanner_inv s \<Longrightarrow> scanner_inv s' \<and> list_all raw_out_ok outs"
proof (induction bs arbitrary: s outs)
  case Nil
  then show ?case by simp
next
  case (Cons b bs)
  from Cons.prems(1) obtain s1 out o2 where s1: "scan_byte b s = Inr (s1, out)"
    "scan_bytes bs s1 = Inr (s', o2)" "outs = (case out of None \<Rightarrow> o2 | Some n \<Rightarrow> n # o2)"
    by (auto simp: result_simps)
  with Cons.IH [OF s1(2)] scan_byte_inv [OF s1(1) Cons.prems(2)] show ?case
    by (auto split: option.splits)
qed

lemma scan_byte_fault:
  assumes "scanner_inv s"
  shows "scan_byte b s = Inl e \<longleftrightarrow> e = Over_Write \<and> nalu_data_position s = -1"
proof (cases "nalu_data_position s = -1")
  case True
  then show ?thesis by (auto simp: scan_byte_def store_byte_def)
next
  case False
  then obtain s1 where s1: "store_byte b s = Inr s1"
    using assms by (auto simp: store_byte_def scanner_inv_def RAW_NALU_MAXLEN_def Let_def)
  obtain v where v: "has_valid_prefix (read_bytes (nalu_memory s1) 4) = Inr v"
    using has_valid_prefix_total by blast
  have "scan_byte b s \<noteq> Inl e"
    by (simp add: scan_byte_def s1 v Let_def)
  with False show ?thesis by simp
qed

text \<open>The scanner writes before its array: when as many bytes as leave four places to the
  point where the position is reset have come without a start code, and then four zeros, the last
  zero resets the position to 0 and at once decrements it, and the next byte, whatever it is, is
  stored at index -1.\<close>

theorem raw_scanner_writes_before_array:
  assumes "clean 0 bs" and "int (length bs) = RAW_NALU_MAXLEN - 5"
  shows "scan_bytes (bs @ [0, 0, 0, 0, b]) (scanner_new garbage) = Inl Over_Write"
proof -
  have new: "holds [] (scanner_new garbage)" "nalu_search_state (scanner_new garbage) = int 0"
    by (simp_all add: holds_def scanner_new_def read_bytes_def)
  obtain s where s: "scan_bytes bs (scanner_new garbage) = Inr (s, [])" "holds bs s"
    "nalu_search_state s = 0"
    using scan_clean [OF new(1) _ new(2) _ assms(1)] assms(2) by auto
  obtain s1 where s1: "scan_byte 0 s = Inr (s1, None)" "holds (bs @ [0]) s1" "nalu_search_state s1 = 1"
    using scan_byte_inside [OF s(2), of 0 0] s(3) assms(2) by auto
  obtain s2 where s2: "scan_byte 0 s1 = Inr (s2, None)" "holds (bs @ [0, 0]) s2" "nalu_search_state s2 = 2"
    using scan_byte_inside [OF s1(2), of 1 0] s1(3) assms(2) by auto
  obtain s3 where s3: "scan_byte 0 s2 = Inr (s3, None)"
    "nalu_data_position s3 = RAW_NALU_MAXLEN - 2" "nalu_search_state s3 = 3"
    using s2 assms(2) by (simp add: scan_byte_def store_byte_def holds_def RAW_NALU_MAXLEN_def)
  obtain s4 where s4: "scan_byte 0 s3 = Inr (s4, None)" "nalu_data_position s4 = -1"
    using s3 by (simp add: scan_byte_def store_byte_def RAW_NALU_MAXLEN_def)
  have "scan_byte b s4 = Inl Over_Write"
    using s4(2) by (simp add: scan_byte_def store_byte_def)
  then show ?thesis
    using s(1) s1(1) s2(1) s3(1) s4(1) by (simp add: scan_bytes_append)
qed

lemma clean_replicate: "b \<noteq> 0 \<Longrightarrow> b \<noteq> 1 \<Longrightarrow> clean 0 (replicate k b)"
  by (induction k) simp_all

theorem raw_scanner_writes_before_array_witness:
  "scan_bytes (replicate 1048571 0xFF @ [0, 0, 0, 0, 7]) (scanner_new (\<lambda>_. 0)) = Inl Over_Write"
  by (rule raw_scanner_writes_before_array) (simp_all add: clean_replicate RAW_NALU_MAXLEN_def)

section \<open>The receiver\<close>

record raw_receiver =
  raw_is_h265 :: bool
  raw_keyframe_finder :: codec_config
  raw_scanner :: scanner
  raw_fps_calculator :: fps_calculator
  raw_data_queue :: "nalu list"
  raw_config_has_changed :: bool
  raw_n_frames_non_idr :: int
  raw_n_frames_idr :: int
  raw_n_dropped_frames :: int
  raw_statistics :: "statistic list"

definition raw_receiver_new :: "(int \<Rightarrow> u8) \<Rightarrow> int \<Rightarrow> bool \<Rightarrow> raw_receiver" where
  "raw_receiver_new garbage now h265 = \<lparr>
     raw_is_h265 = h265, raw_keyframe_finder = codec_config_new, raw_scanner = scanner_new garbage,
     raw_fps_calculator = \<lparr>m_n_frames_since_last = 0, m_last_n_nalus_recalculation = now\<rparr>,
     raw_data_queue = [], raw_config_has_changed = False, raw_n_frames_non_idr = 0,
     raw_n_frames_idr = 0, raw_n_dropped_frames = 0, raw_statistics = []\<rparr>"

abbreviation raw_report :: "statistic list \<Rightarrow> raw_receiver \<Rightarrow> raw_receiver" where
  "raw_report xs r \<equiv> r\<lparr>raw_statistics := raw_statistics r @ xs\<rparr>"

definition raw_count_frame :: "nalu \<Rightarrow> raw_receiver \<Rightarrow> raw_receiver" where
  "raw_count_frame n r =
     (let r1 = (if is_frame_but_not_keyframe n
                then r\<lparr>raw_n_frames_non_idr := raw_n_frames_non_idr r + 1\<rparr> else r);
          r2 = (if is_keyframe n
                then r1\<lparr>raw_n_frames_idr := raw_n_frames_idr r1 + 1\<rparr> else r1)
      in if raw_n_frames_idr r2 \<ge> 3
         then (raw_report [Keyframe_Interval
                 ((raw_n_frames_non_idr r2 + raw_n_frames_idr r2) div raw_n_frames_idr r2)] r2)
                \<lparr>raw_n_frames_idr := 0, raw_n_frames_non_idr := 0\<rparr>
         else r2)"

definition raw_estimate_fps :: "int \<Rightarrow> raw_receiver \<Rightarrow> raw_receiver" where
  "raw_estimate_fps now r =
     (let f = on_new_frame (raw_fps_calculator r) in
      if time_since_last_recalculation now f > seconds 2 then
        let (f', fps) = recalculate_fps_and_clear now f
        in raw_report [fps] (r\<lparr>raw_fps_calculator := f'\<rparr>)
      else r\<lparr>raw_fps_calculator := f\<rparr>)"

definition raw_deliver_frame :: "nalu \<Rightarrow> raw_receiver \<Rightarrow> raw_receiver result" where
  "raw_deliver_frame n r =
     rbind (NALUBuffer n) (\<lambda>buffer.
     case try_enqueue 20 buffer (raw_data_queue r) of
       (q, True) \<Rightarrow> Inr (r\<lparr>raw_data_queue := q\<rparr>)
     | (q, False) \<Rightarrow>
         let r1 = r\<lparr>raw_data_queue := q, raw_n_dropped_frames := raw_n_dropped_frames r + 1\<rparr>
         in Inr (raw_report [Decoder_Dropped_Frames (raw_n_dropped_frames r1)] r1))"

definition raw_queue_data :: "int \<Rightarrow> bytes \<Rightarrow> raw_receiver \<Rightarrow> raw_receiver result" where
  "raw_queue_data now data r =
     rbind (NALU data (raw_is_h265 r) now) (\<lambda>n.
     if is_aud n then Inr r
     else if is_sei n then Inr r
     else
       let r1 = raw_count_frame n r in
       if all_config_available (raw_is_h265 r1) (raw_keyframe_finder r1) then
         rbind (check_is_still_same_config_data n (raw_keyframe_finder r1)) (\<lambda>same.
         if \<not> same then Inr (r1\<lparr>raw_config_has_changed := True\<rparr>)
         else
           rbind (is_config n) (\<lambda>config.
           if config then Inr r1
           else if is_aud n then Inr r1
           else if is_sei n then Inr r1
           else if is_dps n then Inr r1
           else raw_deliver_frame n (raw_estimate_fps now r1)))
       else
         rbind (save_if_config n (raw_keyframe_finder r1)) (\<lambda>(c, _).
         Inr (r1\<lparr>raw_keyframe_finder := c\<rparr>)))"

definition raw_nalu_callback :: "int \<Rightarrow> bytes \<Rightarrow> raw_receiver \<Rightarrow> raw_receiver result" where
  "raw_nalu_callback now data r =
     (if length data < 6 then Inr r else raw_queue_data now data r)"

text \<open>The callback does not touch the scanner, so the NALUs of a packet are handled after it.\<close>

definition raw_udp_data_callback :: "int \<Rightarrow> bytes \<Rightarrow> raw_receiver \<Rightarrow> raw_receiver result" where
  "raw_udp_data_callback now data r =
     rbind (scan_bytes data (raw_scanner r)) (\<lambda>(s, nalus).
     rfold (raw_nalu_callback now) nalus (r\<lparr>raw_scanner := s\<rparr>))"

definition raw_receive_packets :: "(int \<times> bytes) list \<Rightarrow> raw_receiver \<Rightarrow> raw_receiver result" where
  "raw_receive_packets = rfold (\<lambda>(now, pkt). raw_udp_data_callback now pkt)"

definition raw_get_next_frame :: "raw_receiver \<Rightarrow> (nalu option \<times> raw_receiver) result" where
  "raw_get_next_frame r =
     rbind (wait_dequeue_timed (raw_data_queue r)) (\<lambda>(x, q). Inr (x, r\<lparr>raw_data_queue := q\<rparr>))"

definition raw_get_config_data :: "raw_receiver \<Rightarrow> bytes option result" where
  "raw_get_config_data r =
     (if all_config_available (raw_is_h265 r) (raw_keyframe_finder r)
      then rbind (get_config_data (raw_is_h265 r) (raw_keyframe_finder r)) (\<lambda>d. Inr (Some d))
      else Inr None)"

definition raw_width_height ::
  "(bytes \<Rightarrow> (int \<times> int) option) \<Rightarrow> raw_receiver \<Rightarrow> (int \<times> int) result" where
  "raw_width_height parse_sps r = config_width_height parse_sps (raw_keyframe_finder r)"

section \<open>When it stops\<close>

lemma raw_helpers_sel [simp]:
  "raw_is_h265 (raw_count_frame n r) = raw_is_h265 r"
  "raw_keyframe_finder (raw_count_frame n r) = raw_keyframe_finder r"
  "raw_scanner (raw_count_frame n r) = raw_scanner r"
  "raw_scanner (raw_estimate_fps t r) = raw_scanner r"
  by (simp_all add: raw_count_frame_def raw_estimate_fps_def Let_def split: prod.split)

lemma raw_deliver_frame_total:
  "nalu_ok n \<Longrightarrow> \<exists>r'. raw_deliver_frame n r = Inr r' \<and> raw_scanner r' = raw_scanner r"
  by (simp add: raw_deliver_frame_def try_enqueue_def Let_def)

lemma raw_queue_data_total:
  assumes "nalu_bytes_ok (raw_is_h265 r) f"
  shows "\<exists>r'. raw_queue_data now f r = Inr r' \<and> raw_scanner r' = raw_scanner r"
proof -
  let ?n = "nalu_of f (raw_is_h265 r) now" and ?c = "raw_keyframe_finder r"
  have ok: "nalu_ok ?n" using assms by simp
  have N: "NALU f (raw_is_h265 r) now = Inr ?n" by (rule NALU_ok) (rule assms)
  show ?thesis
  proof (cases "all_config_available (raw_is_h265 r) ?c")
    case False
    then show ?thesis
      by (simp add: raw_queue_data_def N Let_def save_if_config_ok [OF ok])
  next
    case True
    obtain same where same: "check_is_still_same_config_data ?n ?c = Inr same"
      using check_same_ok [of ?n ?c] True by simp
    show ?thesis
      using True raw_deliver_frame_total [OF ok, of "raw_estimate_fps now (raw_count_frame ?n r)"]
      by (simp add: raw_queue_data_def N Let_def same is_config_total)
  qed
qed

lemma raw_nalu_callback_total:
  assumes "raw_out_ok f"
  shows "\<exists>r'. raw_nalu_callback now f r = Inr r' \<and> raw_scanner r' = raw_scanner r"
proof (cases "length f < 6")
  case False
  then have "nalu_bytes_ok (raw_is_h265 r) f"
    using assms by (auto simp: raw_out_ok_def nalu_bytes_ok_def getMinimumNaluSize_def start_of_def)
  then show ?thesis
    using raw_queue_data_total False by (simp add: raw_nalu_callback_def)
qed (simp add: raw_nalu_callback_def)

lemma raw_nalus_total:
  "list_all raw_out_ok fs \<Longrightarrow>
     \<exists>r'. rfold (raw_nalu_callback now) fs r = Inr r' \<and> raw_scanner r' = raw_scanner r"
proof (induction fs arbitrary: r)
  case (Cons f fs)
  obtain r1 where "raw_nalu_callback now f r = Inr r1" "raw_scanner r1 = raw_scanner r"
    using raw_nalu_callback_total [of f now r] Cons.prems by auto
  with Cons.IH [of r1] Cons.prems show ?case by auto
qed simp

lemma scan_bytes_fault:
  "scan_bytes bs s = Inl e \<Longrightarrow> scanner_inv s \<Longrightarrow> e = Over_Write"
proof (induction bs arbitrary: s)
  case (Cons b bs)
  from Cons.prems(1) consider "scan_byte b s = Inl e"
    | s1 out where "scan_byte b s = Inr (s1, out)" "scan_bytes bs s1 = Inl e"
    by (auto simp: result_simps)
  then show ?case
    using Cons.IH Cons.prems(2) scan_byte_fault scan_byte_inv by cases blast+
qed simp

lemma raw_receive_tracks:
  assumes "scanner_inv (raw_scanner r)"
  shows "(case scan_packets (map snd pkts) (raw_scanner r) of
     Inl e \<Rightarrow> raw_receive_packets pkts r = Inl e \<and> e = Over_Write
   | Inr (s, outs) \<Rightarrow> \<exists>r'. raw_receive_packets pkts r = Inr r' \<and> raw_scanner r' = s)"
  using assms
proof (induction pkts arbitrary: r)
  case Nil
  then show ?case by (simp add: raw_receive_packets_def)
next
  case (Cons p pkts)
  obtain now pkt where p: "p = (now, pkt)" by fastforce
  show ?case
  proof (cases "scan_bytes pkt (raw_scanner r)")
    case (Inl e)
    then show ?thesis
      using scan_bytes_fault [OF Inl Cons.prems]
      by (simp add: p raw_receive_packets_def raw_udp_data_callback_def)
  next
    case (Inr so)
    obtain s1 outs where so: "so = (s1, outs)" by fastforce
    note inv = scan_bytes_inv [OF Inr [unfolded so] Cons.prems]
    obtain r1 where r1: "raw_udp_data_callback now pkt r = Inr r1" "raw_scanner r1 = s1"
      using raw_nalus_total [of outs now "r\<lparr>raw_scanner := s1\<rparr>"] inv
      by (auto simp: raw_udp_data_callback_def Inr so)
    have "raw_receive_packets (p # pkts) r = raw_receive_packets pkts r1"
      using r1(1) by (simp add: raw_receive_packets_def p)
    with Cons.IH [of r1] inv r1(2) show ?thesis
      by (cases "scan_packets (map snd pkts) s1") (auto simp: p Inr so)
  qed
qed

text \<open>The only thing that can stop a raw receiver is the store at index -1: whatever bytes
  arrive, for either codec, handling them ends in a fault exactly when the scanner's position has
  become -1, and the fault is that store. In particular no NALU it finds fails an assertion.\<close>

theorem raw_receiver_fault_iff:
  "raw_receive_packets pkts (raw_receiver_new garbage t h265) = Inl e \<longleftrightarrow>
     e = Over_Write \<and> scan_packets (map snd pkts) (scanner_new garbage) = Inl Over_Write"
  using raw_receive_tracks [of "raw_receiver_new garbage t h265" pkts] scanner_inv_new
  by (cases "scan_packets (map snd pkts) (scanner_new garbage)")
    (auto simp: raw_receiver_new_def)

end
