(* ===== verification/Retransmission.thy ===== *)
theory Retransmission
  imports Prelude "HOL-Library.Multiset"
begin

text \<open>
  The loop with which \<open>CmdSender::handle_timeout\<close>, \<open>XParam::check_timeout_param_set\<close> and
  \<open>XParam::check_timeout_param_get_all\<close> go through a list of requests sent over a lossy link: a
  request that is overdue is sent again, or, when it has been sent often enough, erased and
  reported as timed out.

  All three loops erase with \<open>it=list.erase(it)\<close> and then run the \<open>++it\<close> of the loop header: the
  element after an erased one is stepped over, and when the erased one was the last, the end
  iterator is incremented, \<open>Past_End\<close>.
\<close>

section \<open>The loop\<close>

text \<open>The result: the list after the loop, the requests sent again (as they were before) and the
  requests erased.\<close>

fun timeout_loop ::
  "('c \<Rightarrow> bool) \<Rightarrow> ('c \<Rightarrow> bool) \<Rightarrow> ('c \<Rightarrow> 'c) \<Rightarrow> 'c list \<Rightarrow> ('c list \<times> 'c list \<times> 'c list) result" where
  "timeout_loop due retry resend [] = Inr ([], [], [])"
| "timeout_loop due retry resend [c] =
     (if \<not> due c then Inr ([c], [], [])
      else if retry c then Inr ([resend c], [c], [])
      else Inl Past_End)"
| "timeout_loop due retry resend (c # c2 # cs) =
     (if \<not> due c then
        rbind (timeout_loop due retry resend (c2 # cs)) (\<lambda>(l, s, t). Inr (c # l, s, t))
      else if retry c then
        rbind (timeout_loop due retry resend (c2 # cs)) (\<lambda>(l, s, t). Inr (resend c # l, c # s, t))
      else
        rbind (timeout_loop due retry resend cs) (\<lambda>(l, s, t). Inr (c2 # l, s, c # t)))"

section \<open>The contract of a request\<close>

text \<open>\<open>attempts\<close> and \<open>wanted\<close> count transmissions, \<open>key\<close> identifies the request (in the
  program, its callback), \<open>due now\<close> tells that it is overdue.\<close>

locale retry_request =
  fixes attempts wanted :: "'c \<Rightarrow> int"
    and key :: "'c \<Rightarrow> 'k"
    and due :: "int \<Rightarrow> 'c \<Rightarrow> bool"
    and resend :: "int \<Rightarrow> 'c \<Rightarrow> 'c"
  assumes resend_attempts: "attempts (resend now c) = attempts c + 1"
    and resend_wanted: "wanted (resend now c) = wanted c"
    and resend_key: "key (resend now c) = key c"
begin

definition in_budget :: "'c \<Rightarrow> bool" where
  "in_budget c \<longleftrightarrow> 1 \<le> attempts c \<and> attempts c \<le> wanted c"

lemma loop_keys:
  "timeout_loop (due now) (\<lambda>c. attempts c < wanted c) (resend now) cs = Inr (l, s, t) \<Longrightarrow>
     mset (map key cs) = mset (map key l) + mset (map key t)"
proof (induction "due now" "\<lambda>c. attempts c < wanted c" "resend now" cs arbitrary: l s t
    rule: timeout_loop.induct)
  case (3 c c2 cs)
  then show ?case
    by (auto simp: result_simps resend_key split: if_splits)
qed (auto simp: resend_key split: if_splits)

lemma loop_budget:
  "timeout_loop (due now) (\<lambda>c. attempts c < wanted c) (resend now) cs = Inr (l, s, t) \<Longrightarrow>
     list_all in_budget cs \<Longrightarrow> list_all in_budget l"
proof (induction "due now" "\<lambda>c. attempts c < wanted c" "resend now" cs arbitrary: l s t
    rule: timeout_loop.induct)
  case (3 c c2 cs)
  then show ?case
    by (auto simp: result_simps in_budget_def resend_attempts resend_wanted split: if_splits)
qed (auto simp: in_budget_def resend_attempts resend_wanted split: if_splits)

lemma loop_timed_out:
  "timeout_loop (due now) (\<lambda>c. attempts c < wanted c) (resend now) cs = Inr (l, s, t) \<Longrightarrow>
     list_all in_budget cs \<Longrightarrow> list_all (\<lambda>c. due now c \<and> attempts c = wanted c) t"
proof (induction "due now" "\<lambda>c. attempts c < wanted c" "resend now" cs arbitrary: l s t
    rule: timeout_loop.induct)
  case (3 c c2 cs)
  then show ?case
    by (auto simp: result_simps in_budget_def split: if_splits)
qed (auto split: if_splits)

lemma loop_length:
  "timeout_loop (due now) (\<lambda>c. attempts c < wanted c) (resend now) cs = Inr (l, s, t) \<Longrightarrow>
     length l \<le> length cs"
  by (drule loop_keys) (metis le_add1 length_map size_mset size_union)

text \<open>A request that has used up its transmissions and is the last of the list.\<close>

lemma loop_past_end:
  assumes "\<forall>c \<in> set pre. due now c \<longrightarrow> attempts c < wanted c" and "due now c"
    and "wanted c \<le> attempts c"
  shows "timeout_loop (due now) (\<lambda>c. attempts c < wanted c) (resend now) (pre @ [c]) = Inl Past_End"
  using assms
proof (induction pre)
  case Nil
  then show ?case by simp
next
  case (Cons p pre)
  then show ?case by (cases "pre @ [c]") auto
qed

text \<open>The request after an erased one.\<close>

lemma loop_skips:
  assumes "\<not> attempts c < wanted c" and "due now c"
  shows "timeout_loop (due now) (\<lambda>c. attempts c < wanted c) (resend now) (c # c2 # cs) =
    rbind (timeout_loop (due now) (\<lambda>c. attempts c < wanted c) (resend now) cs)
      (\<lambda>(l, s, t). Inr (c2 # l, s, c # t))"
  using assms by simp

end

end
