(* ===== verification/Cmd_Sender.thy ===== *)
theory Cmd_Sender
  imports Retransmission Decimal
begin

text \<open>
  The class \<open>CmdSender\<close> of \<open>app/telemetry/action/impl/cmdsender.h\<close> and \<open>cmdsender.cpp\<close>:
  MAVLink commands over a lossy link, at most five at a time, each sent again until it is
  acknowledged or has been sent often enough.

  The structures of the MAVLink library are third-party code: of a command the model has the
  command id and the confirmation counter, the other fields are the type parameter \<open>'p\<close>; a
  message is decoded by the library, so the model starts at the decoded acknowledgement. Messages
  handed to the link are recorded in \<open>sent\<close>, the calls of the result callbacks in \<open>results\<close>,
  a callback being any value \<open>'k\<close>. Every operation holds the mutex while it touches the list;
  \<open>now\<close> is the clock in nanoseconds. Debug output is left out.
\<close>

section \<open>State\<close>

record 'p command_long =
  command :: u16
  confirmation :: u8
  other_fields :: 'p

record command_ack =
  ack_command :: u16
  ack_result :: u8
  ack_target_system :: u8
  ack_target_component :: u8

record run_command_result =
  opt_ack :: "command_ack option"
  result_n_transmissions :: int

record ('p, 'k) running_command =
  cmd :: "'p command_long"
  cb :: 'k
  n_wanted_retransmissions :: int
  retransmit_delay :: int
  n_transmissions :: int
  last_transmission :: int

record ('p, 'k) cmd_sender =
  m_running_commands :: "('p, 'k) running_command list"
  sent :: "'p command_long list"
  results :: "('k \<times> run_command_result) list"

definition cmd_sender_new :: "('p, 'k) cmd_sender" where
  "cmd_sender_new = \<lparr>m_running_commands = [], sent = [], results = []\<rparr>"

definition MAX_N_SIMULTANOEUS_COMMANDS :: nat where
  "MAX_N_SIMULTANOEUS_COMMANDS = 5"

abbreviation milliseconds :: "int \<Rightarrow> int" where
  "milliseconds n \<equiv> n * 1000000"

text \<open>\<open>MAV_RESULT_ACCEPTED\<close> is 0 in the MAVLink common dialect.\<close>

definition MAV_RESULT_ACCEPTED :: u8 where
  "MAV_RESULT_ACCEPTED = 0"

definition is_accepted :: "run_command_result \<Rightarrow> bool" where
  "is_accepted r = (case opt_ack r of None \<Rightarrow> False | Some a \<Rightarrow> ack_result a = MAV_RESULT_ACCEPTED)"

text \<open>\<open>QOpenHDMavlinkHelper::get_own_sys_id\<close>: the integer setting cut to eight bits.\<close>

definition get_own_sys_id :: "int \<Rightarrow> u8" where
  "get_own_sys_id setting = of_int setting"

section \<open>Operations\<close>

definition send_command ::
  "int \<Rightarrow> ('p, 'k) running_command \<Rightarrow> ('p, 'k) running_command" where
  "send_command now c =
     (let n = n_transmissions c + 1 in
      c\<lparr>last_transmission := now, n_transmissions := n,
        cmd := (cmd c)\<lparr>confirmation := of_int n\<rparr>\<rparr>)"

definition send_command_long_async ::
  "int \<Rightarrow> 'p command_long \<Rightarrow> 'k \<Rightarrow> int \<Rightarrow> int \<Rightarrow> ('p, 'k) cmd_sender \<Rightarrow>
     (('p, 'k) cmd_sender \<times> bool) result" where
  "send_command_long_async now msg result_cb delay n_wanted s =
     rbind (rassert (n_wanted \<ge> 1)) (\<lambda>_.
     rbind (rassert (delay \<ge> 10)) (\<lambda>_.
     if length (m_running_commands s) \<ge> MAX_N_SIMULTANOEUS_COMMANDS then Inr (s, False)
     else
       let c = \<lparr>cmd = msg, cb = result_cb, n_wanted_retransmissions = n_wanted,
                retransmit_delay = delay, n_transmissions = 0, last_transmission = now\<rparr>
       in Inr (s\<lparr>m_running_commands := m_running_commands s @ [send_command now c],
                 sent := sent s @ [cmd c]\<rparr>, True)))"

fun find_remove_running_command ::
  "u16 \<Rightarrow> ('p, 'k) running_command list \<Rightarrow>
     (('p, 'k) running_command \<times> ('p, 'k) running_command list) option" where
  "find_remove_running_command command_id [] = None"
| "find_remove_running_command command_id (c # cs) =
     (if command (cmd c) = command_id then Some (c, cs)
      else map_option (\<lambda>(x, r). (x, c # r)) (find_remove_running_command command_id cs))"

definition handle_cmd_ack ::
  "command_ack \<Rightarrow> ('p, 'k) cmd_sender \<Rightarrow> ('p, 'k) cmd_sender \<times> bool" where
  "handle_cmd_ack ack s =
     (case find_remove_running_command (ack_command ack) (m_running_commands s) of
        Some (c, rest) \<Rightarrow>
          (s\<lparr>m_running_commands := rest,
             results := results s @
               [(cb c, \<lparr>opt_ack = Some ack, result_n_transmissions = n_transmissions c\<rparr>)]\<rparr>, True)
      | None \<Rightarrow> (s, False))"

text \<open>A message is \<open>None\<close> when it is not an acknowledgement.\<close>

definition process_message ::
  "u8 \<Rightarrow> u8 \<Rightarrow> command_ack option \<Rightarrow> ('p, 'k) cmd_sender \<Rightarrow> ('p, 'k) cmd_sender \<times> bool" where
  "process_message self_sysid self_compid msg s =
     (case msg of
        Some ack \<Rightarrow>
          if ack_target_system ack = self_sysid \<and> ack_target_component ack = self_compid
          then handle_cmd_ack ack s else (s, False)
      | None \<Rightarrow> (s, False))"

definition overdue :: "int \<Rightarrow> ('p, 'k) running_command \<Rightarrow> bool" where
  "overdue now c \<longleftrightarrow> now - last_transmission c > milliseconds (retransmit_delay c)"

definition may_retransmit :: "('p, 'k) running_command \<Rightarrow> bool" where
  "may_retransmit c \<longleftrightarrow> n_transmissions c < n_wanted_retransmissions c"

definition handle_timeout :: "int \<Rightarrow> ('p, 'k) cmd_sender \<Rightarrow> ('p, 'k) cmd_sender result" where
  "handle_timeout now s =
     rbind (timeout_loop (overdue now) may_retransmit (send_command now) (m_running_commands s))
       (\<lambda>(l, resent, timed_out).
         Inr (s\<lparr>m_running_commands := l, sent := sent s @ map cmd resent,
                results := results s @ map (\<lambda>c.
                  (cb c, \<lparr>opt_ack = None, result_n_transmissions = n_transmissions c\<rparr>)) timed_out\<rparr>))"

text \<open>\<open>send_command_long_blocking\<close> waits for its own callback and translates the result.\<close>

datatype cmd_result = QUEUE_FULL | NO_RESPONSE | CMD_DENIED | CMD_SUCCESS

definition blocking_result :: "run_command_result \<Rightarrow> cmd_result" where
  "blocking_result r =
     (case opt_ack r of
        None \<Rightarrow> NO_RESPONSE
      | Some ack \<Rightarrow> if ack_result ack = MAV_RESULT_ACCEPTED then CMD_SUCCESS else CMD_DENIED)"

text \<open>Its return, once the state of the sender is \<open>s\<close>: nothing while its callback has not run.\<close>

definition blocking_returns ::
  "bool \<Rightarrow> 'k \<Rightarrow> ('p, 'k) cmd_sender \<Rightarrow> cmd_result option" where
  "blocking_returns enqueued k s =
     (if \<not> enqueued then Some QUEUE_FULL else map_option blocking_result (map_of (results s) k))"

text \<open>The text of an acknowledgement comes from \<open>mavlink_enum_to_string.h\<close> and is a parameter.\<close>

definition run_command_result_as_string ::
  "(command_ack \<Rightarrow> string) \<Rightarrow> run_command_result \<Rightarrow> string" where
  "run_command_result_as_string ack_to_string r =
     (case opt_ack r of
        None \<Rightarrow> ''No ack after '' @ int_to_string (result_n_transmissions r) @ '' tries''
      | Some ack \<Rightarrow> ''Ack after '' @ int_to_string (result_n_transmissions r) @ '' tries,'' @
          ack_to_string ack)"

section \<open>The contract\<close>

interpretation cmd_request: retry_request
  n_transmissions n_wanted_retransmissions cb overdue send_command
  by unfold_locales (simp_all add: send_command_def Let_def)

lemma handle_timeout_loop:
  "handle_timeout now s = Inr s' \<longleftrightarrow>
     (\<exists>l r t. timeout_loop (overdue now) (\<lambda>c. n_transmissions c < n_wanted_retransmissions c)
                (send_command now) (m_running_commands s) = Inr (l, r, t) \<and>
        s' = s\<lparr>m_running_commands := l, sent := sent s @ map cmd r,
               results := results s @ map (\<lambda>c.
                 (cb c, \<lparr>opt_ack = None, result_n_transmissions = n_transmissions c\<rparr>)) t\<rparr>)"
  by (auto simp: handle_timeout_def may_retransmit_def [abs_def] result_simps)

section \<open>Every command is answered at most once\<close>

datatype 'p sender_event =
    Send int "'p command_long" int int
  | Message "command_ack option"
  | Timeout int

text \<open>A run in which the \<open>i\<close>th accepted command has the callback \<open>i\<close>; the second component
  counts the accepted commands.\<close>

fun sender_step ::
  "u8 \<Rightarrow> u8 \<Rightarrow> 'p sender_event \<Rightarrow> ('p, nat) cmd_sender \<times> nat \<Rightarrow> (('p, nat) cmd_sender \<times> nat) result" where
  "sender_step sys cmp (Send now c delay n) (s, k) =
     rbind (send_command_long_async now c k delay n s)
       (\<lambda>(s', ok). Inr (s', if ok then Suc k else k))"
| "sender_step sys cmp (Message m) (s, k) = Inr (fst (process_message sys cmp m s), k)"
| "sender_step sys cmp (Timeout now) (s, k) = rbind (handle_timeout now s) (\<lambda>s'. Inr (s', k))"

definition answers :: "('p, nat) cmd_sender \<Rightarrow> nat multiset" where
  "answers s = mset (map cb (m_running_commands s)) + mset (map fst (results s))"

definition sender_inv :: "('p, nat) cmd_sender \<times> nat \<Rightarrow> bool" where
  "sender_inv sk \<longleftrightarrow>
     answers (fst sk) = mset [0..<snd sk] \<and>
     length (m_running_commands (fst sk)) \<le> MAX_N_SIMULTANOEUS_COMMANDS \<and>
     list_all cmd_request.in_budget (m_running_commands (fst sk))"

lemma find_remove_Some:
  "find_remove_running_command i cs = Some (c, rest) \<Longrightarrow>
     mset cs = mset rest + {#c#} \<and> command (cmd c) = i"
  by (induction cs arbitrary: rest) (auto split: if_splits)

lemma find_remove_None:
  "find_remove_running_command i cs = None \<longleftrightarrow> (\<forall>c \<in> set cs. command (cmd c) \<noteq> i)"
  by (induction cs) auto

lemma mset_map_cong: "mset xs = mset ys + {#x#} \<Longrightarrow> mset (map f xs) = mset (map f ys) + {#f x#}"
  by (metis image_mset_add_mset mset_map add_mset_add_single)

lemma handle_cmd_ack_inv:
  assumes "sender_inv (s, k)"
  shows "sender_inv (fst (handle_cmd_ack ack s), k)"
proof (cases "find_remove_running_command (ack_command ack) (m_running_commands s)")
  case None
  with assms show ?thesis by (simp add: handle_cmd_ack_def)
next
  case (Some p)
  obtain c rest where p: "p = (c, rest)" by fastforce
  note split = find_remove_Some [OF Some [unfolded p]]
  have keys: "mset (map cb (m_running_commands s)) = mset (map cb rest) + {#cb c#}"
    using split by (intro mset_map_cong) simp
  have len: "length (m_running_commands s) = Suc (length rest)"
    using split by (metis size_mset size_add_mset add_mset_add_single)
  have "set rest \<subseteq> set (m_running_commands s)"
    using split by (metis mset_subset_eqD mset_subset_eq_add_left set_mset_mset subsetI)
  with assms keys len show ?thesis
    by (auto simp: handle_cmd_ack_def Some p sender_inv_def answers_def list_all_iff)
qed

lemma handle_timeout_inv:
  assumes "sender_inv (s, k)" and "handle_timeout now s = Inr s'"
  shows "sender_inv (s', k)"
proof -
  obtain l r t where loop: "timeout_loop (overdue now) (\<lambda>c. n_transmissions c < n_wanted_retransmissions c)
      (send_command now) (m_running_commands s) = Inr (l, r, t)"
    and s': "s' = s\<lparr>m_running_commands := l, sent := sent s @ map cmd r,
               results := results s @ map (\<lambda>c.
                 (cb c, \<lparr>opt_ack = None, result_n_transmissions = n_transmissions c\<rparr>)) t\<rparr>"
    using assms(2) by (auto simp: handle_timeout_loop)
  show ?thesis
    using assms(1) cmd_request.loop_keys [OF loop] cmd_request.loop_budget [OF loop]
      cmd_request.loop_length [OF loop]
    by (simp add: s' sender_inv_def answers_def comp_def ac_simps)
qed

lemma send_async_inv:
  assumes "sender_inv (s, k)" and "send_command_long_async now c k delay n s = Inr (s', ok)"
  shows "sender_inv (s', if ok then Suc k else k)"
  using assms
  by (auto simp: send_command_long_async_def sender_inv_def answers_def result_simps Let_def
      MAX_N_SIMULTANOEUS_COMMANDS_def cmd_request.in_budget_def send_command_def atLeast0_lessThan_Suc split: if_splits)

lemma sender_step_inv: "sender_step sys cmp e sk = Inr sk' \<Longrightarrow> sender_inv sk \<Longrightarrow> sender_inv sk'"
proof -
  assume step: "sender_step sys cmp e sk = Inr sk'" and inv: "sender_inv sk"
  obtain s k where sk: "sk = (s, k)" by fastforce
  show "sender_inv sk'"
  proof (cases e)
    case (Send now c delay n)
    with step inv show ?thesis
      by (auto simp: sk result_simps dest: send_async_inv)
  next
    case (Message m)
    with step inv handle_cmd_ack_inv [of s k] show ?thesis
      by (auto simp: sk process_message_def split: option.splits if_splits)
  next
    case (Timeout now)
    with step inv show ?thesis
      by (auto simp: sk result_simps intro: handle_timeout_inv)
  qed
qed

text \<open>C20. However commands, messages and time-outs follow each other: of the accepted commands
  each one is either still waiting or has had its result callback called, and that exactly once;
  at most five wait; and each waiting one has been sent at least once and at most as often as was
  asked for.\<close>

theorem commands_answered_once:
  assumes "rfold (sender_step sys cmp) es (cmd_sender_new, 0) = Inr (s, k)"
  shows "mset (map cb (m_running_commands s)) + mset (map fst (results s)) = mset [0..<k]
    \<and> length (m_running_commands s) \<le> 5
    \<and> (\<forall>c \<in> set (m_running_commands s). 1 \<le> n_transmissions c \<and> n_transmissions c \<le> n_wanted_retransmissions c)"
proof -
  have "sender_inv (cmd_sender_new, 0)"
    by (simp add: sender_inv_def answers_def cmd_sender_new_def)
  with assms have "sender_inv (s, k)"
    by (rule rfold_invariant) (rule sender_step_inv)
  then show ?thesis
    by (simp add: sender_inv_def answers_def MAX_N_SIMULTANOEUS_COMMANDS_def list_all_iff
        cmd_request.in_budget_def)
qed

definition demo_command :: "unit command_long" where
  "demo_command = \<lparr>command = 400, confirmation = 0, other_fields = ()\<rparr>"

definition demo_ack :: command_ack where
  "demo_ack = \<lparr>ack_command = 400, ack_result = 0, ack_target_system = 255, ack_target_component = 190\<rparr>"

text \<open>A command, a retransmission after 501 ms, a second command, the acknowledgement of the
  first one.\<close>

theorem commands_answered_once_witness:
  "\<exists>s. rfold (sender_step 255 190) [Send 0 demo_command 500 3, Timeout 501000000,
      Send 501000000 (demo_command\<lparr>command := 246\<rparr>) 500 3, Message (Some demo_ack)]
      (cmd_sender_new, 0) = Inr (s, 2)
    \<and> mset (map cb (m_running_commands s)) + mset (map fst (results s)) = mset [0..<2]
    \<and> map fst (results s) = [0]"
proof -
  obtain s where s: "rfold (sender_step 255 190) [Send 0 demo_command 500 3, Timeout 501000000,
      Send 501000000 (demo_command\<lparr>command := 246\<rparr>) 500 3, Message (Some demo_ack)]
      (cmd_sender_new, 0) = Inr (s, 2)" "map fst (results s) = [0]"
    by (simp add: send_command_long_async_def cmd_sender_new_def MAX_N_SIMULTANOEUS_COMMANDS_def
        send_command_def handle_timeout_def overdue_def may_retransmit_def process_message_def
        handle_cmd_ack_def demo_command_def demo_ack_def)
  show ?thesis
    using commands_answered_once [OF s(1)]
    by (intro exI [of _ s] conjI) (rule s(1), elim conjE, assumption, rule s(2))
qed

section \<open>Retransmissions\<close>

text \<open>Times of the time-out check, each overdue after the one before.\<close>

fun spaced :: "int \<Rightarrow> int \<Rightarrow> int list \<Rightarrow> bool" where
  "spaced delay t0 [] \<longleftrightarrow> True"
| "spaced delay t0 (t # ts) \<longleftrightarrow> t - t0 > milliseconds delay \<and> spaced delay t ts"

definition sent_again :: "'p command_long \<Rightarrow> nat \<Rightarrow> 'p command_long" where
  "sent_again c i = (if i = 0 then c else c\<lparr>confirmation := of_nat i\<rparr>)"

definition waiting_since :: "'p command_long \<Rightarrow> 'k \<Rightarrow> int \<Rightarrow> int \<Rightarrow> nat \<Rightarrow> int \<Rightarrow> ('p, 'k) running_command" where
  "waiting_since c k delay n i t = \<lparr>cmd = c\<lparr>confirmation := of_nat i\<rparr>, cb = k,
     n_wanted_retransmissions = n, retransmit_delay = delay, n_transmissions = int i,
     last_transmission = t\<rparr>"

lemma send_again:
  "send_command t' (waiting_since c k delay n i t) = waiting_since c k delay n (Suc i) t'"
  by (simp add: send_command_def waiting_since_def Let_def add.commute)

lemma retransmit_once:
  assumes "m_running_commands s = [waiting_since c k delay n i t]" and "0 < i" and "int i < n"
    and "t' - t > milliseconds delay"
  shows "handle_timeout t' s = Inr (s\<lparr>m_running_commands := [waiting_since c k delay n (Suc i) t'],
    sent := sent s @ [sent_again c i]\<rparr>)"
  using assms
  by (simp add: handle_timeout_def overdue_def may_retransmit_def send_again)
    (simp add: waiting_since_def sent_again_def)

lemma retransmit_many:
  assumes "m_running_commands s = [waiting_since c k delay n i t]" and "0 < i"
    and "int (i + length ts) \<le> n" and "spaced delay t ts"
  shows "rfold handle_timeout ts s = Inr (s\<lparr>
    m_running_commands := [waiting_since c k delay n (i + length ts) (List.last (t # ts))],
    sent := sent s @ map (sent_again c) [i..<i + length ts]\<rparr>)"
  using assms
proof (induction ts arbitrary: s i t)
  case Nil
  then show ?case by simp
next
  case (Cons t' ts)
  let ?s = "s\<lparr>m_running_commands := [waiting_since c k delay n (Suc i) t'],
    sent := sent s @ [sent_again c i]\<rparr>"
  have "handle_timeout t' s = Inr ?s"
    using Cons.prems by (intro retransmit_once) auto
  moreover have "rfold handle_timeout ts ?s = Inr (?s\<lparr>
    m_running_commands := [waiting_since c k delay n (Suc i + length ts) (List.last (t' # ts))],
    sent := sent ?s @ map (sent_again c) [Suc i..<Suc i + length ts]\<rparr>)"
    using Cons.prems by (intro Cons.IH) auto
  ultimately show ?case
    by (simp add: upt_conv_Cons del: upt_Suc)
qed

text \<open>A command nobody answers is sent as often as was asked for and no more, first as it is
  and then with the number of the transmission as its confirmation counter; the result callback
  is not called. The check after the last transmission has become overdue then does not report the
  failure: erasing the only running command and incrementing the iterator once more leaves the
  list behind.\<close>

theorem unanswered_command:
  assumes "m_running_commands s = []" and "1 \<le> n" and "10 \<le> delay"
    and "spaced delay t0 (ts @ [t])" and "length ts = nat n - 1"
  shows "\<exists>s1 s'. send_command_long_async t0 c k delay n s = Inr (s1, True)
    \<and> rfold handle_timeout ts s1 = Inr s'
    \<and> sent s' = sent s @ map (sent_again c) [0..<nat n] \<and> results s' = results s
    \<and> handle_timeout t s' = Inl Past_End"
proof -
  let ?s1 = "s\<lparr>m_running_commands := [waiting_since c k delay n 1 t0], sent := sent s @ [c]\<rparr>"
  have s1: "send_command_long_async t0 c k delay n s = Inr (?s1, True)"
    using assms(1-3) by (simp add: send_command_long_async_def MAX_N_SIMULTANOEUS_COMMANDS_def
        send_command_def waiting_since_def Let_def)
  have sp: "spaced delay t0 ts \<and> t - List.last (t0 # ts) > milliseconds delay"
    using assms(4) by (induction ts arbitrary: t0) auto
  let ?s' = "?s1\<lparr>m_running_commands := [waiting_since c k delay n (1 + length ts) (List.last (t0 # ts))],
    sent := sent ?s1 @ map (sent_again c) [1..<1 + length ts]\<rparr>"
  have s': "rfold handle_timeout ts ?s1 = Inr ?s'"
    using assms(2,5) sp by (intro retransmit_many) auto
  have "handle_timeout t ?s' = Inl Past_End"
    using sp assms(2,5) by (simp add: handle_timeout_def overdue_def may_retransmit_def waiting_since_def)
  moreover have "sent ?s' = sent s @ map (sent_again c) [0..<nat n]"
  proof -
    have "[0..<nat n] = 0 # [1..<1 + length ts]"
      using assms(2,5) by (simp add: upt_conv_Cons)
    then show ?thesis by (simp add: sent_again_def)
  qed
  ultimately show ?thesis
    using s1 s' by (intro exI [of _ ?s1] exI [of _ ?s']) simp
qed

theorem unanswered_command_witness:
  "\<exists>s1 s'. send_command_long_async 0 demo_command (7::nat) 500 3 cmd_sender_new = Inr (s1, True)
    \<and> rfold handle_timeout [600000000, 1200000000] s1 = Inr s'
    \<and> map confirmation (sent s') = [0, 1, 2] \<and> results s' = []
    \<and> handle_timeout 1800000000 s' = Inl Past_End"
  using unanswered_command [of "cmd_sender_new :: (unit, nat) cmd_sender" 3 500 0
      "[600000000, 1200000000]" 1800000000 demo_command 7]
  by (auto simp: cmd_sender_new_def sent_again_def demo_command_def upt_rec)

text \<open>A time-out costs the request behind it its check: when a command that may not be sent
  again is erased, the command that follows it in the list is neither sent again nor timed out in
  this round, however long it has been overdue.\<close>

theorem timeout_skips_next:
  assumes "m_running_commands s = c1 # c2 # cs" and "overdue now c1" and "\<not> may_retransmit c1"
    and "handle_timeout now s = Inr s'"
  shows "hd (m_running_commands s') = c2 \<and>
    (\<exists>rs. results s' = results s @ (cb c1, \<lparr>opt_ack = None, result_n_transmissions = n_transmissions c1\<rparr>) # rs)"
  using assms by (auto simp: handle_timeout_def result_simps)

theorem timeout_skips_next_witness:
  "\<exists>s'. handle_timeout 900000000 (cmd_sender_new\<lparr>m_running_commands :=
      [waiting_since demo_command (1::nat) 500 3 3 0, waiting_since demo_command 2 500 3 1 0]\<rparr>) = Inr s'
    \<and> m_running_commands s' = [waiting_since demo_command 2 500 3 1 0]
    \<and> hd (m_running_commands s') = waiting_since demo_command 2 500 3 1 0"
proof -
  let ?s = "cmd_sender_new\<lparr>m_running_commands :=
      [waiting_since demo_command (1::nat) 500 3 3 0, waiting_since demo_command 2 500 3 1 0]\<rparr>"
  obtain s' where s': "handle_timeout 900000000 ?s = Inr s'"
    "m_running_commands s' = [waiting_since demo_command 2 500 3 1 0]"
    by (simp add: handle_timeout_def overdue_def may_retransmit_def waiting_since_def)
  with timeout_skips_next [OF _ _ _ s'(1)] show ?thesis
    by (simp add: overdue_def may_retransmit_def waiting_since_def)
qed

end
