(* ===== verification/Xparam.thy ===== *)
theory Xparam
  imports Retransmission
begin

text \<open>
  The class \<open>XParam\<close> of \<open>app/telemetry/action/impl/xparam.h\<close> and \<open>xparam.cpp\<close>: setting and
  fetching the parameters of the OpenHD ground and air units with the extended parameter messages
  of MAVLink.

  The message structures are those of the MAVLink library, with the character arrays as lists of
  bytes of fixed length; encoding and decoding a whole message is the library's, so the model
  starts and ends at the structures. What is handed to the link is recorded in \<open>sent\<close>, the calls
  of result and progress callbacks in \<open>calls\<close>; a callback is a value \<open>'k\<close>. A progress value is
  recorded as the quotient it is computed from. Every operation holds the mutex; \<open>now\<close> is the
  clock in nanoseconds.
\<close>

section \<open>Messages\<close>

record param_ext_set =
  set_target_system :: u8
  set_target_component :: u8
  set_param_id_field :: bytes
  set_param_type :: u8
  set_param_value :: bytes

record param_ext_request_list =
  list_target_system :: u8
  list_target_component :: u8

record param_ext_request_read =
  read_target_system :: u8
  read_target_component :: u8
  read_param_index :: nat

record param_ext_ack =
  ack_param_id :: bytes
  ack_param_type :: u8
  ack_param_result :: u8

record param_ext_value =
  value_param_id :: bytes
  value_param_value :: bytes
  value_param_type :: u8
  param_count :: u16
  param_index :: u16

text \<open>Constants of the MAVLink common dialect.\<close>

definition MAV_PARAM_EXT_TYPE_INT32 :: u8 where "MAV_PARAM_EXT_TYPE_INT32 = 6"

definition MAV_PARAM_EXT_TYPE_CUSTOM :: u8 where "MAV_PARAM_EXT_TYPE_CUSTOM = 11"

definition PARAM_ACK_ACCEPTED :: u8 where "PARAM_ACK_ACCEPTED = 0"

section \<open>Names and values in character arrays\<close>

text \<open>\<open>c_str\<close> is the text with its terminator, a constructor from \<open>char*\<close> stops at the first
  zero.\<close>

definition c_str :: "bytes \<Rightarrow> bytes" where
  "c_str s = s @ [0]"

definition from_c_str :: "bytes \<Rightarrow> bytes" where
  "from_c_str p = takeWhile (\<lambda>b. b \<noteq> 0) p"

definition memcpy :: "bytes \<Rightarrow> bytes \<Rightarrow> nat \<Rightarrow> bytes" where
  "memcpy dest source n = take n source @ drop n dest"

definition set_param_id :: "bytes \<Rightarrow> bytes \<Rightarrow> bytes" where
  "set_param_id dest source =
     (let len = (if length source \<ge> 16 then 16 else length source + 1)
      in memcpy dest (c_str source) len)"

definition get_param_id :: "bytes \<Rightarrow> bytes" where
  "get_param_id p = from_c_str (memcpy (replicate 17 0) p 16)"

definition int32_bytes :: "32 word \<Rightarrow> bytes" where
  "int32_bytes v = map (\<lambda>i. ucast (drop_bit (8 * i) v)) [0, 1, 2, 3]"

definition bytes_int32 :: "bytes \<Rightarrow> 32 word" where
  "bytes_int32 bs = ucast (bs ! 0) OR push_bit 8 (ucast (bs ! 1)) OR push_bit 16 (ucast (bs ! 2))
     OR push_bit 24 (ucast (bs ! 3))"

definition set_param_value_int :: "bytes \<Rightarrow> 32 word \<Rightarrow> bytes" where
  "set_param_value_int p v = memcpy (replicate 128 0) (int32_bytes v) 4"

definition set_param_value_string :: "bytes \<Rightarrow> bytes \<Rightarrow> bytes" where
  "set_param_value_string p v =
     (let len = (if length v \<ge> 128 then 128 else length v + 1)
      in memcpy (replicate 128 0) (c_str v) len)"

definition get_param_value_int :: "bytes \<Rightarrow> 32 word" where
  "get_param_value_int p = bytes_int32 (take 4 p)"

definition get_param_value_string :: "bytes \<Rightarrow> bytes" where
  "get_param_value_string p = from_c_str (memcpy (replicate 129 0) p 128)"

definition create_cmd_set_int :: "u8 \<Rightarrow> u8 \<Rightarrow> bytes \<Rightarrow> 32 word \<Rightarrow> param_ext_set" where
  "create_cmd_set_int target_sysid target_compid param_name v = \<lparr>
     set_target_system = target_sysid, set_target_component = target_compid,
     set_param_id_field = set_param_id (replicate 16 0) param_name,
     set_param_type = MAV_PARAM_EXT_TYPE_INT32,
     set_param_value = set_param_value_int (replicate 128 0) v\<rparr>"

definition create_cmd_set_string :: "u8 \<Rightarrow> u8 \<Rightarrow> bytes \<Rightarrow> bytes \<Rightarrow> param_ext_set" where
  "create_cmd_set_string target_sysid target_compid param_name v = \<lparr>
     set_target_system = target_sysid, set_target_component = target_compid,
     set_param_id_field = set_param_id (replicate 16 0) param_name,
     set_param_type = MAV_PARAM_EXT_TYPE_CUSTOM,
     set_param_value = set_param_value_string (replicate 128 0) v\<rparr>"

definition create_cmd_get_all :: "u8 \<Rightarrow> u8 \<Rightarrow> param_ext_request_list" where
  "create_cmd_get_all target_sysid target_compid =
     \<lparr>list_target_system = target_sysid, list_target_component = target_compid\<rparr>"

record param_variant =
  param_id :: bytes
  string_param :: "bytes option"
  int_param :: "32 word option"

definition parse_server_param :: "param_ext_value \<Rightarrow> param_variant" where
  "parse_server_param v =
     (let p = \<lparr>param_id = get_param_id (value_param_id v), string_param = None, int_param = None\<rparr> in
      if value_param_type v = MAV_PARAM_EXT_TYPE_INT32
      then p\<lparr>int_param := Some (get_param_value_int (value_param_value v))\<rparr>
      else if value_param_type v = MAV_PARAM_EXT_TYPE_CUSTOM
      then p\<lparr>string_param := Some (get_param_value_string (value_param_value v))\<rparr>
      else p)"

definition parse_server_param_set :: "param_ext_value list \<Rightarrow> param_variant list" where
  "parse_server_param_set param_set = map parse_server_param param_set"

text \<open>What a server that stores a set request answers when it is asked for the parameter.\<close>

definition value_of_set :: "param_ext_set \<Rightarrow> u16 \<Rightarrow> u16 \<Rightarrow> param_ext_value" where
  "value_of_set c n index = \<lparr>value_param_id = set_param_id_field c,
     value_param_value = set_param_value c, value_param_type = set_param_type c,
     param_count = n, param_index = index\<rparr>"

lemma takeWhile_no_zero: "0 \<notin> set s \<Longrightarrow> takeWhile (\<lambda>b. b \<noteq> (0::u8)) (s @ 0 # r) = s"
  by (induction s) auto

lemma array_roundtrip:
  assumes "0 \<notin> set s" and "length dest = n" and "set dest \<subseteq> {0}"
  shows "from_c_str (memcpy (replicate (Suc n) 0)
           (memcpy dest (c_str s) (if length s \<ge> n then n else length s + 1)) n) = take n s"
proof (cases "length s \<ge> n")
  case True
  then have "memcpy (replicate (Suc n) 0) (memcpy dest (c_str s) n) n = take n s @ 0 # []"
    using assms(2) by (simp add: memcpy_def c_str_def del: replicate_Suc) simp
  moreover have "0 \<notin> set (take n s)" using assms(1) by (meson in_set_takeD)
  ultimately show ?thesis
    using True by (simp add: from_c_str_def takeWhile_no_zero)
next
  case False
  have "memcpy (replicate (Suc n) 0) (memcpy dest (c_str s) (length s + 1)) n
      = s @ 0 # (drop (length s + 1) dest @ [0])"
    using assms(2) False by (simp add: memcpy_def c_str_def del: replicate_Suc) simp
  with False assms(1) show ?thesis
    by (simp add: from_c_str_def takeWhile_no_zero)
qed

lemma param_id_roundtrip:
  "0 \<notin> set s \<Longrightarrow> get_param_id (set_param_id (replicate 16 0) s) = take 16 s"
  using array_roundtrip [of s "replicate 16 0" 16]
  by (simp add: get_param_id_def set_param_id_def Let_def eval_nat_numeral)

lemma param_string_roundtrip:
  "0 \<notin> set s \<Longrightarrow> get_param_value_string (set_param_value_string p s) = take 128 s"
  using array_roundtrip [of s "replicate 128 0" 128]
  by (simp add: get_param_value_string_def set_param_value_string_def Let_def)

lemma bytes_int32_bytes: "bytes_int32 (int32_bytes v) = v"
proof (rule bit_word_eqI)
  fix n assume "n < LENGTH(32)"
  then consider "n < 8" | "8 \<le> n" "n < 16" | "16 \<le> n" "n < 24" | "24 \<le> n" "n < 32"
    by fastforce
  then show "bit (bytes_int32 (int32_bytes v)) n = bit v n"
    by cases (auto simp: bytes_int32_def int32_bytes_def bit_simps)
qed

lemma param_int_roundtrip: "get_param_value_int (set_param_value_int p v) = v"
  by (simp add: get_param_value_int_def set_param_value_int_def memcpy_def int32_bytes_def)
    (simp add: bytes_int32_bytes [unfolded int32_bytes_def, simplified])

text \<open>C22. What is written with a set request comes back when the parameters are fetched: the name
  up to its first 16 bytes, an integer exactly, a text up to its first 128 bytes, for every name
  and text without a zero byte.\<close>

theorem param_roundtrip:
  assumes "0 \<notin> set name" and "0 \<notin> set txt"
  shows "parse_server_param_set [value_of_set (create_cmd_set_int sys cmp name v) n i,
      value_of_set (create_cmd_set_string sys cmp name txt) n j]
    = [\<lparr>param_id = take 16 name, string_param = None, int_param = Some v\<rparr>,
       \<lparr>param_id = take 16 name, string_param = Some (take 128 txt), int_param = None\<rparr>]"
  using assms
  by (simp add: parse_server_param_set_def parse_server_param_def value_of_set_def
      create_cmd_set_int_def create_cmd_set_string_def param_id_roundtrip param_string_roundtrip
      param_int_roundtrip MAV_PARAM_EXT_TYPE_INT32_def MAV_PARAM_EXT_TYPE_CUSTOM_def)

theorem param_roundtrip_witness:
  "parse_server_param_set [value_of_set (create_cmd_set_int 101 190 [0x46, 0x50, 0x53] (-7)) 2 0,
      value_of_set (create_cmd_set_string 101 190 [0x46, 0x50, 0x53] [0x61]) 2 1]
    = [\<lparr>param_id = [0x46, 0x50, 0x53], string_param = None, int_param = Some (-7)\<rparr>,
       \<lparr>param_id = [0x46, 0x50, 0x53], string_param = Some [0x61], int_param = None\<rparr>]"
  using param_roundtrip [of "[0x46, 0x50, 0x53]" "[0x61]" 101 190 "-7" 2 0 1] by simp

section \<open>State\<close>

record 'k running_set =
  set_cmd :: param_ext_set
  set_cb :: 'k
  set_progress_cb :: bool
  set_n_wanted_retransmissions :: int
  set_retransmit_delay :: int
  set_n_transmissions :: int
  set_last_transmission :: int

record 'k running_get_all =
  base_cmd :: param_ext_request_list
  get_cb :: 'k
  get_progress_cb :: bool
  get_retransmit_delay :: int
  get_last_transmission :: int
  server_param_set :: "param_ext_value option list"
  get_n_wanted_retransmissions :: int
  get_n_transmissions :: int

datatype sent_message =
    Ext_Set param_ext_set
  | Ext_Request_List param_ext_request_list
  | Ext_Request_Read param_ext_request_read

datatype 'k param_call =
    Set_Result 'k "param_ext_ack option" int
  | Get_All_Result 'k bool "param_ext_value list"
  | Progress 'k int int

record 'k xparam =
  m_running_commands :: "'k running_set list"
  m_running_get_all :: "'k running_get_all list"
  sent :: "sent_message list"
  calls :: "'k param_call list"

definition xparam_new :: "'k xparam" where
  "xparam_new = \<lparr>m_running_commands = [], m_running_get_all = [], sent = [], calls = []\<rparr>"

definition MAX_N_SIMULTANOEUS_COMMANDS :: nat where
  "MAX_N_SIMULTANOEUS_COMMANDS = 5"

abbreviation milliseconds :: "int \<Rightarrow> int" where
  "milliseconds n \<equiv> n * 1000000"

section \<open>Setting a parameter\<close>

definition send_next_message_running_set :: "int \<Rightarrow> 'k running_set \<Rightarrow> 'k running_set" where
  "send_next_message_running_set now c =
     c\<lparr>set_last_transmission := now, set_n_transmissions := set_n_transmissions c + 1\<rparr>"

definition try_set_param_async ::
  "int \<Rightarrow> param_ext_set \<Rightarrow> 'k \<Rightarrow> bool \<Rightarrow> int \<Rightarrow> int \<Rightarrow> 'k xparam \<Rightarrow> ('k xparam \<times> bool) result" where
  "try_set_param_async now msg result_cb progress delay n_wanted x =
     rbind (rassert (n_wanted \<ge> 1)) (\<lambda>_.
     rbind (rassert (delay \<ge> 10)) (\<lambda>_.
     if length (m_running_commands x) \<ge> MAX_N_SIMULTANOEUS_COMMANDS then Inr (x, False)
     else
       let c = \<lparr>set_cmd = msg, set_cb = result_cb, set_progress_cb = progress,
                set_n_wanted_retransmissions = n_wanted, set_retransmit_delay = delay,
                set_n_transmissions = 0, set_last_transmission = now\<rparr>
       in Inr (x\<lparr>m_running_commands := m_running_commands x @ [send_next_message_running_set now c],
                 sent := sent x @ [Ext_Set msg]\<rparr>, True)))"

fun find_remove_running_set ::
  "param_ext_ack \<Rightarrow> u8 \<Rightarrow> u8 \<Rightarrow> 'k running_set list \<Rightarrow> ('k running_set \<times> 'k running_set list) option" where
  "find_remove_running_set ack sysid compid [] = None"
| "find_remove_running_set ack sysid compid (c # cs) =
     (if get_param_id (set_param_id_field (set_cmd c)) = get_param_id (ack_param_id ack)
         \<and> set_param_type (set_cmd c) = ack_param_type ack
         \<and> set_target_system (set_cmd c) = sysid \<and> set_target_component (set_cmd c) = compid
      then Some (c, cs)
      else map_option (\<lambda>(r, l). (r, c # l)) (find_remove_running_set ack sysid compid cs))"

definition handle_param_ext_ack ::
  "param_ext_ack \<Rightarrow> u8 \<Rightarrow> u8 \<Rightarrow> 'k xparam \<Rightarrow> 'k xparam \<times> bool" where
  "handle_param_ext_ack ack sysid compid x =
     (case find_remove_running_set ack sysid compid (m_running_commands x) of
        Some (c, rest) \<Rightarrow>
          (x\<lparr>m_running_commands := rest,
             calls := calls x @ [Set_Result (set_cb c) (Some ack) (set_n_transmissions c)]\<rparr>, True)
      | None \<Rightarrow> (x, False))"

definition set_overdue :: "int \<Rightarrow> 'k running_set \<Rightarrow> bool" where
  "set_overdue now c \<longleftrightarrow> now - set_last_transmission c > milliseconds (set_retransmit_delay c)"

definition check_timeout_param_set :: "int \<Rightarrow> 'k xparam \<Rightarrow> 'k xparam result" where
  "check_timeout_param_set now x =
     rbind (timeout_loop (set_overdue now)
              (\<lambda>c. set_n_transmissions c < set_n_wanted_retransmissions c)
              (send_next_message_running_set now) (m_running_commands x))
       (\<lambda>(l, resent, timed_out).
         Inr (x\<lparr>m_running_commands := l, sent := sent x @ map (\<lambda>c. Ext_Set (set_cmd c)) resent,
                calls := calls x @ map (\<lambda>c. Set_Result (set_cb c) None (set_n_transmissions c)) timed_out\<rparr>))"

text \<open>\<open>try_set_param_blocking\<close>: the value its callback puts into the promise.\<close>

definition set_param_accepted :: "param_ext_ack option \<Rightarrow> bool" where
  "set_param_accepted response =
     (case response of None \<Rightarrow> False | Some a \<Rightarrow> ack_param_result a = PARAM_ACK_ACCEPTED)"

text \<open>The progress of a set request (never called by the program), in percent times the wanted
  number of transmissions.\<close>

definition update_progress_set :: "'k running_set \<Rightarrow> bool \<Rightarrow> 'k param_call list" where
  "update_progress_set c finished =
     (if set_progress_cb c then
        if finished then [Progress (set_cb c) 1 1]
        else [Progress (set_cb c) (set_n_transmissions c) (set_n_wanted_retransmissions c)]
      else [])"

section \<open>Fetching all parameters\<close>

definition get_missing_count :: "param_ext_value option list \<Rightarrow> nat" where
  "get_missing_count s = length (filter (\<lambda>p. p = None) s)"

definition messages_get_all :: "'k running_get_all \<Rightarrow> sent_message list" where
  "messages_get_all r =
     (if length (server_param_set r) = 0 then [Ext_Request_List (base_cmd r)]
      else
        let n_missing = get_missing_count (server_param_set r) in
        if n_missing > 2 \<and> n_missing \<ge> length (server_param_set r) div 2
        then [Ext_Request_List (base_cmd r)]
        else map (\<lambda>i. Ext_Request_Read \<lparr>read_target_system = list_target_system (base_cmd r),
                   read_target_component = list_target_component (base_cmd r),
                   read_param_index = i\<rparr>) [0..<min 10 (length (server_param_set r))])"

definition send_next_message_running_get_all :: "int \<Rightarrow> 'k running_get_all \<Rightarrow> 'k running_get_all" where
  "send_next_message_running_get_all now r =
     r\<lparr>get_last_transmission := now, get_n_transmissions := get_n_transmissions r + 1\<rparr>"

definition try_get_param_all_async ::
  "int \<Rightarrow> param_ext_request_list \<Rightarrow> 'k \<Rightarrow> bool \<Rightarrow> 'k xparam \<Rightarrow> 'k xparam" where
  "try_get_param_all_async now msg result_cb progress x =
     (let r = \<lparr>base_cmd = msg, get_cb = result_cb, get_progress_cb = progress,
               get_retransmit_delay = 500, get_last_transmission = now, server_param_set = [],
               get_n_wanted_retransmissions = 10, get_n_transmissions = 0\<rparr>
      in x\<lparr>m_running_get_all := m_running_get_all x @ [send_next_message_running_get_all now r],
           sent := sent x @ messages_get_all r\<rparr>)"

definition update_progress_get_all :: "'k running_get_all \<Rightarrow> 'k param_call list" where
  "update_progress_get_all r =
     (if get_progress_cb r then
        if length (server_param_set r) > 0 then
          let missing = get_missing_count (server_param_set r) in
          if missing \<le> 0 then [Progress (get_cb r) 1 1]
          else [Progress (get_cb r) (int (length (server_param_set r) - missing))
                  (int (length (server_param_set r)))]
        else [Progress (get_cb r) 0 1]
      else [])"

definition store_param :: "param_ext_value \<Rightarrow> 'k running_get_all \<Rightarrow> 'k running_get_all" where
  "store_param v r =
     (let s = (if server_param_set r = [] then replicate (unat (param_count v)) None
               else server_param_set r)
      in r\<lparr>server_param_set := s[unat (param_index v) := Some v]\<rparr>)"

text \<open>The loop over the running requests: the list after it, the finished request if there is
  one, the progress reported.\<close>

fun find_remove_running_get_all ::
  "param_ext_value \<Rightarrow> u8 \<Rightarrow> u8 \<Rightarrow> 'k running_get_all list \<Rightarrow>
     ('k running_get_all list \<times> 'k running_get_all option \<times> 'k param_call list) result" where
  "find_remove_running_get_all v sysid compid [] = Inr ([], None, [])"
| "find_remove_running_get_all v sysid compid (r # rs) =
     (if list_target_system (base_cmd r) = sysid \<and> list_target_component (base_cmd r) = compid then
        if param_count v \<le> 0 then Inr (r # rs, None, [])
        else if param_index v \<ge> param_count v then Inr (r # rs, None, [])
        else if server_param_set r \<noteq> [] \<and> length (server_param_set r) \<le> unat (param_index v)
        then Inl Over_Read
        else if server_param_set r \<noteq> [] \<and> server_param_set r ! unat (param_index v) \<noteq> None
        then Inr (r # rs, None, [])
        else
          let r1 = store_param v r; prog = update_progress_get_all r1 in
          if get_missing_count (server_param_set r1) = 0 then Inr (rs, Some r1, prog)
          else rbind (find_remove_running_get_all v sysid compid rs)
                 (\<lambda>(l, f, p). Inr (r1 # l, f, prog @ p))
      else rbind (find_remove_running_get_all v sysid compid rs) (\<lambda>(l, f, p). Inr (r # l, f, p)))"

definition handle_param_ext_value ::
  "param_ext_value \<Rightarrow> u8 \<Rightarrow> u8 \<Rightarrow> 'k xparam \<Rightarrow> ('k xparam \<times> bool) result" where
  "handle_param_ext_value v sysid compid x =
     rbind (find_remove_running_get_all v sysid compid (m_running_get_all x)) (\<lambda>(l, finished, prog).
     let x1 = x\<lparr>m_running_get_all := l, calls := calls x @ prog\<rparr> in
     case finished of
       None \<Rightarrow> Inr (x1, True)
     | Some r \<Rightarrow>
         rbind (rassert (list_all (\<lambda>p. p \<noteq> None) (server_param_set r))) (\<lambda>_.
         Inr (x1\<lparr>calls := calls x1 @
                   [Get_All_Result (get_cb r) True (map the (server_param_set r))]\<rparr>, True)))"

definition get_overdue :: "int \<Rightarrow> 'k running_get_all \<Rightarrow> bool" where
  "get_overdue now r \<longleftrightarrow> now - get_last_transmission r > milliseconds (get_retransmit_delay r)"

definition check_timeout_param_get_all :: "int \<Rightarrow> 'k xparam \<Rightarrow> 'k xparam result" where
  "check_timeout_param_get_all now x =
     rbind (timeout_loop (get_overdue now)
              (\<lambda>r. get_n_transmissions r < get_n_wanted_retransmissions r)
              (send_next_message_running_get_all now) (m_running_get_all x))
       (\<lambda>(l, resent, timed_out).
         Inr (x\<lparr>m_running_get_all := l, sent := sent x @ concat (map messages_get_all resent),
                calls := calls x @ map (\<lambda>r. Get_All_Result (get_cb r) False []) timed_out\<rparr>))"

definition xparam_timeout :: "int \<Rightarrow> 'k xparam \<Rightarrow> 'k xparam result" where
  "xparam_timeout now x = rbind (check_timeout_param_get_all now x) (check_timeout_param_set now)"

datatype param_message =
    Param_Ack param_ext_ack
  | Param_Value param_ext_value
  | Other_Message

definition process_message :: "param_message \<Rightarrow> u8 \<Rightarrow> u8 \<Rightarrow> 'k xparam \<Rightarrow> ('k xparam \<times> bool) result" where
  "process_message msg sysid compid x =
     (case msg of
        Param_Ack ack \<Rightarrow> Inr (handle_param_ext_ack ack sysid compid x)
      | Param_Value v \<Rightarrow> handle_param_ext_value v sysid compid x
      | Other_Message \<Rightarrow> Inr (x, False))"

section \<open>The contracts\<close>

interpretation set_request: retry_request
  set_n_transmissions set_n_wanted_retransmissions set_cb set_overdue send_next_message_running_set
  by unfold_locales (simp_all add: send_next_message_running_set_def)

interpretation get_request: retry_request
  get_n_transmissions get_n_wanted_retransmissions get_cb get_overdue
  send_next_message_running_get_all
  by unfold_locales (simp_all add: send_next_message_running_get_all_def)

section \<open>Every request is answered at most once\<close>

fun result_key :: "'k param_call \<Rightarrow> 'k list" where
  "result_key (Set_Result k a n) = [k]"
| "result_key (Get_All_Result k ok ps) = [k]"
| "result_key (Progress k a b) = []"

definition result_keys :: "'k param_call list \<Rightarrow> 'k list" where
  "result_keys cs = concat (map result_key cs)"

lemma result_keys_simps [simp]:
  "result_keys [] = []" "result_keys (a @ b) = result_keys a @ result_keys b"
  "result_keys (c # cs) = result_key c @ result_keys cs"
  by (simp_all add: result_keys_def)

lemma result_keys_progress [simp]: "result_keys (update_progress_get_all r) = []"
  by (simp add: update_progress_get_all_def Let_def)

lemma result_keys_map [simp]:
  "result_keys (map (\<lambda>c. Set_Result (f c) (g c) (h c)) cs) = map f cs"
  "result_keys (map (\<lambda>c. Get_All_Result (f c) b ps) cs) = map f cs"
  by (induction cs) simp_all

datatype param_event =
    Set_Param int param_ext_set bool int int
  | Get_All int param_ext_request_list bool
  | Message param_message u8 u8
  | Timeout int

text \<open>The \<open>i\<close>th accepted request has the callback \<open>i\<close>.\<close>

fun param_step :: "param_event \<Rightarrow> nat xparam \<times> nat \<Rightarrow> (nat xparam \<times> nat) result" where
  "param_step (Set_Param now msg progress delay n) (x, k) =
     rbind (try_set_param_async now msg k progress delay n x)
       (\<lambda>(x', ok). Inr (x', if ok then Suc k else k))"
| "param_step (Get_All now msg progress) (x, k) =
     Inr (try_get_param_all_async now msg k progress x, Suc k)"
| "param_step (Message m sysid compid) (x, k) =
     rbind (process_message m sysid compid x) (\<lambda>(x', _). Inr (x', k))"
| "param_step (Timeout now) (x, k) = rbind (xparam_timeout now x) (\<lambda>x'. Inr (x', k))"

definition answered :: "'k xparam \<Rightarrow> 'k multiset" where
  "answered x = mset (map set_cb (m_running_commands x)) + mset (map get_cb (m_running_get_all x))
     + mset (result_keys (calls x))"

lemma find_set_keys:
  "find_remove_running_set ack sysid compid cs = Some (c, rest) \<Longrightarrow>
     mset (map set_cb cs) = mset (map set_cb rest) + {#set_cb c#}"
  by (induction cs arbitrary: rest) (auto split: if_splits)

lemma store_param_key [simp]: "get_cb (store_param v r) = get_cb r"
  by (simp add: store_param_def Let_def)

lemma find_get_keys:
  "find_remove_running_get_all v sysid compid rs = Inr (l, f, prog) \<Longrightarrow>
     mset (map get_cb rs) = mset (map get_cb l) + (case f of None \<Rightarrow> {#} | Some r \<Rightarrow> {#get_cb r#})
     \<and> result_keys prog = []"
  by (induction rs arbitrary: l f prog) (auto simp: result_simps Let_def split: if_splits)

lemma handle_ack_answered: "answered (fst (handle_param_ext_ack ack sysid compid x)) = answered x"
proof (cases "find_remove_running_set ack sysid compid (m_running_commands x)")
  case (Some p)
  obtain c rest where p: "p = (c, rest)" by fastforce
  show ?thesis
    using find_set_keys [OF Some [unfolded p]]
    by (simp add: handle_param_ext_ack_def Some p answered_def ac_simps)
qed (simp add: handle_param_ext_ack_def)

lemma handle_value_answered:
  assumes "handle_param_ext_value v sysid compid x = Inr (x', ok)"
  shows "answered x' = answered x"
proof -
  obtain l f prog where f: "find_remove_running_get_all v sysid compid (m_running_get_all x) = Inr (l, f, prog)"
    using assms by (auto simp: handle_param_ext_value_def result_simps)
  note keys = find_get_keys [OF f]
  show ?thesis
  proof (cases f)
    case None
    with assms f keys show ?thesis
      by (auto simp: handle_param_ext_value_def answered_def)
  next
    case (Some r)
    with assms f have "x' = x\<lparr>m_running_get_all := l, calls := calls x @ prog @
        [Get_All_Result (get_cb r) True (map the (server_param_set r))]\<rparr>"
      by (simp add: handle_param_ext_value_def result_simps)
    with keys Some show ?thesis
      by (simp add: answered_def)
  qed
qed

lemma timeout_set_answered:
  assumes "check_timeout_param_set now x = Inr x'"
  shows "answered x' = answered x"
proof -
  obtain l r t where loop: "timeout_loop (set_overdue now)
      (\<lambda>c. set_n_transmissions c < set_n_wanted_retransmissions c)
      (send_next_message_running_set now) (m_running_commands x) = Inr (l, r, t)"
    and x': "x' = x\<lparr>m_running_commands := l, sent := sent x @ map (\<lambda>c. Ext_Set (set_cmd c)) r,
                calls := calls x @ map (\<lambda>c. Set_Result (set_cb c) None (set_n_transmissions c)) t\<rparr>"
    using assms by (auto simp: check_timeout_param_set_def result_simps)
  show ?thesis
    using set_request.loop_keys [OF loop] by (simp add: x' answered_def ac_simps)
qed

lemma timeout_get_answered:
  assumes "check_timeout_param_get_all now x = Inr x'"
  shows "answered x' = answered x"
proof -
  obtain l r t where loop: "timeout_loop (get_overdue now)
      (\<lambda>r. get_n_transmissions r < get_n_wanted_retransmissions r)
      (send_next_message_running_get_all now) (m_running_get_all x) = Inr (l, r, t)"
    and x': "x' = x\<lparr>m_running_get_all := l, sent := sent x @ concat (map messages_get_all r),
                calls := calls x @ map (\<lambda>r. Get_All_Result (get_cb r) False []) t\<rparr>"
    using assms by (auto simp: check_timeout_param_get_all_def result_simps)
  show ?thesis
    using get_request.loop_keys [OF loop] by (simp add: x' answered_def ac_simps)
qed

lemma param_step_answered:
  assumes "param_step e (x, k) = Inr (x', k')" and "answered x = mset [0..<k]"
  shows "answered x' = mset [0..<k']"
proof (cases e)
  case (Set_Param now msg progress delay n)
  with assms show ?thesis
    by (auto simp: try_set_param_async_def answered_def result_simps Let_def
        send_next_message_running_set_def atLeast0_lessThan_Suc ac_simps split: if_splits)
next
  case (Get_All now msg progress)
  with assms show ?thesis
    by (auto simp: try_get_param_all_async_def answered_def Let_def
        send_next_message_running_get_all_def atLeast0_lessThan_Suc ac_simps)
next
  case (Message m sysid compid)
  show ?thesis
  proof (cases m)
    case (Param_Ack ack)
    with assms Message handle_ack_answered [of ack sysid compid x] show ?thesis
      by (cases "handle_param_ext_ack ack sysid compid x") (simp add: process_message_def)
  next
    case (Param_Value v)
    with assms Message show ?thesis
      by (auto simp: process_message_def result_simps dest: handle_value_answered)
  next
    case Other_Message
    with assms Message show ?thesis
      by (simp add: process_message_def)
  qed
next
  case (Timeout now)
  with assms show ?thesis
    by (auto simp: xparam_timeout_def result_simps dest!: timeout_set_answered timeout_get_answered)
qed

text \<open>C23. However requests, messages and time-outs follow each other: of all accepted set requests
  and all fetch requests each one is either still running or has had its result callback called,
  and that exactly once.\<close>

theorem params_answered_once:
  assumes "rfold param_step es (xparam_new, 0) = Inr (x, k)"
  shows "mset (map set_cb (m_running_commands x)) + mset (map get_cb (m_running_get_all x))
     + mset (result_keys (calls x)) = mset [0..<k]"
proof -
  have "answered (fst (x, k)) = mset [0..<snd (x, k)]"
    using assms
  proof (rule rfold_invariant [where P = "\<lambda>s. answered (fst s) = mset [0..<snd s]"])
    show "answered (fst (xparam_new, 0)) = mset [0..<snd (xparam_new :: nat xparam, 0 :: nat)]"
      by (simp add: answered_def xparam_new_def)
    show "answered (fst t) = mset [0..<snd t]"
      if "answered (fst s) = mset [0..<snd s]" "param_step e s = Inr t" for e s t
      using that param_step_answered by (cases s; cases t) auto
  qed
  then show ?thesis by (simp add: answered_def)
qed

section \<open>Fetching is complete\<close>

text \<open>What is known after the parameters with the indices in \<open>S\<close> have arrived.\<close>

definition known :: "param_ext_value list \<Rightarrow> nat set \<Rightarrow> param_ext_value option list" where
  "known vals S = map (\<lambda>i. if i \<in> S then Some (vals ! i) else None) [0..<length vals]"

definition server_values :: "param_ext_value list \<Rightarrow> bool" where
  "server_values vals \<longleftrightarrow> vals \<noteq> [] \<and> length vals < 65536 \<and>
     (\<forall>i < length vals. unat (param_index (vals ! i)) = i \<and> unat (param_count (vals ! i)) = length vals)"

lemma length_known [simp]: "length (known vals S) = length vals"
  by (simp add: known_def)

lemma known_insert: "i < length vals \<Longrightarrow> (known vals S)[i := Some (vals ! i)] = known vals (insert i S)"
  by (rule nth_equalityI) (auto simp: known_def nth_list_update)

lemma known_empty: "known vals {} = replicate (length vals) None"
  by (simp add: known_def map_replicate_const)

lemma known_full: "{..<length vals} \<subseteq> S \<Longrightarrow> known vals S = map Some vals"
  by (rule nth_equalityI) (auto simp: known_def)

lemma missing_zero: "get_missing_count s = 0 \<longleftrightarrow> None \<notin> set s"
  by (auto simp: get_missing_count_def filter_empty_conv) (metis not_None_eq)

lemma known_complete: "None \<notin> set (known vals S) \<longleftrightarrow> {..<length vals} \<subseteq> S"
  by (auto simp: known_def)

text \<open>The request of the model \<open>fetching\<close> has seen the indices \<open>S\<close>.\<close>

definition fetching :: "param_ext_value list \<Rightarrow> nat set \<Rightarrow> 'k running_get_all \<Rightarrow> bool" where
  "fetching vals S r \<longleftrightarrow> server_param_set r = (if S = {} then [] else known vals S)"

lemma fetch_one:
  assumes "server_values vals" and "i < length vals" and "fetching vals S r"
    and "list_target_system (base_cmd r) = sysid" "list_target_component (base_cmd r) = compid"
  shows "find_remove_running_get_all (vals ! i) sysid compid [r] =
    (if i \<in> S then Inr ([r], None, [])
     else let r1 = r\<lparr>server_param_set := known vals (insert i S)\<rparr> in
       if {..<length vals} \<subseteq> insert i S then Inr ([], Some r1, update_progress_get_all r1)
       else Inr ([r1], None, update_progress_get_all r1))"
proof -
  have idx: "unat (param_index (vals ! i)) = i" "unat (param_count (vals ! i)) = length vals"
    and ne: "vals \<noteq> []"
    using assms(1,2) by (auto simp: server_values_def)
  have cmp: "\<not> param_count (vals ! i) \<le> 0" "\<not> param_index (vals ! i) \<ge> param_count (vals ! i)"
    using idx assms(2) ne by (auto simp: word_le_nat_alt)
  have st: "store_param (vals ! i) r = r\<lparr>server_param_set := known vals (insert i S)\<rparr>"
  proof (cases "S = {}")
    case True
    then show ?thesis
      using assms(3) known_insert [OF assms(2), of "{}"]
      by (simp add: store_param_def Let_def idx fetching_def known_empty)
  next
    case False
    then have "server_param_set r = known vals S" "known vals S \<noteq> []"
      using assms(3) ne by (auto simp: fetching_def simp flip: length_greater_0_conv)
    then show ?thesis
      using known_insert [OF assms(2), of S] by (simp add: store_param_def Let_def idx)
  qed
  have inside: "\<not> (server_param_set r \<noteq> [] \<and> length (server_param_set r) \<le> i)"
    using assms(2,3) by (auto simp: fetching_def split: if_splits)
  have seen: "(server_param_set r \<noteq> [] \<and> server_param_set r ! i \<noteq> None) = (i \<in> S)"
    using assms(2,3) ne by (auto simp: fetching_def known_def split: if_splits)
  have full: "(get_missing_count (server_param_set (r\<lparr>server_param_set := known vals (insert i S)\<rparr>)) = 0)
      = ({..<length vals} \<subseteq> insert i S)"
    by (simp add: missing_zero known_complete)
  show ?thesis
    unfolding find_remove_running_get_all.simps idx st seen Let_def full
    using assms(4,5) cmp inside by simp
qed

declare find_remove_running_get_all.simps [simp del]

lemma handle_value_once:
  assumes "server_values vals" and "i < length vals" and "fetching vals S r"
    and "list_target_system (base_cmd r) = sysid" "list_target_component (base_cmd r) = compid"
    and "m_running_get_all x = [r]"
  shows "\<exists>x' r'. handle_param_ext_value (vals ! i) sysid compid x = Inr (x', True) \<and>
    fetching vals (insert i S) r' \<and> base_cmd r' = base_cmd r \<and> get_cb r' = get_cb r \<and>
    (if {..<length vals} \<subseteq> insert i S \<and> i \<notin> S
     then m_running_get_all x' = [] \<and> (\<exists>p. result_keys p = [] \<and> calls x' = calls x @ p @ [Get_All_Result (get_cb r) True vals])
     else m_running_get_all x' = [r'] \<and> result_keys (calls x') = result_keys (calls x))"
proof (cases "i \<in> S")
  case True
  then show ?thesis
    using assms(3,6) by (intro exI [of _ x] exI [of _ r])
      (simp add: handle_param_ext_value_def assms(6) fetch_one [OF assms(1-5)] insert_absorb)
next
  case False
  let ?r = "r\<lparr>server_param_set := known vals (insert i S)\<rparr>"
  have f: "fetching vals (insert i S) ?r" by (simp add: fetching_def)
  show ?thesis
  proof (cases "{..<length vals} \<subseteq> insert i S")
    case True
    have all: "known vals (insert i S) = map Some vals"
      using True by (rule known_full)
    have "handle_param_ext_value (vals ! i) sysid compid x = Inr (x\<lparr>m_running_get_all := [],
        calls := calls x @ update_progress_get_all ?r @ [Get_All_Result (get_cb r) True vals]\<rparr>, True)"
      using False True
      by (simp add: handle_param_ext_value_def assms(6) fetch_one [OF assms(1-5)] all
          list_all_iff comp_def Let_def)
    with False True f show ?thesis
      by (intro exI [of _ "x\<lparr>m_running_get_all := [], calls := calls x @ update_progress_get_all ?r
          @ [Get_All_Result (get_cb r) True vals]\<rparr>"] exI [of _ ?r]) auto
  next
    case no: False
    have "handle_param_ext_value (vals ! i) sysid compid x = Inr (x\<lparr>m_running_get_all := [?r],
        calls := calls x @ update_progress_get_all ?r\<rparr>, True)"
      using False no
      by (simp add: handle_param_ext_value_def assms(6) fetch_one [OF assms(1-5)] Let_def)
    with False no f show ?thesis
      by (intro exI [of _ "x\<lparr>m_running_get_all := [?r], calls := calls x @ update_progress_get_all ?r\<rparr>"]
          exI [of _ ?r]) auto
  qed
qed

definition receive_values ::
  "param_ext_value list \<Rightarrow> u8 \<Rightarrow> u8 \<Rightarrow> nat list \<Rightarrow> 'k xparam \<Rightarrow> 'k xparam result" where
  "receive_values vals sysid compid =
     rfold (\<lambda>i x. rbind (handle_param_ext_value (vals ! i) sysid compid x) (\<lambda>(x', _). Inr x'))"

lemma receive_values_known:
  assumes "server_values vals" and "list_target_system (base_cmd r) = sysid"
    and "list_target_component (base_cmd r) = compid"
    and "m_running_get_all x = [r]" and "fetching vals S r"
    and "set is \<subseteq> {..<length vals}" and "\<not> {..<length vals} \<subseteq> S \<union> set is"
  shows "\<exists>x' r'. receive_values vals sysid compid is x = Inr x' \<and> m_running_get_all x' = [r'] \<and>
    fetching vals (S \<union> set is) r' \<and> base_cmd r' = base_cmd r \<and> get_cb r' = get_cb r \<and>
    result_keys (calls x') = result_keys (calls x)"
  using assms
proof (induction "is" arbitrary: x r S)
  case Nil
  then show ?case by (simp add: receive_values_def)
next
  case (Cons i js)
  have "\<not> {..<length vals} \<subseteq> insert i S" using Cons.prems(7) by auto
  then obtain x1 r1 where x1: "handle_param_ext_value (vals ! i) sysid compid x = Inr (x1, True)"
    "fetching vals (insert i S) r1" "base_cmd r1 = base_cmd r" "get_cb r1 = get_cb r"
    "m_running_get_all x1 = [r1]" "result_keys (calls x1) = result_keys (calls x)"
    using handle_value_once [OF Cons.prems(1) _ Cons.prems(5,2,3,4), of i] Cons.prems(6) by auto
  have ins: "insert i S \<union> set js = S \<union> set (i # js)" by simp
  from Cons.IH [OF Cons.prems(1) _ _ x1(5,2)] Cons.prems(2,3,6,7) x1(3)
  obtain x' r' where "receive_values vals sysid compid js x1 = Inr x'" "m_running_get_all x' = [r']"
    "fetching vals (insert i S \<union> set js) r'" "base_cmd r' = base_cmd r1" "get_cb r' = get_cb r1"
    "result_keys (calls x') = result_keys (calls x1)"
    by (metis Un_insert_left Un_insert_right insert_subset list.simps(15))
  with x1 show ?case
    unfolding ins by (intro exI [of _ x'] exI [of _ r']) (simp add: receive_values_def)
qed

text \<open>A request for all parameters ends as soon as every parameter of the server has arrived
  once, whatever the order and however often some of them are repeated before: the callback is
  called once, with success and with the parameters in the order of their indices.\<close>

theorem fetch_all_completes:
  assumes "server_values vals" and "set is \<union> {j} = {..<length vals}" and "j \<notin> set is"
    and "m_running_get_all x = []"
  shows "\<exists>x'. receive_values vals sysid compid (is @ [j])
        (try_get_param_all_async now (create_cmd_get_all sysid compid) k progress x) = Inr x' \<and>
     m_running_get_all x' = [] \<and> result_keys (calls x') = result_keys (calls x) @ [k] \<and>
     List.last (calls x') = Get_All_Result k True vals"
proof -
  let ?x = "try_get_param_all_async now (create_cmd_get_all sysid compid) k progress x"
  obtain r where r: "m_running_get_all ?x = [r]" "fetching vals {} r" "get_cb r = k"
    "list_target_system (base_cmd r) = sysid" "list_target_component (base_cmd r) = compid"
    and c: "calls ?x = calls x"
    using assms(4) by (simp add: try_get_param_all_async_def Let_def fetching_def
        send_next_message_running_get_all_def create_cmd_get_all_def)
  have "set is \<subseteq> {..<length vals}" "\<not> {..<length vals} \<subseteq> {} \<union> set is"
    using assms(2,3) by auto
  from receive_values_known [OF assms(1) r(4,5,1,2) this] obtain x1 r1
    where x1: "receive_values vals sysid compid is ?x = Inr x1" "m_running_get_all x1 = [r1]"
      "fetching vals (set is) r1" "base_cmd r1 = base_cmd r" "get_cb r1 = get_cb r"
      "result_keys (calls x1) = result_keys (calls ?x)"
    by auto
  have j: "j < length vals" "{..<length vals} \<subseteq> insert j (set is)" using assms(2) by auto
  obtain x' p where x': "handle_param_ext_value (vals ! j) sysid compid x1 = Inr (x', True)"
    "m_running_get_all x' = []" "result_keys p = []" "calls x' = calls x1 @ p @ [Get_All_Result k True vals]"
    using handle_value_once [OF assms(1) j(1) x1(3) _ _ x1(2), of sysid compid] j(2) assms(3)
      r(3,4,5) x1(4,5) by auto
  then show ?thesis
    using x1 x' c by (intro exI [of _ x']) (simp add: receive_values_def rfold_append)
qed

definition demo_value :: "u16 \<Rightarrow> u16 \<Rightarrow> param_ext_value" where
  "demo_value n i = \<lparr>value_param_id = replicate 16 0, value_param_value = replicate 128 0,
     value_param_type = MAV_PARAM_EXT_TYPE_INT32, param_count = n, param_index = i\<rparr>"

lemma demo_value_sel [simp]:
  "param_count (demo_value n i) = n" "param_index (demo_value n i) = i"
  by (simp_all add: demo_value_def)

theorem fetch_all_completes_witness:
  "\<exists>x'. receive_values (map (demo_value 3) [0, 1, 2]) 101 190 [2, 0, 2, 1]
        (try_get_param_all_async 0 (create_cmd_get_all 101 190) (5::nat) True xparam_new) = Inr x' \<and>
     result_keys (calls x') = [5] \<and>
     List.last (calls x') = Get_All_Result 5 True (map (demo_value 3) [0, 1, 2])"
proof -
  have three: "i < Suc (Suc (Suc 0)) \<Longrightarrow> i = 0 \<or> i = 1 \<or> i = 2" for i :: nat by arith
  have vals: "server_values (map (demo_value 3) [0, 1, 2])"
    by (auto simp: server_values_def dest!: three)
  have all: "{Suc 0, 2, 0, 2} = {..<Suc (Suc (Suc 0))}"
    by (auto dest!: three)
  show ?thesis
    using fetch_all_completes [OF vals, of "[2, 0, 2]" 1 xparam_new 101 190 0 "5::nat" True] all
    by (auto simp: xparam_new_def)
qed

text \<open>The index of a received parameter is compared with the count in the same message, not
  with the number of parameters the request knows: a message with a larger count than the first
  one had makes the program read outside its vector.\<close>

theorem fetch_all_over_read:
  assumes "m_running_get_all x = r # rs" and "server_param_set r \<noteq> []"
    and "list_target_system (base_cmd r) = sysid" "list_target_component (base_cmd r) = compid"
    and "length (server_param_set r) \<le> unat (param_index v)" and "param_index v < param_count v"
  shows "handle_param_ext_value v sysid compid x = Inl Over_Read"
proof -
  have "param_count v \<noteq> 0"
    using assms(6) by (metis word_not_simps(1))
  then show ?thesis
    using assms
    by (simp add: handle_param_ext_value_def find_remove_running_get_all.simps linorder_not_le)
qed

theorem fetch_all_over_read_witness:
  "\<exists>x. receive_values [demo_value 2 0] 101 190 [0]
        (try_get_param_all_async 0 (create_cmd_get_all 101 190) (5::nat) False xparam_new) = Inr x
     \<and> handle_param_ext_value (demo_value 3 2) 101 190 x = Inl Over_Read"
proof -
  let ?x0 = "try_get_param_all_async 0 (create_cmd_get_all 101 190) (5::nat) False xparam_new"
  have two: "replicate 2 (None :: param_ext_value option) = [None, None]"
    by (simp add: numeral_2_eq_2)
  have "\<exists>x r. receive_values [demo_value 2 0] 101 190 [0] ?x0 = Inr x \<and> m_running_get_all x = [r]
      \<and> server_param_set r = [Some (demo_value 2 0), None]
      \<and> base_cmd r = create_cmd_get_all 101 190"
    by (simp add: receive_values_def handle_param_ext_value_def try_get_param_all_async_def Let_def
        find_remove_running_get_all.simps create_cmd_get_all_def store_param_def
        send_next_message_running_get_all_def xparam_new_def get_missing_count_def two)
  then obtain x r where x: "receive_values [demo_value 2 0] 101 190 [0] ?x0 = Inr x"
    "m_running_get_all x = [r]" "server_param_set r = [Some (demo_value 2 0), None]"
    "base_cmd r = create_cmd_get_all 101 190"
    by blast
  have "handle_param_ext_value (demo_value 3 2) 101 190 x = Inl Over_Read"
    by (rule fetch_all_over_read [where r = r and rs = "[]"])
      (simp_all add: x create_cmd_get_all_def)
  with x(1) show ?thesis by blast
qed

text \<open>Of a longer list only the first ten parameters are ever asked for again: once at most two
  parameters are missing (or fewer than half of them), every retransmission reads the indices 0
  to 9, whichever are missing. A parameter with a higher index that got lost is not requested by
  any retransmission.\<close>

theorem lost_parameter_not_requested:
  assumes "fetching vals S r" and "S \<noteq> {}" and "10 \<le> i" and "i < length vals"
    and "get_missing_count (known vals S) \<le> 2
      \<or> get_missing_count (known vals S) < length vals div 2"
  shows "\<forall>m \<in> set (messages_get_all r). \<exists>q. m = Ext_Request_Read q \<and> read_param_index q \<noteq> i"
  using assms by (auto simp: messages_get_all_def fetching_def Let_def)

theorem lost_parameter_not_requested_witness:
  "list_all (\<lambda>m. \<exists>q. m = Ext_Request_Read q \<and> read_param_index q \<noteq> 11)
     (messages_get_all (\<lparr>base_cmd = create_cmd_get_all 101 190, get_cb = (), get_progress_cb = False,
       get_retransmit_delay = 500, get_last_transmission = 0,
       server_param_set = known (map (demo_value 12) [0, 1, 2, 3, 4, 5, 6, 7, 8, 9, 10, 11]) {0..10},
       get_n_wanted_retransmissions = 10, get_n_transmissions = 1\<rparr>))"
  unfolding list_all_iff
proof (rule lost_parameter_not_requested
    [where S = "{0..10}" and vals = "map (demo_value 12) [0, 1, 2, 3, 4, 5, 6, 7, 8, 9, 10, 11]"])
  show "get_missing_count (known (map (demo_value 12) [0, 1, 2, 3, 4, 5, 6, 7, 8, 9, 10, 11]) {0..10}) \<le> 2
    \<or> get_missing_count (known (map (demo_value 12) [0, 1, 2, 3, 4, 5, 6, 7, 8, 9, 10, 11]) {0..10})
      < length (map (demo_value 12) [0, 1, 2, 3, 4, 5, 6, 7, 8, 9, 10, 11]) div 2"
    by (simp add: known_def get_missing_count_def upt_rec)
qed (simp_all add: fetching_def)

text \<open>A fetch that is sent again, a parameter set, and the only parameter of the server.\<close>

definition demo_events :: "param_event list" where
  "demo_events = [Get_All 0 (create_cmd_get_all 101 190) True,
     Set_Param 1 (create_cmd_set_int 101 190 [0x41] 5) False 500 3,
     Timeout 501000000, Message (Param_Value (demo_value 1 0)) 101 190]"

theorem params_answered_once_witness:
  "\<exists>x. rfold param_step demo_events (xparam_new, 0) = Inr (x, 2) \<and>
     result_keys (calls x) = [0] \<and> map set_cb (m_running_commands x) = [1] \<and>
     mset (map set_cb (m_running_commands x)) + mset (map get_cb (m_running_get_all x))
       + mset (result_keys (calls x)) = mset [0..<2]"
proof -
  obtain x where x: "rfold param_step demo_events (xparam_new, 0) = Inr (x, 2)"
    "result_keys (calls x) = [0]" "map set_cb (m_running_commands x) = [1]"
    by (simp add: demo_events_def try_get_param_all_async_def try_set_param_async_def Let_def
        xparam_new_def MAX_N_SIMULTANOEUS_COMMANDS_def send_next_message_running_set_def
        send_next_message_running_get_all_def xparam_timeout_def check_timeout_param_get_all_def
        check_timeout_param_set_def get_overdue_def set_overdue_def process_message_def
        handle_param_ext_value_def find_remove_running_get_all.simps create_cmd_get_all_def
        store_param_def get_missing_count_def update_progress_get_all_def)
  show ?thesis
    by (intro exI [of _ x] conjI)
      (rule x(1), rule x(2), rule x(3), rule params_answered_once [OF x(1)])
qed

end
