(* ===== verification/Message_Intervals.thy ===== *)
theory Message_Intervals
  imports Cmd_Sender
begin

text \<open>
  Asking the flight controller for message rates: the class \<open>FCMsgIntervalHandler\<close>
  (\<open>app/telemetry/action/fcmsgintervalhandler.h\<close> and \<open>.cpp\<close>) on top of the command sender. One command
  per message is sent, the next one when the one before has been accepted; a refusal or time-out
  ends the sequence.

  The state joins the handler with the sender it uses; the callback given to the sender is the
  handler's, so every result the sender reports is passed to it. The numbers of the messages
  are those of the MAVLink headers, so a message is a value of \<open>fc_message\<close>. Settings are
  read on every call and are a parameter.
\<close>

section \<open>The table of rates\<close>

datatype fc_message =
    SYS_STATUS | SYSTEM_TIME | GPS_RAW_INT | ATTITUDE | GLOBAL_POSITION_INT | RC_CHANNELS | VFR_HUD
  | BATTERY_STATUS | HOME_POSITION | WIND | AOA_SSA | SCALED_PRESSURE | MISSION_CURRENT

definition m_intervals :: "(fc_message \<times> int) list" where
  "m_intervals =
    [(SYS_STATUS, 2), (SYSTEM_TIME, 1), (GPS_RAW_INT, 1), (ATTITUDE, 30), (GLOBAL_POSITION_INT, 2),
     (RC_CHANNELS, 2), (VFR_HUD, 2), (BATTERY_STATUS, 1), (HOME_POSITION, 1), (WIND, 1), (AOA_SSA, 1),
     (SCALED_PRESSURE, 1), (MISSION_CURRENT, 1)]"

record rate_settings =
  set_mavlink_message_rates :: bool
  mavlink_message_rates_high_speed :: bool
  mavlink_message_rates_high_speed_rc_channels :: bool

definition interval_hz :: "rate_settings \<Rightarrow> fc_message \<times> int \<Rightarrow> int" where
  "interval_hz settings interval =
     (let hz = snd interval;
          hz1 = (if mavlink_message_rates_high_speed_rc_channels settings \<and> fst interval = RC_CHANNELS
                 then 15 else hz)
      in if mavlink_message_rates_high_speed settings then hz1 * 2 else hz1)"

definition interval_us :: "rate_settings \<Rightarrow> fc_message \<times> int \<Rightarrow> int" where
  "interval_us settings interval = 1000 * 1000 div interval_hz settings interval"

section \<open>The command\<close>

record interval_fields =
  target_system :: int
  target_component :: int
  msg_type :: fc_message
  interval :: int

text \<open>\<open>MAV_CMD_SET_MESSAGE_INTERVAL\<close> is 511 in the MAVLink common dialect.\<close>

definition MAV_CMD_SET_MESSAGE_INTERVAL :: u16 where
  "MAV_CMD_SET_MESSAGE_INTERVAL = 511"

definition create_cmd_set_msg_interval ::
  "int \<Rightarrow> int \<Rightarrow> fc_message \<Rightarrow> int \<Rightarrow> interval_fields command_long" where
  "create_cmd_set_msg_interval sys cmp msg us =
     \<lparr>command = MAV_CMD_SET_MESSAGE_INTERVAL, confirmation = 0,
      other_fields = \<lparr>target_system = sys, target_component = cmp, msg_type = msg, interval = us\<rparr>\<rparr>"

section \<open>The handler\<close>

record interval_handler =
  sender :: "(interval_fields, unit) cmd_sender"
  m_ready_for_next_command :: bool
  m_next_rate_index :: nat
  messages :: "string list"

definition interval_handler_new :: interval_handler where
  "interval_handler_new = \<lparr>sender = cmd_sender_new, m_ready_for_next_command = True,
     m_next_rate_index = 0, messages = []\<rparr>"

definition interval_command ::
  "rate_settings \<Rightarrow> int \<Rightarrow> int \<Rightarrow> nat \<Rightarrow> interval_fields command_long" where
  "interval_command settings fc_sys fc_comp i =
     create_cmd_set_msg_interval fc_sys fc_comp (fst (m_intervals ! i)) (interval_us settings (m_intervals ! i))"

text \<open>The result callback.\<close>

definition interval_result :: "run_command_result \<Rightarrow> interval_handler \<Rightarrow> interval_handler" where
  "interval_result r h =
     (if is_accepted r then h\<lparr>m_ready_for_next_command := True\<rparr>
      else h\<lparr>messages := messages h @ [''Cannot set FC message interval(s)''],
             m_ready_for_next_command := False\<rparr>)"

definition opt_send_messages ::
  "int \<Rightarrow> rate_settings \<Rightarrow> int \<Rightarrow> int \<Rightarrow> interval_handler \<Rightarrow> interval_handler result" where
  "opt_send_messages now settings fc_sys fc_comp h =
     (if \<not> set_mavlink_message_rates settings then Inr h
      else if m_ready_for_next_command h then
        if m_next_rate_index h < length m_intervals then
          rbind (send_command_long_async now (interval_command settings fc_sys fc_comp (m_next_rate_index h))
                   () 500 20 (sender h))
            (\<lambda>(s, enqueue_success).
               Inr (if enqueue_success
                    then h\<lparr>sender := s, m_ready_for_next_command := False,
                           m_next_rate_index := m_next_rate_index h + 1\<rparr>
                    else h\<lparr>sender := s\<rparr>))
        else Inr (h\<lparr>messages := messages h @ [''FC message interval(s) set''],
                    m_ready_for_next_command := False\<rparr>)
      else Inr h)"

definition restart :: "interval_handler \<Rightarrow> interval_handler" where
  "restart h = h\<lparr>m_next_rate_index := 0, m_ready_for_next_command := True\<rparr>"

text \<open>The sender has run: every result it has reported since is passed to the handler.\<close>

definition with_sender :: "(interval_fields, unit) cmd_sender \<Rightarrow> interval_handler \<Rightarrow> interval_handler" where
  "with_sender s h =
     fold (\<lambda>r. interval_result (snd r)) (drop (length (results (sender h))) (results s)) (h\<lparr>sender := s\<rparr>)"

section \<open>Runs\<close>

datatype rate_event =
    Fc_Active int
  | Fc_Message "command_ack option"
  | Timeout_Check int
  | Restart

record rate_config =
  settings :: rate_settings
  fc_sys_id :: int
  fc_comp_id :: int
  own_sys_id :: u8
  own_comp_id :: u8

fun rate_step :: "rate_config \<Rightarrow> rate_event \<Rightarrow> interval_handler \<Rightarrow> interval_handler result" where
  "rate_step k (Fc_Active now) h = opt_send_messages now (settings k) (fc_sys_id k) (fc_comp_id k) h"
| "rate_step k (Fc_Message m) h =
     Inr (with_sender (fst (process_message (own_sys_id k) (own_comp_id k) m (sender h))) h)"
| "rate_step k (Timeout_Check now) h = rbind (handle_timeout now (sender h)) (\<lambda>s. Inr (with_sender s h))"
| "rate_step k Restart h = Inr (restart h)"

definition accepting_ack :: "rate_config \<Rightarrow> command_ack" where
  "accepting_ack k = \<lparr>ack_command = MAV_CMD_SET_MESSAGE_INTERVAL, ack_result = MAV_RESULT_ACCEPTED,
     ack_target_system = own_sys_id k, ack_target_component = own_comp_id k\<rparr>"

definition idle :: "nat \<Rightarrow> interval_handler \<Rightarrow> bool" where
  "idle i h \<longleftrightarrow> m_ready_for_next_command h \<and> m_next_rate_index h = i \<and> m_running_commands (sender h) = []"

section \<open>One round\<close>

lemma interval_command_id [simp]: "command (interval_command k sys cmp i) = MAV_CMD_SET_MESSAGE_INTERVAL"
  by (simp add: interval_command_def create_cmd_set_msg_interval_def)

lemma is_accepted_ack [simp]:
  "is_accepted \<lparr>opt_ack = Some (accepting_ack k), result_n_transmissions = n\<rparr>"
  by (simp add: is_accepted_def accepting_ack_def)

lemma send_step:
  assumes "idle i h" and "set_mavlink_message_rates (settings k)" and "i < length m_intervals"
  obtains h' c where "rate_step k (Fc_Active now) h = Inr h'" and "\<not> m_ready_for_next_command h'"
    and "m_next_rate_index h' = Suc i" and "m_running_commands (sender h') = [c]"
    and "command (cmd c) = MAV_CMD_SET_MESSAGE_INTERVAL" and "messages h' = messages h"
    and "sent (sender h') = sent (sender h) @ [interval_command (settings k) (fc_sys_id k) (fc_comp_id k) i]"
    and "results (sender h') = results (sender h)"
  using assms
  by (simp add: opt_send_messages_def send_command_long_async_def idle_def rassert_def
      MAX_N_SIMULTANOEUS_COMMANDS_def send_command_def Let_def)

lemma ack_step:
  assumes "m_running_commands (sender h) = [c]" and "command (cmd c) = MAV_CMD_SET_MESSAGE_INTERVAL"
  obtains h' where "rate_step k (Fc_Message (Some (accepting_ack k))) h = Inr h'"
    and "idle (m_next_rate_index h) h'" and "sent (sender h') = sent (sender h)" and "messages h' = messages h"
proof -
  have "process_message (own_sys_id k) (own_comp_id k) (Some (accepting_ack k)) (sender h) =
      ((sender h)\<lparr>m_running_commands := [], results := results (sender h) @
         [(cb c, \<lparr>opt_ack = Some (accepting_ack k), result_n_transmissions = n_transmissions c\<rparr>)]\<rparr>, True)"
    (is "_ = (?s, True)")
    using assms by (simp add: process_message_def handle_cmd_ack_def accepting_ack_def)
  then have step: "rate_step k (Fc_Message (Some (accepting_ack k))) h = Inr (with_sender ?s h)"
    by simp
  show ?thesis
    by (rule that [OF step]) (simp_all add: with_sender_def interval_result_def idle_def)
qed

definition round_events :: "rate_config \<Rightarrow> int list \<Rightarrow> rate_event list" where
  "round_events k ts = concat (map (\<lambda>t. [Fc_Active t, Fc_Message (Some (accepting_ack k))]) ts)"

lemma rounds:
  assumes "set_mavlink_message_rates (settings k)"
  shows "idle i h \<Longrightarrow> i + length ts \<le> length m_intervals \<Longrightarrow>
    \<exists>h'. rfold (rate_step k) (round_events k ts) h = Inr h' \<and> idle (i + length ts) h'
      \<and> messages h' = messages h
      \<and> sent (sender h') = sent (sender h) @
          map (interval_command (settings k) (fc_sys_id k) (fc_comp_id k)) [i..<i + length ts]"
proof (induction ts arbitrary: i h)
  case (Cons t ts)
  have "i < length m_intervals" using Cons.prems(2) by simp
  then obtain h1 c where h1: "rate_step k (Fc_Active t) h = Inr h1" "m_next_rate_index h1 = Suc i"
    "m_running_commands (sender h1) = [c]" "command (cmd c) = MAV_CMD_SET_MESSAGE_INTERVAL"
    "messages h1 = messages h"
    "sent (sender h1) = sent (sender h) @ [interval_command (settings k) (fc_sys_id k) (fc_comp_id k) i]"
    using send_step [OF Cons.prems(1) assms] by metis
  obtain h2 where h2: "rate_step k (Fc_Message (Some (accepting_ack k))) h1 = Inr h2" "idle (Suc i) h2"
    "sent (sender h2) = sent (sender h1)" "messages h2 = messages h1"
    using ack_step [OF h1(3,4)] h1(2) by metis
  obtain h3 where h3: "rfold (rate_step k) (round_events k ts) h2 = Inr h3" "idle (Suc i + length ts) h3"
    "messages h3 = messages h2" "sent (sender h3) = sent (sender h2) @
       map (interval_command (settings k) (fc_sys_id k) (fc_comp_id k)) [Suc i..<Suc i + length ts]"
    using Cons.IH [OF h2(2)] Cons.prems(2) by auto
  have "rfold (rate_step k) (round_events k (t # ts)) h = Inr h3"
    using h1(1) h2(1) h3(1) by (simp add: round_events_def)
  moreover have "[i..<Suc (i + length ts)] = i # [Suc i..<Suc (i + length ts)]"
    by (rule upt_conv_Cons) simp
  ultimately show ?case using h1 h2 h3 by simp
qed (simp add: round_events_def)

text \<open>When the flight controller accepts every command, the handler sets all thirteen rates: each round
  of hearing from the controller and its acknowledgement sends the next command of the table, each command once and in
  order, and the next time the controller is heard the user is told that the rates are set and nothing more
  is sent.\<close>

theorem intervals_all_set:
  assumes "set_mavlink_message_rates (settings k)" and "length ts = 13"
  shows "\<exists>h. rfold (rate_step k) (round_events k ts @ [Fc_Active t, Fc_Active t']) interval_handler_new = Inr h
    \<and> sent (sender h) = map (interval_command (settings k) (fc_sys_id k) (fc_comp_id k)) [0..<13]
    \<and> map (msg_type \<circ> other_fields) (sent (sender h)) = map fst m_intervals
    \<and> m_running_commands (sender h) = [] \<and> messages h = [''FC message interval(s) set'']
    \<and> \<not> m_ready_for_next_command h"
proof -
  have start: "idle 0 interval_handler_new"
    by (simp add: idle_def interval_handler_new_def cmd_sender_new_def)
  have n: "length m_intervals = 13" by (simp add: m_intervals_def)
  obtain h where run: "rfold (rate_step k) (round_events k ts) interval_handler_new = Inr h" "idle 13 h"
    and "messages h = []"
    and h: "sent (sender h) = map (interval_command (settings k) (fc_sys_id k) (fc_comp_id k)) [0..<13]"
    using rounds [OF assms(1) start, of ts] assms(2) n
    by (auto simp: interval_handler_new_def cmd_sender_new_def)
  have "map (msg_type \<circ> other_fields) (sent (sender h)) = map fst m_intervals"
    by (rule nth_equalityI) (simp_all add: h n interval_command_def create_cmd_set_msg_interval_def)
  moreover have "rate_step k (Fc_Active t) h =
      Inr (h\<lparr>messages := [''FC message interval(s) set''], m_ready_for_next_command := False\<rparr>)"
    using run(2) \<open>messages h = []\<close> assms(1) n by (simp add: opt_send_messages_def idle_def)
  ultimately show ?thesis
    using run h assms(1) by (simp add: rfold_append idle_def opt_send_messages_def)
qed

definition demo_config :: rate_config where
  "demo_config = \<lparr>settings = \<lparr>set_mavlink_message_rates = True, mavlink_message_rates_high_speed = False,
      mavlink_message_rates_high_speed_rc_channels = True\<rparr>,
     fc_sys_id = 1, fc_comp_id = 1, own_sys_id = 255, own_comp_id = 190\<rparr>"

theorem intervals_all_set_witness:
  "\<exists>h. rfold (rate_step demo_config) (round_events demo_config [0..12] @ [Fc_Active 13, Fc_Active 14])
      interval_handler_new = Inr h \<and> messages h = [''FC message interval(s) set'']"
proof -
  have "set_mavlink_message_rates (settings demo_config)" by (simp add: demo_config_def)
  then show ?thesis using intervals_all_set [of demo_config "[0..12]" 13 14] by fastforce
qed

section \<open>Refusals and late acknowledgements\<close>

text \<open>A refusal or a time-out ends the sequence: nothing more is sent until the rates are restarted.\<close>

lemma interval_result_refused:
  "\<not> is_accepted r \<Longrightarrow> \<not> m_ready_for_next_command (interval_result r h)"
  by (simp add: interval_result_def)

lemma opt_send_messages_not_ready:
  "\<not> m_ready_for_next_command h \<Longrightarrow> opt_send_messages now st fc_sys fc_comp h = Inr h"
  by (simp add: opt_send_messages_def)

text \<open>An acknowledgement names the command but not the message, so a second acknowledgement of one
  rate, caused by a retransmission, completes the next rate as well, whatever became of its command.\<close>

lemma late_ack_completes_next:
  assumes "idle i h" and "set_mavlink_message_rates (settings k)" and "Suc i < length m_intervals"
  shows "\<exists>h'. rfold (rate_step k) [Fc_Active t, Fc_Message (Some (accepting_ack k)),
      Fc_Active t', Fc_Message (Some (accepting_ack k))] h = Inr h' \<and> idle (i + 2) h'"
  using rounds [OF assms(2,1), of "[t, t']"] assms(3) by (auto simp: round_events_def)

end
