(* ===== verification/Mavlink_Enums.thy ===== *)
theory Mavlink_Enums
  imports Prelude Decimal
begin

text \<open>
  Texts for the enumerations of MAVLink and ArduPilot (\<open>app/telemetry/tutil/mavlink_enum_to_string.h\<close>).

  The numbers behind the enumerators are those of the MAVLink headers, which are not part of the
  repository: a datatype has one constructor for every enumerator the program names (\<open>COPTER_MODE_AUTO_RTL\<close> only in
  \<open>fcaction.cpp\<close>, so that its text is that of the default) and one for all others, and a \<open>mav_dialect\<close> tells which number is which enumerator.
\<close>

section \<open>Modes and vehicle types\<close>

datatype sub_mode =
    SUB_MODE_MANUAL | SUB_MODE_ACRO | SUB_MODE_AUTO | SUB_MODE_GUIDED | SUB_MODE_STABILIZE
    | SUB_MODE_ALT_HOLD | SUB_MODE_CIRCLE | SUB_MODE_SURFACE | SUB_MODE_POSHOLD
  | SUB_MODE_OTHER

primrec sub_mode_from_enum :: "sub_mode \<Rightarrow> string" where
  "sub_mode_from_enum SUB_MODE_MANUAL = ''Manual''"
| "sub_mode_from_enum SUB_MODE_ACRO = ''Acro''"
| "sub_mode_from_enum SUB_MODE_AUTO = ''Auto''"
| "sub_mode_from_enum SUB_MODE_GUIDED = ''Guided''"
| "sub_mode_from_enum SUB_MODE_STABILIZE = ''Stabilize''"
| "sub_mode_from_enum SUB_MODE_ALT_HOLD = ''Alt Hold''"
| "sub_mode_from_enum SUB_MODE_CIRCLE = ''Circle''"
| "sub_mode_from_enum SUB_MODE_SURFACE = ''Surface''"
| "sub_mode_from_enum SUB_MODE_POSHOLD = ''Position Hold''"
| "sub_mode_from_enum SUB_MODE_OTHER = ''Unknown''"

datatype rover_mode =
    ROVER_MODE_HOLD | ROVER_MODE_MANUAL | ROVER_MODE_STEERING | ROVER_MODE_INITIALIZING
    | ROVER_MODE_SMART_RTL | ROVER_MODE_ACRO | ROVER_MODE_AUTO | ROVER_MODE_RTL
    | ROVER_MODE_LOITER | ROVER_MODE_GUIDED
  | ROVER_MODE_OTHER

primrec rover_mode_from_enum :: "rover_mode \<Rightarrow> string" where
  "rover_mode_from_enum ROVER_MODE_HOLD = ''Hold''"
| "rover_mode_from_enum ROVER_MODE_MANUAL = ''Manual''"
| "rover_mode_from_enum ROVER_MODE_STEERING = ''Steering''"
| "rover_mode_from_enum ROVER_MODE_INITIALIZING = ''Initializing''"
| "rover_mode_from_enum ROVER_MODE_SMART_RTL = ''Smart RTL''"
| "rover_mode_from_enum ROVER_MODE_ACRO = ''Acro''"
| "rover_mode_from_enum ROVER_MODE_AUTO = ''Auto''"
| "rover_mode_from_enum ROVER_MODE_RTL = ''RTL''"
| "rover_mode_from_enum ROVER_MODE_LOITER = ''Loiter''"
| "rover_mode_from_enum ROVER_MODE_GUIDED = ''Guided''"
| "rover_mode_from_enum ROVER_MODE_OTHER = ''Unknown''"

datatype copter_mode =
    COPTER_MODE_LAND | COPTER_MODE_FLIP | COPTER_MODE_BRAKE | COPTER_MODE_DRIFT
    | COPTER_MODE_SPORT | COPTER_MODE_THROW | COPTER_MODE_POSHOLD | COPTER_MODE_ALT_HOLD
    | COPTER_MODE_SMART_RTL | COPTER_MODE_GUIDED_NOGPS | COPTER_MODE_CIRCLE
    | COPTER_MODE_STABILIZE | COPTER_MODE_ACRO | COPTER_MODE_AUTOTUNE | COPTER_MODE_AUTO
    | COPTER_MODE_RTL | COPTER_MODE_LOITER | COPTER_MODE_AVOID_ADSB | COPTER_MODE_GUIDED
    | COPTER_MODE_ZIGZAG | COPTER_MODE_AUTO_RTL
  | COPTER_MODE_OTHER

primrec copter_mode_from_enum :: "copter_mode \<Rightarrow> string" where
  "copter_mode_from_enum COPTER_MODE_LAND = ''Landing''"
| "copter_mode_from_enum COPTER_MODE_FLIP = ''Flip''"
| "copter_mode_from_enum COPTER_MODE_BRAKE = ''Brake''"
| "copter_mode_from_enum COPTER_MODE_DRIFT = ''Drift''"
| "copter_mode_from_enum COPTER_MODE_SPORT = ''Sport''"
| "copter_mode_from_enum COPTER_MODE_THROW = ''Throw''"
| "copter_mode_from_enum COPTER_MODE_POSHOLD = ''Position Hold''"
| "copter_mode_from_enum COPTER_MODE_ALT_HOLD = ''Altitude Hold''"
| "copter_mode_from_enum COPTER_MODE_SMART_RTL = ''Smart RTL''"
| "copter_mode_from_enum COPTER_MODE_GUIDED_NOGPS = ''Guided (NOGPS)''"
| "copter_mode_from_enum COPTER_MODE_CIRCLE = ''Circle''"
| "copter_mode_from_enum COPTER_MODE_STABILIZE = ''Stabilize''"
| "copter_mode_from_enum COPTER_MODE_ACRO = ''Acro''"
| "copter_mode_from_enum COPTER_MODE_AUTOTUNE = ''Autotune''"
| "copter_mode_from_enum COPTER_MODE_AUTO = ''Auto''"
| "copter_mode_from_enum COPTER_MODE_RTL = ''RTL''"
| "copter_mode_from_enum COPTER_MODE_LOITER = ''Loiter''"
| "copter_mode_from_enum COPTER_MODE_AVOID_ADSB = ''Avoid ADSB''"
| "copter_mode_from_enum COPTER_MODE_GUIDED = ''Guided''"
| "copter_mode_from_enum COPTER_MODE_ZIGZAG = ''ZIGZAG''"
| "copter_mode_from_enum COPTER_MODE_AUTO_RTL = ''Unknown''"
| "copter_mode_from_enum COPTER_MODE_OTHER = ''Unknown''"

datatype plane_mode =
    PLANE_MODE_MANUAL | PLANE_MODE_CIRCLE | PLANE_MODE_STABILIZE | PLANE_MODE_TRAINING
    | PLANE_MODE_ACRO | PLANE_MODE_FLY_BY_WIRE_A | PLANE_MODE_FLY_BY_WIRE_B | PLANE_MODE_CRUISE
    | PLANE_MODE_AUTOTUNE | PLANE_MODE_AUTO | PLANE_MODE_RTL | PLANE_MODE_LOITER
    | PLANE_MODE_TAKEOFF | PLANE_MODE_AVOID_ADSB | PLANE_MODE_GUIDED | PLANE_MODE_INITIALIZING
    | PLANE_MODE_QSTABILIZE | PLANE_MODE_QHOVER | PLANE_MODE_QLOITER | PLANE_MODE_QLAND
    | PLANE_MODE_QRTL | PLANE_MODE_QAUTOTUNE | PLANE_MODE_QACRO | PLANE_MODE_THERMAL
  | PLANE_MODE_OTHER

primrec plane_mode_from_enum :: "plane_mode \<Rightarrow> string" where
  "plane_mode_from_enum PLANE_MODE_MANUAL = ''Manual''"
| "plane_mode_from_enum PLANE_MODE_CIRCLE = ''Circle''"
| "plane_mode_from_enum PLANE_MODE_STABILIZE = ''Stabilize''"
| "plane_mode_from_enum PLANE_MODE_TRAINING = ''Training''"
| "plane_mode_from_enum PLANE_MODE_ACRO = ''Acro''"
| "plane_mode_from_enum PLANE_MODE_FLY_BY_WIRE_A = ''Fly By Wire A''"
| "plane_mode_from_enum PLANE_MODE_FLY_BY_WIRE_B = ''Fly By Wire B''"
| "plane_mode_from_enum PLANE_MODE_CRUISE = ''Cruise''"
| "plane_mode_from_enum PLANE_MODE_AUTOTUNE = ''Autotune''"
| "plane_mode_from_enum PLANE_MODE_AUTO = ''Auto''"
| "plane_mode_from_enum PLANE_MODE_RTL = ''RTL''"
| "plane_mode_from_enum PLANE_MODE_LOITER = ''Loiter''"
| "plane_mode_from_enum PLANE_MODE_TAKEOFF = ''Takeoff''"
| "plane_mode_from_enum PLANE_MODE_AVOID_ADSB = ''Avoid ADSB''"
| "plane_mode_from_enum PLANE_MODE_GUIDED = ''Guided''"
| "plane_mode_from_enum PLANE_MODE_INITIALIZING = ''Initializing''"
| "plane_mode_from_enum PLANE_MODE_QSTABILIZE = ''QStabilize''"
| "plane_mode_from_enum PLANE_MODE_QHOVER = ''QHover''"
| "plane_mode_from_enum PLANE_MODE_QLOITER = ''QLoiter''"
| "plane_mode_from_enum PLANE_MODE_QLAND = ''QLand''"
| "plane_mode_from_enum PLANE_MODE_QRTL = ''QRTL''"
| "plane_mode_from_enum PLANE_MODE_QAUTOTUNE = ''QAutotune''"
| "plane_mode_from_enum PLANE_MODE_QACRO = ''QAcro''"
| "plane_mode_from_enum PLANE_MODE_THERMAL = ''Thermal''"
| "plane_mode_from_enum PLANE_MODE_OTHER = ''Unknown''"

datatype tracker_mode =
    TRACKER_MODE_MANUAL | TRACKER_MODE_STOP | TRACKER_MODE_SCAN | TRACKER_MODE_SERVO_TEST
    | TRACKER_MODE_AUTO | TRACKER_MODE_INITIALIZING
  | TRACKER_MODE_OTHER

primrec tracker_mode_from_enum :: "tracker_mode \<Rightarrow> string" where
  "tracker_mode_from_enum TRACKER_MODE_MANUAL = ''Manual''"
| "tracker_mode_from_enum TRACKER_MODE_STOP = ''Stop''"
| "tracker_mode_from_enum TRACKER_MODE_SCAN = ''Scan''"
| "tracker_mode_from_enum TRACKER_MODE_SERVO_TEST = ''Servo Test''"
| "tracker_mode_from_enum TRACKER_MODE_AUTO = ''Auto''"
| "tracker_mode_from_enum TRACKER_MODE_INITIALIZING = ''Initializing''"
| "tracker_mode_from_enum TRACKER_MODE_OTHER = ''Unknown''"

datatype mav_type =
    MAV_TYPE_DECAROTOR | MAV_TYPE_GENERIC | MAV_TYPE_FIXED_WING | MAV_TYPE_QUADROTOR
    | MAV_TYPE_COAXIAL | MAV_TYPE_HELICOPTER | MAV_TYPE_ANTENNA_TRACKER | MAV_TYPE_GCS
    | MAV_TYPE_AIRSHIP | MAV_TYPE_FREE_BALLOON | MAV_TYPE_ROCKET | MAV_TYPE_GROUND_ROVER
    | MAV_TYPE_SURFACE_BOAT | MAV_TYPE_SUBMARINE | MAV_TYPE_HEXAROTOR | MAV_TYPE_OCTOROTOR
    | MAV_TYPE_TRICOPTER | MAV_TYPE_FLAPPING_WING | MAV_TYPE_KITE | MAV_TYPE_ONBOARD_CONTROLLER
    | MAV_TYPE_VTOL_TAILSITTER_DUOROTOR | MAV_TYPE_VTOL_TAILSITTER_QUADROTOR
    | MAV_TYPE_VTOL_TILTROTOR | MAV_TYPE_VTOL_FIXEDROTOR | MAV_TYPE_VTOL_TAILSITTER
    | MAV_TYPE_VTOL_RESERVED5 | MAV_TYPE_GIMBAL | MAV_TYPE_ADSB | MAV_TYPE_PARAFOIL
    | MAV_TYPE_DODECAROTOR | MAV_TYPE_CAMERA | MAV_TYPE_CHARGING_STATION | MAV_TYPE_FLARM
    | MAV_TYPE_SERVO | MAV_TYPE_ODID | MAV_TYPE_BATTERY | MAV_TYPE_PARACHUTE | MAV_TYPE_LOG
    | MAV_TYPE_OSD | MAV_TYPE_IMU | MAV_TYPE_GPS | MAV_TYPE_WINCH
  | MAV_TYPE_OTHER

primrec mav_type_to_string :: "mav_type \<Rightarrow> string" where
  "mav_type_to_string MAV_TYPE_DECAROTOR = ''DECAROTOR''"
| "mav_type_to_string MAV_TYPE_GENERIC = ''GENERIC''"
| "mav_type_to_string MAV_TYPE_FIXED_WING = ''FIXED WING''"
| "mav_type_to_string MAV_TYPE_QUADROTOR = ''QUADROTOR''"
| "mav_type_to_string MAV_TYPE_COAXIAL = ''COAXIAL''"
| "mav_type_to_string MAV_TYPE_HELICOPTER = ''HELICOPTER''"
| "mav_type_to_string MAV_TYPE_ANTENNA_TRACKER = ''ANTENNA TRACKER''"
| "mav_type_to_string MAV_TYPE_GCS = ''GCS''"
| "mav_type_to_string MAV_TYPE_AIRSHIP = ''AIRSHIP''"
| "mav_type_to_string MAV_TYPE_FREE_BALLOON = ''FREE BALLOON''"
| "mav_type_to_string MAV_TYPE_ROCKET = ''ROCKET''"
| "mav_type_to_string MAV_TYPE_GROUND_ROVER = ''GROUND ROVER''"
| "mav_type_to_string MAV_TYPE_SURFACE_BOAT = ''BOAT''"
| "mav_type_to_string MAV_TYPE_SUBMARINE = ''SUBMARINE''"
| "mav_type_to_string MAV_TYPE_HEXAROTOR = ''HEXAROTOR''"
| "mav_type_to_string MAV_TYPE_OCTOROTOR = ''OCTOROTOR''"
| "mav_type_to_string MAV_TYPE_TRICOPTER = ''TRICOPTER''"
| "mav_type_to_string MAV_TYPE_FLAPPING_WING = ''FLAPPING WING''"
| "mav_type_to_string MAV_TYPE_KITE = ''KITE''"
| "mav_type_to_string MAV_TYPE_ONBOARD_CONTROLLER = ''ONBOARD_CONTROLLER''"
| "mav_type_to_string MAV_TYPE_VTOL_TAILSITTER_DUOROTOR = ''VTOL_TAILSITTER_DUOROTOR''"
| "mav_type_to_string MAV_TYPE_VTOL_TAILSITTER_QUADROTOR = ''VTOL_TAILSITTER_QUADROTOR''"
| "mav_type_to_string MAV_TYPE_VTOL_TILTROTOR = ''VTOL_TILTROTOR''"
| "mav_type_to_string MAV_TYPE_VTOL_FIXEDROTOR = ''VTOL_FIXEDROTOR''"
| "mav_type_to_string MAV_TYPE_VTOL_TAILSITTER = ''VTOL_TAILSITTER''"
| "mav_type_to_string MAV_TYPE_VTOL_RESERVED5 = ''VTOL_RESERVED5''"
| "mav_type_to_string MAV_TYPE_GIMBAL = ''GIMBAL''"
| "mav_type_to_string MAV_TYPE_ADSB = ''ADSB''"
| "mav_type_to_string MAV_TYPE_PARAFOIL = ''PARAFOIL''"
| "mav_type_to_string MAV_TYPE_DODECAROTOR = ''DODECAROTOR''"
| "mav_type_to_string MAV_TYPE_CAMERA = ''CAMERA''"
| "mav_type_to_string MAV_TYPE_CHARGING_STATION = ''CHARGING_STATION''"
| "mav_type_to_string MAV_TYPE_FLARM = ''FLARM''"
| "mav_type_to_string MAV_TYPE_SERVO = ''SERVO''"
| "mav_type_to_string MAV_TYPE_ODID = ''ODID''"
| "mav_type_to_string MAV_TYPE_BATTERY = ''BATTERY''"
| "mav_type_to_string MAV_TYPE_PARACHUTE = ''PARACHUTE''"
| "mav_type_to_string MAV_TYPE_LOG = ''LOG''"
| "mav_type_to_string MAV_TYPE_OSD = ''OSD''"
| "mav_type_to_string MAV_TYPE_IMU = ''IMU''"
| "mav_type_to_string MAV_TYPE_GPS = ''GPS''"
| "mav_type_to_string MAV_TYPE_WINCH = ''WINCH''"
| "mav_type_to_string MAV_TYPE_OTHER = ''Unknown''"

record mav_dialect =
  sub_mode_of :: "u32 \<Rightarrow> sub_mode"
  rover_mode_of :: "u32 \<Rightarrow> rover_mode"
  copter_mode_of :: "u32 \<Rightarrow> copter_mode"
  plane_mode_of :: "u32 \<Rightarrow> plane_mode"
  mav_type_of :: "u8 \<Rightarrow> mav_type"

section \<open>Flight modes\<close>

record mav_type_and_flight_mode =
  mav_type :: string
  flight_mode :: string
  is_copter :: bool
  is_plane :: bool
  is_vtol :: bool

definition type_and_flight_mode_as_string ::
  "mav_dialect \<Rightarrow> mav_type \<Rightarrow> u32 \<Rightarrow> mav_type_and_flight_mode" where
  "type_and_flight_mode_as_string d uav_type custom_mode =
     (let ret = \<lparr>mav_type = mav_type_to_string uav_type, flight_mode = ''Unknown'',
                 is_copter = False, is_plane = False, is_vtol = False\<rparr>;
          plane = ret\<lparr>flight_mode := plane_mode_from_enum (plane_mode_of d custom_mode), is_plane := True\<rparr>;
          copter = ret\<lparr>flight_mode := copter_mode_from_enum (copter_mode_of d custom_mode), is_copter := True\<rparr>;
          vtol = ret\<lparr>flight_mode := plane_mode_from_enum (plane_mode_of d custom_mode), is_vtol := True\<rparr>
      in case uav_type of
           MAV_TYPE_GENERIC \<Rightarrow> ret
         | MAV_TYPE_FIXED_WING \<Rightarrow> plane
         | MAV_TYPE_QUADROTOR \<Rightarrow> copter
         | MAV_TYPE_HEXAROTOR \<Rightarrow> copter
         | MAV_TYPE_OCTOROTOR \<Rightarrow> copter
         | MAV_TYPE_TRICOPTER \<Rightarrow> copter
         | MAV_TYPE_DECAROTOR \<Rightarrow> copter
         | MAV_TYPE_DODECAROTOR \<Rightarrow> copter
         | MAV_TYPE_HELICOPTER \<Rightarrow> copter
         | MAV_TYPE_VTOL_FIXEDROTOR \<Rightarrow> vtol
         | MAV_TYPE_VTOL_TAILSITTER \<Rightarrow> vtol
         | MAV_TYPE_VTOL_TILTROTOR \<Rightarrow> vtol
         | MAV_TYPE_VTOL_TAILSITTER_DUOROTOR \<Rightarrow> vtol
         | MAV_TYPE_VTOL_TAILSITTER_QUADROTOR \<Rightarrow> vtol
         | MAV_TYPE_SUBMARINE \<Rightarrow> ret\<lparr>flight_mode := sub_mode_from_enum (sub_mode_of d custom_mode)\<rparr>
         | MAV_TYPE_GROUND_ROVER \<Rightarrow> ret\<lparr>flight_mode := rover_mode_from_enum (rover_mode_of d custom_mode)\<rparr>
         | _ \<Rightarrow> ret)"

definition flight_mode_is_copter :: "mav_type \<Rightarrow> bool" where
  "flight_mode_is_copter t \<longleftrightarrow> t = MAV_TYPE_TRICOPTER \<or> t = MAV_TYPE_QUADROTOR \<or> t = MAV_TYPE_HEXAROTOR
     \<or> t = MAV_TYPE_OCTOROTOR \<or> t = MAV_TYPE_DECAROTOR \<or> t = MAV_TYPE_DODECAROTOR"

definition flight_mode_is_plane :: "mav_type \<Rightarrow> bool" where
  "flight_mode_is_plane t \<longleftrightarrow> t = MAV_TYPE_FIXED_WING"

section \<open>Batteries and acknowledgements\<close>

datatype mav_battery_type =
    MAV_BATTERY_TYPE_LIPO | MAV_BATTERY_TYPE_LIFE | MAV_BATTERY_TYPE_LION | MAV_BATTERY_TYPE_NIMH
  | MAV_BATTERY_TYPE_OTHER

primrec battery_type_to_string :: "mav_battery_type \<Rightarrow> string" where
  "battery_type_to_string MAV_BATTERY_TYPE_LIPO = ''LiPo''"
| "battery_type_to_string MAV_BATTERY_TYPE_LIFE = ''LiFe''"
| "battery_type_to_string MAV_BATTERY_TYPE_LION = ''LiIo''"
| "battery_type_to_string MAV_BATTERY_TYPE_NIMH = ''NiMh''"
| "battery_type_to_string MAV_BATTERY_TYPE_OTHER = ''N/A''"

definition detailed_battery_voltages_to_string :: "u16 list \<Rightarrow> string" where
  "detailed_battery_voltages_to_string voltages =
     ''Voltages['' @
     concat (map (\<lambda>(i, v). if v \<noteq> 0xFFFF then (if i \<noteq> 0 then '','' else []) @ int_to_string (uint v) else [])
       (zip [0..<10] (take 10 voltages))) @ '']''"

record mavlink_command_ack =
  ack_target_system :: u8
  ack_target_component :: u8
  ack_command :: u16
  ack_result :: u8
  ack_result_param2 :: u32

definition mavlink_command_ack_to_string :: "mavlink_command_ack \<Rightarrow> string" where
  "mavlink_command_ack_to_string a =
     ''CMD_ACK{'' @ int_to_string (uint (ack_target_system a)) @ '':'' @
     int_to_string (uint (ack_target_component a)) @ '':'' @ int_to_string (uint (ack_command a)) @
     '',result:'' @ int_to_string (uint (ack_result a)) @
     '':'' @ int_to_string (sint (ack_result_param2 a)) @ '']''"

section \<open>Lemmas\<close>

text \<open>A vehicle is of at most one kind, and the kind depends on its type only.\<close>

lemma kind_exclusive:
  "\<not> (is_copter (type_and_flight_mode_as_string d t m) \<and> is_plane (type_and_flight_mode_as_string d t m))"
  "\<not> (is_copter (type_and_flight_mode_as_string d t m) \<and> is_vtol (type_and_flight_mode_as_string d t m))"
  "\<not> (is_plane (type_and_flight_mode_as_string d t m) \<and> is_vtol (type_and_flight_mode_as_string d t m))"
  by (cases t; simp add: type_and_flight_mode_as_string_def)+

text \<open>The two notions of a plane agree; those of a copter differ on the helicopter.\<close>

lemma plane_iff: "is_plane (type_and_flight_mode_as_string d t m) = flight_mode_is_plane t"
  by (cases t; simp add: type_and_flight_mode_as_string_def flight_mode_is_plane_def)

lemma copter_iff:
  "is_copter (type_and_flight_mode_as_string d t m) = (flight_mode_is_copter t \<or> t = MAV_TYPE_HELICOPTER)"
  by (cases t; simp add: type_and_flight_mode_as_string_def flight_mode_is_copter_def)

definition flight_mode_is_vtol :: "mav_type \<Rightarrow> bool" where
  "flight_mode_is_vtol t \<longleftrightarrow> t = MAV_TYPE_VTOL_FIXEDROTOR \<or> t = MAV_TYPE_VTOL_TAILSITTER
     \<or> t = MAV_TYPE_VTOL_TILTROTOR \<or> t = MAV_TYPE_VTOL_TAILSITTER_DUOROTOR
     \<or> t = MAV_TYPE_VTOL_TAILSITTER_QUADROTOR"

lemma vtol_iff: "is_vtol (type_and_flight_mode_as_string d t m) = flight_mode_is_vtol t"
  by (cases t; simp add: type_and_flight_mode_as_string_def flight_mode_is_vtol_def)

lemma type_text: "mav_type (type_and_flight_mode_as_string d t m) = mav_type_to_string t"
  by (cases t; simp add: type_and_flight_mode_as_string_def)

end
