(* ===== verification/Rounding.thy ===== *)
theory Rounding
  imports Complex_Main
begin

text \<open>Rounding of the C library: \<open>round\<close> and \<open>lround\<close> go to the nearest integer, a tie away from zero.\<close>

definition round_away :: "rat \<Rightarrow> int" where
  "round_away x = (if x < 0 then - \<lfloor>1 / 2 - x\<rfloor> else \<lfloor>x + 1 / 2\<rfloor>)"

lemma round_away_error: "2 * of_int (round_away x) \<le> 2 * x + 1" "2 * x - 1 \<le> 2 * of_int (round_away x)"
  using of_int_floor_le [of "1 / 2 - x"] floor_correct [of "1 / 2 - x"]
    of_int_floor_le [of "x + 1 / 2"] floor_correct [of "x + 1 / 2"]
  unfolding round_away_def by (simp_all del: of_int_floor_le split: if_split)

lemma round_away_mono: "x \<le> y \<Longrightarrow> round_away x \<le> round_away y"
  by (auto simp: round_away_def intro: floor_mono order_trans [of _ 0])

lemma round_away_of_int [simp]: "round_away (of_int n) = n"
  by (simp add: round_away_def floor_eq_iff)

end
