(* ===== verification/Telemetry_Util.thy ===== *)
theory Telemetry_Util
  imports Complex_Main Prelude Decimal Mavlink_Enums Rounding
begin

text \<open>
  The functions of \<open>app/telemetry/tutil/telemetryutil.hpp\<close>: battery charge, flight modes, heartbeats and
  the texts and numbers shown on the screen.

  Floating-point values are rationals and the decimal constants are exact, so the model leaves out
  rounding. A division by zero cells gives an infinity or no number, whose comparisons are those of
  \<open>cell_at_least\<close>.
\<close>

section \<open>Battery charge\<close>

definition cell_at_least :: "int \<Rightarrow> rat \<Rightarrow> rat \<Rightarrow> bool" where
  "cell_at_least cells voltage threshold =
     (if cells = 0 then voltage > 0 else voltage / of_int cells \<ge> threshold)"

definition lipo_battery_voltage_to_percent :: "int \<Rightarrow> rat \<Rightarrow> int" where
  "lipo_battery_voltage_to_percent cells voltage =
     (if cell_at_least cells voltage 4.2 then 100
      else if cell_at_least cells voltage 4.15 then 95
      else if cell_at_least cells voltage 4.11 then 90
      else if cell_at_least cells voltage 4.08 then 85
      else if cell_at_least cells voltage 4.02 then 80
      else if cell_at_least cells voltage 3.98 then 75
      else if cell_at_least cells voltage 3.95 then 70
      else if cell_at_least cells voltage 3.91 then 65
      else if cell_at_least cells voltage 3.87 then 60
      else if cell_at_least cells voltage 3.85 then 55
      else if cell_at_least cells voltage 3.84 then 50
      else if cell_at_least cells voltage 3.82 then 45
      else if cell_at_least cells voltage 3.80 then 40
      else if cell_at_least cells voltage 3.79 then 35
      else if cell_at_least cells voltage 3.77 then 30
      else if cell_at_least cells voltage 3.75 then 25
      else if cell_at_least cells voltage 3.73 then 20
      else if cell_at_least cells voltage 3.71 then 15
      else if cell_at_least cells voltage 3.69 then 10
      else if cell_at_least cells voltage 3.61 then 5
      else 0)"

definition lifepo4_battery_voltage_to_percent :: "int \<Rightarrow> rat \<Rightarrow> int" where
  "lifepo4_battery_voltage_to_percent cells voltage =
     (if cell_at_least cells voltage 3.40 then 100
      else if cell_at_least cells voltage 3.20 then 95
      else if cell_at_least cells voltage 3.19 then 90
      else if cell_at_least cells voltage 3.18 then 85
      else if cell_at_least cells voltage 3.17 then 80
      else if cell_at_least cells voltage 3.16 then 75
      else if cell_at_least cells voltage 3.15 then 70
      else if cell_at_least cells voltage 3.14 then 65
      else if cell_at_least cells voltage 3.13 then 60
      else if cell_at_least cells voltage 3.12 then 55
      else if cell_at_least cells voltage 3.11 then 50
      else if cell_at_least cells voltage 3.10 then 45
      else if cell_at_least cells voltage 3.09 then 40
      else if cell_at_least cells voltage 3.08 then 35
      else if cell_at_least cells voltage 3.07 then 30
      else if cell_at_least cells voltage 3.06 then 25
      else if cell_at_least cells voltage 3.05 then 20
      else if cell_at_least cells voltage 3.04 then 15
      else if cell_at_least cells voltage 3.03 then 10
      else if cell_at_least cells voltage 3.02 then 5
      else 0)"

text \<open>C++ division of integers rounds towards zero; a glyph is its code point.\<close>

definition c_div :: "int \<Rightarrow> int \<Rightarrow> int" where
  "c_div a b = sgn a * sgn b * (\<bar>a\<bar> div \<bar>b\<bar>)"

definition battery_gauge_glyph_from_percentage :: "int \<Rightarrow> nat" where
  "battery_gauge_glyph_from_percentage percent =
     (let p = c_div percent 5 * 5 in
      if p = 100 then 0xf079
      else if p = 95 then 0xf082
      else if p = 90 then 0xf082
      else if p = 85 then 0xf081
      else if p = 80 then 0xf081
      else if p = 75 then 0xf080
      else if p = 70 then 0xf080
      else if p = 65 then 0xf07f
      else if p = 60 then 0xf07f
      else if p = 55 then 0xf07e
      else if p = 50 then 0xf07e
      else if p = 45 then 0xf07d
      else if p = 40 then 0xf07d
      else if p = 35 then 0xf07c
      else if p = 30 then 0xf07c
      else if p = 25 then 0xf07b
      else if p = 20 then 0xf07b
      else if p = 15 then 0xf07a
      else if p = 10 then 0xf083
      else if p = 5 then 0xf083
      else if p = 0 then 0xf083
      else 0xf091)"

section \<open>Flight modes of PX4\<close>

definition px4_main_mode :: "u32 \<Rightarrow> nat" where
  "px4_main_mode data = unat (drop_bit 16 data AND 0xFF)"

definition px4_sub_mode :: "u32 \<Rightarrow> nat" where
  "px4_sub_mode data = unat (drop_bit 24 data)"

definition px4_mode_from_custom_mode :: "u32 \<Rightarrow> string" where
  "px4_mode_from_custom_mode custom_mode =
     (let main_mode = px4_main_mode custom_mode; sub_mode = px4_sub_mode custom_mode in
      if main_mode = 1 then ''Manual''
      else if main_mode = 2 then ''Altitude Control''
      else if main_mode = 3 then
        if sub_mode = 0 then ''Position Control''
        else if sub_mode = 1 then ''Position Control Orbit''
        else ''Unknown''
      else if main_mode = 4 then
        if sub_mode = 1 then ''Auto Ready''
        else if sub_mode = 2 then ''Takeoff''
        else if sub_mode = 3 then ''Auto Loiter''
        else if sub_mode = 4 then ''Auto Mission''
        else if sub_mode = 5 then ''Auto RTL''
        else if sub_mode = 6 then ''Auto Land''
        else if sub_mode = 8 then ''Auto Follow Tgt''
        else if sub_mode = 9 then ''Auto Precision Land''
        else ''Unknown''
      else if main_mode = 5 then ''Acro''
      else if main_mode = 6 then ''Offboard''
      else if main_mode = 7 then ''Stabilized''
      else if main_mode = 8 then ''Rattitude''
      else if main_mode = 9 then ''Simple''
      else ''Unknown'')"

section \<open>Heartbeats\<close>

datatype mav_autopilot =
    MAV_AUTOPILOT_PX4 | MAV_AUTOPILOT_GENERIC | MAV_AUTOPILOT_ARDUPILOTMEGA | MAV_AUTOPILOT_OTHER

text \<open>The fields of the heartbeat the code reads. The two flags of the base mode it tests are parameters of
  the dialect, like the numbers of the enumerators.\<close>

record heartbeat =
  hb_custom_mode :: u32
  hb_type :: u8
  hb_autopilot :: mav_autopilot
  hb_base_mode :: u8

record heartbeat_dialect = mav_dialect +
  MAV_MODE_FLAG_CUSTOM_MODE_ENABLED :: u8
  MAV_MODE_FLAG_SAFETY_ARMED :: u8

record heart_beat_info =
  info_autopilot :: string
  info_flight_mode :: string
  ardupilot_mav_type :: int
  info_mav_type :: string
  is_arducopter :: bool
  is_arduplane :: bool
  is_arduvtol :: bool

definition heart_beat_info_new :: heart_beat_info where
  "heart_beat_info_new = \<lparr>info_autopilot = ''Unknown'', info_flight_mode = ''Unknown'',
     ardupilot_mav_type = -1, info_mav_type = ''Unknown'', is_arducopter = False,
     is_arduplane = False, is_arduvtol = False\<rparr>"

definition custom_mode_enabled :: "heartbeat_dialect \<Rightarrow> heartbeat \<Rightarrow> bool" where
  "custom_mode_enabled d hb \<longleftrightarrow> hb_base_mode hb AND MAV_MODE_FLAG_CUSTOM_MODE_ENABLED d \<noteq> 0"

definition ardu_info :: "mav_type_and_flight_mode \<Rightarrow> heartbeat \<Rightarrow> heart_beat_info \<Rightarrow> heart_beat_info" where
  "ardu_info tm hb info =
     (let info1 = (if is_copter tm then info\<lparr>is_arducopter := True\<rparr>
                   else if is_plane tm then info\<lparr>is_arduplane := True\<rparr>
                   else if is_vtol tm then info\<lparr>is_arduvtol := True\<rparr>
                   else info)
      in info1\<lparr>ardupilot_mav_type := uint (hb_type hb)\<rparr>)"

definition parse_heartbeat :: "heartbeat_dialect \<Rightarrow> heartbeat \<Rightarrow> heart_beat_info option" where
  "parse_heartbeat d hb =
     (let info = heart_beat_info_new in
      if hb_autopilot hb = MAV_AUTOPILOT_PX4 then
        let info1 = info\<lparr>info_autopilot := ''Pixhawk''\<rparr>;
            info2 = (if custom_mode_enabled d hb
                     then info1\<lparr>info_flight_mode := px4_mode_from_custom_mode (hb_custom_mode hb)\<rparr>
                     else info1)
        in Some (info2\<lparr>info_mav_type := ''PX4?''\<rparr>)
      else if hb_autopilot hb = MAV_AUTOPILOT_GENERIC \<or> hb_autopilot hb = MAV_AUTOPILOT_ARDUPILOTMEGA then
        let info1 = info\<lparr>info_autopilot :=
                      (if hb_autopilot hb = MAV_AUTOPILOT_GENERIC then ''Generic'' else ''ARDU'')\<rparr>
        in if custom_mode_enabled d hb then
             let tm = type_and_flight_mode_as_string (mav_dialect.truncate d)
                        (mav_type_of d (hb_type hb)) (hb_custom_mode hb);
                 info2 = info1\<lparr>info_flight_mode := flight_mode tm, info_mav_type := mav_type tm\<rparr>
             in Some (if hb_autopilot hb = MAV_AUTOPILOT_ARDUPILOTMEGA then ardu_info tm hb info2 else info2)
           else Some info1
      else None)"

definition get_arm_mode_from_heartbeat :: "heartbeat_dialect \<Rightarrow> heartbeat \<Rightarrow> bool" where
  "get_arm_mode_from_heartbeat d hb \<longleftrightarrow> hb_base_mode hb AND MAV_MODE_FLAG_SAFETY_ARMED d \<noteq> 0"

section \<open>Texts and channels\<close>

record x_log_message =
  message :: bytes
  level :: int

definition statustext_convert :: "bytes \<Rightarrow> u8 \<Rightarrow> x_log_message" where
  "statustext_convert text severity =
     (let tmp = take 50 text;
          msg = (if 0 \<notin> set tmp then tmp @ [0] else tmp)
      in \<lparr>message = takeWhile (\<lambda>b. b \<noteq> 0) msg, level = uint severity\<rparr>)"

definition mavlink_msg_rc_channels_override_to_array :: "(nat \<Rightarrow> u16) \<Rightarrow> int list" where
  "mavlink_msg_rc_channels_override_to_array chan_raw = map (\<lambda>i. uint (chan_raw (i + 1))) [0..<18]"

definition mavlink_msg_rc_channels_to_array :: "(nat \<Rightarrow> u16) \<Rightarrow> int list" where
  "mavlink_msg_rc_channels_to_array chan_raw = map (\<lambda>i. uint (chan_raw (i + 1))) [0..<18]"

definition mavlink_msg_rc_channels_raw_to_array :: "(nat \<Rightarrow> u16) \<Rightarrow> int list" where
  "mavlink_msg_rc_channels_raw_to_array chan_raw =
     map (\<lambda>i. if i < 8 then uint (chan_raw (i + 1)) else 0) [0..<18]"

definition mavlink_rc_rssi_to_percent :: "u8 \<Rightarrow> int" where
  "mavlink_rc_rssi_to_percent rssi = (if rssi = 0xFF then -1 else uint rssi * 100 div 254)"

datatype gps_fix_type =
    GPS_FIX_TYPE_NO_GPS | GPS_FIX_TYPE_NO_FIX | GPS_FIX_TYPE_2D_FIX | GPS_FIX_TYPE_3D_FIX
  | GPS_FIX_TYPE_DGPS | GPS_FIX_TYPE_RTK_FLOAT | GPS_FIX_TYPE_RTK_FIXED | GPS_FIX_TYPE_STATIC
  | GPS_FIX_TYPE_PPP | GPS_FIX_TYPE_OTHER

primrec mavlink_gps_fix_type_to_string :: "gps_fix_type \<Rightarrow> string" where
  "mavlink_gps_fix_type_to_string GPS_FIX_TYPE_NO_GPS = ''No GPS''"
| "mavlink_gps_fix_type_to_string GPS_FIX_TYPE_NO_FIX = ''No Fix''"
| "mavlink_gps_fix_type_to_string GPS_FIX_TYPE_2D_FIX = ''2D Fix''"
| "mavlink_gps_fix_type_to_string GPS_FIX_TYPE_3D_FIX = ''3D Fix''"
| "mavlink_gps_fix_type_to_string GPS_FIX_TYPE_DGPS = ''DGPS''"
| "mavlink_gps_fix_type_to_string GPS_FIX_TYPE_RTK_FLOAT = ''RTK f''"
| "mavlink_gps_fix_type_to_string GPS_FIX_TYPE_RTK_FIXED = ''RTK F''"
| "mavlink_gps_fix_type_to_string GPS_FIX_TYPE_STATIC = ''Static''"
| "mavlink_gps_fix_type_to_string GPS_FIX_TYPE_PPP = ''PPP''"
| "mavlink_gps_fix_type_to_string GPS_FIX_TYPE_OTHER = ''Unknown''"

datatype mav_mission_type =
    MAV_MISSION_TYPE_MISSION | MAV_MISSION_TYPE_FENCE | MAV_MISSION_TYPE_RALLY | MAV_MISSION_TYPE_ALL
  | MAV_MISSION_TYPE_OTHER

primrec mavlink_mission_type_to_string :: "mav_mission_type \<Rightarrow> string" where
  "mavlink_mission_type_to_string MAV_MISSION_TYPE_MISSION = ''Primary mission''"
| "mavlink_mission_type_to_string MAV_MISSION_TYPE_FENCE = ''Fence''"
| "mavlink_mission_type_to_string MAV_MISSION_TYPE_RALLY = ''Rally''"
| "mavlink_mission_type_to_string MAV_MISSION_TYPE_ALL = ''ALL''"
| "mavlink_mission_type_to_string MAV_MISSION_TYPE_OTHER = ''MT_Unknown''"

datatype mav_frame = MAV_FRAME_GLOBAL | MAV_FRAME_GLOBAL_RELATIVE_ALT | MAV_FRAME_OTHER u8

primrec mavlink_frame_to_string :: "mav_frame \<Rightarrow> string" where
  "mavlink_frame_to_string MAV_FRAME_GLOBAL = ''FRAME_GLOBAL''"
| "mavlink_frame_to_string MAV_FRAME_GLOBAL_RELATIVE_ALT = ''FRAME_GLOBAL_RELATIVE_ALT''"
| "mavlink_frame_to_string (MAV_FRAME_OTHER n) = ''FRAME_UNKNOWN('' @ int_to_string (uint n) @ '')''"

definition calculate_efficiency_in_mah_per_km :: "rat \<Rightarrow> rat \<Rightarrow> int" where
  "calculate_efficiency_in_mah_per_km delta_mah delta_km =
     (if delta_km \<le> 0 then 0 else round_away (delta_mah / delta_km))"

text \<open>\<open>std::fmod\<close> keeps the sign of its first argument.\<close>

definition c_fmod :: "rat \<Rightarrow> rat \<Rightarrow> rat" where
  "c_fmod x y = (let q = x / y in x - y * of_int (if q \<ge> 0 then \<lfloor>q\<rfloor> else \<lceil>q\<rceil>))"

definition normalize_degree :: "rat \<Rightarrow> rat" where
  "normalize_degree degree =
     (let d1 = c_fmod degree 360;
          d2 = (if d1 < 0 then d1 + 360 else d1)
      in if d2 \<ge> 360 then d2 - 360 else d2)"

definition pps_to_string :: "int \<Rightarrow> string" where
  "pps_to_string packets_per_second = int_to_string packets_per_second @ '' pps''"

definition min_max_avg_to_string :: "int \<Rightarrow> int \<Rightarrow> int \<Rightarrow> string" where
  "min_max_avg_to_string mn mx avg =
     ''min:'' @ int_to_string mn @ '', '' @ ''max:'' @ int_to_string mx @ '', '' @ ''avg:'' @ int_to_string avg"

section \<open>Battery lemmas\<close>

lemma cell_at_least_mono:
  "0 \<le> cells \<Longrightarrow> v \<le> v' \<Longrightarrow> cell_at_least cells v t \<Longrightarrow> cell_at_least cells v' t"
  using divide_right_mono [of v v' "of_int cells"]
  by (cases "cells = 0") (simp_all add: cell_at_least_def)

text \<open>A ladder of thresholds with falling results is monotone, whatever the thresholds.\<close>

primrec ladder :: "(rat \<Rightarrow> bool) \<Rightarrow> (rat \<times> int) list \<Rightarrow> int" where
  "ladder at_least [] = 0"
| "ladder at_least (r # rs) = (if at_least (fst r) then snd r else ladder at_least rs)"

lemma ladder_le:
  "sorted_wrt (\<ge>) (map snd rs) \<Longrightarrow> list_all (\<lambda>r. 0 \<le> snd r \<and> snd r \<le> b) rs \<Longrightarrow> 0 \<le> b \<Longrightarrow>
     0 \<le> ladder p rs \<and> ladder p rs \<le> b"
  by (induction rs) auto

lemma ladder_mono:
  assumes "\<And>t. p t \<Longrightarrow> q t" and "sorted_wrt (\<ge>) (map snd rs)" and "list_all (\<lambda>r. 0 \<le> snd r) rs"
  shows "ladder p rs \<le> ladder q rs"
  using assms(2,3)
proof (induction rs)
  case (Cons r rs)
  then have "ladder p rs \<le> snd r"
    using ladder_le [of rs "snd r" p] by (auto simp: list_all_iff)
  with Cons assms(1) show ?case by auto
qed simp

definition lipo_table :: "(rat \<times> int) list" where
  "lipo_table =
    [(4.2, 100), (4.15, 95), (4.11, 90), (4.08, 85), (4.02, 80), (3.98, 75), (3.95, 70),
     (3.91, 65), (3.87, 60), (3.85, 55), (3.84, 50), (3.82, 45), (3.80, 40), (3.79, 35),
     (3.77, 30), (3.75, 25), (3.73, 20), (3.71, 15), (3.69, 10), (3.61, 5)]"

definition lifepo4_table :: "(rat \<times> int) list" where
  "lifepo4_table =
    [(3.40, 100), (3.20, 95), (3.19, 90), (3.18, 85), (3.17, 80), (3.16, 75), (3.15, 70),
     (3.14, 65), (3.13, 60), (3.12, 55), (3.11, 50), (3.10, 45), (3.09, 40), (3.08, 35),
     (3.07, 30), (3.06, 25), (3.05, 20), (3.04, 15), (3.03, 10), (3.02, 5)]"

lemma lipo_ladder: "lipo_battery_voltage_to_percent cells v = ladder (cell_at_least cells v) lipo_table"
  by (simp add: lipo_battery_voltage_to_percent_def lipo_table_def)

lemma lifepo4_ladder:
  "lifepo4_battery_voltage_to_percent cells v = ladder (cell_at_least cells v) lifepo4_table"
  by (simp add: lifepo4_battery_voltage_to_percent_def lifepo4_table_def)

lemma battery_tables:
  "sorted_wrt (\<ge>) (map snd lipo_table)" "list_all (\<lambda>r. 0 \<le> snd r \<and> snd r \<le> 100) lipo_table"
  "sorted_wrt (\<ge>) (map snd lifepo4_table)" "list_all (\<lambda>r. 0 \<le> snd r \<and> snd r \<le> 100) lifepo4_table"
  by (simp_all add: lipo_table_def lifepo4_table_def)

lemma battery_bounds:
  "lipo_battery_voltage_to_percent cells v \<in> {0..100}" "lifepo4_battery_voltage_to_percent cells v \<in> {0..100}"
  using ladder_le [OF battery_tables(1,2)] ladder_le [OF battery_tables(3,4)]
  by (simp_all add: lipo_ladder lifepo4_ladder)

lemma glyph_known:
  assumes "p \<in> {0..100}"
  shows "battery_gauge_glyph_from_percentage p \<noteq> 0xf091"
proof -
  have "c_div p 5 = p div 5" using assms by (cases "p = 0") (simp_all add: c_div_def)
  moreover have "p div 5 \<in> {0..20}" using assms by auto
  then have "p div 5 \<in> {0,1,2,3,4,5,6,7,8,9,10} \<union> {11,12,13,14,15,16,17,18,19,20}"
    by simp presburger
  ultimately show ?thesis
    unfolding battery_gauge_glyph_from_percentage_def Let_def by (elim UnE insertE emptyE) simp_all
qed

text \<open>The battery gauge never falls when the voltage rises, for both kinds of cells and also
  when the number of cells is unknown (zero); it stays between 0 and 100 percent, and every value has its own glyph.\<close>

theorem battery_gauge:
  assumes "0 \<le> cells" and "v \<le> v'"
  shows "lipo_battery_voltage_to_percent cells v \<le> lipo_battery_voltage_to_percent cells v'
    \<and> lifepo4_battery_voltage_to_percent cells v \<le> lifepo4_battery_voltage_to_percent cells v'
    \<and> lipo_battery_voltage_to_percent cells v \<in> {0..100}
    \<and> lifepo4_battery_voltage_to_percent cells v \<in> {0..100}
    \<and> battery_gauge_glyph_from_percentage (lipo_battery_voltage_to_percent cells v) \<noteq> 0xf091
    \<and> battery_gauge_glyph_from_percentage (lifepo4_battery_voltage_to_percent cells v) \<noteq> 0xf091"
proof -
  have "list_all (\<lambda>r. 0 \<le> snd r) lipo_table" "list_all (\<lambda>r. 0 \<le> snd r) lifepo4_table"
    using battery_tables by (simp_all add: list_all_iff)
  then have "ladder (cell_at_least cells v) lipo_table \<le> ladder (cell_at_least cells v') lipo_table"
    "ladder (cell_at_least cells v) lifepo4_table \<le> ladder (cell_at_least cells v') lifepo4_table"
    using ladder_mono [OF cell_at_least_mono [OF assms] battery_tables(1)]
      ladder_mono [OF cell_at_least_mono [OF assms] battery_tables(3)] by simp_all
  then have "lipo_battery_voltage_to_percent cells v \<le> lipo_battery_voltage_to_percent cells v'"
    "lifepo4_battery_voltage_to_percent cells v \<le> lifepo4_battery_voltage_to_percent cells v'"
    by (simp_all only: lipo_ladder lifepo4_ladder)
  then show ?thesis using battery_bounds glyph_known by blast
qed

theorem battery_gauge_witness:
  "lipo_battery_voltage_to_percent 4 15 \<le> lipo_battery_voltage_to_percent 4 16.8
   \<and> lipo_battery_voltage_to_percent 4 16.8 = 100"
  using battery_gauge [of 4 15 "16.8"]
  by (simp add: lipo_battery_voltage_to_percent_def cell_at_least_def)

section \<open>Heartbeat lemmas\<close>

lemma ardu_info_fields:
  "is_arducopter (ardu_info tm hb info) = (is_arducopter info \<or> is_copter tm)"
  "is_arduplane (ardu_info tm hb info) = (is_arduplane info \<or> \<not> is_copter tm \<and> is_plane tm)"
  "is_arduvtol (ardu_info tm hb info) = (is_arduvtol info \<or> \<not> is_copter tm \<and> \<not> is_plane tm \<and> is_vtol tm)"
  "ardupilot_mav_type (ardu_info tm hb info) = uint (hb_type hb)"
  by (auto simp: ardu_info_def Let_def)

text \<open>A heartbeat is ignored exactly when it does not come from an autopilot the program knows; a
  vehicle is taken for an ArduPilot copter, plane or VTOL exactly when the autopilot is ArduPilot, its
  custom mode is enabled and its type is of that kind, and only then is its type recorded.\<close>

theorem heartbeat_kind:
  "case parse_heartbeat d hb of
     None \<Rightarrow> hb_autopilot hb = MAV_AUTOPILOT_OTHER
   | Some info \<Rightarrow>
       (let t = mav_type_of d (hb_type hb);
            ardu = (hb_autopilot hb = MAV_AUTOPILOT_ARDUPILOTMEGA \<and> custom_mode_enabled d hb)
        in hb_autopilot hb \<noteq> MAV_AUTOPILOT_OTHER
         \<and> is_arducopter info = (ardu \<and> (flight_mode_is_copter t \<or> t = MAV_TYPE_HELICOPTER))
         \<and> is_arduplane info = (ardu \<and> flight_mode_is_plane t)
         \<and> is_arduvtol info = (ardu \<and> flight_mode_is_vtol t)
         \<and> ardupilot_mav_type info = (if ardu then uint (hb_type hb) else -1))"
proof -
  have kinds: "\<not> (flight_mode_is_plane t \<and> (flight_mode_is_copter t \<or> t = MAV_TYPE_HELICOPTER))"
    "\<not> (flight_mode_is_vtol t \<and> (flight_mode_is_copter t \<or> t = MAV_TYPE_HELICOPTER))"
    "\<not> (flight_mode_is_vtol t \<and> flight_mode_is_plane t)" for t
    by (auto simp: flight_mode_is_plane_def flight_mode_is_vtol_def flight_mode_is_copter_def)
  show ?thesis
    using kinds [of "mav_type_of d (hb_type hb)"]
    by (cases "hb_autopilot hb"; cases "custom_mode_enabled d hb")
      (auto simp: parse_heartbeat_def heart_beat_info_new_def Let_def ardu_info_fields copter_iff plane_iff vtol_iff)
qed

end
