(* ===== verification/Mission_Handler.thy ===== *)
theory Mission_Handler
  imports Telemetry_Util
begin

text \<open>
  Fetching the waypoints of a mission from the flight controller: the class \<open>FCMissionHandler\<close>
  (\<open>app/telemetry/action/fcmissionhandler.h\<close> and \<open>.cpp\<close>) and the list the user interface shows,
  \<open>FCMavlinkMissionItemsModel\<close> (\<open>app/telemetry/models/fcmavlinkmissionitemsmodel.cpp\<close>).

  Messages start at the decoded structures. A coordinate is sent as an integer of 1e-7 degrees and
  kept as a rational. Requests handed to the link are recorded in \<open>requests\<close>. A signal from handler to list
  that is emitted by the thread of the telemetry waits in \<open>ui_queue\<close> until the thread of the user interface comes to it; one that is
  emitted by the thread of the user interface itself is delivered with the call and overtakes those waiting. The two time stamps
  and \<open>now\<close> are nanoseconds. Every operation holds the mutex.
\<close>

section \<open>The list of the user interface\<close>

record list_element =
  element_index :: int
  element_latitude :: rat
  element_longitude :: rat
  element_altitude_meter :: rat
  valid :: bool
  currently_active :: bool

definition updateData :: "int \<Rightarrow> list_element \<Rightarrow> list_element list \<Rightarrow> list_element list" where
  "updateData row element data =
     (if row < 0 \<or> row \<ge> int (length data) then data else data[nat row := element])"

definition qt_ui_update_element ::
  "int \<Rightarrow> rat \<Rightarrow> rat \<Rightarrow> rat \<Rightarrow> bool \<Rightarrow> list_element list \<Rightarrow> list_element list" where
  "qt_ui_update_element mission_index lat lon alt_m active data =
     updateData mission_index \<lparr>element_index = mission_index, element_latitude = lat,
       element_longitude = lon, element_altitude_meter = alt_m, valid = True,
       currently_active = active\<rparr> data"

definition qt_ui_resize :: "nat \<Rightarrow> list_element list \<Rightarrow> list_element list" where
  "qt_ui_resize total_mission_count data =
     map (\<lambda>i. \<lparr>element_index = int i, element_latitude = 0, element_longitude = 0,
       element_altitude_meter = 0, valid = False, currently_active = False\<rparr>) [0..<total_mission_count]"

datatype ui_signal =
    Signal_Update_Element int rat rat rat bool
  | Signal_Resize nat

fun deliver :: "ui_signal \<Rightarrow> list_element list \<Rightarrow> list_element list" where
  "deliver (Signal_Update_Element i lat lon alt active) data = qt_ui_update_element i lat lon alt active data"
| "deliver (Signal_Resize n) data = qt_ui_resize n data"

section \<open>The handler\<close>

record mission_count =
  count_value :: u16
  count_mission_type :: mav_mission_type

record mission_item_int =
  item_mission_type :: mav_mission_type
  item_frame :: mav_frame
  item_x :: "32 word"
  item_y :: "32 word"
  item_seq :: u16

record m_item =
  mission_index :: int
  latitude :: rat
  longitude :: rat
  altitude_meter :: rat
  updated :: bool

datatype mission_request =
    Request_Mission_Count int int
  | Request_Mission_Item int int int

record mission_handler =
  waypoints_current_total :: int
  waypoints_current :: int
  mission_current_type :: string
  current_status :: string
  m_mission_items :: "m_item list"
  m_missing_items :: "int list"
  m_last_count_request :: int
  m_last_item_request :: int
  m_has_mission_count :: bool
  ui_list :: "list_element list"
  ui_queue :: "ui_signal list"
  requests :: "mission_request list"

definition mission_handler_new :: "int \<Rightarrow> mission_handler" where
  "mission_handler_new now = \<lparr>waypoints_current_total = -1, waypoints_current = -1,
     mission_current_type = ''Unknown'', current_status = ''N/A'', m_mission_items = [],
     m_missing_items = [], m_last_count_request = now, m_last_item_request = now,
     m_has_mission_count = False, ui_list = [], ui_queue = [], requests = []\<rparr>"

text \<open>Who emits a signal decides when it is delivered.\<close>

datatype emitting_thread = From_Ui | From_Telemetry

definition emit_signal :: "emitting_thread \<Rightarrow> ui_signal \<Rightarrow> mission_handler \<Rightarrow> mission_handler" where
  "emit_signal th sig h =
     (case th of
        From_Ui \<Rightarrow> h\<lparr>ui_list := deliver sig (ui_list h)\<rparr>
      | From_Telemetry \<Rightarrow> h\<lparr>ui_queue := ui_queue h @ [sig]\<rparr>)"

definition p_initialize :: "emitting_thread \<Rightarrow> nat \<Rightarrow> mission_handler \<Rightarrow> mission_handler" where
  "p_initialize th total_mission_count = emit_signal th (Signal_Resize total_mission_count)"

definition p_update :: "emitting_thread \<Rightarrow> int \<Rightarrow> rat \<Rightarrow> rat \<Rightarrow> rat \<Rightarrow> mission_handler \<Rightarrow> mission_handler" where
  "p_update th i lat lon alt_m = emit_signal th (Signal_Update_Element i lat lon alt_m False)"

abbreviation seconds :: "int \<Rightarrow> int" where
  "seconds n \<equiv> n * 1000000000"

definition recalculate_missing :: "mission_handler \<Rightarrow> mission_handler" where
  "recalculate_missing h =
     h\<lparr>m_missing_items := map mission_index (filter (\<lambda>i. \<not> updated i) (m_mission_items h))\<rparr>"

definition opt_send_messages :: "int \<Rightarrow> int \<Rightarrow> int \<Rightarrow> mission_handler \<Rightarrow> mission_handler" where
  "opt_send_messages now fc_sys_id fc_comp_id h =
     (if \<not> m_has_mission_count h then
        let h1 = h\<lparr>current_status := ''Requesting''\<rparr> in
        if now - m_last_count_request h1 > seconds 1
        then h1\<lparr>m_last_count_request := now,
                requests := requests h1 @ [Request_Mission_Count fc_sys_id fc_comp_id]\<rparr>
        else h1
      else if m_missing_items h = [] then
        h\<lparr>current_status := ''Done, total:'' @ int_to_string (int (length (m_mission_items h)))\<rparr>
      else if now - m_last_item_request h > seconds 1 then
        h\<lparr>m_last_item_request := now,
          current_status := ''missing: '' @ int_to_string (int (length (m_missing_items h))),
          requests := requests h @
            map (Request_Mission_Item fc_sys_id fc_comp_id) (take 10 (m_missing_items h))\<rparr>
      else h)"

definition resync :: "mission_handler \<Rightarrow> mission_handler" where
  "resync h = p_initialize From_Ui 0
     (h\<lparr>m_mission_items := [], m_missing_items := [], m_has_mission_count := False\<rparr>)"

definition update_mission_count :: "mission_count \<Rightarrow> mission_handler \<Rightarrow> mission_handler" where
  "update_mission_count c h =
     (if count_mission_type c \<noteq> MAV_MISSION_TYPE_MISSION then h
      else
        let count = unat (count_value c);
            h1 = h\<lparr>waypoints_current_total := int count,
                   mission_current_type := mavlink_mission_type_to_string (count_mission_type c)\<rparr>
        in if count = length (m_mission_items h1) then
             if count = 0 then h1\<lparr>m_has_mission_count := True\<rparr> else h1
           else
             let h2 = h1\<lparr>m_mission_items := map (\<lambda>i. \<lparr>mission_index = int i, latitude = 0,
                           longitude = 0, altitude_meter = 0, updated = False\<rparr>) [0..<count],
                         m_has_mission_count := True\<rparr>
             in p_initialize From_Telemetry count (recalculate_missing h2))"

definition degrees_1e7 :: "32 word \<Rightarrow> rat" where
  "degrees_1e7 v = of_int (sint v) / 10000000"

definition global_frame :: "mav_frame \<Rightarrow> bool" where
  "global_frame f \<longleftrightarrow> f = MAV_FRAME_GLOBAL \<or> f = MAV_FRAME_GLOBAL_RELATIVE_ALT"

definition update_mission :: "mission_item_int \<Rightarrow> mission_handler \<Rightarrow> mission_handler" where
  "update_mission m h =
     (if item_mission_type m \<noteq> MAV_MISSION_TYPE_MISSION then h
      else if \<not> global_frame (item_frame m) then h
      else
        let lat = degrees_1e7 (item_x m); lon = degrees_1e7 (item_y m); seq = unat (item_seq m) in
        if \<not> seq < length (m_mission_items h) then h
        else
          let item = m_mission_items h ! seq;
              changed = (latitude item \<noteq> lat \<or> longitude item \<noteq> lon);
              item' = item\<lparr>latitude := lat, longitude := lon, updated := True\<rparr>;
              h1 = h\<lparr>m_mission_items := (m_mission_items h)[seq := item']\<rparr>;
              h2 = (if changed
                    then p_update From_Telemetry (mission_index item') (latitude item') (longitude item')
                           (altitude_meter item') h1
                    else h1)
          in recalculate_missing h2)"

definition update_mission_current :: "u16 \<Rightarrow> mission_handler \<Rightarrow> mission_handler" where
  "update_mission_current seq h = h\<lparr>waypoints_current := uint seq\<rparr>"

datatype mission_message =
    Mission_Current u16
  | Mission_Count mission_count
  | Mission_Item_Int mission_item_int
  | Mission_Other

fun process_message :: "mission_message \<Rightarrow> mission_handler \<Rightarrow> mission_handler \<times> bool" where
  "process_message (Mission_Current seq) h = (update_mission_current seq h, True)"
| "process_message (Mission_Count c) h = (update_mission_count c h, True)"
| "process_message (Mission_Item_Int m) h = (update_mission m h, True)"
| "process_message Mission_Other h = (h, False)"

section \<open>Runs\<close>

datatype mission_event =
    Message mission_message
  | Fc_Active int int int
  | Resync
  | Ui_Delivers

fun mission_step :: "mission_event \<Rightarrow> mission_handler \<Rightarrow> mission_handler" where
  "mission_step (Message m) h = fst (process_message m h)"
| "mission_step (Fc_Active now sys cmp) h = opt_send_messages now sys cmp h"
| "mission_step Resync h = resync h"
| "mission_step Ui_Delivers h =
     (case ui_queue h of [] \<Rightarrow> h | sig # rest \<Rightarrow> h\<lparr>ui_queue := rest, ui_list := deliver sig (ui_list h)\<rparr>)"

inductive mission_reachable :: "mission_handler \<Rightarrow> bool" where
  start: "mission_reachable (mission_handler_new now)"
| step: "mission_reachable h \<Longrightarrow> mission_reachable (mission_step e h)"

text \<open>The list once the waiting signals have been delivered.\<close>

definition screen :: "mission_handler \<Rightarrow> list_element list" where
  "screen h = fold deliver (ui_queue h) (ui_list h)"

lemma screen_upd [simp]:
  "screen (h\<lparr>m_mission_items := is\<rparr>) = screen h" "screen (h\<lparr>m_missing_items := ms\<rparr>) = screen h"
  "screen (h\<lparr>m_has_mission_count := b\<rparr>) = screen h" "screen (h\<lparr>waypoints_current_total := x\<rparr>) = screen h"
  "screen (h\<lparr>waypoints_current := x\<rparr>) = screen h" "screen (h\<lparr>mission_current_type := t\<rparr>) = screen h"
  "screen (h\<lparr>current_status := t\<rparr>) = screen h" "screen (h\<lparr>m_last_count_request := x\<rparr>) = screen h"
  "screen (h\<lparr>m_last_item_request := x\<rparr>) = screen h" "screen (h\<lparr>requests := rs\<rparr>) = screen h"
  by (simp_all add: screen_def)

lemma emit_sel [simp]:
  "m_mission_items (emit_signal th sig h) = m_mission_items h" "m_missing_items (emit_signal th sig h) = m_missing_items h"
  "m_has_mission_count (emit_signal th sig h) = m_has_mission_count h" "requests (emit_signal th sig h) = requests h"
  "screen (emit_signal From_Telemetry sig h) = deliver sig (screen h)"
  by (auto simp: emit_signal_def screen_def split: emitting_thread.split)

text \<open>What the user sees of an item: nothing before its first change, its coordinates afterwards.\<close>

definition shows_item :: "m_item \<Rightarrow> list_element \<Rightarrow> bool" where
  "shows_item i e \<longleftrightarrow> element_index e = mission_index i \<and> element_latitude e = latitude i
     \<and> element_longitude e = longitude i \<and> element_altitude_meter e = altitude_meter i
     \<and> (if valid e then updated i else True)"

definition mission_inv :: "mission_handler \<Rightarrow> bool" where
  "mission_inv h \<longleftrightarrow>
     map mission_index (m_mission_items h) = map int [0..<length (m_mission_items h)]
     \<and> m_missing_items h = map mission_index (filter (\<lambda>i. \<not> updated i) (m_mission_items h))
     \<and> (if m_has_mission_count h then True else m_mission_items h = [])"

definition screen_ok :: "mission_handler \<Rightarrow> bool" where
  "screen_ok h \<longleftrightarrow> list_all2 shows_item (m_mission_items h) (screen h)"

lemma mission_inv_new: "mission_inv (mission_handler_new now)" "screen_ok (mission_handler_new now)"
  by (simp_all add: mission_inv_def screen_ok_def screen_def mission_handler_new_def)

lemma mission_inv_index:
  "mission_inv h \<Longrightarrow> n < length (m_mission_items h) \<Longrightarrow> mission_index (m_mission_items h ! n) = int n"
  unfolding mission_inv_def
  by (metis (no_types, lifting) add_0 length_map length_upt minus_nat.diff_0 nth_map nth_upt)

lemma update_mission_count_cases:
  obtains (other) "count_mission_type c \<noteq> MAV_MISSION_TYPE_MISSION" "update_mission_count c h = h"
    | (same) "count_mission_type c = MAV_MISSION_TYPE_MISSION" "unat (count_value c) = length (m_mission_items h)"
        "m_mission_items (update_mission_count c h) = m_mission_items h"
        "m_missing_items (update_mission_count c h) = m_missing_items h"
        "screen (update_mission_count c h) = screen h" "requests (update_mission_count c h) = requests h"
        "m_has_mission_count (update_mission_count c h) = (m_has_mission_count h \<or> m_mission_items h = [])"
    | (changed) "count_mission_type c = MAV_MISSION_TYPE_MISSION" "unat (count_value c) \<noteq> length (m_mission_items h)"
        "m_mission_items (update_mission_count c h) = map (\<lambda>i. \<lparr>mission_index = int i, latitude = 0,
           longitude = 0, altitude_meter = 0, updated = False\<rparr>) [0..<unat (count_value c)]"
        "m_missing_items (update_mission_count c h) = map int [0..<unat (count_value c)]"
        "screen (update_mission_count c h) = qt_ui_resize (unat (count_value c)) (screen h)"
        "requests (update_mission_count c h) = requests h"
        "m_has_mission_count (update_mission_count c h)"
proof (cases "count_mission_type c = MAV_MISSION_TYPE_MISSION")
  case False
  then show ?thesis by (intro other) (simp_all add: update_mission_count_def)
next
  case True
  note mission = this
  show ?thesis
  proof (cases "unat (count_value c) = length (m_mission_items h)")
    case True
    with mission show ?thesis by (intro same) (simp_all add: update_mission_count_def Let_def)
  next
    case False
    with mission show ?thesis
      by (intro changed) (simp_all add: update_mission_count_def recalculate_missing_def Let_def comp_def
          qt_ui_resize_def p_initialize_def)
  qed
qed

lemma fresh_items_shown:
  "list_all2 shows_item (map (\<lambda>i. \<lparr>mission_index = int i, latitude = 0, longitude = 0,
     altitude_meter = 0, updated = False\<rparr>) [0..<n]) (qt_ui_resize n data)"
  by (simp add: qt_ui_resize_def list_all2_conv_all_nth shows_item_def)

lemma update_mission_count_inv:
  "mission_inv h \<Longrightarrow> mission_inv (update_mission_count c h)" "screen_ok h \<Longrightarrow> screen_ok (update_mission_count c h)"
  by (cases rule: update_mission_count_cases [of c h];
    auto simp: mission_inv_def screen_ok_def fresh_items_shown comp_def split: if_splits)+

lemma list_all2_update:
  "list_all2 P xs ys \<Longrightarrow> P x y \<Longrightarrow> list_all2 P (xs[n := x]) (ys[n := y])"
  by (rule list_all2_update_cong)

lemma list_all2_update_left:
  "list_all2 P xs ys \<Longrightarrow> n < length xs \<Longrightarrow> P x (ys ! n) \<Longrightarrow> list_all2 P (xs[n := x]) ys"
  by (metis list_update_id list_all2_update_cong)

lemma ui_update_element:
  "n < length data \<Longrightarrow> qt_ui_update_element (int n) lat lon alt active data =
     data[n := \<lparr>element_index = int n, element_latitude = lat, element_longitude = lon,
       element_altitude_meter = alt, valid = True, currently_active = active\<rparr>]"
  by (simp add: qt_ui_update_element_def updateData_def)

lemma update_mission_inv:
  assumes inv: "mission_inv h"
  shows "mission_inv (update_mission m h) \<and> (screen_ok h \<longrightarrow> screen_ok (update_mission m h))"
proof (cases "item_mission_type m = MAV_MISSION_TYPE_MISSION \<and> global_frame (item_frame m)
    \<and> unat (item_seq m) < length (m_mission_items h)")
  case True
  let ?n = "unat (item_seq m)" and ?items = "m_mission_items h"
  let ?i = "?items ! ?n"
  let ?i' = "?i\<lparr>latitude := degrees_1e7 (item_x m), longitude := degrees_1e7 (item_y m), updated := True\<rparr>"
  let ?changed = "latitude ?i \<noteq> degrees_1e7 (item_x m) \<or> longitude ?i \<noteq> degrees_1e7 (item_y m)"
  have n: "?n < length ?items" using True by simp
  have index: "mission_index ?i = int ?n" by (rule mission_inv_index [OF inv n])
  have keys: "map mission_index (?items[?n := ?i']) = map mission_index ?items"
    using n by (simp add: map_update) (metis length_map list_update_id nth_map)
  have counted: "m_has_mission_count h"
    using inv n by (auto simp: mission_inv_def split: if_splits)
  have items: "m_mission_items (update_mission m h) = ?items[?n := ?i']"
    "m_missing_items (update_mission m h) = map mission_index (filter (\<lambda>i. \<not> updated i) (?items[?n := ?i']))"
    "m_has_mission_count (update_mission m h) = m_has_mission_count h"
    "screen (update_mission m h) =
      (if ?changed then qt_ui_update_element (int ?n) (latitude ?i') (longitude ?i') (altitude_meter ?i') False (screen h)
       else screen h)"
    using True index by (auto simp: update_mission_def recalculate_missing_def p_update_def Let_def)
  have "list_all2 shows_item (?items[?n := ?i']) (screen (update_mission m h))" if "screen_ok h"
  proof -
    have shown: "list_all2 shows_item ?items (screen h)" using that by (simp add: screen_ok_def)
    then have len: "length (screen h) = length ?items" by (simp add: list_all2_lengthD)
    have old: "shows_item ?i (screen h ! ?n)" using shown n by (rule list_all2_nthD)
    show ?thesis
    proof (cases ?changed)
      case changed: True
      then show ?thesis
        using ui_update_element [of ?n "screen h"] n len
        by (simp add: items index del: of_nat_unat)
          (auto intro!: list_all2_update [OF shown] simp: shows_item_def index simp del: of_nat_unat)
    next
      case False
      then have "shows_item ?i' (screen h ! ?n)" using old by (auto simp: shows_item_def)
      then have "list_all2 shows_item (?items[?n := ?i']) (screen h)"
        using shown n by (intro list_all2_update_left)
      then show ?thesis using False items(4) by simp
    qed
  qed
  with inv counted keys items show ?thesis by (simp add: mission_inv_def screen_ok_def)
qed (use inv in \<open>auto simp: update_mission_def Let_def\<close>)

lemma opt_send_keeps [simp]:
  "m_mission_items (opt_send_messages now s c h) = m_mission_items h" "m_missing_items (opt_send_messages now s c h) = m_missing_items h"
  "m_has_mission_count (opt_send_messages now s c h) = m_has_mission_count h" "screen (opt_send_messages now s c h) = screen h"
  by (simp_all add: opt_send_messages_def Let_def)

lemma mission_step_inv:
  assumes "mission_inv h"
  shows "mission_inv (mission_step e h)
    \<and> (screen_ok h \<and> (e = Resync \<longrightarrow> ui_queue h = []) \<longrightarrow> screen_ok (mission_step e h))"
proof (cases e)
  case (Message m)
  with assms show ?thesis
    by (cases m) (simp_all add: Message update_mission_count_inv update_mission_inv,
      simp add: update_mission_current_def mission_inv_def screen_ok_def)
next
  case Ui_Delivers
  with assms show ?thesis by (auto simp: mission_inv_def screen_ok_def screen_def split: list.split)
next
  case (Fc_Active now sys cmp)
  with assms show ?thesis by (simp add: mission_inv_def screen_ok_def)
next
  case Resync
  with assms show ?thesis
    by (simp add: resync_def p_initialize_def mission_inv_def screen_ok_def screen_def emit_signal_def qt_ui_resize_def)
qed

text \<open>A run in which the user only resynchronises while no signal waits.\<close>

fun resyncs_settled :: "mission_event list \<Rightarrow> mission_handler \<Rightarrow> bool" where
  "resyncs_settled [] h \<longleftrightarrow> True"
| "resyncs_settled (e # es) h \<longleftrightarrow> (e = Resync \<longrightarrow> ui_queue h = []) \<and> resyncs_settled es (mission_step e h)"

text \<open>What a step asks the flight controller for: the count until it is known, afterwards the first ten items without data, each at most
  once in a second.\<close>

definition asked_for :: "mission_event \<Rightarrow> mission_handler \<Rightarrow> mission_request list" where
  "asked_for e h =
     (case e of
        Fc_Active now sys cmp \<Rightarrow>
          if \<not> m_has_mission_count h then
            if now - m_last_count_request h > seconds 1 then [Request_Mission_Count sys cmp] else []
          else if now - m_last_item_request h > seconds 1 then
            map (\<lambda>i. Request_Mission_Item sys cmp (int i))
              (take 10 (filter (\<lambda>i. \<not> updated (m_mission_items h ! i)) [0..<length (m_mission_items h)]))
          else []
      | _ \<Rightarrow> [])"

lemma missing_numbers:
  assumes "mission_inv h"
  shows "m_missing_items h = map int (filter (\<lambda>i. \<not> updated (m_mission_items h ! i)) [0..<length (m_mission_items h)])"
proof -
  let ?items = "m_mission_items h"
  have "filter (\<lambda>i. \<not> updated i) ?items = map ((!) ?items) (filter (\<lambda>i. \<not> updated (?items ! i)) [0..<length ?items])"
    using filter_map [of "\<lambda>i. \<not> updated i" "(!) ?items" "[0..<length ?items]"] by (simp add: map_nth comp_def)
  moreover have "mission_index (?items ! i) = int i" if "i < length ?items" for i
    using mission_inv_index [OF assms that] .
  ultimately show ?thesis using assms by (auto simp: mission_inv_def intro!: map_cong)
qed

lemma step_requests:
  assumes "mission_inv h"
  shows "requests (mission_step e h) = requests h @ asked_for e h"
proof (cases e)
  case (Message m)
  show ?thesis
  proof (cases m)
    case (Mission_Count c)
    then show ?thesis
      by (cases rule: update_mission_count_cases [of c h]) (simp_all add: Message asked_for_def)
  next
    case (Mission_Item_Int i)
    then show ?thesis
      by (simp add: Message asked_for_def update_mission_def recalculate_missing_def p_update_def Let_def)
  qed (simp_all add: Message asked_for_def update_mission_current_def)
next
  case (Fc_Active now sys cmp)
  have "take 10 (m_missing_items h) = map int (take 10 (filter (\<lambda>i. \<not> updated (m_mission_items h ! i)) [0..<length (m_mission_items h)]))"
    unfolding missing_numbers [OF assms] by (simp only: take_map)
  then show ?thesis
    using missing_numbers [OF assms] by (auto simp: Fc_Active asked_for_def opt_send_messages_def Let_def comp_def)
qed (auto simp: asked_for_def resync_def p_initialize_def split: list.split)

lemma mission_reachable_inv: "mission_reachable h \<Longrightarrow> mission_inv h"
  by (induction rule: mission_reachable.induct) (use mission_inv_new mission_step_inv in blast)+

lemma mission_run_inv:
  "mission_inv h \<Longrightarrow> mission_inv (fold mission_step es h) \<and> (screen_ok h \<longrightarrow> resyncs_settled es h \<longrightarrow> screen_ok (fold mission_step es h))"
proof (induction es arbitrary: h)
  case (Cons e es)
  with Cons.IH [of "mission_step e h"] mission_step_inv [OF Cons.prems, of e] show ?case by auto
qed simp

text \<open>C30. Whatever messages arrive and whenever the user resynchronises, every item stands at its own index, and each step of the
  handler asks the flight controller exactly for the count while it is not known and then for the first ten items without data. When
  the user never resynchronises while signals wait, the list on the screen has, once the waiting signals are delivered, one row
  per item with the item's coordinates, marked valid only if data for it has arrived. (\<open>resync_overtakes\<close> shows that
  the condition is needed.)\<close>

theorem mission_handler_consistent:
  assumes "h = fold mission_step es (mission_handler_new now)"
  shows "map mission_index (m_mission_items h) = map int [0..<length (m_mission_items h)]
    \<and> (m_has_mission_count h \<or> m_mission_items h = [])
    \<and> requests (mission_step e h) = requests h @ asked_for e h
    \<and> (resyncs_settled es (mission_handler_new now) \<longrightarrow> list_all2 shows_item (m_mission_items h) (screen h))"
proof -
  have "mission_inv h" "resyncs_settled es (mission_handler_new now) \<longrightarrow> screen_ok h"
    using mission_run_inv [OF mission_inv_new(1), of es now] mission_inv_new(2) [of now] by (simp_all add: assms)
  then show ?thesis using step_requests [of h e] by (auto simp: mission_inv_def screen_ok_def split: if_splits)
qed

definition sample_item :: "u16 \<Rightarrow> 32 word \<Rightarrow> mission_item_int" where
  "sample_item seq x = \<lparr>item_mission_type = MAV_MISSION_TYPE_MISSION, item_frame = MAV_FRAME_GLOBAL,
     item_x = x, item_y = 100000000, item_seq = seq\<rparr>"

definition sample_count :: mission_count where
  "sample_count = \<lparr>count_value = 2, count_mission_type = MAV_MISSION_TYPE_MISSION\<rparr>"

definition sample_events :: "mission_event list" where
  "sample_events = [Resync, Message (Mission_Count sample_count), Ui_Delivers, Message (Mission_Item_Int (sample_item 1 480000000))]"

text \<open>Two items, one of them with data: the other one is asked for, and the row of the first is valid.\<close>

theorem mission_handler_consistent_witness:
  "requests (mission_step (Fc_Active 5000000000 1 1) (fold mission_step sample_events (mission_handler_new 0))) = [Request_Mission_Item 1 1 0]
   \<and> list_all2 shows_item (m_mission_items (fold mission_step sample_events (mission_handler_new 0)))
       (screen (fold mission_step sample_events (mission_handler_new 0)))
   \<and> map valid (screen (fold mission_step sample_events (mission_handler_new 0))) = [False, True]"
proof -
  let ?h = "fold mission_step sample_events (mission_handler_new 0)"
  have "resyncs_settled sample_events (mission_handler_new 0)" by code_simp
  moreover have "requests ?h = []" "asked_for (Fc_Active 5000000000 1 1) ?h = [Request_Mission_Item 1 1 0]"
    "map valid (screen ?h) = [False, True]" by code_simp+
  ultimately show ?thesis
    using mission_handler_consistent [of ?h sample_events 0 "Fc_Active 5000000000 1 1"] by simp
qed

text \<open>The user resynchronises between the arrival of a count and the delivery of the signal it causes: the list is emptied first and filled
  afterwards, and shows rows for items the handler no longer has, until the next change of the count.\<close>

lemma resync_overtakes:
  "let h = fold mission_step [Message (Mission_Count sample_count), Resync, Ui_Delivers] (mission_handler_new 0)
   in m_mission_items h = [] \<and> ui_queue h = [] \<and> length (ui_list h) = 2"
  by code_simp

section \<open>Complete downloads\<close>

definition relevant :: "mission_item_int \<Rightarrow> bool" where
  "relevant m \<longleftrightarrow> item_mission_type m = MAV_MISSION_TYPE_MISSION \<and> global_frame (item_frame m)"

definition with_data :: "mission_item_int \<Rightarrow> m_item \<Rightarrow> m_item" where
  "with_data m i = i\<lparr>latitude := degrees_1e7 (item_x m), longitude := degrees_1e7 (item_y m), updated := True\<rparr>"

lemma update_mission_items:
  "m_mission_items (update_mission m h) =
     (if relevant m \<and> unat (item_seq m) < length (m_mission_items h)
      then (m_mission_items h)[unat (item_seq m) := with_data m (m_mission_items h ! unat (item_seq m))]
      else m_mission_items h)"
  by (auto simp: update_mission_def relevant_def with_data_def recalculate_missing_def p_update_def Let_def)

lemma update_mission_count_kept [simp]:
  "m_has_mission_count (update_mission m h) = m_has_mission_count h"
  by (auto simp: update_mission_def recalculate_missing_def p_update_def Let_def)

text \<open>The last relevant message of an item.\<close>

definition last_for :: "nat \<Rightarrow> mission_item_int list \<Rightarrow> mission_item_int option" where
  "last_for i ms = find (\<lambda>m. relevant m \<and> unat (item_seq m) = i) (rev ms)"

lemma fold_update_mission:
  "length (m_mission_items (fold update_mission ms h)) = length (m_mission_items h)
   \<and> m_has_mission_count (fold update_mission ms h) = m_has_mission_count h
   \<and> (\<forall>i < length (m_mission_items h). m_mission_items (fold update_mission ms h) ! i =
        (case last_for i ms of None \<Rightarrow> m_mission_items h ! i
         | Some m \<Rightarrow> with_data m (m_mission_items h ! i)))"
proof (induction ms rule: rev_induct)
  case (snoc m ms)
  then show ?case
    by (auto simp: update_mission_items last_for_def nth_list_update with_data_def split: option.splits)
qed (simp add: last_for_def)

lemma fold_update_mission_inv: "mission_inv h \<Longrightarrow> mission_inv (fold update_mission ms h)"
  by (induction ms arbitrary: h) (simp_all add: update_mission_inv)

text \<open>Once the count of a new mission and a message for each of its items have arrived, in any
  order, with repetitions and with messages of other missions in between, nothing is missing: the handler
  reports that it is done and every item has the coordinates of the last message for it.\<close>

theorem mission_download_completes:
  assumes "mission_reachable h" and "count_mission_type c = MAV_MISSION_TYPE_MISSION"
    and "unat (count_value c) \<noteq> length (m_mission_items h)"
    and "\<And>i. i < unat (count_value c) \<Longrightarrow> last_for i ms = Some (m i)"
    and "h' = fold update_mission ms (update_mission_count c h)"
  shows "m_missing_items h' = [] \<and> length (m_mission_items h') = unat (count_value c)
    \<and> current_status (opt_send_messages now sys cmp h') =
        ''Done, total:'' @ int_to_string (int (unat (count_value c)))
    \<and> map (\<lambda>i. (latitude i, longitude i)) (m_mission_items h') =
        map (\<lambda>i. (degrees_1e7 (item_x (m i)), degrees_1e7 (item_y (m i)))) [0..<unat (count_value c)]"
proof -
  let ?h = "update_mission_count c h" and ?n = "unat (count_value c)"
  have "mission_inv h" using assms(1) by (rule mission_reachable_inv)
  then have inv: "mission_inv h'"
    unfolding assms(5) by (intro fold_update_mission_inv update_mission_count_inv(1))
  have new: "length (m_mission_items ?h) = ?n" "m_has_mission_count ?h"
    using assms(2,3) by (cases rule: update_mission_count_cases [of c h]; simp)+
  have len: "length (m_mission_items h') = ?n" and counted: "m_has_mission_count h'"
    using fold_update_mission [of ms ?h] new by (simp_all add: assms(5))
  have item: "m_mission_items h' ! i = with_data (m i) (m_mission_items ?h ! i)" if "i < ?n" for i
    using fold_update_mission [of ms ?h] new assms(4) [OF that] that by (simp add: assms(5))
  have "list_all updated (m_mission_items h')"
    by (simp add: list_all_length len item with_data_def)
  then have "filter (\<lambda>i. \<not> updated i) (m_mission_items h') = []"
    by (simp add: filter_empty_conv list_all_iff)
  then have missing: "m_missing_items h' = []"
    using inv by (simp add: mission_inv_def)
  have "map (\<lambda>i. (latitude i, longitude i)) (m_mission_items h') =
      map (\<lambda>i. (degrees_1e7 (item_x (m i)), degrees_1e7 (item_y (m i)))) [0..<?n]"
    by (rule nth_equalityI) (simp_all add: len item with_data_def)
  then show ?thesis using missing len counted by (simp add: opt_send_messages_def)
qed

theorem mission_download_completes_witness:
  "m_missing_items (fold update_mission [sample_item 1 5, sample_item 0 7, sample_item 1 9]
     (update_mission_count sample_count (mission_handler_new 0))) = []"
proof -
  let ?ms = "[sample_item 1 5, sample_item 0 7, sample_item 1 9]"
  have last: "last_for i ?ms = Some (if i = 0 then sample_item 0 7 else sample_item 1 9)"
    if "i < unat (count_value sample_count)" for i
    using that
    by (auto simp: last_for_def relevant_def sample_item_def sample_count_def global_frame_def less_2_cases_iff)
  have count: "count_mission_type sample_count = MAV_MISSION_TYPE_MISSION"
    "unat (count_value sample_count) \<noteq> length (m_mission_items (mission_handler_new 0))"
    by (simp_all add: sample_count_def mission_handler_new_def)
  show ?thesis
    by (rule mission_download_completes [OF mission_reachable.start count last refl, THEN conjunct1])
qed

text \<open>A mission replaced by another one of the same size is never fetched: its count changes nothing
  once the old mission is complete, no item is asked for again, and the old coordinates stay on the
  screen until the user resynchronises.\<close>

theorem mission_same_size_stale:
  assumes "m_has_mission_count h" and "m_missing_items h = []"
    and "unat (count_value c) = length (m_mission_items h)"
  shows "m_mission_items (update_mission_count c h) = m_mission_items h
    \<and> ui_list (update_mission_count c h) = ui_list h \<and> ui_queue (update_mission_count c h) = ui_queue h
    \<and> requests (opt_send_messages now sys cmp (update_mission_count c h)) = requests h"
  using assms by (simp add: update_mission_count_def opt_send_messages_def Let_def)

definition complete_mission :: mission_handler where
  "complete_mission = (mission_handler_new 0)\<lparr>m_has_mission_count := True,
     m_mission_items := [\<lparr>mission_index = 0, latitude = 48, longitude = 10, altitude_meter = 0, updated = True\<rparr>,
       \<lparr>mission_index = 1, latitude = 49, longitude = 10, altitude_meter = 0, updated = True\<rparr>]\<rparr>"

theorem mission_same_size_stale_witness:
  "requests (opt_send_messages 5000000000 1 1 (update_mission_count sample_count complete_mission)) = []"
proof -
  have "m_has_mission_count complete_mission" "m_missing_items complete_mission = []"
    "unat (count_value sample_count) = length (m_mission_items complete_mission)" "requests complete_mission = []"
    by (simp_all add: complete_mission_def sample_count_def mission_handler_new_def)
  then show ?thesis using mission_same_size_stale [of complete_mission sample_count 5000000000 1 1] by simp
qed

end
