(* ===== verification/Pollution.thy ===== *)
theory Pollution
  imports Prelude Decimal
begin

text \<open>
  The results of a channel analysis (\<open>app/telemetry/settings/pollutionhelper.cpp\<close>): how many foreign
  packets were seen on each frequency, and the same as a percentage of the busiest one. The map is
  guarded by a mutex, so every operation is atomic. A member that is never assigned is \<open>None\<close>.

  The counts come from 16 bit fields, so that the product of \<open>normalize\<close> stays within \<open>int\<close>
  (\<open>normalize_no_overflow\<close>) and the model can use unbounded integers.
\<close>

record pollution_element =
  frequency_mhz :: int
  width_mhz :: "int option"
  n_foreign_packets :: int
  n_foreign_packets_normalized :: "int option"

type_synonym pollution = "int \<rightharpoonup> pollution_element"

definition max_foreign :: "pollution_element list \<Rightarrow> int" where
  "max_foreign values = fold (\<lambda>v m. max m (n_foreign_packets v)) values 0"

definition normalize :: "pollution_element list \<Rightarrow> pollution_element list" where
  "normalize values =
     (let m = max_foreign values in
      if m = 0 then values
      else map (\<lambda>v. v\<lparr>n_foreign_packets_normalized := Some (n_foreign_packets v * 100 div m)\<rparr>) values)"

definition pollution_update :: "pollution_element list \<Rightarrow> pollution \<Rightarrow> pollution" where
  "pollution_update values p =
     fold (\<lambda>v m. m(frequency_mhz v \<mapsto> v)) (normalize values) Map.empty"

definition get_pollution_for_frequency :: "int \<Rightarrow> pollution \<Rightarrow> pollution_element option" where
  "get_pollution_for_frequency f p = p f"

definition pollution_frequencies_int_to_qstringlist :: "int list \<Rightarrow> pollution \<Rightarrow> string list" where
  "pollution_frequencies_int_to_qstringlist frequencies p =
     map (\<lambda>f. if get_pollution_for_frequency f p \<noteq> None then int_to_string f @ ''Mhz'' else '' '') frequencies"

definition pollution_frequencies_int_get_pollution ::
  "int list \<Rightarrow> bool \<Rightarrow> pollution \<Rightarrow> int option list" where
  "pollution_frequencies_int_get_pollution frequencies normalized p =
     map (\<lambda>f. case get_pollution_for_frequency f p of
                None \<Rightarrow> Some 0
              | Some e \<Rightarrow> if normalized then n_foreign_packets_normalized e
                          else Some (n_foreign_packets e)) frequencies"

definition pollution_get_last_scan_pollution_for_frequency :: "int \<Rightarrow> pollution \<Rightarrow> int" where
  "pollution_get_last_scan_pollution_for_frequency f p =
     (case get_pollution_for_frequency f p of Some e \<Rightarrow> n_foreign_packets e | None \<Rightarrow> -1)"

section \<open>Lemmas\<close>

lemma fold_max_foreign:
  "fold (\<lambda>v m. max m (n_foreign_packets v)) vs k = Max (insert k (n_foreign_packets ` set vs))"
proof (induction vs arbitrary: k)
  case (Cons v vs)
  have "insert (max k (n_foreign_packets v)) (n_foreign_packets ` set vs) \<noteq> {}" by simp
  then show ?case
    by (simp add: Cons.IH insert_commute) (cases vs; simp add: max.commute max.left_commute max.assoc)
qed simp

lemma max_foreign_Max: "max_foreign vs = Max (insert 0 (n_foreign_packets ` set vs))"
  by (simp add: max_foreign_def fold_max_foreign)

lemma max_foreign_nonneg: "0 \<le> max_foreign vs"
  by (simp add: max_foreign_Max)

lemma max_foreign_upper: "v \<in> set vs \<Longrightarrow> n_foreign_packets v \<le> max_foreign vs"
  by (simp add: max_foreign_Max)

lemma max_foreign_attained: "0 < max_foreign vs \<Longrightarrow> \<exists>v\<in>set vs. n_foreign_packets v = max_foreign vs"
  using Max_in [of "insert 0 (n_foreign_packets ` set vs)"] by (auto simp: max_foreign_Max)

lemma normalize_no_overflow:
  "n_foreign_packets v < 2 ^ 16 \<Longrightarrow> 0 \<le> n_foreign_packets v \<Longrightarrow>
     0 \<le> n_foreign_packets v * 100 \<and> n_foreign_packets v * 100 < 2 ^ 31"
  by simp

lemma normalize_keys [simp]: "map frequency_mhz (normalize vs) = map frequency_mhz vs"
  by (simp add: normalize_def Let_def comp_def)

lemma fold_update_other:
  "k \<notin> key ` set vs \<Longrightarrow> fold (\<lambda>v m. m(key v \<mapsto> v)) vs m k = m k"
  by (induction vs arbitrary: m) auto

lemma fold_update_distinct:
  "distinct (map key vs) \<Longrightarrow> v \<in> set vs \<Longrightarrow> fold (\<lambda>v m. m(key v \<mapsto> v)) vs m (key v) = Some v"
proof (induction vs arbitrary: m)
  case (Cons w vs)
  show ?case
  proof (cases "v = w")
    case True
    then show ?thesis
      using Cons.prems fold_update_other [of "key w" key vs "m(key w \<mapsto> w)"] by (simp add: fun_upd_def)
  next
    case False
    then show ?thesis using Cons by simp
  qed
qed simp

lemma pollution_update_lookup:
  assumes "distinct (map frequency_mhz vs)" and "v \<in> set vs"
  shows "pollution_update vs p (frequency_mhz v) =
    Some (if max_foreign vs = 0 then v
          else v\<lparr>n_foreign_packets_normalized := Some (n_foreign_packets v * 100 div max_foreign vs)\<rparr>)"
    (is "_ = Some ?w")
proof -
  have "?w \<in> set (normalize vs)" using assms(2) by (auto simp: normalize_def Let_def)
  moreover have "distinct (map frequency_mhz (normalize vs))" using assms(1) by simp
  ultimately show ?thesis
    using fold_update_distinct [of frequency_mhz "normalize vs" ?w Map.empty]
    by (auto simp: pollution_update_def split: if_splits)
qed

lemma percent_bounds:
  "0 \<le> n \<Longrightarrow> n \<le> (m::int) \<Longrightarrow> 0 < m \<Longrightarrow> 0 \<le> n * 100 div m \<and> n * 100 div m \<le> 100"
  by (metis mult.commute nonzero_mult_div_cancel_right order.strict_iff_order pos_imp_zdiv_nonneg_iff
      zdiv_mono1 mult_left_mono mult_nonneg_nonneg zero_le_numeral)

end
