(* ===== verification/Wifi_Frequency.thy ===== *)
theory Wifi_Frequency
  imports Prelude Decimal
begin

text \<open>
  Wifi channels: the channel table and its queries (\<open>app/telemetry/settings/wifi_channel.h\<close>) and what
  the user interface asks about frequencies (\<open>app/telemetry/settings/frequencyhelper.cpp\<close>). A query
  that dereferences an empty optional is a fault.
\<close>

section \<open>The channel table\<close>

datatype wifi_space = G2_4 | G5_8

record wifi_channel =
  frequency :: "32 word"
  channel :: int
  space :: wifi_space
  is_standard :: bool
  is_legal_at_least_one_country :: bool
  is_legal_any_country_40Mhz :: bool
  in_40Mhz_ht40_plus :: bool

definition WifiChannel ::
  "32 word \<Rightarrow> int \<Rightarrow> wifi_space \<Rightarrow> bool \<Rightarrow> bool \<Rightarrow> bool \<Rightarrow> bool \<Rightarrow> wifi_channel" where
  "WifiChannel f c s standard legal legal40 ht40 =
     \<lparr>frequency = f, channel = c, space = s, is_standard = standard,
      is_legal_at_least_one_country = legal, is_legal_any_country_40Mhz = legal40,
      in_40Mhz_ht40_plus = ht40\<rparr>"

definition channel_to_string :: "wifi_channel \<Rightarrow> string" where
  "channel_to_string c =
     int_to_string (sint (frequency c)) @ ''Mhz ['' @ int_to_string (channel c) @ ''] '' @
     (if space c = G2_4 then ''2.4G'' else ''5.8G'') @ (if is_standard c then [] else ''nonstandard'')"

definition get_channels_2G :: "wifi_channel list" where
  "get_channels_2G =
    [WifiChannel 2312 (-1) G2_4 False False False False,
     WifiChannel 2332 (-1) G2_4 False False False False,
     WifiChannel 2352 (-1) G2_4 False False False False,
     WifiChannel 2372 (-1) G2_4 False False False False,
     WifiChannel 2392 (-1) G2_4 False False False False,
     WifiChannel 2412 1 G2_4 True True True True,
     WifiChannel 2432 5 G2_4 True True True False,
     WifiChannel 2452 9 G2_4 True True True True,
     WifiChannel 2472 13 G2_4 True True True False,
     WifiChannel 2484 14 G2_4 True True False False,
     WifiChannel 2492 (-1) G2_4 False False False False,
     WifiChannel 2512 (-1) G2_4 False False False False,
     WifiChannel 2612 (-1) G2_4 False False False False,
     WifiChannel 2692 (-1) G2_4 False False False False,
     WifiChannel 2712 (-1) G2_4 False False False False]"

definition get_channels_5G :: "wifi_channel list" where
  "get_channels_5G =
    [WifiChannel 5080 16 G5_8 True True True True,
     WifiChannel 5100 20 G5_8 True True True True,
     WifiChannel 5120 24 G5_8 True True True True,
     WifiChannel 5140 28 G5_8 True True True True,
     WifiChannel 5160 32 G5_8 True True True True,
     WifiChannel 5180 36 G5_8 True True True True,
     WifiChannel 5200 40 G5_8 True True True False,
     WifiChannel 5220 44 G5_8 True True True True,
     WifiChannel 5240 48 G5_8 True True True False,
     WifiChannel 5260 52 G5_8 True True True True,
     WifiChannel 5280 56 G5_8 True True True False,
     WifiChannel 5300 60 G5_8 True True True True,
     WifiChannel 5320 64 G5_8 True True True False,
     WifiChannel 5340 68 G5_8 True False False False,
     WifiChannel 5360 72 G5_8 True False False False,
     WifiChannel 5380 76 G5_8 True False False False,
     WifiChannel 5400 80 G5_8 True False False False,
     WifiChannel 5420 84 G5_8 True False False False,
     WifiChannel 5440 88 G5_8 True False False False,
     WifiChannel 5460 92 G5_8 True False False False,
     WifiChannel 5480 96 G5_8 True False False False,
     WifiChannel 5500 100 G5_8 True True True True,
     WifiChannel 5520 104 G5_8 True True True False,
     WifiChannel 5540 108 G5_8 True True True True,
     WifiChannel 5560 112 G5_8 True True True False,
     WifiChannel 5580 116 G5_8 True True True True,
     WifiChannel 5600 120 G5_8 True True True False,
     WifiChannel 5620 124 G5_8 True True True True,
     WifiChannel 5640 128 G5_8 True True True False,
     WifiChannel 5660 132 G5_8 True True True True,
     WifiChannel 5680 136 G5_8 True True True False,
     WifiChannel 5700 140 G5_8 True True True True,
     WifiChannel 5720 144 G5_8 True True True False,
     WifiChannel 5745 149 G5_8 True True True True,
     WifiChannel 5765 153 G5_8 True True True False,
     WifiChannel 5785 157 G5_8 True True True True,
     WifiChannel 5805 161 G5_8 True True True False,
     WifiChannel 5825 165 G5_8 True True True True,
     WifiChannel 5845 169 G5_8 True True True False,
     WifiChannel 5865 173 G5_8 True True True True,
     WifiChannel 5885 177 G5_8 True True True False,
     WifiChannel 5905 181 G5_8 True True True True,
     WifiChannel 5925 185 G5_8 True True True True,
     WifiChannel 5945 189 G5_8 True True True True,
     WifiChannel 5965 193 G5_8 True True True True,
     WifiChannel 5985 197 G5_8 True True True True,
     WifiChannel 6005 201 G5_8 True True True True,
     WifiChannel 6025 205 G5_8 True True True True,
     WifiChannel 6045 209 G5_8 True True True True,
     WifiChannel 6065 213 G5_8 True True True True]"

definition get_channels_5G_legal_at_least_one_country :: "wifi_channel list" where
  "get_channels_5G_legal_at_least_one_country = filter is_legal_at_least_one_country get_channels_5G"

definition get_channels_2G_legal_at_least_one_country :: "wifi_channel list" where
  "get_channels_2G_legal_at_least_one_country = filter is_legal_at_least_one_country get_channels_2G"

definition get_all_channels_2G_5G :: "wifi_channel list" where
  "get_all_channels_2G_5G = get_channels_2G @ get_channels_5G"

definition get_all_channel_frequencies :: "wifi_channel list \<Rightarrow> 32 word list" where
  "get_all_channel_frequencies channels = map frequency channels"

definition channel_from_frequency :: "32 word \<Rightarrow> wifi_channel option" where
  "channel_from_frequency f = find (\<lambda>c. frequency c = f) get_all_channels_2G_5G"

definition get_space_from_frequency :: "32 word \<Rightarrow> wifi_space" where
  "get_space_from_frequency f =
     (case channel_from_frequency f of None \<Rightarrow> G5_8 | Some c \<Rightarrow> space c)"

definition frequencies_to_channels :: "32 word list \<Rightarrow> wifi_channel list" where
  "frequencies_to_channels frequencies = List.map_filter channel_from_frequency frequencies"

definition get_openhd_channels_1_to_7 :: "wifi_channel list" where
  "get_openhd_channels_1_to_7 =
     frequencies_to_channels [5700, 5745, 5785, 5825, 5865, 5260, 5280]"

definition get_openhd_channels_licensed :: "wifi_channel list" where
  "get_openhd_channels_licensed =
     frequencies_to_channels
       [5080, 5100, 5120, 5140, 5160, 5905, 5925, 5945, 5965, 5985, 6005, 6025, 6045, 6065, 6085]"

definition filter_ht40plus_only :: "32 word list \<Rightarrow> wifi_channel list" where
  "filter_ht40plus_only frequencies =
     filter in_40Mhz_ht40_plus (List.map_filter channel_from_frequency frequencies)"

section \<open>Queries of the user interface\<close>

text \<open>Frequencies are \<open>int\<close> here and unsigned in the table.\<close>

definition get_frequencies :: "int \<Rightarrow> int list" where
  "get_frequencies flt =
     (if flt = 0 then map (sint \<circ> frequency) get_openhd_channels_1_to_7
      else if flt = 3 then map (sint \<circ> frequency) get_openhd_channels_licensed
      else map (sint \<circ> frequency)
        (filter (\<lambda>c. is_legal_at_least_one_country c \<and>
           (if flt = 1 then frequency c < 3000 else 5180 \<le> frequency c \<and> frequency c \<le> 5865))
         get_all_channels_2G_5G))"

definition filter_frequencies_40mhz_ht40plus_only :: "int list \<Rightarrow> int list" where
  "filter_frequencies_40mhz_ht40plus_only frequencies =
     map (sint \<circ> frequency)
       (filter in_40Mhz_ht40_plus (frequencies_to_channels (map word_of_int frequencies)))"

definition get_frequencies_all_40Mhz :: "int list" where
  "get_frequencies_all_40Mhz =
     map (sint \<circ> frequency)
       (filter (\<lambda>c. if space c = G2_4 then is_legal_at_least_one_country c
                    else is_legal_at_least_one_country c \<and> in_40Mhz_ht40_plus c)
        get_all_channels_2G_5G)"

definition get_frequency_radar :: "int \<Rightarrow> bool" where
  "get_frequency_radar frequency_mhz \<longleftrightarrow> 5260 \<le> frequency_mhz \<and> frequency_mhz \<le> 5680"

definition get_frequency_openhd_race_band :: "int \<Rightarrow> int" where
  "get_frequency_openhd_race_band frequency_mhz =
     (if frequency_mhz = 5700 then 1
      else if frequency_mhz = 5745 then 2
      else if frequency_mhz = 5785 then 3
      else if frequency_mhz = 5825 then 4
      else if frequency_mhz = 5865 then 5
      else if frequency_mhz = 5260 then 6
      else if frequency_mhz = 5280 then 7
      else -1)"

definition get_frequency_openhd_licensed_band :: "int \<Rightarrow> int" where
  "get_frequency_openhd_licensed_band frequency_mhz =
     (if frequency_mhz = 5080 then 1
      else if frequency_mhz = 5100 then 2
      else if frequency_mhz = 5120 then 3
      else if frequency_mhz = 5140 then 4
      else if frequency_mhz = 5160 then 5
      else if frequency_mhz = 5905 then 6
      else if frequency_mhz = 5925 then 7
      else if frequency_mhz = 5945 then 8
      else if frequency_mhz = 5965 then 9
      else if frequency_mhz = 5985 then 10
      else if frequency_mhz = 6005 then 11
      else if frequency_mhz = 6025 then 12
      else if frequency_mhz = 6045 then 13
      else if frequency_mhz = 6065 then 14
      else if frequency_mhz = 6085 then 15
      else -1)"

definition get_frequency_channel_nr :: "int \<Rightarrow> int" where
  "get_frequency_channel_nr frequency_mhz =
     (case channel_from_frequency (word_of_int frequency_mhz) of Some c \<Rightarrow> channel c | None \<Rightarrow> -1)"

definition spaced_string :: "int \<Rightarrow> string" where
  "spaced_string number =
     (if number < 100 then '' '' else []) @ (if number < 10 then '' '' else []) @ int_to_string number"

definition get_frequency_description :: "int \<Rightarrow> string result" where
  "get_frequency_description frequency_mhz =
     (case channel_from_frequency (word_of_int frequency_mhz) of
        None \<Rightarrow> Inl Bad_Optional
      | Some c \<Rightarrow> Inr (''['' @ spaced_string (channel c) @ ''] '' @ int_to_string frequency_mhz @ ''Mhz ''))"

definition filter_frequencies :: "int list \<Rightarrow> int \<Rightarrow> int list" where
  "filter_frequencies frequencies filter_level =
     filter (\<lambda>e. if filter_level = 2 then e > 3000 else if filter_level = 1 then e < 3000 else True)
       frequencies"

text \<open>The frequencies the ground unit supports, as last reported.\<close>

type_synonym supported_channels = "16 word list"

definition set_hw_supported_frequencies :: "16 word list \<Rightarrow> supported_channels \<Rightarrow> supported_channels \<times> bool" where
  "set_hw_supported_frequencies new old = (if old \<noteq> new then (new, True) else (old, False))"

definition has_valid_supported_frequencies_data :: "supported_channels \<Rightarrow> bool" where
  "has_valid_supported_frequencies_data s \<longleftrightarrow> s \<noteq> []"

definition hw_supports_frequency :: "int \<Rightarrow> supported_channels \<Rightarrow> bool" where
  "hw_supports_frequency frequency_mhz s \<longleftrightarrow> list_ex (\<lambda>f. uint f = frequency_mhz) s"

section \<open>The table is a function of the frequency\<close>

lemma channel_frequencies_distinct: "distinct (map frequency get_all_channels_2G_5G)"
  by (simp add: get_all_channels_2G_5G_def get_channels_2G_def get_channels_5G_def WifiChannel_def)

text \<open>A frequency names at most one channel, so the program can use frequencies for channels
  throughout: looking up a frequency gives a channel exactly when that channel is in the table under this frequency.\<close>

theorem channel_from_frequency_iff:
  "channel_from_frequency f = Some c \<longleftrightarrow> c \<in> set get_all_channels_2G_5G \<and> frequency c = f"
  unfolding channel_from_frequency_def by (rule find_key_distinct [OF channel_frequencies_distinct])

section \<open>Frequencies on offer\<close>

definition known_legal :: "int \<Rightarrow> bool" where
  "known_legal f =
     (case channel_from_frequency (word_of_int f) of
        None \<Rightarrow> False | Some c \<Rightarrow> is_legal_at_least_one_country c)"

lemma known_legal_channel:
  "c \<in> set get_all_channels_2G_5G \<Longrightarrow> is_legal_at_least_one_country c \<Longrightarrow> known_legal (sint (frequency c))"
  using channel_from_frequency_iff [of "frequency c" c] by (simp add: known_legal_def)

lemma offered_1_to_7: "get_frequencies 0 = [5700, 5745, 5785, 5825, 5865, 5260, 5280]"
  by code_simp

lemma offered_licensed:
  "get_frequencies 3 = [5080, 5100, 5120, 5140, 5160, 5905, 5925, 5945, 5965, 5985, 6005, 6025, 6045, 6065]"
  by code_simp

lemma offered_by_table:
  "flt \<noteq> 0 \<Longrightarrow> flt \<noteq> 3 \<Longrightarrow> f \<in> set (get_frequencies flt) \<Longrightarrow>
     \<exists>c. c \<in> set get_all_channels_2G_5G \<and> is_legal_at_least_one_country c \<and> f = sint (frequency c) \<and>
       (if flt = 1 then frequency c < 3000 else 5180 \<le> frequency c \<and> frequency c \<le> 5865)"
  by (auto simp: get_frequencies_def split: if_splits)

lemma distinct_filter_frequencies:
  "distinct (map (sint \<circ> frequency) (filter P get_all_channels_2G_5G))"
proof -
  have "distinct (map frequency (filter P get_all_channels_2G_5G))"
    by (rule distinct_map_filter [OF channel_frequencies_distinct])
  moreover have "inj_on (sint :: 32 word \<Rightarrow> int) A" for A
    by (rule inj_on_inverseI [where g = word_of_int]) simp
  ultimately have "distinct (map sint (map frequency (filter P get_all_channels_2G_5G)))"
    by (simp only: distinct_map [of sint])
  then show ?thesis by simp
qed

text \<open>Whatever filter the user chooses, every frequency offered is that of a channel which is legal
  in at least one country, and none is offered twice; the bands on offer are numbered from one in
  the order of the menus.\<close>

theorem offered_frequencies:
  "list_all known_legal (get_frequencies flt) \<and> distinct (get_frequencies flt)
   \<and> map get_frequency_openhd_race_band (get_frequencies 0) = [1..7]
   \<and> map get_frequency_openhd_licensed_band (get_frequencies 3) = [1..14]"
proof -
  have "list_all known_legal (get_frequencies 0)" "list_all known_legal (get_frequencies 3)"
    unfolding offered_1_to_7 offered_licensed by code_simp+
  moreover have "list_all known_legal (get_frequencies flt)" if "flt \<noteq> 0" "flt \<noteq> 3"
    using offered_by_table [OF that] known_legal_channel by (fastforce simp: list_all_iff)
  moreover have "distinct (get_frequencies flt)" if "flt \<noteq> 0" "flt \<noteq> 3"
    using that distinct_filter_frequencies by (simp add: get_frequencies_def)
  moreover have "distinct (get_frequencies 0)" "distinct (get_frequencies 3)"
    unfolding offered_1_to_7 offered_licensed by simp_all
  moreover have "map get_frequency_openhd_race_band (get_frequencies 0) = [1..7]"
    unfolding offered_1_to_7 by code_simp
  moreover have "map get_frequency_openhd_licensed_band (get_frequencies 3) = [1..14]"
    unfolding offered_licensed by code_simp
  ultimately show ?thesis by (cases "flt = 0"; cases "flt = 3"; simp)
qed

text \<open>The last licensed band has a number but no channel: it is never offered, and describing it
  reads an empty optional.\<close>

lemma licensed_band_without_channel:
  "get_frequency_openhd_licensed_band 6085 = 15" "get_frequency_description 6085 = Inl Bad_Optional"
  "6085 \<notin> set (get_frequencies 3)"
proof -
  show "get_frequency_openhd_licensed_band 6085 = 15" "get_frequency_description 6085 = Inl Bad_Optional"
    by code_simp+
  show "6085 \<notin> set (get_frequencies 3)"
    unfolding offered_licensed by simp
qed

text \<open>Among the frequencies offered for 40 MHz is one on which 40 MHz is not legal in any country.\<close>

lemma forty_mhz_not_legal:
  "2484 \<in> set get_frequencies_all_40Mhz"
  "map_option is_legal_any_country_40Mhz (channel_from_frequency 2484) = Some False"
  by code_simp+

end
