(* ===== verification/Wb_Link.thy ===== *)
theory Wb_Link
  imports Pollution Wifi_Frequency Xparam
begin

text \<open>
  The link settings (\<open>app/telemetry/settings/wblinksettingshelper.h\<close> and \<open>.cpp\<close>): what the ground unit
  reports about channel, width, supported frequencies and channel scans, when the user interface is
  told to rebuild its choices, and how link parameters are changed.

  The state holds the properties of the class together with the data of \<open>FrequencyHelper\<close> and
  \<open>PollutionHelper\<close> it writes and the messages it puts on the screen. The counter
  \<open>ui_rebuild_models\<close> is unbounded here; as an \<open>int\<close> it would need \<open>2^31\<close> signals to overflow. Message
  fields are those of the OpenHD dialect of MAVLink.
\<close>

section \<open>State and messages\<close>

datatype hud_level = Hud_Info | Hud_Warning

record wb_link =
  curr_channel_mhz :: int
  curr_channel_width_mhz :: int
  curr_air_channel_width_mhz :: int
  ui_rebuild_models :: int
  scanning_text_for_ui :: string
  scan_progress_perc :: int
  analyze_progress_perc :: int
  current_analyze_frequency :: int
  supported :: supported_channels
  pollution_elements :: pollution
  hud :: "(hud_level \<times> string) list"

definition wb_link_new :: wb_link where
  "wb_link_new = \<lparr>curr_channel_mhz = -1, curr_channel_width_mhz = -1, curr_air_channel_width_mhz = -1,
     ui_rebuild_models = 0, scanning_text_for_ui = [], scan_progress_perc = 0,
     analyze_progress_perc = 0, current_analyze_frequency = -1, supported = [],
     pollution_elements = Map.empty, hud = []\<rparr>"

record analyze_progress =
  channels_mhz :: "u16 list"
  foreign_packets :: "u16 list"
  analyze_perc :: int

record scan_progress =
  scan_channel_mhz :: int
  scan_channel_width_mhz :: int
  scan_success :: bool
  scan_perc :: int

definition add_message_info :: "string \<Rightarrow> wb_link \<Rightarrow> wb_link" where
  "add_message_info m s = s\<lparr>hud := hud s @ [(Hud_Info, m)]\<rparr>"

section \<open>Reports of the ground unit\<close>

definition signal_ui_rebuild_model_when_possible :: "wb_link \<Rightarrow> wb_link" where
  "signal_ui_rebuild_model_when_possible s =
     (if curr_channel_mhz s > 0 \<and> curr_channel_width_mhz s > 0 \<and>
         has_valid_supported_frequencies_data (supported s)
      then s\<lparr>ui_rebuild_models := ui_rebuild_models s + 1\<rparr> else s)"

definition validate_and_set_gnd_channel_mhz :: "int \<Rightarrow> wb_link \<Rightarrow> wb_link" where
  "validate_and_set_gnd_channel_mhz channel_mhz s =
     (if channel_mhz \<le> 1000 \<or> channel_mhz \<ge> 8000 then s
      else if curr_channel_mhz s \<noteq> channel_mhz
      then signal_ui_rebuild_model_when_possible (s\<lparr>curr_channel_mhz := channel_mhz\<rparr>)
      else s)"

definition valid_width :: "int \<Rightarrow> bool" where
  "valid_width w \<longleftrightarrow> w = 10 \<or> w = 20 \<or> w = 40 \<or> w = 80"

definition validate_and_set_gnd_channel_width_mhz :: "int \<Rightarrow> wb_link \<Rightarrow> wb_link" where
  "validate_and_set_gnd_channel_width_mhz w s =
     (if \<not> valid_width w then s
      else if curr_channel_width_mhz s \<noteq> w
      then signal_ui_rebuild_model_when_possible (s\<lparr>curr_channel_width_mhz := w\<rparr>)
      else s)"

definition validate_and_set_air_channel_width_mhz :: "int \<Rightarrow> wb_link \<Rightarrow> wb_link" where
  "validate_and_set_air_channel_width_mhz w s =
     (if \<not> valid_width w then s else s\<lparr>curr_air_channel_width_mhz := w\<rparr>)"

definition process_supported_channels :: "u16 list \<Rightarrow> wb_link \<Rightarrow> wb_link" where
  "process_supported_channels msg_channels s =
     (let channels = takeWhile (\<lambda>c. c \<noteq> 0) (take 60 msg_channels) in
      if channels = [] then s
      else let (sup, changed) = set_hw_supported_frequencies channels (supported s);
               s1 = s\<lparr>supported := sup\<rparr>
           in if changed then signal_ui_rebuild_model_when_possible s1 else s1)"

definition analyzed_channels :: "analyze_progress \<Rightarrow> pollution_element list" where
  "analyzed_channels msg =
     map (\<lambda>(c, n). \<lparr>frequency_mhz = uint c, width_mhz = None, n_foreign_packets = uint n,
                    n_foreign_packets_normalized = None\<rparr>)
       (takeWhile (\<lambda>(c, n). c \<noteq> 0) (take 30 (zip (channels_mhz msg) (foreign_packets msg))))"

definition process_analyze_channels_progress :: "analyze_progress \<Rightarrow> wb_link \<Rightarrow> wb_link" where
  "process_analyze_channels_progress msg s =
     (let analyzed = analyzed_channels msg in
      if analyzed = [] then s
      else
        let curr = frequency_mhz (last analyzed);
            s1 = add_message_info (''Analyzed '' @ int_to_string curr @ ''@'' @ int_to_string 40 @
                   '' Progress:'' @ int_to_string (analyze_perc msg) @ ''%'') s;
            s2 = (if analyze_perc msg \<ge> 100 then s1\<lparr>current_analyze_frequency := -1\<rparr>
                  else s1\<lparr>current_analyze_frequency := curr\<rparr>);
            s3 = s2\<lparr>pollution_elements := pollution_update analyzed (pollution_elements s2)\<rparr>;
            s4 = s3\<lparr>analyze_progress_perc := analyze_perc msg\<rparr>
        in signal_ui_rebuild_model_when_possible s4)"

definition channel_at_width :: "scan_progress \<Rightarrow> string" where
  "channel_at_width msg =
     int_to_string (scan_channel_mhz msg) @ ''@'' @ int_to_string (scan_channel_width_mhz msg)"

definition process_scan_channels_progress :: "scan_progress \<Rightarrow> wb_link \<Rightarrow> wb_link" where
  "process_scan_channels_progress msg s =
     (let s1 = add_message_info (''Scanned '' @ channel_at_width msg @ '' Progress:'' @
                 int_to_string (scan_perc msg) @ ''%'' @
                 (if scan_success msg then ''-SUCCESS'' else ''-NOT FOUND'')) s;
          t = (if scan_perc msg = 100
               then if scan_success msg then ''Found air unit '' @ channel_at_width msg
                    else ''No air unit found''
               else ''Scanning '' @ channel_at_width msg)
      in s1\<lparr>scanning_text_for_ui := t, scan_progress_perc := scan_perc msg\<rparr>)"

text \<open>Starting a scan: the answer to the command of \<open>OHDAction\<close> is given.\<close>

definition start_analyze_channels :: "bool \<Rightarrow> wb_link \<Rightarrow> wb_link \<times> bool" where
  "start_analyze_channels accepted s =
     (if accepted then (s\<lparr>analyze_progress_perc := 0\<rparr>, True) else (s, False))"

definition start_scan_channels :: "bool \<Rightarrow> wb_link \<Rightarrow> wb_link \<times> bool" where
  "start_scan_channels accepted s =
     (if accepted then (s\<lparr>scan_progress_perc := 0, scanning_text_for_ui := ''SCANNING''\<rparr>, True)
      else (s, False))"

section \<open>The invariant of the reports\<close>

datatype link_event =
    Supported "u16 list"
  | Analyzed analyze_progress
  | Scanned scan_progress
  | Gnd_Channel int
  | Gnd_Width int
  | Air_Width int
  | Start_Analyze bool
  | Start_Scan bool

fun link_handle :: "link_event \<Rightarrow> wb_link \<Rightarrow> wb_link" where
  "link_handle (Supported cs) s = process_supported_channels cs s"
| "link_handle (Analyzed m) s = process_analyze_channels_progress m s"
| "link_handle (Scanned m) s = process_scan_channels_progress m s"
| "link_handle (Gnd_Channel c) s = validate_and_set_gnd_channel_mhz c s"
| "link_handle (Gnd_Width w) s = validate_and_set_gnd_channel_width_mhz w s"
| "link_handle (Air_Width w) s = validate_and_set_air_channel_width_mhz w s"
| "link_handle (Start_Analyze a) s = fst (start_analyze_channels a s)"
| "link_handle (Start_Scan a) s = fst (start_scan_channels a s)"

inductive link_reachable :: "wb_link \<Rightarrow> bool" where
  initial: "link_reachable wb_link_new"
| handled: "link_reachable s \<Longrightarrow> link_reachable (link_handle e s)"

definition link_ready :: "wb_link \<Rightarrow> bool" where
  "link_ready s \<longleftrightarrow> curr_channel_mhz s > 0 \<and> curr_channel_width_mhz s > 0 \<and> supported s \<noteq> []"

definition link_values_valid :: "wb_link \<Rightarrow> bool" where
  "link_values_valid s \<longleftrightarrow>
     (curr_channel_mhz s = -1 \<or> 1000 < curr_channel_mhz s \<and> curr_channel_mhz s < 8000)
     \<and> (curr_channel_width_mhz s = -1 \<or> valid_width (curr_channel_width_mhz s))
     \<and> (curr_air_channel_width_mhz s = -1 \<or> valid_width (curr_air_channel_width_mhz s))
     \<and> 0 \<notin> set (supported s) \<and> length (supported s) \<le> 60"

definition link_inv :: "wb_link \<Rightarrow> bool" where
  "link_inv s \<longleftrightarrow> link_values_valid s \<and> 0 \<le> ui_rebuild_models s
     \<and> (if ui_rebuild_models s = 0 then True else link_ready s)"

lemmas link_defs = signal_ui_rebuild_model_when_possible_def has_valid_supported_frequencies_data_def
  add_message_info_def Let_def

lemma link_inv_new: "link_inv wb_link_new"
  by (simp add: link_inv_def link_values_valid_def wb_link_new_def)

lemma signal_inv:
  "link_values_valid s \<Longrightarrow> 0 \<le> ui_rebuild_models s \<Longrightarrow> (if ui_rebuild_models s = 0 then True else link_ready s) \<Longrightarrow>
     link_inv (signal_ui_rebuild_model_when_possible s)"
  by (auto simp: link_inv_def link_values_valid_def link_ready_def link_defs)

lemma gnd_channel_inv: "link_inv s \<Longrightarrow> link_inv (validate_and_set_gnd_channel_mhz c s)"
  unfolding validate_and_set_gnd_channel_mhz_def
  by (auto intro!: signal_inv) (auto simp: link_inv_def link_values_valid_def link_ready_def split: if_splits)

lemma gnd_width_inv: "link_inv s \<Longrightarrow> link_inv (validate_and_set_gnd_channel_width_mhz w s)"
  unfolding validate_and_set_gnd_channel_width_mhz_def
  by (auto intro!: signal_inv)
    (auto simp: link_inv_def link_values_valid_def link_ready_def valid_width_def split: if_splits)

lemma supported_inv: "link_inv s \<Longrightarrow> link_inv (process_supported_channels cs s)"
proof -
  assume inv: "link_inv s"
  let ?cs = "takeWhile (\<lambda>c. c \<noteq> 0) (take 60 cs)"
  have "0 \<notin> set ?cs" by (auto dest: set_takeWhileD)
  moreover have "length ?cs \<le> 60"
    using length_takeWhile_le [of "\<lambda>c. c \<noteq> 0" "take 60 cs"] by simp
  ultimately show ?thesis
    using inv unfolding process_supported_channels_def set_hw_supported_frequencies_def Let_def
    by (auto intro!: signal_inv) (auto simp: link_inv_def link_values_valid_def link_ready_def split: if_splits)
qed

lemma analyze_inv: "link_inv s \<Longrightarrow> link_inv (process_analyze_channels_progress m s)"
  unfolding process_analyze_channels_progress_def Let_def
  by (auto intro!: signal_inv)
    (auto simp: link_inv_def link_values_valid_def link_ready_def add_message_info_def split: if_splits)

lemma link_handle_inv: "link_inv s \<Longrightarrow> link_inv (link_handle e s)"
proof (cases e)
  case (Scanned m)
  assume "link_inv s"
  then show ?thesis
    by (auto simp: Scanned process_scan_channels_progress_def link_inv_def link_values_valid_def
        link_ready_def add_message_info_def Let_def)
next
  case (Air_Width w)
  assume "link_inv s"
  then show ?thesis
    by (auto simp: Air_Width validate_and_set_air_channel_width_mhz_def link_inv_def link_values_valid_def
        link_ready_def)
next
  case (Start_Analyze a)
  assume "link_inv s"
  then show ?thesis
    by (auto simp: Start_Analyze start_analyze_channels_def link_inv_def link_values_valid_def link_ready_def)
next
  case (Start_Scan a)
  assume "link_inv s"
  then show ?thesis
    by (auto simp: Start_Scan start_scan_channels_def link_inv_def link_values_valid_def link_ready_def)
qed (simp_all add: supported_inv analyze_inv gnd_channel_inv gnd_width_inv)

text \<open>C29. Whatever the ground unit reports and the user starts, the channel and widths shown are unknown or
  inside the valid ranges, the supported frequencies are at most sixty and never zero, and once the user
  interface has been told to build its choices, the channel, the width and the supported
  frequencies are all known.\<close>

theorem link_reports_valid:
  assumes "link_reachable s"
  shows "link_values_valid s \<and> 0 \<le> ui_rebuild_models s \<and> (ui_rebuild_models s = 0 \<or> link_ready s)"
proof -
  have "link_inv s" using assms by induction (simp_all add: link_inv_new link_handle_inv)
  then show ?thesis by (auto simp: link_inv_def split: if_splits)
qed

definition link_sample :: wb_link where
  "link_sample = link_handle (Gnd_Width 20) (link_handle (Gnd_Channel 5745)
     (link_handle (Supported [5180, 5745, 0, 5825]) (link_handle (Gnd_Width 15) wb_link_new)))"

theorem link_reports_valid_witness:
  "ui_rebuild_models link_sample = 1 \<and> supported link_sample = [5180, 5745] \<and> link_ready link_sample"
proof -
  have r: "link_reachable link_sample"
    unfolding link_sample_def by (intro link_reachable.intros)
  have "ui_rebuild_models link_sample = 1" "supported link_sample = [5180, 5745]"
    by code_simp+
  with link_reports_valid [OF r] show ?thesis by simp
qed

text \<open>After a progress report of the channel analysis every frequency of the report shows its count of
  foreign packets, and as a percentage its share of the busiest frequency, between 0 and 100; only when no
  foreign packet was seen at all is the percentage a value that was never initialised.\<close>

theorem analysis_shown:
  assumes "distinct (map frequency_mhz (analyzed_channels msg))" and "e \<in> set (analyzed_channels msg)"
  shows "pollution_get_last_scan_pollution_for_frequency (frequency_mhz e)
      (pollution_elements (process_analyze_channels_progress msg s)) = n_foreign_packets e
    \<and> pollution_frequencies_int_get_pollution [frequency_mhz e] True
        (pollution_elements (process_analyze_channels_progress msg s)) =
        [if max_foreign (analyzed_channels msg) = 0 then None
         else Some (n_foreign_packets e * 100 div max_foreign (analyzed_channels msg))]
    \<and> (max_foreign (analyzed_channels msg) = 0 \<or>
        n_foreign_packets e * 100 div max_foreign (analyzed_channels msg) \<in> {0..100})"
proof -
  let ?m = "max_foreign (analyzed_channels msg)"
  have elements: "pollution_elements (process_analyze_channels_progress msg s) =
      pollution_update (analyzed_channels msg) (pollution_elements s)"
    using assms(2) by (auto simp: process_analyze_channels_progress_def link_defs)
  have fresh: "n_foreign_packets_normalized e = None" and "0 \<le> n_foreign_packets e"
    using assms(2) by (auto simp: analyzed_channels_def)
  moreover have "n_foreign_packets e \<le> ?m" by (rule max_foreign_upper [OF assms(2)])
  ultimately have "?m = 0 \<or> n_foreign_packets e * 100 div ?m \<in> {0..100}"
    using percent_bounds [of "n_foreign_packets e" ?m] max_foreign_nonneg [of "analyzed_channels msg"]
    by auto
  then show ?thesis
    using fresh
    by (simp add: elements pollution_get_last_scan_pollution_for_frequency_def
        pollution_frequencies_int_get_pollution_def get_pollution_for_frequency_def
        pollution_update_lookup [OF assms])
qed

definition analysis_sample :: analyze_progress where
  "analysis_sample = \<lparr>channels_mhz = [5180, 5200, 5220, 0], foreign_packets = [10, 40, 0, 7], analyze_perc = 50\<rparr>"

theorem analysis_shown_witness:
  "pollution_frequencies_int_get_pollution [5180] True
     (pollution_elements (process_analyze_channels_progress analysis_sample wb_link_new)) = [Some 25]"
proof -
  let ?e = "\<lparr>frequency_mhz = 5180, width_mhz = None, n_foreign_packets = 10,
    n_foreign_packets_normalized = None\<rparr>"
  have channels: "distinct (map frequency_mhz (analyzed_channels analysis_sample))"
    "?e \<in> set (analyzed_channels analysis_sample)" "max_foreign (analyzed_channels analysis_sample) = 40"
    by (simp_all add: analyzed_channels_def analysis_sample_def max_foreign_def)
  show ?thesis using analysis_shown [OF channels(1,2), of wb_link_new] channels(3) by simp
qed

section \<open>Changing link parameters\<close>

definition OHD_SYS_ID_GROUND :: u8 where "OHD_SYS_ID_GROUND = 100"
definition OHD_SYS_ID_AIR :: u8 where "OHD_SYS_ID_AIR = 101"
definition OHD_COMP_ID_AIR_CAMERA_PRIMARY :: u8 where "OHD_COMP_ID_AIR_CAMERA_PRIMARY = 100"
definition OHD_COMP_ID_AIR_CAMERA_SECONDARY :: u8 where
  "OHD_COMP_ID_AIR_CAMERA_SECONDARY = OHD_COMP_ID_AIR_CAMERA_PRIMARY + 1"
definition OHD_COMP_ID_LINK_PARAM :: u8 where "OHD_COMP_ID_LINK_PARAM = 191"

definition to_bytes :: "string \<Rightarrow> bytes" where
  "to_bytes s = map of_char s"

text \<open>A blocking set request: the log holds the requests made so far with their delay in milliseconds
  and number of transmissions; \<open>answer\<close> tells whether the unit accepts the next one.\<close>

type_synonym request_log = "(param_ext_set \<times> int \<times> int) list"

definition set_param_blocking ::
  "(request_log \<Rightarrow> param_ext_set \<Rightarrow> bool) \<Rightarrow> param_ext_set \<Rightarrow> int \<Rightarrow> int \<Rightarrow> request_log \<Rightarrow> request_log \<times> bool" where
  "set_param_blocking answer cmd delay n log = (log @ [(cmd, delay, n)], answer log cmd)"

definition change_param_air_and_ground_blocking ::
  "(request_log \<Rightarrow> param_ext_set \<Rightarrow> bool) \<Rightarrow> string \<Rightarrow> 32 word \<Rightarrow> request_log \<Rightarrow> request_log \<times> int" where
  "change_param_air_and_ground_blocking answer pid v log =
     (let command_air = create_cmd_set_int OHD_SYS_ID_AIR OHD_COMP_ID_LINK_PARAM (to_bytes pid) v;
          (log1, air_success) = set_param_blocking answer command_air 100 20 log
      in if \<not> air_success then (log1, -2) else (log1, 0))"

definition change_param_ground_only_blocking ::
  "(request_log \<Rightarrow> param_ext_set \<Rightarrow> bool) \<Rightarrow> string \<Rightarrow> 32 word \<Rightarrow> request_log \<Rightarrow> request_log \<times> bool" where
  "change_param_ground_only_blocking answer pid v log =
     set_param_blocking answer
       (create_cmd_set_int OHD_SYS_ID_GROUND OHD_COMP_ID_LINK_PARAM (to_bytes pid) v) 200 5 log"

definition change_param_air_and_ground_frequency ::
  "(request_log \<Rightarrow> param_ext_set \<Rightarrow> bool) \<Rightarrow> 32 word \<Rightarrow> request_log \<Rightarrow> request_log \<times> int" where
  "change_param_air_and_ground_frequency answer v log =
     change_param_air_and_ground_blocking answer ''WB_FREQUENCY'' v log"

definition change_param_ground_only_frequency ::
  "(request_log \<Rightarrow> param_ext_set \<Rightarrow> bool) \<Rightarrow> 32 word \<Rightarrow> request_log \<Rightarrow> request_log \<times> bool" where
  "change_param_ground_only_frequency answer v log =
     change_param_ground_only_blocking answer ''WB_FREQUENCY'' v log"

definition tx_power_param_id :: "bool \<Rightarrow> bool \<Rightarrow> int \<Rightarrow> string" where
  "tx_power_param_id is_tx_power_index is_for_armed_state card_index =
     (if card_index < 0 then
        if is_tx_power_index then
          if is_for_armed_state then ''TX_POWER_I_ARMED'' else ''TX_POWER_I''
        else
          if is_for_armed_state then ''TX_POWER_MW_ARM'' else ''TX_POWER_MW''
      else
        if is_tx_power_index then
          if is_for_armed_state then ''TX_POWER_IA_'' @ int_to_string card_index
          else ''TX_POWER_I_'' @ int_to_string card_index
        else
          if is_for_armed_state then ''TX_POWER_MWA_'' @ int_to_string card_index
          else ''TX_POWER_MW_'' @ int_to_string card_index)"

definition set_param_tx_power ::
  "(request_log \<Rightarrow> param_ext_set \<Rightarrow> bool) \<Rightarrow> (bool \<Rightarrow> bool) \<Rightarrow> bool \<Rightarrow> bool \<Rightarrow> bool \<Rightarrow> 32 word \<Rightarrow> int \<Rightarrow>
     request_log \<Rightarrow> request_log \<times> bool" where
  "set_param_tx_power answer is_alive ground is_tx_power_index is_for_armed_state v card_index log =
     (if \<not> is_alive ground then (log, False)
      else
        set_param_blocking answer
          (create_cmd_set_int (if ground then OHD_SYS_ID_GROUND else OHD_SYS_ID_AIR) OHD_COMP_ID_LINK_PARAM
             (to_bytes (tx_power_param_id is_tx_power_index is_for_armed_state card_index)) v) 500 3 log)"

text \<open>The requests of \<open>set_param_stbc_ldpc_enable_air_ground\<close>, made until one fails.\<close>

fun set_params_until_failure ::
  "(request_log \<Rightarrow> param_ext_set \<Rightarrow> bool) \<Rightarrow> param_ext_set list \<Rightarrow> request_log \<Rightarrow> request_log \<times> bool" where
  "set_params_until_failure answer [] log = (log, True)"
| "set_params_until_failure answer (c # cs) log =
     (let (log1, result) = set_param_blocking answer c 500 3 log
      in if \<not> result then (log1, False) else set_params_until_failure answer cs log1)"

definition stbc_ldpc_commands :: "param_ext_set list" where
  "stbc_ldpc_commands =
     [create_cmd_set_int OHD_SYS_ID_GROUND OHD_COMP_ID_LINK_PARAM (to_bytes ''WB_E_STBC'') 1,
      create_cmd_set_int OHD_SYS_ID_GROUND OHD_COMP_ID_LINK_PARAM (to_bytes ''WB_E_LDPC'') 1,
      create_cmd_set_int OHD_SYS_ID_AIR OHD_COMP_ID_LINK_PARAM (to_bytes ''WB_E_STBC'') 1,
      create_cmd_set_int OHD_SYS_ID_AIR OHD_COMP_ID_LINK_PARAM (to_bytes ''WB_E_LDPC'') 1]"

definition set_param_stbc_ldpc_enable_air_ground ::
  "(request_log \<Rightarrow> param_ext_set \<Rightarrow> bool) \<Rightarrow> request_log \<Rightarrow> request_log \<times> bool" where
  "set_param_stbc_ldpc_enable_air_ground answer log = set_params_until_failure answer stbc_ldpc_commands log"

section \<open>Asynchronous changes\<close>

datatype setting_value = Int_Value "32 word" | String_Value string

record air_change =
  change_tag :: string
  change_value :: setting_value

fun setting_value_text :: "setting_value \<Rightarrow> string" where
  "setting_value_text (Int_Value v) = int_to_string (sint v)"
| "setting_value_text (String_Value v) = v"

fun create_cmd_set :: "u8 \<Rightarrow> u8 \<Rightarrow> string \<Rightarrow> setting_value \<Rightarrow> param_ext_set" where
  "create_cmd_set sys cmp pid (Int_Value v) = create_cmd_set_int sys cmp (to_bytes pid) v"
| "create_cmd_set sys cmp pid (String_Value v) =
     create_cmd_set_string sys cmp (to_bytes pid) (to_bytes v)"

text \<open>What the result callback puts on the screen.\<close>

definition air_change_result :: "air_change \<Rightarrow> param_ext_ack option \<Rightarrow> hud_level \<times> string" where
  "air_change_result c response =
     (if set_param_accepted response
      then (Hud_Info, ''Changed '' @ change_tag c @ '' to '' @ setting_value_text (change_value c))
      else (Hud_Warning, ''Cannot change '' @ change_tag c @ '' to '' @
              setting_value_text (change_value c) @ '',please check uplink''))"

definition change_param_air_async ::
  "int \<Rightarrow> bool \<Rightarrow> u8 \<Rightarrow> string \<Rightarrow> setting_value \<Rightarrow> string \<Rightarrow> air_change xparam \<Rightarrow>
     (air_change xparam \<times> (hud_level \<times> string) list) result" where
  "change_param_air_async now air_alive comp_id pid v tag x =
     (let command = create_cmd_set OHD_SYS_ID_AIR comp_id pid v in
      if \<not> air_alive then Inr (x, [(Hud_Warning, ''Air not alive - cannot change '' @ tag)])
      else
        rbind (try_set_param_async now command \<lparr>change_tag = tag, change_value = v\<rparr> False 200 5 x)
          (\<lambda>(x1, enqueue_success).
             if \<not> enqueue_success
             then Inr (x1, [(Hud_Warning, ''Busy - cannot change '' @ tag @ '', try again later'')])
             else Inr (x1, [])))"

definition set_param_keyframe_interval_async ::
  "int \<Rightarrow> bool \<Rightarrow> 32 word \<Rightarrow> air_change xparam \<Rightarrow> (air_change xparam \<times> (hud_level \<times> string) list) result" where
  "set_param_keyframe_interval_async now air_alive v x =
     change_param_air_async now air_alive OHD_COMP_ID_AIR_CAMERA_PRIMARY ''KEYFRAME_I'' (Int_Value v) ''KEYFRAME'' x"

definition set_param_video_resolution_framerate_async ::
  "int \<Rightarrow> bool \<Rightarrow> bool \<Rightarrow> string \<Rightarrow> air_change xparam \<Rightarrow> (air_change xparam \<times> (hud_level \<times> string) list) result" where
  "set_param_video_resolution_framerate_async now air_alive primary res_str x =
     change_param_air_async now air_alive
       (if primary then OHD_COMP_ID_AIR_CAMERA_PRIMARY else OHD_COMP_ID_AIR_CAMERA_SECONDARY)
       ''RESOLUTION_FPS'' (String_Value res_str) ''VIDEO FORMAT'' x"

definition set_param_fec_percentage_async ::
  "int \<Rightarrow> bool \<Rightarrow> 32 word \<Rightarrow> air_change xparam \<Rightarrow> (air_change xparam \<times> (hud_level \<times> string) list) result" where
  "set_param_fec_percentage_async now air_alive percent x =
     change_param_air_async now air_alive OHD_COMP_ID_LINK_PARAM ''WB_V_FEC_PERC'' (Int_Value percent) ''FEC PERCENTAGE'' x"

definition set_param_air_only_mcs_async ::
  "int \<Rightarrow> bool \<Rightarrow> 32 word \<Rightarrow> air_change xparam \<Rightarrow> (air_change xparam \<times> (hud_level \<times> string) list) result" where
  "set_param_air_only_mcs_async now air_alive mcs x =
     change_param_air_async now air_alive OHD_COMP_ID_LINK_PARAM ''WB_MCS_INDEX'' (Int_Value mcs) ''MCS (RATE)'' x"

definition change_param_air_channel_width_async ::
  "int \<Rightarrow> bool \<Rightarrow> 32 word \<Rightarrow> air_change xparam \<Rightarrow> (air_change xparam \<times> (hud_level \<times> string) list) result" where
  "change_param_air_channel_width_async now air_alive v x =
     (if \<not> air_alive then Inr (x, [(Hud_Info, ''Cannot change BW, AIR not alive'')])
      else change_param_air_async now air_alive OHD_COMP_ID_LINK_PARAM ''WB_CHANNEL_W'' (Int_Value v) ''BWIDTH'' x)"

section \<open>Lemmas on changes\<close>

text \<open>\<open>change_param_air_and_ground_blocking\<close> asks the air unit only; the ground unit is never
  changed and the result never tells a rejection from silence.\<close>

lemma air_and_ground_is_air_only:
  "change_param_air_and_ground_blocking answer pid v log = (log', rc) \<Longrightarrow>
     \<exists>c. log' = log @ [(c, 100, 20)] \<and> set_target_system c = OHD_SYS_ID_AIR
       \<and> rc = (if answer log c then 0 else -2)"
  by (auto simp: change_param_air_and_ground_blocking_def set_param_blocking_def create_cmd_set_int_def Let_def
      split: if_splits)

lemma set_params_until_failure_True:
  "set_params_until_failure answer cs log = (log', True) \<Longrightarrow> log' = log @ map (\<lambda>c. (c, 500, 3)) cs"
proof (induction cs arbitrary: log)
  case (Cons c cs)
  then show ?case
    using Cons.IH [of "log @ [(c, 500, 3)]"] by (auto simp: set_param_blocking_def split: if_splits)
qed simp

text \<open>An asynchronous change never faults: its delay and its transmissions satisfy the assertions.\<close>

lemma change_param_air_async_total:
  "\<exists>r. change_param_air_async now air_alive comp_id pid v tag x = Inr r"
  by (auto simp: change_param_air_async_def try_set_param_async_def Let_def rassert_def)

end
