(* ===== verification/Documented_Param.thy ===== *)
theory Documented_Param
  imports Decimal
begin

text \<open>
  What the user interface knows about parameters: the choices and ranges of
  \<open>app/telemetry/settings/improvedintsetting.cpp\<close> and \<open>improvedstringsetting.cpp\<close>, the table of documented parameters
  and the queries on it (\<open>documentedparam.cpp\<close>, the names from \<open>param_names.h\<close>).

  The descriptions shown to the user are left out. A text outside ASCII is its UTF-8 bytes. The map \<open>cached\<close>
  is filled once; \<open>create_param_map\<close> asserts that no name occurs twice.
\<close>

section \<open>Choices and ranges\<close>

record improved_int =
  min_value_int :: int
  max_value_int :: int
  values_enum :: "(string \<times> int) list"

definition ImprovedIntSetting :: "int \<Rightarrow> int \<Rightarrow> (string \<times> int) list \<Rightarrow> improved_int result" where
  "ImprovedIntSetting mn mx items = Inr \<lparr>min_value_int = mn, max_value_int = mx, values_enum = items\<rparr>"

definition convert_to_default_items :: "string list \<Rightarrow> (string \<times> int) list" where
  "convert_to_default_items names = zip names (map int [0..<length names])"

definition createRangeOnly :: "int \<Rightarrow> int \<Rightarrow> improved_int result" where
  "createRangeOnly mn mx = ImprovedIntSetting mn mx []"

definition createEnum :: "string list \<Rightarrow> improved_int result" where
  "createEnum names =
     rbind (rassert (length names > 1)) (\<lambda>_.
     ImprovedIntSetting 0 (int (length names) - 1) (convert_to_default_items names))"

definition createEnumEnableDisable :: "improved_int result" where
  "createEnumEnableDisable = createEnum [''Disable'', ''Enable'']"

definition createEnumSimple :: "(string \<times> int) list \<Rightarrow> improved_int result" where
  "createEnumSimple items = ImprovedIntSetting 0 100 items"

definition has_enum_mapping :: "improved_int \<Rightarrow> bool" where
  "has_enum_mapping i \<longleftrightarrow> values_enum i \<noteq> []"

definition value_to_string :: "improved_int \<Rightarrow> int \<Rightarrow> string" where
  "value_to_string i v =
     (case find (\<lambda>e. snd e = v) (values_enum i) of
        Some e \<Rightarrow> fst e
      | None \<Rightarrow> ''?{'' @ int_to_string v @ ''}?'')"

definition int_enum_keys :: "improved_int \<Rightarrow> string list" where
  "int_enum_keys i = map fst (values_enum i)"

definition int_enum_values :: "improved_int \<Rightarrow> int list" where
  "int_enum_values i = map snd (values_enum i)"

text \<open>A text setting: pairs of the key shown and the value it stands for.\<close>

type_synonym improved_string = "(string \<times> string) list"

definition ImprovedStringSetting :: "(string \<times> string) list \<Rightarrow> improved_string" where
  "ImprovedStringSetting items = items"

definition create_from_keys_only :: "string list \<Rightarrow> improved_string" where
  "create_from_keys_only ks = map (\<lambda>k. (k, k)) ks"

definition createAnyValue :: improved_string where
  "createAnyValue = []"

definition enum_keys :: "improved_string \<Rightarrow> string list" where
  "enum_keys s = map fst s"

definition enum_values :: "improved_string \<Rightarrow> string list" where
  "enum_values s = map snd s"

definition value_to_key :: "improved_string \<Rightarrow> string \<Rightarrow> string option" where
  "value_to_key s v = map_option fst (find (\<lambda>e. snd e = v) s)"

definition key_to_value :: "improved_string \<Rightarrow> string \<Rightarrow> string option" where
  "key_to_value s k = map_option snd (find (\<lambda>e. fst e = k) s)"

section \<open>The table\<close>

record doc_param =
  param_name :: string
  improved_int :: "improved_int option"
  improved_string :: "improved_string option"
  requires_reboot_flag :: bool
  is_read_only :: bool

definition append_int :: "string \<Rightarrow> improved_int result \<Rightarrow> bool \<Rightarrow> doc_param result" where
  "append_int name setting reboot =
     rbind setting (\<lambda>i. Inr \<lparr>param_name = name, improved_int = Some i, improved_string = None,
       requires_reboot_flag = reboot, is_read_only = False\<rparr>)"

definition append_string :: "string \<Rightarrow> improved_string \<Rightarrow> bool \<Rightarrow> doc_param result" where
  "append_string name setting reboot =
     Inr \<lparr>param_name = name, improved_int = None, improved_string = Some setting,
       requires_reboot_flag = reboot, is_read_only = False\<rparr>"

definition append_only_documented :: "string \<Rightarrow> bool \<Rightarrow> doc_param result" where
  "append_only_documented name reboot =
     Inr \<lparr>param_name = name, improved_int = None, improved_string = None,
       requires_reboot_flag = reboot, is_read_only = False\<rparr>"

definition append_documented_read_only :: "string \<Rightarrow> doc_param result" where
  "append_documented_read_only name =
     Inr \<lparr>param_name = name, improved_int = None, improved_string = None,
       requires_reboot_flag = False, is_read_only = True\<rparr>"

definition test_parameters :: "doc_param result list" where
  "test_parameters = [
     append_int ''TEST_INT_0'' createEnumEnableDisable False,
     append_int ''TEST_INT_1'' (createEnum [''enum0'', ''enum1'', ''enum2'', ''enum3'']) False]"

definition link_parameters :: "doc_param result list" where
  "link_parameters = [
     append_int ''VARIABLE_BITRATE'' createEnumEnableDisable False,
     append_int ''WB_E_STBC'' (createEnum [''Disable'', ''+1 (2 antennas)'']) False,
     append_int ''WB_E_LDPC'' createEnumEnableDisable False,
     append_int ''WB_E_SHORT_GUARD'' (createEnum [''LONG_GI (default)'', ''SHORT_GI'']) False,
     append_int ''WB_PASSIVE_MODE'' createEnumEnableDisable False,
     append_int ''DEV_HIGH_RETR'' createEnumEnableDisable False,
     append_int ''WB_ENABLE_RETRA'' createEnumEnableDisable True,
     append_int ''WB_RTX_VIDEO'' createEnumEnableDisable True,
     append_int ''WB_RTX_TELEM'' createEnumEnableDisable True,
     append_int ''WB_RTX_RC'' createEnumEnableDisable True,
     append_int ''WB_RTX_V_MAXMS'' (createRangeOnly 1 100) False,
     append_int ''WB_RTX_T_MAXMS'' (createRangeOnly 1 100) False,
     append_int ''WB_RTX_R_MAXMS'' (createRangeOnly 1 100) False,
     append_int ''WB_RTX_REQ_REP'' (createRangeOnly 1 10) False]"

definition link_parameters_2 :: "doc_param result list" where
  "link_parameters_2 = [
     append_int ''TX_POWER_I'' (ImprovedIntSetting (0) (63) [(''Unitless [1]'', 1),
       (''Unitless [3]'', 3), (''Unitless [6]'', 6), (''Unitless [10]'', 10), (''Unitless [20]'',
       20), (''Unitless [26]'', 26), (''Unitless [40]'', 40), (''Unitless [60]'', 60),
       (''Unitless [63]'', 63)]) False,
     append_int ''TX_POWER_I_ARMED'' (ImprovedIntSetting (0) (63) [(''Disabled [0]'', 0),
       (''Unitless [1]'', 1), (''Unitless [3]'', 3), (''Unitless [6]'', 6), (''Unitless [10]'',
       10), (''Unitless [20]'', 20), (''Unitless [26]'', 26), (''Unitless [40]'', 40),
       (''Unitless [60]'', 60), (''Unitless [63]'', 63)]) False,
     append_only_documented ''TX_POWER_MW'' False,
     append_only_documented ''TX_POWER_MW_ARM'' False,
     append_int ''WB_V_FEC_BLK_L'' (ImprovedIntSetting (0) (128) [(''AUTO (Default)'', 0),
       (''FEC_K=8'', 8), (''FEC_K=10'', 10), (''FEC_K=12'', 12), (''FEC_K=16'', 16),
       (''FEC_K=20'', 20), (''FEC_K=50'', 50)]) False,
     append_int ''WB_V_RATE_PERC'' (ImprovedIntSetting (1) (500) [(''70% (lower)'', 70),
       (''80% (lower)'', 80), (''90% (slightly lower)'', 90), (''DEFAULT'', 100),
       (''110% (slightly higher)'', 110), (''120% (higher)'', 120), (''130% (higher)'', 130)])
       False,
     append_int ''WB_V_FEC_PERC'' (ImprovedIntSetting (0) (100) [(''10%'', 10),
       (''20% (low interf)'', 20), (''30%'', 30), (''40%'', 40), (''50% (high interf)'', 50),
       (''100%'', 100)]) False,
     append_int ''WB_CHANNEL_W'' (createEnumSimple [(''10Mhz'', 10), (''20Mhz'', 20), (''40Mhz'',
       40)]) False,
     append_int ''WB_MCS_INDEX'' (createEnum [''MCS0'', ''MCS1'', ''MCS2'', ''MCS3'',
       ''MCS4(not rec)'', ''MCS5(not rec)'', ''MCS6(not rec)'', ''MCS7(not rec)'',
       ''MCS8 (VHT0+2SS)'', ''MCS9 (VHT1+2SS)'', ''MCS10 (VHT2+2SS)'', ''MCS11 (VHT3+2SS)'']) False,
     append_int ''MCS_VIA_RC'' (createEnum [''Disable'', ''Channel 1'', ''CHannel 2'',
       ''Channel 3'', ''Channel 4'', ''Channel 5'', ''Channel 6'', ''Channel 7'', ''Channel 8'',
       ''Channel 9'', ''Channel 10'']) False,
     append_int ''BW_VIA_RC'' (createEnum [''Disable'', ''Channel 1'', ''CHannel 2'',
       ''Channel 3'', ''Channel 4'', ''Channel 5'', ''Channel 6'', ''Channel 7'', ''Channel 8'',
       ''Channel 9'', ''Channel 10'']) False,
     append_int ''PWR_VIA_RC'' (createEnum [''Disable'', ''Channel 1'', ''CHannel 2'',
       ''Channel 3'', ''Channel 4'', ''Channel 5'', ''Channel 6'', ''Channel 7'', ''Channel 8'',
       ''Channel 9'', ''Channel 10'']) False,
     append_only_documented ''WB_FREQUENCY'' False,
     append_int ''WB_MAX_D_BZ'' (ImprovedIntSetting (-1) (128) [(''AUTO -1'', -1), (''LOW 20'',
       20), (''30'', 30), (''40'', 40), (''50'', 50), (''100'', 100), (''128'', 128)]) False,
     append_documented_read_only ''WIFI_CARD0'',
     append_documented_read_only ''WIFI_CARD1'',
     append_documented_read_only ''WIFI_CARD2'',
     append_documented_read_only ''WIFI_CARD3'',
     append_documented_read_only ''HOTSPOT_CARD'',
     append_documented_read_only ''WB_N_RX_CARDS'',
     append_only_documented ''FC_BATT_N_CELLS'' False,
     append_int ''FC_SYS_ID'' (createRangeOnly 1 254) False]"

definition video_parameters :: "doc_param result list" where
  "video_parameters = [
     append_string ''RESOLUTION_FPS'' (create_from_keys_only [''640x480@30'', ''640x480@60'',
       ''640x480@90'', ''1280x720@30'', ''1280x720@49'', ''1280x720@60'', ''1920x1080@30'']) False,
     append_int ''VIDEO_CODEC'' (createEnum [''h264'', ''h265'']) False,
     append_int ''AIR_RECORDING_E'' (createEnum [''DISABLE'', ''ENABLE'', ''AUTO(armed)'']) False,
     append_int ''STREAMING_E'' createEnumEnableDisable False,
     append_int ''BITRATE_MBITS'' (ImprovedIntSetting (1) (100) [(''2MBit/s'', 2), (''4MBit/s'',
       4), (''6MBit/s'', 6), (''8MBit/s (default)'', 8), (''10MBit/s (high)'', 10),
       (''14MBit/s (high)'', 14), (''18MBit/s (high)'', 18)]) False,
     append_int ''KEYFRAME_I'' (ImprovedIntSetting (0) (100) [(''2  (best recovery)'', 2),
       (''3  (best recovery)'', 3), (''5  (good recovery)'', 5), (''8  (good recovery)'', 8),
       (''10 (medium recovery)'', 10), (''15 (medium recovery)'', 15), (''20 (bad recovery)'',
       20)]) False,
     append_int ''FORCE_SW_ENC'' createEnumEnableDisable False,
     append_int ''V_SWITCH_CAM'' createEnumEnableDisable False,
     append_only_documented ''V_PRIMARY_PERC'' False,
     append_int ''ROTATION_FLIP'' (ImprovedIntSetting (-1) (2130706433) [(''NONE'', 0),
       ((''VFLIP'' @ [CHR 0xC2] @ [CHR 0xB0]), 1), (''HFLIP'', 2), (''BOTH'', 3)]) False,
     append_int ''ROTATION_DEG'' (ImprovedIntSetting (0) (270) [((''0'' @ [CHR 0xC2] @ [CHR 0xB0]
       @ ''(disable)''), 0), ((''180'' @ [CHR 0xC2] @ [CHR 0xB0]), 180)]) False,
     append_int ''INTRA_REFRESH'' (ImprovedIntSetting (-1) (2130706433) [(''NONE'', -1),
       (''CYCLIC'', 0), (''ADAPTIVE'', 1), (''BOTH'', 2), (''CYCLIC_ROWS'', 2130706433)]) False,
     append_only_documented ''BRIGHTNESS'' False,
     append_only_documented ''ISO'' False]"

definition image_parameters :: "doc_param result list" where
  "image_parameters = [
     append_int ''AWB_MODE'' (createEnum [''OFF'', ''AUTO'', ''SUNLIGHT'', ''CLOUDY'', ''SHADE'',
       ''TUNGSTEN'', ''FLUORESCENT'', ''INCANDESCENT'', ''FLASH'', ''HORIZON'']) False,
     append_int ''EXP_MODE'' (createEnum [''OFF'', ''AUTO'', ''NIGHT'', ''NIGHTPREVIEW'',
       ''BACKLIGHT'', ''SPOTLIGHT'', ''SPORTS'', ''SNOW'', ''BEACH'', ''VERYLONG'', ''FIXEDFPS'',
       ''ANTISHAKE'', ''FIREWORKS'']) False,
     append_int ''METERING_MODE'' (createEnum [''AVERAGE'', ''SPOT'', ''BACKLIST'', ''MATRIX''])
       False,
     append_int ''DENOISE_INDEX_LC'' (createEnum [''AUTO'', ''OFF'', ''CDN_OFF'', ''CDN_FAST'',
       ''CDN_HQ'']) False,
     append_int ''METERING_MODE_LC'' (createEnum [''centre (default)'', ''spot'', ''average''])
       False,
     append_int ''AWB_MODE_LC'' (createEnum [''auto (default)'', ''incandescent'', ''tungsten'',
       ''fluorescent'', ''indoor'', ''daylight'', ''cloudy'', ''custom'']) False,
     append_int ''EXPOSURE_MODE_LC'' (createEnum [''normal (default)'', ''sport'']) False,
     append_int ''SHUTTER_US_LC'' (createEnumSimple [(''auto'', 0), (''example1 (1000us)'', 1000),
       (''example2 (5000us)'', 5000), (''example3 (16666us)'', 16666), (''example4 (33333us)'',
       33333)]) False,
     append_int ''CONTRAST_LC'' (createEnumSimple [(''default(100)'', 100), (''higher (120)'',
       120), (''higher (150)'', 150), (''lower(80)'', 80), (''lower (50)'', 50)]) False,
     append_int ''SATURATION_LC'' (createEnumSimple [(''default(100)'', 100), (''higher (120)'',
       120), (''higher (150)'', 150), (''lower(80)'', 80), (''lower (50)'', 50)]) False,
     append_int ''SHARPNESS_LC'' (createEnumSimple [(''default(100)'', 100), (''higher (120)'',
       120), (''higher (150)'', 150), (''lower(80)'', 80), (''lower (50)'', 50)]) False,
     append_int ''EXPOSURE_LC'' (createEnumSimple [(''default(0)'', 0), (''higher (5)'', 5),
       (''higher (10)'', 10), (''lower(-5)'', -5), (''lower (-10)'', -10)]) False,
     append_int ''HIGH_ENCRYPTION'' createEnumEnableDisable False]"

definition interface_parameters :: "doc_param result list" where
  "interface_parameters = [
     append_documented_read_only ''BOARD_TYPE'',
     append_int ''ENABLE_JOY_RC'' createEnumEnableDisable False,
     append_int ''FC_UART_FLWCTL'' createEnumEnableDisable False,
     append_int ''FC_UART_BAUD'' (ImprovedIntSetting (0) (1000000) [(''9600'', 9600), (''19200'',
       19200), (''38400'', 38400), (''57600'', 57600), (''115200'', 115200), (''230400'', 230400),
       (''460800'', 460800), (''500000'', 500000), (''576000'', 576000), (''921600'', 921600),
       (''1000000'', 1000000)]) False,
     append_int ''OHD_UART_EN'' createEnumEnableDisable False,
     append_int ''OHD_UART_BAUD'' (ImprovedIntSetting (0) (1000000) [(''9600'', 9600), (''19200'',
       19200), (''38400'', 38400), (''57600'', 57600), (''115200'', 115200), (''230400'', 230400),
       (''460800'', 460800), (''500000'', 500000), (''576000'', 576000), (''921600'', 921600),
       (''1000000'', 1000000)]) False,
     append_int ''OHD_UART_FLW'' createEnumEnableDisable False,
     append_int ''TRACK_UART_BAUD'' (ImprovedIntSetting (0) (1000000) [(''9600'', 9600),
       (''19200'', 19200), (''38400'', 38400), (''57600'', 57600), (''115200'', 115200),
       (''230400'', 230400), (''460800'', 460800), (''500000'', 500000), (''576000'', 576000),
       (''921600'', 921600), (''1000000'', 1000000)]) False,
     append_int ''TRACK_UART_FLOW'' createEnumEnableDisable False,
     append_int ''UART_PRI_RC'' (ImprovedIntSetting (0) (10) [(''0 (lowest)'', 0), (''1'', 1),
       (''2'', 2), (''3 (default RC)'', 3), (''4'', 4), (''5'', 5), (''6'', 6), (''7'', 7),
       (''8'', 8), (''9'', 9), (''10 (highest)'', 10)]) False,
     append_int ''UART_PRI_OHD'' (ImprovedIntSetting (0) (10) [(''0 (lowest)'', 0), (''1'', 1),
       (''2'', 2), (''3 (default RC)'', 3), (''4'', 4), (''5'', 5), (''6'', 6), (''7'', 7),
       (''8'', 8), (''9'', 9), (''10 (highest)'', 10)]) False,
     append_int ''UART_PRI_FC'' (ImprovedIntSetting (0) (10) [(''0 (lowest)'', 0), (''1'', 1),
       (''2'', 2), (''3 (default RC)'', 3), (''4'', 4), (''5'', 5), (''6'', 6), (''7'', 7),
       (''8'', 8), (''9'', 9), (''10 (highest)'', 10)]) False,
     append_int ''CONFIG_BOOT_AIR'' createEnumEnableDisable True,
     append_int ''WIFI_MODE'' (createEnum [''OFF'', ''HOTSPOT'', ''CLIENT'']) False,
     append_int ''WIFI_HOTSPOT_E'' (createEnum [''AUTO'', ''ALWAYS_OFF'', ''ALWAYS_ON'']) False,
     append_documented_read_only ''WIFI_IFACES'',
     append_string ''WIFI_HS_IFACE'' createAnyValue False,
     append_string ''WIFI_CL_IFACE'' createAnyValue False,
     append_string ''WIFI_CL_SSID'' createAnyValue False,
     append_string ''WIFI_CL_PW'' createAnyValue False,
     append_int ''ETH_HOTSPOT_E'' createEnumEnableDisable True,
     append_int ''ETH_PASSIVE_F'' createEnumEnableDisable False]"

definition other_parameters :: "doc_param result list" where
  "other_parameters = [
     append_int ''ETHERNET'' (createEnum [''UNMANAGED'', ''HOTSPOT'', ''FORWARD+INTERNET'']) False,
     append_int ''GPIO_2'' (createEnum [''untouched'', ''high'', ''low'']) False,
     append_int ''GPIO_26'' (createEnum [''untouched'', ''high'', ''low'']) False,
     append_string ''FC_UART_CONN'' (ImprovedStringSetting [(''DISABLE'', ''''), (''DEFAULT'',
       ''DEFAULT''), (''/dev/serial0'', ''/dev/serial0''), (''/dev/ttyAMA1'', ''/dev/ttyAMA1''),
       (''/dev/ttyAMA2'', ''/dev/ttyAMA2''), (''/dev/ttyAMA3'', ''/dev/ttyAMA3''),
       (''/dev/ttyAMA4'', ''//dev/ttyAMA4''), (''/dev/serial1'', ''/dev/serial1''),
       (''/dev/ttyS1'', ''/dev/ttyS1''), (''/dev/ttyS2'', ''/dev/ttyS2''), (''/dev/ttyUSB0'',
       ''/dev/ttyUSB0''), (''/dev/ttyUSB1'', ''/dev/ttyUSB1''), (''/dev/ttyACM0'',
       ''/dev/ttyACM0''), (''/dev/ttyACM1'', ''/dev/ttyACM1''), (''/dev/ttyS7'', ''/dev/ttyS7'')])
       False,
     append_string ''TRACKER_UART_OUT'' (ImprovedStringSetting [(''DISABLE'', ''''), (''DEFAULT'',
       ''DEFAULT''), (''/dev/serial0'', ''/dev/serial0''), (''/dev/ttyAMA1'', ''/dev/ttyAMA1''),
       (''/dev/ttyAMA2'', ''/dev/ttyAMA2''), (''/dev/ttyAMA3'', ''/dev/ttyAMA3''),
       (''/dev/ttyAMA4'', ''//dev/ttyAMA4''), (''/dev/serial1'', ''/dev/serial1''),
       (''/dev/ttyS1'', ''/dev/ttyS1''), (''/dev/ttyS2'', ''/dev/ttyS2''), (''/dev/ttyUSB0'',
       ''/dev/ttyUSB0''), (''/dev/ttyUSB1'', ''/dev/ttyUSB1''), (''/dev/ttyACM0'',
       ''/dev/ttyACM0''), (''/dev/ttyACM1'', ''/dev/ttyACM1''), (''/dev/ttyS7'', ''/dev/ttyS7'')])
       False,
     append_string ''OHD_UART_TLM'' (ImprovedStringSetting [(''DISABLE'', ''''), (''DEFAULT'',
       ''DEFAULT''), (''/dev/serial0'', ''/dev/serial0''), (''/dev/ttyAMA1'', ''/dev/ttyAMA1''),
       (''/dev/ttyAMA2'', ''/dev/ttyAMA2''), (''/dev/ttyAMA3'', ''/dev/ttyAMA3''),
       (''/dev/ttyAMA4'', ''//dev/ttyAMA4''), (''/dev/serial1'', ''/dev/serial1''),
       (''/dev/ttyS1'', ''/dev/ttyS1''), (''/dev/ttyS2'', ''/dev/ttyS2''), (''/dev/ttyUSB0'',
       ''/dev/ttyUSB0''), (''/dev/ttyUSB1'', ''/dev/ttyUSB1''), (''/dev/ttyACM0'',
       ''/dev/ttyACM0''), (''/dev/ttyACM1'', ''/dev/ttyACM1''), (''/dev/ttyS7'', ''/dev/ttyS7'')])
       False,
     append_string ''RC_CHAN_MAP'' (ImprovedStringSetting [(''default'',
       ''1,2,3,4,5,6,7,8,9,10,11,12,13,14,15,16,17,18''), (''Steamdeck AETR'',
       ''4,5,1,2,3,6,7,8,9,10,11,12,13,14,15,16,17,18''), (''EX1'',
       ''2,1,3,4,5,6,7,8,9,10,11,12,13,14,15,16,17,18''), (''EX2'',
       ''2,1,4,3,5,6,7,8,9,10,11,12,13,14,15,16,17,18'')]) False,
     append_int ''COLOR_PALETE'' (ImprovedIntSetting (34816) (34826)
       [(''CMD Shutter calibration'', 32768), (''CMD YUYV output'', 32773),
       (''CMD save configurations'', 33022), (''White Hot'', 34816), (''Black Hot'', 34817),
       (''Iron Rainbow'', 34818), (''Lava'', 34819), (''Rainbow2'', 34820), (''Rainbow3'', 34821),
       (''Red Hot'', 34822), (''Iron gray'', 34823), (''HCR1'', 34824), (''HCR2'', 34825),
       (''Black hot 2'', 34826)]) False,
     append_only_documented ''RC_UPDATE_HZ'' False,
     append_int ''AUDIO_ENABLE'' (ImprovedIntSetting (0) (1000000) [(''DISABLE'', 0), (''ENABLE'',
       1), (''TEST'', 100)]) False]"

text \<open>The first assertion that fails ends the construction of the list.\<close>

fun all_results :: "'a result list \<Rightarrow> 'a list result" where
  "all_results [] = Inr []"
| "all_results (r # rs) = rbind r (\<lambda>x. rbind (all_results rs) (\<lambda>xs. Inr (x # xs)))"

definition get_parameters_list :: "doc_param list result" where
  "get_parameters_list = all_results (test_parameters @ link_parameters @ link_parameters_2
     @ video_parameters @ image_parameters @ interface_parameters @ other_parameters)"

fun add_params :: "doc_param list \<Rightarrow> (string \<rightharpoonup> doc_param) \<Rightarrow> (string \<rightharpoonup> doc_param) result" where
  "add_params [] m = Inr m"
| "add_params (p # ps) m =
     rbind (rassert (m (param_name p) = None)) (\<lambda>_. add_params ps (m(param_name p \<mapsto> p)))"

definition create_param_map :: "(string \<rightharpoonup> doc_param) result" where
  "create_param_map = rbind get_parameters_list (\<lambda>ps. add_params ps Map.empty)"

section \<open>Queries\<close>

definition find_param :: "string \<Rightarrow> doc_param option" where
  "find_param name = (case create_param_map of Inr m \<Rightarrow> m name | Inl _ \<Rightarrow> None)"

definition read_only :: "string \<Rightarrow> bool" where
  "read_only name = (case find_param name of Some p \<Rightarrow> is_read_only p | None \<Rightarrow> False)"

definition get_improved_for_int :: "string \<Rightarrow> improved_int option" where
  "get_improved_for_int name = Option.bind (find_param name) improved_int"

definition get_improved_for_string :: "string \<Rightarrow> improved_string option" where
  "get_improved_for_string name = Option.bind (find_param name) improved_string"

definition int_param_to_enum_string_if_known :: "string \<Rightarrow> int \<Rightarrow> string option" where
  "int_param_to_enum_string_if_known name v =
     (case get_improved_for_int name of
        Some i \<Rightarrow> if has_enum_mapping i then Some (value_to_string i v) else None
      | None \<Rightarrow> None)"

definition string_param_to_enum_string_if_known :: "string \<Rightarrow> string \<Rightarrow> string option" where
  "string_param_to_enum_string_if_known name v =
     (case get_improved_for_string name of Some s \<Rightarrow> value_to_key s v | None \<Rightarrow> None)"

definition requires_reboot :: "string \<Rightarrow> bool" where
  "requires_reboot name = (case find_param name of Some p \<Rightarrow> requires_reboot_flag p | None \<Rightarrow> False)"

definition get_whitelisted_params :: "string set" where
  "get_whitelisted_params = set [''WB_FREQUENCY'', ''WB_CHANNEL_W'', ''WB_MCS_INDEX'', ''CONFIG_BOOT_AIR'',
     ''WB_MAX_D_BZ'', ''DEV_HIGH_RETR'', ''TX_POWER_MW'', ''TX_POWER_MW_ARM'', ''TX_POWER_I'',
     ''TX_POWER_I_ARMED'', ''WB_E_LDPC'', ''WB_E_STBC'', ''WB_E_SHORT_GUARD'', ''WB_V_FEC_PERC'',
     ''WB_V_RATE_PERC'', ''VARIABLE_BITRATE'', ''TYPE_CAM0'', ''TYPE_CAM1'', ''VIDEO_CODEC'', ''AIR_RECORDING'',
     ''FORCE_SW_ENC'', ''BITRATE_MBITS'', ''KEYFRAME_I'', ''INTRA_REFRESH'', ''N_SLICES'', ''STREAMING_E'', '''']"

definition is_param_whitelisted :: "string \<Rightarrow> bool" where
  "is_param_whitelisted name \<longleftrightarrow> name \<in> get_whitelisted_params"

section \<open>What the table guarantees\<close>

lemma add_params_distinct:
  assumes "distinct (map param_name ps)" and "\<forall>p \<in> set ps. m (param_name p) = None"
  shows "add_params ps m = Inr (m ++ (\<lambda>n. find (\<lambda>p. param_name p = n) ps))"
  using assms
proof (induction ps arbitrary: m)
  case Nil
  then show ?case by (simp add: map_add_def)
next
  case (Cons p ps)
  then have "add_params (p # ps) m = Inr ((m(param_name p \<mapsto> p)) ++ (\<lambda>n. find (\<lambda>p. param_name p = n) ps))"
    by (subst add_params.simps, subst Cons.IH) (auto, metis image_eqI)
  moreover have "find (\<lambda>q. param_name q = param_name p) ps = None"
    using Cons.prems(1) by (simp add: find_key_None)
  then have "(m(param_name p \<mapsto> p)) ++ (\<lambda>n. find (\<lambda>p. param_name p = n) ps)
      = m ++ (\<lambda>n. find (\<lambda>p. param_name p = n) (p # ps))"
    by (intro ext) (auto simp: map_add_def split: option.splits)
  ultimately show ?case by simp
qed

text \<open>The checks made on every entry: the name fits into the 16 bytes of a parameter id, no two choices
  share a value, and there is more than one value in a range.\<close>

definition entry_ok :: "doc_param \<Rightarrow> bool" where
  "entry_ok p \<longleftrightarrow> length (param_name p) \<le> 16
     \<and> (case improved_int p of None \<Rightarrow> True | Some i \<Rightarrow> distinct (map snd (values_enum i)) \<and> min_value_int i < max_value_int i)
     \<and> (case improved_string p of None \<Rightarrow> True | Some s \<Rightarrow> distinct (map fst s) \<and> distinct (map snd s))"

lemmas table_defs = append_int_def append_string_def append_only_documented_def
  append_documented_read_only_def createEnumEnableDisable_def createEnum_def createEnumSimple_def
  createRangeOnly_def ImprovedIntSetting_def convert_to_default_items_def upt_rec
  ImprovedStringSetting_def create_from_keys_only_def createAnyValue_def

lemma all_results_append:
  "all_results (a @ b) = rbind (all_results a) (\<lambda>x. rbind (all_results b) (\<lambda>y. Inr (x @ y)))"
  by (induction a) (simp_all add: rbind_assoc)

definition part_ok :: "doc_param result list \<Rightarrow> string list \<Rightarrow> bool" where
  "part_ok part names \<longleftrightarrow> (case all_results part of Inl _ \<Rightarrow> False
     | Inr ps \<Rightarrow> map param_name ps = names \<and> list_all entry_ok ps)"

lemma test_parameters_ok: "part_ok test_parameters
   [''TEST_INT_0'', ''TEST_INT_1'']"
  by (simp add: part_ok_def entry_ok_def test_parameters_def table_defs)

lemma link_parameters_ok: "part_ok link_parameters
   [''VARIABLE_BITRATE'', ''WB_E_STBC'', ''WB_E_LDPC'', ''WB_E_SHORT_GUARD'', ''WB_PASSIVE_MODE'',
    ''DEV_HIGH_RETR'', ''WB_ENABLE_RETRA'', ''WB_RTX_VIDEO'', ''WB_RTX_TELEM'', ''WB_RTX_RC'',
    ''WB_RTX_V_MAXMS'', ''WB_RTX_T_MAXMS'', ''WB_RTX_R_MAXMS'', ''WB_RTX_REQ_REP'']"
  by (simp add: part_ok_def entry_ok_def link_parameters_def table_defs)

lemma link_parameters_2_ok: "part_ok link_parameters_2
   [''TX_POWER_I'', ''TX_POWER_I_ARMED'', ''TX_POWER_MW'', ''TX_POWER_MW_ARM'', ''WB_V_FEC_BLK_L'',
    ''WB_V_RATE_PERC'', ''WB_V_FEC_PERC'', ''WB_CHANNEL_W'', ''WB_MCS_INDEX'', ''MCS_VIA_RC'',
    ''BW_VIA_RC'', ''PWR_VIA_RC'', ''WB_FREQUENCY'', ''WB_MAX_D_BZ'', ''WIFI_CARD0'',
    ''WIFI_CARD1'', ''WIFI_CARD2'', ''WIFI_CARD3'', ''HOTSPOT_CARD'', ''WB_N_RX_CARDS'',
    ''FC_BATT_N_CELLS'', ''FC_SYS_ID'']"
  by (simp add: part_ok_def entry_ok_def link_parameters_2_def table_defs)

lemma video_parameters_ok: "part_ok video_parameters
   [''RESOLUTION_FPS'', ''VIDEO_CODEC'', ''AIR_RECORDING_E'', ''STREAMING_E'', ''BITRATE_MBITS'',
    ''KEYFRAME_I'', ''FORCE_SW_ENC'', ''V_SWITCH_CAM'', ''V_PRIMARY_PERC'', ''ROTATION_FLIP'',
    ''ROTATION_DEG'', ''INTRA_REFRESH'', ''BRIGHTNESS'', ''ISO'']"
  by (simp add: part_ok_def entry_ok_def video_parameters_def table_defs)

lemma image_parameters_ok: "part_ok image_parameters
   [''AWB_MODE'', ''EXP_MODE'', ''METERING_MODE'', ''DENOISE_INDEX_LC'', ''METERING_MODE_LC'',
    ''AWB_MODE_LC'', ''EXPOSURE_MODE_LC'', ''SHUTTER_US_LC'', ''CONTRAST_LC'', ''SATURATION_LC'',
    ''SHARPNESS_LC'', ''EXPOSURE_LC'', ''HIGH_ENCRYPTION'']"
  by (simp add: part_ok_def entry_ok_def image_parameters_def table_defs)

lemma interface_parameters_ok: "part_ok interface_parameters
   [''BOARD_TYPE'', ''ENABLE_JOY_RC'', ''FC_UART_FLWCTL'', ''FC_UART_BAUD'', ''OHD_UART_EN'',
    ''OHD_UART_BAUD'', ''OHD_UART_FLW'', ''TRACK_UART_BAUD'', ''TRACK_UART_FLOW'', ''UART_PRI_RC'',
    ''UART_PRI_OHD'', ''UART_PRI_FC'', ''CONFIG_BOOT_AIR'', ''WIFI_MODE'', ''WIFI_HOTSPOT_E'',
    ''WIFI_IFACES'', ''WIFI_HS_IFACE'', ''WIFI_CL_IFACE'', ''WIFI_CL_SSID'', ''WIFI_CL_PW'',
    ''ETH_HOTSPOT_E'', ''ETH_PASSIVE_F'']"
  by (simp add: part_ok_def entry_ok_def interface_parameters_def table_defs)

lemma other_parameters_ok: "part_ok other_parameters
   [''ETHERNET'', ''GPIO_2'', ''GPIO_26'', ''FC_UART_CONN'', ''TRACKER_UART_OUT'',
    ''OHD_UART_TLM'', ''RC_CHAN_MAP'', ''COLOR_PALETE'', ''RC_UPDATE_HZ'', ''AUDIO_ENABLE'']"
  by (simp add: part_ok_def entry_ok_def other_parameters_def table_defs)

lemma part_okD:
  "part_ok part names \<Longrightarrow> \<exists>ps. all_results part = Inr ps \<and> map param_name ps = names \<and> list_all entry_ok ps"
  by (auto simp: part_ok_def split: sum.splits)

lemma part_ok_append: "part_ok a m \<Longrightarrow> part_ok b n \<Longrightarrow> part_ok (a @ b) (m @ n)"
  by (auto simp: all_results_append part_ok_def split: sum.splits)

lemmas table_ok = part_ok_append [OF test_parameters_ok part_ok_append [OF link_parameters_ok
  part_ok_append [OF link_parameters_2_ok part_ok_append [OF video_parameters_ok
  part_ok_append [OF image_parameters_ok part_ok_append [OF interface_parameters_ok
  other_parameters_ok]]]]]]

lemma param_table:
  "\<exists>ps. get_parameters_list = Inr ps \<and> distinct (map param_name ps) \<and> list_all entry_ok ps"
proof -
  note part_okD [OF table_ok]
  then show ?thesis
    unfolding get_parameters_list_def
    by (elim ex_forward conj_forward) (assumption, simp, assumption)
qed

lemma find_param_iff:
  assumes "get_parameters_list = Inr ps"
  shows "find_param n = find (\<lambda>p. param_name p = n) ps"
  using param_table add_params_distinct [of ps Map.empty]
  unfolding find_param_def create_param_map_def assms by auto

lemma map_value_to_string:
  "distinct (map snd (values_enum i)) \<Longrightarrow> map (value_to_string i) (int_enum_values i) = int_enum_keys i"
  using find_key_self [of snd "values_enum i"]
  by (auto simp: value_to_string_def int_enum_values_def int_enum_keys_def)

lemma map_value_to_key:
  "distinct (map snd s) \<Longrightarrow> map (value_to_key s) (enum_values s) = map Some (enum_keys s)"
  using find_key_self [of snd s] by (auto simp: value_to_key_def enum_values_def enum_keys_def)

lemma map_key_to_value:
  "distinct (map fst s) \<Longrightarrow> map (key_to_value s) (enum_keys s) = map Some (enum_values s)"
  using find_key_self [of fst s] by (auto simp: key_to_value_def enum_values_def enum_keys_def)

text \<open>The table of parameters is built without a failing assertion, and every entry is found under its name, which
  fits into the 16 bytes of a parameter id. Its choices read back: the text of each value on offer is
  the one it is offered under, and between the keys and values of a text parameter there is a
  one-to-one correspondence.\<close>

theorem documented_choices:
  "\<exists>ps. get_parameters_list = Inr ps \<and> create_param_map = Inr find_param
     \<and> list_all (\<lambda>p. find_param (param_name p) = Some p \<and> length (param_name p) \<le> 16
         \<and> (case improved_int p of None \<Rightarrow> True
            | Some i \<Rightarrow> map (value_to_string i) (int_enum_values i) = int_enum_keys i)
         \<and> (case improved_string p of None \<Rightarrow> True
            | Some s \<Rightarrow> map (value_to_key s) (enum_values s) = map Some (enum_keys s)
                \<and> map (key_to_value s) (enum_keys s) = map Some (enum_values s))) ps"
proof -
  obtain ps where ps: "get_parameters_list = Inr ps" "distinct (map param_name ps)" "list_all entry_ok ps"
    using param_table by blast
  have "create_param_map = Inr (\<lambda>n. find (\<lambda>p. param_name p = n) ps)"
    using add_params_distinct [OF ps(2), of Map.empty] unfolding create_param_map_def ps(1) by simp
  then have m: "create_param_map = Inr find_param"
    using find_param_iff [OF ps(1)] by presburger
  have "find_param (param_name p) = Some p" if "p \<in> set ps" for p
    using find_param_iff [OF ps(1)] find_key_self [OF ps(2) that] by simp
  with ps m show ?thesis
    by (intro exI [of _ ps])
      (auto simp: list_all_iff entry_ok_def map_value_to_string map_value_to_key map_key_to_value
        split: option.splits)
qed

end
