(* ===== verification/Settings_Model.thy ===== *)
theory Settings_Model
  imports Xparam Documented_Param
begin

text \<open>
  The parameters of the OpenHD units as the user interface sees them: the class \<open>MavlinkSettingsModel\<close> of
  \<open>app/telemetry/settings/mavlinksettingsmodel.h\<close> and \<open>.cpp\<close>, its four instances and the parameter client \<open>XParam\<close>
  they share.

  The callbacks given to \<open>XParam\<close> are values of \<open>client\<close>; whenever it reports a result, \<open>deliver\<close> runs the body
  of the callback. Requests of other parts of the program use \<open>Other_Client\<close>. A parameter set fetched is
  handed to the UI thread through a queued signal: it waits in \<open>ui_queue\<close> until the step \<open>Ui_Thread\<close>.
  Stored settings are fields of the state. The signals to the list view and the debug output are left out; a
  progress of \<open>a / b\<close> is rounded exactly.
\<close>

section \<open>State\<close>

datatype variant = Int32 "32 word" | Str bytes

record setting_data =
  unique_id :: bytes
  setting_value :: variant

datatype unit_name = Air | Air_Camera | Air_Camera_2 | Ground

datatype client =
    Fetch unit_name bool
  | Set_Cached unit_name bytes variant bool
  | Blocking unit_name bytes variant
  | Other_Client

record settings_model =
  m_data :: "setting_data list"
  m_is_ready :: bool
  m_is_currently_busy :: bool
  curr_get_all_progress_perc :: int
  ui_is_busy :: bool
  has_params_fetched :: bool
  update_count :: int
  last_updated_param_id :: bytes
  last_updated_param_success :: bool

record settings_app =
  xp :: "client xparam"
  models :: "unit_name \<Rightarrow> settings_model"
  dev_show_whitelisted_params :: bool
  vehicle_battery_n_cells :: "int option"
  toasts :: "string list"
  returned :: "(unit_name \<times> string) list"
  ui_queue :: "(unit_name \<times> setting_data list) list"

definition settings_model_new :: settings_model where
  "settings_model_new = \<lparr>m_data = [], m_is_ready = False, m_is_currently_busy = False,
     curr_get_all_progress_perc = -1, ui_is_busy = False, has_params_fetched = False, update_count = 0,
     last_updated_param_id = [], last_updated_param_success = False\<rparr>"

definition settings_app_new :: settings_app where
  "settings_app_new = \<lparr>xp = xparam_new, models = (\<lambda>u. settings_model_new),
     dev_show_whitelisted_params = False, vehicle_battery_n_cells = None, toasts = [], returned = [],
     ui_queue = []\<rparr>"

text \<open>\<open>OHD_SYS_ID_*\<close> and \<open>OHD_COMP_ID_*\<close> of the four instances.\<close>

fun m_sys_id :: "unit_name \<Rightarrow> u8" where
  "m_sys_id Ground = 100"
| "m_sys_id _ = 101"

fun m_comp_id :: "unit_name \<Rightarrow> u8" where
  "m_comp_id Air_Camera = 100"
| "m_comp_id Air_Camera_2 = 101"
| "m_comp_id _ = 191"

definition text_of :: "bytes \<Rightarrow> string" where
  "text_of = map (\<lambda>b. char_of (unat b))"

definition of_text :: "string \<Rightarrow> bytes" where
  "of_text = map (\<lambda>c. of_nat (of_char c))"

lemma text_of_of_text [simp]: "text_of (of_text s) = s"
  by (simp add: text_of_def of_text_def comp_def unat_of_nat of_char_mod_256 map_idI)

definition update_model ::
  "unit_name \<Rightarrow> (settings_model \<Rightarrow> settings_model) \<Rightarrow> settings_app \<Rightarrow> settings_app" where
  "update_model u f s = s\<lparr>models := (models s)(u := f (models s u))\<rparr>"

definition show_toast :: "string \<Rightarrow> settings_app \<Rightarrow> settings_app" where
  "show_toast t s = s\<lparr>toasts := toasts s @ [t]\<rparr>"

section \<open>The list of parameters\<close>

definition model_is_param_whitelisted :: "bytes \<Rightarrow> settings_app \<Rightarrow> bool" where
  "model_is_param_whitelisted pid s =
     (if dev_show_whitelisted_params s then False
      else if pid = [] then False
      else is_param_whitelisted (text_of pid))"

definition removeData :: "int \<Rightarrow> setting_data list \<Rightarrow> setting_data list" where
  "removeData row data =
     (if row < 0 \<or> row \<ge> int (length data) then data
      else take (nat row) data @ drop (nat row + 1) data)"

fun find_row :: "bytes \<Rightarrow> setting_data list \<Rightarrow> int \<Rightarrow> int" where
  "find_row pid [] i = -1"
| "find_row pid (d # ds) i = (if unique_id d = pid then i else find_row pid ds (i + 1))"

definition perform_dirty_actions :: "setting_data \<Rightarrow> settings_app \<Rightarrow> settings_app" where
  "perform_dirty_actions d s =
     (case setting_value d of
        Str _ \<Rightarrow> s
      | Int32 v \<Rightarrow>
          if unique_id d = of_text ''FC_BATT_N_CELLS'' \<and> sint v > 0 then
            let n = (case vehicle_battery_n_cells s of None \<Rightarrow> 3 | Some n \<Rightarrow> n) in
            if n \<noteq> sint v
            then show_toast ''Updated N Cells from air unit'' (s\<lparr>vehicle_battery_n_cells := Some (sint v)\<rparr>)
            else s
          else s)"

definition updateData :: "unit_name \<Rightarrow> int option \<Rightarrow> setting_data \<Rightarrow> settings_app \<Rightarrow> settings_app" where
  "updateData u row_opt new_data s =
     (let s1 = perform_dirty_actions new_data s;
          data = m_data (models s1 u);
          row = (case row_opt of Some r \<Rightarrow> r | None \<Rightarrow> find_row (unique_id new_data) data 0) in
      if row < 0 \<or> row \<ge> int (length data) then s1
      else if unique_id (data ! nat row) \<noteq> unique_id new_data then s1
      else update_model u (\<lambda>m. m\<lparr>m_data := data[nat row := new_data]\<rparr>) s1)"

definition addData :: "unit_name \<Rightarrow> setting_data \<Rightarrow> settings_app \<Rightarrow> settings_app" where
  "addData u d s =
     (let s1 = perform_dirty_actions d s in
      if model_is_param_whitelisted (unique_id d) s1 then s1
      else update_model u (\<lambda>m. m\<lparr>m_data := m_data m @ [d]\<rparr>) s1)"

function remove_rows :: "setting_data list \<Rightarrow> setting_data list" where
  "remove_rows data =
     (if length data > 0 then remove_rows (removeData (int (length data) - 1) data) else data)"
  by pat_completeness auto
termination
  by (relation "measure length") (auto simp: removeData_def nat_less_iff)

declare remove_rows.simps [simp del]

definition ui_thread_replace_param_set ::
  "unit_name \<Rightarrow> setting_data list \<Rightarrow> settings_app \<Rightarrow> settings_app" where
  "ui_thread_replace_param_set u params s =
     fold (addData u) params (update_model u (\<lambda>m. m\<lparr>m_data := remove_rows (m_data m)\<rparr>) s)"

text \<open>A parameter that is neither integer nor text is dropped.\<close>

definition qt_value :: "param_variant \<Rightarrow> setting_data list" where
  "qt_value p =
     (case int_param p of
        Some v \<Rightarrow> [\<lparr>unique_id = param_id p, setting_value = Int32 v\<rparr>]
      | None \<Rightarrow> (case string_param p of
          Some t \<Rightarrow> [\<lparr>unique_id = param_id p, setting_value = Str t\<rparr>]
        | None \<Rightarrow> []))"

definition remove_and_replace_param_set ::
  "unit_name \<Rightarrow> param_ext_value list \<Rightarrow> settings_app \<Rightarrow> settings_app" where
  "remove_and_replace_param_set u param_set s =
     s\<lparr>ui_queue := ui_queue s @ [(u, concat (map qt_value (parse_server_param_set param_set)))]\<rparr>"

section \<open>Requests\<close>

definition set_ready :: "unit_name \<Rightarrow> settings_app \<Rightarrow> settings_app" where
  "set_ready u = update_model u (\<lambda>m. m\<lparr>m_is_ready := True\<rparr>)"

definition set_busy :: "unit_name \<Rightarrow> bool \<Rightarrow> settings_app \<Rightarrow> settings_app" where
  "set_busy u b = update_model u (\<lambda>m. m\<lparr>m_is_currently_busy := b, ui_is_busy := b\<rparr>)"

definition is_x_busy :: "unit_name \<Rightarrow> settings_app \<Rightarrow> bool" where
  "is_x_busy u s = m_is_currently_busy (models s u)"

definition is_air_or_cam_param_busy :: "settings_app \<Rightarrow> bool" where
  "is_air_or_cam_param_busy s \<longleftrightarrow> is_x_busy Air s \<or> is_x_busy Air_Camera s \<or> is_x_busy Air_Camera_2 s"

definition try_refetch_all_parameters_async ::
  "int \<Rightarrow> unit_name \<Rightarrow> bool \<Rightarrow> settings_app \<Rightarrow> settings_app" where
  "try_refetch_all_parameters_async now u log_result s =
     (if \<not> m_is_ready (models s u) then if log_result then show_toast ''OHD System not found'' s else s
      else if m_is_currently_busy (models s u) then
        if log_result then show_toast ''Busy, please try again later'' s else s
      else
        let s1 = update_model u (\<lambda>m. m\<lparr>curr_get_all_progress_perc := 0\<rparr>) (set_busy u True s)
        in s1\<lparr>xp := try_get_param_all_async now (create_cmd_get_all (m_sys_id u) (m_comp_id u))
                 (Fetch u log_result) True (xp s1)\<rparr>)"

definition value_text :: "variant \<Rightarrow> string" where
  "value_text v = (case v of Int32 w \<Rightarrow> int_to_string (sint w) | Str t \<Rightarrow> text_of t)"

definition finalize_update_param ::
  "unit_name \<Rightarrow> bytes \<Rightarrow> variant \<Rightarrow> bool \<Rightarrow> bool \<Rightarrow> settings_app \<Rightarrow> settings_app" where
  "finalize_update_param u pid v success log_result s =
     (let s1 = update_model u (\<lambda>m. m\<lparr>last_updated_param_id := pid, last_updated_param_success := success\<rparr>) s;
          s2 = (if log_result
                then show_toast (''Update '' @ text_of pid @ '' to '' @ value_text v @
                       (if success then '' success'' else '' failure'')) s1
                else s1)
      in update_model u (\<lambda>m. m\<lparr>update_count := update_count m + 1\<rparr>) s2)"

text \<open>The result of \<open>try_set_param_async\<close> is ignored.\<close>

definition set_param_cached ::
  "int \<Rightarrow> unit_name \<Rightarrow> param_ext_set \<Rightarrow> bytes \<Rightarrow> variant \<Rightarrow> bool \<Rightarrow> settings_app \<Rightarrow> settings_app result" where
  "set_param_cached now u msg pid v log_result s =
     (if m_is_currently_busy (models s u) then Inr (finalize_update_param u pid v False log_result s)
      else
        let s1 = set_busy u True s in
        rbind (try_set_param_async now msg (Set_Cached u pid v log_result) False 300 10 (xp s1))
          (\<lambda>(x, _). Inr (s1\<lparr>xp := x\<rparr>)))"

definition try_set_param_int_async ::
  "int \<Rightarrow> unit_name \<Rightarrow> bytes \<Rightarrow> 32 word \<Rightarrow> bool \<Rightarrow> settings_app \<Rightarrow> settings_app result" where
  "try_set_param_int_async now u pid v log_result =
     set_param_cached now u (create_cmd_set_int (m_sys_id u) (m_comp_id u) pid v)
       pid (Int32 v) log_result"

definition try_set_param_string_async ::
  "int \<Rightarrow> unit_name \<Rightarrow> bytes \<Rightarrow> bytes \<Rightarrow> bool \<Rightarrow> settings_app \<Rightarrow> settings_app result" where
  "try_set_param_string_async now u pid t log_result =
     set_param_cached now u (create_cmd_set_string (m_sys_id u) (m_comp_id u) pid t)
       pid (Str t) log_result"

text \<open>The blocking calls: what runs before the wait, and with \<open>blocking_result\<close> what runs after it. Only the
  flag of the program is set, not the one shown by the user interface.\<close>

definition blocking_result ::
  "unit_name \<Rightarrow> bytes \<Rightarrow> variant \<Rightarrow> bool \<Rightarrow> settings_app \<Rightarrow> settings_app" where
  "blocking_result u pid v success s =
     (let s1 = update_model u (\<lambda>m. m\<lparr>m_is_currently_busy := False\<rparr>) s in
      if success
      then let s2 = updateData u None \<lparr>unique_id = pid, setting_value = v\<rparr> s1
           in s2\<lparr>returned := returned s2 @ [(u, [])]\<rparr>
      else s1\<lparr>returned := returned s1 @ [(u, ''Update failed,try again'')]\<rparr>)"

definition update_blocking ::
  "int \<Rightarrow> unit_name \<Rightarrow> param_ext_set \<Rightarrow> bytes \<Rightarrow> variant \<Rightarrow> settings_app \<Rightarrow> settings_app result" where
  "update_blocking now u msg pid v s =
     (let s1 = update_model u (\<lambda>m. m\<lparr>m_is_currently_busy := True\<rparr>) s in
      rbind (try_set_param_async now msg (Blocking u pid v) False 500 3 (xp s1)) (\<lambda>(x, ok).
      Inr (if ok then s1\<lparr>xp := x\<rparr> else blocking_result u pid v False s1)))"

definition try_update_parameter_int ::
  "int \<Rightarrow> unit_name \<Rightarrow> bytes \<Rightarrow> 32 word \<Rightarrow> settings_app \<Rightarrow> settings_app result" where
  "try_update_parameter_int now u pid v =
     update_blocking now u (create_cmd_set_int (m_sys_id u) (m_comp_id u) pid v) pid (Int32 v)"

definition try_update_parameter_string ::
  "int \<Rightarrow> unit_name \<Rightarrow> bytes \<Rightarrow> bytes \<Rightarrow> settings_app \<Rightarrow> settings_app result" where
  "try_update_parameter_string now u pid t =
     update_blocking now u (create_cmd_set_string (m_sys_id u) (m_comp_id u) pid t) pid (Str t)"

section \<open>Results\<close>

text \<open>\<open>std::lroundf\<close> of a percentage, for \<open>0 \<le> a\<close> and \<open>0 < b\<close>.\<close>

definition lround_percent :: "int \<Rightarrow> int \<Rightarrow> int" where
  "lround_percent a b = (200 * a + b) div (2 * b)"

definition fetch_result :: "unit_name \<Rightarrow> bool \<Rightarrow> bool \<Rightarrow> param_ext_value list \<Rightarrow> settings_app \<Rightarrow> settings_app" where
  "fetch_result u log_result success param_set s =
     (let s1 = (if success then
                  let s2 = remove_and_replace_param_set u param_set s;
                      s3 = (if log_result then show_toast ''Fetch all parameters success'' s2 else s2)
                  in update_model u (\<lambda>m. m\<lparr>has_params_fetched := True\<rparr>) s3
                else if log_result then show_toast ''Fetch all parameters failed'' s else s)
      in set_busy u False s1)"

definition set_result ::
  "unit_name \<Rightarrow> bytes \<Rightarrow> variant \<Rightarrow> bool \<Rightarrow> bool \<Rightarrow> settings_app \<Rightarrow> settings_app" where
  "set_result u pid v log_result accepted s =
     (let s1 = (if accepted then updateData u None \<lparr>unique_id = pid, setting_value = v\<rparr> s else s)
      in finalize_update_param u pid v accepted log_result (set_busy u False s1))"

fun deliver :: "client param_call \<Rightarrow> settings_app \<Rightarrow> settings_app" where
  "deliver (Get_All_Result (Fetch u log_result) success ps) s = fetch_result u log_result success ps s"
| "deliver (Progress (Fetch u log_result) a b) s =
     update_model u (\<lambda>m. m\<lparr>curr_get_all_progress_perc := lround_percent a b\<rparr>) s"
| "deliver (Set_Result (Set_Cached u pid v log_result) ack n) s =
     set_result u pid v log_result (set_param_accepted ack) s"
| "deliver (Set_Result (Blocking u pid v) ack n) s = blocking_result u pid v (set_param_accepted ack) s"
| "deliver _ s = s"

text \<open>\<open>XParam\<close> has run: the callbacks it has called since.\<close>

definition with_xparam :: "client xparam \<Rightarrow> settings_app \<Rightarrow> settings_app" where
  "with_xparam x s = fold deliver (drop (length (calls (xp s))) (calls x)) (s\<lparr>xp := x\<rparr>)"

definition receive :: "param_message \<Rightarrow> u8 \<Rightarrow> u8 \<Rightarrow> settings_app \<Rightarrow> settings_app result" where
  "receive msg sysid compid s =
     rbind (process_message msg sysid compid (xp s)) (\<lambda>(x, _). Inr (with_xparam x s))"

definition check_timeouts :: "int \<Rightarrow> settings_app \<Rightarrow> settings_app result" where
  "check_timeouts now s = rbind (xparam_timeout now (xp s)) (\<lambda>x. Inr (with_xparam x s))"

fun run_ui_thread :: "settings_app \<Rightarrow> settings_app" where
  "run_ui_thread s =
     (case ui_queue s of
        [] \<Rightarrow> s
      | (u, params) # q \<Rightarrow> ui_thread_replace_param_set u params (s\<lparr>ui_queue := q\<rparr>))"

text \<open>The steps of a run. \<open>Other_Set\<close> is a request of another client of \<open>XParam\<close>.\<close>

datatype settings_event =
    System_Found unit_name
  | Refetch int unit_name bool
  | Set_Int int unit_name bytes "32 word" bool
  | Set_Text int unit_name bytes bytes bool
  | Other_Set int param_ext_set int int
  | Received param_message u8 u8
  | Timeout_Check int
  | Ui_Thread

fun settings_step :: "settings_event \<Rightarrow> settings_app \<Rightarrow> settings_app result" where
  "settings_step (System_Found u) s = Inr (set_ready u s)"
| "settings_step (Refetch now u log_result) s = Inr (try_refetch_all_parameters_async now u log_result s)"
| "settings_step (Set_Int now u pid v log_result) s = try_set_param_int_async now u pid v log_result s"
| "settings_step (Set_Text now u pid t log_result) s = try_set_param_string_async now u pid t log_result s"
| "settings_step (Other_Set now msg delay n) s =
     rbind (try_set_param_async now msg Other_Client False delay n (xp s)) (\<lambda>(x, _). Inr (s\<lparr>xp := x\<rparr>))"
| "settings_step (Received msg sysid compid) s = receive msg sysid compid s"
| "settings_step (Timeout_Check now) s = check_timeouts now s"
| "settings_step Ui_Thread s = Inr (run_ui_thread s)"

section \<open>What the parameter client reports\<close>

definition running_keys :: "'k xparam \<Rightarrow> 'k set" where
  "running_keys x = set_cb ` set (m_running_commands x)"

definition fetch_keys :: "'k xparam \<Rightarrow> 'k set" where
  "fetch_keys x = get_cb ` set (m_running_get_all x)"

fun call_from :: "'k xparam \<Rightarrow> 'k param_call \<Rightarrow> bool" where
  "call_from x (Set_Result k a n) \<longleftrightarrow> k \<in> running_keys x"
| "call_from x (Get_All_Result k ok ps) \<longleftrightarrow> k \<in> fetch_keys x"
| "call_from x (Progress k a b) \<longleftrightarrow> k \<in> fetch_keys x"

text \<open>\<open>x'\<close> follows \<open>x\<close> without a new request: the calls made belong to requests that were running, and every
  request that was running still is or has been answered.\<close>

definition served :: "'k xparam \<Rightarrow> 'k xparam \<Rightarrow> bool" where
  "served x x' \<longleftrightarrow> (\<exists>p. calls x' = calls x @ p \<and> list_all (call_from x) p)
     \<and> answered x' = answered x \<and> running_keys x' \<subseteq> running_keys x \<and> fetch_keys x' \<subseteq> fetch_keys x"

lemma call_from_mono:
  "call_from y c \<Longrightarrow> running_keys y \<subseteq> running_keys x \<Longrightarrow> fetch_keys y \<subseteq> fetch_keys x \<Longrightarrow> call_from x c"
  by (cases c) auto

lemma served_refl [simp]: "served x x"
  by (simp add: served_def)

lemma served_trans: "served x y \<Longrightarrow> served y z \<Longrightarrow> served x z"
  unfolding served_def by (auto simp: list_all_iff) (metis append_assoc call_from_mono)

lemma find_set_subset:
  assumes "find_remove_running_set ack sysid compid cs = Some (c, rest)"
  shows "set_cb ` set cs = insert (set_cb c) (set_cb ` set rest)"
  using arg_cong [OF find_set_keys [OF assms], of set_mset] by simp

lemma served_ack: "served x (fst (handle_param_ext_ack ack sysid compid x))"
proof (cases "find_remove_running_set ack sysid compid (m_running_commands x)")
  case (Some p)
  obtain c rest where p: "p = (c, rest)" by fastforce
  show ?thesis
    using find_set_subset [OF Some [unfolded p]] handle_ack_answered [of ack sysid compid x]
    by (auto simp: served_def handle_param_ext_ack_def Some p running_keys_def fetch_keys_def)
qed (simp add: handle_param_ext_ack_def)

lemma progress_key: "c \<in> set (update_progress_get_all r) \<Longrightarrow> \<exists>a b. c = Progress (get_cb r) a b"
  by (auto simp: update_progress_get_all_def Let_def split: if_splits)

definition progress_of :: "'k set \<Rightarrow> 'k param_call list \<Rightarrow> bool" where
  "progress_of K p \<longleftrightarrow> (\<forall>c \<in> set p. \<exists>k \<in> K. \<exists>a b. c = Progress k a b)"

lemma progress_of_append [simp]: "progress_of K (p @ q) \<longleftrightarrow> progress_of K p \<and> progress_of K q"
  by (auto simp: progress_of_def)

lemma progress_of_Nil [simp]: "progress_of K []"
  by (simp add: progress_of_def)

lemma progress_of_mono: "progress_of K p \<Longrightarrow> K \<subseteq> L \<Longrightarrow> progress_of L p"
  by (fastforce simp: progress_of_def)

lemma progress_of_update [simp]: "progress_of (insert (get_cb r) K) (update_progress_get_all (store_param v r))"
  unfolding progress_of_def using progress_key [of _ "store_param v r"] by fastforce

lemma find_get_subset:
  assumes "find_remove_running_get_all v sysid compid rs = Inr (l, f, prog)"
  shows "get_cb ` set rs = get_cb ` set l \<union> (case f of None \<Rightarrow> {} | Some r \<Rightarrow> {get_cb r})"
  using arg_cong [OF conjunct1 [OF find_get_keys [OF assms]], of set_mset]
  by (simp split: option.splits)

lemma find_get_progress:
  "find_remove_running_get_all v sysid compid rs = Inr (l, f, prog) \<Longrightarrow> progress_of (get_cb ` set rs) prog"
proof (induction rs arbitrary: sysid compid l f prog)
  case (Cons r rs)
  have tail: "progress_of (insert (get_cb r) (get_cb ` set rs)) p0"
    if "find_remove_running_get_all v sysid compid rs = Inr (l0, f0, p0)" for sysid compid l0 f0 p0
    using Cons.IH [OF that] by (rule progress_of_mono) auto
  from Cons.prems show ?case
    by (auto simp: find_remove_running_get_all.simps Let_def result_simps split: if_splits dest: tail)
qed (simp add: find_remove_running_get_all.simps)

lemma progress_call_from: "progress_of (fetch_keys x) p \<Longrightarrow> list_all (call_from x) p"
  by (fastforce simp: progress_of_def list_all_iff)

lemma served_value:
  assumes "handle_param_ext_value v sysid compid x = Inr (x', ok)"
  shows "served x x'"
proof -
  obtain l f prog where f: "find_remove_running_get_all v sysid compid (m_running_get_all x) = Inr (l, f, prog)"
    using assms by (auto simp: handle_param_ext_value_def result_simps)
  note keys = find_get_subset [OF f]
  have prog: "list_all (call_from x) prog"
    using find_get_progress [OF f] by (intro progress_call_from) (simp add: fetch_keys_def)
  have "fetch_keys x' \<subseteq> fetch_keys x" "running_keys x' = running_keys x"
      "\<exists>p. calls x' = calls x @ p \<and> list_all (call_from x) p"
    using assms keys prog
    by (auto simp: handle_param_ext_value_def f running_keys_def fetch_keys_def result_simps
        split: option.splits)
  with handle_value_answered [OF assms] show ?thesis
    by (simp add: served_def)
qed

lemma served_set_timeout:
  assumes "check_timeout_param_set now x = Inr x'"
  shows "served x x'"
proof -
  obtain l r t where loop: "timeout_loop (set_overdue now)
      (\<lambda>c. set_n_transmissions c < set_n_wanted_retransmissions c)
      (send_next_message_running_set now) (m_running_commands x) = Inr (l, r, t)"
    and x': "x' = x\<lparr>m_running_commands := l, sent := sent x @ map (\<lambda>c. Ext_Set (set_cmd c)) r,
                calls := calls x @ map (\<lambda>c. Set_Result (set_cb c) None (set_n_transmissions c)) t\<rparr>"
    using assms by (auto simp: check_timeout_param_set_def result_simps)
  have "set_cb ` set (m_running_commands x) = set_cb ` set l \<union> set_cb ` set t"
    using arg_cong [OF set_request.loop_keys [OF loop], of set_mset] by simp
  with timeout_set_answered [OF assms] show ?thesis
    by (auto simp: served_def x' running_keys_def fetch_keys_def list_all_iff)
qed

lemma served_get_timeout:
  assumes "check_timeout_param_get_all now x = Inr x'"
  shows "served x x'"
proof -
  obtain l r t where loop: "timeout_loop (get_overdue now)
      (\<lambda>r. get_n_transmissions r < get_n_wanted_retransmissions r)
      (send_next_message_running_get_all now) (m_running_get_all x) = Inr (l, r, t)"
    and x': "x' = x\<lparr>m_running_get_all := l, sent := sent x @ concat (map messages_get_all r),
                calls := calls x @ map (\<lambda>r. Get_All_Result (get_cb r) False []) t\<rparr>"
    using assms by (auto simp: check_timeout_param_get_all_def result_simps)
  have "get_cb ` set (m_running_get_all x) = get_cb ` set l \<union> get_cb ` set t"
    using arg_cong [OF get_request.loop_keys [OF loop], of set_mset] by simp
  with timeout_get_answered [OF assms] show ?thesis
    by (auto simp: served_def x' running_keys_def fetch_keys_def list_all_iff)
qed

lemma served_message:
  assumes "process_message msg sysid compid x = Inr (x', ok)"
  shows "served x x'"
proof (cases msg)
  case (Param_Ack ack)
  with assms served_ack [of x ack sysid compid] show ?thesis
    by (simp add: process_message_def)
qed (use assms served_value in \<open>auto simp: process_message_def\<close>)

lemma served_timeout: "xparam_timeout now x = Inr x' \<Longrightarrow> served x x'"
  by (auto simp: xparam_timeout_def result_simps
      intro: served_trans [OF served_get_timeout served_set_timeout])

section \<open>A busy model has one request under way\<close>

fun client_unit :: "client \<Rightarrow> unit_name option" where
  "client_unit (Fetch u log_result) = Some u"
| "client_unit (Set_Cached u pid v log_result) = Some u"
| "client_unit (Blocking u pid v) = Some u"
| "client_unit Other_Client = None"

fun set_client :: "client \<Rightarrow> bool" where
  "set_client (Set_Cached u pid v log_result) \<longleftrightarrow> True"
| "set_client Other_Client \<longleftrightarrow> True"
| "set_client _ \<longleftrightarrow> False"

fun fetch_client :: "client \<Rightarrow> bool" where
  "fetch_client (Fetch u log_result) \<longleftrightarrow> True"
| "fetch_client _ \<longleftrightarrow> False"

definition clients :: "client xparam \<Rightarrow> client multiset" where
  "clients x = mset (map set_cb (m_running_commands x)) + mset (map get_cb (m_running_get_all x))"

definition pending :: "unit_name \<Rightarrow> client xparam \<Rightarrow> nat" where
  "pending u x = size (filter_mset (\<lambda>k. client_unit k = Some u) (clients x))"

definition kinds_ok :: "client xparam \<Rightarrow> bool" where
  "kinds_ok x \<longleftrightarrow> (\<forall>k \<in> running_keys x. set_client k) \<and> (\<forall>k \<in> fetch_keys x. fetch_client k)"

definition settings_inv :: "settings_app \<Rightarrow> bool" where
  "settings_inv s \<longleftrightarrow> kinds_ok (xp s) \<and>
     (\<forall>u. ui_is_busy (models s u) = m_is_currently_busy (models s u)
        \<and> pending u (xp s) \<le> (if m_is_currently_busy (models s u) then 1 else 0))"

lemma update_model_sel [simp]:
  "models (update_model u f s) v = (if v = u then f (models s u) else models s v)"
  "xp (update_model u f s) = xp s" "ui_queue (update_model u f s) = ui_queue s"
  "dev_show_whitelisted_params (update_model u f s) = dev_show_whitelisted_params s"
  by (simp_all add: update_model_def)

lemma show_toast_sel [simp]:
  "models (show_toast t s) = models s" "xp (show_toast t s) = xp s" "ui_queue (show_toast t s) = ui_queue s"
  "dev_show_whitelisted_params (show_toast t s) = dev_show_whitelisted_params s"
  by (simp_all add: show_toast_def)

lemma perform_dirty_actions_sel [simp]:
  "models (perform_dirty_actions d s) = models s" "xp (perform_dirty_actions d s) = xp s"
  "ui_queue (perform_dirty_actions d s) = ui_queue s"
  "dev_show_whitelisted_params (perform_dirty_actions d s) = dev_show_whitelisted_params s"
  by (simp_all add: perform_dirty_actions_def Let_def split: variant.splits)

text \<open>What the operations on the data leave as it is.\<close>

definition flags_of :: "settings_model \<Rightarrow> bool \<times> bool" where
  "flags_of m = (m_is_currently_busy m, ui_is_busy m)"

lemma flags_of_sel [simp]:
  "flags_of (m\<lparr>m_data := d\<rparr>) = flags_of m" "flags_of (m\<lparr>has_params_fetched := b\<rparr>) = flags_of m"
  "flags_of (m\<lparr>curr_get_all_progress_perc := p\<rparr>) = flags_of m" "flags_of (m\<lparr>update_count := n\<rparr>) = flags_of m"
  "flags_of (m\<lparr>last_updated_param_id := i, last_updated_param_success := b\<rparr>) = flags_of m"
  "flags_of (m\<lparr>m_is_ready := b\<rparr>) = flags_of m" "flags_of (m\<lparr>m_is_currently_busy := a, ui_is_busy := b\<rparr>) = (a, b)"
  by (simp_all add: flags_of_def)

lemma updateData_sel [simp]:
  "flags_of (models (updateData u row d s) v) = flags_of (models s v)" "xp (updateData u row d s) = xp s"
  "ui_queue (updateData u row d s) = ui_queue s"
  by (simp_all add: updateData_def Let_def)

lemma addData_sel [simp]:
  "flags_of (models (addData u d s) v) = flags_of (models s v)" "xp (addData u d s) = xp s"
  "ui_queue (addData u d s) = ui_queue s"
  "dev_show_whitelisted_params (addData u d s) = dev_show_whitelisted_params s"
  by (simp_all add: addData_def Let_def)

lemma finalize_sel [simp]:
  "flags_of (models (finalize_update_param u pid v success log_result s) w) = flags_of (models s w)"
  "xp (finalize_update_param u pid v success log_result s) = xp s"
  "ui_queue (finalize_update_param u pid v success log_result s) = ui_queue s"
  by (simp_all add: finalize_update_param_def Let_def)

lemma set_busy_sel [simp]:
  "flags_of (models (set_busy u b s) v) = (if v = u then (b, b) else flags_of (models s v))"
  "xp (set_busy u b s) = xp s" "ui_queue (set_busy u b s) = ui_queue s"
  by (simp_all add: set_busy_def)

lemma fold_addData_sel [simp]:
  "flags_of (models (fold (addData u) ds s) v) = flags_of (models s v)"
  "xp (fold (addData u) ds s) = xp s" "ui_queue (fold (addData u) ds s) = ui_queue s"
  by (induction ds arbitrary: s) simp_all

lemma ui_thread_sel [simp]:
  "flags_of (models (run_ui_thread s) v) = flags_of (models s v)" "xp (run_ui_thread s) = xp s"
  by (simp_all add: ui_thread_replace_param_set_def split: list.splits)

lemma remove_and_replace_sel [simp]:
  "models (remove_and_replace_param_set u ps s) = models s" "xp (remove_and_replace_param_set u ps s) = xp s"
  by (simp_all add: remove_and_replace_param_set_def)

lemma deliver_xp [simp]: "xp (deliver c s) = xp s"
  by (cases "(c, s)" rule: deliver.cases)
    (simp_all add: fetch_result_def set_result_def blocking_result_def Let_def)

lemma fold_deliver_xp [simp]: "xp (fold deliver cs s) = xp s"
  by (induction cs arbitrary: s) simp_all

lemma with_xparam_xp [simp]: "xp (with_xparam x s) = x"
  by (simp add: with_xparam_def)

text \<open>The answer to a request makes its model idle again, every other call leaves the flags alone.\<close>

lemma deliver_flags:
  assumes "kinds_ok x" and "call_from x c"
  shows "flags_of (models (deliver c s) u) =
    (if \<exists>k \<in> set (result_key c). client_unit k = Some u then (False, False) else flags_of (models s u))"
  using assms
  by (cases "(c, s)" rule: deliver.cases)
    (auto simp: kinds_ok_def fetch_result_def set_result_def Let_def)

lemma fold_deliver_flags:
  assumes "kinds_ok x" and "list_all (call_from x) cs"
  shows "flags_of (models (fold deliver cs s) u) =
    (if \<exists>k \<in> set (result_keys cs). client_unit k = Some u then (False, False) else flags_of (models s u))"
  using assms(2)
  by (induction cs arbitrary: s) (auto simp: deliver_flags [OF assms(1)])

lemma with_xparam_inv:
  assumes "settings_inv s" and "served (xp s) x"
  shows "settings_inv (with_xparam x s)"
proof -
  obtain p where p: "calls x = calls (xp s) @ p" "list_all (call_from (xp s)) p"
    and a: "answered x = answered (xp s)"
    and sub: "running_keys x \<subseteq> running_keys (xp s)" "fetch_keys x \<subseteq> fetch_keys (xp s)"
    using assms(2) by (auto simp: served_def)
  have kinds: "kinds_ok (xp s)" "kinds_ok x"
    using assms(1) sub by (auto simp: settings_inv_def kinds_ok_def)
  have cl: "clients (xp s) = clients x + mset (result_keys p)"
    using a by (simp add: answered_def clients_def p(1) ac_simps)
  have "ui_is_busy (models (with_xparam x s) u) = m_is_currently_busy (models (with_xparam x s) u)
      \<and> pending u x \<le> (if m_is_currently_busy (models (with_xparam x s) u) then 1 else 0)" for u
  proof -
    let ?mine = "\<lambda>k. client_unit k = Some u"
    have fl: "flags_of (models (with_xparam x s) u) =
        (if \<exists>k \<in> set (result_keys p). ?mine k then (False, False) else flags_of (models s u))"
      using fold_deliver_flags [OF kinds(1) p(2), of "s\<lparr>xp := x\<rparr>" u] by (simp add: with_xparam_def p(1))
    have pd: "pending u (xp s) = pending u x + size (filter_mset ?mine (mset (result_keys p)))"
      by (simp add: pending_def cl)
    have old: "ui_is_busy (models s u) = m_is_currently_busy (models s u)"
        "pending u (xp s) \<le> (if m_is_currently_busy (models s u) then 1 else 0)"
      using assms(1) by (auto simp: settings_inv_def)
    show ?thesis
    proof (cases "\<exists>k \<in> set (result_keys p). ?mine k")
      case True
      then have "0 < size (filter_mset ?mine (mset (result_keys p)))"
        by (simp flip: mset_filter add: filter_empty_conv)
      with True fl pd old show ?thesis
        by (auto simp: flags_of_def split: if_splits)
    next
      case False
      with fl pd old show ?thesis by (auto simp: flags_of_def split: if_splits)
    qed
  qed
  with kinds show ?thesis by (simp add: settings_inv_def)
qed

lemma pending_requests:
  "pending u (x\<lparr>m_running_commands := cs @ [c], sent := snt\<rparr>) =
     pending u (x\<lparr>m_running_commands := cs\<rparr>) + (if client_unit (set_cb c) = Some u then 1 else 0)"
  "pending u (x\<lparr>m_running_get_all := rs @ [r], sent := snt\<rparr>) =
     pending u (x\<lparr>m_running_get_all := rs\<rparr>) + (if client_unit (get_cb r) = Some u then 1 else 0)"
  by (simp_all add: pending_def clients_def)

lemma set_param_request:
  assumes "try_set_param_async now msg k progress delay n x = Inr (x', ok)"
  shows "pending u x' = pending u x + (if ok \<and> client_unit k = Some u then 1 else 0)
     \<and> fetch_keys x' = fetch_keys x \<and> running_keys x' \<subseteq> insert k (running_keys x)
     \<and> ok = (length (m_running_commands x) < 5)"
  using assms
  by (auto simp: try_set_param_async_def result_simps Let_def pending_requests running_keys_def
      fetch_keys_def send_next_message_running_set_def MAX_N_SIMULTANOEUS_COMMANDS_def split: if_splits)

lemma get_all_request:
  "pending u (try_get_param_all_async now msg k progress x) = pending u x + (if client_unit k = Some u then 1 else 0)
     \<and> running_keys (try_get_param_all_async now msg k progress x) = running_keys x
     \<and> fetch_keys (try_get_param_all_async now msg k progress x) = insert k (fetch_keys x)"
  by (auto simp: try_get_param_all_async_def Let_def pending_requests running_keys_def fetch_keys_def
      send_next_message_running_get_all_def)

text \<open>Steps that do not touch requests and flags.\<close>

lemma settings_inv_cong:
  "settings_inv s \<Longrightarrow> xp t = xp s \<Longrightarrow> (\<And>u. flags_of (models t u) = flags_of (models s u)) \<Longrightarrow> settings_inv t"
  by (simp add: settings_inv_def flags_of_def)

lemma set_cached_inv:
  assumes "settings_inv s" and "set_param_cached now u msg pid v log_result s = Inr t"
  shows "settings_inv t"
proof (cases "m_is_currently_busy (models s u)")
  case True
  then have "t = finalize_update_param u pid v False log_result s"
    using assms(2) by (simp add: set_param_cached_def)
  then show ?thesis
    by (simp add: settings_inv_cong [OF assms(1)])
next
  case False
  then obtain x ok where x: "try_set_param_async now msg (Set_Cached u pid v log_result) False 300 10 (xp s) = Inr (x, ok)"
    and t: "t = (set_busy u True s)\<lparr>xp := x\<rparr>"
    using assms(2) by (auto simp: set_param_cached_def result_simps)
  have fl: "flags_of (models t w) = (if w = u then (True, True) else flags_of (models s w))" for w
    by (simp add: t)
  have old: "pending w (xp s) \<le> (if m_is_currently_busy (models s w) then 1 else 0)" for w
    using assms(1) by (simp add: settings_inv_def)
  have "kinds_ok x"
    using assms(1) set_param_request [OF x, of u] by (auto simp: settings_inv_def kinds_ok_def)
  moreover have "ui_is_busy (models t w) = m_is_currently_busy (models t w)
      \<and> pending w x \<le> (if m_is_currently_busy (models t w) then 1 else 0)" for w
    using fl [of w] old [of w] False set_param_request [OF x, of w] assms(1)
    by (auto simp: flags_of_def settings_inv_def split: if_splits)
  ultimately show ?thesis
    by (simp add: settings_inv_def t)
qed

lemma refetch_inv:
  assumes "settings_inv s"
  shows "settings_inv (try_refetch_all_parameters_async now u log_result s)"
proof (cases "m_is_ready (models s u) \<and> \<not> m_is_currently_busy (models s u)")
  case True
  let ?t = "try_refetch_all_parameters_async now u log_result s"
  let ?msg = "create_cmd_get_all (m_sys_id u) (m_comp_id u)"
  have xp: "xp ?t = try_get_param_all_async now ?msg (Fetch u log_result) True (xp s)"
    and fl: "flags_of (models ?t w) = (if w = u then (True, True) else flags_of (models s w))" for w
    using True by (simp_all add: try_refetch_all_parameters_async_def Let_def)
  have req: "pending w (xp ?t) = pending w (xp s) + (if u = w then 1 else 0)"
      "running_keys (xp ?t) = running_keys (xp s)"
      "fetch_keys (xp ?t) = insert (Fetch u log_result) (fetch_keys (xp s))" for w
    using get_all_request [of w now ?msg "Fetch u log_result" True "xp s"] unfolding xp by auto
  have "kinds_ok (xp ?t)"
    using assms req by (auto simp: settings_inv_def kinds_ok_def)
  moreover have "ui_is_busy (models ?t w) = m_is_currently_busy (models ?t w)
      \<and> pending w (xp ?t) \<le> (if m_is_currently_busy (models ?t w) then 1 else 0)" for w
    using assms fl [of w] True req(1) [of w]
    by (auto simp: flags_of_def settings_inv_def split: if_splits)
  ultimately show ?thesis by (simp add: settings_inv_def)
next
  case False
  then show ?thesis
    using assms by (auto simp: try_refetch_all_parameters_async_def intro: settings_inv_cong)
qed

lemma settings_step_inv:
  assumes "settings_inv s" and "settings_step e s = Inr t"
  shows "settings_inv t"
proof (cases e)
  case (System_Found u)
  with assms show ?thesis by (auto simp: set_ready_def intro: settings_inv_cong)
next
  case (Refetch now u log_result)
  with assms show ?thesis by (auto simp: refetch_inv)
next
  case (Set_Int now u pid v log_result)
  with assms show ?thesis by (auto simp: try_set_param_int_async_def set_cached_inv)
next
  case (Set_Text now u pid t log_result)
  with assms show ?thesis by (auto simp: try_set_param_string_async_def set_cached_inv)
next
  case (Other_Set now msg delay n)
  then obtain x ok where x: "try_set_param_async now msg Other_Client False delay n (xp s) = Inr (x, ok)"
    and t: "t = s\<lparr>xp := x\<rparr>"
    using assms(2) by (auto simp: result_simps)
  have "kinds_ok x"
    using assms(1) set_param_request [OF x, of Air] unfolding settings_inv_def kinds_ok_def
    by (metis insertE set_client.simps(2) subsetD)
  with set_param_request [OF x] assms(1) show ?thesis
    by (simp add: t settings_inv_def)
next
  case (Received msg sysid compid)
  with assms show ?thesis
    by (auto simp: receive_def result_simps intro: with_xparam_inv served_message)
next
  case (Timeout_Check now)
  with assms show ?thesis
    by (auto simp: check_timeouts_def result_simps intro: with_xparam_inv served_timeout)
next
  case Ui_Thread
  with assms show ?thesis by (auto intro: settings_inv_cong simp del: run_ui_thread.simps)
qed

lemma settings_inv_new: "settings_inv settings_app_new"
  by (simp add: settings_inv_def settings_app_new_def settings_model_new_def xparam_new_def kinds_ok_def
      running_keys_def fetch_keys_def pending_def clients_def)

section \<open>Blocking changes in a run\<close>

text \<open>A run of the models with blocking changes. A blocking change holds up the user interface, but neither messages nor time-outs nor
  the automatic fetch; its result comes through \<open>XParam\<close> like all others.\<close>

datatype model_event =
    Model_Event settings_event
  | Update_Int int unit_name bytes "32 word"
  | Update_Text int unit_name bytes bytes

fun model_step :: "model_event \<Rightarrow> settings_app \<Rightarrow> settings_app result" where
  "model_step (Model_Event e) s = settings_step e s"
| "model_step (Update_Int now u pid v) s = try_update_parameter_int now u pid v s"
| "model_step (Update_Text now u pid t) s = try_update_parameter_string now u pid t s"

fun blocks :: "unit_name \<Rightarrow> model_event \<Rightarrow> bool" where
  "blocks u (Model_Event e) \<longleftrightarrow> False"
| "blocks u (Update_Int now v pid x) \<longleftrightarrow> v = u"
| "blocks u (Update_Text now v pid t) \<longleftrightarrow> v = u"

text \<open>The blocking changes of a model begin while it is idle; the program does not look.\<close>

fun blocking_when_idle :: "unit_name \<Rightarrow> model_event list \<Rightarrow> settings_app \<Rightarrow> bool" where
  "blocking_when_idle u [] s \<longleftrightarrow> True"
| "blocking_when_idle u (e # es) s \<longleftrightarrow>
     (blocks u e \<longrightarrow> \<not> m_is_currently_busy (models s u))
     \<and> (case model_step e s of Inl fault \<Rightarrow> True | Inr t \<Rightarrow> blocking_when_idle u es t)"

fun blocking_client :: "unit_name \<Rightarrow> client \<Rightarrow> bool" where
  "blocking_client u (Blocking v pid x) \<longleftrightarrow> v = u"
| "blocking_client u _ \<longleftrightarrow> False"

definition blocking_pending :: "unit_name \<Rightarrow> client xparam \<Rightarrow> bool" where
  "blocking_pending u x \<longleftrightarrow> (\<exists>k \<in># clients x. blocking_client u k)"

definition sorted_out :: "client xparam \<Rightarrow> bool" where
  "sorted_out x \<longleftrightarrow> (\<forall>k \<in> running_keys x. \<not> fetch_client k) \<and> (\<forall>k \<in> fetch_keys x. fetch_client k)"

definition unit_inv :: "unit_name \<Rightarrow> settings_app \<Rightarrow> bool" where
  "unit_inv u s \<longleftrightarrow> sorted_out (xp s)
     \<and> pending u (xp s) \<le> (if m_is_currently_busy (models s u) then 1 else 0)
     \<and> ui_is_busy (models s u) = (m_is_currently_busy (models s u) \<and> \<not> blocking_pending u (xp s))"

lemma unit_inv_cong:
  "unit_inv u s \<Longrightarrow> xp t = xp s \<Longrightarrow> flags_of (models t u) = flags_of (models s u) \<Longrightarrow> unit_inv u t"
  by (simp add: unit_inv_def flags_of_def)

lemma blocking_unit: "blocking_client u k \<Longrightarrow> client_unit k = Some u"
  by (cases "(u, k)" rule: blocking_client.cases) auto

lemma none_blocking:
  assumes "pending u x = 0"
  shows "\<not> blocking_pending u x"
proof -
  have "set_mset (filter_mset (\<lambda>k. client_unit k = Some u) (clients x)) = {}" using assms by (simp add: pending_def)
  then show ?thesis using blocking_unit by (auto simp: blocking_pending_def)
qed

lemma blocking_keys: "blocking_pending u x \<longleftrightarrow> (\<exists>k \<in> running_keys x \<union> fetch_keys x. blocking_client u k)"
  by (simp add: blocking_pending_def clients_def running_keys_def fetch_keys_def)

lemma blocking_result_sel [simp]:
  "xp (blocking_result u pid v ok s) = xp s"
  "flags_of (models (blocking_result u pid v ok s) w) =
     (if w = u then (False, ui_is_busy (models s u)) else flags_of (models s w))"
  by (auto simp: blocking_result_def Let_def) (auto simp: flags_of_def)

lemma deliver_unit:
  assumes "sorted_out x" and "call_from x c"
  shows "flags_of (models (deliver c s) u) =
    (if \<exists>k \<in> set (result_key c). client_unit k = Some u
     then (False, if \<exists>k \<in> set (result_key c). blocking_client u k then ui_is_busy (models s u) else False)
     else flags_of (models s u))"
  using assms
  by (cases "(c, s)" rule: deliver.cases)
    (auto simp: sorted_out_def fetch_result_def set_result_def Let_def)

lemma fold_deliver_unit:
  assumes "sorted_out x" and "list_all (call_from x) cs"
  shows "flags_of (models (fold deliver cs s) u) =
    (if \<exists>k \<in> set (result_keys cs). client_unit k = Some u
     then (False, ui_is_busy (models s u) \<and> (\<forall>k \<in> set (result_keys cs). client_unit k = Some u \<longrightarrow> blocking_client u k))
     else flags_of (models s u))"
  using assms(2)
proof (induction cs arbitrary: s)
  case (Cons c cs)
  have one: "result_key c = [] \<or> (\<exists>k. result_key c = [k])" by (cases c) auto
  have c: "call_from x c" "list_all (call_from x) cs" using Cons.prems by simp_all
  note d = deliver_unit [OF assms(1) c(1), of s u]
  from one show ?case
  proof
    assume none: "result_key c = []"
    with d have "ui_is_busy (models (deliver c s) u) = ui_is_busy (models s u)" by (simp add: flags_of_def)
    with none d Cons.IH [OF c(2), of "deliver c s"] show ?thesis by auto
  next
    assume "\<exists>k. result_key c = [k]"
    then obtain k where k: "result_key c = [k]" by blast
    show ?thesis
    proof (cases "client_unit k = Some u")
      case True
      then have "flags_of (models (deliver c s) u) = (False, blocking_client u k \<and> ui_is_busy (models s u))" using d k by simp
      with Cons.IH [OF c(2), of "deliver c s"] True k show ?thesis
        by (cases "blocking_client u k") (auto simp: flags_of_def)
    next
      case False
      then have "flags_of (models (deliver c s) u) = flags_of (models s u)" using d k by simp
      moreover from this have "ui_is_busy (models (deliver c s) u) = ui_is_busy (models s u)" by (simp add: flags_of_def)
      ultimately show ?thesis using Cons.IH [OF c(2), of "deliver c s"] False k by auto
    qed
  qed
qed simp

lemma with_xparam_unit:
  assumes "unit_inv u s" and "served (xp s) x"
  shows "unit_inv u (with_xparam x s)"
proof -
  obtain p where p: "calls x = calls (xp s) @ p" "list_all (call_from (xp s)) p"
    and a: "answered x = answered (xp s)"
    and sub: "running_keys x \<subseteq> running_keys (xp s)" "fetch_keys x \<subseteq> fetch_keys (xp s)"
    using assms(2) by (auto simp: served_def)
  have kinds: "sorted_out (xp s)" "sorted_out x"
    using assms(1) sub by (auto simp: unit_inv_def sorted_out_def)
  let ?mine = "\<lambda>k. client_unit k = Some u"
  have cl: "clients (xp s) = clients x + mset (result_keys p)"
    using a by (simp add: answered_def clients_def p(1) ac_simps)
  then have pd: "pending u (xp s) = pending u x + size (filter_mset ?mine (mset (result_keys p)))"
    by (simp add: pending_def)
  have blocking: "blocking_pending u (xp s) \<longleftrightarrow> blocking_pending u x \<or> (\<exists>k \<in> set (result_keys p). blocking_client u k)"
    by (auto simp: blocking_pending_def cl)
  have wx: "with_xparam x s = fold deliver p (s\<lparr>xp := x\<rparr>)" by (simp add: with_xparam_def p(1))
  have fl: "flags_of (models (with_xparam x s) u) =
      (if \<exists>k \<in> set (result_keys p). ?mine k
       then (False, ui_is_busy (models s u) \<and> (\<forall>k \<in> set (result_keys p). ?mine k \<longrightarrow> blocking_client u k))
       else flags_of (models s u))"
    unfolding wx fold_deliver_unit [OF kinds(1) p(2)] by simp
  have old: "pending u (xp s) \<le> (if m_is_currently_busy (models s u) then 1 else 0)"
    "ui_is_busy (models s u) = (m_is_currently_busy (models s u) \<and> \<not> blocking_pending u (xp s))"
    using assms(1) by (simp_all add: unit_inv_def)
  show ?thesis
  proof (cases "\<exists>k \<in> set (result_keys p). ?mine k")
    case True
    then obtain k where k: "k \<in> set (result_keys p)" "?mine k" by blast
    then have "0 < size (filter_mset ?mine (mset (result_keys p)))"
      by (auto simp flip: mset_filter simp: filter_empty_conv)
    with pd old(1) have "pending u x = 0" by (auto split: if_splits)
    moreover have "\<not> ui_is_busy (models (with_xparam x s) u) \<and> \<not> m_is_currently_busy (models (with_xparam x s) u)"
      using fl k old(2) blocking by (auto simp: flags_of_def split: if_splits)
    ultimately show ?thesis using kinds(2) by (simp add: unit_inv_def)
  next
    case False
    then have "pending u x = pending u (xp s)" "blocking_pending u x = blocking_pending u (xp s)"
      using pd blocking blocking_unit by (auto simp flip: mset_filter simp: filter_empty_conv)
    with False fl old kinds(2) show ?thesis by (simp add: unit_inv_def flags_of_def)
  qed
qed

lemma set_param_blocking:
  assumes "try_set_param_async now msg k progress delay n x = Inr (x', ok)"
  shows "blocking_pending u x' \<longleftrightarrow> blocking_pending u x \<or> (ok \<and> blocking_client u k)"
proof -
  have "running_keys x' = (if ok then insert k (running_keys x) else running_keys x) \<and> fetch_keys x' = fetch_keys x"
    using assms
    by (auto simp: try_set_param_async_def result_simps Let_def running_keys_def fetch_keys_def
        send_next_message_running_set_def split: if_splits)
  then show ?thesis by (auto simp: blocking_keys)
qed

lemma get_all_blocking:
  "blocking_pending u (try_get_param_all_async now msg k progress x) \<longleftrightarrow> blocking_pending u x \<or> blocking_client u k"
  using get_all_request [of u now msg k progress x] by (auto simp: blocking_keys)

lemma set_param_sorted:
  assumes "try_set_param_async now msg k progress delay n x = Inr (x', ok)" and "sorted_out x" and "\<not> fetch_client k"
  shows "sorted_out x'"
  using assms(2,3) set_param_request [OF assms(1)] unfolding sorted_out_def by blast

lemma set_cached_unit:
  assumes "unit_inv u s" and "set_param_cached now v msg pid val log_result s = Inr t"
  shows "unit_inv u t"
proof (cases "m_is_currently_busy (models s v)")
  case True
  then have "t = finalize_update_param v pid val False log_result s"
    using assms(2) by (simp add: set_param_cached_def)
  then show ?thesis by (simp add: unit_inv_cong [OF assms(1)])
next
  case False
  then obtain x ok where x: "try_set_param_async now msg (Set_Cached v pid val log_result) False 300 10 (xp s) = Inr (x, ok)"
    and t: "t = (set_busy v True s)\<lparr>xp := x\<rparr>"
    using assms(2) by (auto simp: set_param_cached_def result_simps)
  have fl: "flags_of (models t u) = (if u = v then (True, True) else flags_of (models s u))" by (simp add: t)
  have "sorted_out x" using set_param_sorted [OF x] assms(1) by (simp add: unit_inv_def)
  with fl False assms(1) set_param_request [OF x, of u] set_param_blocking [OF x, of u] none_blocking [of u "xp s"] show ?thesis
    by (auto simp: unit_inv_def flags_of_def t split: if_splits)
qed

lemma refetch_unit:
  assumes "unit_inv u s"
  shows "unit_inv u (try_refetch_all_parameters_async now v log_result s)"
proof (cases "m_is_ready (models s v) \<and> \<not> m_is_currently_busy (models s v)")
  case True
  let ?t = "try_refetch_all_parameters_async now v log_result s"
  let ?msg = "create_cmd_get_all (m_sys_id v) (m_comp_id v)"
  have xp: "xp ?t = try_get_param_all_async now ?msg (Fetch v log_result) True (xp s)"
    and fl: "flags_of (models ?t u) = (if u = v then (True, True) else flags_of (models s u))"
    using True by (simp_all add: try_refetch_all_parameters_async_def Let_def)
  have "sorted_out (xp ?t)"
    using assms get_all_request [of v now ?msg "Fetch v log_result" True "xp s"]
    by (auto simp: xp unit_inv_def sorted_out_def)
  with fl True assms get_all_request [of u now ?msg "Fetch v log_result" True "xp s"]
    get_all_blocking [of u now ?msg "Fetch v log_result" True "xp s"] none_blocking [of u "xp s"]
  show ?thesis by (auto simp: unit_inv_def flags_of_def xp split: if_splits)
next
  case False
  then show ?thesis
    using assms by (auto simp: try_refetch_all_parameters_async_def intro: unit_inv_cong)
qed

lemma update_blocking_unit:
  assumes "unit_inv u s" and "update_blocking now v msg pid val s = Inr t" and "v = u \<longrightarrow> \<not> m_is_currently_busy (models s u)"
  shows "unit_inv u t"
proof -
  let ?s1 = "update_model v (\<lambda>m. m\<lparr>m_is_currently_busy := True\<rparr>) s"
  obtain x ok where x: "try_set_param_async now msg (Blocking v pid val) False 500 3 (xp s) = Inr (x, ok)"
    and t: "t = (if ok then ?s1\<lparr>xp := x\<rparr> else blocking_result v pid val False ?s1)"
    using assms(2) by (auto simp: update_blocking_def Let_def result_simps)
  have idle: "pending u (xp s) = 0" "\<not> ui_is_busy (models s u)" if "v = u"
    using assms(1,3) that by (auto simp: unit_inv_def)
  note req = set_param_request [OF x, of u] set_param_blocking [OF x, of u]
  have sorted: "sorted_out x" using set_param_sorted [OF x] assms(1) by (simp add: unit_inv_def)
  show ?thesis
  proof (cases ok)
    case True
    with t sorted req idle assms(1) show ?thesis by (auto simp: unit_inv_def)
  next
    case False
    have "flags_of (models t u) = flags_of (models s u)"
      using False idle assms(3) by (auto simp: t) (auto simp: flags_of_def)
    with False show ?thesis by (intro unit_inv_cong [OF assms(1)]) (simp_all add: t)
  qed
qed

lemma settings_step_unit:
  assumes "unit_inv u s" and "settings_step e s = Inr t"
  shows "unit_inv u t"
proof (cases e)
  case (System_Found v)
  with assms show ?thesis by (auto simp: set_ready_def intro: unit_inv_cong)
next
  case (Refetch now v log_result)
  with assms show ?thesis by (auto simp: refetch_unit)
next
  case (Set_Int now v pid val log_result)
  with assms show ?thesis by (auto simp: try_set_param_int_async_def set_cached_unit)
next
  case (Set_Text now v pid t log_result)
  with assms show ?thesis by (auto simp: try_set_param_string_async_def set_cached_unit)
next
  case (Other_Set now msg delay n)
  then obtain x ok where x: "try_set_param_async now msg Other_Client False delay n (xp s) = Inr (x, ok)"
    and t: "t = s\<lparr>xp := x\<rparr>"
    using assms(2) by (auto simp: result_simps)
  have "sorted_out x" using set_param_sorted [OF x] assms(1) by (simp add: unit_inv_def)
  with set_param_request [OF x, of u] set_param_blocking [OF x, of u] assms(1) show ?thesis
    by (simp add: t unit_inv_def)
next
  case (Received msg sysid compid)
  with assms show ?thesis
    by (auto simp: receive_def result_simps intro: with_xparam_unit served_message)
next
  case (Timeout_Check now)
  with assms show ?thesis
    by (auto simp: check_timeouts_def result_simps intro: with_xparam_unit served_timeout)
next
  case Ui_Thread
  with assms show ?thesis by (auto intro: unit_inv_cong simp del: run_ui_thread.simps)
qed

lemma model_step_unit:
  assumes "unit_inv u s" and "model_step e s = Inr t" and "blocks u e \<longrightarrow> \<not> m_is_currently_busy (models s u)"
  shows "unit_inv u t"
  using assms
  by (cases e) (auto simp: try_update_parameter_int_def try_update_parameter_string_def
      intro: settings_step_unit update_blocking_unit simp del: settings_step.simps)

lemma unit_inv_new: "unit_inv u settings_app_new"
  by (simp add: unit_inv_def settings_app_new_def settings_model_new_def xparam_new_def sorted_out_def
      running_keys_def fetch_keys_def pending_def clients_def)

text \<open>C31. However the user, the units, the time-outs and the UI thread interleave, a settings model never has more than one request
  under way that was made with a callback of its own, and none while it is idle; the flag shown by the user interface says that it is busy, unless the
  request is a blocking change, which the flag does not show. Blocking changes are part of the runs; those of this model must
  begin while it is idle, which the program does not look at (\<open>blocking_update_ends_busy\<close>).\<close>

theorem one_request_per_model:
  assumes "rfold model_step es settings_app_new = Inr s" and "blocking_when_idle u es settings_app_new"
  shows "pending u (xp s) \<le> (if m_is_currently_busy (models s u) then 1 else 0)
    \<and> ui_is_busy (models s u) = (m_is_currently_busy (models s u) \<and> \<not> blocking_pending u (xp s))"
proof -
  have "unit_inv u s" if "unit_inv u a" "rfold model_step es a = Inr s" "blocking_when_idle u es a" for a
    using that
  proof (induction es arbitrary: a)
    case (Cons e es)
    then obtain b where b: "model_step e a = Inr b" "rfold model_step es b = Inr s" by (auto simp: result_simps)
    with Cons.prems model_step_unit [OF Cons.prems(1) b(1)] Cons.IH [of b] show ?case by simp
  qed simp
  from this [OF unit_inv_new assms] show ?thesis by (simp add: unit_inv_def)
qed

definition demo_requests :: "model_event list" where
  "demo_requests = map Model_Event [System_Found Ground, Refetch 0 Ground False, Set_Int 1 Ground [0x41] 5 False,
     Set_Int 2 Air [0x42] 7 True, Received (Param_Value (demo_value 1 0)) 100 191] @ [Update_Int 3 Ground [0x43] 9]"

theorem one_request_per_model_witness:
  "\<exists>s. rfold model_step demo_requests settings_app_new = Inr s \<and> pending Ground (xp s) = 1
     \<and> \<not> ui_is_busy (models s Ground) \<and> m_is_currently_busy (models s Ground)
     \<and> pending Air (xp s) = 1 \<and> m_is_currently_busy (models s Air) \<and> ui_is_busy (models s Air)"
proof -
  note run = demo_requests_def settings_app_new_def settings_model_new_def xparam_new_def
        set_ready_def update_model_def try_refetch_all_parameters_async_def set_busy_def Let_def
        try_get_param_all_async_def send_next_message_running_get_all_def create_cmd_get_all_def
        try_set_param_int_async_def set_param_cached_def finalize_update_param_def
        try_set_param_async_def MAX_N_SIMULTANOEUS_COMMANDS_def send_next_message_running_set_def
        receive_def process_message_def handle_param_ext_value_def find_remove_running_get_all.simps
        store_param_def get_missing_count_def update_progress_get_all_def with_xparam_def
        fetch_result_def remove_and_replace_param_set_def pending_def clients_def
        try_update_parameter_int_def update_blocking_def blocking_pending_def
  obtain s where s: "rfold model_step demo_requests settings_app_new = Inr s"
    "pending Ground (xp s) = 1" "pending Air (xp s) = 1" "blocking_pending Ground (xp s)" "\<not> blocking_pending Air (xp s)"
    by (simp add: run)
  have idle: "blocking_when_idle Ground demo_requests settings_app_new" "blocking_when_idle Air demo_requests settings_app_new"
    by (simp_all add: run)
  show ?thesis
    using one_request_per_model [OF s(1) idle(1)] one_request_per_model [OF s(1) idle(2)] s
    by (intro exI [of _ s]) (auto split: if_splits)
qed

section \<open>A refused request\<close>

text \<open>A model that is busy without a request under way never becomes idle again.\<close>

definition stuck :: "unit_name \<Rightarrow> settings_app \<Rightarrow> bool" where
  "stuck u s \<longleftrightarrow> settings_inv s \<and> m_is_currently_busy (models s u) \<and> pending u (xp s) = 0"

lemma with_xparam_stuck:
  assumes "stuck u s" and "served (xp s) x"
  shows "stuck u (with_xparam x s)"
proof -
  obtain p where p: "calls x = calls (xp s) @ p" "list_all (call_from (xp s)) p"
    and a: "answered x = answered (xp s)"
    using assms(2) by (auto simp: served_def)
  have cl: "clients (xp s) = clients x + mset (result_keys p)"
    using a by (simp add: answered_def clients_def p(1) ac_simps)
  have "filter_mset (\<lambda>k. client_unit k = Some u) (clients (xp s)) = {#}"
    using assms(1) by (simp add: stuck_def pending_def)
  then have none: "pending u x = 0" "\<not> (\<exists>k \<in> set (result_keys p). client_unit k = Some u)"
    by (auto simp: cl pending_def filter_empty_conv simp flip: mset_filter)
  have "flags_of (models (with_xparam x s) u) = flags_of (models s u)"
    using none(2) assms(1) fold_deliver_flags [OF _ p(2), of "s\<lparr>xp := x\<rparr>" u]
    by (simp add: with_xparam_def p(1) stuck_def settings_inv_def)
  with none(1) assms with_xparam_inv show ?thesis
    by (auto simp: stuck_def flags_of_def)
qed

lemma stuck_cong:
  "stuck u s \<Longrightarrow> xp t = xp s \<Longrightarrow> (\<And>v. flags_of (models t v) = flags_of (models s v)) \<Longrightarrow> stuck u t"
  using settings_inv_cong [of s t] by (auto simp: stuck_def flags_of_def)

lemma set_cached_stuck:
  assumes "stuck u s" and "set_param_cached now v msg pid val log_result s = Inr t"
  shows "stuck u t"
proof (cases "m_is_currently_busy (models s v)")
  case True
  then have "t = finalize_update_param v pid val False log_result s"
    using assms(2) by (simp add: set_param_cached_def)
  then show ?thesis by (simp add: stuck_cong [OF assms(1)])
next
  case False
  then obtain x ok where x: "try_set_param_async now msg (Set_Cached v pid val log_result) False 300 10 (xp s) = Inr (x, ok)"
    and t: "t = (set_busy v True s)\<lparr>xp := x\<rparr>"
    using assms(2) by (auto simp: set_param_cached_def result_simps)
  have "v \<noteq> u" using False assms(1) by (auto simp: stuck_def)
  then have "pending u x = 0" "flags_of (models t u) = flags_of (models s u)"
    using assms(1) set_param_request [OF x, of u] by (auto simp: stuck_def t)
  with assms set_cached_inv show ?thesis
    by (auto simp: stuck_def flags_of_def t)
qed

lemma refetch_stuck:
  assumes "stuck u s"
  shows "stuck u (try_refetch_all_parameters_async now v log_result s)"
proof (cases "m_is_ready (models s v) \<and> \<not> m_is_currently_busy (models s v)")
  case True
  then have "v \<noteq> u" using assms by (auto simp: stuck_def)
  then have "pending u (xp (try_refetch_all_parameters_async now v log_result s)) = 0"
      "flags_of (models (try_refetch_all_parameters_async now v log_result s) u) = flags_of (models s u)"
    using True assms get_all_request [of u now _ "Fetch v log_result" True "xp s"]
    by (auto simp: stuck_def try_refetch_all_parameters_async_def Let_def)
  with assms refetch_inv show ?thesis by (auto simp: stuck_def flags_of_def)
next
  case False
  then show ?thesis
    using assms by (auto simp: try_refetch_all_parameters_async_def intro: stuck_cong)
qed

lemma settings_step_stuck:
  assumes "stuck u s" and "settings_step e s = Inr t"
  shows "stuck u t"
proof (cases e)
  case (System_Found v)
  with assms show ?thesis by (auto simp: set_ready_def intro: stuck_cong)
next
  case (Refetch now v log_result)
  with assms show ?thesis by (auto simp: refetch_stuck)
next
  case (Set_Int now v pid val log_result)
  with assms show ?thesis by (auto simp: try_set_param_int_async_def set_cached_stuck)
next
  case (Set_Text now v pid t' log_result)
  with assms show ?thesis by (auto simp: try_set_param_string_async_def set_cached_stuck)
next
  case (Other_Set now msg delay n)
  then obtain x ok where x: "try_set_param_async now msg Other_Client False delay n (xp s) = Inr (x, ok)"
    and t: "t = s\<lparr>xp := x\<rparr>"
    using assms(2) by (auto simp: result_simps)
  have "settings_inv t"
    using assms settings_step_inv by (auto simp: stuck_def)
  with set_param_request [OF x, of u] assms(1) show ?thesis
    by (simp add: stuck_def t)
next
  case (Received msg sysid compid)
  with assms show ?thesis
    by (auto simp: receive_def result_simps intro: with_xparam_stuck served_message)
next
  case (Timeout_Check now)
  with assms show ?thesis
    by (auto simp: check_timeouts_def result_simps intro: with_xparam_stuck served_timeout)
next
  case Ui_Thread
  with assms show ?thesis by (auto intro: stuck_cong simp del: run_ui_thread.simps)
qed

text \<open>The result of \<open>try_set_param_async\<close> is not looked at: when an idle model changes a parameter while five
  set requests are under way, the request is refused without a callback, and from then on the model is
  busy for ever, whatever arrives and whatever the user tries; every later change is reported as a
  failure and the parameters cannot be fetched again.\<close>

theorem refused_request_blocks_model:
  assumes "rfold settings_step es settings_app_new = Inr s" and "\<not> m_is_currently_busy (models s u)"
    and "5 \<le> length (m_running_commands (xp s))"
    and "rfold settings_step (Set_Int now u pid v log_result # es') s = Inr t"
  shows "m_is_currently_busy (models t u) \<and> ui_is_busy (models t u) \<and> pending u (xp t) = 0
    \<and> xp (try_refetch_all_parameters_async now' u b t) = xp t
    \<and> try_set_param_int_async now' u pid' v' b t = Inr (finalize_update_param u pid' (Int32 v') False b t)"
proof -
  have inv: "settings_inv s"
    by (rule rfold_invariant [where P = settings_inv, OF assms(1) settings_inv_new]) (rule settings_step_inv)
  obtain s1 where s1: "try_set_param_int_async now u pid v log_result s = Inr s1"
    and rest: "rfold settings_step es' s1 = Inr t"
    using assms(4) by (auto simp: result_simps)
  then obtain x ok where x: "try_set_param_async now (create_cmd_set_int (m_sys_id u) (m_comp_id u) pid v)
      (Set_Cached u pid (Int32 v) log_result) False 300 10 (xp s) = Inr (x, ok)"
    and s1': "s1 = (set_busy u True s)\<lparr>xp := x\<rparr>"
    using assms(2) by (auto simp: try_set_param_int_async_def set_param_cached_def result_simps)
  have "settings_inv s1"
    using set_cached_inv [OF inv] s1 unfolding try_set_param_int_async_def by blast
  moreover have "flags_of (models s1 u) = (True, True)"
    by (simp add: s1')
  moreover have "pending u (xp s1) = 0"
    using set_param_request [OF x, of u] assms(2,3) inv
    by (auto simp: s1' settings_inv_def dest!: spec [of _ u])
  ultimately have "stuck u s1"
    by (simp add: stuck_def flags_of_def)
  then have "stuck u t"
    by (rule rfold_invariant [where P = "stuck u", OF rest]) (rule settings_step_stuck)
  then show ?thesis
    by (simp add: stuck_def settings_inv_def try_refetch_all_parameters_async_def try_set_param_int_async_def
        set_param_cached_def)
qed

definition demo_others :: "settings_event list" where
  "demo_others = replicate 5 (Other_Set 0 (create_cmd_set_int 101 191 [0x41] 5) 300 10)"

theorem refused_request_blocks_model_witness:
  "\<exists>t. rfold settings_step (demo_others @ [Set_Int 1 Ground [0x42] 7 False, Ui_Thread]) settings_app_new = Inr t
     \<and> m_is_currently_busy (models t Ground) \<and> pending Ground (xp t) = 0"
proof -
  obtain s where s: "rfold settings_step demo_others settings_app_new = Inr s"
    "length (m_running_commands (xp s)) = 5" "models s = models settings_app_new"
    by (simp add: demo_others_def eval_nat_numeral settings_app_new_def xparam_new_def
        try_set_param_async_def MAX_N_SIMULTANOEUS_COMMANDS_def send_next_message_running_set_def Let_def)
  then obtain t where t: "rfold settings_step (Set_Int 1 Ground [0x42] 7 False # [Ui_Thread]) s = Inr t"
    by (simp add: settings_app_new_def settings_model_new_def try_set_param_int_async_def set_param_cached_def
        try_set_param_async_def MAX_N_SIMULTANOEUS_COMMANDS_def)
  have idle: "\<not> m_is_currently_busy (models s Ground)"
    using s(3) by (simp add: settings_app_new_def settings_model_new_def)
  show ?thesis
    using refused_request_blocks_model [OF s(1) idle _ t] s(2) t s(1)
    by (intro exI [of _ t]) (simp add: rfold_append)
qed

text \<open>A blocking change does not look at the flag: it makes a model idle whose fetch is still under way.\<close>

lemma blocking_update_ends_busy:
  assumes "pending u (xp s) = 1" and "length (m_running_commands (xp s)) \<ge> 5"
  shows "\<exists>t. try_update_parameter_int now u pid v s = Inr t \<and> pending u (xp t) = 1
    \<and> \<not> m_is_currently_busy (models t u)"
  using assms
  by (simp add: try_update_parameter_int_def update_blocking_def try_set_param_async_def
      MAX_N_SIMULTANOEUS_COMMANDS_def blocking_result_def Let_def)

end
