(* ===== verification/Settings_Shown.thy ===== *)
theory Settings_Shown
  imports Settings_Model
begin

text \<open>
  What the settings models show: fetching the parameters of a unit and changing one of them, each from
  the call of the user interface to the list it displays.
\<close>

section \<open>Fetching a parameter set shows it\<close>

definition shown :: "settings_app \<Rightarrow> setting_data list \<Rightarrow> setting_data list" where
  "shown s ds = filter (\<lambda>d. \<not> model_is_param_whitelisted (unique_id d) s) ds"

definition setting_of_values :: "param_ext_value list \<Rightarrow> setting_data list" where
  "setting_of_values vals = concat (map qt_value (parse_server_param_set vals))"

lemma remove_rows_Nil [simp]: "remove_rows data = []"
  by (induction data rule: remove_rows.induct) (subst remove_rows.simps, simp)

lemma whitelisted_cong:
  "dev_show_whitelisted_params t = dev_show_whitelisted_params s \<Longrightarrow>
     model_is_param_whitelisted pid t = model_is_param_whitelisted pid s"
  by (simp add: model_is_param_whitelisted_def)

lemma whitelisted_sel [simp]:
  "model_is_param_whitelisted pid (update_model u f s) = model_is_param_whitelisted pid s"
  "model_is_param_whitelisted pid (perform_dirty_actions d s) = model_is_param_whitelisted pid s"
  "model_is_param_whitelisted pid (addData u d s) = model_is_param_whitelisted pid s"
  by (rule whitelisted_cong, simp)+

lemma addData_data:
  "m_data (models (addData u d s) v) = m_data (models s v) @ (if v = u then shown s [d] else [])"
  "has_params_fetched (models (addData u d s) v) = has_params_fetched (models s v)"
  by (simp_all add: addData_def Let_def shown_def)

lemma fold_addData:
  "m_data (models (fold (addData u) ds s) v) = m_data (models s v) @ (if v = u then shown s ds else [])"
  "has_params_fetched (models (fold (addData u) ds s) v) = has_params_fetched (models s v)"
  by (induction ds arbitrary: s) (simp_all add: addData_data shown_def)

text \<open>Running the callbacks in pieces is running them together.\<close>

lemma update_xp [simp]:
  "update_model u f (s\<lparr>xp := x\<rparr>) = (update_model u f s)\<lparr>xp := x\<rparr>"
  "show_toast t (s\<lparr>xp := x\<rparr>) = (show_toast t s)\<lparr>xp := x\<rparr>"
  by (simp_all add: update_model_def show_toast_def)

lemma perform_dirty_update_xp [simp]:
  "perform_dirty_actions d (s\<lparr>xp := x\<rparr>) = (perform_dirty_actions d s)\<lparr>xp := x\<rparr>"
  by (cases "setting_value d") (simp_all add: perform_dirty_actions_def Let_def show_toast_def)

lemma updateData_update_xp [simp]: "updateData u row d (s\<lparr>xp := x\<rparr>) = (updateData u row d s)\<lparr>xp := x\<rparr>"
  by (cases row) (simp_all add: updateData_def Let_def)

lemma finalize_update_xp [simp]:
  "finalize_update_param u pid v b l (s\<lparr>xp := x\<rparr>) = (finalize_update_param u pid v b l s)\<lparr>xp := x\<rparr>"
  by (simp add: finalize_update_param_def Let_def)

lemma set_busy_update_xp [simp]: "set_busy u b (s\<lparr>xp := x\<rparr>) = (set_busy u b s)\<lparr>xp := x\<rparr>"
  by (simp add: set_busy_def)

lemma results_update_xp [simp]:
  "fetch_result u l b ps (s\<lparr>xp := x\<rparr>) = (fetch_result u l b ps s)\<lparr>xp := x\<rparr>"
  "set_result u pid v l b (s\<lparr>xp := x\<rparr>) = (set_result u pid v l b s)\<lparr>xp := x\<rparr>"
  "blocking_result u pid v b (s\<lparr>xp := x\<rparr>) = (blocking_result u pid v b s)\<lparr>xp := x\<rparr>"
proof -
  have r: "remove_and_replace_param_set u ps (s\<lparr>xp := x\<rparr>) = (remove_and_replace_param_set u ps s)\<lparr>xp := x\<rparr>"
    by (simp add: remove_and_replace_param_set_def)
  show "fetch_result u l b ps (s\<lparr>xp := x\<rparr>) = (fetch_result u l b ps s)\<lparr>xp := x\<rparr>"
    by (simp add: fetch_result_def Let_def r)
  show "set_result u pid v l b (s\<lparr>xp := x\<rparr>) = (set_result u pid v l b s)\<lparr>xp := x\<rparr>"
    by (simp add: set_result_def Let_def)
  show "blocking_result u pid v b (s\<lparr>xp := x\<rparr>) = (blocking_result u pid v b s)\<lparr>xp := x\<rparr>"
    by (simp add: blocking_result_def Let_def)
qed

lemma deliver_update_xp: "deliver c (s\<lparr>xp := x\<rparr>) = (deliver c s)\<lparr>xp := x\<rparr>"
  by (cases "(c, s)" rule: deliver.cases) simp_all

lemma fold_deliver_update_xp: "fold deliver cs (s\<lparr>xp := x\<rparr>) = (fold deliver cs s)\<lparr>xp := x\<rparr>"
  by (induction cs arbitrary: s) (simp_all add: deliver_update_xp)

lemma with_xparam_twice:
  assumes "served (xp s) x" and "served x y"
  shows "with_xparam y (with_xparam x s) = with_xparam y s"
proof -
  obtain p q where "calls x = calls (xp s) @ p" "calls y = calls x @ q"
    using assms by (auto simp: served_def)
  then show ?thesis
    by (simp add: with_xparam_def fold_deliver_update_xp)
qed

lemma served_receive_values: "receive_values vals a b js x = Inr y \<Longrightarrow> served x y"
proof (induction js arbitrary: x)
  case (Cons j js)
  then show ?case
    by (auto simp: receive_values_def result_simps intro: served_trans [OF served_value])
qed (simp add: receive_values_def)

lemma receive_all:
  assumes "receive_values vals a b js (xp s) = Inr y"
  shows "rfold settings_step (map (\<lambda>i. Received (Param_Value (vals ! i)) a b) js) s
    = Inr (if js = [] then s else with_xparam y s)"
  using assms
proof (induction js arbitrary: s)
  case (Cons j js)
  then obtain x ok where x: "handle_param_ext_value (vals ! j) a b (xp s) = Inr (x, ok)"
    and y: "receive_values vals a b js x = Inr y"
    by (auto simp: receive_values_def result_simps)
  have "with_xparam y (with_xparam x s) = with_xparam y s"
    by (rule with_xparam_twice [OF served_value [OF x] served_receive_values [OF y]])
  moreover have "js = [] \<Longrightarrow> x = y" using y by (simp add: receive_values_def)
  ultimately show ?case
    using Cons.IH [of "with_xparam x s"] y
    by (auto simp: receive_def process_message_def x)
qed simp

text \<open>Calls that are not results only move the progress.\<close>

definition same_data :: "settings_app \<Rightarrow> settings_app \<Rightarrow> bool" where
  "same_data s t \<longleftrightarrow> ui_queue t = ui_queue s \<and> dev_show_whitelisted_params t = dev_show_whitelisted_params s
     \<and> (\<forall>v. m_data (models t v) = m_data (models s v))"

lemma progress_same_data: "result_keys cs = [] \<Longrightarrow> same_data s (fold deliver cs s)"
proof (induction cs arbitrary: s)
  case (Cons c cs)
  then have "same_data s (deliver c s)"
    by (cases "(c, s)" rule: deliver.cases) (auto simp: same_data_def)
  with Cons show ?case by (auto simp: same_data_def)
qed (simp add: same_data_def)

text \<open>Fetching the parameters of a unit succeeds however its messages are ordered and repeated: once the last missing one has arrived
  and the UI thread has run, the list of the model is the parameters of the unit in the order of their
  indices, without those of unsupported type and without those the program hides, and the model is idle and knows
  that it has been fetched.\<close>

lemma fetched_parameters_shown:
  assumes "server_values vals" and "set is \<union> {j} = {..<length vals}" and "j \<notin> set is"
    and "m_running_get_all (xp s) = []" and "m_is_ready (models s u)" and "\<not> m_is_currently_busy (models s u)"
    and "ui_queue s = []"
  shows "\<exists>t. rfold settings_step (Refetch now u log_result
        # map (\<lambda>i. Received (Param_Value (vals ! i)) (m_sys_id u) (m_comp_id u)) (is @ [j]) @ [Ui_Thread]) s = Inr t
     \<and> m_data (models t u) = shown s (setting_of_values vals)
     \<and> has_params_fetched (models t u) \<and> \<not> m_is_currently_busy (models t u) \<and> ui_queue t = []"
proof -
  let ?k = "Fetch u log_result"
  let ?s1 = "try_refetch_all_parameters_async now u log_result s"
  have s1: "xp ?s1 = try_get_param_all_async now (create_cmd_get_all (m_sys_id u) (m_comp_id u)) ?k True (xp s)"
      "ui_queue ?s1 = []" "dev_show_whitelisted_params ?s1 = dev_show_whitelisted_params s"
    using assms(5,6,7) by (simp_all add: try_refetch_all_parameters_async_def Let_def set_busy_def)
  obtain y where y: "receive_values vals (m_sys_id u) (m_comp_id u) (is @ [j]) (xp ?s1) = Inr y"
    and keys: "result_keys (calls y) = result_keys (calls (xp s)) @ [?k]"
    and last: "List.last (calls y) = Get_All_Result ?k True vals"
    using fetch_all_completes [OF assms(1-4), of "m_sys_id u" "m_comp_id u" now ?k True] s1(1) by auto
  have "calls (xp ?s1) = calls (xp s)"
    by (simp add: s1(1) try_get_param_all_async_def Let_def)
  then obtain p where p: "calls y = calls (xp ?s1) @ p" "result_keys p = [?k]"
    using served_receive_values [OF y] keys by (auto simp: served_def)
  obtain q where q: "p = q @ [Get_All_Result ?k True vals]" "result_keys q = []"
    using p last by (cases p rule: rev_cases) auto
  let ?s2 = "fold deliver q (?s1\<lparr>xp := y\<rparr>)"
  have s2: "ui_queue ?s2 = []" "dev_show_whitelisted_params ?s2 = dev_show_whitelisted_params s"
    using progress_same_data [OF q(2), of "?s1\<lparr>xp := y\<rparr>"] s1(2,3) by (auto simp: same_data_def)
  let ?t = "fetch_result u log_result True vals ?s2"
  have run: "rfold settings_step (map (\<lambda>i. Received (Param_Value (vals ! i)) (m_sys_id u) (m_comp_id u)) (is @ [j])) ?s1
      = Inr ?t"
    using receive_all [OF y] by (simp add: with_xparam_def p(1) q(1))
  have t: "ui_queue ?t = [(u, setting_of_values vals)]"
      "dev_show_whitelisted_params ?t = dev_show_whitelisted_params s" "has_params_fetched (models ?t u)"
      "\<not> m_is_currently_busy (models ?t u)"
    using s2 by (auto simp: fetch_result_def Let_def remove_and_replace_param_set_def setting_of_values_def
        set_busy_def)
  have idle: "\<not> m_is_currently_busy (models (run_ui_thread ?t) u)"
    using t(4) ui_thread_sel(1) [of ?t u] by (simp add: flags_of_def del: run_ui_thread.simps ui_thread_sel)
  obtain w where w: "w = ?t" by blast
  have wl: "model_is_param_whitelisted pid (w\<lparr>ui_queue := []\<rparr>) = model_is_param_whitelisted pid s" for pid
    by (rule whitelisted_cong) (simp add: w t(2) del: fold_deliver_update_xp)
  have shown: "shown (update_model u f (w\<lparr>ui_queue := []\<rparr>)) ds = shown s ds" for f ds
    by (simp add: shown_def wl)
  have ui: "run_ui_thread w = fold (addData u) (setting_of_values vals)
      (update_model u (\<lambda>m. m\<lparr>m_data := []\<rparr>) (w\<lparr>ui_queue := []\<rparr>))"
    using t(1) by (simp add: ui_thread_replace_param_set_def flip: w)
  have "m_data (models (run_ui_thread w) u) = shown s (setting_of_values vals)"
      "has_params_fetched (models (run_ui_thread w) u)" "ui_queue (run_ui_thread w) = []"
    using t(3) unfolding ui by (simp_all add: fold_addData shown flip: w)
  moreover have "rfold settings_step (Refetch now u log_result
        # map (\<lambda>i. Received (Param_Value (vals ! i)) (m_sys_id u) (m_comp_id u)) (is @ [j]) @ [Ui_Thread]) s
      = Inr (run_ui_thread w)"
    by (simp only: rfold.simps rfold_append settings_step.simps rbind.simps run w)
  ultimately show ?thesis
    using idle unfolding w by blast
qed

lemma parse_set_int:
  "0 \<notin> set name \<Longrightarrow> parse_server_param (value_of_set (create_cmd_set_int sys cmp name v) n i) =
     \<lparr>param_id = take 16 name, string_param = None, int_param = Some v\<rparr>"
  by (simp add: parse_server_param_def value_of_set_def create_cmd_set_int_def param_id_roundtrip
      param_int_roundtrip)

definition demo_params :: "param_ext_value list" where
  "demo_params = [value_of_set (create_cmd_set_int 100 191 (of_text ''WB_FREQUENCY'') 5180) 2 0,
     value_of_set (create_cmd_set_int 100 191 (of_text ''WB_N_RX_CARDS'') 3) 2 1]"

lemma demo_params_served: "server_values demo_params" "set [1, 1] \<union> {0} = {..<length demo_params}"
proof -
  have two: "i < Suc (Suc 0) \<Longrightarrow> i = 0 \<or> i = 1" for i :: nat by arith
  show "server_values demo_params" "set [1, 1] \<union> {0} = {..<length demo_params}"
    by (auto simp: server_values_def demo_params_def value_of_set_def dest!: two)
qed

text \<open>The frequency of the link is hidden, the number of cards is shown.\<close>

lemma demo_params_shown:
  assumes "\<not> dev_show_whitelisted_params s"
  shows "shown s (setting_of_values demo_params) =
    [\<lparr>unique_id = of_text ''WB_N_RX_CARDS'', setting_value = Int32 3\<rparr>]"
proof -
  have "setting_of_values demo_params = [\<lparr>unique_id = of_text ''WB_FREQUENCY'', setting_value = Int32 5180\<rparr>,
      \<lparr>unique_id = of_text ''WB_N_RX_CARDS'', setting_value = Int32 3\<rparr>]"
    by (simp add: setting_of_values_def demo_params_def parse_server_param_set_def parse_set_int qt_value_def
        of_text_def)
  moreover have "text_of (of_text ''WB_FREQUENCY'') = ''WB_FREQUENCY''"
      "text_of (of_text ''WB_N_RX_CARDS'') = ''WB_N_RX_CARDS''"
    by simp_all
  ultimately show ?thesis
    using assms by (simp add: shown_def model_is_param_whitelisted_def is_param_whitelisted_def
        get_whitelisted_params_def of_text_def)
qed

section \<open>Reading and changing a parameter\<close>

fun holds_int :: "variant \<Rightarrow> bool" where
  "holds_int (Int32 v) \<longleftrightarrow> True"
| "holds_int (Str t) \<longleftrightarrow> False"

fun param_int_exists :: "bytes \<Rightarrow> setting_data list \<Rightarrow> bool" where
  "param_int_exists pid [] = False"
| "param_int_exists pid (d # ds) =
     (if unique_id d = pid \<and> holds_int (setting_value d) then True else param_int_exists pid ds)"

fun param_string_exists :: "bytes \<Rightarrow> setting_data list \<Rightarrow> bool" where
  "param_string_exists pid [] = False"
| "param_string_exists pid (d # ds) =
     (if unique_id d = pid \<and> \<not> holds_int (setting_value d) then True else param_string_exists pid ds)"

fun get_cached_int :: "bytes \<Rightarrow> setting_data list \<Rightarrow> int" where
  "get_cached_int pid [] = -1"
| "get_cached_int pid (d # ds) =
     (case setting_value d of
        Int32 v \<Rightarrow> if unique_id d = pid then sint v else get_cached_int pid ds
      | Str t \<Rightarrow> get_cached_int pid ds)"

fun get_cached_string :: "bytes \<Rightarrow> setting_data list \<Rightarrow> bytes" where
  "get_cached_string pid [] = []"
| "get_cached_string pid (d # ds) =
     (case setting_value d of
        Str t \<Rightarrow> if unique_id d = pid then t else get_cached_string pid ds
      | Int32 v \<Rightarrow> get_cached_string pid ds)"

lemma find_row_append:
  "pid \<notin> unique_id ` set a \<Longrightarrow> find_row pid (a @ d # ds) i = (if unique_id d = pid then i + int (length a)
     else find_row pid ds (i + int (length a) + 1))"
  by (induction a arbitrary: i) (auto simp: algebra_simps)

lemma find_row_None: "pid \<notin> unique_id ` set ds \<Longrightarrow> find_row pid ds i = -1"
  by (induction ds arbitrary: i) auto

lemma first_row:
  assumes "pid \<in> unique_id ` set ds"
  obtains a d b where "ds = a @ d # b" and "unique_id d = pid" and "pid \<notin> unique_id ` set a"
proof -
  have "\<exists>d \<in> set ds. unique_id d = pid" using assms by auto
  then obtain a d b where "ds = a @ d # b" "unique_id d = pid" "\<forall>e \<in> set a. unique_id e \<noteq> pid"
    using split_list_first_prop [of ds "\<lambda>d. unique_id d = pid"] by blast
  then show ?thesis by (intro that) auto
qed

lemma updateData_data:
  "m_data (models (updateData u None d s) u) =
     (if unique_id d \<in> unique_id ` set (m_data (models s u))
      then (m_data (models s u))[nat (find_row (unique_id d) (m_data (models s u)) 0) := d]
      else m_data (models s u))"
proof (cases "unique_id d \<in> unique_id ` set (m_data (models s u))")
  case True
  then obtain a e b where "m_data (models s u) = a @ e # b" "unique_id e = unique_id d"
    "unique_id d \<notin> unique_id ` set a"
    by (rule first_row)
  with True show ?thesis
    by (simp add: updateData_def Let_def find_row_append)
qed (simp add: updateData_def Let_def find_row_None)

text \<open>After the row of a parameter has been replaced.\<close>

lemma get_cached_append:
  "pid \<notin> unique_id ` set a \<Longrightarrow> get_cached_int pid (a @ ds) = get_cached_int pid ds"
  "pid \<notin> unique_id ` set a \<Longrightarrow> get_cached_string pid (a @ ds) = get_cached_string pid ds"
  by (induction a) (auto split: variant.splits)

lemma get_cached_other:
  assumes "unique_id d = unique_id e" and "unique_id e \<noteq> pid"
  shows "get_cached_int pid (a @ d # b) = get_cached_int pid (a @ e # b)"
    and "get_cached_string pid (a @ d # b) = get_cached_string pid (a @ e # b)"
  using assms by (induction a) (auto split: variant.splits)

lemma updateData_cached:
  assumes "unique_id d = pid" and "data = m_data (models s u)"
    and "data' = m_data (models (updateData u None d s) u)"
  shows "setting_value d = Int32 v \<Longrightarrow> pid \<in> unique_id ` set data \<Longrightarrow> get_cached_int pid data' = sint v"
    and "setting_value d = Str w \<Longrightarrow> pid \<in> unique_id ` set data \<Longrightarrow> get_cached_string pid data' = w"
    and "pid \<notin> unique_id ` set data \<Longrightarrow> data' = data"
    and "pid' \<noteq> pid \<Longrightarrow> get_cached_int pid' data' = get_cached_int pid' data"
    and "pid' \<noteq> pid \<Longrightarrow> get_cached_string pid' data' = get_cached_string pid' data"
proof -
  show n: "pid \<notin> unique_id ` set data \<Longrightarrow> data' = data"
    using assms by (simp add: updateData_data)
  have y: "\<exists>a e b. data = a @ e # b \<and> data' = a @ d # b \<and> unique_id e = pid \<and> pid \<notin> unique_id ` set a"
    if mem: "pid \<in> unique_id ` set data"
  proof -
    obtain a e b where "data = a @ e # b" "unique_id e = pid" "pid \<notin> unique_id ` set a"
      using mem by (rule first_row)
    moreover from this have eq: "m_data (models s u) = a @ e # b" by (simp add: assms(2))
    have "data' = a @ d # b"
      using \<open>unique_id e = pid\<close> \<open>pid \<notin> unique_id ` set a\<close>
      by (simp add: assms(1,3) updateData_data eq find_row_append)
    ultimately show ?thesis by blast
  qed
  show "get_cached_int pid data' = sint v" if "setting_value d = Int32 v" "pid \<in> unique_id ` set data"
    using y [OF that(2)] that(1) assms(1) by (auto simp: get_cached_append)
  show "get_cached_string pid data' = w" if "setting_value d = Str w" "pid \<in> unique_id ` set data"
    using y [OF that(2)] that(1) assms(1) by (auto simp: get_cached_append)
  show "get_cached_int pid' data' = get_cached_int pid' data"
       "get_cached_string pid' data' = get_cached_string pid' data" if "pid' \<noteq> pid"
    using y n that assms(1) get_cached_other by metis+
qed

lemma find_own_request:
  assumes "find_remove_running_set ack sysid compid cs = None"
    and "get_param_id (set_param_id_field (set_cmd c)) = get_param_id (ack_param_id ack)"
    and "set_param_type (set_cmd c) = ack_param_type ack"
    and "set_target_system (set_cmd c) = sysid" "set_target_component (set_cmd c) = compid"
  shows "find_remove_running_set ack sysid compid (cs @ [c]) = Some (c, cs)"
  using assms by (induction cs) (auto split: if_splits)

text \<open>Both kinds of parameters: the event that changes one, the message it sends and the type of its answer.\<close>

fun change_event :: "int \<Rightarrow> unit_name \<Rightarrow> bytes \<Rightarrow> variant \<Rightarrow> bool \<Rightarrow> settings_event" where
  "change_event now u pid (Int32 v) log_result = Set_Int now u pid v log_result"
| "change_event now u pid (Str t) log_result = Set_Text now u pid t log_result"

fun change_message :: "unit_name \<Rightarrow> bytes \<Rightarrow> variant \<Rightarrow> param_ext_set" where
  "change_message u pid (Int32 v) = create_cmd_set_int (m_sys_id u) (m_comp_id u) pid v"
| "change_message u pid (Str t) = create_cmd_set_string (m_sys_id u) (m_comp_id u) pid t"

fun change_type :: "variant \<Rightarrow> u8" where
  "change_type (Int32 v) = MAV_PARAM_EXT_TYPE_INT32"
| "change_type (Str t) = MAV_PARAM_EXT_TYPE_CUSTOM"

lemma change_step: "settings_step (change_event now u pid v log_result) s
    = set_param_cached now u (change_message u pid v) pid v log_result s"
  by (cases v) (simp_all add: try_set_param_int_async_def try_set_param_string_async_def)

lemma change_message_sel:
  "set_target_system (change_message u pid v) = m_sys_id u" "set_target_component (change_message u pid v) = m_comp_id u"
  "set_param_id_field (change_message u pid v) = set_param_id (replicate 16 0) pid"
  "set_param_type (change_message u pid v) = change_type v"
  by (cases v; simp add: create_cmd_set_int_def create_cmd_set_string_def)+

fun reads_as :: "bytes \<Rightarrow> variant \<Rightarrow> setting_data list \<Rightarrow> bool" where
  "reads_as pid (Int32 v) data \<longleftrightarrow> get_cached_int pid data = sint v"
| "reads_as pid (Str t) data \<longleftrightarrow> get_cached_string pid data = t"

text \<open>C32. Changing an integer or a text parameter of an idle model, while fewer than five requests are waiting and none of them for the
  same answer: once the unit has accepted it, the model shows the new value if it shows the parameter at all and is as
  it was otherwise, shows the same as before for every other parameter, has counted and reported the update as
  a success and is idle again. When the unit answers with an error the list is as it was, and the
  update counts as a failure.\<close>

theorem changed_parameter_shown:
  assumes "\<not> m_is_currently_busy (models s u)" and "length (m_running_commands (xp s)) < 5"
    and "find_remove_running_set ack (m_sys_id u) (m_comp_id u) (m_running_commands (xp s)) = None"
    and "ack_param_id ack = set_param_id (replicate 16 0) pid" and "ack_param_type ack = change_type v"
  shows "\<exists>t. rfold settings_step [change_event now u pid v log_result,
        Received (Param_Ack ack) (m_sys_id u) (m_comp_id u)] s = Inr t
     \<and> (if ack_param_result ack = PARAM_ACK_ACCEPTED \<and> pid \<in> unique_id ` set (m_data (models s u))
        then reads_as pid v (m_data (models t u))
          \<and> (\<forall>p. p \<noteq> pid \<longrightarrow> get_cached_int p (m_data (models t u)) = get_cached_int p (m_data (models s u))
               \<and> get_cached_string p (m_data (models t u)) = get_cached_string p (m_data (models s u)))
        else m_data (models t u) = m_data (models s u))
     \<and> update_count (models t u) = update_count (models s u) + 1
     \<and> last_updated_param_id (models t u) = pid
     \<and> last_updated_param_success (models t u) = (ack_param_result ack = PARAM_ACK_ACCEPTED)
     \<and> \<not> m_is_currently_busy (models t u)"
proof -
  let ?msg = "change_message u pid v"
  let ?k = "Set_Cached u pid v log_result"
  let ?ok = "ack_param_result ack = PARAM_ACK_ACCEPTED"
  define c where "c = \<lparr>set_cmd = ?msg, set_cb = ?k, set_progress_cb = False,
      set_n_wanted_retransmissions = 10, set_retransmit_delay = 300, set_n_transmissions = 1,
      set_last_transmission = now\<rparr>"
  define x where "x = (xp s)\<lparr>m_running_commands := m_running_commands (xp s) @ [c],
      sent := sent (xp s) @ [Ext_Set ?msg]\<rparr>"
  define s1 where "s1 = (set_busy u True s)\<lparr>xp := x\<rparr>"
  define x' where "x' = x\<lparr>m_running_commands := m_running_commands (xp s),
      calls := calls (xp s) @ [Set_Result ?k (Some ack) 1]\<rparr>"
  define t where "t = set_result u pid v log_result ?ok (s1\<lparr>xp := x'\<rparr>)"
  have "settings_step (change_event now u pid v log_result) s = Inr s1"
    using assms(1,2)
    by (simp add: change_step set_param_cached_def try_set_param_async_def Let_def
        MAX_N_SIMULTANOEUS_COMMANDS_def send_next_message_running_set_def s1_def x_def c_def)
  moreover have "find_remove_running_set ack (m_sys_id u) (m_comp_id u) (m_running_commands x)
      = Some (c, m_running_commands (xp s))"
    unfolding x_def using find_own_request [OF assms(3), of c]
    by (simp add: c_def change_message_sel assms(4,5))
  then have "receive (Param_Ack ack) (m_sys_id u) (m_comp_id u) s1 = Inr t"
    by (simp add: receive_def process_message_def handle_param_ext_ack_def s1_def with_xparam_def t_def
        x'_def) (simp add: x_def c_def set_param_accepted_def)
  ultimately have run: "rfold settings_step [change_event now u pid v log_result,
        Received (Param_Ack ack) (m_sys_id u) (m_comp_id u)] s = Inr t"
    by simp
  let ?d = "\<lparr>unique_id = pid, setting_value = v\<rparr>"
  have base: "m_data (models (s1\<lparr>xp := x'\<rparr>) u) = m_data (models s u)"
    by (simp add: s1_def set_busy_def)
  have data: "m_data (models t u) = (if ?ok then m_data (models (updateData u None ?d (s1\<lparr>xp := x'\<rparr>)) u)
      else m_data (models s u))"
    using base by (simp add: t_def set_result_def Let_def finalize_update_param_def set_busy_def)
  note cached = updateData_cached [of ?d pid "m_data (models s u)" "s1\<lparr>xp := x'\<rparr>" u, OF _ _ refl, unfolded base]
  have count: "update_count (models t u) = update_count (models s u) + 1" "last_updated_param_id (models t u) = pid"
      "last_updated_param_success (models t u) = ?ok" "\<not> m_is_currently_busy (models t u)"
    by (simp_all add: t_def set_result_def Let_def finalize_update_param_def set_busy_def s1_def updateData_def)
  show ?thesis
  proof (intro exI [of _ t] conjI run count)
    show "if ?ok \<and> pid \<in> unique_id ` set (m_data (models s u))
        then reads_as pid v (m_data (models t u))
          \<and> (\<forall>p. p \<noteq> pid \<longrightarrow> get_cached_int p (m_data (models t u)) = get_cached_int p (m_data (models s u))
               \<and> get_cached_string p (m_data (models t u)) = get_cached_string p (m_data (models s u)))
        else m_data (models t u) = m_data (models s u)"
      unfolding data using cached by (cases v) (auto simp del: updateData_update_xp)
  qed
qed

definition demo_param_ack :: "variant \<Rightarrow> param_ext_ack" where
  "demo_param_ack v = \<lparr>ack_param_id = set_param_id (replicate 16 0) (of_text ''WB_N_RX_CARDS''),
     ack_param_type = change_type v, ack_param_result = PARAM_ACK_ACCEPTED\<rparr>"

theorem changed_parameter_shown_witness:
  "\<forall>v w. \<exists>t. rfold settings_step [change_event 0 Ground (of_text ''WB_N_RX_CARDS'') v True,
        Received (Param_Ack (demo_param_ack v)) 100 191]
       (addData Ground \<lparr>unique_id = of_text ''WB_N_RX_CARDS'', setting_value = w\<rparr> settings_app_new) = Inr t
     \<and> reads_as (of_text ''WB_N_RX_CARDS'') v (m_data (models t Ground))
     \<and> update_count (models t Ground) = 1"
proof (intro allI)
  fix v w
  let ?s = "addData Ground \<lparr>unique_id = of_text ''WB_N_RX_CARDS'', setting_value = w\<rparr> settings_app_new"
  have idle: "\<not> m_is_currently_busy (models ?s Ground)"
    using addData_sel(1) [of Ground _ settings_app_new Ground]
    by (simp add: flags_of_def settings_app_new_def settings_model_new_def)
  have none: "m_running_commands (xp ?s) = []"
    by (simp add: settings_app_new_def xparam_new_def)
  have data: "m_data (models ?s Ground) = [\<lparr>unique_id = of_text ''WB_N_RX_CARDS'', setting_value = w\<rparr>]"
    by (simp add: addData_data shown_def model_is_param_whitelisted_def is_param_whitelisted_def
        get_whitelisted_params_def) (simp add: settings_app_new_def settings_model_new_def)
  have count: "update_count (models ?s Ground) = 0"
    by (simp add: addData_def Let_def settings_app_new_def settings_model_new_def)
  show "\<exists>t. rfold settings_step [change_event 0 Ground (of_text ''WB_N_RX_CARDS'') v True,
        Received (Param_Ack (demo_param_ack v)) 100 191] ?s = Inr t
     \<and> reads_as (of_text ''WB_N_RX_CARDS'') v (m_data (models t Ground))
     \<and> update_count (models t Ground) = 1"
    using changed_parameter_shown [OF idle, of "demo_param_ack v" "of_text ''WB_N_RX_CARDS''" v 0 True] none data count
    by (auto simp: demo_param_ack_def simp del: rfold.simps settings_step.simps)
qed

end
