(* ===== verification/Param_Queries.thy ===== *)
theory Param_Queries
  imports Documented_Param
begin

text \<open>
  The queries on a parameter by which \<open>MavlinkSettingsModel\<close> (\<open>app/telemetry/settings/mavlinksettingsmodel.cpp\<close>)
  tells the user interface which choices and which range to offer.
\<close>

section \<open>What the user interface asks\<close>

definition int_enum_get_readable :: "string \<Rightarrow> int \<Rightarrow> string" where
  "int_enum_get_readable pid v =
     (case int_param_to_enum_string_if_known pid v of
        Some t \<Rightarrow> t
      | None \<Rightarrow> ''{'' @ int_to_string v @ ''}'')"

definition string_enum_get_readable :: "string \<Rightarrow> string \<Rightarrow> string" where
  "string_enum_get_readable pid v =
     (case string_param_to_enum_string_if_known pid v of
        Some t \<Rightarrow> t
      | None \<Rightarrow> ''{'' @ v @ ''}'')"

definition int_param_has_min_max :: "string \<Rightarrow> bool" where
  "int_param_has_min_max pid \<longleftrightarrow> get_improved_for_int pid \<noteq> None"

definition int_param_get_min_value :: "string \<Rightarrow> int" where
  "int_param_get_min_value pid =
     (case get_improved_for_int pid of
        Some i \<Rightarrow> if has_enum_mapping i then max_value_int i else 2147483647
      | None \<Rightarrow> 2147483647)"

definition int_param_get_max_value :: "string \<Rightarrow> int" where
  "int_param_get_max_value pid =
     (case get_improved_for_int pid of
        Some i \<Rightarrow> if has_enum_mapping i then min_value_int i else -2147483648
      | None \<Rightarrow> -2147483648)"

definition int_param_has_enum_keys_values :: "string \<Rightarrow> bool" where
  "int_param_has_enum_keys_values pid =
     (case get_improved_for_int pid of Some i \<Rightarrow> has_enum_mapping i | None \<Rightarrow> False)"

definition int_param_get_enum_keys :: "string \<Rightarrow> string list" where
  "int_param_get_enum_keys pid =
     (case get_improved_for_int pid of
        Some i \<Rightarrow> if has_enum_mapping i then int_enum_keys i else [''Err(0)'']
      | None \<Rightarrow> [''Err(0)''])"

definition int_param_get_enum_values :: "string \<Rightarrow> int list" where
  "int_param_get_enum_values pid =
     (case get_improved_for_int pid of
        Some i \<Rightarrow> if has_enum_mapping i then int_enum_values i else [0]
      | None \<Rightarrow> [0])"

text \<open>The result \<open>valid = false\<close> is \<open>None\<close>.\<close>

definition int_param_get_enum :: "string \<Rightarrow> (string list \<times> int list) option" where
  "int_param_get_enum pid =
     map_option (\<lambda>i. (int_enum_keys i, int_enum_values i)) (get_improved_for_int pid)"

definition string_param_has_enum :: "string \<Rightarrow> bool" where
  "string_param_has_enum pid =
     (case get_improved_for_string pid of Some s \<Rightarrow> enum_keys s \<noteq> [] | None \<Rightarrow> False)"

definition string_param_get_enum_keys :: "string \<Rightarrow> string list" where
  "string_param_get_enum_keys pid =
     (case get_improved_for_string pid of Some s \<Rightarrow> enum_keys s | None \<Rightarrow> [''ERROR_KEYS''])"

definition string_param_get_enum_values :: "string \<Rightarrow> string list" where
  "string_param_get_enum_values pid =
     (case get_improved_for_string pid of Some s \<Rightarrow> enum_values s | None \<Rightarrow> [''ERROR_VALUES''])"

definition string_param_get_enum :: "string \<Rightarrow> (string list \<times> string list) option" where
  "string_param_get_enum pid =
     map_option (\<lambda>s. (enum_keys s, enum_values s)) (get_improved_for_string pid)"

definition get_warning_before_safe :: "string \<Rightarrow> string" where
  "get_warning_before_safe pid =
     (if pid = ''V_OS_CAM_CONFIG'' then ''WARNING: Changing this parameter will reboot the Air Unit'' else [])"

definition get_param_requires_manual_reboot :: "string \<Rightarrow> bool" where
  "get_param_requires_manual_reboot pid = requires_reboot pid"

text \<open>The lists of choices the user interface gets have the same length, and a value picked from them is
  shown as the key next to it.\<close>

lemma documented_int:
  assumes "get_improved_for_int pid = Some i"
  shows "distinct (map snd (values_enum i)) \<and> min_value_int i < max_value_int i"
proof -
  obtain p where p: "find_param pid = Some p" "improved_int p = Some i"
    using assms by (auto simp: get_improved_for_int_def split: bind_splits)
  obtain ps where ps: "get_parameters_list = Inr ps" "list_all entry_ok ps"
    using param_table by blast
  have "p \<in> set ps"
    using p(1) find_param_iff [OF ps(1), of pid] by (auto simp: find_Some_iff)
  with ps(2) p(2) show ?thesis
    by (auto simp: list_all_iff entry_ok_def)
qed

lemma choices_aligned:
  assumes "int_param_has_enum_keys_values pid"
  shows "map (int_enum_get_readable pid) (int_param_get_enum_values pid) = int_param_get_enum_keys pid"
proof -
  obtain i where i: "get_improved_for_int pid = Some i" "has_enum_mapping i"
    using assms by (auto simp: int_param_has_enum_keys_values_def split: option.splits)
  from map_value_to_string [OF conjunct1 [OF documented_int [OF i(1)]]] i show ?thesis
    by (simp add: int_enum_get_readable_def int_param_to_enum_string_if_known_def
        int_param_get_enum_values_def int_param_get_enum_keys_def cong: map_cong)
qed

text \<open>The range queries are useless: for every integer parameter that is said to have a range, the number
  returned as the minimum is larger than the one returned as the maximum, so that no value at all lies
  between them. (With choices the two are swapped, without they are the largest and the smallest
  integer, whatever the range.)\<close>

theorem no_value_in_range:
  assumes "int_param_has_min_max pid"
  shows "\<not> (int_param_get_min_value pid \<le> v \<and> v \<le> int_param_get_max_value pid)"
proof -
  obtain i where i: "get_improved_for_int pid = Some i"
    using assms by (auto simp: int_param_has_min_max_def)
  from documented_int [OF i] i show ?thesis
    by (simp add: int_param_get_min_value_def int_param_get_max_value_def)
qed

theorem no_value_in_range_witness:
  "int_param_has_min_max ''VIDEO_CODEC'' \<and> \<not> (int_param_get_min_value ''VIDEO_CODEC'' \<le> 0
     \<and> 0 \<le> int_param_get_max_value ''VIDEO_CODEC'')"
proof -
  obtain ps where ps: "get_parameters_list = Inr ps" "distinct (map param_name ps)"
    using param_table by blast
  obtain vs where vs: "all_results video_parameters = Inr vs"
    using video_parameters_ok by (auto simp: part_ok_def split: sum.splits)
  have sub: "set vs \<subseteq> set ps"
    using ps(1) vs by (auto simp: get_parameters_list_def all_results_append result_simps)
  have "\<exists>p \<in> set vs. param_name p = ''VIDEO_CODEC'' \<and> improved_int p \<noteq> None"
    using vs by (auto simp: video_parameters_def table_defs)
  then obtain p where "p \<in> set ps" "param_name p = ''VIDEO_CODEC''" "improved_int p \<noteq> None"
    using sub by blast
  then have "int_param_has_min_max ''VIDEO_CODEC''"
    using find_param_iff [OF ps(1), of "''VIDEO_CODEC''"] find_key_self [OF ps(2), of p]
    by (simp add: int_param_has_min_max_def get_improved_for_int_def)
  with no_value_in_range show ?thesis by blast
qed

end
