(* ===== verification/Mavlink_Connection.thy ===== *)
theory Mavlink_Connection
  imports Decimal
begin

text \<open>
  The connections to the ground unit: \<open>UDPConnection\<close> and \<open>TCPConnection\<close> of \<open>app/telemetry/connection\<close>, and how
  \<open>MavlinkTelemetry\<close> (\<open>app/telemetry/MavlinkTelemetry.cpp\<close>) chooses between them when it sends and once a
  second in its management loop.

  A connection is the state its two threads share; a step of its receiving thread is what happens between two calls
  into the operating system. Stopping a connection joins its thread, so the end of the thread
  belongs to it. The clock is in milliseconds since the system was booted, as \<open>steady_clock\<close> counts on the
  platforms of the program; a function that reads it several times sees one value. The connections exist from
  \<open>start\<close> on. Messages are left abstract, those sent are recorded.
\<close>

section \<open>Liveness\<close>

text \<open>A signed 32 bit subtraction; outside its range the behaviour of the program is undefined.\<close>

definition signed_minus :: "32 word \<Rightarrow> 32 word \<Rightarrow> int result" where
  "signed_minus a b =
     (let d = sint a - sint b in if - (2 ^ 31) \<le> d \<and> d < 2 ^ 31 then Inr d else Inl Signed_Overflow)"

definition threadsafe_is_alive :: "int \<Rightarrow> 32 word \<Rightarrow> bool result" where
  "threadsafe_is_alive now last_data_ms =
     rbind (signed_minus (word_of_int now) last_data_ms) (\<lambda>elapsed. Inr (elapsed \<le> 3 * 1000))"

section \<open>UDP\<close>

record remote =
  ip :: string
  port :: int

record udp_connection =
  udp_looping :: bool
  udp_keep_receiving :: bool
  m_curr_remote :: "remote option"
  udp_last_data_ms :: "32 word"

definition udp_connection_new :: udp_connection where
  "udp_connection_new = \<lparr>udp_looping = False, udp_keep_receiving = False, m_curr_remote = None,
     udp_last_data_ms = 0\<rparr>"

definition udp_start_looping :: "udp_connection \<Rightarrow> udp_connection result" where
  "udp_start_looping u =
     rbind (rassert (\<not> udp_looping u)) (\<lambda>_. Inr (u\<lparr>udp_keep_receiving := True, udp_looping := True\<rparr>))"

definition clear_remote :: "udp_connection \<Rightarrow> udp_connection" where
  "clear_remote u = u\<lparr>m_curr_remote := None\<rparr>"

definition udp_stop_looping :: "udp_connection \<Rightarrow> udp_connection result" where
  "udp_stop_looping u =
     rbind (rassert (udp_looping u)) (\<lambda>_.
       Inr ((clear_remote (u\<lparr>udp_keep_receiving := False\<rparr>))\<lparr>udp_looping := False\<rparr>))"

definition udp_stop_looping_if :: "udp_connection \<Rightarrow> udp_connection result" where
  "udp_stop_looping_if u = (if udp_looping u then udp_stop_looping u else Inr u)"

text \<open>The local variable \<open>remote\<close> is a reference to what \<open>m_curr_remote\<close> holds.\<close>

definition udp_set_remote :: "string \<Rightarrow> int \<Rightarrow> udp_connection \<Rightarrow> udp_connection" where
  "udp_set_remote i p u =
     (case m_curr_remote u of
        Some remote \<Rightarrow>
          if ip remote \<noteq> i \<or> port remote \<noteq> p then u\<lparr>m_curr_remote := Some remote\<rparr> else u
      | None \<Rightarrow> u\<lparr>m_curr_remote := Some \<lparr>ip = i, port = p\<rparr>\<rparr>)"

text \<open>The receiving thread: a datagram, a socket that cannot be set up.\<close>

definition udp_receive :: "int \<Rightarrow> string \<Rightarrow> int \<Rightarrow> udp_connection \<Rightarrow> udp_connection" where
  "udp_receive now remote_ip remote_port u =
     (if udp_keep_receiving u
      then (udp_set_remote remote_ip remote_port u)\<lparr>udp_last_data_ms := word_of_int now\<rparr>
      else u)"

definition udp_setup_fails :: "udp_connection \<Rightarrow> udp_connection" where
  "udp_setup_fails u = (if udp_keep_receiving u then clear_remote u else u)"

section \<open>TCP\<close>

record tcp_connection =
  m_remote_ip :: string
  m_remote_port :: int
  tcp_looping :: bool
  tcp_keep_receiving :: bool
  tcp_socket_fd :: int
  tcp_last_data_ms :: "32 word"
  tcp_receiving :: bool

definition tcp_connection_new :: "string \<Rightarrow> int \<Rightarrow> tcp_connection" where
  "tcp_connection_new i p = \<lparr>m_remote_ip = i, m_remote_port = p, tcp_looping = False,
     tcp_keep_receiving = False, tcp_socket_fd = -1, tcp_last_data_ms = 0, tcp_receiving = False\<rparr>"

definition tcp_set_remote :: "string \<Rightarrow> int \<Rightarrow> tcp_connection \<Rightarrow> tcp_connection result" where
  "tcp_set_remote i p t =
     rbind (rassert (\<not> tcp_looping t)) (\<lambda>_. Inr (t\<lparr>m_remote_ip := i, m_remote_port := p\<rparr>))"

definition tcp_start_looping :: "tcp_connection \<Rightarrow> tcp_connection result" where
  "tcp_start_looping t =
     rbind (rassert (\<not> tcp_looping t)) (\<lambda>_. Inr (t\<lparr>tcp_keep_receiving := True, tcp_looping := True\<rparr>))"

text \<open>\<open>receive_until_stopped\<close> has returned: \<open>loop_connect_receive\<close> closes the socket.\<close>

definition tcp_disconnect :: "tcp_connection \<Rightarrow> tcp_connection" where
  "tcp_disconnect t = t\<lparr>tcp_receiving := False, tcp_socket_fd := -1\<rparr>"

definition tcp_stop_looping :: "tcp_connection \<Rightarrow> tcp_connection result" where
  "tcp_stop_looping t =
     rbind (rassert (tcp_looping t)) (\<lambda>_.
       let t1 = t\<lparr>tcp_keep_receiving := False\<rparr>;
           t2 = (if tcp_receiving t1 then tcp_disconnect t1 else t1)
       in Inr (t2\<lparr>tcp_looping := False\<rparr>))"

definition tcp_stop_looping_if :: "tcp_connection \<Rightarrow> tcp_connection result" where
  "tcp_stop_looping_if t = (if tcp_looping t then tcp_stop_looping t else Inr t)"

text \<open>The receiving thread: the result of an attempt to connect, and one round of
  \<open>receive_until_stopped\<close> with the result of \<open>recvfrom\<close>. There the elapsed time is an unsigned 64 bit
  difference.\<close>

definition tcp_connect_result :: "int \<Rightarrow> int \<Rightarrow> tcp_connection \<Rightarrow> tcp_connection" where
  "tcp_connect_result now fd t =
     (if tcp_keep_receiving t \<and> \<not> tcp_receiving t then
        let t1 = t\<lparr>tcp_socket_fd := fd\<rparr> in
        if tcp_socket_fd t1 > 0
        then t1\<lparr>tcp_last_data_ms := word_of_int now, tcp_receiving := True\<rparr>
        else t1
      else t)"

definition tcp_elapsed :: "int \<Rightarrow> 32 word \<Rightarrow> 64 word" where
  "tcp_elapsed now last_data_ms = word_of_int now - scast last_data_ms"

definition tcp_receive :: "int \<Rightarrow> int \<Rightarrow> tcp_connection \<Rightarrow> tcp_connection" where
  "tcp_receive now recv_len t =
     (if \<not> tcp_receiving t then t
      else if \<not> tcp_keep_receiving t then tcp_disconnect t
      else if tcp_elapsed now (tcp_last_data_ms t) > 3 * 1000 then tcp_disconnect t
      else if recv_len = 0 then t
      else if recv_len < 0 then t
      else t\<lparr>tcp_last_data_ms := word_of_int now\<rparr>)"

section \<open>The choice of a connection\<close>

datatype link = Udp remote | Wifi_Hotspot | Ethernet_Hotspot | Custom

record 'm connections =
  m_udp_connection :: udp_connection
  m_tcp_connection_wifi_hs :: tcp_connection
  m_tcp_connection_eth_hs :: tcp_connection
  m_tcp_connection_custom :: tcp_connection
  m_connection_mode :: int
  m_connction_manual_tcp_ip :: string
  telemetry_connection_status :: string
  sent_messages :: "(link \<times> 'm) list"

definition with_udp ::
  "(udp_connection \<Rightarrow> udp_connection result) \<Rightarrow> 'm connections \<Rightarrow> 'm connections result" where
  "with_udp f c = rbind (f (m_udp_connection c)) (\<lambda>u. Inr (c\<lparr>m_udp_connection := u\<rparr>))"

definition with_wifi ::
  "(tcp_connection \<Rightarrow> tcp_connection result) \<Rightarrow> 'm connections \<Rightarrow> 'm connections result" where
  "with_wifi f c = rbind (f (m_tcp_connection_wifi_hs c)) (\<lambda>t. Inr (c\<lparr>m_tcp_connection_wifi_hs := t\<rparr>))"

definition with_eth ::
  "(tcp_connection \<Rightarrow> tcp_connection result) \<Rightarrow> 'm connections \<Rightarrow> 'm connections result" where
  "with_eth f c = rbind (f (m_tcp_connection_eth_hs c)) (\<lambda>t. Inr (c\<lparr>m_tcp_connection_eth_hs := t\<rparr>))"

definition with_custom ::
  "(tcp_connection \<Rightarrow> tcp_connection result) \<Rightarrow> 'm connections \<Rightarrow> 'm connections result" where
  "with_custom f c = rbind (f (m_tcp_connection_custom c)) (\<lambda>t. Inr (c\<lparr>m_tcp_connection_custom := t\<rparr>))"

definition change_telemetry_connection_mode :: "int \<Rightarrow> 'm connections \<Rightarrow> 'm connections" where
  "change_telemetry_connection_mode mode c =
     c\<lparr>m_connection_mode := (if mode < 0 \<or> mode > 2 then 0 else mode)\<rparr>"

definition change_manual_tcp_ip :: "string \<Rightarrow> 'm connections \<Rightarrow> 'm connections" where
  "change_manual_tcp_ip i c = c\<lparr>m_connction_manual_tcp_ip := i\<rparr>"

text \<open>\<open>MavlinkTelemetry::start\<close> with the two stored settings.\<close>

definition telemetry_start :: "int \<Rightarrow> string \<Rightarrow> 'm connections result" where
  "telemetry_start mode manual_ip =
     with_udp udp_start_looping
       \<lparr>m_udp_connection = udp_connection_new,
        m_tcp_connection_wifi_hs = tcp_connection_new ''192.168.3.1'' 5760,
        m_tcp_connection_eth_hs = tcp_connection_new ''192.168.2.1'' 5760,
        m_tcp_connection_custom = tcp_connection_new manual_ip 5760,
        m_connection_mode = (if mode < 0 \<or> mode > 2 then 0 else mode),
        m_connction_manual_tcp_ip = manual_ip,
        telemetry_connection_status = ''N/A'', sent_messages = []\<rparr>"

definition udp_send :: "'m \<Rightarrow> 'm connections \<Rightarrow> 'm connections" where
  "udp_send msg c =
     (case m_curr_remote (m_udp_connection c) of
        Some remote \<Rightarrow> c\<lparr>sent_messages := sent_messages c @ [(Udp remote, msg)]\<rparr>
      | None \<Rightarrow> c)"

definition tcp_send :: "link \<Rightarrow> tcp_connection \<Rightarrow> 'm \<Rightarrow> 'm connections \<Rightarrow> 'm connections" where
  "tcp_send l t msg c =
     (if \<not> tcp_keep_receiving t then c
      else if tcp_socket_fd t < 0 then c
      else c\<lparr>sent_messages := sent_messages c @ [(l, msg)]\<rparr>)"

definition sendMessage :: "int \<Rightarrow> 'm \<Rightarrow> 'm connections \<Rightarrow> ('m connections \<times> bool) result" where
  "sendMessage now msg c =
     rbind (threadsafe_is_alive now (udp_last_data_ms (m_udp_connection c))) (\<lambda>udp_alive.
     if udp_alive then Inr (udp_send msg c, True)
     else
       rbind (threadsafe_is_alive now (tcp_last_data_ms (m_tcp_connection_wifi_hs c))) (\<lambda>wifi_alive.
       if wifi_alive then Inr (tcp_send Wifi_Hotspot (m_tcp_connection_wifi_hs c) msg c, True)
       else
         rbind (threadsafe_is_alive now (tcp_last_data_ms (m_tcp_connection_eth_hs c))) (\<lambda>eth_alive.
         if eth_alive then Inr (tcp_send Ethernet_Hotspot (m_tcp_connection_eth_hs c) msg c, True)
         else
           rbind (threadsafe_is_alive now (tcp_last_data_ms (m_tcp_connection_custom c))) (\<lambda>custom_alive.
           if custom_alive then Inr (tcp_send Custom (m_tcp_connection_custom c) msg c, True)
           else Inr (c, True)))))"

definition is_localhost_only_usage :: "bool \<Rightarrow> bool \<Rightarrow> bool \<Rightarrow> bool" where
  "is_localhost_only_usage is_android is_mac is_windows =
     (if is_android \<or> is_mac \<or> is_windows then False else True)"

definition start_udp_if :: "udp_connection \<Rightarrow> udp_connection result" where
  "start_udp_if u = (if \<not> udp_looping u then udp_start_looping u else Inr u)"

definition start_tcp_if :: "tcp_connection \<Rightarrow> tcp_connection result" where
  "start_tcp_if t = (if \<not> tcp_looping t then tcp_start_looping t else Inr t)"

definition set_status :: "string \<Rightarrow> 'm connections \<Rightarrow> 'm connections" where
  "set_status s c = c\<lparr>telemetry_connection_status := s\<rparr>"

definition set_user_remote :: "string \<Rightarrow> int \<Rightarrow> tcp_connection \<Rightarrow> tcp_connection result" where
  "set_user_remote user_ip user_port t =
     (if m_remote_ip t \<noteq> user_ip \<or> m_remote_port t \<noteq> user_port
      then rbind (tcp_stop_looping_if t) (tcp_set_remote user_ip user_port)
      else Inr t)"

definition auto_local :: "int \<Rightarrow> 'm connections \<Rightarrow> 'm connections result" where
  "auto_local now c =
     rbind (rfold (\<lambda>f. f) [with_custom tcp_stop_looping_if, with_eth tcp_stop_looping_if,
                       with_wifi tcp_stop_looping_if, with_udp start_udp_if] c) (\<lambda>c1.
     rbind (threadsafe_is_alive now (udp_last_data_ms (m_udp_connection c1))) (\<lambda>connected.
     Inr (set_status (if connected then ''AUTO-CONNECTED(UDP,LOCALHOST,LOCAL ONLY)''
                      else ''AUTO-DISCONNECTED(LOCAL ONLY) OPENHD CORE RUNNING ?'') c1)))"

definition auto_any :: "int \<Rightarrow> 'm connections \<Rightarrow> 'm connections result" where
  "auto_any now c =
     rbind (rfold (\<lambda>f. f) [with_custom tcp_stop_looping_if, with_udp start_udp_if] c) (\<lambda>c1.
     rbind (threadsafe_is_alive now (udp_last_data_ms (m_udp_connection c1))) (\<lambda>udp_alive.
     if udp_alive then
       rfold (\<lambda>f. f) [with_wifi tcp_stop_looping_if, with_eth tcp_stop_looping_if]
         (set_status ''AUTO-CONNECTED(UDP,LOCALHOST)'' c1)
     else
       rbind (rfold (\<lambda>f. f) [with_wifi start_tcp_if, with_eth start_tcp_if] c1) (\<lambda>c2.
       rbind (threadsafe_is_alive now (tcp_last_data_ms (m_tcp_connection_wifi_hs c2))) (\<lambda>wifi_alive.
       if wifi_alive then Inr (set_status ''AUTO-CONNECTED(TCP,WIFI HS)'' c2)
       else
         rbind (threadsafe_is_alive now (tcp_last_data_ms (m_tcp_connection_eth_hs c2))) (\<lambda>eth_alive.
         Inr (set_status (if eth_alive then ''AUTO-CONNECTED(TCP,ETHERNET HS)'' else ''AUTO-NOT CONNECTED'')
                c2))))))"

definition explicit_udp :: "int \<Rightarrow> 'm connections \<Rightarrow> 'm connections result" where
  "explicit_udp now c =
     rbind (rfold (\<lambda>f. f) [with_wifi tcp_stop_looping_if, with_eth tcp_stop_looping_if,
                       with_custom tcp_stop_looping_if, with_udp start_udp_if] c) (\<lambda>c1.
     rbind (threadsafe_is_alive now (udp_last_data_ms (m_udp_connection c1))) (\<lambda>alive.
     Inr (set_status (''MANUAL UDP-'' @ (if alive then ''ALIVE'' else ''NO DATA'')) c1)))"

definition explicit_tcp :: "int \<Rightarrow> 'm connections \<Rightarrow> 'm connections result" where
  "explicit_tcp now c =
     rbind (rfold (\<lambda>f. f) [with_wifi tcp_stop_looping_if, with_eth tcp_stop_looping_if,
                       with_udp udp_stop_looping_if,
                       with_custom (set_user_remote (m_connction_manual_tcp_ip c) 5760),
                       with_custom start_tcp_if] c) (\<lambda>c1.
     rbind (threadsafe_is_alive now (tcp_last_data_ms (m_tcp_connection_custom c1))) (\<lambda>alive.
     Inr (set_status (''MANUAL TCP - '' @
            (if alive then ''CONNECTED '' @ ''['' @ m_connction_manual_tcp_ip c @ '']''
             else ''NOT CONNECTED ['' @ m_connction_manual_tcp_ip c @ '']'')) c1)))"

definition perform_connection_management ::
  "bool \<Rightarrow> int \<Rightarrow> 'm connections \<Rightarrow> 'm connections result" where
  "perform_connection_management localhost_only now c =
     (if m_connection_mode c = 0 then (if localhost_only then auto_local now c else auto_any now c)
      else if m_connection_mode c = 1 then explicit_udp now c
      else if m_connection_mode c = 2 then explicit_tcp now c
      else Inr (set_status ''UNKNOWN CONNECTION MODE'' c))"

section \<open>Runs\<close>

text \<open>Events carry the time they happen at, in milliseconds.\<close>

datatype connection_event =
    Tick int
  | Change_Mode int
  | Change_Ip string
  | Udp_Datagram int string int
  | Udp_Setup_Fails
  | Tcp_Connect link int int
  | Tcp_Round link int int

fun tcp_thread ::
  "link \<Rightarrow> (tcp_connection \<Rightarrow> tcp_connection) \<Rightarrow> 'm connections \<Rightarrow> 'm connections" where
  "tcp_thread Wifi_Hotspot f c = c\<lparr>m_tcp_connection_wifi_hs := f (m_tcp_connection_wifi_hs c)\<rparr>"
| "tcp_thread Ethernet_Hotspot f c = c\<lparr>m_tcp_connection_eth_hs := f (m_tcp_connection_eth_hs c)\<rparr>"
| "tcp_thread Custom f c = c\<lparr>m_tcp_connection_custom := f (m_tcp_connection_custom c)\<rparr>"
| "tcp_thread (Udp r) f c = c"

fun connection_step :: "bool \<Rightarrow> connection_event \<Rightarrow> 'm connections \<Rightarrow> 'm connections result" where
  "connection_step lo (Tick now) c = perform_connection_management lo now c"
| "connection_step lo (Change_Mode mode) c = Inr (change_telemetry_connection_mode mode c)"
| "connection_step lo (Change_Ip i) c = Inr (change_manual_tcp_ip i c)"
| "connection_step lo (Udp_Datagram now i p) c =
     Inr (c\<lparr>m_udp_connection := udp_receive now i p (m_udp_connection c)\<rparr>)"
| "connection_step lo Udp_Setup_Fails c =
     Inr (c\<lparr>m_udp_connection := udp_setup_fails (m_udp_connection c)\<rparr>)"
| "connection_step lo (Tcp_Connect l now fd) c = Inr (tcp_thread l (tcp_connect_result now fd) c)"
| "connection_step lo (Tcp_Round l now len) c = Inr (tcp_thread l (tcp_receive now len) c)"

text \<open>Before the signed 32 bit clock of the connections wraps around, after 24.8 days.\<close>

definition early :: "int \<Rightarrow> bool" where
  "early now \<longleftrightarrow> 0 \<le> now \<and> now < 2 ^ 31"

fun event_early :: "connection_event \<Rightarrow> bool" where
  "event_early (Tick now) \<longleftrightarrow> early now"
| "event_early (Udp_Datagram now i p) \<longleftrightarrow> early now"
| "event_early (Tcp_Connect l now fd) \<longleftrightarrow> early now"
| "event_early (Tcp_Round l now len) \<longleftrightarrow> early now"
| "event_early _ \<longleftrightarrow> True"

lemma sint_early [simp]: "early now \<Longrightarrow> sint (word_of_int now :: 32 word) = now"
  by (simp add: early_def int_word_sint)

lemma alive_early:
  "early now \<Longrightarrow> early (sint ms) \<Longrightarrow> threadsafe_is_alive now ms = Inr (now - sint ms \<le> 3000)"
  by (simp add: threadsafe_is_alive_def signed_minus_def Let_def) (simp add: early_def)

definition connections_inv :: "'m connections \<Rightarrow> bool" where
  "connections_inv c \<longleftrightarrow> m_connection_mode c \<in> {0, 1, 2}
     \<and> early (sint (udp_last_data_ms (m_udp_connection c)))
     \<and> early (sint (tcp_last_data_ms (m_tcp_connection_wifi_hs c)))
     \<and> early (sint (tcp_last_data_ms (m_tcp_connection_eth_hs c)))
     \<and> early (sint (tcp_last_data_ms (m_tcp_connection_custom c)))"

text \<open>Which connections run: UDP, the two hotspots, the one of the user.\<close>

definition running :: "'m connections \<Rightarrow> bool \<times> bool \<times> bool \<times> bool" where
  "running c = (udp_looping (m_udp_connection c), tcp_looping (m_tcp_connection_wifi_hs c),
     tcp_looping (m_tcp_connection_eth_hs c), tcp_looping (m_tcp_connection_custom c))"

definition wanted :: "bool \<Rightarrow> int \<Rightarrow> 'm connections \<Rightarrow> bool \<times> bool \<times> bool \<times> bool" where
  "wanted lo now c =
     (if m_connection_mode c = 2 then (False, False, False, True)
      else if m_connection_mode c = 1 \<or> lo \<or> now - sint (udp_last_data_ms (m_udp_connection c)) \<le> 3000
      then (True, False, False, False)
      else (True, True, True, False))"

lemmas loop_simps =
  udp_start_looping_def udp_stop_looping_def udp_stop_looping_if_def clear_remote_def start_udp_if_def
  tcp_start_looping_def tcp_stop_looping_def tcp_stop_looping_if_def tcp_disconnect_def start_tcp_if_def
  tcp_set_remote_def set_user_remote_def

lemma loop_total:
  "tcp_stop_looping_if t = Inr (if tcp_looping t then
     (if tcp_receiving t then tcp_disconnect t else t)\<lparr>tcp_keep_receiving := False, tcp_looping := False\<rparr> else t)"
  "start_tcp_if t = Inr (if tcp_looping t then t else t\<lparr>tcp_keep_receiving := True, tcp_looping := True\<rparr>)"
  "udp_stop_looping_if u = Inr (if udp_looping u then
     u\<lparr>udp_keep_receiving := False, m_curr_remote := None, udp_looping := False\<rparr> else u)"
  "start_udp_if u = Inr (if udp_looping u then u else u\<lparr>udp_keep_receiving := True, udp_looping := True\<rparr>)"
  "\<exists>t'. set_user_remote i p t = Inr t' \<and> m_remote_ip t' = i \<and> m_remote_port t' = p
     \<and> tcp_last_data_ms t' = tcp_last_data_ms t"
  by (auto simp: loop_simps Let_def)

definition times :: "'m connections \<Rightarrow> 32 word list" where
  "times c = [udp_last_data_ms (m_udp_connection c), tcp_last_data_ms (m_tcp_connection_wifi_hs c),
     tcp_last_data_ms (m_tcp_connection_eth_hs c), tcp_last_data_ms (m_tcp_connection_custom c)]"

text \<open>What one round of the management does.\<close>

definition managed :: "bool \<Rightarrow> int \<Rightarrow> 'm connections \<Rightarrow> 'm connections \<Rightarrow> bool" where
  "managed lo now c c' \<longleftrightarrow> running c' = wanted lo now c \<and> times c' = times c
     \<and> m_connection_mode c' = m_connection_mode c \<and> sent_messages c' = sent_messages c
     \<and> (m_connection_mode c = 2 \<longrightarrow> m_remote_ip (m_tcp_connection_custom c') = m_connction_manual_tcp_ip c)"

lemmas management_defs =
  with_udp_def with_wifi_def with_eth_def with_custom_def set_status_def running_def wanted_def times_def
  managed_def tcp_disconnect_def

lemma managed_auto_local:
  "connections_inv c \<Longrightarrow> early now \<Longrightarrow> m_connection_mode c = 0 \<Longrightarrow>
     \<exists>c'. auto_local now c = Inr c' \<and> managed True now c c'"
  by (simp add: auto_local_def management_defs loop_total alive_early connections_inv_def)

lemma managed_auto_any:
  "connections_inv c \<Longrightarrow> early now \<Longrightarrow> m_connection_mode c = 0 \<Longrightarrow>
     \<exists>c'. auto_any now c = Inr c' \<and> managed False now c c'"
  by (simp add: auto_any_def management_defs loop_total alive_early connections_inv_def)

lemma managed_explicit_udp:
  "connections_inv c \<Longrightarrow> early now \<Longrightarrow> m_connection_mode c = 1 \<Longrightarrow>
     \<exists>c'. explicit_udp now c = Inr c' \<and> managed lo now c c'"
  by (simp add: explicit_udp_def management_defs loop_total alive_early connections_inv_def)

lemma managed_explicit_tcp:
  assumes "connections_inv c" and "early now" and "m_connection_mode c = 2"
  shows "\<exists>c'. explicit_tcp now c = Inr c' \<and> managed lo now c c'"
proof -
  obtain t where t: "set_user_remote (m_connction_manual_tcp_ip c) 5760 (m_tcp_connection_custom c) = Inr t"
    "m_remote_ip t = m_connction_manual_tcp_ip c"
    "tcp_last_data_ms t = tcp_last_data_ms (m_tcp_connection_custom c)"
    using loop_total(5) [of "m_connction_manual_tcp_ip c" 5760 "m_tcp_connection_custom c"] by blast
  with assms show ?thesis
    by (simp add: explicit_tcp_def management_defs loop_total(1-4) alive_early connections_inv_def)
qed

lemma management_step:
  assumes "connections_inv c" and "early now"
  shows "\<exists>c'. perform_connection_management lo now c = Inr c' \<and> managed lo now c c'"
  using assms managed_auto_local [OF assms] managed_auto_any [OF assms] managed_explicit_udp [OF assms, of lo]
    managed_explicit_tcp [OF assms, of lo]
  by (cases lo) (auto simp: perform_connection_management_def connections_inv_def)

lemma connections_inv_alt:
  "connections_inv c \<longleftrightarrow> m_connection_mode c \<in> {0, 1, 2} \<and> list_all (\<lambda>ms. early (sint ms)) (times c)"
  by (auto simp: connections_inv_def times_def)

lemma managed_inv: "connections_inv c \<Longrightarrow> managed lo now c c' \<Longrightarrow> connections_inv c'"
  by (simp add: connections_inv_alt managed_def)

lemma tcp_thread_inv:
  assumes "connections_inv c" and "\<And>t. early (sint (tcp_last_data_ms t)) \<Longrightarrow> early (sint (tcp_last_data_ms (f t)))"
  shows "connections_inv (tcp_thread l f c)"
  using assms by (cases l) (auto simp: connections_inv_def)

lemma mode_valid: "(if mode < 0 \<or> mode > 2 then 0 else mode) \<in> {0, 1, 2 :: int}"
  by auto

lemma connection_step_total:
  assumes "connections_inv c" and "event_early e"
  shows "\<exists>c'. connection_step lo e c = Inr c' \<and> connections_inv c'"
proof (cases e)
  case (Tick now)
  with assms management_step [of c now lo] show ?thesis by (auto intro: managed_inv)
next
  case (Change_Mode mode)
  with assms show ?thesis
    using mode_valid [of mode] by (simp add: change_telemetry_connection_mode_def connections_inv_def)
next
  case (Tcp_Connect l now fd)
  with assms show ?thesis
    by (auto simp: tcp_connect_result_def Let_def intro!: tcp_thread_inv)
next
  case (Tcp_Round l now len)
  with assms show ?thesis
    by (auto simp: tcp_receive_def tcp_disconnect_def intro!: tcp_thread_inv)
qed (use assms in \<open>auto simp: connections_inv_def change_manual_tcp_ip_def udp_receive_def udp_set_remote_def
  udp_setup_fails_def clear_remote_def split: option.splits\<close>)

lemma connection_run_total:
  "connections_inv c \<Longrightarrow> list_all event_early es \<Longrightarrow>
     \<exists>c'. rfold (connection_step lo) es c = Inr c' \<and> connections_inv c'"
proof (induction es arbitrary: c)
  case (Cons e es)
  then obtain c1 where "connection_step lo e c = Inr c1" "connections_inv c1"
    using connection_step_total [of c e lo] by auto
  with Cons show ?case by simp
qed simp

lemma telemetry_start_inv: "\<exists>c. telemetry_start mode i = Inr c \<and> connections_inv c"
  using mode_valid [of mode]
  by (simp add: telemetry_start_def with_udp_def udp_start_looping_def udp_connection_new_def
      tcp_connection_new_def connections_inv_def early_def)

text \<open>C35. As long as the device has been up for less than 24.8 days (2^31 milliseconds; \<open>long_uptime_no_hotspots\<close> shows what
  happens later), no assertion of the connections ever fails, whatever the user chooses, whatever
  arrives and however the threads and the management loop interleave; and after every round of the
  loop exactly the connections run that belong to the mode: the one of the user, to the address he has entered, UDP
  alone, or UDP and both hotspots as long as UDP is silent on a device that is not the ground station.\<close>

theorem connections_follow_mode:
  assumes "list_all event_early es" and "early now"
  shows "\<exists>c0 c c'. telemetry_start mode i = Inr c0 \<and> rfold (connection_step lo) es c0 = Inr c
    \<and> perform_connection_management lo now c = Inr c' \<and> running c' = wanted lo now c
    \<and> m_connection_mode c \<in> {0, 1, 2}
    \<and> (m_connection_mode c = 2 \<longrightarrow> m_remote_ip (m_tcp_connection_custom c') = m_connction_manual_tcp_ip c)"
proof -
  obtain c0 where c0: "telemetry_start mode i = Inr (c0 :: 'a connections)" "connections_inv c0"
    using telemetry_start_inv [of mode i] by blast
  then obtain c where c: "rfold (connection_step lo) es c0 = Inr c" "connections_inv c"
    using connection_run_total [OF _ assms(1)] by blast
  with management_step [OF c(2) assms(2), of lo] c0 show ?thesis
    by (auto simp: managed_def connections_inv_def)
qed

theorem connections_follow_mode_witness:
  "\<exists>(c0 :: nat connections) c c'. telemetry_start 0 ''192.168.178.36'' = Inr c0
    \<and> rfold (connection_step False) [Tick 1000, Tcp_Connect Wifi_Hotspot 2000 7, Tcp_Round Wifi_Hotspot 2100 40,
        Udp_Datagram 3500 ''192.168.3.1'' 14550, Tick 4000, Change_Ip ''10.0.0.1'', Change_Mode 2] c0 = Inr c
    \<and> perform_connection_management False 5000 c = Inr c' \<and> running c' = (False, False, False, True)
    \<and> m_remote_ip (m_tcp_connection_custom c') = ''10.0.0.1''"
proof -
  let ?es = "[Tick 1000, Tcp_Connect Wifi_Hotspot 2000 7, Tcp_Round Wifi_Hotspot 2100 40,
        Udp_Datagram 3500 ''192.168.3.1'' 14550, Tick 4000, Change_Ip ''10.0.0.1'', Change_Mode 2]"
  have "list_all event_early ?es" and "early 5000"
    by (simp_all add: early_def)
  from connections_follow_mode [OF this, of 0 "''192.168.178.36''" False] obtain c0 :: "nat connections" and c c'
    where c: "telemetry_start 0 ''192.168.178.36'' = Inr c0" "rfold (connection_step False) ?es c0 = Inr c"
      "perform_connection_management False 5000 c = Inr c'" "running c' = wanted False 5000 c"
      "m_connection_mode c = 2 \<longrightarrow> m_remote_ip (m_tcp_connection_custom c') = m_connction_manual_tcp_ip c"
    by blast
  have "m_connection_mode c = 2" "m_connction_manual_tcp_ip c = ''10.0.0.1''"
    using c(2) unfolding rfold_append [of _ "take 5 ?es" "drop 5 ?es", simplified]
    by (auto simp: result_simps change_telemetry_connection_mode_def change_manual_tcp_ip_def)
  then have "running c' = (False, False, False, True)" "m_remote_ip (m_tcp_connection_custom c') = ''10.0.0.1''"
    using c(4,5) by (simp_all add: wanted_def)
  with c(1-3) show ?thesis by blast
qed

section \<open>The remote of the UDP connection\<close>

lemma udp_set_remote_same: "m_curr_remote u = Some r \<Longrightarrow> udp_set_remote i p u = u"
  by (simp add: udp_set_remote_def)

lemma datagrams_keep_remote:
  "m_curr_remote (m_udp_connection c) = Some r \<Longrightarrow> udp_keep_receiving (m_udp_connection c) \<Longrightarrow>
     \<exists>c'. rfold (connection_step lo) (map (\<lambda>(t, i, p). Udp_Datagram t i p) ds) c = Inr c'
       \<and> m_curr_remote (m_udp_connection c') = Some r \<and> udp_keep_receiving (m_udp_connection c')
       \<and> sent_messages c' = sent_messages c"
proof (induction ds arbitrary: c)
  case (Cons d ds)
  obtain t i p where d: "d = (t, i, p)" by (cases d)
  with Cons.prems Cons.IH [of "c\<lparr>m_udp_connection := udp_receive t i p (m_udp_connection c)\<rparr>"]
  show ?case by (simp add: udp_receive_def udp_set_remote_same)
qed simp

text \<open>Once the UDP connection knows a remote it never learns another one: whoever sends from then on, and even
  if the first sender has gone and all data comes from a new address, messages go to the first one.
  (The new address is built, and the old one assigned to itself.)\<close>

theorem replies_go_to_first_remote:
  assumes "m_curr_remote (m_udp_connection c) = Some r" and "udp_keep_receiving (m_udp_connection c)"
    and "early t" and "early now" and "now - t \<le> 3000"
  shows "\<exists>c'. rfold (connection_step lo)
      (map (\<lambda>(t, i, p). Udp_Datagram t i p) ds @ [Udp_Datagram t new_ip new_port]) c = Inr c'
    \<and> sendMessage now msg c' = Inr (c'\<lparr>sent_messages := sent_messages c @ [(Udp r, msg)]\<rparr>, True)"
proof -
  obtain c1 where c1: "rfold (connection_step lo) (map (\<lambda>(t, i, p). Udp_Datagram t i p) ds) c = Inr c1"
    "m_curr_remote (m_udp_connection c1) = Some r" "udp_keep_receiving (m_udp_connection c1)"
    "sent_messages c1 = sent_messages c"
    using datagrams_keep_remote [OF assms(1,2)] by blast
  with assms(3-5) show ?thesis
    by (simp add: rfold_append udp_receive_def udp_set_remote_same sendMessage_def alive_early udp_send_def)
qed

theorem replies_go_to_first_remote_witness:
  "\<exists>c0 c1 c'. telemetry_start 1 [] = Inr c0
    \<and> connection_step True (Udp_Datagram 1000 ''127.0.0.1'' 14551) c0 = Inr c1
    \<and> rfold (connection_step True) (map (\<lambda>(t, i, p). Udp_Datagram t i p) [(2000, ''192.168.3.1'', 14550)]
        @ [Udp_Datagram 90000 ''192.168.3.1'' 14550]) c1 = Inr c'
    \<and> sendMessage 91000 (42 :: nat) c' =
        Inr (c'\<lparr>sent_messages := [(Udp \<lparr>ip = ''127.0.0.1'', port = 14551\<rparr>, 42)]\<rparr>, True)"
proof -
  obtain c0 :: "nat connections" where c0: "telemetry_start 1 [] = Inr c0" "udp_keep_receiving (m_udp_connection c0)"
    "m_curr_remote (m_udp_connection c0) = None" "sent_messages c0 = []"
    by (simp add: telemetry_start_def with_udp_def udp_start_looping_def udp_connection_new_def)
  let ?c1 = "c0\<lparr>m_udp_connection := udp_receive 1000 ''127.0.0.1'' 14551 (m_udp_connection c0)\<rparr>"
  have "m_curr_remote (m_udp_connection ?c1) = Some \<lparr>ip = ''127.0.0.1'', port = 14551\<rparr>"
    "udp_keep_receiving (m_udp_connection ?c1)"
    using c0 by (simp_all add: udp_receive_def udp_set_remote_def)
  from replies_go_to_first_remote [OF this, of 90000 91000 True "[(2000, ''192.168.3.1'', 14550)]"
      "''192.168.3.1''" 14550 42] c0
  show ?thesis by (auto simp: early_def)
qed

section \<open>The clock\<close>

lemma late_word: "word_of_int now = (word_of_int (now - 2 ^ 32) :: 32 word)"
proof -
  have "word_of_int (now - 2 ^ 32) = (word_of_int now :: 32 word) - word_of_int (2 ^ 32)"
    by (rule wi_hom_sub [symmetric])
  also have "(word_of_int (2 ^ 32) :: 32 word) = 0" by simp
  finally show ?thesis by simp
qed

lemma sint_late:
  "2 ^ 31 \<le> now \<Longrightarrow> now < 2 ^ 32 \<Longrightarrow> sint (word_of_int now :: 32 word) = now - 2 ^ 32"
  by (subst late_word, subst int_word_sint) simp

lemma tcp_elapsed_late:
  assumes "2 ^ 31 \<le> now" and "now \<le> now'" and "now' < 2 ^ 32"
  shows "tcp_elapsed now' (word_of_int now) > 3 * 1000"
proof -
  have "(scast (word_of_int now :: 32 word) :: 64 word) = word_of_int (now - 2 ^ 32)"
    using sint_late [of now] assms by (metis order_le_less_trans scast_eq)
  then have "tcp_elapsed now' (word_of_int now) = word_of_int (now' - (now - 2 ^ 32))"
    by (simp add: tcp_elapsed_def wi_hom_sub)
  moreover have "uint (word_of_int (now' - (now - 2 ^ 32)) :: 64 word) = now' - (now - 2 ^ 32)"
    using assms by (subst uint_word_of_int) simp
  ultimately show ?thesis
    using assms by (simp add: word_less_def)
qed

text \<open>When the device has been up for 24.8 days (and until 49.7 days) its telemetry is cut off: a UDP connection
  that never received anything counts as alive, so every message is said to have been sent and goes nowhere,
  and a TCP connection is given up in the first round after it was established, before a byte is read.\<close>

theorem long_uptime_disconnects:
  assumes "2 ^ 31 \<le> now" and "now \<le> now'" and "now' < 2 ^ 32"
    and "udp_last_data_ms (m_udp_connection c) = 0" and "m_curr_remote (m_udp_connection c) = None"
    and "tcp_keep_receiving t" and "\<not> tcp_receiving t" and "fd > 0"
  shows "sendMessage now msg c = Inr (c, True)
    \<and> tcp_receiving (tcp_connect_result now fd t)
    \<and> tcp_receive now' len (tcp_connect_result now fd t) = tcp_disconnect (tcp_connect_result now fd t)"
proof -
  have "threadsafe_is_alive now 0 = Inr True"
    using assms(1-3) by (simp add: threadsafe_is_alive_def signed_minus_def sint_late Let_def)
  then show ?thesis
    using assms tcp_elapsed_late [OF assms(1-3)]
    by (simp add: sendMessage_def udp_send_def tcp_connect_result_def tcp_receive_def Let_def)
qed

definition silent_connections :: "nat connections" where
  "silent_connections = \<lparr>m_udp_connection = udp_connection_new,
     m_tcp_connection_wifi_hs = tcp_connection_new ''192.168.3.1'' 5760,
     m_tcp_connection_eth_hs = tcp_connection_new ''192.168.2.1'' 5760,
     m_tcp_connection_custom = tcp_connection_new [] 5760, m_connection_mode = 0,
     m_connction_manual_tcp_ip = [], telemetry_connection_status = ''N/A'', sent_messages = []\<rparr>"

text \<open>Five seconds later a silent UDP connection of a device that is not the ground station still counts as alive, and the hotspots are not
  tried.\<close>

lemma long_uptime_no_hotspots:
  "\<exists>c'. perform_connection_management False (2 ^ 31 + 5000) silent_connections = Inr c'
    \<and> running c' = (True, False, False, False)"
proof -
  have "case perform_connection_management False (2 ^ 31 + 5000) silent_connections of
      Inl fault \<Rightarrow> False | Inr c' \<Rightarrow> running c' = (True, False, False, False)"
    by code_simp
  then show ?thesis by (auto split: sum.splits)
qed

theorem long_uptime_disconnects_witness:
  "sendMessage 2592000000 42 silent_connections = Inr (silent_connections, True)
   \<and> tcp_receive 2592000001 100 (tcp_connect_result 2592000000 7
        ((tcp_connection_new ''192.168.3.1'' 5760)\<lparr>tcp_keep_receiving := True, tcp_looping := True\<rparr>))
     = (tcp_connection_new ''192.168.3.1'' 5760)\<lparr>tcp_keep_receiving := True, tcp_looping := True,
         tcp_last_data_ms := word_of_int 2592000000\<rparr>"
  using long_uptime_disconnects [of 2592000000 2592000001 silent_connections
      "(tcp_connection_new ''192.168.3.1'' 5760)\<lparr>tcp_keep_receiving := True, tcp_looping := True\<rparr>" 7 42 100]
  by (simp add: silent_connections_def udp_connection_new_def tcp_connection_new_def tcp_connect_result_def
      tcp_disconnect_def Let_def)

text \<open>After the user has switched from UDP to TCP, UDP counts as alive for up to three more seconds: what is sent
  is lost although the TCP connection may be up.\<close>

lemma switch_to_tcp_loses_messages:
  assumes "early now" and "early (sint (udp_last_data_ms u))" and "now - sint (udp_last_data_ms u) \<le> 3000"
    and "udp_looping u" and "m_udp_connection c = u"
  shows "\<exists>c'. with_udp udp_stop_looping_if c = Inr c' \<and> sendMessage now msg c' = Inr (c', True)"
  using assms by (simp add: with_udp_def loop_total sendMessage_def alive_early udp_send_def)

end
