(* ===== verification/Camera.thy ===== *)
theory Camera
  imports Decimal
begin

text \<open>
  The cameras OpenHD knows (\<open>app/telemetry/models/openhd_core/camera.hpp\<close>): their names, the resolutions each of them
  supports, the text of a resolution and its parser, and the choices offered for a platform.
  Camera and platform types are the numbers of the constants in \<open>camera.hpp\<close> and \<open>platform.hpp\<close>.
\<close>

section \<open>Names\<close>

definition camera_names :: "(int \<times> string) list" where
  "camera_names =
    [(0, ''DUMMY''), (2, ''EXTERNAL''), (3, ''EXTERNAL_IP''), (4, ''DEV_FILESRC''), (10, ''USB''), (11, ''INFIRAY''),
     (12, ''INFIRAY_T2''), (14, ''INFIRAY_P2_PRO''), (13, ''INFIRAY_X2''), (15, ''FLIR VUE''), (16, ''FLIR BOSON''),
     (20, ''MMAL_HDMI''), (30, ''RPIF_V1_OV5647''), (31, ''RPIF_V2_IMX219''), (32, ''RPIF_V3_IMX708''),
     (33, ''RPIF_HQ_IMX477''), (40, ''ARDUCAM_SKYMASTERHDR''), (41, ''ARDUCAM_SKYVISIONPRO''),
     (42, ''ARDUCAM_IMX477M''), (43, ''ARDUCAM_IMX462''), (44, ''ARDUCAM_IMX327''), (45, ''ARDUCAM_IMX290''),
     (46, ''ARDUCAM_IMX462_LOWLIGHT_MINI''), (47, ''ARDUCAM_IMX662''), (60, ''VEYE_2MP''), (61, ''VEYE_IMX307''),
     (62, ''VEYE_CSSC132''), (63, ''VEYE_MVCAM''), (70, ''X20_HDZERO_GENERIC''), (71, ''X20_HDZERO_RUNCAM_V1''),
     (72, ''X20_HDZERO_RUNCAM_V2''), (73, ''X20_HDZERO_RUNCAM_V3''), (74, ''X20_HDZERO_RUNCAM_NANO''),
     (75, ''X20_OHD_Jaguar''), (76, ''X21_OHD_Jaguar''), (80, ''ROCK_5_HDMI_IN''), (81, ''ROCK_5_OV5647''),
     (82, ''ROCK_5_IMX219''), (83, ''ROCK_5_IMX708''), (84, ''ROCK_5_IMX462''), (85, ''ROCK_5_IMX415''),
     (86, ''ROCK_5_IMX415''), (87, ''ROCK_5_IMX415''), (88, ''ROCK_5_OHD_Jaguar''), (90, ''ROCK_3_HDMI_IN''),
     (91, ''ROCK_3_OV5647''), (92, ''ROCK_3_IMX219''), (93, ''ROCK_3_IMX708''), (94, ''ROCK_3_IMX462''),
     (95, ''ROCK_3_IMX519''), (96, ''ROCK_3_OHD_Jaguar''), (255, ''DISABLED''), (110, ''OPENIPC_X''),
     (101, ''XAVIER_IMX577''), (120, ''CORETRONIC IMX577''), (121, ''CORETRONIC OV9282''), (125, ''RV110X Camera''),
     (122, ''ORQA_HORNET''), (123, ''ORQA_JAGUAR''), (124, ''ORQA_REKINDLE'')]"

definition x_cam_type_to_string :: "int \<Rightarrow> string" where
  "x_cam_type_to_string camera_type =
     (case map_of camera_names camera_type of
        Some name \<Rightarrow> name
      | None \<Rightarrow> ''UNKNOWN ('' @ int_to_string camera_type @ '')'')"

section \<open>Resolutions\<close>

datatype resolution = R (width_px: int) (height_px: int) (fps: int)

definition as_string :: "resolution \<Rightarrow> string" where
  "as_string r = int_to_string (width_px r) @ ''x'' @ int_to_string (height_px r) @ ''@'' @ int_to_string (fps r)"

definition requires_rpi_libcamera_pipeline :: "int \<Rightarrow> bool" where
  "requires_rpi_libcamera_pipeline t \<longleftrightarrow> t \<ge> 30 \<and> t < 60"

definition requires_x20_cedar_pipeline :: "int \<Rightarrow> bool" where
  "requires_x20_cedar_pipeline t \<longleftrightarrow> t \<ge> 70 \<and> t < 80"

definition requires_rpi_veye_pipeline :: "int \<Rightarrow> bool" where
  "requires_rpi_veye_pipeline t \<longleftrightarrow> t \<ge> 60 \<and> t < 70"

definition requires_orqa_pipeline :: "int \<Rightarrow> bool" where
  "requires_orqa_pipeline t \<longleftrightarrow> t \<ge> 122 \<and> t \<le> 124"

definition requires_rockchip_rv_pipeline :: "int \<Rightarrow> bool" where
  "requires_rockchip_rv_pipeline t \<longleftrightarrow> t = 125"

definition libcamera_resolutions :: "int \<Rightarrow> resolution list" where
  "libcamera_resolutions t =
    (if t = 43 \<or> t = 46 then [R 640 480 60, R 896 504 30, R 896 504 60, R 1280 720 30, R 1280 720 60, R 1920 1080 30]
     else if t = 42 \<or> t = 33 then [R 640 480 50, R 896 504 50, R 1280 720 50, R 1920 1080 30]
     else if t = 31 then [R 640 480 47, R 896 504 47, R 1280 720 47, R 1920 1080 30]
     else if t = 41 then [R 640 480 60, R 896 504 60, R 1280 720 60, R 1920 1080 30]
     else if t = 40 \<or> t = 32 then [R 640 480 60, R 896 504 60, R 1280 720 60, R 1920 1080 30]
     else if t = 44 then [R 640 480 60, R 896 504 60, R 1280 720 60, R 1920 1080 30]
     else if t = 47 then [R 1280 720 60, R 1920 1080 30]
     else if t = 30 then [R 1280 720 30, R 1920 1080 30]
     else [R 1920 1080 30])"

definition get_supported_resolutions :: "int \<Rightarrow> resolution list" where
  "get_supported_resolutions t =
    (if requires_rpi_veye_pipeline t then (if t = 61 then [R 1280 720 60, R 1920 1080 30] else [R 1920 1080 30])
     else if requires_x20_cedar_pipeline t then [R 1280 720 60]
     else if requires_orqa_pipeline t then [R 960 720 120]
     else if t = 11 then [R 384 292 25]
     else if t = 12 then [R 256 192 25, R 0 0 0]
     else if requires_rockchip_rv_pipeline t then [R 1280 720 60, R 1296 968 60, R 1920 1080 25, R 2592 1944 25]
     else if t = 14 then [R 256 192 25]
     else if t = 13 then [R 384 292 50]
     else if t = 15 then [R 640 512 30]
     else if t = 16 then [R 640 512 60]
     else if t = 10 then [R 640 480 30, R 0 0 0]
     else if requires_rpi_libcamera_pipeline t then libcamera_resolutions t
     else if t = 20 then [R 1280 720 30, R 1920 1080 25, R 1280 720 60]
     else if t = 0 then [R 640 480 30, R 1280 720 30, R 1280 720 60]
     else if t = 4 then [R 848 480 60, R 1280 720 60, R 1920 1080 60]
     else if t = 84 then [R 1280 720 30, R 1280 720 60, R 1920 1080 30, R 1920 1080 60]
     else if t = 80 then [R 1280 720 30, R 1280 720 60, R 1920 1080 30, R 1920 1080 60, R 3840 2160 30, R 3840 2160 60]
     else if t = 81 then [R 640 480 60, R 1280 720 30, R 1920 1080 30]
     else if t = 82 then [R 640 480 30, R 848 480 30, R 1280 720 30, R 1920 1080 30]
     else if t = 83 then [R 1280 720 30, R 1280 720 60, R 1920 1080 60, R 4608 2592 14]
     else if t = 85 then [R 1280 720 30, R 1280 720 30, R 1920 1080 30, R 3864 2192 30]
     else if t = 86 then [R 1280 720 60, R 1920 1080 60, R 3840 2160 20, R 4056 3040 10]
     else if t = 87 then [R 1280 720 60, R 1920 1080 60, R 3840 2160 20, R 4056 3040 9]
     else if t = 88 then [R 1280 720 120, R 1920 1080 100, R 3840 2160 90]
     else if t = 90 then [R 1280 720 30, R 1280 720 60]
     else if t = 91 then [R 640 480 60, R 1280 720 30, R 1920 1080 30]
     else if t = 92 then [R 640 480 30, R 848 480 30, R 1280 720 30, R 1920 1080 30]
     else if t = 93 then [R 1280 720 30, R 1280 720 60, R 1920 1080 60]
     else if t = 94 then [R 1280 720 60, R 1280 720 30, R 1920 1080 30, R 1920 1080 60]
     else if t = 95 then [R 1280 720 60, R 1280 720 30, R 1920 1080 30, R 1920 1080 60]
     else if t = 96 then [R 1280 720 60, R 1280 720 120, R 1920 1080 60, R 1920 1080 100]
     else if t = 101 then [R 1280 720 60, R 1920 1080 60]
     else if t = 120 then [R 1280 720 30, R 1920 1080 30]
     else if t = 121 then [R 1280 720 30]
     else if t = 122 then [R 960 720 120]
     else if t = 123 then [R 1280 720 120]
     else if t = 124 then [R 1280 720 60]
     else [R 640 480 30])"

definition get_default_resolution_fps :: "int \<Rightarrow> resolution result" where
  "get_default_resolution_fps t =
     (let supported_resolutions = get_supported_resolutions t in
      if supported_resolutions = [] then Inl Out_Of_Range else Inr (last supported_resolutions))"

text \<open>\<open>std::regex_search\<close> for digits, \<open>x\<close>, digits, \<open>@\<close>, digits: the leftmost match, with every group as long as
  possible. A shorter group could not be followed by the next literal.\<close>

definition is_digit :: "char \<Rightarrow> bool" where
  "is_digit c \<longleftrightarrow> (48::nat) \<le> of_char c \<and> (of_char c :: nat) \<le> 57"

definition match_here :: "string \<Rightarrow> (string \<times> string \<times> string) option" where
  "match_here s =
     (case dropWhile is_digit s of
        [] \<Rightarrow> None
      | c # r1 \<Rightarrow>
          if c \<noteq> CHR ''x'' then None
          else case dropWhile is_digit r1 of
              [] \<Rightarrow> None
            | d # r2 \<Rightarrow>
                if d \<noteq> CHR ''@'' then None
                else Some (takeWhile is_digit s, takeWhile is_digit r1, takeWhile is_digit r2))"

fun regex_search :: "string \<Rightarrow> (string \<times> string \<times> string) option" where
  "regex_search [] = match_here []"
| "regex_search (c # s) = (case match_here (c # s) of None \<Rightarrow> regex_search s | Some m \<Rightarrow> Some m)"

text \<open>\<open>atoi\<close> of a text of digits; it is undefined when the number is no \<open>int\<close>.\<close>

definition atoi :: "string \<Rightarrow> int result" where
  "atoi s = (if string_to_nat s < 2 ^ 31 then Inr (int (string_to_nat s)) else Inl Signed_Overflow)"

definition parse_video_format :: "string \<Rightarrow> resolution option result" where
  "parse_video_format videoFormat =
     (if videoFormat = ''0x0@0'' then Inr (Some (R 0 0 0))
      else if length videoFormat \<le> 5 then Inr None
      else case regex_search videoFormat of
          None \<Rightarrow> Inr None
        | Some (w, h, f) \<Rightarrow>
            rbind (atoi w) (\<lambda>w. rbind (atoi h) (\<lambda>h. rbind (atoi f) (\<lambda>f. Inr (Some (R w h f))))))"

definition get_verbose_string_of_resolution :: "resolution \<Rightarrow> string" where
  "get_verbose_string_of_resolution r =
     (let w = width_px r; h = height_px r in
      if w = 0 \<and> h = 0 \<and> fps r = 0 then ''AUTO''
      else
        (if w = 640 \<and> h = 480 then ''VGA 4:3''
         else if w = 848 \<and> h = 480 then ''VGA 16:9''
         else if w = 896 \<and> h = 504 then ''SD 16:9''
         else if w = 1280 \<and> h = 720 then ''HD 16:9''
         else if w = 1920 \<and> h = 1080 then ''FHD 16:9''
         else if w = 2560 \<and> h = 1440 then ''2K 16:9''
         else int_to_string w @ ''x'' @ int_to_string h)
        @ [CHR 0x0A] @ int_to_string (fps r) @ ''fps'')"

section \<open>Choices\<close>

definition is_usb_camera :: "int \<Rightarrow> bool" where
  "is_usb_camera t \<longleftrightarrow> t \<ge> 10 \<and> t < 19"

definition is_valid_primary_cam_type :: "int \<Rightarrow> bool" where
  "is_valid_primary_cam_type t \<longleftrightarrow> t \<ge> 0 \<and> t < 255"

definition is_valid_secondary_cam_type :: "int \<Rightarrow> bool" where
  "is_valid_secondary_cam_type t \<longleftrightarrow> is_usb_camera t \<or> t = 0 \<or> t = 2 \<or> t = 3 \<or> t = 255"

datatype camera_name_and_type = Camera (cam_name: string) (cam_type: int)

datatype manufacturer_for_platform =
  Manufacturer (manufacturer_name: string) (cameras: "camera_name_and_type list")

definition MANUFACTURER_USB :: manufacturer_for_platform where
  "MANUFACTURER_USB = Manufacturer ''USB''
     [Camera ''INFIRAY USB'' 11, Camera ''INFIRAY USB T2'' 12, Camera ''INFIRAY USB P2 Pro'' 14,
      Camera ''INFIRAY USB X2'' 13, Camera ''FLIR_VUE'' 15, Camera ''FLIR_BOSON'' 16, Camera ''EXP USB GENERIC'' 10]"

definition MANUFACTURER_DEBUG :: manufacturer_for_platform where
  "MANUFACTURER_DEBUG = Manufacturer ''DEV/DEBUG''
     [Camera ''Dummy (debug)'' 0, Camera ''External (DEV)'' 2, Camera ''DEV Filecamera'' 4]"

definition rpi_choices :: "manufacturer_for_platform list" where
  "rpi_choices =
     [Manufacturer ''ARDUCAM''
        [Camera ''SKYMASTERHDR'' 40, Camera ''SKYVISIONPRO'' 41, Camera ''IMX477m'' 42, Camera ''IMX462'' 43,
         Camera ''IMX327'' 44, Camera ''IMX290'' 45, Camera ''IMX462_LOWLIGHT_MINI'' 46, Camera ''IMX662'' 47],
      Manufacturer ''VEYE'' [Camera ''2MP'' 60, Camera ''CSIMX307'' 61, Camera ''CSSC132'' 62, Camera ''MVCAM'' 63],
      Manufacturer ''RPI FOUNDATION''
        [Camera ''V1 OV5647'' 30, Camera ''V2 IMX219'' 31, Camera ''V3 IMX708'' 32, Camera ''HQ IMX477'' 33],
      Manufacturer ''HDMI TO CSI'' [Camera ''GENERIC HDMI to CSI'' 20],
      MANUFACTURER_USB, MANUFACTURER_DEBUG]"

definition rock_5_cameras :: "camera_name_and_type list" where
  "rock_5_cameras =
     [Camera ''IMX415'' 85, Camera ''IMX462'' 84, Camera ''IMX477'' 86, Camera ''IMX519'' 87, Camera ''OV5647'' 81,
      Camera ''IMX219'' 82, Camera ''IMX708'' 83, Camera ''OpenHD Jaguar'' 88]"

text \<open>The second branch for 30, the X20, is that of the source: it is never reached, because the first one ends
  without a return.\<close>

definition get_camera_choices_for_platform :: "int \<Rightarrow> bool \<Rightarrow> manufacturer_for_platform list" where
  "get_camera_choices_for_platform platform_type is_secondary =
     (if is_secondary then [Manufacturer ''DISABLE'' [Camera ''DISABLE'' 255], MANUFACTURER_USB, MANUFACTURER_DEBUG]
      else if platform_type = 10 \<or> platform_type = 11 \<or> platform_type = 12 then rpi_choices
      else if platform_type = 30 then [MANUFACTURER_DEBUG]
      else if platform_type = 30 then
        [Manufacturer ''HDZERO'' [Camera ''GENERIC'' 23],
         Manufacturer ''RUNCAM'' [Camera ''RUNCAM V1'' 71, Camera ''RUNCAM V2'' 72, Camera ''RUNCAM V3'' 73,
           Camera ''RUNCAM NANO 90'' 74, Camera ''OpenHD Jaguar'' 75]]
      else if platform_type = 20 \<or> platform_type = 24 then
        [Manufacturer ''Arducam'' [Camera ''IMX462'' 94, Camera ''IMX519'' 95, Camera ''IMX708'' 93,
           Camera ''OpenHD Jaguar'' 96], MANUFACTURER_USB, MANUFACTURER_DEBUG]
      else if platform_type = 21 then [Manufacturer ''Generic'' rock_5_cameras, MANUFACTURER_USB, MANUFACTURER_DEBUG]
      else if platform_type = 22 then
        [Manufacturer ''Generic'' (Camera ''HDMI IN'' 80 # rock_5_cameras), MANUFACTURER_USB, MANUFACTURER_DEBUG]
      else if platform_type = 1 then [MANUFACTURER_USB, MANUFACTURER_DEBUG]
      else if platform_type = 40 then [Manufacturer ''LEOPARD'' [Camera ''IMX577'' 101], MANUFACTURER_USB, MANUFACTURER_DEBUG]
      else if platform_type = 51 then
        [Manufacturer ''ORQA DIGITAL'' [Camera ''HORNET'' 122, Camera ''JAGUAR'' 123, Camera ''REKINDLE'' 124],
         MANUFACTURER_USB, MANUFACTURER_DEBUG]
      else [MANUFACTURER_DEBUG])"

section \<open>The text of a resolution\<close>

lemma is_digit_digit_char [simp]: "d < 10 \<Longrightarrow> is_digit (digit_char d)"
  by (simp add: is_digit_def digit_char_def)

lemma digits_nat_to_string [simp]: "list_all is_digit (nat_to_string n)"
  by (induction n rule: nat_to_string.induct) (subst nat_to_string.simps, simp)

lemma length_nat_to_string: "length (nat_to_string n) = 1 \<longleftrightarrow> n < 10" "length (nat_to_string n) \<ge> 1"
proof -
  have ge: "length (nat_to_string n) \<ge> 1" for n
    using nat_to_string_head [of n] by auto
  then show "length (nat_to_string n) \<ge> 1" .
  show "length (nat_to_string n) = 1 \<longleftrightarrow> n < 10"
  proof (cases "n < 10")
    case True
    then show ?thesis by (subst nat_to_string.simps) simp
  next
    case False
    then have "nat_to_string n = nat_to_string (n div 10) @ [digit_char (n mod 10)]"
      by (subst nat_to_string.simps) simp
    with ge [of "n div 10"] False show ?thesis by auto
  qed
qed

lemma span_digits:
  assumes "list_all is_digit ds" and "\<not> is_digit c"
  shows "takeWhile is_digit (ds @ c # r) = ds" and "dropWhile is_digit (ds @ c # r) = c # r"
  using assms by (simp_all add: list_all_iff)

lemma not_digits [simp]: "\<not> is_digit (CHR ''x'')" "\<not> is_digit (CHR ''@'')"
  by (simp_all add: is_digit_def)

lemma match_here_format:
  "list_all is_digit ds \<Longrightarrow> list_all is_digit hs \<Longrightarrow>
     match_here (ds @ CHR ''x'' # hs @ CHR ''@'' # r) = Some (ds, hs, takeWhile is_digit r)"
  by (simp add: match_here_def span_digits)

lemma regex_search_here: "match_here s = Some m \<Longrightarrow> regex_search s = Some m"
  by (cases s) (auto split: option.splits)

text \<open>A match leaves a text that contains the two literals with digits between them, and every such text matches.\<close>

lemma match_here_Some:
  assumes "match_here s = Some m"
  shows "\<exists>a h b. s = a @ CHR ''x'' # h @ CHR ''@'' # b \<and> list_all is_digit h"
proof -
  obtain r1 where r1: "dropWhile is_digit s = CHR ''x'' # r1"
    using assms by (auto simp: match_here_def split: list.splits if_splits)
  obtain r2 where r2: "dropWhile is_digit r1 = CHR ''@'' # r2"
    using assms r1 by (auto simp: match_here_def split: list.splits if_splits)
  have "s = takeWhile is_digit s @ CHR ''x'' # takeWhile is_digit r1 @ CHR ''@'' # r2"
    using takeWhile_dropWhile_id [of is_digit s] takeWhile_dropWhile_id [of is_digit r1] r1 r2 by metis
  moreover have "list_all is_digit (takeWhile is_digit r1)"
    by (auto simp: list_all_iff dest: set_takeWhileD)
  ultimately show ?thesis by blast
qed

lemma regex_search_iff:
  "regex_search s \<noteq> None \<longleftrightarrow> (\<exists>a h b. s = a @ CHR ''x'' # h @ CHR ''@'' # b \<and> list_all is_digit h)"
proof
  assume "regex_search s \<noteq> None"
  then show "\<exists>a h b. s = a @ CHR ''x'' # h @ CHR ''@'' # b \<and> list_all is_digit h"
  proof (induction s)
    case Nil
    then show ?case by (simp add: match_here_def)
  next
    case (Cons c s)
    show ?case
    proof (cases "match_here (c # s)")
      case None
      with Cons obtain a h b where "s = a @ CHR ''x'' # h @ CHR ''@'' # b" "list_all is_digit h"
        by auto
      then have "c # s = (c # a) @ CHR ''x'' # h @ CHR ''@'' # b \<and> list_all is_digit h" by simp
      then show ?thesis by blast
    qed (rule match_here_Some)
  qed
next
  assume "\<exists>a h b. s = a @ CHR ''x'' # h @ CHR ''@'' # b \<and> list_all is_digit h"
  then obtain a h b where "s = a @ CHR ''x'' # h @ CHR ''@'' # b" and h: "list_all is_digit h"
    by blast
  then show "regex_search s \<noteq> None"
  proof (induction a arbitrary: s)
    case Nil
    with match_here_format [OF _ h, of "[]" b] show ?case
      by (simp add: regex_search_here [of "CHR ''x'' # h @ CHR ''@'' # b"])
  next
    case (Cons c a)
    then show ?case by (auto split: option.splits)
  qed
qed

definition fits_int :: "int \<Rightarrow> bool" where
  "fits_int n \<longleftrightarrow> 0 \<le> n \<and> n < 2 ^ 31"

lemma atoi_number [simp]: "fits_int n \<Longrightarrow> atoi (nat_to_string (nat n)) = Inr n"
  by (auto simp: atoi_def fits_int_def)

lemma as_string_nats:
  "fits_int w \<Longrightarrow> fits_int h \<Longrightarrow> fits_int f \<Longrightarrow> as_string (R w h f) =
     nat_to_string (nat w) @ CHR ''x'' # nat_to_string (nat h) @ CHR ''@'' # nat_to_string (nat f)"
  by (simp add: as_string_def int_to_string_def fits_int_def)

lemma length_as_string:
  assumes "fits_int w" "fits_int h" "fits_int f"
  shows "length (as_string (R w h f)) \<le> 5 \<longleftrightarrow> w < 10 \<and> h < 10 \<and> f < 10"
  using assms length_nat_to_string(1) [of "nat w"] length_nat_to_string(1) [of "nat h"]
    length_nat_to_string(1) [of "nat f"] length_nat_to_string(2) [of "nat w"]
    length_nat_to_string(2) [of "nat h"] length_nat_to_string(2) [of "nat f"]
  by (auto simp: as_string_nats fits_int_def)

lemma parse_as_string:
  assumes "fits_int w" "fits_int h" "fits_int f" and "w \<ge> 10 \<or> h \<ge> 10 \<or> f \<ge> 10"
  shows "parse_video_format (as_string (R w h f)) = Inr (Some (R w h f))"
proof -
  have long: "\<not> length (as_string (R w h f)) \<le> 5"
    using assms length_as_string by auto
  then have "as_string (R w h f) \<noteq> ''0x0@0''" by auto
  moreover have "regex_search (as_string (R w h f)) =
      Some (nat_to_string (nat w), nat_to_string (nat h), nat_to_string (nat f))"
    using assms(1-3) match_here_format [of "nat_to_string (nat w)" "nat_to_string (nat h)" "nat_to_string (nat f)"]
    by (intro regex_search_here) (simp add: as_string_nats list_all_iff [symmetric] takeWhile_eq_all_conv [THEN iffD2])
  ultimately show ?thesis
    using assms(1-3) long by (simp add: parse_video_format_def)
qed

lemma video_format_text:
  assumes "fits_int w" "fits_int h" "fits_int f"
  shows "parse_video_format (as_string (R w h f)) =
    Inr (if w \<ge> 10 \<or> h \<ge> 10 \<or> f \<ge> 10 \<or> w = 0 \<and> h = 0 \<and> f = 0 then Some (R w h f) else None)"
proof (cases "w \<ge> 10 \<or> h \<ge> 10 \<or> f \<ge> 10")
  case True
  with parse_as_string [OF assms] show ?thesis by auto
next
  case False
  then have short: "length (as_string (R w h f)) \<le> 5"
    using length_as_string [OF assms] by auto
  have zero: "as_string (R 0 0 0) = ''0x0@0''"
    by code_simp
  have "as_string (R w h f) = ''0x0@0'' \<longleftrightarrow> w = 0 \<and> h = 0 \<and> f = 0"
  proof
    assume eq: "as_string (R w h f) = ''0x0@0''"
    have "match_here (as_string (R w h f)) = Some (nat_to_string (nat w), nat_to_string (nat h), nat_to_string (nat f))"
      if "fits_int w" "fits_int h" "fits_int f" for w h f
      using that match_here_format [of "nat_to_string (nat w)" "nat_to_string (nat h)" "nat_to_string (nat f)"]
      by (simp add: as_string_nats list_all_iff [symmetric] takeWhile_eq_all_conv [THEN iffD2])
    from this [of 0 0 0] this [OF assms] have "nat_to_string (nat w) = nat_to_string 0"
      "nat_to_string (nat h) = nat_to_string 0" "nat_to_string (nat f) = nat_to_string 0"
      using eq zero by (auto simp: fits_int_def)
    then show "w = 0 \<and> h = 0 \<and> f = 0"
      using assms by (metis string_to_nat_to_string fits_int_def nat_0_iff antisym)
  qed (use zero in simp)
  with False short show ?thesis by (simp add: parse_video_format_def)
qed

text \<open>A resolution survives printing and parsing, unless all three numbers have one digit: of those only the
  automatic one, 0x0@0, is understood.\<close>

theorem video_format_roundtrip:
  assumes "fits_int w" "fits_int h" "fits_int f"
  shows "parse_video_format (as_string (R w h f)) =
    Inr (if w \<ge> 10 \<or> h \<ge> 10 \<or> f \<ge> 10 \<or> w = 0 \<and> h = 0 \<and> f = 0 then Some (R w h f) else None)"
  by (rule video_format_text [OF assms])

theorem video_format_roundtrip_witness:
  "parse_video_format (as_string (R 1280 720 60)) = Inr (Some (R 1280 720 60))
   \<and> parse_video_format (as_string (R 0 0 5)) = Inr None"
  using video_format_roundtrip [of 1280 720 60] video_format_roundtrip [of 0 0 5] by (simp add: fits_int_def)

text \<open>The check for a resolution typed by the user accepts every text of six or more characters that contains an x and,
  with only digits between them, an at sign: it need not start or end with a number.\<close>

theorem format_check_accepts:
  "parse_video_format s \<noteq> Inr None \<longleftrightarrow>
     s = ''0x0@0'' \<or> length s > 5 \<and> (\<exists>a h b. s = a @ CHR ''x'' # h @ CHR ''@'' # b \<and> list_all is_digit h)"
proof (cases "regex_search s")
  case None
  with regex_search_iff [of s] show ?thesis by (auto simp: parse_video_format_def)
next
  case (Some m)
  obtain w h f where m: "m = (w, h, f)" by (cases m)
  have "rbind (atoi w) (\<lambda>w. rbind (atoi h) (\<lambda>h. rbind (atoi f) (\<lambda>f. Inr (Some (R w h f))))) \<noteq> Inr None"
    by (simp add: atoi_def)
  with Some m regex_search_iff [of s] show ?thesis by (auto simp: parse_video_format_def)
qed

section \<open>What is offered\<close>

lemma offered_resolutions:
  "get_supported_resolutions t \<noteq> []
   \<and> list_all (\<lambda>r. fits_int (width_px r) \<and> fits_int (height_px r) \<and> fits_int (fps r) \<and>
        (width_px r \<ge> 10 \<or> r = R 0 0 0)) (get_supported_resolutions t)"
  by (simp add: get_supported_resolutions_def libcamera_resolutions_def fits_int_def)

lemma default_resolution: "\<exists>r. get_default_resolution_fps t = Inr r \<and> r = last (get_supported_resolutions t)
    \<and> r \<in> set (get_supported_resolutions t)"
  using offered_resolutions [of t] by (auto simp: get_default_resolution_fps_def Let_def)

text \<open>For every camera type, known or not, there is a resolution to offer, the default is the last of them, and every
  text that is offered is accepted by the check and read as the resolution it stands for.\<close>

theorem offered_resolutions_accepted:
  "get_default_resolution_fps t = Inr (last (get_supported_resolutions t))
   \<and> list_all (\<lambda>r. parse_video_format (as_string r) = Inr (Some r)) (get_supported_resolutions t)"
proof
  show "get_default_resolution_fps t = Inr (last (get_supported_resolutions t))"
    using default_resolution by blast
  show "list_all (\<lambda>r. parse_video_format (as_string r) = Inr (Some r)) (get_supported_resolutions t)"
    unfolding list_all_iff
  proof
    fix r
    assume "r \<in> set (get_supported_resolutions t)"
    with offered_resolutions [of t]
    have "fits_int (width_px r)" "fits_int (height_px r)" "fits_int (fps r)" "width_px r \<ge> 10 \<or> r = R 0 0 0"
      by (simp_all add: list_all_iff)
    with video_format_text [of "width_px r" "height_px r" "fps r"]
    show "parse_video_format (as_string r) = Inr (Some r)" by auto
  qed
qed

section \<open>The choices\<close>

abbreviation known_camera :: "int \<Rightarrow> bool" where
  "known_camera t \<equiv> map_of camera_names t \<noteq> None"

definition choices_ok :: "manufacturer_for_platform list \<Rightarrow> bool" where
  "choices_ok ms \<longleftrightarrow> ms \<noteq> [] \<and> list_all (\<lambda>m. cameras m \<noteq> []
     \<and> list_all (\<lambda>c. known_camera (cam_type c)) (cameras m)) ms"

text \<open>The lists there are, by one platform of each kind.\<close>

lemma choices_cases:
  "get_camera_choices_for_platform p False \<in>
     set (map (\<lambda>p. get_camera_choices_for_platform p False) [10, 30, 20, 21, 22, 1, 40, 51, 0])"
  by (simp add: get_camera_choices_for_platform_def)

lemma primary_choices:
  "choices_ok (get_camera_choices_for_platform p False)
   \<and> list_all (\<lambda>m. list_all (\<lambda>c. is_valid_primary_cam_type (cam_type c)) (cameras m))
       (get_camera_choices_for_platform p False)"
proof -
  have "list_all (\<lambda>ms. choices_ok ms \<and> list_all (\<lambda>m. list_all (\<lambda>c. is_valid_primary_cam_type (cam_type c)) (cameras m)) ms)
      (map (\<lambda>p. get_camera_choices_for_platform p False) [10, 30, 20, 21, 22, 1, 40, 51, 0])"
    by code_simp
  from bspec [OF this [unfolded list_all_iff [of _ "map _ _"]] choices_cases [of p]] show ?thesis by simp
qed

lemma secondary_choices:
  "get_camera_choices_for_platform p True = get_camera_choices_for_platform 0 True"
  by (simp add: get_camera_choices_for_platform_def)

lemma secondary_choices_ok:
  "choices_ok (get_camera_choices_for_platform 0 True)"
  "map cam_type (filter (\<lambda>c. \<not> is_valid_secondary_cam_type (cam_type c))
     (concat (map cameras (get_camera_choices_for_platform 0 True)))) = [4]"
  by code_simp+

lemma choices_ok_all: "choices_ok (get_camera_choices_for_platform p b)"
  using primary_choices [of p] secondary_choices_ok by (cases b) (simp_all add: secondary_choices [of p])

text \<open>Three cameras of the Rock 5 have one name.\<close>

lemma rock_5_names_shared:
  "x_cam_type_to_string 86 = x_cam_type_to_string 85" "x_cam_type_to_string 87 = x_cam_type_to_string 85"
  by (simp_all add: x_cam_type_to_string_def camera_names_def)

text \<open>The choices: for every platform there is a list to choose from, none of its parts is empty, and every camera on offer has
  a name and may be the primary camera. For the secondary camera one entry is offered that
  the check for secondary cameras refuses, the file camera for development.\<close>

theorem offered_cameras_valid:
  "choices_ok (get_camera_choices_for_platform p b)
   \<and> list_all (\<lambda>m. list_all (\<lambda>c. is_valid_primary_cam_type (cam_type c)) (cameras m))
       (get_camera_choices_for_platform p False)
   \<and> map cam_type (filter (\<lambda>c. \<not> is_valid_secondary_cam_type (cam_type c))
       (concat (map cameras (get_camera_choices_for_platform p True)))) = [4]"
  using primary_choices [of p] secondary_choices_ok by (cases b) (simp_all add: secondary_choices [of p])

end
