(* ===== verification/String_Helper.thy ===== *)
theory String_Helper
  imports Telemetry_Util
begin

text \<open>
  Texts of bitrates (\<open>app/common/StringHelper.hpp\<close> and the end of \<open>app/telemetry/tutil/telemetryutil.hpp\<close>). A stream with
  \<open>std::fixed\<close> rounds to the nearest number with the given digits, a tie to the even one; the numbers are
  exact rationals where the code has \<open>double\<close>.
\<close>

definition round_half_even :: "rat \<Rightarrow> int" where
  "round_half_even x =
     (let f = \<lfloor>x\<rfloor>; d = x - of_int f in
      if d < 1 / 2 then f else if d > 1 / 2 then f + 1 else if even f then f else f + 1)"

text \<open>\<open>to_string_with_precision\<close>, for numbers that are not negative.\<close>

definition pad_digits :: "nat \<Rightarrow> string \<Rightarrow> string" where
  "pad_digits n s = replicate (n - length s) (CHR ''0'') @ s"

definition to_string_with_precision :: "rat \<Rightarrow> nat \<Rightarrow> string" where
  "to_string_with_precision x n =
     (let r = nat (round_half_even (x * 10 ^ n)) in
      nat_to_string (r div 10 ^ n) @ ''.'' @ pad_digits n (nat_to_string (r mod 10 ^ n)))"

definition bitrate_to_string :: "nat \<Rightarrow> string" where
  "bitrate_to_string bits_per_second =
     (if bits_per_second > 1000 * 1000
      then to_string_with_precision (of_nat bits_per_second / (1000 * 1000)) 1 @ '' MBit/s''
      else if bits_per_second > 1000
      then to_string_with_precision (of_nat bits_per_second / 1000) 2 @ '' KBit/s''
      else nat_to_string bits_per_second @ '' Bit/s'')"

definition bitrate_and_pps_to_string :: "nat \<Rightarrow> int \<Rightarrow> string" where
  "bitrate_and_pps_to_string bps pps = bitrate_to_string bps @ '' '' @ int_to_string pps @ '' pps''"

definition bitrate_kbits_to_qstring :: "nat \<Rightarrow> string" where
  "bitrate_kbits_to_qstring kbits = bitrate_to_string (kbits * 1000)"

section \<open>What a text says\<close>

lemma round_half_even_near: "\<bar>of_int (round_half_even x) - x\<bar> \<le> 1 / 2"
proof -
  have "of_int \<lfloor>x\<rfloor> \<le> x" "x < of_int \<lfloor>x\<rfloor> + 1" by linarith+
  then show ?thesis by (auto simp: round_half_even_def Let_def abs_le_iff)
qed

lemma round_half_even_nonneg: "x \<ge> 0 \<Longrightarrow> round_half_even x \<ge> 0"
  by (auto simp: round_half_even_def Let_def)

lemma round_half_even_mono: "x \<le> y \<Longrightarrow> round_half_even x \<le> round_half_even y"
proof (cases "\<lfloor>x\<rfloor> = \<lfloor>y\<rfloor>")
  case True
  assume "x \<le> y"
  with True show ?thesis by (auto simp: round_half_even_def Let_def)
next
  case False
  assume "x \<le> y"
  with False have "\<lfloor>x\<rfloor> + 1 \<le> \<lfloor>y\<rfloor>" using floor_mono [of x y] by linarith
  then show ?thesis by (auto simp: round_half_even_def Let_def)
qed

text \<open>The reader of such a text: digits, a point, \<open>n\<close> digits.\<close>

lemma string_to_nat_zeros [simp]: "string_to_nat (replicate k (CHR ''0'') @ s) = string_to_nat s"
proof -
  have "foldl (\<lambda>n c. 10 * n + digit_value c) 0 (replicate k (CHR ''0'')) = 0"
    by (induction k) (simp_all add: digit_value_def)
  then show ?thesis by (simp add: string_to_nat_def foldl_append)
qed

lemma string_to_nat_padded [simp]: "string_to_nat (pad_digits n s) = string_to_nat s"
  by (simp add: pad_digits_def)

text \<open>From one megabit on a text is off by at most a twentieth of a megabit, and one digit follows the point.\<close>

lemma bitrate_text_accuracy:
  assumes "b > 1000 * 1000"
  shows "\<exists>i f. bitrate_to_string b = nat_to_string i @ ''.'' @ [digit_char f] @ '' MBit/s'' \<and> f < 10
    \<and> \<bar>(of_nat i + of_nat f / 10) - of_nat b / (1000 * 1000)\<bar> \<le> (1 / 20 :: rat)"
proof -
  let ?x = "of_nat b / (1000 * 1000) :: rat"
  define r where "r = nat (round_half_even (?x * 10 ^ 1))"
  have r: "rat_of_int (round_half_even (?x * 10 ^ 1)) = of_nat r"
    using round_half_even_nonneg [of "?x * 10 ^ 1"] by (simp add: r_def)
  have near: "\<bar>of_nat r - ?x * 10\<bar> \<le> 1 / 2"
    using round_half_even_near [of "?x * 10 ^ 1"] r by simp
  have "of_nat r = (of_nat (10 * (r div 10) + r mod 10) :: rat)" by simp
  then have parts: "of_nat r = (10 * of_nat (r div 10) + of_nat (r mod 10) :: rat)"
    unfolding of_nat_add of_nat_mult by simp
  have "pad_digits 1 (nat_to_string (r mod 10)) = [digit_char (r mod 10)]"
    by (subst nat_to_string.simps) (simp add: pad_digits_def)
  then have "bitrate_to_string b = nat_to_string (r div 10) @ ''.'' @ [digit_char (r mod 10)] @ '' MBit/s''"
    using assms unfolding bitrate_to_string_def to_string_with_precision_def Let_def r_def [symmetric]
    by (simp add: power_one_right)
  moreover have "\<bar>(of_nat (r div 10) + of_nat (r mod 10) / 10) - ?x\<bar> \<le> 1 / 20"
    using near unfolding parts by (simp add: abs_le_iff field_simps)
  ultimately show ?thesis by (metis mod_less_divisor zero_less_numeral)
qed

end
