(* ===== verification/Log_Models.thy ===== *)
theory Log_Models
  imports Prelude
begin

text \<open>
  The messages shown to the user: \<open>HUDLogMessagesModel\<close> (\<open>app/logging/hudlogmessagesmodel.h\<close> and \<open>.cpp\<close>), the few lines
  over the video, and \<open>LogMessagesModel\<close> (\<open>app/logging/logmessagesmodel.h\<close> and \<open>.cpp\<close>), the three logs.

  A message is handed to the UI thread through a signal and added there; the two happen in one step here. Times are
  nanoseconds of \<open>steady_clock\<close>; one value serves a whole round of the clean-up. Row counts and the roles of the list views are left out.
\<close>

section \<open>Bounded lists\<close>

text \<open>\<open>removeData\<close> of both models.\<close>

definition remove_row :: "int \<Rightarrow> 'a list \<Rightarrow> 'a list" where
  "remove_row row data =
     (if row < 0 \<or> row \<ge> int (length data) then data
      else take (nat row) data @ drop (nat row + 1) data)"

text \<open>The newest \<open>n\<close> elements.\<close>

definition latest :: "nat \<Rightarrow> 'a list \<Rightarrow> 'a list" where
  "latest n xs = drop (length xs - n) xs"

lemma remove_row_0: "xs \<noteq> [] \<Longrightarrow> remove_row 0 xs = tl xs"
  by (cases xs) (simp_all add: remove_row_def)

lemma length_latest [simp]: "length (latest n xs) = min n (length xs)"
  by (simp add: latest_def)

lemma latest_Nil [simp]: "latest n [] = []"
  by (simp add: latest_def)

lemma latest_snoc:
  "n > 0 \<Longrightarrow> latest n (xs @ [x]) = (if length xs \<ge> n then tl (latest n xs) else latest n xs) @ [x]"
  by (simp add: latest_def Suc_diff_le drop_Suc tl_drop)

section \<open>The messages over the video\<close>

record hud_element =
  hud_message :: string
  hud_severity :: int
  added_time_point :: int

definition MAX_N_ELEMENTS :: nat where "MAX_N_ELEMENTS = 6"

definition hud_addData :: "hud_element \<Rightarrow> hud_element list \<Rightarrow> hud_element list" where
  "hud_addData e data =
     (let data1 = (if length data \<ge> MAX_N_ELEMENTS then remove_row 0 data else data) in data1 @ [e])"

definition hud_add_message :: "int \<Rightarrow> int \<Rightarrow> string \<Rightarrow> hud_element list \<Rightarrow> hud_element list" where
  "hud_add_message now severity message =
     hud_addData \<lparr>hud_message = message, hud_severity = severity, added_time_point = now\<rparr>"

definition hud_add_message_info :: "int \<Rightarrow> string \<Rightarrow> hud_element list \<Rightarrow> hud_element list" where
  "hud_add_message_info now = hud_add_message now 6"

definition hud_add_message_warning :: "int \<Rightarrow> string \<Rightarrow> hud_element list \<Rightarrow> hud_element list" where
  "hud_add_message_warning now = hud_add_message now 4"

definition hud_old :: "int \<Rightarrow> hud_element \<Rightarrow> bool" where
  "hud_old now e \<longleftrightarrow> now - added_time_point e > 5 * 1000000000"

text \<open>The loop of \<open>handle_cleanup\<close> at index \<open>i\<close>: after a removal the index stays.\<close>

function cleanup_from :: "int \<Rightarrow> nat \<Rightarrow> hud_element list \<Rightarrow> hud_element list" where
  "cleanup_from now i data =
     (if i < length data then
        if hud_old now (data ! i) then cleanup_from now i (remove_row (int i) data)
        else cleanup_from now (i + 1) data
      else data)"
  by pat_completeness auto
termination
  by (relation "measure (\<lambda>(now, i, data). length data - i)") (auto simp: remove_row_def)

declare cleanup_from.simps [simp del]

definition handle_cleanup :: "int \<Rightarrow> hud_element list \<Rightarrow> hud_element list" where
  "handle_cleanup now data = cleanup_from now 0 data"

lemma cleanup_from_filter:
  "i \<le> length data \<Longrightarrow>
     cleanup_from now i data = take i data @ filter (\<lambda>e. \<not> hud_old now e) (drop i data)"
proof (induction now i data rule: cleanup_from.induct)
  case (1 now i data)
  show ?case
  proof (cases "i < length data")
    case True
    then have d: "drop i data = data ! i # drop (Suc i) data" by (rule Cons_nth_drop_Suc [symmetric])
    show ?thesis
    proof (cases "hud_old now (data ! i)")
      case old: True
      with 1(1) [OF True old] True d show ?thesis
        by (subst cleanup_from.simps) (simp add: remove_row_def)
    next
      case young: False
      with 1(2) [OF True young] True d show ?thesis
        by (subst cleanup_from.simps) (simp add: take_Suc_conv_app_nth)
    qed
  qed (use 1(3) in \<open>simp add: cleanup_from.simps\<close>)
qed

lemma handle_cleanup_filter: "handle_cleanup now data = filter (\<lambda>e. \<not> hud_old now e) data"
  by (simp add: handle_cleanup_def cleanup_from_filter)

section \<open>The logs\<close>

datatype color = Red | Orange | Green

datatype log_name = Log_Ground | Log_Air | Log_FC

record log_message_data =
  log_tag :: string
  log_message :: string
  timestamp :: int
  severity_color :: color

definition MAX_N_STORED_LOG_MESSAGES :: nat where "MAX_N_STORED_LOG_MESSAGES = 30"

definition log_severity_to_color :: "u8 \<Rightarrow> color" where
  "log_severity_to_color severity = (if severity \<le> 3 then Red else if severity \<le> 4 then Orange else Green)"

fun contains :: "string \<Rightarrow> string \<Rightarrow> bool" where
  "contains [] p \<longleftrightarrow> p = []"
| "contains (c # s) p \<longleftrightarrow> take (length p) (c # s) = p \<or> contains s p"

record log_state =
  hud_list :: "hud_element list"
  log_lists :: "log_name \<Rightarrow> log_message_data list"

definition update_hud :: "(hud_element list \<Rightarrow> hud_element list) \<Rightarrow> log_state \<Rightarrow> log_state" where
  "update_hud f s = s\<lparr>hud_list := f (hud_list s)\<rparr>"

definition log_addData :: "int \<Rightarrow> log_name \<Rightarrow> log_message_data \<Rightarrow> log_state \<Rightarrow> log_state" where
  "log_addData now l d s =
     (let s1 = (if contains (log_message d) ''TX (likely) not supported by card(s)'' then s
                else if contains (log_message d) ''Bind phrase mismatch''
                then update_hud (hud_add_message_warning now (log_message d)) s
                else if contains (log_message d) ''error - unsupported resolution ?''
                then update_hud (hud_add_message_warning now (log_message d)) s
                else s);
          data = log_lists s1 l;
          data1 = (if length data \<ge> MAX_N_STORED_LOG_MESSAGES then remove_row 0 data else data)
      in s1\<lparr>log_lists := (log_lists s1)(l := data1 @ [d])\<rparr>)"

definition addLogMessage :: "int \<Rightarrow> log_name \<Rightarrow> string \<Rightarrow> string \<Rightarrow> u8 \<Rightarrow> log_state \<Rightarrow> log_state" where
  "addLogMessage now l tag message severity =
     log_addData now l \<lparr>log_tag = tag, log_message = message, timestamp = 0,
       severity_color = log_severity_to_color severity\<rparr>"

definition add_message_debug :: "int \<Rightarrow> log_name \<Rightarrow> string \<Rightarrow> string \<Rightarrow> log_state \<Rightarrow> log_state" where
  "add_message_debug now l tag message = addLogMessage now l tag message 7"

definition add_message_warn :: "int \<Rightarrow> log_name \<Rightarrow> string \<Rightarrow> string \<Rightarrow> log_state \<Rightarrow> log_state" where
  "add_message_warn now l tag message = addLogMessage now l tag message 4"

section \<open>Runs of the messages over the video\<close>

datatype hud_event =
    Hud_Message int int string
  | Hud_Cleanup int

fun hud_step :: "hud_event \<Rightarrow> hud_element list \<Rightarrow> hud_element list" where
  "hud_step (Hud_Message now severity message) data = hud_add_message now severity message data"
| "hud_step (Hud_Cleanup now) data = handle_cleanup now data"

fun hud_time :: "hud_event \<Rightarrow> int" where
  "hud_time (Hud_Message now severity message) = now"
| "hud_time (Hud_Cleanup now) = now"

fun hud_messages :: "hud_event list \<Rightarrow> hud_element list" where
  "hud_messages [] = []"
| "hud_messages (Hud_Message now severity message # es) =
     \<lparr>hud_message = message, hud_severity = severity, added_time_point = now\<rparr> # hud_messages es"
| "hud_messages (Hud_Cleanup now # es) = hud_messages es"

lemma hud_messages_append: "hud_messages (es @ es') = hud_messages es @ hud_messages es'"
  by (induction es rule: hud_messages.induct) simp_all

lemma hud_messages_times: "added_time_point ` set (hud_messages es) \<subseteq> hud_time ` set es"
  by (induction es rule: hud_messages.induct) auto

text \<open>What is shown is the end of all messages so far; what is missing of the newest six was too old at time \<open>t\<close>.\<close>

definition hud_rep :: "int \<Rightarrow> hud_element list \<Rightarrow> hud_element list \<Rightarrow> bool" where
  "hud_rep t ms data \<longleftrightarrow> length data \<le> MAX_N_ELEMENTS
     \<and> (\<exists>gone. latest MAX_N_ELEMENTS ms = gone @ data \<and> list_all (hud_old t) gone)"

lemma hud_old_mono: "hud_old t e \<Longrightarrow> t \<le> t' \<Longrightarrow> hud_old t' e"
  by (simp add: hud_old_def)

lemma hud_rep_mono: "hud_rep t ms data \<Longrightarrow> t \<le> t' \<Longrightarrow> hud_rep t' ms data"
  by (auto simp: hud_rep_def list_all_iff intro: hud_old_mono)

lemma hud_rep_message:
  assumes "hud_rep t ms data"
  shows "hud_rep t (ms @ [e]) (hud_addData e data)"
proof -
  obtain gone where g: "latest 6 ms = gone @ data" "list_all (hud_old t) gone" and l: "length data \<le> 6"
    using assms by (auto simp: hud_rep_def MAX_N_ELEMENTS_def)
  have len: "length gone + length data = min 6 (length ms)"
    using arg_cong [OF g(1), of length] by simp
  show ?thesis
  proof (cases gone)
    case Nil
    with g l len show ?thesis
      by (cases data) (auto simp: hud_rep_def MAX_N_ELEMENTS_def hud_addData_def latest_snoc remove_row_0
          split: if_splits)
  next
    case (Cons x xs)
    with g l len show ?thesis
      by (auto simp: hud_rep_def MAX_N_ELEMENTS_def hud_addData_def latest_snoc Let_def
          intro: exI [of _ xs] exI [of _ gone])
  qed
qed

lemma sorted_filter_old:
  assumes "sorted (map added_time_point data)"
  shows "\<exists>gone. data = gone @ filter (\<lambda>e. \<not> hud_old t e) data \<and> list_all (hud_old t) gone"
  using assms
proof (induction data)
  case (Cons e data)
  show ?case
  proof (cases "hud_old t e")
    case True
    from Cons obtain gone where "data = gone @ filter (\<lambda>e. \<not> hud_old t e) data" "list_all (hud_old t) gone"
      by auto
    with True show ?thesis by (intro exI [of _ "e # gone"]) simp
  next
    case False
    with Cons(2) have "filter (\<lambda>e. \<not> hud_old t e) data = data"
      by (auto simp: filter_id_conv hud_old_def)
    with False show ?thesis by simp
  qed
qed simp

lemma sorted_latest: "sorted (map f xs) \<Longrightarrow> sorted (map f (latest n xs))"
  by (simp add: latest_def drop_map [symmetric] sorted_wrt_drop)

lemma hud_messages_sorted: "sorted (map hud_time es) \<Longrightarrow> sorted (map added_time_point (hud_messages es))"
proof (induction es rule: hud_messages.induct)
  case (2 now severity message es)
  then show ?case using hud_messages_times [of es] by auto
qed simp_all

lemma hud_rep_cleanup:
  assumes "hud_rep t ms data" and "sorted (map added_time_point ms)"
  shows "hud_rep t ms (handle_cleanup t data)"
proof -
  obtain gone where g: "latest 6 ms = gone @ data" "list_all (hud_old t) gone" and l: "length data \<le> 6"
    using assms(1) by (auto simp: hud_rep_def MAX_N_ELEMENTS_def)
  have "sorted (map added_time_point data)"
    using sorted_latest [OF assms(2), of 6] by (simp add: g(1) sorted_append)
  then obtain gone' where "data = gone' @ handle_cleanup t data" "list_all (hud_old t) gone'"
    using sorted_filter_old [of data t] by (auto simp: handle_cleanup_filter)
  with g l show ?thesis
    by (auto simp: hud_rep_def MAX_N_ELEMENTS_def handle_cleanup_filter
        intro!: exI [of _ "gone @ gone'"] order_trans [OF length_filter_le])
qed

lemma hud_rep_run:
  assumes "sorted (map hud_time (es @ [e]))"
  shows "hud_rep (hud_time e) (hud_messages es) (fold hud_step es [])"
  using assms
proof (induction es arbitrary: e rule: rev_induct)
  case (snoc e1 es)
  then have "hud_rep (hud_time e1) (hud_messages es) (fold hud_step es [])"
    and le: "hud_time e1 \<le> hud_time e" and s: "sorted (map hud_time es)"
    by (auto simp: sorted_append)
  from hud_rep_message [OF this(1)] hud_rep_cleanup [OF this(1) hud_messages_sorted [OF s]]
  have "hud_rep (hud_time e1) (hud_messages (es @ [e1])) (fold hud_step (es @ [e1]) [])"
    by (cases e1) (simp_all add: hud_messages_append hud_add_message_def)
  from hud_rep_mono [OF this le] show ?case .
qed (simp add: hud_rep_def)

text \<open>However messages and clean-ups follow each other, the screen never shows more than six messages, and after a
  clean-up it shows, in their order, exactly those of the newest six that are not older than five seconds:
  the loop that removes while it counts skips none.\<close>

theorem hud_shows_newest:
  assumes "sorted (map hud_time (es @ [Hud_Cleanup now]))"
  shows "length (fold hud_step es []) \<le> 6
    \<and> fold hud_step (es @ [Hud_Cleanup now]) [] =
        filter (\<lambda>e. \<not> hud_old now e) (latest 6 (hud_messages es))"
proof -
  obtain gone where "latest 6 (hud_messages es) = gone @ fold hud_step es []" "list_all (hud_old now) gone"
    "length (fold hud_step es []) \<le> 6"
    using hud_rep_run [OF assms] by (auto simp: hud_rep_def MAX_N_ELEMENTS_def)
  moreover have "filter (\<lambda>e. \<not> hud_old now e) gone = []" if "list_all (hud_old now) gone" for gone
    using that by (auto simp: filter_empty_conv list_all_iff)
  ultimately show ?thesis
    by (simp add: handle_cleanup_filter)
qed

definition demo_hud :: "hud_event list" where
  "demo_hud = [Hud_Message 0 6 ''a'', Hud_Message 1 4 ''b'', Hud_Cleanup 5000000001,
     Hud_Message 6000000000 6 ''c'']"

theorem hud_shows_newest_witness:
  "fold hud_step (demo_hud @ [Hud_Cleanup 7000000000]) [] =
     [\<lparr>hud_message = ''c'', hud_severity = 6, added_time_point = 6000000000\<rparr>]"
proof -
  have "sorted (map hud_time (demo_hud @ [Hud_Cleanup 7000000000]))"
    by (simp add: demo_hud_def)
  from conjunct2 [OF hud_shows_newest [OF this]] show ?thesis
    by (simp add: demo_hud_def latest_def hud_old_def)
qed

section \<open>Runs of the logs\<close>

text \<open>Each log holds the newest thirty of its messages.\<close>

lemma log_addData_logs:
  "log_lists (log_addData now l d s) l' =
     (if l' = l then (if length (log_lists s l) \<ge> 30 then tl (log_lists s l) else log_lists s l) @ [d] else log_lists s l')"
  by (cases "log_lists s l") (simp_all add: log_addData_def Let_def update_hud_def MAX_N_STORED_LOG_MESSAGES_def
      remove_row_def)

lemma log_holds_newest:
  "log_lists (fold (\<lambda>(now, l, d). log_addData now l d) es s) l =
     latest 30 (latest 30 (log_lists s l) @ map (\<lambda>(now, l, d). d) (filter (\<lambda>(now, l', d). l' = l) es))"
  if "length (log_lists s l) \<le> 30"
  using that
proof (induction es rule: rev_induct)
  case Nil
  then show ?case by (simp add: latest_def)
next
  case (snoc e es)
  obtain now l' d where e: "e = (now, l', d)" by (cases e)
  show ?case
  proof (cases "l' = l")
    case True
    with snoc e show ?thesis
      by (simp add: log_addData_logs latest_snoc append_assoc [symmetric] min_def del: append_assoc)
  next
    case False
    with snoc e show ?thesis by (auto simp: log_addData_logs)
  qed
qed

end
