(* ===== verification/Camera_Stream.thy ===== *)
theory Camera_Stream
  imports Camera String_Helper Log_Models
begin

text \<open>
  What the screen shows of a camera and its video stream: the class \<open>CameraStreamModel\<close>
  (\<open>app/telemetry/models/camerastreammodel.h\<close> and \<open>.cpp\<close>), with the two instances and the codec settings
  of \<open>QOpenHDVideoHelper.hpp\<close> it changes. Fields of messages that are only copied are left out; unsigned
  fields of messages are natural numbers. An operation takes the stream with the logs it writes to. Clock: nanoseconds.
\<close>

section \<open>State\<close>

record camera_stream =
  curr_keyframe_interval :: int
  air_recording_active :: bool
  stream_camera_type :: int
  camera_status :: int
  encoding_codec :: int
  curr_set_video_format :: string
  curr_set_video_format_and_codec :: string
  m_curr_res_framerate :: resolution
  qopenhd_video_codec :: int
  curr_recomended_video_bitrate_kbits :: nat
  curr_recomended_video_bitrate_string :: string
  curr_video_measured_encoder_bitrate :: string
  curr_video_injected_bitrate :: string
  air_tx_packets_per_second_and_bits_per_second :: string
  total_n_tx_dropped_frames :: int
  curr_delta_tx_dropped_frames :: int
  m_last_tx_frame_drop_calculation :: int
  m_last_tx_frame_drop_calculation_count :: int
  curr_set_and_measured_bitrate_mismatch :: int
  m_n_mismatch_has_been_logged :: int
  curr_fec_percentage :: int
  curr_received_bitrate_with_fec :: string

text \<open>The stored codec is that of a new installation.\<close>

definition camera_stream_new :: "int \<Rightarrow> camera_stream" where
  "camera_stream_new now = \<lparr>curr_keyframe_interval = -1, air_recording_active = False, stream_camera_type = -1,
     camera_status = -1, encoding_codec = -1, curr_set_video_format = [], curr_set_video_format_and_codec = ''N/A'',
     m_curr_res_framerate = R (-1) (-1) (-1), qopenhd_video_codec = 0, curr_recomended_video_bitrate_kbits = 0,
     curr_recomended_video_bitrate_string = ''N/A'', curr_video_measured_encoder_bitrate = ''N/A'',
     curr_video_injected_bitrate = ''N/A'', air_tx_packets_per_second_and_bits_per_second = ''N/A'',
     total_n_tx_dropped_frames = 0, curr_delta_tx_dropped_frames = 0, m_last_tx_frame_drop_calculation = now,
     m_last_tx_frame_drop_calculation_count = -1, curr_set_and_measured_bitrate_mismatch = 0,
     m_n_mismatch_has_been_logged = 0, curr_fec_percentage = -1, curr_received_bitrate_with_fec = ''N/A''\<rparr>"

record video_air_msg =
  va_link_index :: int
  va_recommended_bitrate :: nat
  va_measured_encoder_bitrate :: nat
  va_injected_bitrate :: nat
  va_injected_pps :: int
  va_dropped_frames :: int
  va_fec_percentage :: int
  va_thermal :: int

record camera_status_msg =
  cs_keyframe_interval :: int
  cs_recording :: bool
  cs_cam_type :: int
  cs_encoding_format :: int
  cs_stream_w :: int
  cs_stream_h :: int
  cs_stream_fps :: int
  cs_cam_status :: int

section \<open>Texts for the screen\<close>

definition video_codec_to_string :: "int \<Rightarrow> string" where
  "video_codec_to_string value = (if value = 0 then ''h264'' else if value = 1 then ''h265'' else ''Unknown'')"

definition camera_type_to_string :: "int \<Rightarrow> string" where
  "camera_type_to_string t = (if t < 0 then ''N/A'' else x_cam_type_to_string t)"

definition camera_status_to_string :: "int \<Rightarrow> string" where
  "camera_status_to_string s =
     (if s < 0 then ''N/A'' else if s = 0 then ''unknown'' else if s = 1 then ''streaming''
      else if s = 2 then ''restarting'' else ''ERROR'')"

definition camera_codec_to_string :: "int \<Rightarrow> string" where
  "camera_codec_to_string c =
     (if c < 0 then ''ERROR'' else if c = 0 then ''h264'' else if c = 1 then ''h265''
      else if c = 2 then ''mjpeg'' else ''ERROR'')"

definition camera_recording_mode_to_string :: "int \<Rightarrow> string" where
  "camera_recording_mode_to_string m =
     (if m < 0 then replicate 19 (CHR '' '') @ ''n/a'' else if m = 0 then replicate 21 (CHR '' '') @ ''off''
      else if m = 1 then replicate 21 (CHR '' '') @ ''on'' else ''error'')"

definition is_valid_resolution_fps_string :: "string \<Rightarrow> bool result" where
  "is_valid_resolution_fps_string input = rbind (parse_video_format input) (\<lambda>parsed. Inr (parsed \<noteq> None))"

definition get_default_resolution :: "camera_stream \<Rightarrow> string result" where
  "get_default_resolution c =
     rbind (get_default_resolution_fps (stream_camera_type c)) (\<lambda>r. Inr (as_string r))"

definition supported_resolution_texts :: "camera_stream \<Rightarrow> string list" where
  "supported_resolution_texts c = map as_string (get_supported_resolutions (stream_camera_type c))"

definition make_resolution_fps_verbose :: "string \<Rightarrow> string result" where
  "make_resolution_fps_verbose input =
     rbind (parse_video_format input) (\<lambda>parsed.
       Inr (case parsed of Some r \<Rightarrow> get_verbose_string_of_resolution r | None \<Rightarrow> input))"

section \<open>Choosing a camera\<close>

text \<open>The index is compared with a \<open>size_t\<close>, so a negative one is out of range, too.\<close>

definition chosen_manufacturer :: "int \<Rightarrow> bool \<Rightarrow> int \<Rightarrow> manufacturer_for_platform" where
  "chosen_manufacturer platform_type secondary index =
     (let all_choices = get_camera_choices_for_platform platform_type secondary;
          i = (if index < 0 \<or> index \<ge> int (length all_choices) then 0 else index)
      in all_choices ! nat i)"

definition get_manufacturer_choices :: "int \<Rightarrow> bool \<Rightarrow> string list" where
  "get_manufacturer_choices platform_type secondary =
     map manufacturer_name (get_camera_choices_for_platform platform_type secondary)"

definition get_manufacturer_cameras_type :: "int \<Rightarrow> bool \<Rightarrow> int \<Rightarrow> int list" where
  "get_manufacturer_cameras_type platform_type secondary index =
     map cam_type (cameras (chosen_manufacturer platform_type secondary index))"

definition get_manufacturer_cameras_names :: "int \<Rightarrow> bool \<Rightarrow> int \<Rightarrow> string list" where
  "get_manufacturer_cameras_names platform_type secondary index =
     map cam_name (cameras (chosen_manufacturer platform_type secondary index))"

section \<open>Messages of the units\<close>

definition set_curr_recommended_bitrate_from_message ::
  "int \<Rightarrow> nat \<Rightarrow> nat \<Rightarrow> camera_stream \<times> log_state \<Rightarrow> camera_stream \<times> log_state" where
  "set_curr_recommended_bitrate_from_message now idx kbits = (\<lambda>(c, l).
     let old = curr_recomended_video_bitrate_kbits c;
         l1 = (if old \<noteq> 0 \<and> kbits \<noteq> 0 \<and> old \<noteq> kbits
               then update_hud (hud_add_message_info now
                      ((if idx = 0 then ''Cam1 encoder:'' else ''Cam2 encoder:'') @ bitrate_kbits_to_qstring kbits)) l
               else l)
     in (c\<lparr>curr_recomended_video_bitrate_kbits := kbits, curr_recomended_video_bitrate_string :=
           (if kbits > 0 then bitrate_kbits_to_qstring kbits else ''N/A'')\<rparr>, l1))"

definition count_dropped_frames :: "int \<Rightarrow> int \<Rightarrow> camera_stream \<Rightarrow> camera_stream" where
  "count_dropped_frames now dropped c =
     (if m_last_tx_frame_drop_calculation_count c < 0 then c\<lparr>m_last_tx_frame_drop_calculation_count := dropped\<rparr>
      else if now - m_last_tx_frame_drop_calculation c > 1000000000
      then c\<lparr>m_last_tx_frame_drop_calculation_count := dropped,
             curr_delta_tx_dropped_frames := dropped - m_last_tx_frame_drop_calculation_count c\<rparr>
      else c)"

text \<open>Is the encoder too slow (1) or too fast (2)?\<close>

definition bitrate_mismatch :: "nat \<Rightarrow> nat \<Rightarrow> int" where
  "bitrate_mismatch recommended measured =
     (let recommended_kbits = of_nat recommended :: rat;
          max_perc_allowed = 2 / 10;
          max_kbit_okay = recommended_kbits * (1 + max_perc_allowed);
          min_kbit_okay = recommended_kbits * (1 - max_perc_allowed);
          measured_kbits = of_nat measured / 1000
      in if measured_kbits \<le> min_kbit_okay then 1
         else if measured_kbits \<ge> max_kbit_okay then 2 else 0)"

definition check_bitrate ::
  "int \<Rightarrow> video_air_msg \<Rightarrow> camera_stream \<times> log_state \<Rightarrow> camera_stream \<times> log_state" where
  "check_bitrate now msg = (\<lambda>(c, l).
     if va_recommended_bitrate msg > 1 \<and> va_measured_encoder_bitrate msg > 1 then
       let m = bitrate_mismatch (va_recommended_bitrate msg) (va_measured_encoder_bitrate msg);
           c1 = c\<lparr>curr_set_and_measured_bitrate_mismatch := m\<rparr>
       in if m \<noteq> 0 \<and> m_n_mismatch_has_been_logged c1 < 10
          then (c1\<lparr>m_n_mismatch_has_been_logged := m_n_mismatch_has_been_logged c1 + 1\<rparr>,
                add_message_warn now Log_Air ''CAM'' ''Set/ Measured encoder bitrate mismatch >0.2%'' l)
          else (c1, l)
     else (c, l))"

definition update_stats_wb_video_air ::
  "int \<Rightarrow> nat \<Rightarrow> video_air_msg \<Rightarrow> camera_stream \<times> log_state \<Rightarrow> camera_stream \<times> log_state" where
  "update_stats_wb_video_air now idx msg cl =
     (let (c1, l1) = set_curr_recommended_bitrate_from_message now idx (va_recommended_bitrate msg) cl;
          c2 = c1\<lparr>curr_video_measured_encoder_bitrate := bitrate_to_string (va_measured_encoder_bitrate msg),
                  curr_video_injected_bitrate := bitrate_to_string (va_injected_bitrate msg),
                  total_n_tx_dropped_frames := va_dropped_frames msg\<rparr>;
          (c3, l3) = check_bitrate now msg (count_dropped_frames now (va_dropped_frames msg) c2, l1)
      in (c3\<lparr>curr_fec_percentage := va_fec_percentage msg, air_tx_packets_per_second_and_bits_per_second :=
            bitrate_and_pps_to_string (va_injected_bitrate msg) (va_injected_pps msg)\<rparr>, l3))"

definition is_any_invalid :: "resolution \<Rightarrow> bool" where
  "is_any_invalid r \<longleftrightarrow> width_px r = -1 \<or> width_px r = 0 \<or> height_px r = -1 \<or> height_px r = 0
     \<or> fps r = -1 \<or> fps r = 0"

text \<open>The codec of the camera becomes that of the decoder.\<close>

definition follow_codec ::
  "int \<Rightarrow> nat \<Rightarrow> int \<Rightarrow> camera_stream \<times> log_state \<Rightarrow> camera_stream \<times> log_state" where
  "follow_codec now idx codec_in_openhd = (\<lambda>(c, l).
     if codec_in_openhd = 0 \<or> codec_in_openhd = 1 \<or> codec_in_openhd = 2 then
       if qopenhd_video_codec c \<noteq> codec_in_openhd
       then (c\<lparr>qopenhd_video_codec := codec_in_openhd\<rparr>,
             update_hud (hud_add_message_info now (''QOpenHD- set '' @ (if idx = 1 then ''CAM2'' else ''CAM1'') @ '' to '' @
               video_codec_to_string codec_in_openhd)) l)
       else (c, l)
     else (c, l))"

definition update_camera_status_air ::
  "int \<Rightarrow> nat \<Rightarrow> camera_status_msg \<Rightarrow> camera_stream \<times> log_state \<Rightarrow> camera_stream \<times> log_state" where
  "update_camera_status_air now idx msg = (\<lambda>(c, l).
     let new_res_fps = R (cs_stream_w msg) (cs_stream_h msg) (cs_stream_fps msg);
         c1 = c\<lparr>curr_keyframe_interval := cs_keyframe_interval msg, air_recording_active := cs_recording msg,
                stream_camera_type := cs_cam_type msg, encoding_codec := cs_encoding_format msg,
                curr_set_video_format := as_string new_res_fps,
                curr_set_video_format_and_codec := as_string new_res_fps @ '', '' @
                  video_codec_to_string (cs_encoding_format msg)\<rparr>;
         c2 = (if is_any_invalid new_res_fps then c1
               else if is_any_invalid (m_curr_res_framerate c1) then c1\<lparr>m_curr_res_framerate := new_res_fps\<rparr>
               else if m_curr_res_framerate c1 \<noteq> new_res_fps then c1\<lparr>m_curr_res_framerate := new_res_fps\<rparr>
               else c1);
         (c3, l3) = follow_codec now idx (cs_encoding_format msg) (c2, l)
     in (c3\<lparr>camera_status := cs_cam_status msg\<rparr>, l3))"

definition update_stats_wb_video_ground :: "nat \<Rightarrow> camera_stream \<Rightarrow> camera_stream" where
  "update_stats_wb_video_ground incoming_bitrate c =
     c\<lparr>curr_received_bitrate_with_fec := bitrate_to_string incoming_bitrate\<rparr>"

section \<open>Dropped frames and bitrates\<close>

lemma last_not_negative:
  "list_all (\<lambda>(now, d). 0 \<le> d \<and> P now) ms \<Longrightarrow> ms \<noteq> [] \<Longrightarrow> (0::int) \<le> snd (last ms)"
  by (induction ms) auto

text \<open>The time of the last calculation is never set again: later than a second after the start every message, not every second,
  gives a new difference.\<close>

lemma dropped_frames_each_message:
  assumes "0 \<le> m_last_tx_frame_drop_calculation_count c" and "list_all (\<lambda>(now, d). 0 \<le> d \<and>
      now - m_last_tx_frame_drop_calculation c > 1000000000) (ms @ [(now, d)])"
  shows "curr_delta_tx_dropped_frames (fold (\<lambda>(now, d). count_dropped_frames now d) (ms @ [(now, d)]) c) =
    d - (if ms = [] then m_last_tx_frame_drop_calculation_count c else snd (last ms))"
proof -
  have "let c' = fold (\<lambda>(now, d). count_dropped_frames now d) ms c in
      m_last_tx_frame_drop_calculation c' = m_last_tx_frame_drop_calculation c
      \<and> m_last_tx_frame_drop_calculation_count c' =
          (if ms = [] then m_last_tx_frame_drop_calculation_count c else snd (last ms))"
    if "list_all (\<lambda>(now, d). 0 \<le> d \<and> now - m_last_tx_frame_drop_calculation c > 1000000000) ms"
    using that assms(1)
  proof (induction ms rule: rev_induct)
    case (snoc m ms)
    then have "0 \<le> (if ms = [] then m_last_tx_frame_drop_calculation_count c else snd (last ms))"
      using last_not_negative [of _ ms] by auto
    with snoc show ?case
      by (cases m) (auto simp: Let_def count_dropped_frames_def)
  qed simp
  moreover have "0 \<le> (if ms = [] then m_last_tx_frame_drop_calculation_count c else snd (last ms))"
    using assms last_not_negative [of _ ms] by auto
  ultimately show ?thesis
    using assms(2) by (auto simp: Let_def count_dropped_frames_def)
qed

lemma bitrate_mismatch_iff:
  assumes "recommended > 0"
  shows "bitrate_mismatch recommended measured = 0 \<longleftrightarrow>
      \<bar>int measured - 1000 * int recommended\<bar> * 5 < 1000 * int recommended"
    and "bitrate_mismatch recommended measured = 1 \<longleftrightarrow> int measured * 5 \<le> 4000 * int recommended"
proof -
  have "of_nat measured / 1000 \<le> (of_nat recommended * (1 - 2 / 10) :: rat) \<longleftrightarrow>
      rat_of_int (int measured * 5) \<le> of_int (4000 * int recommended)"
    by (simp add: field_simps)
  then have 1: "of_nat measured / 1000 \<le> (of_nat recommended * (1 - 2 / 10) :: rat) \<longleftrightarrow>
      int measured * 5 \<le> 4000 * int recommended"
    by (simp only: of_int_le_iff)
  have "of_nat measured / 1000 \<ge> (of_nat recommended * (1 + 2 / 10) :: rat) \<longleftrightarrow>
      rat_of_int (int measured * 5) \<ge> of_int (6000 * int recommended)"
    by (simp add: field_simps)
  then have 2: "of_nat measured / 1000 \<ge> (of_nat recommended * (1 + 2 / 10) :: rat) \<longleftrightarrow>
      int measured * 5 \<ge> 6000 * int recommended"
    by (simp only: of_int_le_iff)
  show "bitrate_mismatch recommended measured = 1 \<longleftrightarrow> int measured * 5 \<le> 4000 * int recommended"
    using 1 unfolding bitrate_mismatch_def Let_def by simp
  show "bitrate_mismatch recommended measured = 0 \<longleftrightarrow>
      \<bar>int measured - 1000 * int recommended\<bar> * 5 < 1000 * int recommended"
  proof -
    have "bitrate_mismatch recommended measured = 0 \<longleftrightarrow>
        \<not> int measured * 5 \<le> 4000 * int recommended \<and> \<not> int measured * 5 \<ge> 6000 * int recommended"
      unfolding bitrate_mismatch_def Let_def 1 2 by simp
    then show ?thesis by (auto simp: abs_if)
  qed
qed

text \<open>The log is written at most ten times by a stream.\<close>

lemma mismatch_logged:
  "fold (\<lambda>(now, msg). check_bitrate now msg) ms (c, l) = (c', l') \<Longrightarrow> m_n_mismatch_has_been_logged c \<le> 10 \<Longrightarrow>
     m_n_mismatch_has_been_logged c' \<le> 10"
proof (induction ms arbitrary: c l)
  case (Cons m ms)
  obtain now msg where m: "m = (now, msg)" by fastforce
  obtain c1 l1 where 1: "check_bitrate now msg (c, l) = (c1, l1)" by fastforce
  with Cons.prems(2) have "m_n_mismatch_has_been_logged c1 \<le> 10"
    by (auto simp: check_bitrate_def Let_def split: if_splits)
  with Cons 1 m show ?case by simp
qed simp

section \<open>The lists of the choice\<close>

text \<open>Whatever the index, a manufacturer of the platform is chosen, and the list of names and that of types belong together.\<close>

lemma chosen_manufacturer_offered:
  "chosen_manufacturer p b i \<in> set (get_camera_choices_for_platform p b)"
  using choices_ok_all [of p b] by (auto simp: chosen_manufacturer_def Let_def choices_ok_def intro!: nth_mem)

lemma map2_same: "map2 f (map g xs) (map h xs) = map (\<lambda>x. f (g x) (h x)) xs"
  by (induction xs) simp_all

lemma manufacturer_lists_aligned:
  "map2 Camera (get_manufacturer_cameras_names p b i) (get_manufacturer_cameras_type p b i) =
     cameras (chosen_manufacturer p b i)"
  by (simp add: get_manufacturer_cameras_names_def get_manufacturer_cameras_type_def map2_same)

end
