(* ===== verification/Ohd_System.thy ===== *)
theory Ohd_System
  imports Wb_Link Settings_Model Camera_Stream
begin

text \<open>
  The air and the ground unit: the class \<open>AOHDSystem\<close> (\<open>app/telemetry/models/aohdsystem.h\<close> and \<open>.cpp\<close>) with its two
  instances, the wifi cards (\<open>app/telemetry/models/wificard.h\<close> and \<open>.cpp\<close>) and the platforms
  (\<open>app/telemetry/models/openhd_core/platform.hpp\<close>), together with the components they use: the link settings, the logs,
  the streams of the cameras and the settings models, whose parameters they fetch on their own.

  An instance is named by whether it is the air unit. Message fields are integers, of the values their MAVLink types
  allow. Left out: fields that are only copied to the screen (temperatures, frequencies, storage, voltages) and the texts
  of bit rates. The clock is \<open>steady_clock\<close> in nanoseconds.
\<close>

section \<open>Platforms\<close>

definition x_platform_type_to_string :: "int \<Rightarrow> string" where
  "x_platform_type_to_string platform_type =
     (if platform_type = 0 then ''UNKNOWN''
      else if platform_type = 1 then ''X86''
      else if platform_type = 10 then ''RPI<=3''
      else if platform_type = 11 then ''RPI 4''
      else if platform_type = 12 then ''RPI 5''
      else if platform_type = 20 then ''RADXA ZERO3W''
      else if platform_type = 24 then ''RADXA CM3''
      else if platform_type = 21 then ''RADXA ROCK5 A''
      else if platform_type = 22 then ''RADXA ROCK5 B''
      else if platform_type = 27 then ''Luckfox Lyra''
      else if platform_type = 25 then ''Luckfox RV1106''
      else if platform_type = 26 then ''Luckfox RV1103''
      else if platform_type = 30 then ''X20''
      else if platform_type = 23 then ''X21''
      else if platform_type = 52 then ''UXV NAV''
      else if platform_type = 36 then ''OPENIPC SIGMASTAR''
      else if platform_type = 40 then ''NVIDIA_XAVIER''
      else if platform_type = 51 then ''ORQA DIGITAL''
      else ''ERR-UNDEFINED{'' @ int_to_string platform_type @ ''}'')"

section \<open>Wifi cards\<close>

record wifi_card_msg =
  card_index :: int
  msg_card_type :: int
  rx_rssi :: int
  rx_signal_quality_adapter :: int
  count_p_received :: int
  tx_power_current :: int
  curr_status :: int

record wifi_card =
  alive :: bool
  curr_rx_rssi_dbm :: int
  n_received_packets :: int
  n_received_packets_rolling :: int
  tx_power :: int
  tx_power_unit :: string
  card_type :: int
  card_type_as_string :: string
  card_type_supported :: bool
  m_last_disconnected_warning :: int
  m_last_packets_in_X_second_recalculation :: int
  m_last_packets_in_X_second_value :: int
  m_last_mavlink_message :: int

definition wifi_card_new :: "int \<Rightarrow> wifi_card" where
  "wifi_card_new now = \<lparr>alive = False, curr_rx_rssi_dbm = -128, n_received_packets = 0,
     n_received_packets_rolling = 0, tx_power = -1, tx_power_unit = ''N/A'', card_type = -1,
     card_type_as_string = ''N/A'', card_type_supported = False, m_last_disconnected_warning = now,
     m_last_packets_in_X_second_recalculation = now, m_last_packets_in_X_second_value = -1,
     m_last_mavlink_message = 0\<rparr>"

definition wifi_card_type_to_string :: "int \<Rightarrow> string" where
  "wifi_card_type_to_string t =
     (let names = [''88X2AU'', ''88X2BU'', ''88X2CU'', ''88X2EU'', ''OPENHD_8852BU'', ''ERR_88X2AU'',
        ''ERR_88X2BU'', ''ATHEROS'', ''MT_7921u'', ''RALINK'', ''INTEL'', ''BROADCOM'', ''INTERNAL'', ''QUALCOMM'']
      in if 0 \<le> t \<and> t < int (length names) then names ! nat t else ''UNKNOWN'')"

definition tx_power_unit_for_card :: "int \<Rightarrow> string" where
  "tx_power_unit_for_card t = (if t = 0 then ''TPI'' else if t = 1 \<or> t = 3 then ''mW'' else '' ?mW'')"

abbreviation ms_of :: "int \<Rightarrow> int" where
  "ms_of now \<equiv> now div 1000000"

abbreviation secs :: "int \<Rightarrow> int" where
  "secs n \<equiv> n * 1000000000"

definition card_power_message :: "bool \<Rightarrow> int \<Rightarrow> wifi_card_msg \<Rightarrow> wifi_card \<Rightarrow> string option" where
  "card_power_message is_air idx msg c =
     (if tx_power c > 0 \<and> tx_power c \<noteq> tx_power_current msg then
        if is_air then Some (''Air TX Power '' @ int_to_string (tx_power_current msg))
        else if idx = 0 then Some (''GND TX Power '' @ int_to_string (tx_power_current msg))
        else None
      else None)"

definition hud_info :: "int \<Rightarrow> string \<Rightarrow> log_state \<Rightarrow> log_state" where
  "hud_info now m = update_hud (hud_add_message_info now m)"

definition hud_warning :: "int \<Rightarrow> string \<Rightarrow> log_state \<Rightarrow> log_state" where
  "hud_warning now m = update_hud (hud_add_message_warning now m)"

text \<open>\<open>WiFiCard::process_mavlink\<close>: the card and the messages it puts on the screen.\<close>

definition card_process_mavlink ::
  "int \<Rightarrow> bool \<Rightarrow> int \<Rightarrow> wifi_card_msg \<Rightarrow> wifi_card \<times> log_state \<Rightarrow> wifi_card \<times> log_state" where
  "card_process_mavlink now is_air idx msg = (\<lambda>(c, l).
     let c1 = c\<lparr>m_last_mavlink_message := ms_of now, alive := True, curr_rx_rssi_dbm := rx_rssi msg,
                n_received_packets := count_p_received msg\<rparr>;
         l1 = (case card_power_message is_air idx msg c1 of Some m \<Rightarrow> hud_info now m l | None \<Rightarrow> l);
         c2 = c1\<lparr>tx_power := tx_power_current msg, tx_power_unit := tx_power_unit_for_card (msg_card_type msg)\<rparr>;
         (c3, l3) = (if curr_status msg = 1 \<and> now - m_last_disconnected_warning c2 \<ge> secs 3
                     then (c2\<lparr>m_last_disconnected_warning := now\<rparr>,
                           hud_warning now ((if is_air then ''Air '' else ''Gnd '') @ ''Card '' @
                             int_to_string (card_index msg) @ '' disconnected'') l1)
                     else (c2, l1));
         c4 = (if m_last_packets_in_X_second_value c3 \<le> -1
               then c3\<lparr>m_last_packets_in_X_second_value := count_p_received msg\<rparr>
               else if now - m_last_packets_in_X_second_recalculation c3 \<ge> secs 1
               then c3\<lparr>n_received_packets_rolling := count_p_received msg - m_last_packets_in_X_second_value c3,
                       m_last_packets_in_X_second_value := count_p_received msg,
                       m_last_packets_in_X_second_recalculation := now\<rparr>
               else c3)
     in (c4\<lparr>card_type := msg_card_type msg, card_type_as_string := wifi_card_type_to_string (msg_card_type msg),
            card_type_supported := (msg_card_type msg \<in> {0, 1, 2, 3, 4})\<rparr>, l3))"

definition card_update_alive :: "int \<Rightarrow> wifi_card \<Rightarrow> wifi_card" where
  "card_update_alive now c =
     (if ms_of now - m_last_mavlink_message c > 5 * 1000 then c\<lparr>alive := False\<rparr> else c)"

definition helper_get_gnd_curr_best_rssi :: "wifi_card list \<Rightarrow> int" where
  "helper_get_gnd_curr_best_rssi cards =
     fold (\<lambda>card best_rssi. if alive card \<and> curr_rx_rssi_dbm card > best_rssi then curr_rx_rssi_dbm card
                        else best_rssi) cards (-127)"

section \<open>Signal strength\<close>

definition get_dbm_20mhz :: "int list" where
  "get_dbm_20mhz = [-82, -79, -77, -74, -70, -66, -65, -64, -59, -57]"

definition get_dbm_40mhz :: "int list" where
  "get_dbm_40mhz = [-79, -76, -74, -71, -67, -63, -62, -61, -56, -54]"

definition get_required_dbm_for_rate :: "int \<Rightarrow> int \<Rightarrow> int" where
  "get_required_dbm_for_rate channel_width mcs_index =
     (let values = (if channel_width = 20 then get_dbm_20mhz else get_dbm_40mhz) in
      if mcs_index \<ge> 0 \<and> mcs_index < int (length values) then values ! nat mcs_index else 0)"

definition dbm_warning :: "int \<Rightarrow> int \<Rightarrow> int" where
  "dbm_warning minimum_dbm curr_rx_dbm =
     (let dbm_remaining = curr_rx_dbm - minimum_dbm in
      if minimum_dbm \<noteq> 0 \<and> curr_rx_dbm > -127 then
        if dbm_remaining \<le> 0 then 2 else if dbm_remaining \<le> 2 then 1 else 0
      else 0)"

definition ohd_version_as_string :: "u8 \<Rightarrow> u8 \<Rightarrow> u8 \<Rightarrow> u8 \<Rightarrow> string" where
  "ohd_version_as_string major minor patch release_type =
     int_to_string (uint major) @ ''.'' @ int_to_string (uint minor) @ ''.'' @ int_to_string (uint patch) @
     ''-evo'' @
     (if release_type = 0 then [] else if release_type = 1 then ''-beta''
      else if release_type = 2 then ''-alpha'' else ''-unknown'')"

definition avg_percent_or_unset :: "u8 list \<Rightarrow> int" where
  "avg_percent_or_unset values =
     (let (sum, count) = fold (\<lambda>v (sum, count). if v = 255 then (sum, count) else (sum + uint v, count + 1))
            values (0, 0)
      in if count = 0 then -1 else sum div count)"

section \<open>State and messages\<close>

record link_msg =
  link_tx_mcs_index :: int
  link_tx_channel_mhz :: int
  link_tx_channel_w_mhz :: int
  link_pollution_perc :: int
  link_foreign_pps :: int
  link_bitfield :: u8

datatype ohd_message =
    Version_Message u8 u8 u8 u8
  | Core_Status int int
  | Wifi_Card_Stats wifi_card_msg
  | Wifi_Link_Stats link_msg
  | Video_Air_Stats video_air_msg
  | Video_Ground_Stats int nat
  | Camera_Status_Air camera_status_msg
  | Onboard_Computer "u8 list" "u8 list"
  | Heartbeat_Message int
  | Rc_Channels_Override "nat \<Rightarrow> u16"
  | Statustext bytes u8
  | Supported_Channels "u16 list"
  | Analyze_Progress analyze_progress
  | Scan_Progress scan_progress
  | Gnd_Operating_Mode int int
  | Copied_Status
  | Unknown_Message

record ohd_system =
  m_last_heartbeat_ms :: int
  m_last_message_ms :: int
  is_alive :: bool
  openhd_version :: string
  ohd_platform_type :: int
  ohd_platform_type_as_string :: string
  air_reported_fc_sys_id :: int
  m_x20_rpi_upgrade_warning_logged :: bool
  current_rx_rssi :: int
  current_rx_signal_quality :: int
  curr_mcs_index :: int
  sys_channel_mhz :: int
  sys_channel_width_mhz :: int
  wb_stbc_enabled :: bool
  wb_lpdc_enabled :: bool
  wb_short_guard_enabled :: bool
  curr_rx_last_packet_status_good :: bool
  dbm_too_low_warning :: int
  wb_link_pollution_perc :: int
  wb_link_curr_foreign_pps :: int
  x_last_dropped_packets :: int
  m_last_tx_error_hud_message :: int
  tx_is_currently_dropping_packets :: bool
  thermal_protection_level :: int
  n_openhd_cameras :: int
  dirty_air_has_secondary_cam :: bool
  m_last_n_cameras_message :: int
  onboard_cpu_usage_avg :: int
  onboard_gpu_usage_avg :: int
  wb_gnd_operating_mode :: int
  tx_operating_mode :: int

definition ohd_system_new :: "int \<Rightarrow> ohd_system" where
  "ohd_system_new now = \<lparr>m_last_heartbeat_ms = -1, m_last_message_ms = -1, is_alive = False,
     openhd_version = ''N/A'', ohd_platform_type = -1, ohd_platform_type_as_string = ''N/A'', air_reported_fc_sys_id = -1,
     m_x20_rpi_upgrade_warning_logged = False, current_rx_rssi = -128, current_rx_signal_quality = -1,
     curr_mcs_index = -1, sys_channel_mhz = -1, sys_channel_width_mhz = -1, wb_stbc_enabled = False,
     wb_lpdc_enabled = False, wb_short_guard_enabled = False, curr_rx_last_packet_status_good = False,
     dbm_too_low_warning = 0, wb_link_pollution_perc = -1, wb_link_curr_foreign_pps = -1,
     x_last_dropped_packets = -1, m_last_tx_error_hud_message = now, tx_is_currently_dropping_packets = False,
     thermal_protection_level = -1, n_openhd_cameras = -1, dirty_air_has_secondary_cam = False,
     m_last_n_cameras_message = now, onboard_cpu_usage_avg = -1, onboard_gpu_usage_avg = -1,
     wb_gnd_operating_mode = -1, tx_operating_mode = 0\<rparr>"

text \<open>The instances and what they share; stored settings and the platform of the program are fields.\<close>

record ohd_app =
  air :: ohd_system
  ground :: ohd_system
  card_air :: wifi_card
  cards_gnd :: "wifi_card list"
  settings :: settings_app
  wb :: wb_link
  log :: log_state
  streams :: "nat \<Rightarrow> camera_stream"
  rc_channels_ground :: "int list"
  dev_disable_autofetch :: bool
  qopenhd_n_cameras :: int
  is_platform_rpi :: bool

definition ohd_of :: "bool \<Rightarrow> ohd_app \<Rightarrow> ohd_system" where
  "ohd_of is_air a = (if is_air then air a else ground a)"

definition upd_ohd :: "bool \<Rightarrow> (ohd_system \<Rightarrow> ohd_system) \<Rightarrow> ohd_app \<Rightarrow> ohd_app" where
  "upd_ohd is_air f a = (if is_air then a\<lparr>air := f (air a)\<rparr> else a\<lparr>ground := f (ground a)\<rparr>)"

definition with_log :: "(log_state \<Rightarrow> log_state) \<Rightarrow> ohd_app \<Rightarrow> ohd_app" where
  "with_log f a = a\<lparr>log := f (log a)\<rparr>"

text \<open>The link settings have run: what they have put on the screen since.\<close>

definition with_wb :: "int \<Rightarrow> (wb_link \<Rightarrow> wb_link) \<Rightarrow> ohd_app \<Rightarrow> ohd_app" where
  "with_wb now f a =
     (let w = f (wb a) in
      a\<lparr>wb := w,
        log := fold (\<lambda>(lev, m). case lev of Hud_Info \<Rightarrow> hud_info now m | Hud_Warning \<Rightarrow> hud_warning now m)
                 (drop (length (hud (wb a))) (hud w)) (log a)\<rparr>)"

text \<open>The streams of the two cameras write to the same logs.\<close>

definition with_stream ::
  "nat \<Rightarrow> (camera_stream \<times> log_state \<Rightarrow> camera_stream \<times> log_state) \<Rightarrow> ohd_app \<Rightarrow> ohd_app" where
  "with_stream i f a =
     (let (c, l) = f (streams a i, log a) in a\<lparr>streams := (streams a)(i := c), log := l\<rparr>)"

section \<open>Operations\<close>

text \<open>\<open>autofech_params_if_apropriate\<close>.\<close>

definition try_refetch :: "int \<Rightarrow> unit_name \<Rightarrow> ohd_app \<Rightarrow> ohd_app" where
  "try_refetch now u a = a\<lparr>settings := try_refetch_all_parameters_async now u True (settings a)\<rparr>"

definition autofetch :: "int \<Rightarrow> bool \<Rightarrow> ohd_app \<Rightarrow> ohd_app" where
  "autofetch now is_air a =
     (let fetched = (\<lambda>u. has_params_fetched (models (settings a) u)) in
      if dev_disable_autofetch a then a
      else if \<not> is_air then
        if wb_gnd_operating_mode (ground a) = 0 then
          if \<not> is_air_or_cam_param_busy (settings a) then
            if \<not> fetched Ground \<and> \<not> is_x_busy Ground (settings a) then try_refetch now Ground a else a
          else a
        else a
      else
        if \<not> is_x_busy Ground (settings a) then
          if curr_rx_last_packet_status_good (air a) then
            if \<not> is_air_or_cam_param_busy (settings a) then
              if \<not> fetched Air then try_refetch now Air a
              else if \<not> fetched Air_Camera then try_refetch now Air_Camera a
              else if \<not> fetched Air_Camera_2 then try_refetch now Air_Camera_2 a
              else a
            else a
          else a
        else a)"

definition update_alive_status_with_hud_message :: "int \<Rightarrow> bool \<Rightarrow> bool \<Rightarrow> ohd_app \<Rightarrow> ohd_app" where
  "update_alive_status_with_hud_message now is_air b a =
     (if b \<noteq> is_alive (ohd_of is_air a) then
        let message = (if is_air then ''Air unit '' else ''Ground unit '') @
              (if b then ''connected'' else ''disconnected'');
            a1 = with_log (if b then hud_info now message else hud_warning now message) a;
            a2 = with_log (add_message_debug now (if is_air then Log_Air else Log_Ground) ''QOpenHD'' message) a1
        in upd_ohd is_air (\<lambda>s. s\<lparr>is_alive := b\<rparr>) a2
      else a)"

definition update_alive :: "int \<Rightarrow> bool \<Rightarrow> ohd_app \<Rightarrow> ohd_app" where
  "update_alive now is_air a =
     (let s = ohd_of is_air a in
      if m_last_message_ms s \<le> -1 then update_alive_status_with_hud_message now is_air False a
      else
        let elapsed_ms = ms_of now - m_last_message_ms s in
        update_alive_status_with_hud_message now is_air
          (elapsed_ms < (if is_air then 3 * 1000 else 2 * 1000)) a)"

definition process_openhd_core_status :: "bool \<Rightarrow> int \<Rightarrow> int \<Rightarrow> ohd_app \<Rightarrow> ohd_app" where
  "process_openhd_core_status is_air platform fc_sys_id a =
     (let a1 = upd_ohd is_air (\<lambda>s. s\<lparr>ohd_platform_type := platform\<rparr>) a;
          a2 = (if is_air \<and> is_platform_rpi a1 \<and> platform = 30
                   \<and> \<not> m_x20_rpi_upgrade_warning_logged (ohd_of is_air a1)
                then upd_ohd is_air (\<lambda>s. s\<lparr>m_x20_rpi_upgrade_warning_logged := True\<rparr>)
                  (a1\<lparr>settings := show_toast (''X20 -> RPI has high latency.'' @ [CHR 0x0A] @
                      ''Please upgrade your ground station to next gen.'') (settings a1)\<rparr>)
                else a1)
      in upd_ohd is_air (\<lambda>s. s\<lparr>ohd_platform_type_as_string := x_platform_type_to_string platform,
           air_reported_fc_sys_id := fc_sys_id\<rparr>) a2)"

definition process_x0 :: "int \<Rightarrow> bool \<Rightarrow> wifi_card_msg \<Rightarrow> ohd_app \<Rightarrow> ohd_app" where
  "process_x0 now is_air msg a =
     (let quality = (\<lambda>a. if card_index msg = 0
            then upd_ohd is_air (\<lambda>s. s\<lparr>current_rx_signal_quality := rx_signal_quality_adapter msg\<rparr>) a else a)
      in
      if is_air \<and> card_index msg > 1 then a
      else if is_air then
        if card_index msg \<noteq> 0 then a
        else
          let (c, l) = card_process_mavlink now True 0 msg (card_air a, log a);
              a1 = a\<lparr>card_air := c, log := l\<rparr>
          in quality (upd_ohd is_air (\<lambda>s. s\<lparr>current_rx_rssi := curr_rx_rssi_dbm c\<rparr>) a1)
      else if card_index msg < 0 \<or> card_index msg \<ge> 4 then a
      else
        let i = nat (card_index msg);
            (c, l) = card_process_mavlink now False (card_index msg) msg (cards_gnd a ! i, log a);
            a1 = a\<lparr>cards_gnd := (cards_gnd a)[i := c], log := l\<rparr>
        in quality (upd_ohd is_air
             (\<lambda>s. s\<lparr>current_rx_rssi := helper_get_gnd_curr_best_rssi (cards_gnd a1)\<rparr>) a1))"

text \<open>The bit field of \<open>process_x1\<close>, as the compilers other than that of Windows lay it out.\<close>

definition process_x1 :: "int \<Rightarrow> bool \<Rightarrow> link_msg \<Rightarrow> ohd_app \<Rightarrow> ohd_app" where
  "process_x1 now is_air msg a =
     (let new_mcs_index = link_tx_mcs_index msg;
          a1 = (if is_air \<and> curr_mcs_index (ohd_of is_air a) \<noteq> -1
                   \<and> new_mcs_index \<noteq> curr_mcs_index (ohd_of is_air a)
                then with_log (hud_info now (''MCS index changed to '' @ int_to_string new_mcs_index)) a else a);
          a2 = upd_ohd is_air (\<lambda>s. s\<lparr>curr_mcs_index := new_mcs_index, sys_channel_mhz := link_tx_channel_mhz msg,
                 sys_channel_width_mhz := link_tx_channel_w_mhz msg\<rparr>) a1;
          a3 = (if is_air
                then with_wb now (validate_and_set_air_channel_width_mhz (link_tx_channel_w_mhz msg)) a2
                else with_wb now (validate_and_set_gnd_channel_width_mhz (link_tx_channel_w_mhz msg))
                       (with_wb now (validate_and_set_gnd_channel_mhz (link_tx_channel_mhz msg)) a2));
          a4 = upd_ohd is_air (\<lambda>s. s\<lparr>wb_stbc_enabled := bit (link_bitfield msg) 0,
                 wb_lpdc_enabled := bit (link_bitfield msg) 1, wb_short_guard_enabled := bit (link_bitfield msg) 2,
                 curr_rx_last_packet_status_good := bit (link_bitfield msg) 3\<rparr>) a3;
          mcs_index_other = curr_mcs_index (ohd_of (\<not> is_air) a4);
          s = ohd_of is_air a4;
          minimum_dbm = get_required_dbm_for_rate (sys_channel_width_mhz s) mcs_index_other
      in upd_ohd is_air (\<lambda>s. s\<lparr>dbm_too_low_warning := dbm_warning minimum_dbm (current_rx_rssi s),
           wb_link_pollution_perc := link_pollution_perc msg,
           wb_link_curr_foreign_pps := link_foreign_pps msg\<rparr>) a4)"

definition process_x3 :: "int \<Rightarrow> bool \<Rightarrow> video_air_msg \<Rightarrow> ohd_app \<Rightarrow> ohd_app" where
  "process_x3 now is_air msg a =
     (if \<not> is_air then a
      else
        let a1 = (if va_link_index msg = 0 \<or> va_link_index msg = 1
                  then with_stream (nat (va_link_index msg))
                         (update_stats_wb_video_air now (nat (va_link_index msg)) msg) a
                  else a)
        in if va_link_index msg \<noteq> 0 then a1
        else
          let s = ohd_of is_air a1;
              s1 = (if x_last_dropped_packets s < 0 then s\<lparr>x_last_dropped_packets := va_dropped_frames msg\<rparr>
                    else
                      let delta = va_dropped_frames msg - x_last_dropped_packets s;
                          s2 = s\<lparr>x_last_dropped_packets := va_dropped_frames msg\<rparr>
                      in if delta > 0
                         then (if now - m_last_tx_error_hud_message s2 > secs 3
                               then s2\<lparr>m_last_tx_error_hud_message := now\<rparr> else s2)
                              \<lparr>tx_is_currently_dropping_packets := True\<rparr>
                         else s2\<lparr>tx_is_currently_dropping_packets := False\<rparr>)
          in upd_ohd is_air (\<lambda>_. s1\<lparr>thermal_protection_level := va_thermal msg\<rparr>) a1)"

definition process_x4 :: "bool \<Rightarrow> int \<Rightarrow> nat \<Rightarrow> ohd_app \<Rightarrow> ohd_app" where
  "process_x4 is_air link_index incoming_bitrate a =
     (if is_air then a
      else if link_index = 0 \<or> link_index = 1
      then with_stream (nat link_index) (\<lambda>(c, l). (update_stats_wb_video_ground incoming_bitrate c, l)) a
      else a)"

definition process_camera_status :: "int \<Rightarrow> bool \<Rightarrow> u8 \<Rightarrow> camera_status_msg \<Rightarrow> ohd_app \<Rightarrow> ohd_app" where
  "process_camera_status now is_air compid msg a =
     (if compid = OHD_COMP_ID_AIR_CAMERA_PRIMARY then with_stream 0 (update_camera_status_air now 0 msg) a
      else if compid = OHD_COMP_ID_AIR_CAMERA_SECONDARY then
        let a1 = upd_ohd is_air (\<lambda>s. s\<lparr>dirty_air_has_secondary_cam := True, n_openhd_cameras := 2\<rparr>)
              (with_stream 1 (update_camera_status_air now 1 msg) a) in
        if qopenhd_n_cameras a1 \<noteq> 2 \<and> now - m_last_n_cameras_message (ohd_of is_air a1) > secs 5
        then upd_ohd is_air (\<lambda>s. s\<lparr>m_last_n_cameras_message := now\<rparr>)
               (with_log (add_message_debug now Log_Ground ''QOpenHD'' ''Please enable 2 camera control'') a1)
        else a1
      else a)"

definition process_statustext :: "int \<Rightarrow> bool \<Rightarrow> bytes \<Rightarrow> u8 \<Rightarrow> ohd_app \<Rightarrow> ohd_app" where
  "process_statustext now is_air text severity a =
     (let tmp = statustext_convert text severity;
          m = text_of (message tmp);
          a1 = with_log (addLogMessage now (if is_air then Log_Air else Log_Ground)
                 (if is_air then ''OHD[A]'' else ''OHD[G]'') m (word_of_int (level tmp))) a
      in if contains m ''External device''
         then with_log (update_hud (hud_add_message now (level tmp) m)) a1 else a1)"

fun handle_ohd_message :: "int \<Rightarrow> bool \<Rightarrow> u8 \<Rightarrow> ohd_message \<Rightarrow> ohd_app \<Rightarrow> ohd_app \<times> bool" where
  "handle_ohd_message now is_air compid (Version_Message major minor patch release_type) a =
     (upd_ohd is_air (\<lambda>s. s\<lparr>openhd_version := ohd_version_as_string major minor patch release_type\<rparr>) a, True)"
| "handle_ohd_message now is_air compid (Core_Status platform fc_sys_id) a =
     (process_openhd_core_status is_air platform fc_sys_id a, True)"
| "handle_ohd_message now is_air compid (Wifi_Card_Stats msg) a = (process_x0 now is_air msg a, True)"
| "handle_ohd_message now is_air compid (Wifi_Link_Stats msg) a = (process_x1 now is_air msg a, True)"
| "handle_ohd_message now is_air compid (Video_Air_Stats msg) a = (process_x3 now is_air msg a, True)"
| "handle_ohd_message now is_air compid (Video_Ground_Stats link_index incoming) a =
     (process_x4 is_air link_index incoming a, True)"
| "handle_ohd_message now is_air compid (Camera_Status_Air msg) a =
     (process_camera_status now is_air compid msg a, True)"
| "handle_ohd_message now is_air compid (Onboard_Computer cpu gpu) a =
     (upd_ohd is_air (\<lambda>s. s\<lparr>onboard_cpu_usage_avg := avg_percent_or_unset cpu,
        onboard_gpu_usage_avg := avg_percent_or_unset gpu\<rparr>) a, True)"
| "handle_ohd_message now is_air compid (Heartbeat_Message autopilot) a =
     (upd_ohd is_air (\<lambda>s. s\<lparr>m_last_heartbeat_ms := ms_of now\<rparr>) a, True)"
| "handle_ohd_message now is_air compid (Rc_Channels_Override chan_raw) a =
     (a\<lparr>rc_channels_ground := mavlink_msg_rc_channels_override_to_array chan_raw\<rparr>, True)"
| "handle_ohd_message now is_air compid (Statustext text severity) a =
     (process_statustext now is_air text severity a, True)"
| "handle_ohd_message now is_air compid (Supported_Channels cs) a =
     (if \<not> is_air then with_wb now (process_supported_channels cs) a else a, True)"
| "handle_ohd_message now is_air compid (Analyze_Progress m) a =
     (if \<not> is_air then with_wb now (process_analyze_channels_progress m) a else a, True)"
| "handle_ohd_message now is_air compid (Scan_Progress m) a =
     (if \<not> is_air then with_wb now (process_scan_channels_progress m) a else a, True)"
| "handle_ohd_message now is_air compid (Gnd_Operating_Mode mode passive) a =
     (upd_ohd is_air (\<lambda>s. s\<lparr>wb_gnd_operating_mode := mode, tx_operating_mode := passive\<rparr>) a, True)"
| "handle_ohd_message now is_air compid Copied_Status a = (a, True)"
| "handle_ohd_message now is_air compid Unknown_Message a = (a, False)"

definition get_own_sys_id_ohd :: "bool \<Rightarrow> u8" where
  "get_own_sys_id_ohd is_air = (if is_air then OHD_SYS_ID_AIR else OHD_SYS_ID_GROUND)"

definition ohd_process_message ::
  "int \<Rightarrow> bool \<Rightarrow> u8 \<Rightarrow> u8 \<Rightarrow> ohd_message \<Rightarrow> ohd_app \<Rightarrow> ohd_app \<times> bool" where
  "ohd_process_message now is_air sysid compid msg a =
     (if sysid \<noteq> get_own_sys_id_ohd is_air then (a, False)
      else
        let a1 = upd_ohd is_air (\<lambda>s. s\<lparr>m_last_message_ms := ms_of now\<rparr>) (autofetch now is_air a)
        in handle_ohd_message now is_air compid msg a1)"

section \<open>Runs\<close>

definition ohd_app_new :: "int \<Rightarrow> bool \<Rightarrow> int \<Rightarrow> bool \<Rightarrow> ohd_app" where
  "ohd_app_new now autofetch_off n_cameras rpi = \<lparr>air = ohd_system_new now, ground = ohd_system_new now,
     card_air = wifi_card_new now, cards_gnd = replicate 4 (wifi_card_new now), settings = settings_app_new,
     wb = wb_link_new, log = \<lparr>hud_list = [], log_lists = (\<lambda>l. [])\<rparr>,
     streams = (\<lambda>i. camera_stream_new now), rc_channels_ground = [],
     dev_disable_autofetch = autofetch_off, qopenhd_n_cameras = n_cameras, is_platform_rpi = rpi\<rparr>"

text \<open>Without requests of the user: messages of the units, answers to the parameter client, timers and the UI thread.\<close>

datatype ohd_event =
    Ohd_Received int bool u8 ohd_message
  | Alive_Timer int bool
  | Card_Timer int nat
  | Unit_Found unit_name
  | Param_Received param_message u8 u8
  | Param_Timeout int
  | Params_To_Ui

definition with_settings ::
  "(settings_app \<Rightarrow> settings_app result) \<Rightarrow> ohd_app \<Rightarrow> ohd_app result" where
  "with_settings f a = rbind (f (settings a)) (\<lambda>s. Inr (a\<lparr>settings := s\<rparr>))"

fun ohd_step :: "ohd_event \<Rightarrow> ohd_app \<Rightarrow> ohd_app result" where
  "ohd_step (Ohd_Received now is_air compid msg) a =
     Inr (fst (ohd_process_message now is_air (get_own_sys_id_ohd is_air) compid msg a))"
| "ohd_step (Alive_Timer now is_air) a = Inr (update_alive now is_air a)"
| "ohd_step (Card_Timer now i) a = Inr (a\<lparr>cards_gnd := (cards_gnd a)[i := card_update_alive now (cards_gnd a ! i)]\<rparr>)"
| "ohd_step (Unit_Found u) a = with_settings (settings_step (System_Found u)) a"
| "ohd_step (Param_Received msg sysid compid) a = with_settings (settings_step (Received msg sysid compid)) a"
| "ohd_step (Param_Timeout now) a = with_settings (settings_step (Timeout_Check now)) a"
| "ohd_step Params_To_Ui a = with_settings (settings_step Ui_Thread) a"

section \<open>One fetch at a time\<close>

text \<open>What a fetch depends on; only \<open>autofetch\<close> and the parameter client change it.\<close>

definition fetch_state :: "ohd_app \<Rightarrow> client xparam \<times> (unit_name \<Rightarrow> settings_model)" where
  "fetch_state a = (xp (settings a), models (settings a))"

lemma fetch_state_frame [simp]:
  "fetch_state (upd_ohd b f a) = fetch_state a" "fetch_state (with_log g a) = fetch_state a"
  "fetch_state (with_wb now h a) = fetch_state a" "fetch_state (with_stream i k a) = fetch_state a"
  by (simp_all add: fetch_state_def upd_ohd_def with_log_def with_wb_def with_stream_def Let_def split: prod.split)

lemma fetch_state_alive [simp]: "fetch_state (update_alive now b a) = fetch_state a"
  by (simp add: update_alive_def update_alive_status_with_hud_message_def Let_def)

lemma fetch_state_core [simp]: "fetch_state (process_openhd_core_status b p i a) = fetch_state a"
  by (simp add: process_openhd_core_status_def Let_def)
    (simp add: fetch_state_def upd_ohd_def)

lemma fetch_state_x0 [simp]: "fetch_state (process_x0 now b msg a) = fetch_state a"
  by (simp add: process_x0_def Let_def split: prod.split) (simp add: fetch_state_def)

lemma fetch_state_x1 [simp]: "fetch_state (process_x1 now b msg a) = fetch_state a"
  by (simp add: process_x1_def Let_def)

lemma fetch_state_handle [simp]: "fetch_state (fst (handle_ohd_message now b compid msg a)) = fetch_state a"
proof (cases msg)
  case (Rc_Channels_Override chan_raw)
  then show ?thesis by (simp add: fetch_state_def)
qed (auto simp: process_x3_def process_x4_def process_camera_status_def process_statustext_def Let_def)

lemma fetch_state_message:
  "fetch_state (fst (ohd_process_message now b (get_own_sys_id_ohd b) compid msg a)) =
     fetch_state (autofetch now b a)"
  by (simp add: ohd_process_message_def Let_def)

text \<open>At most one model is busy, and only fetches are running.\<close>

definition one_fetch :: "ohd_app \<Rightarrow> bool" where
  "one_fetch a \<longleftrightarrow> settings_inv (settings a) \<and> m_running_commands (xp (settings a)) = []
     \<and> (\<forall>u v. m_is_currently_busy (models (settings a) u) \<and> m_is_currently_busy (models (settings a) v) \<longrightarrow> u = v)"

lemma one_fetch_cong: "fetch_state a = fetch_state a' \<Longrightarrow> one_fetch a = one_fetch a'"
  by (simp add: fetch_state_def one_fetch_def settings_inv_def)

lemma running_commands_refetch:
  "m_running_commands (xp (try_refetch_all_parameters_async now u b s)) = m_running_commands (xp s)"
  by (simp add: try_refetch_all_parameters_async_def Let_def try_get_param_all_async_def)

lemma busy_refetch:
  "m_is_currently_busy (models (try_refetch_all_parameters_async now u b s) v) \<Longrightarrow>
     m_is_currently_busy (models s v) \<or> v = u"
  by (auto simp: try_refetch_all_parameters_async_def Let_def set_busy_def split: if_splits)

lemma one_fetch_refetch:
  assumes "one_fetch a" and "\<forall>v. \<not> m_is_currently_busy (models (settings a) v)"
  shows "one_fetch (try_refetch now u a)"
  using assms refetch_inv [of "settings a" now u True] busy_refetch [of now u True "settings a"]
  by (auto simp: one_fetch_def try_refetch_def running_commands_refetch)

lemma all_idle:
  "\<not> is_air_or_cam_param_busy s \<Longrightarrow> \<not> is_x_busy Ground s \<Longrightarrow> \<not> m_is_currently_busy (models s v)"
  by (cases v) (simp_all add: is_air_or_cam_param_busy_def is_x_busy_def)

lemma one_fetch_autofetch: "one_fetch a \<Longrightarrow> one_fetch (autofetch now b a)"
  using all_idle [of "settings a"] by (auto simp: autofetch_def Let_def intro!: one_fetch_refetch)

lemma served_running: "served x x' \<Longrightarrow> m_running_commands x = [] \<Longrightarrow> m_running_commands x' = []"
  by (auto simp: served_def running_keys_def)

lemma busy_with_xparam:
  assumes "settings_inv s" and "served (xp s) x" and "m_is_currently_busy (models (with_xparam x s) u)"
  shows "m_is_currently_busy (models s u)"
proof -
  obtain p where p: "calls x = calls (xp s) @ p" "list_all (call_from (xp s)) p"
    using assms(2) by (auto simp: served_def)
  have "kinds_ok (xp s)" using assms(1) by (simp add: settings_inv_def)
  from fold_deliver_flags [OF this p(2), of "s\<lparr>xp := x\<rparr>" u] assms(3) show ?thesis
    by (auto simp: with_xparam_def p(1) flags_of_def split: if_splits)
qed

lemma one_fetch_xparam:
  assumes "one_fetch a" and "served (xp (settings a)) x"
  shows "one_fetch (a\<lparr>settings := with_xparam x (settings a)\<rparr>)"
  using assms with_xparam_inv [of "settings a" x] served_running [OF assms(2)]
    busy_with_xparam [of "settings a" x]
  by (simp add: one_fetch_def)

lemma one_fetch_flags:
  assumes "one_fetch a" and "xp s = xp (settings a)" and "\<And>u. flags_of (models s u) = flags_of (models (settings a) u)"
  shows "one_fetch (a\<lparr>settings := s\<rparr>)"
proof -
  have "m_is_currently_busy (models s u) = m_is_currently_busy (models (settings a) u)" for u
    using assms(3) [of u] by (simp add: flags_of_def)
  with assms settings_inv_cong [of "settings a" s] show ?thesis by (simp add: one_fetch_def)
qed

lemma one_fetch_step:
  assumes "one_fetch a" and "ohd_step e a = Inr a'"
  shows "one_fetch a'"
proof (cases e)
  case (Ohd_Received now b compid msg)
  with assms one_fetch_cong [OF fetch_state_message [of now b compid msg a]] show ?thesis
    by (auto simp: one_fetch_autofetch)
next
  case (Alive_Timer now b)
  with assms one_fetch_cong [OF fetch_state_alive [of now b a]] show ?thesis by auto
next
  case (Card_Timer now i)
  with assms show ?thesis by (auto simp: one_fetch_def)
next
  case (Unit_Found u)
  with assms show ?thesis
    by (auto simp: with_settings_def set_ready_def intro: one_fetch_flags)
next
  case (Param_Received msg sysid compid)
  with assms show ?thesis
    by (auto simp: with_settings_def receive_def result_simps intro: one_fetch_xparam served_message)
next
  case (Param_Timeout now)
  with assms show ?thesis
    by (auto simp: with_settings_def check_timeouts_def result_simps intro: one_fetch_xparam served_timeout)
next
  case Params_To_Ui
  with assms show ?thesis
    by (auto simp: with_settings_def intro: one_fetch_flags simp del: run_ui_thread.simps)
qed

lemma one_fetch_new: "one_fetch (ohd_app_new now off n rpi)"
  by (simp add: one_fetch_def ohd_app_new_def settings_inv_new)
    (simp add: settings_app_new_def settings_model_new_def xparam_new_def)

lemma one_fetch_running:
  assumes "one_fetch a"
  shows "length (m_running_get_all (xp (settings a))) \<le> 1"
proof (cases "\<exists>u. m_is_currently_busy (models (settings a) u)")
  case True
  then obtain u where u: "m_is_currently_busy (models (settings a) v) \<longleftrightarrow> v = u" for v
    using assms by (auto simp: one_fetch_def)
  let ?gets = "mset (map get_cb (m_running_get_all (xp (settings a))))"
  have pd: "pending v (xp (settings a)) \<le> (if v = u then 1 else 0)" for v
    using assms u [of v] by (auto simp: one_fetch_def settings_inv_def split: if_splits)
  have cl: "clients (xp (settings a)) = ?gets" using assms by (simp add: one_fetch_def clients_def)
  have "client_unit k = Some u" if k: "k \<in># ?gets" for k
  proof -
    have "fetch_client k"
      using assms k by (auto simp: one_fetch_def settings_inv_def kinds_ok_def fetch_keys_def)
    then obtain v b where v: "k = Fetch v b" by (cases k) auto
    have "k \<in># filter_mset (\<lambda>k. client_unit k = Some v) ?gets"
      using k v by simp
    then have "pending v (xp (settings a)) > 0"
      unfolding pending_def cl by (metis empty_iff gr0I set_mset_empty size_eq_0_iff_empty)
    with pd [of v] v show ?thesis by (auto split: if_splits)
  qed
  then have "filter_mset (\<lambda>k. client_unit k = Some u) ?gets = ?gets"
    by (auto simp: filter_mset_eq_conv)
  then have "pending u (xp (settings a)) = size ?gets"
    by (simp only: pending_def cl)
  with pd [of u] show ?thesis by simp
next
  case False
  then have pd: "pending v (xp (settings a)) = 0" for v
    using assms by (simp add: one_fetch_def settings_inv_def)
  show ?thesis
  proof (cases "m_running_get_all (xp (settings a))")
    case (Cons r rs)
    have "fetch_client (get_cb r)"
      using assms Cons by (auto simp: one_fetch_def settings_inv_def kinds_ok_def fetch_keys_def)
    then obtain v b where "get_cb r = Fetch v b" by (cases "get_cb r") auto
    with pd [of v] Cons show ?thesis by (simp add: pending_def clients_def)
  qed simp
qed

text \<open>C34. On its own the program never loads the link with two fetches: whatever the units send and in whatever order
  answers, time-outs and timers come, at most one parameter set is being fetched, for one unit, and no
  other request is under way.\<close>

theorem autofetch_one_at_a_time:
  assumes "rfold ohd_step es (ohd_app_new now off n rpi) = Inr a"
  shows "length (m_running_get_all (xp (settings a))) \<le> 1 \<and> m_running_commands (xp (settings a)) = []
    \<and> (is_x_busy u (settings a) \<and> is_x_busy v (settings a) \<longrightarrow> u = v)"
proof -
  have "one_fetch a"
    by (rule rfold_invariant [where P = one_fetch, OF assms one_fetch_new]) (rule one_fetch_step)
  with one_fetch_running [OF this] show ?thesis
    by (auto simp: one_fetch_def is_x_busy_def)
qed

theorem autofetch_one_at_a_time_witness:
  "\<exists>a. rfold ohd_step [Ohd_Received 0 False 191 (Gnd_Operating_Mode 0 0), Unit_Found Ground,
         Ohd_Received 1 False 191 (Heartbeat_Message 8)] (ohd_app_new 0 False 1 False) = Inr a
     \<and> is_x_busy Ground (settings a) \<and> \<not> is_x_busy Air (settings a)"
proof -
  obtain a where a: "rfold ohd_step [Ohd_Received 0 False 191 (Gnd_Operating_Mode 0 0), Unit_Found Ground,
         Ohd_Received 1 False 191 (Heartbeat_Message 8)] (ohd_app_new 0 False 1 False) = Inr a"
    "is_x_busy Ground (settings a)"
    by (simp add: ohd_process_message_def autofetch_def ohd_app_new_def ohd_system_new_def upd_ohd_def
        with_settings_def set_ready_def update_model_def is_x_busy_def settings_app_new_def
        settings_model_new_def get_own_sys_id_ohd_def try_refetch_def try_refetch_all_parameters_async_def
        is_air_or_cam_param_busy_def set_busy_def update_model_def Let_def)
  from autofetch_one_at_a_time [OF a(1), of Ground Air] a show ?thesis
    by (auto simp del: rfold.simps)
qed

end
