(* ===== verification/Auto_Fetch.thy ===== *)
theory Auto_Fetch
  imports Ohd_System Settings_Shown
begin

text \<open>
  Fetching without the user: what \<open>AOHDSystem::autofech_params_if_apropriate\<close> decides, from the heartbeat of
  a unit to the list on the screen.
\<close>

text \<open>The reference: which set is fetched when a message of a unit arrives.\<close>

definition next_fetch :: "bool \<Rightarrow> ohd_app \<Rightarrow> unit_name option" where
  "next_fetch is_air a =
     (if dev_disable_autofetch a \<or> (\<exists>u \<in> {Air, Air_Camera, Air_Camera_2, Ground}. is_x_busy u (settings a)) then None
      else
        find (\<lambda>u. \<not> has_params_fetched (models (settings a) u))
          (if is_air then if curr_rx_last_packet_status_good (air a) then [Air, Air_Camera, Air_Camera_2] else []
           else if wb_gnd_operating_mode (ground a) = 0 then [Ground] else []))"

lemma autofetch_next:
  "autofetch now b a = (case next_fetch b a of None \<Rightarrow> a | Some u \<Rightarrow> try_refetch now u a)"
  by (simp add: autofetch_def next_fetch_def is_air_or_cam_param_busy_def Let_def)

lemma next_fetch_idle: "next_fetch b a = Some u \<Longrightarrow> \<not> m_is_currently_busy (models (settings a) u)"
  by (cases u) (auto simp: next_fetch_def is_x_busy_def split: if_splits)

text \<open>An idle program has no request under way.\<close>

lemma idle_no_fetch:
  assumes "one_fetch a" and "next_fetch b a = Some u"
  shows "m_running_get_all (xp (settings a)) = []"
proof (rule ccontr)
  assume "m_running_get_all (xp (settings a)) \<noteq> []"
  then obtain r rs where r: "m_running_get_all (xp (settings a)) = r # rs" by (cases "m_running_get_all (xp (settings a))") auto
  have "fetch_client (get_cb r)"
    using assms(1) r by (auto simp: one_fetch_def settings_inv_def kinds_ok_def fetch_keys_def)
  then obtain v l where v: "get_cb r = Fetch v l" by (cases "get_cb r") auto
  have "pending v (xp (settings a)) > 0"
    using r v by (simp add: pending_def clients_def)
  then have "m_is_currently_busy (models (settings a) v)"
    using assms(1) by (auto simp: one_fetch_def settings_inv_def dest!: spec [of _ v] split: if_splits)
  with assms(2) show False
    by (cases v) (auto simp: next_fetch_def is_x_busy_def split: if_splits)
qed

lemma lift_settings_run:
  assumes "rfold settings_step (map g xs) s = Inr t"
    and "\<And>x a. ohd_step (f x) a = with_settings (settings_step (g x)) a" and "settings a = s"
  shows "rfold ohd_step (map f xs) a = Inr (a\<lparr>settings := t\<rparr>)"
  using assms(1,3)
proof (induction xs arbitrary: a s)
  case (Cons x xs)
  then obtain s1 where s1: "settings_step (g x) s = Inr s1" "rfold settings_step (map g xs) s1 = Inr t"
    by (auto simp: result_simps)
  with Cons.IH [OF s1(2), of "a\<lparr>settings := s1\<rparr>"] Cons.prems(2) show ?case
    by (simp add: assms(2) with_settings_def)
qed simp

text \<open>C33. Without the user the parameters of a unit reach the screen: when a program that runs on its own is idle and
  a set is due, the next heartbeat of its unit starts the fetch, and once the unit has sent every
  parameter, in whatever order and however often, and the UI thread has run, the screen lists exactly those parameters in
  the order of their indices, without the hidden and the unsupported ones; this set is not due again.\<close>

theorem parameters_fetched_automatically:
  assumes "rfold ohd_step es (ohd_app_new start off n rpi) = Inr a"
    and "next_fetch is_air a = Some u" and "m_is_ready (models (settings a) u)" and "ui_queue (settings a) = []"
    and "server_values vals" and "set is \<union> {j} = {..<length vals}" and "j \<notin> set is"
  shows "\<exists>a'. rfold ohd_step (Ohd_Received now is_air compid (Heartbeat_Message p)
        # map (\<lambda>i. Param_Received (Param_Value (vals ! i)) (m_sys_id u) (m_comp_id u)) (is @ [j])
        @ [Params_To_Ui]) a = Inr a'
     \<and> m_data (models (settings a') u) = shown (settings a) (setting_of_values vals)
     \<and> \<not> is_x_busy u (settings a') \<and> next_fetch b a' \<noteq> Some u"
proof -
  have one: "one_fetch a"
    by (rule rfold_invariant [where P = one_fetch, OF assms(1) one_fetch_new]) (rule one_fetch_step)
  let ?s1 = "try_refetch_all_parameters_async now u True (settings a)"
  let ?ps = "map (\<lambda>i. Received (Param_Value (vals ! i)) (m_sys_id u) (m_comp_id u)) (is @ [j])"
  obtain t where t: "rfold settings_step (Refetch now u True # ?ps @ [Ui_Thread]) (settings a) = Inr t"
    "m_data (models t u) = shown (settings a) (setting_of_values vals)"
    "has_params_fetched (models t u)" "\<not> m_is_currently_busy (models t u)"
    using fetched_parameters_shown [OF assms(5-7) idle_no_fetch [OF one assms(2)] assms(3)
        next_fetch_idle [OF assms(2)] assms(4), of now True] by blast
  obtain t1 where t1: "rfold settings_step ?ps ?s1 = Inr t1" and t2: "settings_step Ui_Thread t1 = Inr t"
    using t(1) unfolding rfold.simps rfold_append settings_step.simps rbind.simps
    by (auto simp: result_simps simp del: run_ui_thread.simps)
  define a1 where "a1 = fst (ohd_process_message now is_air (get_own_sys_id_ohd is_air) compid (Heartbeat_Message p) a)"
  have a1: "settings a1 = ?s1"
    by (simp add: a1_def ohd_process_message_def autofetch_next assms(2) try_refetch_def upd_ohd_def Let_def)
  have run: "rfold ohd_step (map (\<lambda>i. Param_Received (Param_Value (vals ! i)) (m_sys_id u) (m_comp_id u)) (is @ [j])) a1
      = Inr (a1\<lparr>settings := t1\<rparr>)"
    by (rule lift_settings_run [OF t1 _ a1]) simp
  have "rfold ohd_step (Ohd_Received now is_air compid (Heartbeat_Message p)
        # map (\<lambda>i. Param_Received (Param_Value (vals ! i)) (m_sys_id u) (m_comp_id u)) (is @ [j])
        @ [Params_To_Ui]) a = Inr (a1\<lparr>settings := t\<rparr>)"
    unfolding rfold.simps rfold_append ohd_step.simps(1) rbind.simps a1_def [symmetric] run
    using t2 by (simp add: with_settings_def del: settings_step.simps(8))
  moreover have "next_fetch b (a1\<lparr>settings := t\<rparr>) \<noteq> Some u"
    using t(3) by (auto simp: next_fetch_def find_Some_iff)
  ultimately show ?thesis
    using t(2,4) by (auto simp: is_x_busy_def)
qed

theorem parameters_fetched_automatically_witness:
  "\<exists>a a'. rfold ohd_step [Ohd_Received 0 False 191 (Gnd_Operating_Mode 0 0), Unit_Found Ground]
       (ohd_app_new 0 False 1 False) = Inr a
     \<and> rfold ohd_step (Ohd_Received 1 False 191 (Heartbeat_Message 8)
         # map (\<lambda>i. Param_Received (Param_Value (demo_params ! i)) 100 191) ([1, 1] @ [0]) @ [Params_To_Ui]) a = Inr a'
     \<and> m_data (models (settings a') Ground) = [\<lparr>unique_id = of_text ''WB_N_RX_CARDS'', setting_value = Int32 3\<rparr>]"
proof -
  obtain a where a: "rfold ohd_step [Ohd_Received 0 False 191 (Gnd_Operating_Mode 0 0), Unit_Found Ground]
       (ohd_app_new 0 False 1 False) = Inr a"
    "next_fetch False a = Some Ground" "m_is_ready (models (settings a) Ground)" "ui_queue (settings a) = []"
    "\<not> dev_show_whitelisted_params (settings a)"
    by (simp add: ohd_process_message_def autofetch_def ohd_app_new_def ohd_system_new_def upd_ohd_def
        with_settings_def set_ready_def update_model_def next_fetch_def is_x_busy_def settings_app_new_def
        settings_model_new_def get_own_sys_id_ohd_def Let_def)
  from parameters_fetched_automatically [OF a(1-4) demo_params_served, of 1 191 8] demo_params_shown [OF a(5)] a(1)
  show ?thesis by (auto simp del: rfold.simps ohd_step.simps)
qed

end
