(* ===== verification/Unit_Status.thy ===== *)
theory Unit_Status
  imports Auto_Fetch
begin

text \<open>
  What the screen tells about a unit: whether it is connected (\<open>AOHDSystem::update_alive\<close>) and how good its
  signal is (\<open>process_x0\<close>, \<open>process_x1\<close>).
\<close>

section \<open>Connected and disconnected\<close>

text \<open>Only a message of the unit changes the time of its last message.\<close>

lemma ohd_of_upd [simp]:
  "ohd_of b (upd_ohd b' f a) = (if b' = b then f (ohd_of b a) else ohd_of b a)"
  by (cases b; cases b') (simp_all add: ohd_of_def upd_ohd_def)

lemma ohd_of_frame [simp]:
  "ohd_of b (with_log g a) = ohd_of b a" "ohd_of b (with_wb now h a) = ohd_of b a"
  "ohd_of b (a\<lparr>settings := s\<rparr>) = ohd_of b a" "ohd_of b (a\<lparr>cards_gnd := cs\<rparr>) = ohd_of b a"
  "ohd_of b (a\<lparr>card_air := c, log := l\<rparr>) = ohd_of b a" "ohd_of b (a\<lparr>cards_gnd := cs, log := l\<rparr>) = ohd_of b a"
  "ohd_of b (a\<lparr>rc_channels_ground := r\<rparr>) = ohd_of b a" "ohd_of b (with_stream i k a) = ohd_of b a"
  by (simp_all add: ohd_of_def with_log_def with_wb_def with_stream_def Let_def split: prod.split)

definition last_ms :: "bool \<Rightarrow> ohd_app \<Rightarrow> int" where
  "last_ms b a = m_last_message_ms (ohd_of b a)"

lemma last_ms_alive [simp]: "last_ms b (update_alive now b' a) = last_ms b a"
  by (simp add: last_ms_def update_alive_def update_alive_status_with_hud_message_def Let_def)

lemma ohd_of_autofetch [simp]: "ohd_of b (autofetch now b' a) = ohd_of b a"
  by (simp add: autofetch_next try_refetch_def split: option.split)

lemma last_ms_core [simp]: "last_ms b (process_openhd_core_status b' p i a) = last_ms b a"
  by (simp add: last_ms_def process_openhd_core_status_def Let_def)

lemma last_ms_x0 [simp]: "last_ms b (process_x0 now b' msg a) = last_ms b a"
  by (simp add: last_ms_def process_x0_def Let_def split: prod.split)

lemma last_ms_x1 [simp]: "last_ms b (process_x1 now b' msg a) = last_ms b a"
  by (simp add: last_ms_def process_x1_def Let_def)

lemma last_ms_x3 [simp]: "last_ms b (process_x3 now b' msg a) = last_ms b a"
  by (simp add: last_ms_def process_x3_def Let_def)

lemma last_ms_handle [simp]: "last_ms b (fst (handle_ohd_message now b' compid msg a)) = last_ms b a"
  by (cases msg) (simp_all, simp_all add: last_ms_def process_x4_def process_camera_status_def
      process_statustext_def Let_def)

lemma last_ms_message:
  "last_ms b (fst (ohd_process_message now b' (get_own_sys_id_ohd b') compid msg a)) =
     (if b' = b then ms_of now else last_ms b a)"
  by (simp add: ohd_process_message_def Let_def) (simp add: last_ms_def)

fun heard_at :: "bool \<Rightarrow> ohd_event \<Rightarrow> int list" where
  "heard_at b (Ohd_Received now b' compid msg) = (if b' = b then [now] else [])"
| "heard_at b _ = []"

definition heard :: "bool \<Rightarrow> ohd_event list \<Rightarrow> int list" where
  "heard b es = concat (map (heard_at b) es)"

lemma last_ms_step:
  "ohd_step e a = Inr a' \<Longrightarrow> last_ms b a' = (case heard_at b e of [] \<Rightarrow> last_ms b a | t # _ \<Rightarrow> ms_of t)"
  by (cases e) (auto simp: last_ms_message with_settings_def result_simps simp del: settings_step.simps,
      auto simp: last_ms_def)

lemma last_ms_run:
  "rfold ohd_step es a = Inr a' \<Longrightarrow> last_ms b a' = (if heard b es = [] then last_ms b a else ms_of (List.last (heard b es)))"
proof (induction es arbitrary: a)
  case (Cons e es)
  then obtain a1 where a1: "ohd_step e a = Inr a1" "rfold ohd_step es a1 = Inr a'"
    by (auto simp: result_simps)
  from Cons.IH [OF a1(2)] last_ms_step [OF a1(1), of b] show ?case
    by (cases e) (auto simp: heard_def)
qed (simp add: heard_def)

definition alive_limit :: "bool \<Rightarrow> int" where
  "alive_limit b = (if b then 3000 else 2000)"

text \<open>The screen says whether a unit is connected: after a check of its timer the unit counts as connected exactly if
  some message of it arrived less than three seconds (air) or two seconds (ground) before, whatever else has
  happened, and the change of that state, and nothing else, puts one message on the screen and one into its log.\<close>

theorem connection_shown:
  assumes "rfold ohd_step es (ohd_app_new start off n rpi) = Inr a"
    and "sorted (heard b es @ [now])" and "\<forall>t \<in> set (heard b es). 0 \<le> t"
  shows "let connected = (\<exists>t \<in> set (heard b es). ms_of now - ms_of t < alive_limit b);
             a' = update_alive now b a;
             m = (if b then ''Air unit '' else ''Ground unit '') @
                 (if connected then ''connected'' else ''disconnected'')
         in is_alive (ohd_of b a') = connected
          \<and> log a' = (if connected = is_alive (ohd_of b a) then log a
              else add_message_debug now (if b then Log_Air else Log_Ground) ''QOpenHD'' m
                     ((if connected then hud_info else hud_warning) now m (log a)))"
proof -
  have new: "last_ms b (ohd_app_new start off n rpi) = -1"
    by (simp add: last_ms_def ohd_app_new_def ohd_of_def ohd_system_new_def)
  have "sorted (heard b es)" using assms(2) by (simp add: sorted_append)
  then have mono: "ms_of t \<le> ms_of (List.last (heard b es))" if "t \<in> set (heard b es)" for t
    using sorted_le_last [of "heard b es" t] that by (simp add: zdiv_mono1)
  have c: "(\<exists>t \<in> set (heard b es). ms_of now - ms_of t < alive_limit b) \<longleftrightarrow>
      heard b es \<noteq> [] \<and> ms_of now - ms_of (List.last (heard b es)) < alive_limit b"
    using mono by (cases "heard b es = []") (auto intro: bexI [of _ "List.last (heard b es)"], force)
  have "0 \<le> ms_of (List.last (heard b es))" if "heard b es \<noteq> []"
    using assms(3) last_in_set [OF that] by (simp add: pos_imp_zdiv_nonneg_iff)
  with c last_ms_run [OF assms(1), of b] new
  have up: "update_alive now b a =
      update_alive_status_with_hud_message now b
        (\<exists>t \<in> set (heard b es). ms_of now - ms_of t < alive_limit b) a"
    by (auto simp: update_alive_def last_ms_def alive_limit_def Let_def)
  show ?thesis
    unfolding up Let_def
    by (auto simp: update_alive_status_with_hud_message_def Let_def)
      (auto simp: with_log_def upd_ohd_def)
qed

theorem connection_shown_witness:
  "\<exists>a. rfold ohd_step [Ohd_Received 1000000000 True 191 (Heartbeat_Message 8), Alive_Timer 2000000000 True]
       (ohd_app_new 0 True 1 False) = Inr a
     \<and> is_alive (ohd_of True a) \<and> \<not> is_alive (ohd_of True (update_alive 5000000000 True a))
     \<and> log (update_alive 5000000000 True a) = add_message_debug 5000000000 Log_Air ''QOpenHD''
         ''Air unit disconnected'' (hud_warning 5000000000 ''Air unit disconnected'' (log a))"
proof -
  let ?es = "[Ohd_Received 1000000000 True 191 (Heartbeat_Message 8), Alive_Timer 2000000000 True]"
  obtain a where a: "rfold ohd_step ?es (ohd_app_new 0 True 1 False) = Inr a" "is_alive (ohd_of True a)"
    by (simp add: ohd_process_message_def autofetch_def ohd_app_new_def ohd_system_new_def update_alive_def
        update_alive_status_with_hud_message_def with_log_def Let_def)
  have h: "heard True ?es = [1000000000]"
    by (simp add: heard_def)
  have "sorted (heard True ?es @ [5000000000])" "\<forall>t \<in> set (heard True ?es). 0 \<le> t"
    unfolding h by simp_all
  from connection_shown [OF a(1) this] a show ?thesis
    unfolding h by (auto simp: alive_limit_def Let_def simp del: rfold.simps)
qed

section \<open>The signal\<close>

lemma Max_insert_max: "finite S \<Longrightarrow> Max (insert (max b x) S) = Max (insert b (insert x S))" for b x :: int
  by (cases "S = {}") (simp_all add: max.assoc)

lemma best_fold:
  "fold (\<lambda>c best. if P c \<and> f c > best then f c else best) cs b = Max (insert b (f ` {c \<in> set cs. P c}))"
  for f :: "'a \<Rightarrow> int"
proof (induction cs arbitrary: b)
  case (Cons c cs)
  have s: "f ` {x \<in> set (c # cs). P x} = (if P c then insert (f c) (f ` {x \<in> set cs. P x}) else f ` {x \<in> set cs. P x})"
    by auto
  have "(if P c \<and> f c > b then f c else b) = (if P c then max b (f c) else b)"
    by auto
  with Cons.IH [of "if P c then max b (f c) else b"] show ?case
    unfolding s by (simp add: Max_insert_max)
qed simp

text \<open>The signal shown for the ground unit is that of its best living card.\<close>

lemma best_rssi_max:
  "helper_get_gnd_curr_best_rssi cards = Max (insert (-127) (curr_rx_rssi_dbm ` {c \<in> set cards. alive c}))"
  unfolding helper_get_gnd_curr_best_rssi_def by (rule best_fold)

text \<open>A weaker signal never lowers the warning, down to -126 dBm; at -127 there is no signal and no warning.\<close>

lemma dbm_warning_antimono:
  "-127 < r \<Longrightarrow> r \<le> r' \<Longrightarrow> dbm_warning m r' \<le> dbm_warning m r \<and> dbm_warning m r \<in> {0, 1, 2}"
  by (simp add: dbm_warning_def Let_def)

lemma dbm_warning_no_signal: "dbm_warning m (-127) = 0"
  by (simp add: dbm_warning_def)

text \<open>Higher rates need a stronger signal.\<close>

lemma required_dbm_mono:
  assumes "0 \<le> i" and "i \<le> j" and "j < 10"
  shows "get_required_dbm_for_rate w i \<le> get_required_dbm_for_rate w j"
proof -
  have s: "sorted get_dbm_20mhz" "sorted get_dbm_40mhz" "length get_dbm_20mhz = 10" "length get_dbm_40mhz = 10"
    by (simp_all add: get_dbm_20mhz_def get_dbm_40mhz_def)
  have "nat i \<le> nat j" "nat j < 10" using assms by auto
  with assms s show ?thesis
    by (auto simp: get_required_dbm_for_rate_def Let_def intro: sorted_nth_mono)
qed

end
