(* ===== verification/Stream_Status.thy ===== *)
theory Stream_Status
  imports Unit_Status
begin

text \<open>
  The streams in a run of the units: which messages change what is known of a camera, and the codec the decoder is set
  to, by the camera or by the user. The other operations of \<open>AOHDSystem\<close> leave the streams alone.
\<close>

section \<open>Frame\<close>

definition codec_of :: "nat \<Rightarrow> ohd_app \<Rightarrow> int" where
  "codec_of i a = qopenhd_video_codec (streams a i)"

lemma codec_of_frame [simp]:
  "codec_of i (upd_ohd b f a) = codec_of i a" "codec_of i (with_log g a) = codec_of i a"
  "codec_of i (with_wb now h a) = codec_of i a" "codec_of i (a\<lparr>settings := s\<rparr>) = codec_of i a"
  "codec_of i (a\<lparr>cards_gnd := cs\<rparr>) = codec_of i a" "codec_of i (a\<lparr>rc_channels_ground := r\<rparr>) = codec_of i a"
  "codec_of i (a\<lparr>card_air := c, log := l\<rparr>) = codec_of i a" "codec_of i (a\<lparr>cards_gnd := cs, log := l\<rparr>) = codec_of i a"
  by (simp_all add: codec_of_def upd_ohd_def with_log_def with_wb_def Let_def)

lemma codec_of_stream [simp]:
  "codec_of i (with_stream j k a) =
     (if i = j then qopenhd_video_codec (fst (k (streams a j, log a))) else codec_of i a)"
  by (auto simp: codec_of_def with_stream_def split: prod.split)

lemma codec_of_alive [simp]: "codec_of i (update_alive now b a) = codec_of i a"
  by (simp add: update_alive_def update_alive_status_with_hud_message_def Let_def)

lemma codec_of_autofetch [simp]: "codec_of i (autofetch now b a) = codec_of i a"
  by (simp add: autofetch_next try_refetch_def split: option.split)

lemma codec_of_statistics [simp]:
  "qopenhd_video_codec (fst (update_stats_wb_video_air now j msg (c, l))) = qopenhd_video_codec c"
  "qopenhd_video_codec (update_stats_wb_video_ground n c) = qopenhd_video_codec c"
  by (simp_all add: update_stats_wb_video_air_def set_curr_recommended_bitrate_from_message_def count_dropped_frames_def
      check_bitrate_def update_stats_wb_video_ground_def Let_def)

lemma codec_of_status [simp]:
  "qopenhd_video_codec (fst (update_camera_status_air now j msg (c, l))) =
     (if cs_encoding_format msg \<in> {0, 1, 2} then cs_encoding_format msg else qopenhd_video_codec c)"
  by (auto simp: update_camera_status_air_def follow_codec_def Let_def)

section \<open>The codec\<close>

text \<open>What an event says of the codec of a camera.\<close>

fun codec_report :: "nat \<Rightarrow> ohd_event \<Rightarrow> int list" where
  "codec_report i (Ohd_Received now b compid (Camera_Status_Air msg)) =
     (if compid = (if i = 0 then OHD_COMP_ID_AIR_CAMERA_PRIMARY else OHD_COMP_ID_AIR_CAMERA_SECONDARY)
         \<and> cs_encoding_format msg \<in> {0, 1, 2}
      then [cs_encoding_format msg] else [])"
| "codec_report i _ = []"

lemma codec_of_core [simp]: "codec_of i (process_openhd_core_status b p f a) = codec_of i a"
  by (simp add: process_openhd_core_status_def Let_def)

lemma codec_of_x0 [simp]: "codec_of i (process_x0 now b m a) = codec_of i a"
  by (simp add: process_x0_def Let_def split: prod.split)

lemma codec_of_x1 [simp]: "codec_of i (process_x1 now b m a) = codec_of i a"
  by (simp add: process_x1_def Let_def)

lemma codec_of_x3 [simp]: "codec_of i (process_x3 now b m a) = codec_of i a"
  by (simp add: process_x3_def Let_def) (simp add: codec_of_def)

lemma codec_of_x4 [simp]: "codec_of i (process_x4 b j n a) = codec_of i a"
  by (simp add: process_x4_def) (simp add: codec_of_def)

lemma camera_ids: "OHD_COMP_ID_AIR_CAMERA_PRIMARY \<noteq> OHD_COMP_ID_AIR_CAMERA_SECONDARY"
  by (simp add: OHD_COMP_ID_AIR_CAMERA_PRIMARY_def OHD_COMP_ID_AIR_CAMERA_SECONDARY_def)

lemma codec_of_camera_status:
  "i < 2 \<Longrightarrow> codec_of i (process_camera_status now b compid msg a) =
     (case codec_report i (Ohd_Received now b compid (Camera_Status_Air msg)) of [] \<Rightarrow> codec_of i a | c # _ \<Rightarrow> c)"
  using camera_ids by (cases i) (auto simp: process_camera_status_def Let_def codec_of_def [of _ a])

lemma codec_of_handle:
  "i < 2 \<Longrightarrow> codec_of i (fst (handle_ohd_message now b compid msg a)) =
     (case codec_report i (Ohd_Received now b compid msg) of [] \<Rightarrow> codec_of i a | c # _ \<Rightarrow> c)"
  by (cases msg) (simp_all add: codec_of_camera_status process_statustext_def Let_def del: codec_report.simps(1))

lemma codec_of_step:
  assumes "i < 2" and "ohd_step e a = Inr a'"
  shows "codec_of i a' = (case codec_report i e of [] \<Rightarrow> codec_of i a | c # _ \<Rightarrow> c)"
proof (cases e)
  case (Ohd_Received now b compid msg)
  with assms show ?thesis
    by (auto simp: ohd_process_message_def Let_def codec_of_handle simp del: codec_report.simps split: list.split)
qed (use assms in \<open>auto simp: with_settings_def result_simps simp del: settings_step.simps\<close>)

lemma codec_report_cases: "codec_report i e = [] \<or> (\<exists>c \<in> {0, 1, 2}. codec_report i e = [c])"
  by (cases "(i, e)" rule: codec_report.cases) auto

section \<open>The page of the user\<close>

text \<open>The boxes for the codecs (\<open>AppVideoSettingsView.qml\<close>) write the same settings. They offer two codecs; opening the page puts a
  value out of range back to the first. That a box changes to another row is an event, whether the user selects it or the toolkit, whose
  boxes begin with the first row. For a row that does not exist the handler fails at the text of its debug output.\<close>

definition itemsVideoCodec :: "string list" where
  "itemsVideoCodec = [''H264'', ''H265'']"

definition set_codec :: "nat \<Rightarrow> int \<Rightarrow> ohd_app \<Rightarrow> ohd_app" where
  "set_codec i c a = a\<lparr>streams := (streams a)(i := (streams a i)\<lparr>qopenhd_video_codec := c\<rparr>)\<rparr>"

definition codec_box_completed :: "nat \<Rightarrow> ohd_app \<Rightarrow> ohd_app" where
  "codec_box_completed i a = (if codec_of i a > 2 \<or> codec_of i a < 0 then set_codec i 0 a else a)"

definition codec_box_index_changed :: "nat \<Rightarrow> nat \<Rightarrow> ohd_app \<Rightarrow> ohd_app" where
  "codec_box_index_changed i index a = (if index < length itemsVideoCodec then set_codec i (int index) a else a)"

datatype stream_event =
    Of_Units ohd_event
  | Codec_Page_Opened nat
  | Codec_Chosen nat nat

fun stream_step :: "stream_event \<Rightarrow> ohd_app \<Rightarrow> ohd_app result" where
  "stream_step (Of_Units e) a = ohd_step e a"
| "stream_step (Codec_Page_Opened j) a = Inr (codec_box_completed j a)"
| "stream_step (Codec_Chosen j index) a = Inr (codec_box_index_changed j index a)"

fun codec_said :: "nat \<Rightarrow> stream_event \<Rightarrow> int list" where
  "codec_said i (Of_Units e) = codec_report i e"
| "codec_said i (Codec_Page_Opened j) = []"
| "codec_said i (Codec_Chosen j index) = (if j = i \<and> index < 2 then [int index] else [])"

lemma codec_of_set [simp]: "codec_of i (set_codec j c a) = (if i = j then c else codec_of i a)"
  by (simp add: codec_of_def set_codec_def)

lemma stream_step_codec:
  assumes "i < 2" and "stream_step e a = Inr a'" and "codec_of i a \<in> {0, 1, 2}"
  shows "codec_of i a' = List.last (codec_of i a # codec_said i e) \<and> codec_of i a' \<in> {0, 1, 2}"
proof (cases e)
  case (Of_Units u)
  with assms codec_of_step [of i u a a'] codec_report_cases [of i u] show ?thesis by auto
next
  case (Codec_Chosen j index)
  with assms have "a' = (if index < 2 then set_codec j (int index) a else a)"
    by (simp add: codec_box_index_changed_def itemsVideoCodec_def numeral_2_eq_2)
  moreover have "int index \<in> {0, 1, 2}" if "index < 2" using that by auto
  ultimately show ?thesis using assms(3) by (simp add: Codec_Chosen)
next
  case (Codec_Page_Opened j)
  with assms show ?thesis by (cases "j = i") (auto simp: codec_box_completed_def split: if_splits)
qed

text \<open>C28. The decoder follows the camera and the user: after any run of messages, timers and selections on the page of settings the
  codec that is set for a camera is the last one that either its status messages named, among the three the program knows, or was
  selected in its box of codecs; a status with any other number leaves it as it is, and nothing the other units or the other camera
  send and no selection for the other camera changes it. Before the first of them it is the default, H.264.\<close>

theorem codec_follows_air:
  assumes "rfold stream_step es (ohd_app_new start off n rpi) = Inr a" and "i < 2"
  shows "qopenhd_video_codec (streams a i) = List.last (0 # concat (map (codec_said i) es))"
proof -
  have "codec_of i a' = List.last (codec_of i a # concat (map (codec_said i) es))"
    if "rfold stream_step es a = Inr a'" "codec_of i a \<in> {0, 1, 2}" for a a'
    using that
  proof (induction es arbitrary: a)
    case (Cons e es)
    then obtain a1 where a1: "stream_step e a = Inr a1" "rfold stream_step es a1 = Inr a'"
      by (auto simp: result_simps)
    note c = stream_step_codec [OF assms(2) a1(1) Cons.prems(2)]
    have "codec_said i e = [] \<or> (\<exists>c. codec_said i e = [c])"
      using codec_report_cases [of i] by (cases e) auto
    with Cons.IH [OF a1(2)] c show ?case by auto
  qed simp
  from this [OF assms(1)] show ?thesis
    by (simp add: codec_of_def ohd_app_new_def camera_stream_new_def)
qed

theorem codec_follows_air_witness:
  "let msg = \<lambda>f. \<lparr>cs_keyframe_interval = 5, cs_recording = False, cs_cam_type = 30, cs_encoding_format = f,
         cs_stream_w = 1280, cs_stream_h = 720, cs_stream_fps = 60, cs_cam_status = 1\<rparr>
   in \<exists>a. rfold stream_step [Codec_Chosen 0 1, Codec_Chosen 1 1,
         Of_Units (Ohd_Received 1000000000 True OHD_COMP_ID_AIR_CAMERA_PRIMARY (Camera_Status_Air (msg 2))),
         Of_Units (Ohd_Received 2000000000 True OHD_COMP_ID_AIR_CAMERA_PRIMARY (Camera_Status_Air (msg 7)))]
       (ohd_app_new 0 True 1 False) = Inr a \<and> qopenhd_video_codec (streams a 0) = 2 \<and> qopenhd_video_codec (streams a 1) = 1"
proof -
  let ?msg = "\<lambda>f. \<lparr>cs_keyframe_interval = 5, cs_recording = False, cs_cam_type = 30, cs_encoding_format = f,
         cs_stream_w = 1280, cs_stream_h = 720, cs_stream_fps = 60, cs_cam_status = 1\<rparr>"
  let ?es = "[Codec_Chosen 0 1, Codec_Chosen 1 1,
         Of_Units (Ohd_Received 1000000000 True OHD_COMP_ID_AIR_CAMERA_PRIMARY (Camera_Status_Air (?msg 2))),
         Of_Units (Ohd_Received 2000000000 True OHD_COMP_ID_AIR_CAMERA_PRIMARY (Camera_Status_Air (?msg 7)))]"
  obtain a where a: "rfold stream_step ?es (ohd_app_new 0 True 1 False) = Inr a" by simp
  have "OHD_COMP_ID_AIR_CAMERA_PRIMARY \<noteq> OHD_COMP_ID_AIR_CAMERA_SECONDARY" by (rule camera_ids)
  with codec_follows_air [OF a, of 0] codec_follows_air [OF a, of 1] a show ?thesis
    unfolding Let_def by (intro exI [of _ a] conjI) (simp_all del: ohd_step.simps stream_step.simps)
qed

end
