(* ===== verification/Fc_Action.thy ===== *)
theory Fc_Action
  imports Wb_Link Mavlink_Enums Cmd_Sender
begin

text \<open>
  Commands of the user to the flight controller and the units: the classes \<open>FCAction\<close>
  (\<open>app/telemetry/action/fcaction.h\<close> and \<open>.cpp\<close>) and \<open>OHDAction\<close> (\<open>app/telemetry/action/ohdaction.cpp\<close>) with
  \<open>create_cmd_helper.hpp\<close>, on top of the command sender.

  The state joins \<open>FCAction\<close> with the sender, which other components use, too; a callback is the name of the
  operation that gave it. Parameters of commands are the integers that are stored in them. Numbers of the OpenHD
  dialect and of the flight modes are those of headers that are not part of the repository and are parameters.
\<close>

section \<open>Commands\<close>

record fc_fields =
  cmd_system :: u8
  cmd_component :: u8
  cmd_params :: "int list"

definition long_command :: "int \<Rightarrow> int \<Rightarrow> u16 \<Rightarrow> int list \<Rightarrow> fc_fields command_long" where
  "long_command sysid compid i params = \<lparr>command = i, confirmation = 0, other_fields =
     \<lparr>cmd_system = of_int sysid, cmd_component = of_int compid, cmd_params = params @ replicate (7 - length params) 0\<rparr>\<rparr>"

text \<open>Numbers of the MAVLink common dialect.\<close>

definition MAV_CMD_COMPONENT_ARM_DISARM :: u16 where "MAV_CMD_COMPONENT_ARM_DISARM = 400"
definition MAV_CMD_DO_SET_MODE :: u16 where "MAV_CMD_DO_SET_MODE = 176"
definition MAV_CMD_REQUEST_MESSAGE :: u16 where "MAV_CMD_REQUEST_MESSAGE = 512"
definition MAV_CMD_PREFLIGHT_REBOOT_SHUTDOWN :: u16 where "MAV_CMD_PREFLIGHT_REBOOT_SHUTDOWN = 246"
definition MAV_CMD_PREFLIGHT_CALIBRATION :: u16 where "MAV_CMD_PREFLIGHT_CALIBRATION = 241"
definition MAV_MODE_FLAG_CUSTOM_MODE_ENABLED :: int where "MAV_MODE_FLAG_CUSTOM_MODE_ENABLED = 1"
definition MAVLINK_MSG_ID_HOME_POSITION :: int where "MAVLINK_MSG_ID_HOME_POSITION = 242"
definition MAV_COMP_ID_ONBOARD_COMPUTER :: int where "MAV_COMP_ID_ONBOARD_COMPUTER = 191"

definition create_cmd_reboot :: "int \<Rightarrow> int \<Rightarrow> bool \<Rightarrow> bool \<Rightarrow> fc_fields command_long" where
  "create_cmd_reboot sysid compid reboot companion_computer =
     (let v = (if reboot then 1 else 2) in
      long_command sysid compid MAV_CMD_PREFLIGHT_REBOOT_SHUTDOWN (if companion_computer then [0, v] else [v]))"

definition create_cmd_compass_calibration :: "int \<Rightarrow> int \<Rightarrow> fc_fields command_long" where
  "create_cmd_compass_calibration sysid compid = long_command sysid compid MAV_CMD_PREFLIGHT_CALIBRATION [0, 1]"

definition create_cmd_request_message :: "int \<Rightarrow> int \<Rightarrow> int \<Rightarrow> fc_fields command_long" where
  "create_cmd_request_message sysid compid message_id =
     long_command sysid compid MAV_CMD_REQUEST_MESSAGE [message_id]"

definition create_cmd_arm :: "int \<Rightarrow> int \<Rightarrow> bool \<Rightarrow> fc_fields command_long" where
  "create_cmd_arm sysid compid arm = long_command sysid compid MAV_CMD_COMPONENT_ARM_DISARM [if arm then 1 else 0, 0]"

definition create_cmd_do_set_flight_mode :: "int \<Rightarrow> int \<Rightarrow> int \<Rightarrow> fc_fields command_long" where
  "create_cmd_do_set_flight_mode sysid compid mode =
     long_command sysid compid MAV_CMD_DO_SET_MODE [MAV_MODE_FLAG_CUSTOM_MODE_ENABLED, mode, 0, 0, 0, 0, 0]"

section \<open>Names of flight modes\<close>

record fm_numbers =
  copter_number :: "copter_mode \<Rightarrow> int"
  plane_number :: "plane_mode \<Rightarrow> int"

record XFlightMode =
  id_copter :: int
  id_plane :: int

definition create_fm_mapping :: "fm_numbers \<Rightarrow> (string \<times> XFlightMode) list" where
  "create_fm_mapping fm =
     (let c = copter_number fm; p = plane_number fm; both = (\<lambda>i j. \<lparr>id_copter = i, id_plane = j\<rparr>) in
      [(''RTL'', both (c COPTER_MODE_RTL) (p PLANE_MODE_RTL)),
       (''STABILIZE'', both (c COPTER_MODE_STABILIZE) (p PLANE_MODE_STABILIZE)),
       (''LOITER'', both (c COPTER_MODE_LOITER) (p PLANE_MODE_LOITER)),
       (''CIRCLE'', both (c COPTER_MODE_CIRCLE) (p PLANE_MODE_CIRCLE)),
       (''AUTO'', both (c COPTER_MODE_AUTO) (p PLANE_MODE_AUTO)),
       (''AUTOTUNE'', both (c COPTER_MODE_AUTOTUNE) (p PLANE_MODE_AUTOTUNE)),
       (''MANUAL'', both (-1) (p PLANE_MODE_MANUAL)),
       (''FBWA'', both (-1) (p PLANE_MODE_FLY_BY_WIRE_A)),
       (''FBWB'', both (-1) (p PLANE_MODE_FLY_BY_WIRE_B)),
       (''QSTABILIZE'', both (-1) (p PLANE_MODE_QSTABILIZE)),
       (''QHOVER'', both (-1) (p PLANE_MODE_QHOVER)),
       (''QLOITER'', both (-1) (p PLANE_MODE_QLOITER)),
       (''QLAND'', both (-1) (p PLANE_MODE_QLAND)),
       (''QRTL'', both (-1) (p PLANE_MODE_QRTL)),
       (''ALT_HOLD'', both (c COPTER_MODE_ALT_HOLD) (-1)),
       (''POS_HOLD'', both (c COPTER_MODE_POSHOLD) (-1)),
       (''ACRO'', both (c COPTER_MODE_ACRO) (p PLANE_MODE_ACRO)),
       (''GUIDED'', both (c COPTER_MODE_GUIDED) (p PLANE_MODE_GUIDED)),
       (''LAND'', both (c COPTER_MODE_LAND) (-1)),
       (''SMART_RTL'', both (c COPTER_MODE_SMART_RTL) (-1)),
       (''ZIGZAG'', both (c COPTER_MODE_ZIGZAG) (-1)),
       (''AUTO_RTL'', both (c COPTER_MODE_AUTO_RTL) (-1)),
       (''CRUISE'', both (-1) (p PLANE_MODE_CRUISE)),
       (''TAKEOFF'', both (-1) (p PLANE_MODE_TAKEOFF))])"

definition flight_mode_string_to_int :: "mav_dialect \<Rightarrow> fm_numbers \<Rightarrow> string \<Rightarrow> int \<Rightarrow> int" where
  "flight_mode_string_to_int d fm name uav =
     (if uav < 0 then -1
      else case map_of (create_fm_mapping fm) name of
             Some x_fm \<Rightarrow>
               if flight_mode_is_copter (mav_type_of d (of_int uav)) then id_copter x_fm
               else if flight_mode_is_plane (mav_type_of d (of_int uav)) then id_plane x_fm
               else -1
           | None \<Rightarrow> -1)"

section \<open>FCAction\<close>

datatype fc_client = Arm_Change bool | Flight_Mode_Change | Someone_Else

record fc_action =
  fc_sender :: "(fc_fields, fc_client) cmd_sender"
  m_has_currently_runnning_flight_mode_change :: bool
  m_ardupilot_mav_type :: int
  fc_hud :: "(hud_level \<times> string) list"

definition fc_action_new :: fc_action where
  "fc_action_new = \<lparr>fc_sender = cmd_sender_new, m_has_currently_runnning_flight_mode_change = False,
     m_ardupilot_mav_type = -1, fc_hud = []\<rparr>"

definition fc_hud_message :: "hud_level \<Rightarrow> string \<Rightarrow> fc_action \<Rightarrow> fc_action" where
  "fc_hud_message lev m a = a\<lparr>fc_hud := fc_hud a @ [(lev, m)]\<rparr>"

text \<open>What the operations read of the flight controller: whether it is alive, and its ids.\<close>

record fc_seen =
  seen_alive :: bool
  seen_sys_id :: int
  seen_comp_id :: int

definition arm_fc_async :: "int \<Rightarrow> fc_seen \<Rightarrow> bool \<Rightarrow> fc_action \<Rightarrow> fc_action result" where
  "arm_fc_async now fc arm a =
     (if \<not> seen_alive fc then Inr (fc_hud_message Hud_Info ''FC not alive'' a)
      else rbind (send_command_long_async now (create_cmd_arm (seen_sys_id fc) (seen_comp_id fc) arm)
                    (Arm_Change arm) 500 3 (fc_sender a))
             (\<lambda>(s, _). Inr (a\<lparr>fc_sender := s\<rparr>)))"

text \<open>The mode comes as a \<open>long\<close> and is handed on as an \<open>int\<close>.\<close>

definition flight_mode_cmd_async :: "int \<Rightarrow> fc_seen \<Rightarrow> int \<Rightarrow> fc_action \<Rightarrow> fc_action result" where
  "flight_mode_cmd_async now fc cmd_msg a =
     (if cmd_msg < 0 then Inr (fc_hud_message Hud_Info (''Invalid FM '' @ int_to_string cmd_msg) a)
      else if \<not> seen_alive fc then Inr (fc_hud_message Hud_Info ''FC not alive'' a)
      else if m_has_currently_runnning_flight_mode_change a
      then Inr (fc_hud_message Hud_Info ''Busy, please try again later'' a)
      else
        let a1 = a\<lparr>m_has_currently_runnning_flight_mode_change := True\<rparr> in
        rbind (send_command_long_async now
                 (create_cmd_do_set_flight_mode (seen_sys_id fc) (seen_comp_id fc) (sint (of_int cmd_msg :: 32 word)))
                 Flight_Mode_Change 250 6 (fc_sender a1))
          (\<lambda>(s, result). Inr (
             if result then a1\<lparr>fc_sender := s\<rparr>
             else fc_hud_message Hud_Info ''Failed, please try again later'' (a1\<lparr>fc_sender := s\<rparr>))))"

definition flight_mode_cmd_async_string ::
  "mav_dialect \<Rightarrow> fm_numbers \<Rightarrow> int \<Rightarrow> fc_seen \<Rightarrow> string \<Rightarrow> fc_action \<Rightarrow> fc_action result" where
  "flight_mode_cmd_async_string d fm now fc name a =
     (if \<not> seen_alive fc then Inr (fc_hud_message Hud_Warning ''Flight mode error - no FC'' a)
      else if m_ardupilot_mav_type a < 0 then Inr a
      else
        let flight_mode_type = flight_mode_string_to_int d fm name (m_ardupilot_mav_type a) in
        if flight_mode_type \<ge> 0 then flight_mode_cmd_async now fc flight_mode_type a
        else Inr (fc_hud_message Hud_Warning ''Invalid flight mode'' a))"

definition has_mapping :: "mav_dialect \<Rightarrow> fm_numbers \<Rightarrow> string \<Rightarrow> fc_action \<Rightarrow> bool" where
  "has_mapping d fm name a \<longleftrightarrow> flight_mode_string_to_int d fm name (m_ardupilot_mav_type a) \<ge> 0"

text \<open>The callbacks.\<close>

fun fc_result :: "fc_client \<times> run_command_result \<Rightarrow> fc_action \<Rightarrow> fc_action" where
  "fc_result (Arm_Change arm, r) a = fc_hud_message Hud_Info
     (if opt_ack r = None then (if arm then ''ARM - FC not reachable'' else ''DISARM - FC not reachable'')
      else if is_accepted r then (if arm then ''ARMED FC'' else ''DISARMED FC'')
      else (if arm then ''ARM not possible'' else ''DISARM not possible'')) a"
| "fc_result (Flight_Mode_Change, r) a =
     (fc_hud_message Hud_Info
       (if opt_ack r = None then ''FC not reachable''
        else if is_accepted r then ''Flight mode success''
        else ''Flight mode unsupported'') a)\<lparr>m_has_currently_runnning_flight_mode_change := False\<rparr>"
| "fc_result (Someone_Else, r) a = a"

text \<open>The sender has run: the results it has reported since are handed to the callbacks.\<close>

definition with_fc_sender :: "(fc_fields, fc_client) cmd_sender \<Rightarrow> fc_action \<Rightarrow> fc_action" where
  "with_fc_sender s a = fold fc_result (drop (length (results (fc_sender a))) (results s)) (a\<lparr>fc_sender := s\<rparr>)"

section \<open>Operations that wait\<close>

text \<open>These send a command and wait for its result, in a thread of the user interface.\<close>

definition request_home_position_command :: "fc_seen \<Rightarrow> fc_fields command_long" where
  "request_home_position_command fc =
     create_cmd_request_message (seen_sys_id fc) (seen_comp_id fc) MAVLINK_MSG_ID_HOME_POSITION"

definition request_home_position_text :: "cmd_result \<Rightarrow> string" where
  "request_home_position_text r = (if r = CMD_SUCCESS then ''Request home success'' else ''Request home failure'')"

definition fc_reboot_command :: "fc_seen \<Rightarrow> bool \<Rightarrow> fc_fields command_long" where
  "fc_reboot_command fc reboot = create_cmd_reboot (seen_sys_id fc) (seen_comp_id fc) reboot False"

definition compass_calibration_command :: "fc_seen \<Rightarrow> fc_fields command_long" where
  "compass_calibration_command fc = create_cmd_compass_calibration (seen_sys_id fc) (seen_comp_id fc)"

definition reboot_unit_command :: "bool \<Rightarrow> bool \<Rightarrow> fc_fields command_long" where
  "reboot_unit_command is_air reboot =
     create_cmd_reboot (uint (if is_air then OHD_SYS_ID_AIR else OHD_SYS_ID_GROUND)) MAV_COMP_ID_ONBOARD_COMPUTER reboot True"

definition analyze_channels_command :: "u16 \<Rightarrow> int \<Rightarrow> fc_fields command_long" where
  "analyze_channels_command initiate_channel_analyze freq_bands =
     long_command (uint OHD_SYS_ID_GROUND) MAV_COMP_ID_ONBOARD_COMPUTER initiate_channel_analyze [freq_bands]"

definition scan_channels_command :: "u16 \<Rightarrow> int \<Rightarrow> int \<Rightarrow> fc_fields command_long" where
  "scan_channels_command initiate_channel_search freq_bands channel_widths =
     long_command (uint OHD_SYS_ID_GROUND) MAV_COMP_ID_ONBOARD_COMPUTER initiate_channel_search
       [freq_bands, channel_widths]"

text \<open>What such an operation returns once its callback has run.\<close>

definition command_successful :: "bool \<Rightarrow> 'k \<Rightarrow> ('p, 'k) cmd_sender \<Rightarrow> bool option" where
  "command_successful enqueued k s = map_option (\<lambda>r. r = CMD_SUCCESS) (blocking_returns enqueued k s)"

section \<open>Runs\<close>

datatype fc_event =
    Ask_Arm int fc_seen bool
  | Ask_Mode int fc_seen int
  | Ask_Mode_Named int fc_seen string
  | Mav_Type_Seen int
  | Other_Command int "fc_fields command_long" int int
  | Ack_Received "command_ack option"
  | Sender_Timeout int

record fc_config =
  dialect :: mav_dialect
  numbers :: fm_numbers
  self_sysid :: u8
  self_compid :: u8

fun fc_step :: "fc_config \<Rightarrow> fc_event \<Rightarrow> fc_action \<Rightarrow> fc_action result" where
  "fc_step k (Ask_Arm now fc arm) a = arm_fc_async now fc arm a"
| "fc_step k (Ask_Mode now fc mode) a = flight_mode_cmd_async now fc mode a"
| "fc_step k (Ask_Mode_Named now fc name) a = flight_mode_cmd_async_string (dialect k) (numbers k) now fc name a"
| "fc_step k (Mav_Type_Seen t) a = Inr (a\<lparr>m_ardupilot_mav_type := t\<rparr>)"
| "fc_step k (Other_Command now c delay n) a =
     rbind (send_command_long_async now c Someone_Else delay n (fc_sender a)) (\<lambda>(s, _). Inr (a\<lparr>fc_sender := s\<rparr>))"
| "fc_step k (Ack_Received m) a =
     Inr (with_fc_sender (fst (process_message (self_sysid k) (self_compid k) m (fc_sender a))) a)"
| "fc_step k (Sender_Timeout now) a = rbind (handle_timeout now (fc_sender a)) (\<lambda>s. Inr (with_fc_sender s a))"

section \<open>One change of the flight mode at a time\<close>

definition n_mode_changes :: "(fc_fields, fc_client) cmd_sender \<Rightarrow> nat" where
  "n_mode_changes s = count (mset (map cb (m_running_commands s))) Flight_Mode_Change"

definition refused :: "fc_action \<Rightarrow> bool" where
  "refused a \<longleftrightarrow> (Hud_Info, ''Failed, please try again later'') \<in> set (fc_hud a)"

definition mode_inv :: "fc_action \<Rightarrow> bool" where
  "mode_inv a \<longleftrightarrow> n_mode_changes (fc_sender a) =
       (if refused a then 0 else if m_has_currently_runnning_flight_mode_change a then 1 else 0)
     \<and> (refused a \<longrightarrow> m_has_currently_runnning_flight_mode_change a)"

lemma fc_hud_message_simps [simp]:
  "fc_sender (fc_hud_message l m a) = fc_sender a"
  "m_has_currently_runnning_flight_mode_change (fc_hud_message l m a) = m_has_currently_runnning_flight_mode_change a"
  "m_ardupilot_mav_type (fc_hud_message l m a) = m_ardupilot_mav_type a"
  "refused (fc_hud_message l m a) \<longleftrightarrow> refused a \<or> (l, m) = (Hud_Info, ''Failed, please try again later'')"
  by (auto simp: fc_hud_message_def refused_def)

lemma refused_frame [simp]:
  "refused (a\<lparr>fc_sender := s\<rparr>) = refused a" "refused (a\<lparr>m_ardupilot_mav_type := t\<rparr>) = refused a"
  "refused (a\<lparr>m_has_currently_runnning_flight_mode_change := b\<rparr>) = refused a"
  by (simp_all add: refused_def)

lemma fc_result_frame:
  "fc_sender (fc_result kr a) = fc_sender a" "refused (fc_result kr a) = refused a"
  "m_has_currently_runnning_flight_mode_change (fc_result kr a) \<longleftrightarrow>
     m_has_currently_runnning_flight_mode_change a \<and> fst kr \<noteq> Flight_Mode_Change"
  by (cases "(kr, a)" rule: fc_result.cases; simp)+

lemma fold_fc_result:
  "fc_sender (fold fc_result p a) = fc_sender a \<and> refused (fold fc_result p a) = refused a
   \<and> (m_has_currently_runnning_flight_mode_change (fold fc_result p a) \<longleftrightarrow>
       m_has_currently_runnning_flight_mode_change a \<and> Flight_Mode_Change \<notin> fst ` set p)"
  by (induction p arbitrary: a) (auto simp: fc_result_frame)

text \<open>What the sender does when a message or a time-out comes: some running commands get their result.\<close>

definition sender_ran :: "('p, 'k) cmd_sender \<Rightarrow> ('p, 'k) cmd_sender \<Rightarrow> bool" where
  "sender_ran s s' \<longleftrightarrow> (\<exists>p. results s' = results s @ p
     \<and> mset (map cb (m_running_commands s')) + mset (map fst p) = mset (map cb (m_running_commands s)))"

lemma sender_ran_message: "sender_ran s (fst (process_message sys cmp m s))"
proof -
  have "sender_ran s (fst (handle_cmd_ack ack s))" for ack
  proof (cases "find_remove_running_command (ack_command ack) (m_running_commands s)")
    case (Some q)
    obtain c rest where q: "q = (c, rest)" by fastforce
    have "mset (map cb (m_running_commands s)) = mset (map cb rest) + {#cb c#}"
      using find_remove_Some [OF Some [unfolded q]] by (intro mset_map_cong) simp
    then show ?thesis by (auto simp: handle_cmd_ack_def Some q sender_ran_def)
  qed (simp add: handle_cmd_ack_def sender_ran_def)
  moreover have "sender_ran s s" by (simp add: sender_ran_def)
  ultimately show ?thesis by (simp add: process_message_def split: option.split)
qed

lemma sender_ran_timeout: "handle_timeout now s = Inr s' \<Longrightarrow> sender_ran s s'"
  by (auto simp: handle_timeout_loop sender_ran_def multiset.map_comp comp_def dest!: cmd_request.loop_keys)

lemma with_fc_sender_inv:
  assumes "mode_inv a" and "sender_ran (fc_sender a) s"
  shows "mode_inv (with_fc_sender s a)"
proof -
  obtain p where p: "results s = results (fc_sender a) @ p"
    "mset (map cb (m_running_commands s)) + mset (map fst p) = mset (map cb (m_running_commands (fc_sender a)))"
    using assms(2) by (auto simp: sender_ran_def)
  obtain M where M: "M = count (mset (map fst p)) Flight_Mode_Change" by simp
  have n: "n_mode_changes (fc_sender a) = n_mode_changes s + M"
    unfolding n_mode_changes_def p(2) [symmetric] M by simp
  have w: "with_fc_sender s a = fold fc_result p (a\<lparr>fc_sender := s\<rparr>)"
    by (simp add: with_fc_sender_def p(1))
  let ?b = m_has_currently_runnning_flight_mode_change
  have m: "M = 0 \<longleftrightarrow> Flight_Mode_Change \<notin> fst ` set p"
    by (simp add: M count_eq_zero_iff)
  have "?b (with_fc_sender s a) \<longleftrightarrow> ?b a \<and> M = 0"
    unfolding m w using fold_fc_result [of p "a\<lparr>fc_sender := s\<rparr>"] by simp
  moreover have "refused (with_fc_sender s a) = refused a" "fc_sender (with_fc_sender s a) = s"
    using fold_fc_result [of p "a\<lparr>fc_sender := s\<rparr>"] by (simp_all add: w)
  moreover note assms(1) n
  ultimately show ?thesis
    unfolding mode_inv_def by (cases "refused a"; cases "?b a"; cases "M = 0") simp_all
qed

lemma send_mode_changes:
  "send_command_long_async now c k delay n s = Inr (s', ok) \<Longrightarrow>
     n_mode_changes s' = n_mode_changes s + (if ok \<and> k = Flight_Mode_Change then 1 else 0)"
  by (auto simp: send_command_long_async_def n_mode_changes_def send_command_def result_simps Let_def split: if_splits)

lemma mode_cmd_inv:
  assumes "mode_inv a" and "flight_mode_cmd_async now fc mode a = Inr a'"
  shows "mode_inv a'"
  using assms
  by (auto simp: flight_mode_cmd_async_def mode_inv_def result_simps Let_def dest!: send_mode_changes split: if_splits)

lemma fc_step_inv:
  assumes "mode_inv a" and "fc_step k e a = Inr a'"
  shows "mode_inv a'"
proof (cases e)
  case (Ask_Arm now fc arm)
  with assms show ?thesis
    by (auto simp: arm_fc_async_def mode_inv_def result_simps dest!: send_mode_changes split: if_splits)
next
  case (Ask_Mode_Named now fc name)
  with assms show ?thesis
    by (auto simp: flight_mode_cmd_async_string_def Let_def mode_cmd_inv split: if_splits)
      (simp_all add: mode_inv_def)
next
  case (Other_Command now c delay n)
  with assms show ?thesis
    by (auto simp: mode_inv_def result_simps dest!: send_mode_changes)
next
  case (Ack_Received m)
  with assms show ?thesis by (auto intro: with_fc_sender_inv sender_ran_message)
next
  case (Sender_Timeout now)
  with assms show ?thesis by (auto simp: result_simps intro: with_fc_sender_inv sender_ran_timeout)
next
  case (Ask_Mode now fc mode)
  with assms show ?thesis by (auto intro: mode_cmd_inv)
qed (use assms in \<open>auto simp: mode_inv_def\<close>)

lemma no_mode_changes:
  "n_mode_changes s = 0 \<longleftrightarrow> (\<forall>c \<in> set (m_running_commands s). cb c \<noteq> Flight_Mode_Change)"
  by (auto simp: n_mode_changes_def count_eq_zero_iff image_iff)

lemma mode_inv_new: "mode_inv fc_action_new"
  by (simp add: mode_inv_def fc_action_new_def refused_def n_mode_changes_def cmd_sender_new_def)

lemma mode_inv_run:
  assumes "rfold (fc_step k) es a = Inr a'" and "mode_inv a"
  shows "mode_inv a'"
  by (rule rfold_invariant [where P = mode_inv, OF assms]) (rule fc_step_inv)

text \<open>C21. A change of the flight mode at a time: whatever is asked, answered and lost, and however the others use the sender, at
  most one change waits for its answer, and a further one is turned away exactly while one waits -- or
  for ever, once one was refused because the sender had five commands to wait for.\<close>

theorem one_mode_change:
  assumes "rfold (fc_step k) es fc_action_new = Inr a"
  shows "length (filter (\<lambda>c. cb c = Flight_Mode_Change) (m_running_commands (fc_sender a))) \<le> 1
    \<and> (m_has_currently_runnning_flight_mode_change a \<longleftrightarrow>
         (\<exists>c \<in> set (m_running_commands (fc_sender a)). cb c = Flight_Mode_Change)
         \<or> (Hud_Info, ''Failed, please try again later'') \<in> set (fc_hud a))"
proof -
  let ?l = "filter (\<lambda>c. cb c = Flight_Mode_Change) (m_running_commands (fc_sender a))"
  have "count (mset (map cb cs)) Flight_Mode_Change = length (filter (\<lambda>c. cb c = Flight_Mode_Change) cs)"
    for cs :: "(fc_fields, fc_client) running_command list"
    by (induction cs) auto
  then have n: "n_mode_changes (fc_sender a) = length ?l"
    by (simp only: n_mode_changes_def)
  have "(\<exists>c \<in> set (m_running_commands (fc_sender a)). cb c = Flight_Mode_Change) \<longleftrightarrow> length ?l \<noteq> 0"
    by (auto simp: filter_empty_conv)
  with mode_inv_run [OF assms mode_inv_new] n show ?thesis
    by (auto simp: mode_inv_def refused_def simp del: length_0_conv split: if_splits)
qed

definition demo_fc :: fc_seen where
  "demo_fc = \<lparr>seen_alive = True, seen_sys_id = 1, seen_comp_id = 1\<rparr>"

definition all_copter_modes :: "copter_mode list" where
  "all_copter_modes = [COPTER_MODE_LAND, COPTER_MODE_FLIP, COPTER_MODE_BRAKE, COPTER_MODE_DRIFT, COPTER_MODE_SPORT,
     COPTER_MODE_THROW, COPTER_MODE_POSHOLD, COPTER_MODE_ALT_HOLD, COPTER_MODE_SMART_RTL, COPTER_MODE_GUIDED_NOGPS,
     COPTER_MODE_CIRCLE, COPTER_MODE_STABILIZE, COPTER_MODE_ACRO, COPTER_MODE_AUTOTUNE, COPTER_MODE_AUTO, COPTER_MODE_RTL,
     COPTER_MODE_LOITER, COPTER_MODE_AVOID_ADSB, COPTER_MODE_GUIDED, COPTER_MODE_ZIGZAG, COPTER_MODE_AUTO_RTL]"

definition all_plane_modes :: "plane_mode list" where
  "all_plane_modes = [PLANE_MODE_MANUAL, PLANE_MODE_CIRCLE, PLANE_MODE_STABILIZE, PLANE_MODE_TRAINING, PLANE_MODE_ACRO,
     PLANE_MODE_FLY_BY_WIRE_A, PLANE_MODE_FLY_BY_WIRE_B, PLANE_MODE_CRUISE, PLANE_MODE_AUTOTUNE, PLANE_MODE_AUTO,
     PLANE_MODE_RTL, PLANE_MODE_LOITER, PLANE_MODE_TAKEOFF, PLANE_MODE_AVOID_ADSB, PLANE_MODE_GUIDED,
     PLANE_MODE_INITIALIZING, PLANE_MODE_QSTABILIZE, PLANE_MODE_QHOVER, PLANE_MODE_QLOITER, PLANE_MODE_QLAND,
     PLANE_MODE_QRTL, PLANE_MODE_QAUTOTUNE, PLANE_MODE_QACRO, PLANE_MODE_THERMAL]"

fun position :: "'a list \<Rightarrow> 'a \<Rightarrow> nat" where
  "position [] x = 0"
| "position (y # ys) x = (if x = y then 0 else Suc (position ys x))"

lemma position_nth: "x \<in> set xs \<Longrightarrow> position xs x < length xs \<and> xs ! position xs x = x"
  by (induction xs) auto

definition demo_numbers :: fm_numbers where
  "demo_numbers = \<lparr>copter_number = (\<lambda>c. int (position all_copter_modes c)),
     plane_number = (\<lambda>p. int (position all_plane_modes p))\<rparr>"

definition demo_dialect :: mav_dialect where
  "demo_dialect = \<lparr>sub_mode_of = (\<lambda>_. SUB_MODE_OTHER), rover_mode_of = (\<lambda>_. ROVER_MODE_OTHER),
     copter_mode_of = (\<lambda>w. if unat w < length all_copter_modes then all_copter_modes ! unat w else COPTER_MODE_OTHER),
     plane_mode_of = (\<lambda>w. if unat w < length all_plane_modes then all_plane_modes ! unat w else PLANE_MODE_OTHER),
     mav_type_of = (\<lambda>w. if w = 2 then MAV_TYPE_QUADROTOR else MAV_TYPE_FIXED_WING)\<rparr>"

definition demo_fc_config :: fc_config where
  "demo_fc_config = \<lparr>dialect = demo_dialect, numbers = demo_numbers, self_sysid = 255, self_compid = 190\<rparr>"

text \<open>Five commands of others, then a change of the mode.\<close>

definition refusal_run :: "fc_event list" where
  "refusal_run = replicate 5 (Other_Command 0 (fc_reboot_command demo_fc True) 500 3) @ [Ask_Mode 1000 demo_fc 6]"

lemma refusal_run_refused:
  "\<exists>a. rfold (fc_step demo_fc_config) refusal_run fc_action_new = Inr a
     \<and> (Hud_Info, ''Failed, please try again later'') \<in> set (fc_hud a)"
  by (simp add: refusal_run_def numeral_eq_Suc fc_action_new_def cmd_sender_new_def send_command_long_async_def Let_def
      MAX_N_SIMULTANOEUS_COMMANDS_def flight_mode_cmd_async_def demo_fc_def fc_hud_message_def)

theorem one_mode_change_witness:
  "\<exists>a. rfold (fc_step demo_fc_config) [Ask_Mode 0 demo_fc 6, Ask_Mode 5 demo_fc 9, Ask_Arm 7 demo_fc True] fc_action_new = Inr a
     \<and> m_has_currently_runnning_flight_mode_change a
     \<and> length (filter (\<lambda>c. cb c = Flight_Mode_Change) (m_running_commands (fc_sender a))) \<le> 1"
proof -
  let ?es = "[Ask_Mode 0 demo_fc 6, Ask_Mode 5 demo_fc 9, Ask_Arm 7 demo_fc True]"
  obtain a where a: "rfold (fc_step demo_fc_config) ?es fc_action_new = Inr a" "m_has_currently_runnning_flight_mode_change a"
    by (simp add: fc_action_new_def cmd_sender_new_def send_command_long_async_def Let_def arm_fc_async_def
        MAX_N_SIMULTANOEUS_COMMANDS_def flight_mode_cmd_async_def demo_fc_def fc_hud_message_def)
  show ?thesis
    using one_mode_change [OF a(1)] a by (intro exI [of _ a] conjI) (assumption, assumption, elim conjE, assumption)
qed

text \<open>A change that is refused because the sender is full ends all changes of the flight mode: the mark that one is under way is
  not taken back, so that for the rest of the run every request for a mode is answered with
  \<open>Busy\<close> and none is sent.\<close>

theorem refused_mode_change_blocks:
  assumes "rfold (fc_step k) es fc_action_new = Inr a"
    and "(Hud_Info, ''Failed, please try again later'') \<in> set (fc_hud a)"
    and "rfold (fc_step k) es' a = Inr a'" and "seen_alive fc" and "0 \<le> mode"
  shows "fc_step k (Ask_Mode now fc mode) a' = Inr (a'\<lparr>fc_hud := fc_hud a' @ [(Hud_Info, ''Busy, please try again later'')]\<rparr>)
    \<and> (\<forall>c \<in> set (m_running_commands (fc_sender a')). cb c \<noteq> Flight_Mode_Change)"
proof -
  have grows: "refused y" if "refused x" "fc_step k e x = Inr y" for e x y
    using that
    by (cases e) (auto simp: arm_fc_async_def flight_mode_cmd_async_def flight_mode_cmd_async_string_def
        result_simps Let_def with_fc_sender_def fold_fc_result split: if_splits)
  have "mode_inv a'"
    by (rule mode_inv_run [OF assms(3) mode_inv_run [OF assms(1) mode_inv_new]])
  moreover have "refused a'"
    by (rule rfold_invariant [where P = refused, OF assms(3)]) (use assms(2) in \<open>simp add: refused_def\<close>, rule grows)
  ultimately show ?thesis
    using assms(4,5)
    by (auto simp: mode_inv_def flight_mode_cmd_async_def fc_hud_message_def no_mode_changes)
qed

theorem refused_mode_change_blocks_witness:
  "\<exists>a a'. rfold (fc_step demo_fc_config) refusal_run fc_action_new = Inr a
     \<and> fc_step demo_fc_config (Ask_Mode 60000000000 demo_fc 6) a =
         Inr (a\<lparr>fc_hud := fc_hud a @ [(Hud_Info, ''Busy, please try again later'')]\<rparr>)"
proof -
  obtain a where a: "rfold (fc_step demo_fc_config) refusal_run fc_action_new = Inr a"
    "(Hud_Info, ''Failed, please try again later'') \<in> set (fc_hud a)"
    using refusal_run_refused by blast
  from refused_mode_change_blocks [OF a, of "[]" a demo_fc 6] a(1) show ?thesis
    by (auto simp: demo_fc_def)
qed

section \<open>The mode asked for and the mode shown\<close>

definition numbers_agree :: "mav_dialect \<Rightarrow> fm_numbers \<Rightarrow> bool" where
  "numbers_agree d fm \<longleftrightarrow>
     (\<forall>c. c \<noteq> COPTER_MODE_OTHER \<longrightarrow> 0 \<le> copter_number fm c \<and> copter_mode_of d (of_int (copter_number fm c)) = c)
     \<and> (\<forall>p. p \<noteq> PLANE_MODE_OTHER \<longrightarrow> 0 \<le> plane_number fm p \<and> plane_mode_of d (of_int (plane_number fm p)) = p)"

text \<open>What the screen calls the modes the user can ask for. The automatic return has no text of its own, see below.\<close>

definition mode_texts :: "(string \<times> string) list" where
  "mode_texts =
     [(''RTL'', ''RTL''), (''STABILIZE'', ''Stabilize''), (''LOITER'', ''Loiter''), (''CIRCLE'', ''Circle''),
      (''AUTO'', ''Auto''), (''AUTOTUNE'', ''Autotune''), (''MANUAL'', ''Manual''), (''FBWA'', ''Fly By Wire A''),
      (''FBWB'', ''Fly By Wire B''), (''QSTABILIZE'', ''QStabilize''), (''QHOVER'', ''QHover''),
      (''QLOITER'', ''QLoiter''), (''QLAND'', ''QLand''), (''QRTL'', ''QRTL''), (''ALT_HOLD'', ''Altitude Hold''),
      (''POS_HOLD'', ''Position Hold''), (''ACRO'', ''Acro''), (''GUIDED'', ''Guided''), (''LAND'', ''Landing''),
      (''SMART_RTL'', ''Smart RTL''), (''ZIGZAG'', ''ZIGZAG''), (''CRUISE'', ''Cruise''),
      (''TAKEOFF'', ''Takeoff'')]"

lemma mode_texts_distinct: "distinct (map fst mode_texts)" "distinct (map snd mode_texts)"
  by code_simp+

lemma copter_text:
  "flight_mode_is_copter t \<Longrightarrow>
     flight_mode (type_and_flight_mode_as_string d t m) = copter_mode_from_enum (copter_mode_of d m)"
  by (auto simp: flight_mode_is_copter_def type_and_flight_mode_as_string_def)

lemma plane_text:
  "flight_mode_is_plane t \<Longrightarrow>
     flight_mode (type_and_flight_mode_as_string d t m) = plane_mode_from_enum (plane_mode_of d m)"
  by (simp add: flight_mode_is_plane_def type_and_flight_mode_as_string_def)

lemma mapping_texts:
  assumes "numbers_agree d fm"
  shows "list_all2 (\<lambda>(n, x) (n', shown). n = n'
      \<and> (id_copter x \<ge> 0 \<longrightarrow> copter_mode_from_enum (copter_mode_of d (of_int (id_copter x))) = shown)
      \<and> (id_plane x \<ge> 0 \<longrightarrow> plane_mode_from_enum (plane_mode_of d (of_int (id_plane x))) = shown))
    (filter (\<lambda>(n, x). n \<noteq> ''AUTO_RTL'') (create_fm_mapping fm)) mode_texts"
  using assms unfolding numbers_agree_def create_fm_mapping_def mode_texts_def by (simp add: Let_def)

lemma map_of_list_all2:
  "list_all2 (\<lambda>(n, x) (n', y). n = n' \<and> P x y) xs ys \<Longrightarrow> map_of xs n = Some x \<Longrightarrow>
     \<exists>y. map_of ys n = Some y \<and> P x y"
  by (induction rule: list_all2_induct) (auto split: if_splits)

lemma map_of_without: "n \<noteq> a \<Longrightarrow> map_of (filter (\<lambda>(k, x). k \<noteq> a) xs) n = map_of xs n"
  by (induction xs) auto

lemma mode_number_text:
  assumes "numbers_agree d fm" and "name \<noteq> ''AUTO_RTL''" and "0 \<le> flight_mode_string_to_int d fm name uav"
  shows "flight_mode (type_and_flight_mode_as_string d (mav_type_of d (of_int uav))
      (of_int (flight_mode_string_to_int d fm name uav))) = the (map_of mode_texts name)"
proof -
  obtain x where x: "map_of (create_fm_mapping fm) name = Some x"
    using assms(3) by (auto simp: flight_mode_string_to_int_def split: option.splits if_splits)
  have x': "map_of (filter (\<lambda>(n, x). n \<noteq> ''AUTO_RTL'') (create_fm_mapping fm)) name = Some x"
    unfolding map_of_without [OF assms(2)] by (rule x)
  from map_of_list_all2 [where P = "\<lambda>x shown.
        (id_copter x \<ge> 0 \<longrightarrow> copter_mode_from_enum (copter_mode_of d (of_int (id_copter x))) = shown)
      \<and> (id_plane x \<ge> 0 \<longrightarrow> plane_mode_from_enum (plane_mode_of d (of_int (id_plane x))) = shown)",
      OF mapping_texts [OF assms(1)] x']
  obtain shown where "map_of mode_texts name = Some shown"
    "id_copter x \<ge> 0 \<longrightarrow> copter_mode_from_enum (copter_mode_of d (of_int (id_copter x))) = shown"
    "id_plane x \<ge> 0 \<longrightarrow> plane_mode_from_enum (plane_mode_of d (of_int (id_plane x))) = shown"
    by auto
  with assms(3) x show ?thesis
    by (auto simp: flight_mode_string_to_int_def copter_text plane_text split: if_splits)
qed

text \<open>The mode of the automatic return can be asked for, but \<open>copter_mode_from_enum\<close> does not know it: once the vehicle is in it, the
  screen calls it \<open>Unknown\<close>.\<close>

lemma auto_rtl_unknown:
  assumes "numbers_agree d fm" and "0 \<le> flight_mode_string_to_int d fm ''AUTO_RTL'' uav"
  shows "flight_mode (type_and_flight_mode_as_string d (mav_type_of d (of_int uav))
      (of_int (flight_mode_string_to_int d fm ''AUTO_RTL'' uav))) = ''Unknown''"
proof -
  have "map_of (create_fm_mapping fm) ''AUTO_RTL'' = Some \<lparr>id_copter = copter_number fm COPTER_MODE_AUTO_RTL, id_plane = -1\<rparr>"
    by (simp add: create_fm_mapping_def Let_def)
  with assms show ?thesis
    by (auto simp: flight_mode_string_to_int_def copter_text numbers_agree_def split: if_splits)
qed

text \<open>A request for a mode by its name sends one command, and a vehicle that takes on the number in it is in the mode of that name.\<close>

lemma named_mode_sent:
  assumes "numbers_agree d fm" and "seen_alive fc" and "has_mapping d fm name a" and "name \<noteq> ''AUTO_RTL''"
    and "\<not> m_has_currently_runnning_flight_mode_change a" and "length (m_running_commands (fc_sender a)) < 5"
  shows "\<exists>a' c. flight_mode_cmd_async_string d fm now fc name a = Inr a' \<and> sent (fc_sender a') = sent (fc_sender a) @ [c]
    \<and> command c = MAV_CMD_DO_SET_MODE \<and> fc_hud a' = fc_hud a
    \<and> flight_mode (type_and_flight_mode_as_string d (mav_type_of d (of_int (m_ardupilot_mav_type a)))
        (of_int (cmd_params (other_fields c) ! 1))) = the (map_of mode_texts name)"
proof -
  let ?n = "flight_mode_string_to_int d fm name (m_ardupilot_mav_type a)"
  let ?c = "create_cmd_do_set_flight_mode (seen_sys_id fc) (seen_comp_id fc) (sint (of_int ?n :: 32 word))"
  have n: "0 \<le> ?n" using assms(3) by (simp add: has_mapping_def)
  then have "\<not> m_ardupilot_mav_type a < 0" by (auto simp: flight_mode_string_to_int_def)
  with assms n have "\<exists>a'. flight_mode_cmd_async_string d fm now fc name a = Inr a'
      \<and> sent (fc_sender a') = sent (fc_sender a) @ [?c] \<and> fc_hud a' = fc_hud a"
    by (simp add: flight_mode_cmd_async_string_def flight_mode_cmd_async_def send_command_long_async_def Let_def
        MAX_N_SIMULTANOEUS_COMMANDS_def)
  moreover have "command ?c = MAV_CMD_DO_SET_MODE"
    "(of_int (cmd_params (other_fields ?c) ! 1) :: u32) = of_int ?n"
    by (simp_all add: create_cmd_do_set_flight_mode_def long_command_def)
  ultimately show ?thesis
    using mode_number_text [OF assms(1,4) n] by metis
qed

lemma numbers_agree_demo: "numbers_agree demo_dialect demo_numbers"
proof -
  have c: "c \<in> set all_copter_modes" if "c \<noteq> COPTER_MODE_OTHER" for c
    using that by (cases c) (simp_all add: all_copter_modes_def)
  have p: "p \<in> set all_plane_modes" if "p \<noteq> PLANE_MODE_OTHER" for p
    using that by (cases p) (simp_all add: all_plane_modes_def)
  have small: "unat (of_int (int n) :: u32) = n" if "n < 25" for n
    using that by (simp add: unat_of_nat take_bit_nat_eq_self_iff)
  have l: "length all_copter_modes \<le> 25" "length all_plane_modes \<le> 25"
    by (simp_all add: all_copter_modes_def all_plane_modes_def)
  have "copter_mode_of demo_dialect (of_int (copter_number demo_numbers c)) = c" if "c \<noteq> COPTER_MODE_OTHER" for c
    using position_nth [OF c [OF that]] l(1) small [of "position all_copter_modes c"]
    by (simp add: demo_dialect_def demo_numbers_def)
  moreover have "plane_mode_of demo_dialect (of_int (plane_number demo_numbers p)) = p" if "p \<noteq> PLANE_MODE_OTHER" for p
    using position_nth [OF p [OF that]] l(2) small [of "position all_plane_modes p"]
    by (simp add: demo_dialect_def demo_numbers_def)
  ultimately show ?thesis
    by (simp add: numbers_agree_def demo_numbers_def)
qed

end
