(* ===== verification/Fc_Model.thy ===== *)
theory Fc_Model
  imports Telemetry_Util Ohd_System Fc_Action
begin

text \<open>
  What the screen shows of the flight controller: the class \<open>FCMavlinkSystem\<close>
  (\<open>app/telemetry/models/fcmavlinksystem.h\<close> and \<open>.cpp\<close>) and the channels of the remote control, \<open>RCChannelsModel\<close>
  (\<open>app/telemetry/models/rcchannelsmodel.h\<close> and \<open>.cpp\<close>).

  Fields of messages are integers; floating-point values are rational numbers, so rounding is left out. Left out
  are fields that are only copied (attitude, speeds, wind, vibration, times), and the estimates \<open>updateVehicleAngles\<close> and
  \<open>updateWind\<close>. The distance of two points (GeographicLib) and the bearing in degrees, which needs the trigonometry of
  the C library, are arguments, as are the numbers of the MAVLink headers and the stored settings. Operations take
  the model with the logs they write to. Clock: nanoseconds.
\<close>

section \<open>Channels of the remote control\<close>

record rc_channels =
  rc_m_data :: "int list"
  control_yaw :: int
  control_roll :: int
  control_throttle :: int
  control_pitch :: int
  m_last_update_ms :: int
  rc_is_alive :: bool

definition rc_channels_new :: rc_channels where
  "rc_channels_new = \<lparr>rc_m_data = replicate 18 (-1), control_yaw = -1, control_roll = -1, control_throttle = -1,
     control_pitch = -1, m_last_update_ms = -1, rc_is_alive = False\<rparr>"

definition updateData :: "int \<Rightarrow> int \<Rightarrow> rc_channels \<Rightarrow> rc_channels" where
  "updateData row v r =
     (if row < 0 \<or> row \<ge> int (length (rc_m_data r)) then r else r\<lparr>rc_m_data := (rc_m_data r)[nat row := v]\<rparr>)"

definition update_all_channels :: "int \<Rightarrow> int list \<Rightarrow> rc_channels \<Rightarrow> rc_channels" where
  "update_all_channels now channels r =
     (fold (\<lambda>i. updateData (int i) (channels ! i)) [0..<length channels] r)
       \<lparr>control_yaw := channels ! 0, control_roll := channels ! 1, control_throttle := channels ! 2,
        control_pitch := channels ! 3, m_last_update_ms := ms_of now\<rparr>"

definition set_channels_debug :: "int \<Rightarrow> rc_channels \<Rightarrow> rc_channels" where
  "set_channels_debug now = update_all_channels now (map (\<lambda>i. 1000 + 20 * int i) [0..<18])"

definition rc_update_alive :: "int \<Rightarrow> rc_channels \<Rightarrow> rc_channels" where
  "rc_update_alive now r =
     (if m_last_update_ms r = -1 then r\<lparr>rc_is_alive := False\<rparr>
      else r\<lparr>rc_is_alive := ms_of now - m_last_update_ms r < 4 * 1000\<rparr>)"

section \<open>State and messages\<close>

record battery_shown =
  shown_current_ampere :: rat
  shown_voltage_volt :: rat
  shown_consumed_mah :: int
  shown_type :: string
  shown_remaining_time_s :: int

definition battery_shown_new :: battery_shown where
  "battery_shown_new = \<lparr>shown_current_ampere = 0, shown_voltage_volt = 0, shown_consumed_mah = 0,
     shown_type = ''N/A'', shown_remaining_time_s = -1\<rparr>"

record fc_model =
  battery_current_ampere :: rat
  battery_voltage_volt :: rat
  battery_voltage_single_cell :: rat
  battery_percent :: int
  battery_percent_gauge :: nat
  battery_consumed_mah :: int
  battery_consumed_mah_per_km :: int
  battery_temperature :: int
  battery_id0 :: battery_shown
  battery_id1 :: battery_shown
  fc_is_alive :: bool
  lat :: rat
  lon :: rat
  last_lat :: rat
  last_lon :: rat
  satellites_visible :: int
  gps_hdop :: rat
  gps_vdop :: rat
  gps_status_fix_type_str :: string
  home_latitude :: rat
  home_longitude :: rat
  vx :: rat
  vy :: rat
  vz :: rat
  altitude_rel_m :: rat
  altitude_msl_m :: rat
  rc_rssi_percentage :: int
  imu_temp_degree :: int
  preasure_sensor_temperatures :: "nat \<Rightarrow> int"
  flight_time :: string
  flight_distance_m :: rat
  home_distance :: rat
  hdg :: int
  mav_type_str :: string
  autopilot_type_str :: string
  attitude_rate :: rat
  armed :: bool
  m_flight_mode :: string
  m_home_heading :: int
  m_home_course :: int
  total_dist :: rat
  flightTimeStart :: int
  fc_last_heartbeat_ms :: int
  fc_last_message_ms :: int
  rate_since :: int
  rate_messages :: int
  m_efficiency_last_distance_m :: rat
  m_efficiency_last_charge_consumed_mAh :: int
  m_efficiency_last_update :: int
  m_n_heartbeats :: int
  m_n_attitude_messages :: int
  rc_fc :: rc_channels
  spoken :: "string list"
  action :: fc_action

definition fc_model_new :: "int \<Rightarrow> fc_model" where
  "fc_model_new now = \<lparr>battery_current_ampere = 0, battery_voltage_volt = 0, battery_voltage_single_cell = 0,
     battery_percent = 0, battery_percent_gauge = 0xf091, battery_consumed_mah = 0, battery_consumed_mah_per_km = -1,
     battery_temperature = 0, battery_id0 = battery_shown_new, battery_id1 = battery_shown_new, fc_is_alive = False,
     lat = 0, lon = 0, last_lat = 0, last_lon = 0, satellites_visible = 0, gps_hdop = -1, gps_vdop = -1,
     gps_status_fix_type_str = ''Unknown'', home_latitude = 0, home_longitude = 0, vx = 0, vy = 0, vz = 0,
     altitude_rel_m = 0, altitude_msl_m = 0, rc_rssi_percentage = -1, imu_temp_degree = 0,
     preasure_sensor_temperatures = (\<lambda>i. 0), flight_time = ''00:00'', flight_distance_m = 0, home_distance = 0, hdg = 0,
     mav_type_str = ''UNKNOWN'', autopilot_type_str = ''UNKNOWN'', attitude_rate = -1, armed = False,
     m_flight_mode = ''------'', m_home_heading = 0, m_home_course = 0, total_dist = 0, flightTimeStart = 0,
     fc_last_heartbeat_ms = -1, fc_last_message_ms = -1, rate_since = now, rate_messages = 0,
     m_efficiency_last_distance_m = 0, m_efficiency_last_charge_consumed_mAh = 0, m_efficiency_last_update = now,
     m_n_heartbeats = 0, m_n_attitude_messages = 0, rc_fc = rc_channels_new, spoken = [], action = fc_action_new\<rparr>"

record fc_environment =
  env_dialect :: heartbeat_dialect
  env_fix_type :: "u8 \<Rightarrow> gps_fix_type"
  env_battery_type :: "u8 \<Rightarrow> mav_battery_type"
  env_distance_between :: "rat \<Rightarrow> rat \<Rightarrow> rat \<Rightarrow> rat \<Rightarrow> rat"
  env_bearing :: "rat \<Rightarrow> rat \<Rightarrow> rat \<Rightarrow> rat \<Rightarrow> rat"
  log_quiet_fc_warning_to_hud :: bool
  dirty_enable_inav_hacks :: bool
  air_battery_use_batt_id_0_only :: bool
  show_fc_messages_in_hud :: bool
  vehicle_battery_n_cells :: int

record position_msg =
  pos_lat :: int
  pos_lon :: int
  pos_alt :: int
  pos_relative_alt :: int
  pos_vx :: int
  pos_vy :: int
  pos_vz :: int
  pos_hdg :: u16

record battery_msg =
  bat_id :: int
  bat_type :: u8
  bat_voltage_0 :: int
  bat_current :: int
  bat_current_consumed :: int
  bat_remaining :: int
  bat_temperature :: int
  bat_time_remaining :: int

datatype fc_content =
    Fc_Heartbeat heartbeat
  | Sys_Status int int int
  | Gps_Raw_Int int int int u8
  | Raw_Imu int
  | Scaled_Pressure_Msg nat int
  | Attitude
  | Global_Position_Int position_msg
  | Rc_Channels_Raw "nat \<Rightarrow> u16" u8
  | Rc_Channels_Msg "nat \<Rightarrow> u16" u8
  | Gps_Global_Origin int int
  | Battery_Status battery_msg
  | Home_Position int int
  | Fc_Statustext bytes u8
  | Fc_Copied

section \<open>Arming and the flight time\<close>

definition pad2 :: "int \<Rightarrow> string" where
  "pad2 n = (if n < 10 then ''0'' else []) @ int_to_string n"

text \<open>\<open>QTime\<close> wraps at midnight.\<close>

definition flight_time_text :: "int \<Rightarrow> string" where
  "flight_time_text elapsed =
     (let hours = elapsed div 3600; t = elapsed mod 86400 in
      (if hours > 0 then pad2 (t div 3600) @ '':'' else []) @ pad2 (t mod 3600 div 60) @ '':'' @ pad2 (t mod 60))"

definition updateFlightTimer :: "int \<Rightarrow> fc_model \<Rightarrow> fc_model" where
  "updateFlightTimer now m =
     (if armed m then m\<lparr>flight_time := flight_time_text ((now - flightTimeStart m) div 1000000 div 1000)\<rparr> else m)"

definition send_message_arm_change :: "int \<Rightarrow> bool \<Rightarrow> fc_model \<times> log_state \<Rightarrow> fc_model \<times> log_state" where
  "send_message_arm_change now b = (\<lambda>(m, l).
     if b then (m\<lparr>spoken := spoken m @ [''Armed'']\<rparr>, hud_warning now ''ARMED!'' l)
     else (m\<lparr>spoken := spoken m @ [''Disarmed'']\<rparr>, hud_info now ''Disarmed'' l))"

definition set_armed :: "int \<Rightarrow> bool \<Rightarrow> fc_model \<times> log_state \<Rightarrow> fc_model \<times> log_state" where
  "set_armed now b = (\<lambda>(m, l).
     if armed m = b then (m, l)
     else
       let m1 = (if b then m\<lparr>flightTimeStart := now, flight_distance_m := 0\<rparr> else m)
       in send_message_arm_change now b (m1\<lparr>armed := b\<rparr>, l))"

definition set_flight_mode :: "string \<Rightarrow> fc_model \<Rightarrow> fc_model" where
  "set_flight_mode mode m =
     (if mode = m_flight_mode m then m
      else m\<lparr>spoken := spoken m @ [mode @ '' flight mode''], m_flight_mode := mode\<rparr>)"

section \<open>Position\<close>

definition calculate_home_distance :: "fc_environment \<Rightarrow> fc_model \<Rightarrow> fc_model" where
  "calculate_home_distance e m =
     (if home_latitude m \<noteq> 0 \<and> home_longitude m \<noteq> 0
      then m\<lparr>home_distance := env_distance_between e (home_latitude m) (home_longitude m) (lat m) (lon m)\<rparr>
      else m\<lparr>home_distance := 0\<rparr>)"

definition set_home_course :: "int \<Rightarrow> fc_model \<Rightarrow> fc_model" where
  "set_home_course home_course m =
     (let rel_heading = home_course - hdg m;
          r1 = (if rel_heading < 0 then rel_heading + 360 else rel_heading);
          r2 = (if r1 \<ge> 360 then r1 - 360 else r1)
      in m\<lparr>m_home_course := r2\<rparr>)"

definition set_home_heading :: "int \<Rightarrow> fc_model \<Rightarrow> fc_model" where
  "set_home_heading home_heading m =
     (let h = home_heading - 180;
          h1 = (if h < 0 then h + 360 else h);
          h2 = (if h1 \<ge> 360 then h1 - 360 else h1)
      in m\<lparr>m_home_heading := h2\<rparr>)"

definition calculate_home_course :: "fc_environment \<Rightarrow> fc_model \<Rightarrow> fc_model" where
  "calculate_home_course e m =
     (let result = \<lfloor>env_bearing e (home_latitude m) (home_longitude m) (lat m) (lon m)\<rfloor>
      in set_home_heading result (set_home_course result m))"

text \<open>The flight distance grows by the distance to the last position that was counted.\<close>

definition added_distance :: "fc_environment \<Rightarrow> rat \<Rightarrow> rat \<Rightarrow> fc_model \<Rightarrow> rat" where
  "added_distance e new_lat new_lon m =
     (if lat m \<noteq> 0 \<and> lon m \<noteq> 0 \<and> gps_hdop m < 20 then
        if last_lat m = 0 \<and> last_lon m = 0 then env_distance_between e (lat m) (lon m) new_lat new_lon
        else env_distance_between e (last_lat m) (last_lon m) new_lat new_lon
      else 0)"

definition count_distance :: "fc_environment \<Rightarrow> rat \<Rightarrow> rat \<Rightarrow> fc_model \<Rightarrow> fc_model" where
  "count_distance e new_lat new_lon m =
     (let added_distance_m = added_distance e new_lat new_lon m in
      if added_distance_m > 2 then
        let m1 = m\<lparr>total_dist := total_dist m + added_distance_m\<rparr>
        in if armed m1 then m1\<lparr>flight_distance_m := total_dist m1, last_lat := new_lat, last_lon := new_lon\<rparr> else m1
      else m)"

definition process_position :: "fc_environment \<Rightarrow> position_msg \<Rightarrow> fc_model \<Rightarrow> fc_model" where
  "process_position e p m =
     (let new_lat = of_int (pos_lat p) / 10000000; new_lon = of_int (pos_lon p) / 10000000;
          m1 = (count_distance e new_lat new_lon m)\<lparr>lat := new_lat, lon := new_lon,
                 altitude_rel_m := of_int (pos_relative_alt p) / 1000, altitude_msl_m := of_int (pos_alt p) / 1000,
                 vx := of_int (pos_vx p) / 100, vy := of_int (pos_vy p) / 100, vz := of_int (pos_vz p) / 100,
                 hdg := (if pos_hdg p \<noteq> 0xFFFF then uint (pos_hdg p) div 100 else 0)\<rparr>
      in calculate_home_course e (calculate_home_distance e m1))"

section \<open>Battery\<close>

definition calclate_voltage_per_cell :: "int \<Rightarrow> rat \<Rightarrow> rat" where
  "calclate_voltage_per_cell n_cells voltage = (if n_cells > 0 then voltage / of_int n_cells else of_int n_cells)"

definition show_percent :: "int \<Rightarrow> fc_model \<Rightarrow> fc_model" where
  "show_percent p m = m\<lparr>battery_percent := p, battery_percent_gauge := battery_gauge_glyph_from_percentage p\<rparr>"

definition process_sys_status :: "fc_environment \<Rightarrow> int \<Rightarrow> int \<Rightarrow> int \<Rightarrow> fc_model \<Rightarrow> fc_model" where
  "process_sys_status e voltage_battery current_battery battery_remaining m =
     (let v = of_int voltage_battery / 1000;
          m1 = m\<lparr>battery_voltage_volt := v,
                 battery_voltage_single_cell := calclate_voltage_per_cell (vehicle_battery_n_cells e) v,
                 battery_current_ampere := of_int current_battery / 100\<rparr>
      in if battery_remaining \<noteq> -1 then show_percent battery_remaining m1 else m1)"

definition battery_of :: "fc_environment \<Rightarrow> rat \<Rightarrow> battery_msg \<Rightarrow> battery_shown" where
  "battery_of e volt b =
     \<lparr>shown_current_ampere = of_int (c_div (bat_current b) 100), shown_voltage_volt = volt,
      shown_consumed_mah = bat_current_consumed b,
      shown_type = battery_type_to_string (env_battery_type e (bat_type b)),
      shown_remaining_time_s = bat_time_remaining b\<rparr>"

definition process_battery_status :: "fc_environment \<Rightarrow> battery_msg \<Rightarrow> fc_model \<Rightarrow> fc_model" where
  "process_battery_status e b m =
     (let m1 = m\<lparr>battery_consumed_mah := bat_current_consumed b, battery_temperature := c_div (bat_temperature b) 100\<rparr>;
          m2 = (if \<not> air_battery_use_batt_id_0_only e then show_percent (bat_remaining b) m1 else m1)
      in if bat_id b = 0 then m2\<lparr>battery_id0 := battery_of e (of_int (bat_voltage_0 b) / 1000) b\<rparr>
         else if bat_id b = 1 then m2\<lparr>battery_id1 := battery_of e (of_int (bat_voltage_0 b)) b\<rparr>
         else m2)"

text \<open>Charge per distance, at most every two seconds.\<close>

definition recalculate_efficiency :: "int \<Rightarrow> fc_model \<Rightarrow> fc_model" where
  "recalculate_efficiency now m =
     (if now - m_efficiency_last_update m < secs 2 then m
      else
        let m1 = m\<lparr>m_efficiency_last_update := now\<rparr>;
            delta_distance_m = flight_distance_m m1 - m_efficiency_last_distance_m m1;
            delta_charge_mah = battery_consumed_mah m1 - m_efficiency_last_charge_consumed_mAh m1
        in if delta_distance_m < 0 then m1\<lparr>m_efficiency_last_distance_m := flight_distance_m m1\<rparr>
           else if delta_charge_mah < 0 then m1\<lparr>m_efficiency_last_charge_consumed_mAh := battery_consumed_mah m1\<rparr>
           else if delta_distance_m > 1 \<and> delta_charge_mah > 10
           then m1\<lparr>battery_consumed_mah_per_km :=
                    calculate_efficiency_in_mah_per_km (of_int delta_charge_mah) (delta_distance_m / 1000),
                  m_efficiency_last_distance_m := flight_distance_m m1,
                  m_efficiency_last_charge_consumed_mAh := battery_consumed_mah m1\<rparr>
           else m1)"

section \<open>Messages\<close>

definition process_heartbeat ::
  "fc_environment \<Rightarrow> int \<Rightarrow> heartbeat \<Rightarrow> fc_model \<times> log_state \<Rightarrow> fc_model \<times> log_state" where
  "process_heartbeat e now hb = (\<lambda>(m, l).
     let m1 = m\<lparr>fc_last_heartbeat_ms := ms_of now\<rparr>;
         (m2, l2) = (case parse_heartbeat (env_dialect e) hb of
            Some info \<Rightarrow>
              let (m', l') = set_armed now (get_arm_mode_from_heartbeat (env_dialect e) hb)
                    ((set_flight_mode (info_flight_mode info) m1)
                       \<lparr>autopilot_type_str := info_autopilot info, mav_type_str := info_mav_type info\<rparr>, l)
              in (m'\<lparr>action := (action m')\<lparr>m_ardupilot_mav_type := ardupilot_mav_type info\<rparr>\<rparr>, l')
          | None \<Rightarrow> (m1, l));
         m3 = m2\<lparr>m_n_heartbeats := m_n_heartbeats m2 + 1\<rparr>
     in if m_n_heartbeats m3 > 10
        then (m3\<lparr>m_n_attitude_messages := 0, m_n_heartbeats := 0\<rparr>,
              if m_n_attitude_messages m3 \<le> 0 \<and> log_quiet_fc_warning_to_hud e
              then hud_warning now ''Quiet FC, please check your mavlink message rate(s)'' l2 else l2)
        else (m3, l2))"

definition process_fc_statustext ::
  "fc_environment \<Rightarrow> int \<Rightarrow> bytes \<Rightarrow> u8 \<Rightarrow> log_state \<Rightarrow> log_state" where
  "process_fc_statustext e now text severity l =
     (let tmp = statustext_convert text severity;
          t = text_of (message tmp);
          l1 = addLogMessage now Log_FC ''FC'' t (word_of_int (level tmp)) l
      in if show_fc_messages_in_hud e
         then update_hud (hud_add_message now (level tmp) (''['' @ t @ '']'')) l1 else l1)"

definition with_rc :: "(rc_channels \<Rightarrow> rc_channels) \<Rightarrow> fc_model \<Rightarrow> fc_model" where
  "with_rc f m = m\<lparr>rc_fc := f (rc_fc m)\<rparr>"

fun handle_fc_content ::
  "fc_environment \<Rightarrow> int \<Rightarrow> fc_content \<Rightarrow> fc_model \<times> log_state \<Rightarrow> fc_model \<times> log_state" where
  "handle_fc_content e now (Fc_Heartbeat hb) (m, l) = process_heartbeat e now hb (m, l)"
| "handle_fc_content e now (Sys_Status v c r) (m, l) = (process_sys_status e v c r m, l)"
| "handle_fc_content e now (Gps_Raw_Int sats eph epv fix_type) (m, l) =
     (m\<lparr>satellites_visible := sats, gps_hdop := of_int eph / 100, gps_vdop := of_int epv / 100,
        gps_status_fix_type_str := mavlink_gps_fix_type_to_string (env_fix_type e fix_type)\<rparr>, l)"
| "handle_fc_content e now (Raw_Imu t) (m, l) = (m\<lparr>imu_temp_degree := c_div t 100\<rparr>, l)"
| "handle_fc_content e now (Scaled_Pressure_Msg i t) (m, l) =
     (m\<lparr>preasure_sensor_temperatures := (preasure_sensor_temperatures m)(i := c_div t 100)\<rparr>, l)"
| "handle_fc_content e now Attitude (m, l) =
     (m\<lparr>rate_messages := rate_messages m + 1, m_n_attitude_messages := m_n_attitude_messages m + 1\<rparr>, l)"
| "handle_fc_content e now (Global_Position_Int p) (m, l) = (process_position e p m, l)"
| "handle_fc_content e now (Rc_Channels_Raw chan_raw rssi) (m, l) =
     ((with_rc (update_all_channels now (mavlink_msg_rc_channels_raw_to_array chan_raw)) m)
        \<lparr>rc_rssi_percentage := mavlink_rc_rssi_to_percent rssi\<rparr>, l)"
| "handle_fc_content e now (Rc_Channels_Msg chan_raw rssi) (m, l) =
     ((with_rc (update_all_channels now (mavlink_msg_rc_channels_to_array chan_raw)) m)
        \<lparr>rc_rssi_percentage := mavlink_rc_rssi_to_percent rssi\<rparr>, l)"
| "handle_fc_content e now (Gps_Global_Origin latitude longitude) (m, l) =
     (if dirty_enable_inav_hacks e \<and> latitude \<noteq> 0 \<and> longitude \<noteq> 0
      then (m\<lparr>home_latitude := of_int latitude / 10000000, home_longitude := of_int longitude / 10000000\<rparr>, l)
      else (m, l))"
| "handle_fc_content e now (Battery_Status b) (m, l) = (process_battery_status e b m, l)"
| "handle_fc_content e now (Home_Position latitude longitude) (m, l) =
     (m\<lparr>home_latitude := of_int latitude / 10000000, home_longitude := of_int longitude / 10000000\<rparr>, l)"
| "handle_fc_content e now (Fc_Statustext text severity) (m, l) = (m, process_fc_statustext e now text severity l)"
| "handle_fc_content e now Fc_Copied (m, l) = (m, l)"

text \<open>How often the attitude comes, every two seconds or more.\<close>

definition update_attitude_rate :: "int \<Rightarrow> fc_model \<Rightarrow> fc_model" where
  "update_attitude_rate now m =
     (if now - rate_since m > secs 2
      then m\<lparr>attitude_rate := of_int (rate_messages m) / (of_int (ms_of (now - rate_since m)) / 1000),
             rate_messages := 0, rate_since := now\<rparr>
      else m)"

definition fc_model_message ::
  "fc_environment \<Rightarrow> int \<Rightarrow> fc_content \<Rightarrow> fc_model \<times> log_state \<Rightarrow> fc_model \<times> log_state" where
  "fc_model_message e now c = (\<lambda>(m, l).
     handle_fc_content e now c ((update_attitude_rate now m)\<lparr>fc_last_message_ms := ms_of now\<rparr>, l))"

section \<open>The connection\<close>

definition send_message_hud_connection :: "int \<Rightarrow> bool \<Rightarrow> log_state \<Rightarrow> log_state" where
  "send_message_hud_connection now is_connected l =
     (if is_connected then hud_info now (''FC '' @ ''connected'') l else hud_warning now (''FC '' @ ''disconnected'') l)"

definition fc_update_alive :: "int \<Rightarrow> fc_model \<times> log_state \<Rightarrow> fc_model \<times> log_state" where
  "fc_update_alive now = (\<lambda>(m, l).
     let (m1, l1) =
           (if fc_last_heartbeat_ms m = -1 then (m\<lparr>fc_is_alive := False\<rparr>, l)
            else
              let b = (ms_of now - fc_last_heartbeat_ms m < 4 * 1000) in
              if b \<noteq> fc_is_alive m then (m\<lparr>fc_is_alive := b\<rparr>, send_message_hud_connection now b l) else (m, l))
     in (recalculate_efficiency now m1, l1))"

section \<open>Runs\<close>

text \<open>The requests of the user go to \<open>FCAction\<close>, which asks the model whether the flight controller is alive and writes to the
  same messages on the screen.\<close>

definition with_action ::
  "int \<Rightarrow> (fc_action \<Rightarrow> fc_action result) \<Rightarrow> fc_model \<times> log_state \<Rightarrow> (fc_model \<times> log_state) result" where
  "with_action now f = (\<lambda>(m, l).
     rbind (f (action m)) (\<lambda>a. Inr (m\<lparr>action := a\<rparr>,
       fold (\<lambda>(lev, t). case lev of Hud_Info \<Rightarrow> hud_info now t | Hud_Warning \<Rightarrow> hud_warning now t)
         (drop (length (fc_hud (action m))) (fc_hud a)) l)))"

fun seen_by :: "bool \<Rightarrow> fc_event \<Rightarrow> fc_event" where
  "seen_by b (Ask_Arm now fc arm) = Ask_Arm now (fc\<lparr>seen_alive := b\<rparr>) arm"
| "seen_by b (Ask_Mode now fc mode) = Ask_Mode now (fc\<lparr>seen_alive := b\<rparr>) mode"
| "seen_by b (Ask_Mode_Named now fc name) = Ask_Mode_Named now (fc\<lparr>seen_alive := b\<rparr>) name"
| "seen_by b e = e"

definition fc_config_of :: "fc_environment \<Rightarrow> fc_config \<Rightarrow> fc_config" where
  "fc_config_of e k = k\<lparr>dialect := mav_dialect.truncate (env_dialect e)\<rparr>"

datatype fc_model_event =
    Fc_Received int fc_content
  | Fc_Alive_Timer int
  | Fc_Flight_Timer int
  | Rc_Alive_Timer int
  | Fc_User int fc_event

fun fc_model_step ::
  "fc_environment \<Rightarrow> fc_config \<Rightarrow> fc_model_event \<Rightarrow> fc_model \<times> log_state \<Rightarrow> (fc_model \<times> log_state) result" where
  "fc_model_step e k (Fc_Received now c) ml = Inr (fc_model_message e now c ml)"
| "fc_model_step e k (Fc_Alive_Timer now) ml = Inr (fc_update_alive now ml)"
| "fc_model_step e k (Fc_Flight_Timer now) (m, l) = Inr (updateFlightTimer now m, l)"
| "fc_model_step e k (Rc_Alive_Timer now) (m, l) = Inr (with_rc (rc_update_alive now) m, l)"
| "fc_model_step e k (Fc_User now ev) (m, l) =
     with_action now (fc_step (fc_config_of e k) (seen_by (fc_is_alive m) ev)) (m, l)"

section \<open>Channels\<close>

lemma updateData_all:
  "n \<le> length channels \<Longrightarrow> length channels \<le> length (rc_m_data r) \<Longrightarrow>
     fold (\<lambda>i. updateData (int i) (channels ! i)) [0..<n] r =
       r\<lparr>rc_m_data := take n channels @ drop n (rc_m_data r)\<rparr>"
proof (induction n)
  case (Suc n)
  then have "drop n (rc_m_data r) = rc_m_data r ! n # drop (Suc n) (rc_m_data r)"
    by (intro Cons_nth_drop_Suc [symmetric]) simp
  with Suc show ?case
    by (simp add: updateData_def take_Suc_conv_app_nth list_update_append)
qed simp

text \<open>The channels of a message are shown as they are.\<close>

lemma channels_shown:
  "length channels = 18 \<Longrightarrow> length (rc_m_data r) = 18 \<Longrightarrow> rc_m_data (update_all_channels now channels r) = channels"
  using updateData_all [of 18 channels r] by (simp add: update_all_channels_def)

section \<open>Frames\<close>

text \<open>What every operation changes of the parts the properties are about.\<close>

lemma fst_set_armed:
  "fst (set_armed now b (m, l)) =
     (if armed m = b then m
      else if b then m\<lparr>flightTimeStart := now, flight_distance_m := 0, armed := True, spoken := spoken m @ [''Armed'']\<rparr>
      else m\<lparr>armed := False, spoken := spoken m @ [''Disarmed'']\<rparr>)"
  by (simp add: set_armed_def send_message_arm_change_def)

lemma with_action_fst:
  "with_action now f (m, l) = Inr (m', l') \<Longrightarrow> \<exists>a. m' = m\<lparr>action := a\<rparr>"
  by (auto simp: with_action_def result_simps)

section \<open>An example\<close>

text \<open>Two metres and more on a line, with ten millionths of a degree to a metre.\<close>

definition demo_fc_environment :: fc_environment where
  "demo_fc_environment = \<lparr>env_dialect = mav_dialect.extend demo_dialect (heartbeat_dialect.fields 1 128),
     env_fix_type = (\<lambda>_. GPS_FIX_TYPE_3D_FIX), env_battery_type = (\<lambda>_. MAV_BATTERY_TYPE_LIPO),
     env_distance_between = (\<lambda>a b c d. \<bar>c - a\<bar> * 100000), env_bearing = (\<lambda>a b c d. 90),
     log_quiet_fc_warning_to_hud = True, dirty_enable_inav_hacks = False, air_battery_use_batt_id_0_only = False,
     show_fc_messages_in_hud = True, vehicle_battery_n_cells = 4\<rparr>"

end
