(* ===== verification/Mavlink_Telemetry.thy ===== *)
theory Mavlink_Telemetry
  imports Message_Intervals Mission_Handler Fc_Model Auto_Fetch
begin

text \<open>
  The dispatch of telemetry: \<open>MavlinkTelemetry::process_mavlink_message\<close> (\<open>app/telemetry/MavlinkTelemetry.cpp\<close>) with the
  components it hands a message to, the discovery of the flight controller there and in
  \<open>FCMavlinkSystem\<close> (\<open>app/telemetry/models/fcmavlinksystem.cpp\<close>), and the pings.

  A message is its source and its decoded content. The command sender is the one inside the interval handler, whose
  commands are the only ones the program sends on its own: without requests of the user. The model of the flight controller is that
  of \<open>Fc_Model\<close>. The result of a ping is kept in microseconds, its text is
  left out. Clock: nanoseconds.
\<close>

section \<open>Messages and state\<close>

datatype content =
    Timesync int int
  | Command_Ack command_ack
  | Param param_message
  | Mission mission_message
  | Ohd ohd_message
  | Fc fc_content

record mavlink_message =
  msg_sysid :: u8
  msg_compid :: u8
  msg_content :: content

fun command_ack_of :: "content \<Rightarrow> command_ack option" where
  "command_ack_of (Command_Ack ack) = Some ack"
| "command_ack_of _ = None"

fun param_of :: "content \<Rightarrow> param_message" where
  "param_of (Param p) = p"
| "param_of _ = Other_Message"

fun mission_of :: "content \<Rightarrow> mission_message" where
  "mission_of (Mission m) = m"
| "mission_of _ = Mission_Other"

fun ohd_of_content :: "content \<Rightarrow> ohd_message" where
  "ohd_of_content (Ohd m) = m"
| "ohd_of_content _ = Unknown_Message"

fun fc_of :: "content \<Rightarrow> fc_content" where
  "fc_of (Fc m) = m"
| "fc_of _ = Fc_Copied"

text \<open>\<open>FCMavlinkSystem\<close>: the discovered system, the result of the last ping, and the rest of what is shown.\<close>

record fc_system =
  fc_m_sys_id :: int
  m_discovered :: bool
  last_ping_result_flight_ctrl :: "int option"
  shown :: fc_model

text \<open>\<open>FCMavId\<close>, in the order of its members.\<close>

record fc_mav_id =
  comp_id :: int
  sys_id :: int

record telemetry =
  app :: ohd_app
  intervals :: interval_handler
  missions :: mission_handler
  fc :: fc_system
  m_fc_found :: bool
  m_fc_sys_id :: int
  m_fc_comp_id :: int
  m_last_timesync_out_us :: int
  m_tele_received_packets :: int
  pings_sent :: "int list"
  ping_air :: "int option"
  ping_ground :: "int option"

definition telemetry_new :: "int \<Rightarrow> bool \<Rightarrow> int \<Rightarrow> bool \<Rightarrow> telemetry" where
  "telemetry_new now autofetch_off n_cameras rpi = \<lparr>app = ohd_app_new now autofetch_off n_cameras rpi,
     intervals = interval_handler_new, missions = mission_handler_new now,
     fc = \<lparr>fc_m_sys_id = -1, m_discovered = False, last_ping_result_flight_ctrl = None, shown = fc_model_new now\<rparr>, m_fc_found = False,
     m_fc_sys_id = -1, m_fc_comp_id = -1, m_last_timesync_out_us = 0, m_tele_received_packets = 0,
     pings_sent = [], ping_air = None, ping_ground = None\<rparr>"

record telemetry_config =
  rates :: rate_settings
  own_sys :: u8
  own_comp :: u8
  environment :: fc_environment

text \<open>\<open>MAV_COMP_ID_AUTOPILOT1\<close> and \<open>MAV_COMP_ID_SYSTEM_CONTROL\<close> are 1 and 250 in the MAVLink common dialect.\<close>

definition MAV_COMP_ID_AUTOPILOT1 :: u8 where "MAV_COMP_ID_AUTOPILOT1 = 1"
definition MAV_COMP_ID_SYSTEM_CONTROL :: u8 where "MAV_COMP_ID_SYSTEM_CONTROL = 250"

section \<open>The flight controller\<close>

definition set_system_id :: "int \<Rightarrow> fc_system \<Rightarrow> fc_system \<times> bool" where
  "set_system_id i f =
     (if i < 0 \<or> i \<ge> 255 then (f, False) else (f\<lparr>fc_m_sys_id := i, m_discovered := True\<rparr>, True))"

definition get_fc_sys_id :: "fc_system \<Rightarrow> u8 option result" where
  "get_fc_sys_id f =
     (if \<not> m_discovered f then Inr None
      else rbind (rassert (fc_m_sys_id f \<ge> 0)) (\<lambda>_. Inr (Some (word_of_int (fc_m_sys_id f)))))"

definition fc_process_message ::
  "fc_environment \<Rightarrow> int \<Rightarrow> mavlink_message \<Rightarrow> fc_system \<times> log_state \<Rightarrow> (fc_system \<times> log_state) result" where
  "fc_process_message e now msg = (\<lambda>(f, l).
     rbind (get_fc_sys_id f) (\<lambda>opt_set_sys_id.
       case opt_set_sys_id of
         None \<Rightarrow> Inr (f, l)
       | Some set_sys_id \<Rightarrow>
           if msg_sysid msg \<noteq> set_sys_id then Inr (f, l)
           else
             let (m, l') = fc_model_message e now (fc_of (msg_content msg)) (shown f, l)
             in Inr (f\<lparr>shown := m\<rparr>, l')))"

definition found_fc :: "mavlink_message \<Rightarrow> telemetry \<Rightarrow> telemetry" where
  "found_fc msg t =
     t\<lparr>fc := fst (set_system_id (uint (msg_sysid msg)) (fc t)), m_fc_sys_id := uint (msg_sysid msg),
       m_fc_comp_id := uint (msg_compid msg), m_fc_found := True\<rparr>"

text \<open>The sources: the units, or the first flight controller.\<close>

definition ready_units :: "unit_name list \<Rightarrow> telemetry \<Rightarrow> telemetry" where
  "ready_units us t = t\<lparr>app := (app t)\<lparr>settings := fold set_ready us (settings (app t))\<rparr>\<rparr>"

definition discover_source :: "mavlink_message \<Rightarrow> telemetry \<Rightarrow> telemetry" where
  "discover_source msg t =
     (if msg_sysid msg = OHD_SYS_ID_AIR then ready_units [Air, Air_Camera, Air_Camera_2] t
      else if msg_sysid msg = OHD_SYS_ID_GROUND then ready_units [Ground] t
      else if \<not> m_fc_found t then
        if msg_compid msg = MAV_COMP_ID_AUTOPILOT1 then found_fc msg t
        else if msg_sysid msg = 0 then found_fc msg t
        else if msg_compid msg = MAV_COMP_ID_SYSTEM_CONTROL \<and> msg_sysid msg = 1 then found_fc msg t
        else t
      else t)"

definition get_fc_mav_id :: "telemetry \<Rightarrow> fc_mav_id" where
  "get_fc_mav_id t =
     (if m_fc_found t then \<lparr>comp_id = m_fc_sys_id t, sys_id = m_fc_comp_id t\<rparr>
      else \<lparr>comp_id = 1, sys_id = uint MAV_COMP_ID_AUTOPILOT1\<rparr>)"

section \<open>Pings\<close>

definition process_message_timesync :: "int \<Rightarrow> u8 \<Rightarrow> int \<Rightarrow> int \<Rightarrow> telemetry \<Rightarrow> telemetry" where
  "process_message_timesync now sysid tc1 ts1 t =
     (if tc1 = 0 then t
      else if ts1 = m_last_timesync_out_us t then
        let delta = now div 1000 - ts1 in
        if sysid = OHD_SYS_ID_AIR then t\<lparr>ping_air := Some delta\<rparr>
        else if sysid = OHD_SYS_ID_GROUND then t\<lparr>ping_ground := Some delta\<rparr>
        else t\<lparr>fc := (fc t)\<lparr>last_ping_result_flight_ctrl := Some delta\<rparr>\<rparr>
      else t)"

definition ping_all_systems :: "int \<Rightarrow> telemetry \<Rightarrow> telemetry" where
  "ping_all_systems now t =
     t\<lparr>m_last_timesync_out_us := now div 1000, pings_sent := pings_sent t @ [now div 1000]\<rparr>"

definition re_apply_rates :: "telemetry \<Rightarrow> telemetry" where
  "re_apply_rates t = t\<lparr>intervals := restart (intervals t)\<rparr>"

section \<open>The dispatch\<close>

definition cmd_sender_message :: "telemetry_config \<Rightarrow> mavlink_message \<Rightarrow> telemetry \<Rightarrow> telemetry \<times> bool" where
  "cmd_sender_message k msg t =
     (let (s, consumed) = Cmd_Sender.process_message (own_sys k) (own_comp k)
            (command_ack_of (msg_content msg)) (sender (intervals t))
      in (t\<lparr>intervals := with_sender s (intervals t)\<rparr>, consumed))"

definition xparam_message :: "mavlink_message \<Rightarrow> telemetry \<Rightarrow> (telemetry \<times> bool) result" where
  "xparam_message msg t =
     rbind (Xparam.process_message (param_of (msg_content msg)) (msg_sysid msg) (msg_compid msg)
              (xp (settings (app t)))) (\<lambda>(x, consumed).
       Inr (t\<lparr>app := (app t)\<lparr>settings := with_xparam x (settings (app t))\<rparr>\<rparr>, consumed))"

definition process_broadcast_message_openhd :: "int \<Rightarrow> bool \<Rightarrow> mavlink_message \<Rightarrow> telemetry \<Rightarrow> telemetry" where
  "process_broadcast_message_openhd now is_air msg t =
     t\<lparr>app := fst (ohd_process_message now is_air (msg_sysid msg) (msg_compid msg)
                     (ohd_of_content (msg_content msg)) (app t))\<rparr>"

definition with_fc :: "fc_system \<times> log_state \<Rightarrow> telemetry \<Rightarrow> telemetry" where
  "with_fc fl t = t\<lparr>fc := fst fl, app := (app t)\<lparr>log := snd fl\<rparr>\<rparr>"

definition process_broadcast_message_fc ::
  "telemetry_config \<Rightarrow> int \<Rightarrow> mavlink_message \<Rightarrow> telemetry \<Rightarrow> telemetry result" where
  "process_broadcast_message_fc k now msg t =
     (let (m, consumed) = Mission_Handler.process_message (mission_of (msg_content msg)) (missions t);
          t1 = t\<lparr>missions := m\<rparr>
      in if consumed then Inr t1
         else rbind (fc_process_message (environment k) now msg (fc t1, log (app t1)))
                (\<lambda>fl. Inr (with_fc fl t1)))"

definition fc_requests :: "telemetry_config \<Rightarrow> int \<Rightarrow> telemetry \<Rightarrow> telemetry result" where
  "fc_requests k now t =
     (let fc_id = get_fc_mav_id t in
      rbind (Message_Intervals.opt_send_messages now (rates k) (sys_id fc_id) (comp_id fc_id) (intervals t))
        (\<lambda>h. Inr (t\<lparr>intervals := h,
               missions := Mission_Handler.opt_send_messages now (sys_id fc_id) (comp_id fc_id) (missions t)\<rparr>)))"

definition dispatch_by_system :: "telemetry_config \<Rightarrow> int \<Rightarrow> mavlink_message \<Rightarrow> telemetry \<Rightarrow> telemetry result" where
  "dispatch_by_system k now msg t =
     (if msg_sysid msg = OHD_SYS_ID_AIR then Inr (process_broadcast_message_openhd now True msg t)
      else if msg_sysid msg = OHD_SYS_ID_GROUND then Inr (process_broadcast_message_openhd now False msg t)
      else
        rbind (get_fc_sys_id (fc t)) (\<lambda>fc_sys_id.
          case fc_sys_id of
            Some i \<Rightarrow>
              if msg_sysid msg = i then rbind (process_broadcast_message_fc k now msg t) (fc_requests k now)
              else Inr t
          | None \<Rightarrow> Inr t))"

definition process_mavlink_message ::
  "telemetry_config \<Rightarrow> int \<Rightarrow> mavlink_message \<Rightarrow> telemetry \<Rightarrow> telemetry result" where
  "process_mavlink_message k now msg t =
     (let t1 = discover_source msg (t\<lparr>m_tele_received_packets := m_tele_received_packets t + 1\<rparr>) in
      case msg_content msg of
        Timesync tc1 ts1 \<Rightarrow> Inr (process_message_timesync now (msg_sysid msg) tc1 ts1 t1)
      | _ \<Rightarrow>
          let (t2, consumed) = cmd_sender_message k msg t1 in
          if consumed then Inr t2
          else
            rbind (xparam_message msg t2) (\<lambda>(t3, consumed).
              if consumed then Inr t3 else dispatch_by_system k now msg t3))"

section \<open>Runs\<close>

datatype telemetry_event =
    Mav_Message int mavlink_message
  | Ping int
  | Apply_Rates
  | Mission_Resync
  | Command_Timeouts int
  | Unit_Alive int bool
  | Card_Alive int nat
  | Params_Timeouts int
  | Params_Shown
  | Fc_Alive int
  | Fc_Flight_Time int
  | Fc_Rc_Alive int

definition with_app :: "(ohd_app \<Rightarrow> ohd_app result) \<Rightarrow> telemetry \<Rightarrow> telemetry result" where
  "with_app f t = rbind (f (app t)) (\<lambda>a. Inr (t\<lparr>app := a\<rparr>))"

definition with_shown ::
  "(fc_model \<times> log_state \<Rightarrow> fc_model \<times> log_state) \<Rightarrow> telemetry \<Rightarrow> telemetry" where
  "with_shown f t =
     (let (m, l) = f (shown (fc t), log (app t)) in with_fc ((fc t)\<lparr>shown := m\<rparr>, l) t)"

fun telemetry_step :: "telemetry_config \<Rightarrow> telemetry_event \<Rightarrow> telemetry \<Rightarrow> telemetry result" where
  "telemetry_step k (Mav_Message now msg) t = process_mavlink_message k now msg t"
| "telemetry_step k (Ping now) t = Inr (ping_all_systems now t)"
| "telemetry_step k Apply_Rates t = Inr (re_apply_rates t)"
| "telemetry_step k Mission_Resync t = Inr (t\<lparr>missions := resync (missions t)\<rparr>)"
| "telemetry_step k (Command_Timeouts now) t =
     rbind (handle_timeout now (sender (intervals t))) (\<lambda>s. Inr (t\<lparr>intervals := with_sender s (intervals t)\<rparr>))"
| "telemetry_step k (Unit_Alive now is_air) t = with_app (ohd_step (Alive_Timer now is_air)) t"
| "telemetry_step k (Card_Alive now i) t = with_app (ohd_step (Card_Timer now i)) t"
| "telemetry_step k (Params_Timeouts now) t = with_app (ohd_step (Param_Timeout now)) t"
| "telemetry_step k Params_Shown t = with_app (ohd_step Params_To_Ui) t"
| "telemetry_step k (Fc_Alive now) t = Inr (with_shown (fc_update_alive now) t)"
| "telemetry_step k (Fc_Flight_Time now) t = Inr (with_shown (\<lambda>(m, l). (updateFlightTimer now m, l)) t)"
| "telemetry_step k (Fc_Rc_Alive now) t = Inr (with_shown (\<lambda>(m, l). (with_rc (rc_update_alive now) m, l)) t)"

section \<open>The discovery of the flight controller\<close>

text \<open>What discovery has found, and what is shown of it but the ping.\<close>

definition fc_view :: "telemetry \<Rightarrow> int \<times> bool \<times> fc_model \<times> bool \<times> int \<times> int" where
  "fc_view t = (fc_m_sys_id (fc t), m_discovered (fc t), shown (fc t), m_fc_found t, m_fc_sys_id t, m_fc_comp_id t)"

lemma fc_view_sel [simp]:
  "fc_view (t\<lparr>app := a\<rparr>) = fc_view t" "fc_view (t\<lparr>intervals := h\<rparr>) = fc_view t"
  "fc_view (t\<lparr>missions := m\<rparr>) = fc_view t" "fc_view (t\<lparr>m_tele_received_packets := n\<rparr>) = fc_view t"
  "fc_view (t\<lparr>ping_air := p\<rparr>) = fc_view t" "fc_view (t\<lparr>ping_ground := p\<rparr>) = fc_view t"
  "fc_view (t\<lparr>fc := (fc t)\<lparr>last_ping_result_flight_ctrl := p\<rparr>\<rparr>) = fc_view t" "fc_view (t\<lparr>intervals := h, missions := m\<rparr>) = fc_view t"
  "fc_view (t\<lparr>m_last_timesync_out_us := u, pings_sent := l\<rparr>) = fc_view t"
  by (simp_all add: fc_view_def)

lemma fc_view_ops [simp]:
  "fc_view (ready_units us t) = fc_view t"
  "fc_view (process_message_timesync now i tc1 ts1 t) = fc_view t"
  "fc_view (fst (cmd_sender_message k msg t)) = fc_view t"
  "fc_view (process_broadcast_message_openhd now b msg t) = fc_view t"
  by (simp_all add: ready_units_def process_message_timesync_def cmd_sender_message_def
      process_broadcast_message_openhd_def Let_def split: prod.split)

lemma fc_view_xparam: "xparam_message msg t = Inr (t', c) \<Longrightarrow> fc_view t' = fc_view t"
  by (auto simp: xparam_message_def result_simps)

lemma fc_view_requests: "fc_requests k now t = Inr t' \<Longrightarrow> fc_view t' = fc_view t"
  by (auto simp: fc_requests_def result_simps Let_def)

text \<open>\<open>t'\<close> follows \<open>t\<close>: what has been found stays.\<close>

definition fc_ok :: "telemetry \<Rightarrow> bool" where
  "fc_ok t \<longleftrightarrow> (m_discovered (fc t) \<longrightarrow> m_fc_found t \<and> 0 \<le> fc_m_sys_id (fc t) \<and> fc_m_sys_id (fc t) < 255)"

definition fc_follows :: "telemetry \<Rightarrow> telemetry \<Rightarrow> bool" where
  "fc_follows t t' \<longleftrightarrow> m_fc_found t \<longrightarrow>
     m_fc_found t' \<and> m_discovered (fc t') = m_discovered (fc t) \<and> fc_m_sys_id (fc t') = fc_m_sys_id (fc t)
     \<and> m_fc_sys_id t' = m_fc_sys_id t \<and> m_fc_comp_id t' = m_fc_comp_id t"

lemma fc_follows_trans: "fc_follows t u \<Longrightarrow> fc_follows u v \<Longrightarrow> fc_follows t v"
  by (auto simp: fc_follows_def)

lemma fc_view_keeps: "fc_view t' = fc_view t \<Longrightarrow> fc_ok t \<Longrightarrow> fc_ok t' \<and> fc_follows t t'"
  by (simp add: fc_view_def fc_ok_def fc_follows_def)

lemma found_fc_keeps: "fc_ok t \<Longrightarrow> \<not> m_fc_found t \<Longrightarrow> fc_ok (found_fc msg t) \<and> fc_follows t (found_fc msg t)"
  by (auto simp: fc_ok_def fc_follows_def found_fc_def set_system_id_def)

lemma discover_source_keeps:
  "fc_ok t \<Longrightarrow> fc_ok (discover_source msg t) \<and> fc_follows t (discover_source msg t)"
  using found_fc_keeps [of t msg] fc_view_keeps [of "ready_units _ t" t]
  by (auto simp: discover_source_def fc_view_keeps)

lemma fc_message_keeps:
  assumes "fc_ok t" and "process_broadcast_message_fc k now msg t = Inr t'"
  shows "fc_ok t' \<and> fc_follows t t'"
proof -
  obtain m c where m: "Mission_Handler.process_message (mission_of (msg_content msg)) (missions t) = (m, c)"
    by fastforce
  show ?thesis
  proof (cases c)
    case True
    with assms m have "t' = t\<lparr>missions := m\<rparr>" by (simp add: process_broadcast_message_fc_def)
    with fc_view_keeps [of t' t] assms(1) show ?thesis by simp
  next
    case False
    then obtain f l where f: "fc_process_message (environment k) now msg (fc t, log (app t)) = Inr (f, l)"
      and t': "t' = with_fc (f, l) (t\<lparr>missions := m\<rparr>)"
      using assms(2) m by (auto simp: process_broadcast_message_fc_def result_simps)
    have id: "uint (word_of_int i :: u8) = i" if "0 \<le> i" "i < 255" for i
      using that by (subst uint_word_of_int) simp
    show ?thesis
      using f assms(1) id [of "fc_m_sys_id (fc t)"]
      by (auto simp: t' fc_process_message_def get_fc_sys_id_def result_simps fc_ok_def fc_follows_def
          with_fc_def Let_def split: if_splits prod.splits)
  qed
qed

lemma shown_keeps: "fc_ok t \<Longrightarrow> fc_ok (with_shown f t) \<and> fc_follows t (with_shown f t)"
  by (auto simp: with_shown_def with_fc_def fc_ok_def fc_follows_def Let_def split: prod.split)

lemma dispatch_keeps:
  assumes "fc_ok t" and "dispatch_by_system k now msg t = Inr t'"
  shows "fc_ok t' \<and> fc_follows t t'"
proof -
  consider "fc_view t' = fc_view t"
    | u where "process_broadcast_message_fc k now msg t = Inr u" "fc_requests k now u = Inr t'"
    using assms(2) by (auto simp: dispatch_by_system_def result_simps split: if_splits option.splits)
  then show ?thesis
  proof cases
    case 1
    with assms(1) show ?thesis by (rule fc_view_keeps [rotated])
  next
    case 2
    with fc_message_keeps [OF assms(1) 2(1)] fc_view_keeps [OF fc_view_requests [OF 2(2)]] show ?thesis
      by (auto intro: fc_follows_trans)
  qed
qed

lemma missions_sel [simp]:
  "missions (ready_units us t) = missions t"
  "missions (discover_source msg t) = missions t"
  "missions (process_message_timesync now i tc1 ts1 t) = missions t"
  "missions (fst (cmd_sender_message k msg t)) = missions t"
  "missions (process_broadcast_message_openhd now b msg t) = missions t"
  by (simp_all add: ready_units_def discover_source_def found_fc_def process_message_timesync_def
      cmd_sender_message_def process_broadcast_message_openhd_def Let_def split: prod.split)

lemma missions_xparam: "xparam_message msg t = Inr (t', c) \<Longrightarrow> missions t' = missions t"
  by (auto simp: xparam_message_def result_simps)

lemma message_cases:
  assumes "process_mavlink_message k now msg t = Inr t'"
  obtains "fc_view t' = fc_view (discover_source msg (t\<lparr>m_tele_received_packets := m_tele_received_packets t + 1\<rparr>))"
      "missions t' = missions t"
    | t3 where "fc_view t3 = fc_view (discover_source msg (t\<lparr>m_tele_received_packets := m_tele_received_packets t + 1\<rparr>))"
      "missions t3 = missions t" "dispatch_by_system k now msg t3 = Inr t'"
proof (cases "\<exists>tc1 ts1. msg_content msg = Timesync tc1 ts1")
  case True
  with assms that(1) show ?thesis by (auto simp: process_mavlink_message_def Let_def)
next
  case False
  let ?t1 = "discover_source msg (t\<lparr>m_tele_received_packets := m_tele_received_packets t + 1\<rparr>)"
  obtain t2 c where t2: "cmd_sender_message k msg ?t1 = (t2, c)" by fastforce
  have v2: "fc_view t2 = fc_view ?t1" "missions t2 = missions t"
    using fc_view_ops(3) [of k msg ?t1] missions_sel(4) [of k msg ?t1] by (simp_all add: t2)
  have p: "(if c then Inr t2 else rbind (xparam_message msg t2)
      (\<lambda>(t3, consumed). if consumed then Inr t3 else dispatch_by_system k now msg t3)) = Inr t'"
    using assms False by (cases "msg_content msg") (auto simp: process_mavlink_message_def Let_def t2)
  show ?thesis
  proof (cases c)
    case True
    with p v2 that(1) show ?thesis by simp
  next
    case False
    with p obtain t3 c3 where x: "xparam_message msg t2 = Inr (t3, c3)"
      and d: "(if c3 then Inr t3 else dispatch_by_system k now msg t3) = Inr t'"
      by (auto simp: result_simps)
    show ?thesis
      using that d fc_view_xparam [OF x] missions_xparam [OF x] v2 by (cases c3) auto
  qed
qed

lemma message_keeps:
  assumes "fc_ok t" and "process_mavlink_message k now msg t = Inr t'"
  shows "fc_ok t' \<and> fc_follows t t'"
proof -
  let ?t0 = "t\<lparr>m_tele_received_packets := m_tele_received_packets t + 1\<rparr>"
  let ?t1 = "discover_source msg ?t0"
  have k1: "fc_ok ?t1 \<and> fc_follows t ?t1"
    using fc_view_keeps [of ?t0 t] discover_source_keeps [of ?t0 msg] assms(1) by (auto intro: fc_follows_trans)
  from assms(2) show ?thesis
  proof (cases rule: message_cases)
    case 1
    with k1 fc_view_keeps [of t' ?t1] show ?thesis by (auto intro: fc_follows_trans)
  next
    case (2 t3)
    with k1 fc_view_keeps [of t3 ?t1] dispatch_keeps [of t3 k now msg t'] show ?thesis
      by (auto intro: fc_follows_trans)
  qed
qed

lemma step_keeps:
  assumes "fc_ok t" and "telemetry_step k e t = Inr t'"
  shows "fc_ok t' \<and> fc_follows t t'"
proof (cases e)
  case (Mav_Message now msg)
  with assms show ?thesis by (simp add: message_keeps)
next
  case (Ping now)
  with assms fc_view_keeps [of t' t] show ?thesis by (auto simp: ping_all_systems_def)
next
  case Apply_Rates
  with assms fc_view_keeps [of t' t] show ?thesis by (auto simp: re_apply_rates_def)
next
  case (Fc_Alive now)
  with assms shown_keeps [OF assms(1), of "fc_update_alive now"] show ?thesis by auto
next
  case (Fc_Flight_Time now)
  with assms shown_keeps [OF assms(1), of "\<lambda>(m, l). (updateFlightTimer now m, l)"] show ?thesis by auto
next
  case (Fc_Rc_Alive now)
  with assms shown_keeps [OF assms(1), of "\<lambda>(m, l). (with_rc (rc_update_alive now) m, l)"] show ?thesis by auto
qed (use assms fc_view_keeps [of t' t] in \<open>auto simp: with_app_def result_simps\<close>)

lemma run_keeps:
  assumes "fc_ok t" and "rfold (telemetry_step k) es t = Inr t'"
  shows "fc_ok t' \<and> fc_follows t t'"
  using assms
proof (induction es arbitrary: t)
  case (Cons e es)
  then obtain u where u: "telemetry_step k e t = Inr u" "rfold (telemetry_step k) es u = Inr t'"
    by (auto simp: result_simps)
  from step_keeps [OF Cons.prems(1) u(1)] Cons.IH [OF _ u(2)] show ?case
    by (auto intro: fc_follows_trans)
qed (simp add: fc_follows_def)

lemma fc_ok_new: "fc_ok (telemetry_new now off n rpi)"
  by (simp add: fc_ok_def telemetry_new_def)

text \<open>What one step may change of what is shown of the flight controller.\<close>

lemma found_discover [simp]: "m_fc_found t \<Longrightarrow> fc_view (discover_source msg t) = fc_view t"
  by (simp add: discover_source_def)

lemma uint_fc_id: "0 \<le> i \<Longrightarrow> i < 255 \<Longrightarrow> uint (word_of_int i :: u8) = i"
  by (subst uint_word_of_int) simp

lemma other_dispatch:
  assumes "fc_ok t" and "dispatch_by_system k now msg t = Inr t'"
    and "\<not> (m_discovered (fc t) \<and> uint (msg_sysid msg) = fc_m_sys_id (fc t))"
  shows "fc_view t' = fc_view t \<and> missions t' = missions t"
  using assms uint_fc_id [of "fc_m_sys_id (fc t)"]
  by (auto simp: dispatch_by_system_def get_fc_sys_id_def fc_ok_def result_simps split: if_splits option.splits)

lemma other_message:
  assumes "fc_ok t" and "m_fc_found t" and "process_mavlink_message k now msg t = Inr t'"
    and "\<not> (m_discovered (fc t) \<and> uint (msg_sysid msg) = fc_m_sys_id (fc t))"
  shows "fc_view t' = fc_view t \<and> missions t' = missions t"
  using assms(3)
proof (cases rule: message_cases)
  case 1
  with assms(2) show ?thesis by simp
next
  case (2 t3)
  with assms(2) have v: "fc_view t3 = fc_view t" by simp
  with assms(1) have "fc_ok t3" by (simp add: fc_view_def fc_ok_def)
  with other_dispatch [OF _ 2(3)] assms(4) v 2(2) show ?thesis by (simp add: fc_view_def)
qed

lemma ping_app [simp]:
  "fc (ready_units us t) = fc t" "fc (fst (cmd_sender_message k msg t)) = fc t"
  "fc (process_broadcast_message_openhd now b msg t) = fc t"
  by (simp_all add: ready_units_def cmd_sender_message_def process_broadcast_message_openhd_def Let_def split: prod.split)

lemma ping_discover [simp]: "last_ping_result_flight_ctrl (fc (discover_source msg t)) = last_ping_result_flight_ctrl (fc t)"
  by (simp add: discover_source_def found_fc_def set_system_id_def)

lemma ping_process:
  "fc_process_message e now msg (f, l) = Inr (f', l') \<Longrightarrow> last_ping_result_flight_ctrl f' = last_ping_result_flight_ctrl f"
  by (auto simp: fc_process_message_def result_simps Let_def split: option.splits if_splits prod.splits)

lemma ping_broadcast:
  assumes "process_broadcast_message_fc k now msg t = Inr t'"
  shows "last_ping_result_flight_ctrl (fc t') = last_ping_result_flight_ctrl (fc t)"
proof -
  obtain m c where m: "Mission_Handler.process_message (mission_of (msg_content msg)) (missions t) = (m, c)" by fastforce
  with assms show ?thesis
    by (cases c) (auto simp: process_broadcast_message_fc_def result_simps with_fc_def dest: ping_process)
qed

lemma ping_dispatch:
  assumes "dispatch_by_system k now msg t = Inr t'"
  shows "last_ping_result_flight_ctrl (fc t') = last_ping_result_flight_ctrl (fc t)"
proof -
  consider "fc t' = fc t"
    | u where "process_broadcast_message_fc k now msg t = Inr u" "fc_requests k now u = Inr t'"
    using assms by (auto simp: dispatch_by_system_def result_simps split: if_splits option.splits)
  then show ?thesis
  proof cases
    case 2
    from 2(2) have "fc t' = fc u" by (auto simp: fc_requests_def result_simps Let_def)
    with ping_broadcast [OF 2(1)] show ?thesis by simp
  qed simp
qed

lemma ping_message:
  assumes "process_mavlink_message k now msg t = Inr t'" and "\<And>tc1 ts1. msg_content msg \<noteq> Timesync tc1 ts1"
  shows "last_ping_result_flight_ctrl (fc t') = last_ping_result_flight_ctrl (fc t)"
proof -
  let ?t1 = "discover_source msg (t\<lparr>m_tele_received_packets := m_tele_received_packets t + 1\<rparr>)"
  obtain t2 c where t2: "cmd_sender_message k msg ?t1 = (t2, c)" by fastforce
  have f: "fc t2 = fc ?t1" using ping_app(2) [of k msg ?t1] by (simp add: t2)
  have p: "(if c then Inr t2 else rbind (xparam_message msg t2)
      (\<lambda>(t3, consumed). if consumed then Inr t3 else dispatch_by_system k now msg t3)) = Inr t'"
    using assms by (cases "msg_content msg") (auto simp: process_mavlink_message_def Let_def t2)
  moreover have "fc t3 = fc t2" if "xparam_message msg t2 = Inr (t3, c3)" for t3 c3
    using that by (auto simp: xparam_message_def result_simps)
  ultimately show ?thesis
    using f by (auto simp: result_simps dest!: ping_dispatch split: if_splits)
qed

lemma out_message:
  assumes "process_mavlink_message k now msg t = Inr t'"
  shows "m_last_timesync_out_us t' = m_last_timesync_out_us t"
proof -
  let ?t1 = "discover_source msg (t\<lparr>m_tele_received_packets := m_tele_received_packets t + 1\<rparr>)"
  have 1: "m_last_timesync_out_us ?t1 = m_last_timesync_out_us t"
    by (simp add: discover_source_def ready_units_def found_fc_def)
  have cmd: "m_last_timesync_out_us t2 = m_last_timesync_out_us ?t1" if "cmd_sender_message k msg ?t1 = (t2, c)" for t2 c
    using that by (auto simp: cmd_sender_message_def Let_def split: prod.splits)
  have par: "m_last_timesync_out_us t3 = m_last_timesync_out_us t2" if "xparam_message msg t2 = Inr (t3, c)" for t2 t3 c
    using that by (auto simp: xparam_message_def result_simps)
  have dis: "m_last_timesync_out_us t' = m_last_timesync_out_us t3" if d: "dispatch_by_system k now msg t3 = Inr t'" for t3
  proof -
    consider "m_last_timesync_out_us t' = m_last_timesync_out_us t3"
      | u where "process_broadcast_message_fc k now msg t3 = Inr u" "fc_requests k now u = Inr t'"
      using d by (auto simp: dispatch_by_system_def process_broadcast_message_openhd_def result_simps split: if_splits option.splits)
    then show ?thesis
    proof cases
      case 2
      then show ?thesis
        by (auto simp: process_broadcast_message_fc_def with_fc_def fc_requests_def result_simps Let_def split: prod.splits if_splits)
    qed
  qed
  show ?thesis
  proof (cases "\<exists>tc1 ts1. msg_content msg = Timesync tc1 ts1")
    case True
    with assms 1 show ?thesis by (auto simp: process_mavlink_message_def process_message_timesync_def Let_def)
  next
    case False
    obtain t2 c where t2: "cmd_sender_message k msg ?t1 = (t2, c)" by fastforce
    have "(if c then Inr t2 else rbind (xparam_message msg t2)
        (\<lambda>(t3, consumed). if consumed then Inr t3 else dispatch_by_system k now msg t3)) = Inr t'"
      using assms False by (cases "msg_content msg") (auto simp: process_mavlink_message_def Let_def t2)
    with cmd [OF t2] 1 show ?thesis by (auto simp: result_simps dest!: par dis split: if_splits)
  qed
qed

text \<open>C24. The first flight controller found is the only one: whatever happens afterwards, its ids never change, and a
  message of another system changes neither what is shown of the flight controller nor the handler of its mission, with
  one exception: the result of the ping, which any system but the two units may answer, and nothing else sets. When the first one
  found has an id that is refused, no message of any system changes them.\<close>

theorem first_flight_controller_only:
  assumes "rfold (telemetry_step k) es (telemetry_new now off n rpi) = Inr t" and "m_fc_found t"
    and "rfold (telemetry_step k) es' t = Inr t'" and "telemetry_step k e t' = Inr t''"
  shows "m_fc_sys_id t'' = m_fc_sys_id t \<and> m_fc_comp_id t'' = m_fc_comp_id t
    \<and> fc_m_sys_id (fc t'') = fc_m_sys_id (fc t) \<and> m_discovered (fc t'') = m_discovered (fc t)
    \<and> (\<forall>now msg. e = Mav_Message now msg
        \<and> \<not> (m_discovered (fc t) \<and> uint (msg_sysid msg) = fc_m_sys_id (fc t)) \<longrightarrow>
        shown (fc t'') = shown (fc t') \<and> missions t'' = missions t')
    \<and> (last_ping_result_flight_ctrl (fc t'') \<noteq> last_ping_result_flight_ctrl (fc t') \<longrightarrow>
        (\<exists>now msg tc1. e = Mav_Message now msg \<and> msg_content msg = Timesync tc1 (m_last_timesync_out_us t') \<and> tc1 \<noteq> 0
          \<and> msg_sysid msg \<noteq> OHD_SYS_ID_AIR \<and> msg_sysid msg \<noteq> OHD_SYS_ID_GROUND))"
proof -
  have "fc_ok t" using run_keeps [OF fc_ok_new assms(1)] by simp
  from run_keeps [OF this assms(3)] have t': "fc_ok t'" "fc_follows t t'" by simp_all
  with step_keeps [OF t'(1) assms(4)] have "fc_follows t t''" by (auto intro: fc_follows_trans)
  with assms(2) t'(2) have ids: "m_fc_sys_id t'' = m_fc_sys_id t" "m_fc_comp_id t'' = m_fc_comp_id t"
    "fc_m_sys_id (fc t'') = fc_m_sys_id (fc t)" "m_discovered (fc t'') = m_discovered (fc t)"
    "m_fc_found t'" "fc_m_sys_id (fc t') = fc_m_sys_id (fc t)" "m_discovered (fc t') = m_discovered (fc t)"
    by (simp_all add: fc_follows_def)
  have other: "shown (fc t'') = shown (fc t') \<and> missions t'' = missions t'"
    if "e = Mav_Message now msg" "\<not> (m_discovered (fc t) \<and> uint (msg_sysid msg) = fc_m_sys_id (fc t))" for now msg
    using other_message [OF t'(1) ids(5), of k now msg t''] assms(4) that ids by (simp add: fc_view_def)
  have ping: "\<exists>now msg tc1. e = Mav_Message now msg \<and> msg_content msg = Timesync tc1 (m_last_timesync_out_us t') \<and> tc1 \<noteq> 0
      \<and> msg_sysid msg \<noteq> OHD_SYS_ID_AIR \<and> msg_sysid msg \<noteq> OHD_SYS_ID_GROUND"
    if diff: "last_ping_result_flight_ctrl (fc t'') \<noteq> last_ping_result_flight_ctrl (fc t')"
  proof (cases e)
    case (Mav_Message now msg)
    then obtain tc1 ts1 where c: "msg_content msg = Timesync tc1 ts1"
      using ping_message [of k now msg t' t''] assms(4) diff by fastforce
    let ?t1 = "discover_source msg (t'\<lparr>m_tele_received_packets := m_tele_received_packets t' + 1\<rparr>)"
    have "m_last_timesync_out_us ?t1 = m_last_timesync_out_us t'"
      by (simp add: discover_source_def ready_units_def found_fc_def)
    with c diff assms(4) show ?thesis
      by (auto simp: Mav_Message process_mavlink_message_def process_message_timesync_def Let_def split: if_splits)
  qed (use assms(4) diff in \<open>auto simp: with_app_def with_shown_def with_fc_def ping_all_systems_def re_apply_rates_def
      result_simps Let_def split: prod.splits\<close>)
  from ids(1-4) other ping show ?thesis by blast
qed

text \<open>An id that is refused: 255, that of a ground station, with the component id of an autopilot.\<close>

lemma refused_id_found:
  "\<not> m_fc_found t \<Longrightarrow> \<not> m_discovered (fc t) \<Longrightarrow> msg_sysid msg = 255 \<Longrightarrow> msg_compid msg = MAV_COMP_ID_AUTOPILOT1 \<Longrightarrow>
     m_fc_found (discover_source msg t) \<and> \<not> m_discovered (fc (discover_source msg t))"
  by (simp add: discover_source_def found_fc_def set_system_id_def OHD_SYS_ID_AIR_def OHD_SYS_ID_GROUND_def)

definition demo_config_telemetry :: telemetry_config where
  "demo_config_telemetry = \<lparr>rates = \<lparr>set_mavlink_message_rates = False, mavlink_message_rates_high_speed = False,
     mavlink_message_rates_high_speed_rc_channels = False\<rparr>, own_sys = 255, own_comp = 190, environment = demo_fc_environment\<rparr>"

text \<open>The heartbeat of an autopilot.\<close>

definition fc_heartbeat :: "u8 \<Rightarrow> mavlink_message" where
  "fc_heartbeat i = \<lparr>msg_sysid = i, msg_compid = 1, msg_content = Fc (Fc_Heartbeat
     \<lparr>hb_custom_mode = 0, hb_type = 2, hb_autopilot = MAV_AUTOPILOT_ARDUPILOTMEGA, hb_base_mode = 1\<rparr>)\<rparr>"

lemmas dispatch_defs =
  process_mavlink_message_def discover_source_def found_fc_def set_system_id_def cmd_sender_message_def
  Cmd_Sender.process_message_def xparam_message_def Xparam.process_message_def dispatch_by_system_def
  get_fc_sys_id_def process_broadcast_message_fc_def fc_process_message_def fc_requests_def get_fc_mav_id_def
  Message_Intervals.opt_send_messages_def Mission_Handler.opt_send_messages_def with_sender_def with_xparam_def

lemma first_heartbeat:
  "\<exists>t. rfold (telemetry_step demo_config_telemetry) [Mav_Message 2000000000 (fc_heartbeat 2)]
       (telemetry_new 0 True 1 False) = Inr t
     \<and> m_fc_found t \<and> m_discovered (fc t) \<and> fc_m_sys_id (fc t) = 2
     \<and> requests (missions t) = [Request_Mission_Count 1 2]
     \<and> m_fc_sys_id t = 2 \<and> m_fc_comp_id t = 1"
proof -
  obtain m l where "fc_model_message demo_fc_environment 2000000000 (fc_of (msg_content (fc_heartbeat 2)))
      (fc_model_new 0, log (ohd_app_new 0 True 1 False)) = (m, l)" by fastforce
  then show ?thesis
    by (simp add: dispatch_defs telemetry_new_def fc_heartbeat_def demo_config_telemetry_def OHD_SYS_ID_AIR_def
        OHD_SYS_ID_GROUND_def MAV_COMP_ID_AUTOPILOT1_def mission_handler_new_def interval_handler_new_def Let_def with_fc_def)
qed

theorem first_flight_controller_only_witness:
  "\<exists>t t'. rfold (telemetry_step demo_config_telemetry) [Mav_Message 2000000000 (fc_heartbeat 2)]
       (telemetry_new 0 True 1 False) = Inr t
     \<and> telemetry_step demo_config_telemetry (Mav_Message 2100000000 (fc_heartbeat 3)) t = Inr t'
     \<and> m_fc_sys_id t' = 2 \<and> shown (fc t') = shown (fc t)"
proof -
  obtain t where t: "rfold (telemetry_step demo_config_telemetry) [Mav_Message 2000000000 (fc_heartbeat 2)]
       (telemetry_new 0 True 1 False) = Inr t" "m_fc_found t" "m_discovered (fc t)" "fc_m_sys_id (fc t) = 2"
    "m_fc_sys_id t = 2"
    using first_heartbeat by blast
  obtain t' where t': "telemetry_step demo_config_telemetry (Mav_Message 2100000000 (fc_heartbeat 3)) t = Inr t'"
    using t(2-4) by (simp add: dispatch_defs fc_heartbeat_def OHD_SYS_ID_AIR_def OHD_SYS_ID_GROUND_def Let_def)
  have "uint (msg_sysid (fc_heartbeat 3)) \<noteq> 2" by (simp add: fc_heartbeat_def)
  with first_flight_controller_only [OF t(1,2) _ t', of "[]"] t t' show ?thesis by auto
qed

section \<open>The address of requests\<close>

fun request_target :: "mission_request \<Rightarrow> int \<times> int" where
  "request_target (Request_Mission_Count sys cmp) = (sys, cmp)"
| "request_target (Request_Mission_Item sys cmp i) = (sys, cmp)"

lemma mission_message_requests: "requests (fst (Mission_Handler.process_message m h)) = requests h"
  by (cases "(m, h)" rule: Mission_Handler.process_message.cases)
    (auto simp: update_mission_current_def update_mission_count_def update_mission_def recalculate_missing_def p_initialize_def
      p_update_def Let_def)

lemma mission_opt_requests:
  "\<exists>new. requests (Mission_Handler.opt_send_messages now sys cmp h) = requests h @ new
     \<and> (\<forall>r \<in> set new. request_target r = (sys, cmp))"
  by (auto simp: Mission_Handler.opt_send_messages_def Let_def)

definition swapped :: "telemetry \<Rightarrow> bool" where
  "swapped t \<longleftrightarrow> fc_ok t \<and> (\<not> m_fc_found t \<longrightarrow> requests (missions t) = [])
     \<and> (\<forall>r \<in> set (requests (missions t)). request_target r = (m_fc_comp_id t, m_fc_sys_id t))"

lemma swapped_keep:
  assumes "swapped t" and "fc_ok t' \<and> fc_follows t t'" and "requests (missions t') = requests (missions t)"
  shows "swapped t'"
  using assms by (cases "m_fc_found t") (auto simp: swapped_def fc_follows_def)

lemma fc_message_requests:
  "process_broadcast_message_fc k now msg t = Inr t' \<Longrightarrow> requests (missions t') = requests (missions t)"
  using mission_message_requests [of "mission_of (msg_content msg)" "missions t"]
  by (auto simp: process_broadcast_message_fc_def with_fc_def Let_def result_simps split: prod.splits if_splits)

lemma swapped_requests:
  assumes "swapped t" and "m_fc_found t" and "fc_requests k now t = Inr t'"
  shows "swapped t'"
proof -
  have v: "fc_view t' = fc_view t" by (rule fc_view_requests [OF assms(3)])
  obtain new where "requests (missions t') = requests (missions t) @ new"
    "\<forall>r \<in> set new. request_target r = (m_fc_comp_id t, m_fc_sys_id t)"
    using mission_opt_requests [of now "m_fc_comp_id t" "m_fc_sys_id t" "missions t"] assms(2,3)
    by (auto simp: fc_requests_def get_fc_mav_id_def result_simps Let_def)
  with assms(1,2) v fc_view_keeps [OF v] show ?thesis
    by (auto simp: swapped_def fc_view_def)
qed

lemma swapped_dispatch:
  assumes "swapped t" and "dispatch_by_system k now msg t = Inr t'"
  shows "swapped t'"
proof -
  have ok: "fc_ok t" using assms(1) by (simp add: swapped_def)
  consider "missions t' = missions t"
    | i u where "get_fc_sys_id (fc t) = Inr (Some i)" "process_broadcast_message_fc k now msg t = Inr u"
        "fc_requests k now u = Inr t'"
    using assms(2) by (auto simp: dispatch_by_system_def result_simps split: if_splits option.splits)
  then show ?thesis
  proof cases
    case 1
    with swapped_keep [OF assms(1) dispatch_keeps [OF ok assms(2)]] show ?thesis by simp
  next
    case 2
    have "m_fc_found t"
      using 2(1) ok by (auto simp: get_fc_sys_id_def fc_ok_def split: if_splits)
    moreover have "swapped u"
      by (rule swapped_keep [OF assms(1) fc_message_keeps [OF ok 2(2)] fc_message_requests [OF 2(2)]])
    ultimately show ?thesis
      using swapped_requests [OF _ _ 2(3)] fc_message_keeps [OF ok 2(2)] by (simp add: fc_follows_def)
  qed
qed

lemma swapped_step:
  assumes "swapped t" and "telemetry_step k e t = Inr t'"
  shows "swapped t'"
proof (cases e)
  case (Mav_Message now msg)
  have ok: "fc_ok t" using assms(1) by (simp add: swapped_def)
  from assms(2) have "process_mavlink_message k now msg t = Inr t'" unfolding Mav_Message by simp
  then show ?thesis
  proof (cases rule: message_cases)
    case 1
    with swapped_keep [OF assms(1) step_keeps [OF ok assms(2)]] show ?thesis by simp
  next
    case (2 t3)
    let ?t0 = "t\<lparr>m_tele_received_packets := m_tele_received_packets t + 1\<rparr>"
    have "fc_ok (discover_source msg ?t0) \<and> fc_follows t (discover_source msg ?t0)"
      using fc_view_keeps [of ?t0 t] discover_source_keeps [of ?t0 msg] ok by (auto intro: fc_follows_trans)
    then have "fc_ok t3 \<and> fc_follows t t3"
      using fc_view_keeps [OF 2(1)] by (auto intro: fc_follows_trans)
    from swapped_keep [OF assms(1) this] 2(2) have "swapped t3" by simp
    then show ?thesis by (rule swapped_dispatch [OF _ 2(3)])
  qed
next
  case Mission_Resync
  with swapped_keep [OF assms(1) step_keeps [of t k e t']] assms show ?thesis
    by (auto simp: swapped_def resync_def p_initialize_def)
qed (use swapped_keep [OF assms(1) step_keeps [of t k e t']] assms in
  \<open>auto simp: swapped_def with_app_def result_simps ping_all_systems_def re_apply_rates_def with_shown_def with_fc_def Let_def split: prod.splits\<close>)

lemma swapped_new: "swapped (telemetry_new now off n rpi)"
  using fc_ok_new [of now off n rpi] by (simp add: swapped_def telemetry_new_def mission_handler_new_def)

text \<open>The ids of the flight controller are exchanged on their way (the members of \<open>FCMavId\<close> and the initialiser
  that fills them are in different orders): in every run each request for a mission is addressed to the system
  with the number of the component, and to the component with the number of the system.\<close>

theorem requests_exchange_ids:
  assumes "rfold (telemetry_step k) es (telemetry_new now off n rpi) = Inr t"
    and "r \<in> set (requests (missions t))"
  shows "request_target r = (m_fc_comp_id t, m_fc_sys_id t)"
proof -
  have "swapped t"
    by (rule rfold_invariant [where P = swapped, OF assms(1) swapped_new]) (rule swapped_step)
  with assms(2) show ?thesis by (simp add: swapped_def)
qed

theorem requests_exchange_ids_witness:
  "\<exists>t. rfold (telemetry_step demo_config_telemetry) [Mav_Message 2000000000 (fc_heartbeat 2)]
       (telemetry_new 0 True 1 False) = Inr t
     \<and> requests (missions t) = [Request_Mission_Count 1 2] \<and> request_target (Request_Mission_Count 1 2) = (1, 2)"
proof -
  obtain t where t: "rfold (telemetry_step demo_config_telemetry) [Mav_Message 2000000000 (fc_heartbeat 2)]
       (telemetry_new 0 True 1 False) = Inr t" "requests (missions t) = [Request_Mission_Count 1 2]"
    "m_fc_sys_id t = 2" "m_fc_comp_id t = 1"
    using first_heartbeat by blast
  with requests_exchange_ids [OF t(1), of "Request_Mission_Count 1 2"] show ?thesis by auto
qed

end
