(* ===== verification/Fc_Shown.thy ===== *)
theory Fc_Shown
  imports Fc_Model
begin

text \<open>
  What the model of the flight controller guarantees in every run of messages, timers and requests: the connection, the warning
  about a quiet flight controller, the flight distance, the course home, and the flight mode asked for.
\<close>

section \<open>An example\<close>

definition demo_heartbeat :: "u8 \<Rightarrow> heartbeat" where
  "demo_heartbeat base_mode = \<lparr>hb_custom_mode = 6, hb_type = 2, hb_autopilot = MAV_AUTOPILOT_ARDUPILOTMEGA,
     hb_base_mode = base_mode\<rparr>"

definition demo_position :: "int \<Rightarrow> position_msg" where
  "demo_position north = \<lparr>pos_lat = 10000000 + 100 * north, pos_lon = 10000000, pos_alt = 0, pos_relative_alt = 0,
     pos_vx = 0, pos_vy = 0, pos_vz = 0, pos_hdg = 4500\<rparr>"

text \<open>A flight of 100 metres, and the next arming.\<close>

definition demo_flights :: "fc_model_event list" where
  "demo_flights = map (Fc_Received 0) [Global_Position_Int (demo_position 0), Fc_Heartbeat (demo_heartbeat 129),
     Global_Position_Int (demo_position 100), Fc_Heartbeat (demo_heartbeat 1), Fc_Heartbeat (demo_heartbeat 129)]"

section \<open>The operations by the part they change\<close>

lemma heartbeat_fst:
  "fst (process_heartbeat e now hb (m, l)) =
     (let m1 = m\<lparr>fc_last_heartbeat_ms := ms_of now\<rparr>;
          m2 = (case parse_heartbeat (env_dialect e) hb of
             Some info \<Rightarrow>
               (let m' = fst (set_armed now (get_arm_mode_from_heartbeat (env_dialect e) hb)
                     ((set_flight_mode (info_flight_mode info) m1)
                        \<lparr>autopilot_type_str := info_autopilot info, mav_type_str := info_mav_type info\<rparr>, l))
                in m'\<lparr>action := (action m')\<lparr>m_ardupilot_mav_type := ardupilot_mav_type info\<rparr>\<rparr>)
           | None \<Rightarrow> m1)
      in if m_n_heartbeats m2 \<ge> 10 then m2\<lparr>m_n_attitude_messages := 0, m_n_heartbeats := 0\<rparr>
         else m2\<lparr>m_n_heartbeats := m_n_heartbeats m2 + 1\<rparr>)"
  by (simp add: process_heartbeat_def Let_def split: option.split prod.split) auto

lemma set_flight_mode_sel [simp]:
  "fc_last_heartbeat_ms (set_flight_mode f m) = fc_last_heartbeat_ms m" "armed (set_flight_mode f m) = armed m"
  "fc_is_alive (set_flight_mode f m) = fc_is_alive m"
  "m_n_heartbeats (set_flight_mode f m) = m_n_heartbeats m" "total_dist (set_flight_mode f m) = total_dist m"
  "m_n_attitude_messages (set_flight_mode f m) = m_n_attitude_messages m"
  "flight_distance_m (set_flight_mode f m) = flight_distance_m m" "hdg (set_flight_mode f m) = hdg m"
  "m_home_course (set_flight_mode f m) = m_home_course m" "m_home_heading (set_flight_mode f m) = m_home_heading m"
  "m_flight_mode (set_flight_mode f m) = f" "action (set_flight_mode f m) = action m"
  by (auto simp: set_flight_mode_def)

lemma heartbeat_sel:
  "fc_last_heartbeat_ms (fst (process_heartbeat e now hb (m, l))) = ms_of now"
  "total_dist (fst (process_heartbeat e now hb (m, l))) = total_dist m"
  "flight_distance_m (fst (process_heartbeat e now hb (m, l))) \<in> {flight_distance_m m, 0}"
  "hdg (fst (process_heartbeat e now hb (m, l))) = hdg m"
  "m_home_course (fst (process_heartbeat e now hb (m, l))) = m_home_course m"
  "m_home_heading (fst (process_heartbeat e now hb (m, l))) = m_home_heading m"
  "fc_is_alive (fst (process_heartbeat e now hb (m, l))) = fc_is_alive m"
  "m_n_heartbeats (fst (process_heartbeat e now hb (m, l))) = (if m_n_heartbeats m \<ge> 10 then 0 else m_n_heartbeats m + 1)"
  "m_n_attitude_messages (fst (process_heartbeat e now hb (m, l))) =
     (if m_n_heartbeats m \<ge> 10 then 0 else m_n_attitude_messages m)"
  by (auto simp: heartbeat_fst Let_def fst_set_armed split: option.split)

lemma attitude_rate_sel [simp]:
  "fc_last_heartbeat_ms (update_attitude_rate now m) = fc_last_heartbeat_ms m"
  "total_dist (update_attitude_rate now m) = total_dist m" "flight_distance_m (update_attitude_rate now m) = flight_distance_m m"
  "hdg (update_attitude_rate now m) = hdg m" "m_home_course (update_attitude_rate now m) = m_home_course m"
  "m_home_heading (update_attitude_rate now m) = m_home_heading m"
  "m_n_heartbeats (update_attitude_rate now m) = m_n_heartbeats m" "armed (update_attitude_rate now m) = armed m"
  "m_n_attitude_messages (update_attitude_rate now m) = m_n_attitude_messages m"
  "action (update_attitude_rate now m) = action m" "fc_is_alive (update_attitude_rate now m) = fc_is_alive m"
  by (simp_all add: update_attitude_rate_def)

lemma efficiency_sel [simp]:
  "fc_last_heartbeat_ms (recalculate_efficiency now m) = fc_last_heartbeat_ms m"
  "total_dist (recalculate_efficiency now m) = total_dist m"
  "flight_distance_m (recalculate_efficiency now m) = flight_distance_m m"
  "hdg (recalculate_efficiency now m) = hdg m" "m_home_course (recalculate_efficiency now m) = m_home_course m"
  "m_home_heading (recalculate_efficiency now m) = m_home_heading m"
  "m_n_heartbeats (recalculate_efficiency now m) = m_n_heartbeats m" "fc_is_alive (recalculate_efficiency now m) = fc_is_alive m"
  "m_n_attitude_messages (recalculate_efficiency now m) = m_n_attitude_messages m"
  by (simp_all add: recalculate_efficiency_def Let_def)

lemma position_sel:
  "fc_last_heartbeat_ms (process_position e p m) = fc_last_heartbeat_ms m"
  "m_n_heartbeats (process_position e p m) = m_n_heartbeats m" "fc_is_alive (process_position e p m) = fc_is_alive m"
  "m_n_attitude_messages (process_position e p m) = m_n_attitude_messages m"
  by (simp_all add: process_position_def calculate_home_course_def calculate_home_distance_def set_home_course_def
      set_home_heading_def count_distance_def Let_def)

lemma battery_sel [simp]:
  "fc_last_heartbeat_ms (process_battery_status e b m) = fc_last_heartbeat_ms m"
  "fc_is_alive (process_battery_status e b m) = fc_is_alive m"
  "total_dist (process_battery_status e b m) = total_dist m"
  "flight_distance_m (process_battery_status e b m) = flight_distance_m m"
  "hdg (process_battery_status e b m) = hdg m" "m_home_course (process_battery_status e b m) = m_home_course m"
  "m_home_heading (process_battery_status e b m) = m_home_heading m"
  "m_n_heartbeats (process_battery_status e b m) = m_n_heartbeats m"
  "m_n_attitude_messages (process_battery_status e b m) = m_n_attitude_messages m"
  by (simp_all add: process_battery_status_def show_percent_def Let_def)

lemma sys_status_sel [simp]:
  "fc_last_heartbeat_ms (process_sys_status e v c r m) = fc_last_heartbeat_ms m"
  "fc_is_alive (process_sys_status e v c r m) = fc_is_alive m"
  "total_dist (process_sys_status e v c r m) = total_dist m"
  "flight_distance_m (process_sys_status e v c r m) = flight_distance_m m"
  "hdg (process_sys_status e v c r m) = hdg m" "m_home_course (process_sys_status e v c r m) = m_home_course m"
  "m_home_heading (process_sys_status e v c r m) = m_home_heading m"
  "m_n_heartbeats (process_sys_status e v c r m) = m_n_heartbeats m"
  "m_n_attitude_messages (process_sys_status e v c r m) = m_n_attitude_messages m"
  by (simp_all add: process_sys_status_def show_percent_def Let_def)

lemma with_rc_sel [simp]:
  "fc_last_heartbeat_ms (with_rc f m) = fc_last_heartbeat_ms m" "total_dist (with_rc f m) = total_dist m"
  "flight_distance_m (with_rc f m) = flight_distance_m m" "hdg (with_rc f m) = hdg m"
  "m_home_course (with_rc f m) = m_home_course m" "m_home_heading (with_rc f m) = m_home_heading m"
  "m_n_heartbeats (with_rc f m) = m_n_heartbeats m" "m_n_attitude_messages (with_rc f m) = m_n_attitude_messages m"
  "fc_is_alive (with_rc f m) = fc_is_alive m"
  by (simp_all add: with_rc_def)

lemmas demo_steps = demo_fc_environment_def demo_fc_config_def demo_heartbeat_def fc_model_message_def update_attitude_rate_def
  fc_model_new_def process_heartbeat_def parse_heartbeat_def ardu_info_def set_flight_mode_def set_armed_def
  send_message_arm_change_def get_arm_mode_from_heartbeat_def custom_mode_enabled_def mav_dialect.defs heartbeat_dialect.defs

lemma demo_disarmed:
  "\<not> armed (fst (fc_model_message demo_fc_environment now (Fc_Heartbeat (demo_heartbeat 1)) (m, l)))"
  unfolding fc_model_message_def split_conv handle_fc_content.simps heartbeat_fst fst_set_armed
  by (simp add: Let_def demo_fc_environment_def demo_heartbeat_def parse_heartbeat_def ardu_info_def
      get_arm_mode_from_heartbeat_def custom_mode_enabled_def heartbeat_dialect.defs mav_dialect.defs)

text \<open>Messages and timers never fail.\<close>

lemma received_total:
  "\<exists>m' l'. rfold (fc_model_step e k) (map (\<lambda>(t, c). Fc_Received t c) ms) (m, l) = Inr (m', l')"
proof (induction ms arbitrary: m l)
  case (Cons x ms)
  obtain t c where x: "x = (t, c)" by fastforce
  obtain m1 l1 where "fc_model_message e t c (m, l) = (m1, l1)" by fastforce
  with Cons.IH [of m1 l1] x show ?case by simp
qed simp

section \<open>The connection\<close>

fun heartbeat_at :: "fc_model_event \<Rightarrow> int list" where
  "heartbeat_at (Fc_Received now (Fc_Heartbeat hb)) = [now]"
| "heartbeat_at _ = []"

definition heartbeats :: "fc_model_event list \<Rightarrow> int list" where
  "heartbeats es = concat (map heartbeat_at es)"

lemma last_heartbeat_step:
  assumes "fc_model_step e k ev (m, l) = Inr (m', l')"
  shows "fc_last_heartbeat_ms m' = (case heartbeat_at ev of [] \<Rightarrow> fc_last_heartbeat_ms m | t # _ \<Rightarrow> ms_of t)"
proof (cases ev)
  case (Fc_Received now c)
  then have "m' = fst (handle_fc_content e now c ((update_attitude_rate now m)\<lparr>fc_last_message_ms := ms_of now\<rparr>, l))"
    using assms by (auto simp: fc_model_message_def)
  with Fc_Received show ?thesis
    by (cases c) (auto simp: heartbeat_sel position_sel)
next
  case (Fc_User now u)
  with assms show ?thesis by (auto dest!: with_action_fst)
qed (use assms in \<open>auto simp: fc_update_alive_def updateFlightTimer_def Let_def split: if_splits\<close>)

lemma last_heartbeat_run:
  "rfold (fc_model_step e k) es (m, l) = Inr (m', l') \<Longrightarrow>
     fc_last_heartbeat_ms m' = (if heartbeats es = [] then fc_last_heartbeat_ms m else ms_of (List.last (heartbeats es)))"
proof (induction es arbitrary: m l)
  case (Cons ev es)
  then obtain m1 l1 where 1: "fc_model_step e k ev (m, l) = Inr (m1, l1)"
    "rfold (fc_model_step e k) es (m1, l1) = Inr (m', l')"
    by (auto simp: result_simps)
  have "heartbeat_at ev = [] \<or> (\<exists>t. heartbeat_at ev = [t])"
    by (cases ev rule: heartbeat_at.cases) auto
  with Cons.IH [OF 1(2)] last_heartbeat_step [OF 1(1)] show ?case
    by (auto simp: heartbeats_def)
qed (simp add: heartbeats_def)

lemma alive_step:
  assumes "fc_model_step e k ev (m, l) = Inr (m', l')"
  shows "fc_is_alive m' \<longrightarrow> fc_is_alive m \<or> fc_last_heartbeat_ms m \<noteq> -1"
proof (cases ev)
  case (Fc_Received now c)
  then have "m' = fst (handle_fc_content e now c ((update_attitude_rate now m)\<lparr>fc_last_message_ms := ms_of now\<rparr>, l))"
    using assms by (auto simp: fc_model_message_def)
  with Fc_Received show ?thesis
    by (cases c) (auto simp: heartbeat_sel position_sel)
next
  case (Fc_User now u)
  with assms show ?thesis by (auto dest!: with_action_fst)
qed (use assms in \<open>auto simp: fc_update_alive_def updateFlightTimer_def Let_def split: if_splits\<close>)

lemma alive_run:
  assumes "\<forall>t \<in> set (heartbeats es). 0 \<le> t" and "rfold (fc_model_step e k) es (m, l) = Inr (m', l')"
    and "fc_is_alive m \<longrightarrow> fc_last_heartbeat_ms m \<noteq> -1"
  shows "fc_is_alive m' \<longrightarrow> fc_last_heartbeat_ms m' \<noteq> -1"
  using assms
proof (induction es arbitrary: m l)
  case (Cons ev es)
  then obtain m1 l1 where 1: "fc_model_step e k ev (m, l) = Inr (m1, l1)"
    "rfold (fc_model_step e k) es (m1, l1) = Inr (m', l')"
    by (auto simp: result_simps)
  have "\<forall>t \<in> set (heartbeat_at ev). ms_of t \<noteq> -1"
  proof
    fix t assume "t \<in> set (heartbeat_at ev)"
    with Cons.prems(1) have "0 \<le> t" by (auto simp: heartbeats_def)
    then have "0 \<le> ms_of t" by (simp add: pos_imp_zdiv_nonneg_iff)
    then show "ms_of t \<noteq> -1" by simp
  qed
  with last_heartbeat_step [OF 1(1)] alive_step [OF 1(1)] Cons.prems(3)
  have "fc_is_alive m1 \<longrightarrow> fc_last_heartbeat_ms m1 \<noteq> -1"
    by (auto split: list.splits)
  with Cons.IH [OF _ 1(2)] Cons.prems(1) show ?case by (auto simp: heartbeats_def)
qed simp

text \<open>The connection of the flight controller: after a check of the timer it counts as connected exactly if one of its heartbeats
  arrived less than four seconds before, whatever else arrived or was asked for, and each change of that, and nothing
  else about it, is put on the screen once.\<close>

theorem fc_connection_shown:
  assumes "rfold (fc_model_step e k) es (fc_model_new start, l0) = Inr (m, l)"
    and "sorted (heartbeats es @ [now])" and "\<forall>t \<in> set (heartbeats es). 0 \<le> t"
  shows "let connected = (\<exists>t \<in> set (heartbeats es). ms_of now - ms_of t < 4000);
             (m', l') = fc_update_alive now (m, l)
         in fc_is_alive m' = connected
          \<and> l' = (if connected = fc_is_alive m then l
                  else if connected then hud_info now ''FC connected'' l else hud_warning now ''FC disconnected'' l)"
proof -
  let ?c = "\<exists>t \<in> set (heartbeats es). ms_of now - ms_of t < 4000"
  have last: "fc_last_heartbeat_ms m = (if heartbeats es = [] then -1 else ms_of (List.last (heartbeats es)))"
    using last_heartbeat_run [OF assms(1)] by (simp add: fc_model_new_def)
  have alive: "fc_is_alive m \<longrightarrow> fc_last_heartbeat_ms m \<noteq> -1"
    by (rule alive_run [OF assms(3,1)]) (simp add: fc_model_new_def)
  have "sorted (heartbeats es)" using assms(2) by (simp add: sorted_append)
  then have mono: "ms_of t \<le> ms_of (List.last (heartbeats es))" if "t \<in> set (heartbeats es)" for t
    using sorted_le_last [of "heartbeats es" t] that by (simp add: zdiv_mono1)
  have c: "?c \<longleftrightarrow> heartbeats es \<noteq> [] \<and> ms_of now - ms_of (List.last (heartbeats es)) < 4000"
    using mono by (cases "heartbeats es = []") (auto intro: bexI [of _ "List.last (heartbeats es)"], force)
  have "0 \<le> ms_of (List.last (heartbeats es))" if "heartbeats es \<noteq> []"
    using assms(3) last_in_set [OF that] by (simp add: pos_imp_zdiv_nonneg_iff)
  then show ?thesis
    unfolding c using last alive
    by (cases "heartbeats es = []")
      (simp_all add: fc_update_alive_def send_message_hud_connection_def Let_def split: prod.split)
qed

theorem fc_connection_shown_witness:
  "\<exists>m l. rfold (fc_model_step demo_fc_environment demo_fc_config)
       [Fc_Received 1000000000 (Fc_Heartbeat (demo_heartbeat 1)), Fc_Received 1500000000 Attitude]
       (fc_model_new 0, \<lparr>hud_list = [], log_lists = (\<lambda>n. [])\<rparr>) = Inr (m, l)
     \<and> fc_is_alive (fst (fc_update_alive 4999000000 (m, l)))
     \<and> \<not> fc_is_alive (fst (fc_update_alive 5000000000 (m, l)))"
proof -
  let ?es = "[Fc_Received 1000000000 (Fc_Heartbeat (demo_heartbeat 1)), Fc_Received 1500000000 Attitude]"
  let ?l = "\<lparr>hud_list = [], log_lists = (\<lambda>n. [])\<rparr> :: log_state"
  obtain m l where r: "rfold (fc_model_step demo_fc_environment demo_fc_config) ?es (fc_model_new 0, ?l) = Inr (m, l)"
    using received_total [of demo_fc_environment demo_fc_config
        "[(1000000000, Fc_Heartbeat (demo_heartbeat 1)), (1500000000, Attitude)]" "fc_model_new 0" ?l]
    unfolding list.map prod.case by blast
  have h: "heartbeats ?es = [1000000000]" by (simp add: heartbeats_def)
  have "\<forall>t \<in> set (heartbeats ?es). 0 \<le> t" "sorted (heartbeats ?es @ [4999000000])" "sorted (heartbeats ?es @ [5000000000])"
    unfolding h by simp_all
  from fc_connection_shown [OF r this(2,1)] fc_connection_shown [OF r this(3,1)] r show ?thesis
    unfolding h by (intro exI [of _ m] exI [of _ l]) (auto simp: Let_def split_def simp del: rfold.simps)
qed

section \<open>A quiet flight controller\<close>

fun is_attitude :: "fc_model_event \<Rightarrow> bool" where
  "is_attitude (Fc_Received now Attitude) \<longleftrightarrow> True"
| "is_attitude _ \<longleftrightarrow> False"

lemma counters_step:
  assumes "fc_model_step e k ev (m, l) = Inr (m', l')"
  shows "m_n_heartbeats m' = (if heartbeat_at ev = [] then m_n_heartbeats m
        else if m_n_heartbeats m \<ge> 10 then 0 else m_n_heartbeats m + 1)
    \<and> m_n_attitude_messages m' = (if is_attitude ev then m_n_attitude_messages m + 1
        else if heartbeat_at ev \<noteq> [] \<and> m_n_heartbeats m \<ge> 10 then 0 else m_n_attitude_messages m)"
proof (cases ev)
  case (Fc_Received now c)
  then have "m' = fst (handle_fc_content e now c ((update_attitude_rate now m)\<lparr>fc_last_message_ms := ms_of now\<rparr>, l))"
    using assms by (auto simp: fc_model_message_def)
  with Fc_Received show ?thesis
    by (cases c) (auto simp: heartbeat_sel position_sel)
next
  case (Fc_User now u)
  with assms show ?thesis by (auto dest!: with_action_fst)
qed (use assms in \<open>auto simp: fc_update_alive_def updateFlightTimer_def Let_def split: if_splits\<close>)

lemma heartbeat_at_cases: "heartbeat_at ev = [] \<or> (\<exists>t. heartbeat_at ev = [t]) \<and> \<not> is_attitude ev"
  by (cases ev rule: heartbeat_at.cases) auto

lemma heartbeat_count:
  assumes "rfold (fc_model_step e k) es (m, l) = Inr (m', l')" and "m_n_heartbeats m = int n" and "n \<le> 10"
  shows "m_n_heartbeats m' = int ((n + length (heartbeats es)) mod 11)"
  using assms
proof (induction es arbitrary: m l n)
  case (Cons ev es)
  then obtain m1 l1 where 1: "fc_model_step e k ev (m, l) = Inr (m1, l1)"
    "rfold (fc_model_step e k) es (m1, l1) = Inr (m', l')"
    by (auto simp: result_simps)
  let ?n = "if heartbeat_at ev = [] then n else if n \<ge> 10 then 0 else n + 1"
  have "m_n_heartbeats m1 = int ?n" "?n \<le> 10"
    using counters_step [OF 1(1)] Cons.prems(2,3) by auto
  from Cons.IH [OF 1(2) this] show ?case
    using heartbeat_at_cases [of ev] Cons.prems(3)
    by (auto simp: heartbeats_def split: if_splits)
next
  case Nil
  then show ?case by (simp add: heartbeats_def)
qed

lemma attitude_count:
  assumes "rfold (fc_model_step e k) es (m, l) = Inr (m', l')"
    and "m_n_heartbeats m + int (length (heartbeats es)) \<le> 10" and "0 \<le> m_n_attitude_messages m"
  shows "m_n_heartbeats m' = m_n_heartbeats m + int (length (heartbeats es))
    \<and> m_n_attitude_messages m' = m_n_attitude_messages m + int (length (filter is_attitude es))"
  using assms
proof (induction es arbitrary: m l)
  case (Cons ev es)
  then obtain m1 l1 where 1: "fc_model_step e k ev (m, l) = Inr (m1, l1)"
    "rfold (fc_model_step e k) es (m1, l1) = Inr (m', l')"
    by (auto simp: result_simps)
  have n: "m_n_heartbeats m1 = m_n_heartbeats m + int (length (heartbeat_at ev))"
    "m_n_attitude_messages m1 = m_n_attitude_messages m + (if is_attitude ev then 1 else 0)"
    using counters_step [OF 1(1)] heartbeat_at_cases [of ev] Cons.prems(2)
    by (auto simp: heartbeats_def)
  with Cons.IH [OF 1(2)] Cons.prems show ?case by (auto simp: heartbeats_def)
qed (simp add: heartbeats_def)

text \<open>The warning about a quiet flight controller comes with every eleventh heartbeat, if no attitude has arrived since
  the check before (or the start) and the setting is on, and never otherwise.\<close>

theorem quiet_fc_warning:
  assumes "rfold (fc_model_step e k) (pre @ block) (fc_model_new start, l0) = Inr (m, l)"
    and "pre = [] \<or> heartbeat_at (List.last pre) \<noteq> []" and "length (heartbeats pre) mod 11 = 0"
    and "length (heartbeats block) \<le> 10"
    and "parse_heartbeat (env_dialect e) hb \<noteq> None" and "get_arm_mode_from_heartbeat (env_dialect e) hb = armed m"
  shows "snd (fc_model_message e now (Fc_Heartbeat hb) (m, l)) =
    (if length (heartbeats block) = 10 \<and> log_quiet_fc_warning_to_hud e \<and> \<not> (\<exists>ev \<in> set block. is_attitude ev)
     then hud_warning now ''Quiet FC, please check your mavlink message rate(s)'' l else l)"
proof -
  obtain m1 l1 where run: "rfold (fc_model_step e k) pre (fc_model_new start, l0) = Inr (m1, l1)"
    "rfold (fc_model_step e k) block (m1, l1) = Inr (m, l)"
    using assms(1) by (auto simp: rfold_append result_simps)
  have m1: "m_n_heartbeats m1 = 0 \<and> m_n_attitude_messages m1 = 0"
  proof (cases "pre = []")
    case True
    with run(1) show ?thesis by (auto simp: fc_model_new_def)
  next
    case False
    then obtain p ev where p: "pre = p @ [ev]" by (metis append_butlast_last_id)
    with assms(2) heartbeat_at_cases [of ev] obtain t where ev: "heartbeat_at ev = [t]" "\<not> is_attitude ev" by auto
    obtain m2 l2 where 2: "rfold (fc_model_step e k) p (fc_model_new start, l0) = Inr (m2, l2)"
      "fc_model_step e k ev (m2, l2) = Inr (m1, l1)"
      using run(1) p by (auto simp: rfold_append result_simps)
    have "(length (heartbeats p) + 1) mod 11 = 0"
      using assms(3) ev by (simp add: p heartbeats_def)
    then have "length (heartbeats p) mod 11 = 10" by presburger
    with heartbeat_count [OF 2(1), of 0] have "m_n_heartbeats m2 = 10" by (simp add: fc_model_new_def)
    with counters_step [OF 2(2)] ev show ?thesis by simp
  qed
  with attitude_count [OF run(2)] assms(4)
  have n: "m_n_heartbeats m = int (length (heartbeats block))"
    "m_n_attitude_messages m = int (length (filter is_attitude block))"
    by auto
  have att: "length (filter is_attitude block) = 0 \<longleftrightarrow> \<not> (\<exists>ev \<in> set block. is_attitude ev)"
    by (auto simp: filter_empty_conv)
  obtain info where "parse_heartbeat (env_dialect e) hb = Some info" using assms(5) by auto
  then show ?thesis
    unfolding att [symmetric] using n assms(4,6)
    by (auto simp: fc_model_message_def process_heartbeat_def set_armed_def Let_def)
qed

theorem quiet_fc_warning_witness:
  "\<exists>m l. rfold (fc_model_step demo_fc_environment demo_fc_config)
       (replicate 10 (Fc_Received 1000000000 (Fc_Heartbeat (demo_heartbeat 1))))
       (fc_model_new 0, \<lparr>hud_list = [], log_lists = (\<lambda>n. [])\<rparr>) = Inr (m, l)
     \<and> snd (fc_model_message demo_fc_environment 2000000000 (Fc_Heartbeat (demo_heartbeat 1)) (m, l)) =
         hud_warning 2000000000 ''Quiet FC, please check your mavlink message rate(s)'' l"
proof -
  let ?h = "Fc_Received 1000000000 (Fc_Heartbeat (demo_heartbeat 1))"
  let ?es = "replicate 10 ?h"
  let ?l = "\<lparr>hud_list = [], log_lists = (\<lambda>n. [])\<rparr> :: log_state"
  let ?step = "fc_model_step demo_fc_environment demo_fc_config"
  have es: "?es = replicate 9 ?h @ [?h]" by (simp add: numeral_eq_Suc)
  obtain m0 l0 where r0: "rfold ?step (replicate 9 ?h) (fc_model_new 0, ?l) = Inr (m0, l0)"
    using received_total [of demo_fc_environment demo_fc_config "replicate 9 (1000000000, Fc_Heartbeat (demo_heartbeat 1))"
        "fc_model_new 0" ?l]
    unfolding map_replicate prod.case by blast
  obtain m l where m: "fc_model_message demo_fc_environment 1000000000 (Fc_Heartbeat (demo_heartbeat 1)) (m0, l0) = (m, l)"
    by fastforce
  have r: "rfold ?step ([] @ ?es) (fc_model_new 0, ?l) = Inr (m, l)"
    unfolding es append_Nil rfold_append r0 by (simp add: m)
  have "\<not> armed m"
    using demo_disarmed [of 1000000000 m0 l0] by (simp add: m)
  then have p: "parse_heartbeat (env_dialect demo_fc_environment) (demo_heartbeat 1) \<noteq> None"
    "get_arm_mode_from_heartbeat (env_dialect demo_fc_environment) (demo_heartbeat 1) = armed m"
    by (simp_all add: demo_steps Let_def)
  have h: "length (heartbeats ?es) = 10" "\<not> (\<exists>ev \<in> set ?es. is_attitude ev)"
    by (simp_all add: heartbeats_def numeral_eq_Suc)
  have "log_quiet_fc_warning_to_hud demo_fc_environment" by (simp add: demo_fc_environment_def)
  with quiet_fc_warning [OF r _ _ _ p, of 2000000000] h
  have "snd (fc_model_message demo_fc_environment 2000000000 (Fc_Heartbeat (demo_heartbeat 1)) (m, l)) =
      hud_warning 2000000000 ''Quiet FC, please check your mavlink message rate(s)'' l"
    by (simp add: heartbeats_def)
  with r show ?thesis by auto
qed

section \<open>The flight distance\<close>

lemma position_distance:
  "total_dist (process_position e p m) = total_dist m \<and> flight_distance_m (process_position e p m) = flight_distance_m m
   \<or> total_dist (process_position e p m) > total_dist m + 2
     \<and> flight_distance_m (process_position e p m) \<in> {flight_distance_m m, total_dist (process_position e p m)}"
  by (simp add: process_position_def calculate_home_course_def calculate_home_distance_def set_home_course_def
      set_home_heading_def count_distance_def Let_def)

definition distance_grows :: "fc_model \<Rightarrow> fc_model \<Rightarrow> bool" where
  "distance_grows m m' \<longleftrightarrow>
     total_dist m' = total_dist m \<and> (flight_distance_m m' = flight_distance_m m \<or> flight_distance_m m' = 0)
     \<or> total_dist m' > total_dist m + 2
       \<and> (flight_distance_m m' = flight_distance_m m \<or> flight_distance_m m' = total_dist m')"

lemma distance_grows_same:
  "total_dist m' = total_dist m \<Longrightarrow> flight_distance_m m' = flight_distance_m m \<Longrightarrow> distance_grows m m'"
  by (simp add: distance_grows_def)

lemma distance_content: "distance_grows m (fst (handle_fc_content e now c (m, l)))"
proof (cases c)
  case (Fc_Heartbeat hb)
  with heartbeat_sel(2,3) [of e now hb m l] show ?thesis by (simp add: distance_grows_def)
next
  case (Global_Position_Int p)
  with position_distance [of e p m] show ?thesis by (auto simp: distance_grows_def)
qed (simp_all add: distance_grows_same)

lemma distance_step:
  assumes "fc_model_step e k ev (m, l) = Inr (m', l')"
  shows "distance_grows m m'"
proof (cases ev)
  case (Fc_Received now c)
  let ?m = "(update_attitude_rate now m)\<lparr>fc_last_message_ms := ms_of now\<rparr>"
  have "m' = fst (handle_fc_content e now c (?m, l))"
    using assms Fc_Received by (auto simp: fc_model_message_def)
  with distance_content [of ?m e now c l] show ?thesis by (simp add: distance_grows_def)
next
  case (Fc_User now u)
  with assms show ?thesis by (auto dest!: with_action_fst simp: distance_grows_same)
qed (use assms in \<open>auto simp: fc_update_alive_def updateFlightTimer_def Let_def distance_grows_same split: if_splits\<close>)

text \<open>A flight distance is not that of the flight: from the moment it is zero, as it is after arming, what is shown is zero
  or more than everything that was counted before, in all earlier flights and on the ground, because arming does
  not set the sum back.\<close>

theorem flight_distance_carried_over:
  assumes "rfold (fc_model_step e k) es (m, l) = Inr (m', l')" and "flight_distance_m m = 0"
  shows "flight_distance_m m' = 0
    \<or> total_dist m + 2 < flight_distance_m m' \<and> flight_distance_m m' \<le> total_dist m'"
proof -
  have "total_dist m \<le> total_dist m' \<and> (flight_distance_m m' = 0
      \<or> total_dist m + 2 < flight_distance_m m' \<and> flight_distance_m m' \<le> total_dist m')"
    using assms
  proof (induction es arbitrary: m' l' rule: rev_induct)
    case (snoc ev es)
    then obtain m1 l1 where 1: "rfold (fc_model_step e k) es (m, l) = Inr (m1, l1)"
      "fc_model_step e k ev (m1, l1) = Inr (m', l')"
      by (auto simp: rfold_append result_simps)
    from snoc.IH [OF 1(1) snoc.prems(2)] distance_step [OF 1(2)] show ?case
      by (auto simp: distance_grows_def)
  qed simp
  then show ?thesis by simp
qed

text \<open>What counts for the distance.\<close>

definition distance_view :: "fc_model \<Rightarrow> bool \<times> (rat \<times> rat) \<times> (rat \<times> rat) \<times> rat \<times> rat \<times> rat" where
  "distance_view m = (armed m, (lat m, lon m), (last_lat m, last_lon m), gps_hdop m, total_dist m, flight_distance_m m)"

lemma view_heartbeat:
  assumes "distance_view m = (b, p, q, h, t, f)"
  shows "distance_view (fst (fc_model_message demo_fc_environment now (Fc_Heartbeat (demo_heartbeat (if b' then 129 else 1))) (m, l))) =
    (b', p, q, h, t, if b' \<and> \<not> b then 0 else f)"
proof -
  have p: "get_arm_mode_from_heartbeat (env_dialect demo_fc_environment) (demo_heartbeat (if b' then 129 else 1)) = b'"
    "parse_heartbeat (env_dialect demo_fc_environment) (demo_heartbeat (if b' then 129 else 1)) \<noteq> None"
    by (simp_all add: demo_steps Let_def)
  then obtain info where "parse_heartbeat (env_dialect demo_fc_environment) (demo_heartbeat (if b' then 129 else 1)) = Some info"
    by blast
  with p(1) assms show ?thesis
    unfolding fc_model_message_def split_conv handle_fc_content.simps heartbeat_fst fst_set_armed
    by (auto simp: Let_def distance_view_def update_attitude_rate_def set_flight_mode_def)
qed

lemma view_frame [simp]:
  "distance_view (calculate_home_course e m) = distance_view m"
  "distance_view (calculate_home_distance e m) = distance_view m"
  "distance_view (update_attitude_rate now m) = distance_view m"
  "distance_view (m\<lparr>fc_last_message_ms := x\<rparr>) = distance_view m"
  by (simp_all add: distance_view_def calculate_home_course_def calculate_home_distance_def set_home_course_def
      set_home_heading_def update_attitude_rate_def Let_def)

lemma view_position:
  assumes v: "distance_view m = (b, p, q, h, t, f)"
  shows "distance_view (fst (fc_model_message demo_fc_environment now (Global_Position_Int (demo_position x)) (m, l))) =
    (let new = (1 + of_int x / 100000, 1);
         d = (if fst p \<noteq> 0 \<and> snd p \<noteq> 0 \<and> h < 20
              then \<bar>fst new - (if q = (0, 0) then fst p else fst q)\<bar> * 100000 else 0)
     in if d > 2 then (b, new, if b then new else q, h, t + d, if b then t + d else f) else (b, new, q, h, t, f))"
proof -
  have n: "of_int (pos_lat (demo_position x)) / 10000000 = 1 + rat_of_int x / 100000"
    "of_int (pos_lon (demo_position x)) / 10000000 = (1 :: rat)"
    by (simp_all add: demo_position_def field_simps)
  have d: "env_distance_between demo_fc_environment = (\<lambda>a b c d. \<bar>c - a\<bar> * 100000)"
    by (simp add: demo_fc_environment_def)
  let ?m = "(update_attitude_rate now m)\<lparr>fc_last_message_ms := ms_of now\<rparr>"
  have v': "distance_view ?m = (b, p, q, h, t, f)" using v by simp
  have "distance_view (process_position demo_fc_environment (demo_position x) ?m) =
      (let m' = count_distance demo_fc_environment (1 + rat_of_int x / 100000) 1 ?m in
       (armed m', (1 + rat_of_int x / 100000, 1), (last_lat m', last_lon m'), gps_hdop m', total_dist m', flight_distance_m m'))"
    unfolding process_position_def n Let_def view_frame by (simp add: distance_view_def)
  also have "\<dots> = (let new = (1 + of_int x / 100000, 1);
         d = (if fst p \<noteq> 0 \<and> snd p \<noteq> 0 \<and> h < 20
              then \<bar>fst new - (if q = (0, 0) then fst p else fst q)\<bar> * 100000 else 0)
     in if d > 2 then (b, new, if b then new else q, h, t + d, if b then t + d else f) else (b, new, q, h, t, f))"
    using v' unfolding count_distance_def added_distance_def d Let_def distance_view_def by auto
  finally show ?thesis by (simp add: fc_model_message_def)
qed

theorem flight_distance_carried_over_witness:
  "let step = fc_model_step demo_fc_environment demo_fc_config
   in \<exists>m l m' l'. rfold step demo_flights (fc_model_new 0, \<lparr>hud_list = [], log_lists = (\<lambda>n. [])\<rparr>) = Inr (m, l)
     \<and> flight_distance_m m = 0 \<and> rfold step [Fc_Received 0 (Global_Position_Int (demo_position 103))] (m, l) = Inr (m', l')
     \<and> flight_distance_m m' > 102"
proof -
  let ?step = "fc_model_step demo_fc_environment demo_fc_config"
  let ?msg = "\<lambda>c ml. fc_model_message demo_fc_environment 0 c ml"
  let ?l0 = "\<lparr>hud_list = [], log_lists = (\<lambda>n. [])\<rparr> :: log_state"
  let ?ml0 = "(fc_model_new 0, ?l0)"
  obtain m1 l1 where 1: "?msg (Global_Position_Int (demo_position 0)) ?ml0 = (m1, l1)" by fastforce
  obtain m2 l2 where 2: "?msg (Fc_Heartbeat (demo_heartbeat 129)) (m1, l1) = (m2, l2)" by fastforce
  obtain m3 l3 where 3: "?msg (Global_Position_Int (demo_position 100)) (m2, l2) = (m3, l3)" by fastforce
  obtain m4 l4 where 4: "?msg (Fc_Heartbeat (demo_heartbeat 1)) (m3, l3) = (m4, l4)" by fastforce
  obtain m l where 5: "?msg (Fc_Heartbeat (demo_heartbeat 129)) (m4, l4) = (m, l)" by fastforce
  obtain m' l' where 6: "?msg (Global_Position_Int (demo_position 103)) (m, l) = (m', l')" by fastforce
  have "distance_view (fc_model_new 0) = (False, (0, 0), (0, 0), -1, 0, 0)"
    by (simp add: distance_view_def fc_model_new_def)
  from view_position [OF this, of 0 0 ?l0] have "distance_view m1 = (False, (1, 1), (0, 0), -1, 0, 0)" using 1 by simp
  from view_heartbeat [OF this, of 0 True l1] have "distance_view m2 = (True, (1, 1), (0, 0), -1, 0, 0)" using 2 by simp
  from view_position [OF this, of 0 100 l2]
  have "distance_view m3 = (True, (1 + 100 / 100000, 1), (1 + 100 / 100000, 1), -1, 100, 100)" using 3 by (simp add: Let_def)
  from view_heartbeat [OF this, of 0 False l3]
  have "distance_view m4 = (False, (1 + 100 / 100000, 1), (1 + 100 / 100000, 1), -1, 100, 100)" using 4 by simp
  from view_heartbeat [OF this, of 0 True l4]
  have v: "distance_view m = (True, (1 + 100 / 100000, 1), (1 + 100 / 100000, 1), -1, 100, 0)" using 5 by simp
  from view_position [OF this, of 0 103 l] have "flight_distance_m m' \<noteq> 0" using 6 by (simp add: distance_view_def Let_def)
  moreover have "rfold ?step [Fc_Received 0 (Global_Position_Int (demo_position 103))] (m, l) = Inr (m', l')"
    using 6 by simp
  moreover have "flight_distance_m m = 0" "total_dist m = 100" using v by (simp_all add: distance_view_def)
  moreover note flight_distance_carried_over [OF calculation(2,3)]
  moreover have "rfold ?step demo_flights ?ml0 = Inr (m, l)"
    by (simp add: demo_flights_def 1 2 3 4 5)
  ultimately show ?thesis unfolding Let_def by (intro exI conjI) auto
qed

section \<open>Batteries\<close>

text \<open>The same battery under the two ids: a thousand times the voltage; and both lose the decimals of the current the system status
  shows.\<close>

lemma second_battery_in_millivolt:
  assumes "0 \<le> bat_current b"
  shows "shown_voltage_volt (battery_id1 (process_battery_status e (b\<lparr>bat_id := 1\<rparr>) m)) =
      1000 * shown_voltage_volt (battery_id0 (process_battery_status e (b\<lparr>bat_id := 0\<rparr>) m))"
    and "shown_current_ampere (battery_id0 (process_battery_status e (b\<lparr>bat_id := 0\<rparr>) m)) =
      of_int \<lfloor>battery_current_ampere (process_sys_status e v (bat_current b) r m)\<rfloor>"
proof -
  have "c_div (bat_current b) 100 = \<lfloor>rat_of_int (bat_current b) / 100\<rfloor>"
    using assms floor_divide_of_int_eq [of "bat_current b" 100, where 'a = rat]
    by (cases "bat_current b = 0") (simp_all add: c_div_def)
  then show "shown_current_ampere (battery_id0 (process_battery_status e (b\<lparr>bat_id := 0\<rparr>) m)) =
      of_int \<lfloor>battery_current_ampere (process_sys_status e v (bat_current b) r m)\<rfloor>"
    by (simp add: process_battery_status_def process_sys_status_def battery_of_def show_percent_def Let_def)
qed (simp add: process_battery_status_def battery_of_def show_percent_def Let_def)

text \<open>A charge that is not known.\<close>

lemma unknown_charge_shown:
  "\<not> air_battery_use_batt_id_0_only e \<Longrightarrow> bat_remaining b = -1 \<Longrightarrow>
     battery_percent (process_battery_status e b m) = -1"
  "battery_percent (process_sys_status e v c (-1) m) = battery_percent m"
  by (simp_all add: process_battery_status_def process_sys_status_def show_percent_def Let_def)

section \<open>The course home\<close>

definition course_ok :: "fc_model \<Rightarrow> bool" where
  "course_ok m \<longleftrightarrow> 0 \<le> hdg m \<and> hdg m < 360 \<and> 0 \<le> m_home_course m \<and> m_home_course m < 360
     \<and> 0 \<le> m_home_heading m \<and> m_home_heading m < 360"

fun heading_ok :: "fc_model_event \<Rightarrow> bool" where
  "heading_ok (Fc_Received now (Global_Position_Int p)) \<longleftrightarrow> pos_hdg p < 36000 \<or> pos_hdg p = 0xFFFF"
| "heading_ok _ \<longleftrightarrow> True"

lemma set_home_course_ok:
  "0 \<le> c \<Longrightarrow> c \<le> 360 \<Longrightarrow> 0 \<le> hdg m \<Longrightarrow> hdg m < 360 \<Longrightarrow>
     0 \<le> m_home_course (set_home_course c m) \<and> m_home_course (set_home_course c m) < 360
     \<and> hdg (set_home_course c m) = hdg m"
  by (simp add: set_home_course_def Let_def)

lemma set_home_heading_ok:
  "0 \<le> c \<Longrightarrow> c \<le> 360 \<Longrightarrow>
     0 \<le> m_home_heading (set_home_heading c m) \<and> m_home_heading (set_home_heading c m) < 360
     \<and> hdg (set_home_heading c m) = hdg m \<and> m_home_course (set_home_heading c m) = m_home_course m"
  by (simp add: set_home_heading_def Let_def)

lemma home_course_ok:
  assumes "\<And>a b c d. 0 \<le> env_bearing e a b c d \<and> env_bearing e a b c d \<le> 360" and "0 \<le> hdg m" and "hdg m < 360"
  shows "course_ok (calculate_home_course e m)"
proof -
  let ?r = "\<lfloor>env_bearing e (home_latitude m) (home_longitude m) (lat m) (lon m)\<rfloor>"
  have "0 \<le> ?r" "?r \<le> 360"
    using assms(1) [of "home_latitude m" "home_longitude m" "lat m" "lon m"] by (simp_all add: floor_le_iff le_less_trans)
  with set_home_course_ok [of ?r m] set_home_heading_ok [of ?r "set_home_course ?r m"] assms(2,3) show ?thesis
    by (simp add: calculate_home_course_def course_ok_def Let_def)
qed

lemma position_course:
  assumes "\<And>a b c d. 0 \<le> env_bearing e a b c d \<and> env_bearing e a b c d \<le> 360"
    and "pos_hdg p < 36000 \<or> pos_hdg p = 0xFFFF"
  shows "course_ok (process_position e p m)"
proof -
  have "uint (pos_hdg p) div 100 < 360" if "pos_hdg p < 36000"
    using that by (simp add: word_less_def)
  then have h: "0 \<le> (if pos_hdg p \<noteq> 0xFFFF then uint (pos_hdg p) div 100 else 0)"
    "(if pos_hdg p \<noteq> 0xFFFF then uint (pos_hdg p) div 100 else 0) < 360"
    using assms(2) by (auto simp: pos_imp_zdiv_nonneg_iff)
  have d: "hdg (calculate_home_distance e m') = hdg m'" for m'
    by (simp add: calculate_home_distance_def)
  show ?thesis
    unfolding process_position_def Let_def by (rule home_course_ok [OF assms(1)]) (use h in \<open>simp_all add: d split: if_splits\<close>)
qed

lemma course_step:
  assumes "\<And>a b c d. 0 \<le> env_bearing e a b c d \<and> env_bearing e a b c d \<le> 360"
    and "heading_ok ev" and "course_ok m" and "fc_model_step e k ev (m, l) = Inr (m', l')"
  shows "course_ok m'"
proof (cases ev)
  case (Fc_Received now c)
  then have "m' = fst (handle_fc_content e now c ((update_attitude_rate now m)\<lparr>fc_last_message_ms := ms_of now\<rparr>, l))"
    using assms(4) by (auto simp: fc_model_message_def)
  with Fc_Received assms(1-3) position_course [OF assms(1)] show ?thesis
    by (cases c) (auto simp: heartbeat_sel course_ok_def)
next
  case (Fc_User now u)
  with assms(3,4) show ?thesis by (auto simp: course_ok_def dest!: with_action_fst)
qed (use assms(3,4) in \<open>auto simp: course_ok_def fc_update_alive_def updateFlightTimer_def Let_def split: if_splits\<close>)

text \<open>The arrows: as long as the flight controller reports headings below 360 degrees (or none) and bearings are between 0 and 360
  degrees, the course home relative to the nose and the direction home are always a number of
  whole degrees from 0 to 359.\<close>

theorem home_course_bounds:
  assumes "rfold (fc_model_step e k) es (fc_model_new start, l0) = Inr (m, l)"
    and "\<And>a b c d. 0 \<le> env_bearing e a b c d \<and> env_bearing e a b c d \<le> 360"
    and "list_all heading_ok es"
  shows "0 \<le> m_home_course m \<and> m_home_course m < 360 \<and> 0 \<le> m_home_heading m \<and> m_home_heading m < 360"
proof -
  have "course_ok m'" if "rfold (fc_model_step e k) es (m0, l0) = Inr (m', l')" "course_ok m0" for m0 l0 m' l'
    using that assms(3)
  proof (induction es arbitrary: m0 l0)
    case (Cons ev es)
    then obtain m1 l1 where 1: "fc_model_step e k ev (m0, l0) = Inr (m1, l1)"
      "rfold (fc_model_step e k) es (m1, l1) = Inr (m', l')"
      by (auto simp: result_simps)
    with course_step [OF assms(2) _ Cons.prems(2) 1(1)] Cons show ?case by auto
  qed simp
  from this [OF assms(1)] show ?thesis
    by (simp add: course_ok_def fc_model_new_def)
qed

theorem home_course_bounds_witness:
  "\<exists>m l. rfold (fc_model_step demo_fc_environment demo_fc_config) [Fc_Received 0 (Global_Position_Int (demo_position 5))]
       (fc_model_new 0, \<lparr>hud_list = [], log_lists = (\<lambda>n. [])\<rparr>) = Inr (m, l)
     \<and> 0 \<le> m_home_course m \<and> m_home_course m < 360 \<and> m_home_heading m < 360"
proof -
  let ?l0 = "\<lparr>hud_list = [], log_lists = (\<lambda>n. [])\<rparr> :: log_state"
  let ?es = "[Fc_Received 0 (Global_Position_Int (demo_position 5))]"
  obtain m l where r: "rfold (fc_model_step demo_fc_environment demo_fc_config) ?es (fc_model_new 0, ?l0) = Inr (m, l)"
    using received_total [of demo_fc_environment demo_fc_config "[(0, Global_Position_Int (demo_position 5))]" "fc_model_new 0" ?l0]
    unfolding list.map prod.case by blast
  have "list_all heading_ok ?es" "\<And>a b c d. 0 \<le> env_bearing demo_fc_environment a b c d \<and> env_bearing demo_fc_environment a b c d \<le> 360"
    by (simp_all add: demo_position_def demo_fc_environment_def)
  from home_course_bounds [OF r this(2,1)] r show ?thesis
    by (intro exI [of _ m] exI [of _ l]) (simp del: rfold.simps)
qed

section \<open>The mode asked for is the mode shown\<close>

lemma named_mode_heartbeat:
  assumes "hb_autopilot hb = MAV_AUTOPILOT_ARDUPILOTMEGA" and "custom_mode_enabled (env_dialect e) hb"
  shows "m_flight_mode (fst (fc_model_message e now (Fc_Heartbeat hb) (m, l))) =
      flight_mode (type_and_flight_mode_as_string (mav_dialect.truncate (env_dialect e))
        (mav_type_of (env_dialect e) (hb_type hb)) (hb_custom_mode hb))"
proof -
  let ?tm = "type_and_flight_mode_as_string (mav_dialect.truncate (env_dialect e))
        (mav_type_of (env_dialect e) (hb_type hb)) (hb_custom_mode hb)"
  obtain info where "parse_heartbeat (env_dialect e) hb = Some info" "info_flight_mode info = flight_mode ?tm"
    using assms by (auto simp: parse_heartbeat_def ardu_info_def Let_def)
  then show ?thesis
    by (auto simp: fc_model_message_def heartbeat_fst Let_def fst_set_armed)
qed

text \<open>C19. Asking for a mode by its name reaches that mode, from the button to the text over the video: with a living copter or plane whose
  type is known, no other change under way and room in the sender, the request sends one command to set the mode, and
  once the vehicle reports the number in it the screen shows the mode of that name, although the numbers of copters and planes differ.
  No two names have the same text. Only the mode of the automatic return is left out: it can be asked for, but the screen has no text
  for it, see \<open>auto_rtl_unknown\<close>.\<close>

theorem mode_asked_is_shown:
  assumes "numbers_agree (mav_dialect.truncate (env_dialect e)) (numbers k)" and "fc_is_alive m"
    and "has_mapping (mav_dialect.truncate (env_dialect e)) (numbers k) name (action m)" and "name \<noteq> ''AUTO_RTL''"
    and "\<not> m_has_currently_runnning_flight_mode_change (action m)"
    and "length (m_running_commands (fc_sender (action m))) < 5"
  shows "\<exists>m1 c. fc_model_step e k (Fc_User now (Ask_Mode_Named now fc name)) (m, l) = Inr (m1, l)
    \<and> sent (fc_sender (action m1)) = sent (fc_sender (action m)) @ [c] \<and> command c = MAV_CMD_DO_SET_MODE
    \<and> (\<forall>hb later l'. hb_autopilot hb = MAV_AUTOPILOT_ARDUPILOTMEGA \<longrightarrow> custom_mode_enabled (env_dialect e) hb
         \<longrightarrow> hb_type hb = of_int (m_ardupilot_mav_type (action m))
         \<longrightarrow> hb_custom_mode hb = of_int (cmd_params (other_fields c) ! 1)
         \<longrightarrow> m_flight_mode (fst (fc_model_message e later (Fc_Heartbeat hb) (m1, l'))) = the (map_of mode_texts name))
    \<and> distinct (map snd mode_texts)"
proof -
  let ?d = "mav_dialect.truncate (env_dialect e)"
  have "seen_alive (fc\<lparr>seen_alive := fc_is_alive m\<rparr>)" using assms(2) by simp
  from named_mode_sent [OF assms(1) this assms(3-6), of now]
  obtain a' c where a': "flight_mode_cmd_async_string ?d (numbers k) now (fc\<lparr>seen_alive := fc_is_alive m\<rparr>) name (action m) = Inr a'"
    "sent (fc_sender a') = sent (fc_sender (action m)) @ [c]" "command c = MAV_CMD_DO_SET_MODE" "fc_hud a' = fc_hud (action m)"
    "flight_mode (type_and_flight_mode_as_string ?d (mav_type_of ?d (of_int (m_ardupilot_mav_type (action m))))
        (of_int (cmd_params (other_fields c) ! 1))) = the (map_of mode_texts name)"
    by blast
  have t: "mav_type_of ?d = mav_type_of (env_dialect e)" by (simp add: mav_dialect.defs)
  from a' show ?thesis
    using mode_texts_distinct(2) unfolding t
    by (intro exI [where x = "m\<lparr>action := a'\<rparr>"] exI [where x = c])
      (simp add: with_action_def fc_config_of_def named_mode_heartbeat)
qed

theorem mode_asked_is_shown_witness:
  "let m = (fc_model_new 0)\<lparr>fc_is_alive := True, action := fc_action_new\<lparr>m_ardupilot_mav_type := 2\<rparr>\<rparr>;
       l = \<lparr>hud_list = [], log_lists = (\<lambda>n. [])\<rparr> in
   \<exists>m1 c. fc_model_step demo_fc_environment demo_fc_config (Fc_User 0 (Ask_Mode_Named 0 demo_fc ''POS_HOLD'')) (m, l) = Inr (m1, l)
     \<and> sent (fc_sender (action m1)) = [c]
     \<and> m_flight_mode (fst (fc_model_message demo_fc_environment 5 (Fc_Heartbeat
         ((demo_heartbeat 1)\<lparr>hb_custom_mode := of_int (cmd_params (other_fields c) ! 1)\<rparr>)) (m1, l))) = ''Position Hold''"
proof -
  let ?l = "\<lparr>hud_list = [], log_lists = (\<lambda>n. [])\<rparr> :: log_state"
  let ?m = "(fc_model_new 0)\<lparr>fc_is_alive := True, action := fc_action_new\<lparr>m_ardupilot_mav_type := 2\<rparr>\<rparr>"
  have d: "mav_dialect.truncate (env_dialect demo_fc_environment) = demo_dialect" "numbers demo_fc_config = demo_numbers"
    by (simp_all add: demo_fc_environment_def demo_fc_config_def mav_dialect.defs)
  have m: "has_mapping demo_dialect demo_numbers ''POS_HOLD'' (action ?m)" "fc_is_alive ?m"
    "\<not> m_has_currently_runnning_flight_mode_change (action ?m)" "m_ardupilot_mav_type (action ?m) = 2"
    "length (m_running_commands (fc_sender (action ?m))) < 5" "sent (fc_sender (action ?m)) = []"
    by (simp_all add: has_mapping_def flight_mode_string_to_int_def create_fm_mapping_def Let_def demo_dialect_def
        flight_mode_is_copter_def demo_numbers_def fc_action_new_def cmd_sender_new_def)
  have h: "custom_mode_enabled (env_dialect demo_fc_environment) ((demo_heartbeat 1)\<lparr>hb_custom_mode := x\<rparr>)"
    "hb_autopilot ((demo_heartbeat 1)\<lparr>hb_custom_mode := x\<rparr>) = MAV_AUTOPILOT_ARDUPILOTMEGA"
    "hb_type ((demo_heartbeat 1)\<lparr>hb_custom_mode := x\<rparr>) = 2"
    "hb_custom_mode ((demo_heartbeat 1)\<lparr>hb_custom_mode := x\<rparr>) = x" for x
    by (simp_all add: demo_steps)
  have t: "the (map_of mode_texts ''POS_HOLD'') = ''Position Hold''" by (simp add: mode_texts_def)
  from mode_asked_is_shown [where e = demo_fc_environment and k = demo_fc_config, unfolded d, OF numbers_agree_demo m(2,1) _ m(3,5), of 0 demo_fc ?l]
  show ?thesis
    unfolding Let_def m(4,6) t using h by (auto simp del: fc_model_step.simps)
qed

end
