(* ===== verification/Fc_Telemetry.thy ===== *)
theory Fc_Telemetry
  imports Fc_Shown Mavlink_Telemetry
begin

text \<open>
  The model of the flight controller inside the dispatch of telemetry. What it gets of a run is said by a reference, from the
  events: the first system that looks like an autopilot, its messages that no other component takes, and the timers.
  In every run what is shown of the flight controller is what its model alone makes of that, so that what \<open>Fc_Shown\<close> says
  of a run of the model holds for the program.
\<close>

section \<open>The logs do not matter\<close>

lemma set_armed_log: "fst (set_armed now b (m, l)) = fst (set_armed now b (m, l'))"
  by (simp add: fst_set_armed)

lemma heartbeat_log: "fst (process_heartbeat e now hb (m, l)) = fst (process_heartbeat e now hb (m, l'))"
  by (simp only: heartbeat_fst fst_set_armed)

lemma fc_message_log: "fst (fc_model_message e now c (m, l)) = fst (fc_model_message e now c (m, l'))"
  by (cases c) (simp_all add: fc_model_message_def heartbeat_log [of e now _ _ l l'])

lemma fc_alive_log: "fst (fc_update_alive now (m, l)) = fst (fc_update_alive now (m, l'))"
  by (simp add: fc_update_alive_def Let_def split: prod.split)

section \<open>What the flight controller says\<close>

text \<open>The source of the messages: the first one that is no unit and has the component of an autopilot or one of two special addresses.
  An id of 255 is refused, and then there is none.\<close>

datatype fc_source = Not_Found | Refused | Found u8

definition may_be_fc :: "mavlink_message \<Rightarrow> bool" where
  "may_be_fc msg \<longleftrightarrow>
     msg_sysid msg \<noteq> OHD_SYS_ID_AIR \<and> msg_sysid msg \<noteq> OHD_SYS_ID_GROUND
     \<and> (msg_compid msg = 1 \<or> msg_sysid msg = 0 \<or> (msg_compid msg = 250 \<and> msg_sysid msg = 1))"

fun source_after :: "telemetry_event \<Rightarrow> fc_source \<Rightarrow> fc_source" where
  "source_after (Mav_Message now msg) src =
     (if src = Not_Found \<and> may_be_fc msg then (if msg_sysid msg = 255 then Refused else Found (msg_sysid msg)) else src)"
| "source_after _ src = src"

text \<open>The messages another component takes: pings, answers to pending commands and requests for parameters, and the mission.\<close>

definition taken :: "telemetry_config \<Rightarrow> mavlink_message \<Rightarrow> telemetry \<Rightarrow> bool" where
  "taken k msg t \<longleftrightarrow>
     (case msg_content msg of
        Timesync tc1 ts1 \<Rightarrow> True
      | Command_Ack ack \<Rightarrow> snd (Cmd_Sender.process_message (own_sys k) (own_comp k) (Some ack) (sender (intervals t)))
      | Param p \<Rightarrow>
          (case Xparam.process_message p (msg_sysid msg) (msg_compid msg) (xp (ohd_app.settings (app t))) of
             Inl fault \<Rightarrow> True | Inr (x, consumed) \<Rightarrow> consumed)
      | Mission m \<Rightarrow> m \<noteq> Mission_Other
      | _ \<Rightarrow> False)"

fun fc_input :: "telemetry_config \<Rightarrow> fc_source \<Rightarrow> telemetry_event \<Rightarrow> telemetry \<Rightarrow> fc_model_event list" where
  "fc_input k src (Mav_Message now msg) t =
     (if src = Found (msg_sysid msg) \<and> \<not> taken k msg t then [Fc_Received now (fc_of (msg_content msg))] else [])"
| "fc_input k src (Fc_Alive now) t = [Fc_Alive_Timer now]"
| "fc_input k src (Fc_Flight_Time now) t = [Fc_Flight_Timer now]"
| "fc_input k src (Fc_Rc_Alive now) t = [Rc_Alive_Timer now]"
| "fc_input k src _ t = []"

fun fc_inputs :: "telemetry_config \<Rightarrow> fc_source \<Rightarrow> telemetry_event list \<Rightarrow> telemetry \<Rightarrow> fc_model_event list" where
  "fc_inputs k src [] t = []"
| "fc_inputs k src (e # es) t =
     (let src' = source_after e src in
      fc_input k src' e t @ (case telemetry_step k e t of Inl fault \<Rightarrow> [] | Inr t' \<Rightarrow> fc_inputs k src' es t'))"

text \<open>The result of the ping: the newest answer of a system other than the units to the newest ping.\<close>

fun fc_ping :: "int \<Rightarrow> int option \<Rightarrow> telemetry_event list \<Rightarrow> int option" where
  "fc_ping out r [] = r"
| "fc_ping out r (Ping now # es) = fc_ping (now div 1000) r es"
| "fc_ping out r (Mav_Message now msg # es) =
     (case msg_content msg of
        Timesync tc1 ts1 \<Rightarrow>
          if tc1 \<noteq> 0 \<and> ts1 = out \<and> msg_sysid msg \<noteq> OHD_SYS_ID_AIR \<and> msg_sysid msg \<noteq> OHD_SYS_ID_GROUND
          then fc_ping out (Some (now div 1000 - ts1)) es else fc_ping out r es
      | _ \<Rightarrow> fc_ping out r es)"
| "fc_ping out r (_ # es) = fc_ping out r es"

section \<open>One step\<close>

definition source_ok :: "fc_source \<Rightarrow> telemetry \<Rightarrow> bool" where
  "source_ok src t \<longleftrightarrow>
     (case src of
        Not_Found \<Rightarrow> \<not> m_fc_found t \<and> \<not> m_discovered (fc t)
      | Refused \<Rightarrow> m_fc_found t \<and> \<not> m_discovered (fc t)
      | Found i \<Rightarrow> m_fc_found t \<and> m_discovered (fc t) \<and> fc_m_sys_id (fc t) = uint i \<and> i \<noteq> 255
          \<and> i \<noteq> OHD_SYS_ID_AIR \<and> i \<noteq> OHD_SYS_ID_GROUND)"

lemma source_ok_view: "fc_view t' = fc_view t \<Longrightarrow> source_ok src t' = source_ok src t"
  by (simp add: source_ok_def fc_view_def split: fc_source.split)

lemma uint_255: "uint (i :: u8) \<ge> 255 \<longleftrightarrow> i = 255"
  using uint_lt2p [of i] by (auto simp: word_uint_eq_iff)

lemma source_discover:
  assumes "source_ok src t"
  shows "source_ok (source_after (Mav_Message now msg) src) (discover_source msg t)"
proof -
  have "source_ok src (ready_units us t)" for us using assms source_ok_view [OF fc_view_ops(1)] by blast
  then show ?thesis
    using assms
    by (auto simp: discover_source_def may_be_fc_def source_ok_def found_fc_def set_system_id_def uint_255 MAV_COMP_ID_AUTOPILOT1_def
        MAV_COMP_ID_SYSTEM_CONTROL_def OHD_SYS_ID_AIR_def OHD_SYS_ID_GROUND_def split: fc_source.split)
qed

lemma set_ready_xp: "xp (set_ready u s) = xp s"
  by (simp add: set_ready_def update_model_def)

lemma discover_keeps [simp]:
  "shown (fc (discover_source msg t)) = shown (fc t)" "intervals (discover_source msg t) = intervals t"
  "xp (ohd_app.settings (app (discover_source msg t))) = xp (ohd_app.settings (app t))"
  by (simp_all add: discover_source_def ready_units_def found_fc_def set_system_id_def set_ready_xp)

lemma mission_consumes: "snd (Mission_Handler.process_message m h) \<longleftrightarrow> m \<noteq> Mission_Other"
  by (cases m) simp_all

lemma broadcast_shown:
  assumes "source_ok (Found (msg_sysid msg)) t" and "process_broadcast_message_fc k now msg t = Inr t'"
  shows "source_ok (Found (msg_sysid msg)) t' \<and>
    (if mission_of (msg_content msg) \<noteq> Mission_Other then shown (fc t') = shown (fc t)
     else \<exists>l. (shown (fc t'), l) = fc_model_message (environment k) now (fc_of (msg_content msg)) (shown (fc t), log (app t)))"
proof -
  obtain h c where h: "Mission_Handler.process_message (mission_of (msg_content msg)) (missions t) = (h, c)" by fastforce
  have c: "c \<longleftrightarrow> mission_of (msg_content msg) \<noteq> Mission_Other"
    using mission_consumes [of "mission_of (msg_content msg)" "missions t"] by (simp add: h)
  obtain m l where m: "fc_model_message (environment k) now (fc_of (msg_content msg)) (shown (fc t), log (app t)) = (m, l)"
    by fastforce
  have i: "get_fc_sys_id (fc t) = Inr (Some (msg_sysid msg))"
    using assms(1) by (simp add: source_ok_def get_fc_sys_id_def)
  have "t' = (if c then t\<lparr>missions := h\<rparr> else with_fc ((fc t)\<lparr>shown := m\<rparr>, l) (t\<lparr>missions := h\<rparr>))"
    using assms(2) by (simp add: process_broadcast_message_fc_def fc_process_message_def h m i Let_def split: if_splits)
  with assms(1) c m show ?thesis by (auto simp: source_ok_def with_fc_def)
qed

lemma dispatch_shown:
  assumes "source_ok src t" and "dispatch_by_system k now msg t = Inr t'"
  shows "source_ok src t' \<and>
    (if src = Found (msg_sysid msg) \<and> mission_of (msg_content msg) = Mission_Other
     then \<exists>l. (shown (fc t'), l) = fc_model_message (environment k) now (fc_of (msg_content msg)) (shown (fc t), log (app t))
     else shown (fc t') = shown (fc t))"
proof (cases "src = Found (msg_sysid msg)")
  case True
  then have "msg_sysid msg \<noteq> OHD_SYS_ID_AIR" "msg_sysid msg \<noteq> OHD_SYS_ID_GROUND"
    "get_fc_sys_id (fc t) = Inr (Some (msg_sysid msg))"
    using assms(1) by (simp_all add: source_ok_def get_fc_sys_id_def)
  with assms(2) have "rbind (process_broadcast_message_fc k now msg t) (fc_requests k now) = Inr t'"
    by (simp add: dispatch_by_system_def)
  then obtain u where u: "process_broadcast_message_fc k now msg t = Inr u" "fc_requests k now u = Inr t'"
    unfolding rbind_eq_Inr by blast
  have v: "fc_view t' = fc_view u" by (rule fc_view_requests [OF u(2)])
  have "shown (fc t') = shown (fc u)" using v by (simp add: fc_view_def)
  with broadcast_shown [OF _ u(1)] assms(1) True source_ok_view [OF v, of src] show ?thesis by simp
next
  case False
  have "\<not> (m_discovered (fc t) \<and> uint (msg_sysid msg) = fc_m_sys_id (fc t))" "fc_ok t"
    using False assms(1) uint_255 by (auto simp: source_ok_def fc_ok_def word_uint_eq_iff not_le [symmetric] split: fc_source.splits)
  with other_dispatch [OF _ assms(2)] have v: "fc_view t' = fc_view t" by simp
  then have "shown (fc t') = shown (fc t)" by (simp add: fc_view_def)
  with False assms(1) source_ok_view [OF v, of src] show ?thesis by simp
qed

lemma nothing_said:
  assumes "source_ok src t1" and "shown (fc t1) = shown (fc t)" and "fc_view t' = fc_view t1" and "taken k msg t"
  shows "source_ok src t' \<and> (\<exists>l'. rfold (fc_model_step (environment k) k') (fc_input k src (Mav_Message now msg) t)
       (shown (fc t), l) = Inr (shown (fc t'), l'))"
  using assms source_ok_view [OF assms(3), of src] by (simp add: fc_view_def)

lemma message_shown:
  assumes ok: "source_ok src t" and p: "process_mavlink_message k now msg t = Inr t'"
  shows "source_ok (source_after (Mav_Message now msg) src) t' \<and>
    (\<exists>l'. rfold (fc_model_step (environment k) k') (fc_input k (source_after (Mav_Message now msg) src) (Mav_Message now msg) t)
       (shown (fc t), l) = Inr (shown (fc t'), l'))"
proof -
  let ?src = "source_after (Mav_Message now msg) src"
  let ?t0 = "t\<lparr>m_tele_received_packets := m_tele_received_packets t + 1\<rparr>"
  let ?t1 = "discover_source msg ?t0"
  have ok1: "source_ok ?src ?t1" using ok by (intro source_discover) (simp add: source_ok_def split: fc_source.splits)
  have s1: "shown (fc ?t1) = shown (fc t)" by simp
  note silent = nothing_said [OF ok1 s1]
  show ?thesis
  proof (cases "\<exists>tc1 ts1. msg_content msg = Timesync tc1 ts1")
    case True
    with p have "fc_view t' = fc_view ?t1" by (auto simp: process_mavlink_message_def Let_def)
    moreover have "taken k msg t" using True by (auto simp: taken_def)
    ultimately show ?thesis by (rule silent)
  next
    case False
    obtain t2 c where t2: "cmd_sender_message k msg ?t1 = (t2, c)" by fastforce
    have v2: "fc_view t2 = fc_view ?t1" "ohd_app.settings (app t2) = ohd_app.settings (app ?t1)"
      using fc_view_ops(3) [of k msg ?t1] t2 by (auto simp: cmd_sender_message_def Let_def split: prod.splits)
    have c: "c = (case msg_content msg of Command_Ack ack \<Rightarrow>
        snd (Cmd_Sender.process_message (own_sys k) (own_comp k) (Some ack) (sender (intervals t))) | _ \<Rightarrow> False)"
      using t2 by (cases "msg_content msg") (auto simp: cmd_sender_message_def Cmd_Sender.process_message_def Let_def split: prod.splits)
    have p1: "(if c then Inr t2 else rbind (xparam_message msg t2)
        (\<lambda>(t3, consumed). if consumed then Inr t3 else dispatch_by_system k now msg t3)) = Inr t'"
      using p False by (cases "msg_content msg") (auto simp: process_mavlink_message_def Let_def t2)
    show ?thesis
    proof (cases c)
      case True
      with p1 v2 have "fc_view t' = fc_view ?t1" by simp
      moreover have "taken k msg t" using True c by (simp add: taken_def split: content.splits)
      ultimately show ?thesis by (rule silent)
    next
      case c0: False
      with p1 obtain t3 c3 where x: "xparam_message msg t2 = Inr (t3, c3)"
        and d: "(if c3 then Inr t3 else dispatch_by_system k now msg t3) = Inr t'"
        by (auto simp: result_simps)
      have v3: "fc_view t3 = fc_view ?t1" using fc_view_xparam [OF x] v2(1) by simp
      obtain y where y: "Xparam.process_message (param_of (msg_content msg)) (msg_sysid msg) (msg_compid msg)
          (xp (ohd_app.settings (app t))) = Inr (y, c3)"
        using x v2(2) by (auto simp: xparam_message_def result_simps)
      have tk: "taken k msg t \<longleftrightarrow> c3 \<or> mission_of (msg_content msg) \<noteq> Mission_Other"
        using False c c0 y by (auto simp: taken_def Xparam.process_message_def split: content.splits)
      show ?thesis
      proof (cases c3)
        case True
        with d v3 tk have "fc_view t' = fc_view ?t1" "taken k msg t" by simp_all
        then show ?thesis by (rule silent)
      next
        case c3: False
        with d have d: "dispatch_by_system k now msg t3 = Inr t'" by simp
        have ok3: "source_ok ?src t3" "shown (fc t3) = shown (fc t)"
          using ok1 source_ok_view [OF v3, of ?src] v3 s1 by (simp_all add: fc_view_def)
        have logs: "\<exists>l'. fc_model_message e now c (m, l) = (m', l')" if "(m', l0') = fc_model_message e now c (m, l0)" for e c m m' l0 l0'
          using that fc_message_log [of e now c m l l0] by (cases "fc_model_message e now c (m, l)") (metis fst_conv)
        from dispatch_shown [OF ok3(1) d] tk c3 ok3(2) logs show ?thesis by (auto split: if_splits)
      qed
    qed
  qed
qed

lemma step_shown:
  assumes ok: "source_ok src t" and p: "telemetry_step k e t = Inr t'"
  shows "source_ok (source_after e src) t' \<and>
    (\<exists>l'. rfold (fc_model_step (environment k) k') (fc_input k (source_after e src) e t) (shown (fc t), l)
       = Inr (shown (fc t'), l'))"
proof (cases e)
  case (Mav_Message now msg)
  with message_shown [OF ok] p show ?thesis by simp
next
  case (Fc_Alive now)
  obtain m l1 where m: "fc_update_alive now (shown (fc t), log (app t)) = (m, l1)" by fastforce
  obtain l2 where "fc_update_alive now (shown (fc t), l) = (m, l2)"
    using fc_alive_log [of now "shown (fc t)" l "log (app t)"] m
    by (cases "fc_update_alive now (shown (fc t), l)") simp
  with ok p m show ?thesis
    by (auto simp: Fc_Alive with_shown_def with_fc_def source_ok_def split: fc_source.splits)
next
  case (Fc_Flight_Time now)
  with ok p show ?thesis by (auto simp: with_shown_def with_fc_def source_ok_def split: fc_source.splits)
next
  case (Fc_Rc_Alive now)
  with ok p show ?thesis by (auto simp: with_shown_def with_fc_def source_ok_def split: fc_source.splits)
qed (use ok p in \<open>auto simp: with_app_def ping_all_systems_def re_apply_rates_def source_ok_def result_simps split: fc_source.splits\<close>)

lemma run_shown:
  assumes "source_ok src t" and "rfold (telemetry_step k) es t = Inr t'"
  shows "\<exists>l'. rfold (fc_model_step (environment k) k') (fc_inputs k src es t) (shown (fc t), l) = Inr (shown (fc t'), l')"
  using assms
proof (induction es arbitrary: src t l)
  case (Cons e es)
  then obtain u where u: "telemetry_step k e t = Inr u" "rfold (telemetry_step k) es u = Inr t'"
    by (auto simp: result_simps)
  obtain l1 where l1: "rfold (fc_model_step (environment k) k') (fc_input k (source_after e src) e t) (shown (fc t), l)
      = Inr (shown (fc u), l1)" and ok: "source_ok (source_after e src) u"
    using step_shown [OF Cons.prems(1) u(1), of k' l] by blast
  from Cons.IH [OF ok u(2), of l1] l1 u(1) show ?case by (simp add: rfold_append Let_def)
qed simp

lemma step_ping:
  assumes "telemetry_step k e t = Inr t'"
  shows "fc_ping (m_last_timesync_out_us t) (last_ping_result_flight_ctrl (fc t)) (e # es)
    = fc_ping (m_last_timesync_out_us t') (last_ping_result_flight_ctrl (fc t')) es"
proof (cases e)
  case (Mav_Message now msg)
  let ?t1 = "discover_source msg (t\<lparr>m_tele_received_packets := m_tele_received_packets t + 1\<rparr>)"
  have out1: "m_last_timesync_out_us ?t1 = m_last_timesync_out_us t"
    by (simp add: discover_source_def ready_units_def found_fc_def)
  have p: "process_mavlink_message k now msg t = Inr t'" using assms by (simp add: Mav_Message)
  show ?thesis
  proof (cases "\<exists>tc1 ts1. msg_content msg = Timesync tc1 ts1")
    case True
    with p out1 show ?thesis
      by (auto simp: Mav_Message process_mavlink_message_def process_message_timesync_def Let_def)
  next
    case False
    have "m_last_timesync_out_us t' = m_last_timesync_out_us t" using out_message [OF p] False by blast
    with False ping_message [OF p] show ?thesis by (simp add: Mav_Message split: content.splits)
  qed
qed (use assms in \<open>auto simp: with_app_def with_shown_def with_fc_def ping_all_systems_def re_apply_rates_def result_simps Let_def
    split: prod.splits\<close>)

text \<open>C6. The dispatch refines the model of the flight controller: after any run of the telemetry, with all components that take part
  in it, what is shown of the flight controller is what its model alone makes of what the flight controller said, as the reference
  reads it off the events: the messages with the id of the first system that looks like an autopilot, less those another
  component takes, in their order and with their times, and its own timers. The result of the ping is the newest answer
  of a system other than the units. Commands of the user are not part of these runs.\<close>

theorem telemetry_refines_fc_model:
  assumes "rfold (telemetry_step k) es (telemetry_new start off n rpi) = Inr t"
  shows "(\<exists>l'. rfold (fc_model_step (environment k) k') (fc_inputs k Not_Found es (telemetry_new start off n rpi)) (fc_model_new start, l)
      = Inr (shown (fc t), l'))
    \<and> last_ping_result_flight_ctrl (fc t) = fc_ping 0 None es"
proof -
  let ?t0 = "telemetry_new start off n rpi"
  have 0: "source_ok Not_Found ?t0" "shown (fc ?t0) = fc_model_new start" "m_last_timesync_out_us ?t0 = 0"
    "last_ping_result_flight_ctrl (fc ?t0) = None"
    by (simp_all add: source_ok_def telemetry_new_def)
  have "fc_ping (m_last_timesync_out_us u) (last_ping_result_flight_ctrl (fc u)) es = last_ping_result_flight_ctrl (fc t)"
    if "rfold (telemetry_step k) es u = Inr t" for u
    using that
  proof (induction es arbitrary: u)
    case (Cons e es)
    then obtain v where v: "telemetry_step k e u = Inr v" "rfold (telemetry_step k) es v = Inr t"
      by (auto simp: result_simps)
    from Cons.IH [OF v(2)] step_ping [OF v(1), of es] show ?case by simp
  qed simp
  from this [OF assms] run_shown [OF 0(1) assms, of k' l] 0(2-4) show ?thesis by simp
qed

theorem telemetry_refines_fc_model_witness:
  "\<forall>k' l. \<exists>t l'. rfold (telemetry_step demo_config_telemetry) [Mav_Message 2000000000 (fc_heartbeat 2)]
       (telemetry_new 0 True 1 False) = Inr t
     \<and> rfold (fc_model_step demo_fc_environment k') [Fc_Received 2000000000 (fc_of (msg_content (fc_heartbeat 2)))]
         (fc_model_new 0, l) = Inr (shown (fc t), l')"
proof (intro allI)
  fix k' l
  obtain t where t: "rfold (telemetry_step demo_config_telemetry) [Mav_Message 2000000000 (fc_heartbeat 2)]
       (telemetry_new 0 True 1 False) = Inr t"
    using first_heartbeat by blast
  have "environment demo_config_telemetry = demo_fc_environment" by (simp add: demo_config_telemetry_def)
  moreover have "fc_inputs demo_config_telemetry Not_Found [Mav_Message 2000000000 (fc_heartbeat 2)] (telemetry_new 0 True 1 False)
    = [Fc_Received 2000000000 (fc_of (msg_content (fc_heartbeat 2)))]"
    by (simp add: Let_def may_be_fc_def taken_def fc_heartbeat_def OHD_SYS_ID_AIR_def OHD_SYS_ID_GROUND_def split: sum.split)
  ultimately show "\<exists>t l'. rfold (telemetry_step demo_config_telemetry) [Mav_Message 2000000000 (fc_heartbeat 2)]
       (telemetry_new 0 True 1 False) = Inr t
     \<and> rfold (fc_model_step demo_fc_environment k') [Fc_Received 2000000000 (fc_of (msg_content (fc_heartbeat 2)))]
         (fc_model_new 0, l) = Inr (shown (fc t), l')"
    using telemetry_refines_fc_model [OF t, of k' l] t by auto
qed

end
