(* ===== verification/Message_Stats.thy ===== *)
theory Message_Stats
  imports Decimal "HOL-Library.Product_Lexorder" "HOL-Library.List_Lexorder" "HOL-Library.Char_ord"
begin

text \<open>
  The table of received messages (\<open>MavlinkMessageStatsModel\<close>,
  \<open>app/telemetry/models/mavlinkmessagestatsmodel.cpp\<close>): one row for each system, component and message id, sorted, with the
  count, the time and the payload of the last message, and the decoder that shows the fields of a payload. A message is
  recorded by the thread that receives it and handled later by that of the interface: the queue between them is part of
  the state. The descriptions of the messages are generated code of MAVLink: an argument, as are the texts of floating-point numbers.

  Counts and times are unbounded; the notifications of the views are left out. Clock: milliseconds.
\<close>

section \<open>The descriptions of MAVLink\<close>

datatype field_type =
    Type_Char | Type_Uint8 | Type_Int8 | Type_Uint16 | Type_Int16 | Type_Uint32 | Type_Int32
  | Type_Uint64 | Type_Int64 | Type_Float | Type_Double | Type_Other

record field_info =
  field_name :: string
  field_type_of :: field_type
  array_length :: nat
  wire_offset :: nat

record message_info =
  info_name :: string
  info_fields :: "field_info list"

record stats_config =
  message_info_by_id :: "int \<Rightarrow> message_info option"
  float_text :: "nat \<Rightarrow> string"
  double_text :: "nat \<Rightarrow> string"

text \<open>The longest payload of the MAVLink protocol.\<close>

definition MAVLINK_MAX_PAYLOAD_LEN :: nat where
  "MAVLINK_MAX_PAYLOAD_LEN = 255"

fun type_to_string :: "field_type \<Rightarrow> string" where
  "type_to_string Type_Char = ''char''"
| "type_to_string Type_Uint8 = ''uint8''"
| "type_to_string Type_Int8 = ''int8''"
| "type_to_string Type_Uint16 = ''uint16''"
| "type_to_string Type_Int16 = ''int16''"
| "type_to_string Type_Uint32 = ''uint32''"
| "type_to_string Type_Int32 = ''int32''"
| "type_to_string Type_Uint64 = ''uint64''"
| "type_to_string Type_Int64 = ''int64''"
| "type_to_string Type_Float = ''float''"
| "type_to_string Type_Double = ''double''"
| "type_to_string Type_Other = ''unknown''"

fun type_size :: "field_type \<Rightarrow> nat" where
  "type_size Type_Char = 1"
| "type_size Type_Uint8 = 1"
| "type_size Type_Int8 = 1"
| "type_size Type_Uint16 = 2"
| "type_size Type_Int16 = 2"
| "type_size Type_Uint32 = 4"
| "type_size Type_Int32 = 4"
| "type_size Type_Uint64 = 8"
| "type_size Type_Int64 = 8"
| "type_size Type_Float = 4"
| "type_size Type_Double = 8"
| "type_size Type_Other = 0"

definition array_len :: "field_info \<Rightarrow> nat" where
  "array_len f = (if array_length f = 0 then 1 else array_length f)"

section \<open>The fields of a payload\<close>

text \<open>\<open>qFromLittleEndian\<close>, and the cast of the result to the signed type of \<open>n\<close> bytes.\<close>

primrec le_nat :: "bytes \<Rightarrow> nat" where
  "le_nat [] = 0"
| "le_nat (b # bs) = unat b + 256 * le_nat bs"

definition signed_of :: "nat \<Rightarrow> nat \<Rightarrow> int" where
  "signed_of n v = (if v < 2 ^ (8 * n - 1) then int v else int v - 2 ^ (8 * n))"

definition byte_char :: "u8 \<Rightarrow> char" where
  "byte_char b = char_of (unat b)"

fun scalar_text :: "stats_config \<Rightarrow> bytes \<Rightarrow> field_type \<Rightarrow> string" where
  "scalar_text k bs Type_Char = map byte_char bs"
| "scalar_text k bs Type_Uint8 = nat_to_string (le_nat bs)"
| "scalar_text k bs Type_Int8 = int_to_string (signed_of 1 (le_nat bs))"
| "scalar_text k bs Type_Uint16 = nat_to_string (le_nat bs)"
| "scalar_text k bs Type_Int16 = int_to_string (signed_of 2 (le_nat bs))"
| "scalar_text k bs Type_Uint32 = nat_to_string (le_nat bs)"
| "scalar_text k bs Type_Int32 = int_to_string (signed_of 4 (le_nat bs))"
| "scalar_text k bs Type_Uint64 = nat_to_string (le_nat bs)"
| "scalar_text k bs Type_Int64 = int_to_string (signed_of 8 (le_nat bs))"
| "scalar_text k bs Type_Float = float_text k (le_nat bs)"
| "scalar_text k bs Type_Double = double_text k (le_nat bs)"
| "scalar_text k bs Type_Other = ''n/a''"

definition read_scalar_string :: "stats_config \<Rightarrow> bytes \<Rightarrow> nat \<Rightarrow> field_type \<Rightarrow> string result" where
  "read_scalar_string k payload ptr t =
     rbind (read_slice payload ptr (type_size t)) (\<lambda>bs. Inr (scalar_text k bs t))"

text \<open>The elements from \<open>j\<close> on, \<open>m\<close> of them.\<close>

primrec read_values :: "stats_config \<Rightarrow> bytes \<Rightarrow> nat \<Rightarrow> field_type \<Rightarrow> nat \<Rightarrow> string list result" where
  "read_values k payload ptr t 0 = Inr []"
| "read_values k payload ptr t (Suc m) =
     rbind (read_scalar_string k payload ptr t) (\<lambda>v.
     rbind (read_values k payload (ptr + type_size t) t m) (\<lambda>vs. Inr (v # vs)))"

fun join :: "string \<Rightarrow> string list \<Rightarrow> string" where
  "join sep [] = ''''"
| "join sep [v] = v"
| "join sep (v # vs) = v @ sep @ join sep vs"

definition bracketed :: "string list \<Rightarrow> string" where
  "bracketed vs = ''['' @ join '', '' vs @ '']''"

definition printable :: "u8 \<Rightarrow> bool" where
  "printable b \<longleftrightarrow> b = 10 \<or> b = 13 \<or> b = 9 \<or> (0x20 \<le> b \<and> b \<le> 0x7E)"

definition field_value :: "stats_config \<Rightarrow> bytes \<Rightarrow> field_info \<Rightarrow> string result" where
  "field_value k payload f =
     (let t = field_type_of f; n = array_len f in
      if type_size t = 0 then Inr ''n/a''
      else if t = Type_Char \<and> n > 1 then
        rbind (read_slice payload (wire_offset f) n) (\<lambda>raw.
          let text = takeWhile (\<lambda>b. b \<noteq> 0) raw in
          Inr (if list_all printable text then map byte_char text
               else bracketed (map (\<lambda>b. nat_to_string (unat b)) raw)))
      else
        rbind (read_values k payload (wire_offset f) t n) (\<lambda>vs.
          Inr (if n > 1 then bracketed vs else (case vs of v # _ \<Rightarrow> v | [] \<Rightarrow> ''''))))"

section \<open>The table\<close>

record stats_entry =
  system_id :: int
  component_id :: int
  message_id :: int
  message_name :: string
  origin_category :: string
  last_seen_ms :: int
  update_count :: nat
  last_payload :: bytes
  last_payload_len :: nat
  has_payload :: bool

type_synonym recorded = "int \<times> int \<times> int \<times> bytes"

record stats_model =
  stats_enabled :: bool
  stats_data :: "stats_entry list"
  stats_pending :: "recorded list"

definition stats_model_new :: stats_model where
  "stats_model_new = \<lparr>stats_enabled = True, stats_data = [], stats_pending = []\<rparr>"

definition origin_category_for_sysid :: "int \<Rightarrow> string" where
  "origin_category_for_sysid sysid = (if sysid = 101 \<or> sysid = 100 then ''OpenHD'' else ''Flight Controller'')"

definition message_name_for_id :: "stats_config \<Rightarrow> int \<Rightarrow> string" where
  "message_name_for_id k msgid =
     (case message_info_by_id k msgid of Some info \<Rightarrow> info_name info | None \<Rightarrow> ''ID '' @ int_to_string msgid)"

definition stats_key :: "stats_entry \<Rightarrow> int \<times> int \<times> int" where
  "stats_key e = (system_id e, component_id e, message_id e)"

text \<open>The order of the rows, and \<open>std::stable_sort\<close> by it.\<close>

definition entry_less :: "stats_entry \<Rightarrow> stats_entry \<Rightarrow> bool" where
  "entry_less a b \<longleftrightarrow>
     (if origin_category a \<noteq> origin_category b then origin_category a < origin_category b
      else if system_id a \<noteq> system_id b then system_id a < system_id b
      else if component_id a \<noteq> component_id b then component_id a < component_id b
      else message_id a < message_id b)"

definition sort_key_of :: "stats_entry \<Rightarrow> string \<times> int \<times> int \<times> int" where
  "sort_key_of e = (origin_category e, system_id e, component_id e, message_id e)"

definition sort_entries :: "stats_entry list \<Rightarrow> stats_entry list" where
  "sort_entries es = sort_key sort_key_of es"

text \<open>A payload copied over the start of the array of an entry.\<close>

definition copy_payload :: "nat \<Rightarrow> bytes \<Rightarrow> bytes \<Rightarrow> bytes" where
  "copy_payload n new old = take n new @ drop n old"

definition refresh_entry :: "stats_entry \<Rightarrow> stats_entry \<Rightarrow> stats_entry" where
  "refresh_entry t e =
     (let e1 = e\<lparr>last_seen_ms := last_seen_ms t, update_count := update_count e + 1\<rparr> in
      if has_payload t
      then e1\<lparr>last_payload_len := last_payload_len t, has_payload := has_payload t,
        last_payload := copy_payload (last_payload_len t) (last_payload t) (last_payload e)\<rparr>
      else e1)"

primrec refresh_first :: "stats_entry \<Rightarrow> stats_entry list \<Rightarrow> stats_entry list" where
  "refresh_first t [] = []"
| "refresh_first t (e # es) = (if stats_key e = stats_key t then refresh_entry t e # es else e # refresh_first t es)"

definition update_or_insert_entry :: "stats_entry \<Rightarrow> stats_entry list \<Rightarrow> stats_entry list" where
  "update_or_insert_entry t es =
     (if find (\<lambda>e. stats_key e = stats_key t) es \<noteq> None then sort_entries (refresh_first t es)
      else sort_entries (es @ [t\<lparr>update_count := 1\<rparr>]))"

definition entry_for :: "stats_config \<Rightarrow> int \<Rightarrow> recorded \<Rightarrow> stats_entry" where
  "entry_for k now r =
     (let (sysid, compid, msgid, payload) = r; n = min (length payload) MAVLINK_MAX_PAYLOAD_LEN in
      \<lparr>system_id = sysid, component_id = compid, message_id = msgid, message_name = message_name_for_id k msgid,
       origin_category = origin_category_for_sysid sysid, last_seen_ms = now, update_count = 0,
       last_payload = copy_payload n payload (replicate MAVLINK_MAX_PAYLOAD_LEN 0),
       last_payload_len = n, has_payload = n > 0\<rparr>)"

definition record_message :: "recorded \<Rightarrow> stats_model \<Rightarrow> stats_model" where
  "record_message r s = (if \<not> stats_enabled s then s else s\<lparr>stats_pending := stats_pending s @ [r]\<rparr>)"

definition handle_record_message :: "stats_config \<Rightarrow> int \<Rightarrow> recorded \<Rightarrow> stats_model \<Rightarrow> stats_model" where
  "handle_record_message k now r s = s\<lparr>stats_data := update_or_insert_entry (entry_for k now r) (stats_data s)\<rparr>"

definition stats_clear :: "stats_model \<Rightarrow> stats_model" where
  "stats_clear s = s\<lparr>stats_data := []\<rparr>"

definition stats_set_enabled :: "bool \<Rightarrow> stats_model \<Rightarrow> stats_model" where
  "stats_set_enabled b s = (if stats_enabled s = b then s else s\<lparr>stats_enabled := b\<rparr>)"

datatype stats_event =
    Stats_Record recorded
  | Stats_Handle int
  | Stats_Clear
  | Stats_Set_Enabled bool

fun stats_step :: "stats_config \<Rightarrow> stats_event \<Rightarrow> stats_model \<Rightarrow> stats_model" where
  "stats_step k (Stats_Record r) s = record_message r s"
| "stats_step k (Stats_Handle now) s =
     (case stats_pending s of [] \<Rightarrow> s
      | r # rs \<Rightarrow> handle_record_message k now r (s\<lparr>stats_pending := rs\<rparr>))"
| "stats_step k Stats_Clear s = stats_clear s"
| "stats_step k (Stats_Set_Enabled b) s = stats_set_enabled b s"

section \<open>What the table says\<close>

definition source_label_for :: "stats_entry \<Rightarrow> string" where
  "source_label_for e =
     int_to_string (system_id e) @ ''/'' @ int_to_string (component_id e) @ ''/'' @ int_to_string (message_id e)"

definition last_seen_readable :: "int \<Rightarrow> int \<Rightarrow> string" where
  "last_seen_readable now last_seen =
     (let delta = now - last_seen in
      if delta < 0 then ''-''
      else if delta < 1000 then int_to_string delta @ '' ms ago''
      else
        let seconds = delta div 1000 in
        if seconds < 60 then int_to_string seconds @ '' s ago''
        else int_to_string (seconds div 60) @ '' m ago'')"

text \<open>\<open>get\<close> and \<open>data\<close>: \<open>None\<close> is the empty answer outside the table.\<close>

record row_shown =
  shown_label :: string
  shown_entry :: stats_entry
  shown_last_seen :: string

definition stats_get :: "int \<Rightarrow> int \<Rightarrow> stats_model \<Rightarrow> row_shown option" where
  "stats_get now row s =
     (if row < 0 \<or> row \<ge> int (length (stats_data s)) then None
      else
        let e = stats_data s ! nat row in
        Some \<lparr>shown_label = source_label_for e, shown_entry = e,
          shown_last_seen = last_seen_readable now (last_seen_ms e)\<rparr>)"

record field_shown =
  fs_name :: string
  fs_type :: string
  fs_array_length :: nat
  fs_value :: string

record details_shown =
  ds_messageId :: int
  ds_messageName :: string
  ds_fieldCount :: nat
  ds_fields :: "field_shown list"

definition padded_payload :: "stats_entry \<Rightarrow> bytes" where
  "padded_payload e =
     (let n = min (if has_payload e then last_payload_len e else 0) MAVLINK_MAX_PAYLOAD_LEN in
      copy_payload n (last_payload e) (replicate MAVLINK_MAX_PAYLOAD_LEN 0))"

primrec show_fields :: "stats_config \<Rightarrow> bytes \<Rightarrow> field_info list \<Rightarrow> field_shown list result" where
  "show_fields k payload [] = Inr []"
| "show_fields k payload (f # fs) =
     rbind (field_value k payload f) (\<lambda>v.
     rbind (show_fields k payload fs) (\<lambda>rest.
     Inr (\<lparr>fs_name = field_name f, fs_type = type_to_string (field_type_of f), fs_array_length = array_len f,
       fs_value = v\<rparr> # rest)))"

definition decodeMessageDetails :: "stats_config \<Rightarrow> int \<Rightarrow> stats_model \<Rightarrow> details_shown result" where
  "decodeMessageDetails k row s =
     (if row < 0 \<or> row \<ge> int (length (stats_data s)) then
        Inr \<lparr>ds_messageId = -1, ds_messageName = ''Unknown message'', ds_fieldCount = 0, ds_fields = []\<rparr>
      else
        let e = stats_data s ! nat row in
        case message_info_by_id k (message_id e) of
          None \<Rightarrow> Inr \<lparr>ds_messageId = message_id e, ds_messageName = message_name e, ds_fieldCount = 0, ds_fields = []\<rparr>
        | Some info \<Rightarrow>
            rbind (show_fields k (padded_payload e) (info_fields info)) (\<lambda>fs.
            Inr \<lparr>ds_messageId = message_id e, ds_messageName = info_name info,
              ds_fieldCount = length (info_fields info), ds_fields = fs\<rparr>))"

definition field_summary :: "field_info \<Rightarrow> string" where
  "field_summary f =
     field_name f @ '': '' @ type_to_string (field_type_of f)
       @ (if array_len f > 1 then ''['' @ nat_to_string (array_len f) @ '']'' else '''')"

definition newline :: string where
  "newline = [char_of (10 :: nat)]"

definition decodeMessage :: "stats_config \<Rightarrow> int \<Rightarrow> string" where
  "decodeMessage k messageId =
     (case message_info_by_id k messageId of
        Some info \<Rightarrow>
          info_name info @ '' (ID '' @ int_to_string messageId @ '')'' @ newline
            @ ''Field count: '' @ nat_to_string (length (info_fields info)) @ newline @ newline
            @ (if info_fields info = [] then ''No fields'' else join newline (map field_summary (info_fields info)))
      | None \<Rightarrow> ''Unknown message ID '' @ int_to_string messageId)"

section \<open>The table and the messages handled\<close>

text \<open>The reference: the messages handled since the table was last cleared, with the time of each.\<close>

record stats_spec =
  spec_enabled :: bool
  spec_pending :: "recorded list"
  spec_handled :: "(int \<times> recorded) list"

definition stats_spec_new :: stats_spec where
  "stats_spec_new = \<lparr>spec_enabled = True, spec_pending = [], spec_handled = []\<rparr>"

fun stats_spec_step :: "stats_event \<Rightarrow> stats_spec \<Rightarrow> stats_spec" where
  "stats_spec_step (Stats_Record r) a =
     (if spec_enabled a then a\<lparr>spec_pending := spec_pending a @ [r]\<rparr> else a)"
| "stats_spec_step (Stats_Handle now) a =
     (case spec_pending a of [] \<Rightarrow> a
      | r # rs \<Rightarrow> a\<lparr>spec_pending := rs, spec_handled := spec_handled a @ [(now, r)]\<rparr>)"
| "stats_spec_step Stats_Clear a = a\<lparr>spec_handled := []\<rparr>"
| "stats_spec_step (Stats_Set_Enabled b) a = a\<lparr>spec_enabled := b\<rparr>"

definition handled_messages :: "stats_event list \<Rightarrow> (int \<times> recorded) list" where
  "handled_messages es = spec_handled (fold stats_spec_step es stats_spec_new)"

fun message_key :: "int \<times> recorded \<Rightarrow> int \<times> int \<times> int" where
  "message_key (now, sysid, compid, msgid, payload) = (sysid, compid, msgid)"

fun message_payload :: "int \<times> recorded \<Rightarrow> bytes" where
  "message_payload (now, sysid, compid, msgid, payload) = payload"

definition messages_of :: "int \<times> int \<times> int \<Rightarrow> (int \<times> recorded) list \<Rightarrow> (int \<times> recorded) list" where
  "messages_of key h = filter (\<lambda>m. message_key m = key) h"

definition latest_payload :: "int \<times> int \<times> int \<Rightarrow> (int \<times> recorded) list \<Rightarrow> bytes" where
  "latest_payload key h =
     (case rev (filter (\<lambda>p. p \<noteq> []) (map message_payload (messages_of key h))) of [] \<Rightarrow> [] | p # _ \<Rightarrow> p)"

text \<open>What the decoder reads of a payload: the bytes and zeros behind them.\<close>

definition pad_payload :: "bytes \<Rightarrow> bytes" where
  "pad_payload p = take MAVLINK_MAX_PAYLOAD_LEN p @ replicate (MAVLINK_MAX_PAYLOAD_LEN - length p) 0"

definition row_says :: "(int \<times> recorded) list \<Rightarrow> stats_entry \<Rightarrow> bool" where
  "row_says h e \<longleftrightarrow> origin_category e = origin_category_for_sysid (system_id e)
     \<and> update_count e = length (messages_of (stats_key e) h)
     \<and> last_seen_ms e = fst (List.last (messages_of (stats_key e) h))
     \<and> padded_payload e = pad_payload (latest_payload (stats_key e) h)"

definition table_ok :: "(int \<times> recorded) list \<Rightarrow> stats_entry list \<Rightarrow> bool" where
  "table_ok h T \<longleftrightarrow> sorted (map sort_key_of T) \<and> distinct (map stats_key T)
     \<and> stats_key ` set T = message_key ` set h \<and> (\<forall>e \<in> set T. row_says h e)"

lemma entry_less_key: "entry_less a b \<longleftrightarrow> sort_key_of a < sort_key_of b"
  by (auto simp: entry_less_def sort_key_of_def)

lemma key_of_sort_key: "sort_key_of a = sort_key_of b \<Longrightarrow> stats_key a = stats_key b"
  by (simp add: sort_key_of_def stats_key_def)

lemma table_order: "table_ok h T \<Longrightarrow> sorted_wrt entry_less T"
proof -
  assume ok: "table_ok h T"
  then have "inj_on stats_key (set T)" and d: "distinct T" by (simp_all add: table_ok_def distinct_map)
  then have "inj_on sort_key_of (set T)" by (auto intro!: inj_onI dest!: key_of_sort_key dest: inj_onD)
  with d have "distinct (map sort_key_of T)" by (simp add: distinct_map)
  with ok have "sorted_wrt (<) (map sort_key_of T)" by (simp add: table_ok_def strict_sorted_iff)
  moreover have "entry_less = (\<lambda>a b. sort_key_of a < sort_key_of b)" by (intro ext) (rule entry_less_key)
  ultimately show ?thesis by (simp add: sorted_wrt_map)
qed

lemma sort_entries_keeps [simp]:
  "set (sort_entries T) = set T" "sorted (map sort_key_of (sort_entries T))"
  "distinct (map stats_key (sort_entries T)) \<longleftrightarrow> distinct (map stats_key T)"
  by (simp_all add: sort_entries_def distinct_map)

lemma messages_of_append:
  "messages_of key (h @ [m]) = messages_of key h @ (if message_key m = key then [m] else [])"
  by (simp add: messages_of_def)

lemma latest_payload_append:
  "latest_payload key (h @ [m]) =
     (if message_key m = key \<and> message_payload m \<noteq> [] then message_payload m else latest_payload key h)"
  by (simp add: latest_payload_def messages_of_append)

lemma messages_of_none: "messages_of key h = [] \<longleftrightarrow> key \<notin> message_key ` set h"
  by (auto simp: messages_of_def filter_empty_conv)

lemma copy_payload_zeros: "copy_payload (min (length p) m) p (replicate m 0) = take m p @ replicate (m - length p) 0"
  by (simp add: copy_payload_def min_def)

lemma entry_for_sel [simp]:
  "stats_key (entry_for k now r) = message_key (now, r)" "last_seen_ms (entry_for k now r) = now"
  "origin_category (entry_for k now r) = origin_category_for_sysid (system_id (entry_for k now r))"
  "has_payload (entry_for k now r) \<longleftrightarrow> message_payload (now, r) \<noteq> []"
  "last_payload_len (entry_for k now r) = min (length (message_payload (now, r))) MAVLINK_MAX_PAYLOAD_LEN"
  "last_payload (entry_for k now r) = pad_payload (message_payload (now, r))"
  by (cases r, auto simp: entry_for_def stats_key_def Let_def copy_payload_zeros pad_payload_def MAVLINK_MAX_PAYLOAD_LEN_def)+

lemma entry_for_padded: "padded_payload (entry_for k now r) = pad_payload (message_payload (now, r))"
  by (simp add: padded_payload_def copy_payload_def pad_payload_def min_def)

lemma refresh_sel [simp]:
  "stats_key (refresh_entry t e) = stats_key e" "update_count (refresh_entry t e) = update_count e + 1"
  "last_seen_ms (refresh_entry t e) = last_seen_ms t" "origin_category (refresh_entry t e) = origin_category e"
  "system_id (refresh_entry t e) = system_id e" "sort_key_of (refresh_entry t e) = sort_key_of e"
  by (simp_all add: refresh_entry_def stats_key_def sort_key_of_def Let_def)

lemma refresh_padded:
  "padded_payload (refresh_entry (entry_for k now r) e)
     = (if message_payload (now, r) \<noteq> [] then pad_payload (message_payload (now, r)) else padded_payload e)"
  by (simp add: refresh_entry_def padded_payload_def copy_payload_def pad_payload_def min_def Let_def)

lemma refresh_first_map:
  "distinct (map stats_key T) \<Longrightarrow>
     refresh_first t T = map (\<lambda>e. if stats_key e = stats_key t then refresh_entry t e else e) T"
  by (induction T) (auto simp: image_iff intro!: map_idI [symmetric])

lemma row_says_other:
  "row_says h e \<Longrightarrow> stats_key e \<noteq> message_key m \<Longrightarrow> row_says (h @ [m]) e"
  by (auto simp: row_says_def messages_of_append latest_payload_append)

lemma row_says_refresh:
  assumes "row_says h e" and "stats_key e = message_key (now, r)"
  shows "row_says (h @ [(now, r)]) (refresh_entry (entry_for k now r) e)"
  using assms by (simp add: row_says_def messages_of_append latest_payload_append refresh_padded)

lemma row_says_new:
  assumes "message_key (now, r) \<notin> message_key ` set h"
  shows "row_says (h @ [(now, r)]) ((entry_for k now r)\<lparr>update_count := 1\<rparr>)"
proof -
  have "messages_of (message_key (now, r)) h = []" using assms by (simp only: messages_of_none) simp
  moreover have "stats_key (e\<lparr>update_count := 1\<rparr>) = stats_key e" "padded_payload (e\<lparr>update_count := 1\<rparr>) = padded_payload e"
    for e by (simp_all add: stats_key_def padded_payload_def)
  ultimately show ?thesis
    by (simp add: row_says_def messages_of_append latest_payload_append entry_for_padded latest_payload_def)
qed

lemma table_ok_handle:
  assumes "table_ok h T"
  shows "table_ok (h @ [(now, r)]) (update_or_insert_entry (entry_for k now r) T)"
proof (cases "message_key (now, r) \<in> stats_key ` set T")
  case True
  then have f: "find (\<lambda>e. stats_key e = stats_key (entry_for k now r)) T \<noteq> None"
    by (auto simp: find_None_iff)
  let ?T = "map (\<lambda>e. if stats_key e = message_key (now, r) then refresh_entry (entry_for k now r) e else e) T"
  have T: "update_or_insert_entry (entry_for k now r) T = sort_entries ?T"
    using f assms by (simp add: update_or_insert_entry_def refresh_first_map table_ok_def)
  have keys: "map stats_key ?T = map stats_key T" by simp
  then have d: "distinct (map stats_key ?T)" and ks: "stats_key ` set ?T = stats_key ` set T"
    using assms by (simp_all only: table_ok_def list.set_map [symmetric])
  have rows: "\<forall>e \<in> set ?T. row_says (h @ [(now, r)]) e"
    using assms by (auto simp: table_ok_def intro: row_says_other row_says_refresh)
  have hs: "message_key ` set (h @ [(now, r)]) = stats_key ` set T"
    using assms True by (simp add: table_ok_def insert_absorb)
  show ?thesis
    unfolding T table_ok_def sort_entries_keeps(1,3)
    by (rule conjI [OF sort_entries_keeps(2) conjI [OF d conjI [OF trans [OF ks hs [symmetric]] rows]]])
next
  case False
  then have f: "find (\<lambda>e. stats_key e = stats_key (entry_for k now r)) T = None"
    by (auto simp: find_None_iff intro: rev_image_eqI)
  have key: "stats_key ((entry_for k now r)\<lparr>update_count := 1\<rparr>) = message_key (now, r)"
    using entry_for_sel(1) [of k now r] by (simp add: stats_key_def)
  have "message_key (now, r) \<notin> message_key ` set h" using False assms by (simp add: table_ok_def)
  then have "row_says (h @ [(now, r)]) ((entry_for k now r)\<lparr>update_count := 1\<rparr>)" by (rule row_says_new)
  moreover have "\<forall>e \<in> set T. row_says (h @ [(now, r)]) e"
  proof
    fix e assume e: "e \<in> set T"
    then have "stats_key e \<noteq> message_key (now, r)" using False by (metis imageI)
    with e assms show "row_says (h @ [(now, r)]) e" by (simp add: table_ok_def row_says_other)
  qed
  moreover have "update_or_insert_entry (entry_for k now r) T = sort_entries (T @ [(entry_for k now r)\<lparr>update_count := 1\<rparr>])"
    unfolding update_or_insert_entry_def f by simp
  ultimately show ?thesis
    using assms False key by (simp add: table_ok_def)
qed

definition stats_rel :: "stats_spec \<Rightarrow> stats_model \<Rightarrow> bool" where
  "stats_rel a s \<longleftrightarrow> stats_enabled s = spec_enabled a \<and> stats_pending s = spec_pending a \<and> table_ok (spec_handled a) (stats_data s)"

lemma stats_rel_step: "stats_rel a s \<Longrightarrow> stats_rel (stats_spec_step e a) (stats_step k e s)"
proof (cases e)
  case (Stats_Handle now)
  assume "stats_rel a s"
  then show ?thesis
    by (cases "spec_pending a") (auto simp: Stats_Handle stats_rel_def handle_record_message_def intro: table_ok_handle)
qed (auto simp: stats_rel_def record_message_def stats_clear_def stats_set_enabled_def table_ok_def)

lemma stats_rel_run: "stats_rel (fold stats_spec_step es stats_spec_new) (fold (stats_step k) es stats_model_new)"
proof -
  have "stats_rel (fold stats_spec_step es a) (fold (stats_step k) es s)" if "stats_rel a s" for a s
    using that by (induction es arbitrary: a s) (auto intro: stats_rel_step)
  moreover have "stats_rel stats_spec_new stats_model_new"
    by (simp add: stats_rel_def stats_spec_new_def stats_model_new_def table_ok_def)
  ultimately show ?thesis by blast
qed

text \<open>C26. The table against the reference: its rows are sorted and belong to the different senders and messages handled since
  it was last cleared; each says how many messages there were, when the last one was handled, and shows the latest payload.\<close>

theorem stats_table_correct:
  assumes "s = fold (stats_step k) es stats_model_new" and "h = handled_messages es"
  shows "sorted_wrt entry_less (stats_data s) \<and> stats_key ` set (stats_data s) = message_key ` set h
    \<and> (\<forall>e \<in> set (stats_data s).
         update_count e = length (messages_of (stats_key e) h)
         \<and> last_seen_ms e = fst (List.last (messages_of (stats_key e) h))
         \<and> padded_payload e = pad_payload (latest_payload (stats_key e) h))"
proof -
  have "table_ok h (stats_data s)"
    using stats_rel_run [of es k] by (simp add: assms stats_rel_def handled_messages_def)
  then show ?thesis using table_order by (auto simp: table_ok_def row_says_def)
qed

text \<open>A ground unit and a flight controller: the second message of the latter is shorter than its first.\<close>

definition demo_stats_config :: stats_config where
  "demo_stats_config = \<lparr>message_info_by_id = (\<lambda>i. if i = 30 then Some \<lparr>info_name = ''ATTITUDE'',
       info_fields = [\<lparr>field_name = ''time'', field_type_of = Type_Uint32, array_length = 0, wire_offset = 0\<rparr>]\<rparr> else None),
     float_text = (\<lambda>_. ''''), double_text = (\<lambda>_. '''')\<rparr>"

definition demo_stats_run :: "stats_event list" where
  "demo_stats_run = [Stats_Record (100, 191, 30, [1, 2, 3]), Stats_Record (1, 1, 30, [7, 8, 9, 10]), Stats_Handle 5,
     Stats_Record (1, 1, 30, [4]), Stats_Handle 6, Stats_Handle 9]"

lemma demo_handled:
  "handled_messages demo_stats_run = [(5, 100, 191, 30, [1, 2, 3]), (6, 1, 1, 30, [7, 8, 9, 10]), (9, 1, 1, 30, [4])]"
  by (simp add: handled_messages_def demo_stats_run_def stats_spec_new_def)

theorem stats_table_correct_witness:
  "\<exists>e. e \<in> set (stats_data (fold (stats_step demo_stats_config) demo_stats_run stats_model_new))
     \<and> stats_key e = (1, 1, 30) \<and> update_count e = 2 \<and> last_seen_ms e = 9 \<and> padded_payload e = 4 # replicate 254 0"
proof -
  let ?T = "stats_data (fold (stats_step demo_stats_config) demo_stats_run stats_model_new)"
  note c = stats_table_correct [OF refl refl, of demo_stats_config demo_stats_run]
  have "(1, 1, 30) \<in> stats_key ` set ?T" using c by (simp add: demo_handled)
  then obtain e where e: "e \<in> set ?T" "stats_key e = (1, 1, 30)" by force
  have "pad_payload [4] = 4 # replicate 254 0"
    by (simp add: pad_payload_def MAVLINK_MAX_PAYLOAD_LEN_def)
  with c e show ?thesis by (auto simp: demo_handled messages_of_def latest_payload_def)
qed

section \<open>From the wire to the screen\<close>

text \<open>A sender of MAVLink 2 leaves out the zeros at the end of a payload, but never all of it.\<close>

definition truncate_payload :: "bytes \<Rightarrow> bytes" where
  "truncate_payload p = (let t = rev (dropWhile (\<lambda>b. b = 0) (rev p)) in if t = [] then take 1 p else t)"

primrec le_bytes :: "nat \<Rightarrow> nat \<Rightarrow> bytes" where
  "le_bytes 0 v = []"
| "le_bytes (Suc n) v = of_nat (v mod 256) # le_bytes n (v div 256)"

lemma length_le_bytes [simp]: "length (le_bytes n v) = n"
  by (induction n arbitrary: v) simp_all

lemma le_nat_bytes: "v < 256 ^ n \<Longrightarrow> le_nat (le_bytes n v) = v"
proof (induction n arbitrary: v)
  case (Suc n)
  then have "v div 256 < 256 ^ n" by (simp add: less_mult_imp_div_less mult.commute)
  with Suc.IH show ?case by (simp add: unat_of_nat_u8)
qed simp

lemma truncate_restores: "\<exists>z. p = truncate_payload p @ replicate z 0"
proof -
  let ?t = "rev (dropWhile (\<lambda>b. b = 0) (rev p))"
  let ?z = "length (takeWhile (\<lambda>b. b = 0) (rev p))"
  have "takeWhile (\<lambda>b. b = 0) (rev p) = replicate ?z 0"
    by (rule replicate_eqI [symmetric, THEN sym]) (auto dest: set_takeWhileD)
  then have p: "p = ?t @ replicate ?z 0"
    using takeWhile_dropWhile_id [of "\<lambda>b. b = 0" "rev p"] by (metis rev_append rev_replicate rev_rev_ident)
  show ?thesis
  proof (cases "?t = []")
    case True
    with p have "p = replicate (length p) 0" by (metis append_Nil length_replicate)
    then have "p = take 1 p @ replicate (length p - 1) 0"
      by (cases p) (metis append_Nil2 take_Nil diff_0_eq_0 length_0_conv replicate_0,
          metis One_nat_def append_Cons append_Nil diff_Suc_1 length_Cons list.inject replicate_Suc take_Suc_Cons take_0)
    with True show ?thesis by (auto simp: truncate_payload_def)
  qed (use p in \<open>auto simp: truncate_payload_def Let_def\<close>)
qed

lemma pad_truncated:
  assumes "length p \<le> MAVLINK_MAX_PAYLOAD_LEN"
  shows "pad_payload (truncate_payload p) = p @ replicate (MAVLINK_MAX_PAYLOAD_LEN - length p) 0"
proof -
  obtain z where "p = truncate_payload p @ replicate z 0" using truncate_restores by blast
  then obtain t where t: "truncate_payload p = t" "p = t @ replicate z 0" by blast
  with assms show ?thesis
    by (simp add: pad_payload_def replicate_add [symmetric])
qed

text \<open>A field lies inside the longest payload, as the generated descriptions say.\<close>

definition field_fits :: "field_info \<Rightarrow> bool" where
  "field_fits f \<longleftrightarrow> wire_offset f + type_size (field_type_of f) * array_len f \<le> MAVLINK_MAX_PAYLOAD_LEN"

lemma length_pad [simp]: "length (pad_payload p) = MAVLINK_MAX_PAYLOAD_LEN"
  by (simp add: pad_payload_def)

lemma read_values_inside:
  "ptr + type_size t * m \<le> length payload \<Longrightarrow> \<exists>vs. read_values k payload ptr t m = Inr vs \<and> length vs = m"
proof (induction m arbitrary: ptr)
  case (Suc m)
  then have "ptr + type_size t \<le> length payload" "ptr + type_size t + type_size t * m \<le> length payload" by simp_all
  with Suc.IH [of "ptr + type_size t"] show ?case by (auto simp: read_scalar_string_def read_slice_def)
qed simp

lemma field_value_inside:
  assumes "field_fits f" and "length payload = MAVLINK_MAX_PAYLOAD_LEN"
  shows "\<exists>v. field_value k payload f = Inr v"
proof -
  obtain vs where "read_values k payload (wire_offset f) (field_type_of f) (array_len f) = Inr vs"
    using assms read_values_inside [of "wire_offset f" "field_type_of f" "array_len f" payload k]
    by (auto simp: field_fits_def)
  with assms show ?thesis by (auto simp: field_value_def read_slice_def field_fits_def Let_def)
qed

lemma show_fields_inside:
  assumes "length payload = MAVLINK_MAX_PAYLOAD_LEN"
  shows "list_all field_fits fs \<Longrightarrow> \<exists>rs. show_fields k payload fs = Inr rs \<and> length rs = length fs
     \<and> (\<forall>i < length fs. field_value k payload (fs ! i) = Inr (fs_value (rs ! i)) \<and> fs_name (rs ! i) = field_name (fs ! i))"
proof (induction fs)
  case (Cons f fs)
  then obtain v rs where "field_value k payload f = Inr v" "show_fields k payload fs = Inr rs" "length rs = length fs"
    "\<forall>i < length fs. field_value k payload (fs ! i) = Inr (fs_value (rs ! i)) \<and> fs_name (rs ! i) = field_name (fs ! i)"
    using field_value_inside [OF _ assms, of f k] by auto
  then show ?case by (auto simp: less_Suc_eq_0_disj)
qed simp

lemma truncate_nonempty: "p \<noteq> [] \<Longrightarrow> truncate_payload p \<noteq> []"
  by (auto simp: truncate_payload_def Let_def)

text \<open>The numbers a sender puts into a field: natural numbers, integers in two's complement, and the bits of a floating-point number.
  \<open>wire_text\<close> is how the number is written.\<close>

datatype wire_number = Unsigned nat | Signed int | Float_Bits nat | Double_Bits nat

fun wire_ok :: "field_type \<Rightarrow> wire_number \<Rightarrow> bool" where
  "wire_ok t (Unsigned v) \<longleftrightarrow> t \<in> {Type_Uint8, Type_Uint16, Type_Uint32, Type_Uint64} \<and> v < 256 ^ type_size t"
| "wire_ok t (Signed v) \<longleftrightarrow> t \<in> {Type_Int8, Type_Int16, Type_Int32, Type_Int64}
     \<and> - (2 ^ (8 * type_size t - 1)) \<le> v \<and> v < 2 ^ (8 * type_size t - 1)"
| "wire_ok t (Float_Bits v) \<longleftrightarrow> t = Type_Float \<and> v < 256 ^ 4"
| "wire_ok t (Double_Bits v) \<longleftrightarrow> t = Type_Double \<and> v < 256 ^ 8"

fun wire_bytes :: "field_type \<Rightarrow> wire_number \<Rightarrow> bytes" where
  "wire_bytes t (Unsigned v) = le_bytes (type_size t) v"
| "wire_bytes t (Signed v) = le_bytes (type_size t) (nat (v mod 2 ^ (8 * type_size t)))"
| "wire_bytes t (Float_Bits v) = le_bytes (type_size t) v"
| "wire_bytes t (Double_Bits v) = le_bytes (type_size t) v"

fun wire_text :: "stats_config \<Rightarrow> wire_number \<Rightarrow> string" where
  "wire_text k (Unsigned v) = nat_to_string v"
| "wire_text k (Signed v) = int_to_string v"
| "wire_text k (Float_Bits v) = float_text k v"
| "wire_text k (Double_Bits v) = double_text k v"

lemma length_wire_bytes [simp]: "length (wire_bytes t v) = type_size t"
  by (cases v) simp_all

lemma signed_of_mod:
  assumes "0 < n" and "- (2 ^ (8 * n - 1)) \<le> v" and "v < 2 ^ (8 * n - 1)"
  shows "signed_of n (nat (v mod 2 ^ (8 * n))) = v" "nat (v mod 2 ^ (8 * n)) < 256 ^ n"
proof -
  have "(2 :: int) ^ (8 * n) = 2 * 2 ^ (8 * n - 1)" using assms(1) by (simp flip: power_Suc)
  then obtain b :: int where b: "b = 2 ^ (8 * n - 1)" "2 ^ (8 * n) = 2 * b" "0 < b" by simp
  have m: "v mod (2 * b) = (if 0 \<le> v then v else v + 2 * b)"
    using assms(2,3) b mod_add_self2 [of v "2 * b"] mod_pos_pos_trivial [of "v + 2 * b" "2 * b"]
    by (auto simp: mod_pos_pos_trivial)
  have small: "int x < b \<longleftrightarrow> x < 2 ^ (8 * n - 1)" for x
    using of_nat_less_iff [where 'a = int, of x "2 ^ (8 * n - 1)"] by (simp add: b(1))
  show "signed_of n (nat (v mod 2 ^ (8 * n))) = v"
    unfolding b(2) signed_of_def small [symmetric] using m assms(2,3) b(1,3) by auto
  have "(256 :: int) ^ n = 2 ^ (8 * n)" by (simp add: power_mult)
  then have "int (nat (v mod 2 ^ (8 * n))) < int (256 ^ n)" by simp
  then show "nat (v mod 2 ^ (8 * n)) < 256 ^ n" by (simp only: of_nat_less_iff)
qed

lemma wire_scalar:
  assumes "wire_ok t v"
  shows "scalar_text k (wire_bytes t v) t = wire_text k v"
proof (cases v)
  case (Signed i)
  with assms have t: "t \<in> {Type_Int8, Type_Int16, Type_Int32, Type_Int64}"
    and r: "- (2 ^ (8 * type_size t - 1)) \<le> i" "i < 2 ^ (8 * type_size t - 1)" by auto
  then have n: "0 < type_size t" by auto
  have "scalar_text k bs t = int_to_string (signed_of (type_size t) (le_nat bs))" for bs using t by auto
  then show ?thesis
    unfolding Signed wire_bytes.simps wire_text.simps
    by (simp only: le_nat_bytes [OF signed_of_mod(2) [OF n r]] signed_of_mod(1) [OF n r])
next
  case (Unsigned m)
  with assms have t: "t \<in> {Type_Uint8, Type_Uint16, Type_Uint32, Type_Uint64}" and m: "m < 256 ^ type_size t" by auto
  have "scalar_text k bs t = nat_to_string (le_nat bs)" for bs using t by auto
  then show ?thesis unfolding Unsigned wire_bytes.simps wire_text.simps by (simp only: le_nat_bytes [OF m])
next
  case (Float_Bits m)
  then have "t = Type_Float" "m < 256 ^ 4" using assms by simp_all
  then show ?thesis using le_nat_bytes [of m 4] by (simp add: Float_Bits)
next
  case (Double_Bits m)
  then have "t = Type_Double" "m < 256 ^ 8" using assms by simp_all
  then show ?thesis using le_nat_bytes [of m 8] by (simp add: Double_Bits)
qed

lemma read_slice_parts:
  assumes "read_slice payload ptr (a + b) = Inr (x @ y)" and "length x = a"
  shows "read_slice payload ptr a = Inr x" "read_slice payload (ptr + a) b = Inr y"
proof -
  have in_: "ptr + (a + b) \<le> length payload" and "take (a + b) (drop ptr payload) = x @ y"
    using assms(1) by (auto simp: read_slice_def slice_def split: if_splits)
  then have "take a (drop ptr payload) @ take b (drop (ptr + a) payload) = x @ y"
    by (simp add: take_add add.commute)
  moreover have "length (take a (drop ptr payload)) = length x" using in_ assms(2) by simp
  ultimately have "take a (drop ptr payload) = x" "take b (drop (ptr + a) payload) = y" by simp_all
  with in_ show "read_slice payload ptr a = Inr x" "read_slice payload (ptr + a) b = Inr y"
    by (simp_all add: read_slice_def slice_def)
qed

lemma wire_values:
  assumes "list_all (wire_ok t) vs" and "read_slice payload ptr (type_size t * length vs) = Inr (concat (map (wire_bytes t) vs))"
  shows "read_values k payload ptr t (length vs) = Inr (map (wire_text k) vs)"
  using assms
proof (induction vs arbitrary: ptr)
  case (Cons v vs)
  have "read_slice payload ptr (type_size t + type_size t * length vs) = Inr (wire_bytes t v @ concat (map (wire_bytes t) vs))"
    using Cons.prems(2) by simp
  from read_slice_parts [OF this] Cons.IH [of "ptr + type_size t"] Cons.prems(1) show ?case
    by (simp add: read_scalar_string_def wire_scalar)
qed simp

definition wire_field_text :: "stats_config \<Rightarrow> wire_number list \<Rightarrow> string" where
  "wire_field_text k vs = (if length vs > 1 then bracketed (map (wire_text k) vs) else concat (map (wire_text k) vs))"

lemma wire_field:
  assumes "list_all (wire_ok (field_type_of f)) vs" and "length vs = array_len f"
    and "read_slice payload (wire_offset f) (type_size (field_type_of f) * length vs) = Inr (concat (map (wire_bytes (field_type_of f)) vs))"
  shows "field_value k payload f = Inr (wire_field_text k vs)"
proof -
  have "0 < array_len f" by (simp add: array_len_def)
  then obtain v ws where vs: "vs = v # ws" using assms(2) by (cases vs) auto
  have "type_size (field_type_of f) \<noteq> 0" "field_type_of f \<noteq> Type_Char"
    using assms(1) by (cases v; auto simp: vs)+
  moreover have "read_values k payload (wire_offset f) (field_type_of f) (array_len f) = Inr (map (wire_text k) vs)"
    using wire_values [OF assms(1,3), of k] unfolding assms(2) .
  ultimately show ?thesis
    using assms(2) by (cases ws) (simp_all add: field_value_def Let_def wire_field_text_def vs)
qed

text \<open>C39. The numbers that a sender puts into a field are the numbers the table shows in it, be they natural numbers or integers of one, two,
  four or eight bytes or floating-point numbers, one or an array of them: the message is recorded with the zeros at
  its end left out, handled, and the decoder reads it back, inside the array, whatever the table held before.\<close>

theorem number_on_the_wire_shown:
  assumes "s = fold (stats_step k) es stats_model_new" and "stats_enabled s" and "stats_pending s = []"
    and "message_info_by_id k msgid = Some info" and "list_all field_fits (info_fields info)"
    and "i < length (info_fields info)" and "f = info_fields info ! i"
    and "list_all (wire_ok (field_type_of f)) vs" and "length vs = array_len f"
    and "length p \<le> MAVLINK_MAX_PAYLOAD_LEN"
    and "read_slice p (wire_offset f) (type_size (field_type_of f) * length vs) = Inr (concat (map (wire_bytes (field_type_of f)) vs))"
    and "s' = fold (stats_step k) [Stats_Record (sysid, compid, msgid, truncate_payload p), Stats_Handle now] s"
  shows "\<exists>row d. row < length (stats_data s') \<and> stats_key (stats_data s' ! row) = (sysid, compid, msgid)
    \<and> decodeMessageDetails k (int row) s' = Inr d
    \<and> fs_name (ds_fields d ! i) = field_name f \<and> fs_value (ds_fields d ! i) = wire_field_text k vs"
proof -
  let ?m = "(now, sysid, compid, msgid, truncate_payload p)"
  let ?bytes = "concat (map (wire_bytes (field_type_of f)) vs)"
  define h where "h = handled_messages es"
  have "table_ok h (stats_data s)"
    using stats_rel_run [of es k] by (simp add: assms(1) stats_rel_def handled_messages_def h_def)
  then have ok: "table_ok (h @ [?m]) (stats_data s')"
    using table_ok_handle assms(2,3) by (simp add: assms(12) record_message_def handle_record_message_def)
  then have "(sysid, compid, msgid) \<in> stats_key ` set (stats_data s')" by (simp add: table_ok_def)
  then obtain row where row: "row < length (stats_data s')" "stats_key (stats_data s' ! row) = (sysid, compid, msgid)"
    by (auto simp: in_set_conv_nth)
  let ?e = "stats_data s' ! row"
  have "0 < length vs" unfolding assms(9) by (simp add: array_len_def)
  then obtain v where "v \<in> set vs" by (cases vs) auto
  then have "wire_ok (field_type_of f) v" using assms(8) by (auto simp: list_all_iff)
  then have "0 < type_size (field_type_of f)" by (cases v) auto
  with \<open>0 < length vs\<close> have "0 < type_size (field_type_of f) * length vs" by simp
  then have p: "p \<noteq> []"
    using assms(11) by (auto simp: read_slice_def)
  have pad: "padded_payload ?e = p @ replicate (MAVLINK_MAX_PAYLOAD_LEN - length p) 0"
    using ok row assms(10) truncate_nonempty [OF p]
    by (simp add: table_ok_def row_says_def latest_payload_append pad_truncated)
  then have len: "length (padded_payload ?e) = MAVLINK_MAX_PAYLOAD_LEN" using assms(10) by simp
  have "read_slice (padded_payload ?e) (wire_offset f) (type_size (field_type_of f) * length vs) = Inr ?bytes"
    using assms(11) unfolding pad by (auto simp: read_slice_def slice_def split: if_splits)
  then have "field_value k (padded_payload ?e) f = Inr (wire_field_text k vs)"
    by (rule wire_field [OF assms(8,9)])
  moreover obtain rs where rs: "show_fields k (padded_payload ?e) (info_fields info) = Inr rs"
    "\<forall>i < length (info_fields info). field_value k (padded_payload ?e) (info_fields info ! i) = Inr (fs_value (rs ! i))
       \<and> fs_name (rs ! i) = field_name (info_fields info ! i)"
    using show_fields_inside [OF len assms(5), of k] by blast
  moreover have "message_info_by_id k (message_id ?e) = Some info" using row(2) assms(4) by (simp add: stats_key_def)
  ultimately show ?thesis
    using row assms(6,7) by (intro exI [of _ row]) (auto simp: decodeMessageDetails_def Let_def)
qed

text \<open>An array of two integers of two bytes, the second of them 1 and so without its upper byte.\<close>

definition demo_signed_config :: stats_config where
  "demo_signed_config = demo_stats_config\<lparr>message_info_by_id := (\<lambda>m. if m = 31
     then Some \<lparr>info_name = ''PAIR'', info_fields = [\<lparr>field_name = ''xy'', field_type_of = Type_Int16, array_length = 2, wire_offset = 0\<rparr>]\<rparr>
     else None)\<rparr>"

theorem number_on_the_wire_shown_witness:
  "\<exists>row d. stats_key (stats_data (fold (stats_step demo_signed_config)
        [Stats_Record (1, 1, 31, [254, 255, 1]), Stats_Handle 7] stats_model_new) ! row) = (1, 1, 31)
     \<and> decodeMessageDetails demo_signed_config (int row) (fold (stats_step demo_signed_config)
        [Stats_Record (1, 1, 31, [254, 255, 1]), Stats_Handle 7] stats_model_new) = Inr d
     \<and> fs_value (ds_fields d ! 0) = ''['' @ int_to_string (-2) @ '', '' @ int_to_string 1 @ '']''"
proof -
  let ?f = "\<lparr>field_name = ''xy'', field_type_of = Type_Int16, array_length = 2, wire_offset = 0\<rparr>"
  let ?i = "\<lparr>info_name = ''PAIR'', info_fields = [?f]\<rparr>"
  let ?vs = "[Signed (-2), Signed 1]"
  have t: "truncate_payload [254, 255, 1, 0] = [254, 255, 1]" by (simp add: truncate_payload_def)
  have two: "le_bytes 2 v = [of_nat (v mod 256), of_nat (v div 256 mod 256)]" for v by (simp add: numeral_2_eq_2)
  have bytes: "concat (map (wire_bytes Type_Int16) ?vs) = [254, 255, 1, 0]" by (simp add: two)
  have written: "wire_field_text demo_signed_config ?vs = ''['' @ int_to_string (-2) @ '', '' @ int_to_string 1 @ '']''"
    by (simp add: wire_field_text_def bracketed_def)
  have "\<exists>row d. row < length (stats_data (fold (stats_step demo_signed_config)
          [Stats_Record (1, 1, 31, truncate_payload [254, 255, 1, 0]), Stats_Handle 7] stats_model_new))
      \<and> stats_key (stats_data (fold (stats_step demo_signed_config)
          [Stats_Record (1, 1, 31, truncate_payload [254, 255, 1, 0]), Stats_Handle 7] stats_model_new) ! row) = (1, 1, 31)
      \<and> decodeMessageDetails demo_signed_config (int row) (fold (stats_step demo_signed_config)
          [Stats_Record (1, 1, 31, truncate_payload [254, 255, 1, 0]), Stats_Handle 7] stats_model_new) = Inr d
      \<and> fs_name (ds_fields d ! 0) = field_name ?f \<and> fs_value (ds_fields d ! 0) = wire_field_text demo_signed_config ?vs"
  proof (rule number_on_the_wire_shown [where es = "[]" and s = stats_model_new and info = ?i and f = ?f])
    show "message_info_by_id demo_signed_config 31 = Some ?i" by (simp add: demo_signed_config_def)
    show "read_slice [254, 255, 1, 0] (wire_offset ?f) (type_size (field_type_of ?f) * length ?vs)
        = Inr (concat (map (wire_bytes (field_type_of ?f)) ?vs))"
      unfolding field_info.simps bytes by (simp add: read_slice_def slice_def)
    show "list_all field_fits (info_fields ?i)"
      by (simp add: field_fits_def array_len_def MAVLINK_MAX_PAYLOAD_LEN_def)
    show "length [254 :: u8, 255, 1, 0] \<le> MAVLINK_MAX_PAYLOAD_LEN" by (simp add: MAVLINK_MAX_PAYLOAD_LEN_def)
    show "list_all (wire_ok (field_type_of ?f)) ?vs" by simp
    show "length ?vs = array_len ?f" by (simp add: array_len_def)
  qed (simp_all add: stats_model_new_def)
  then show ?thesis unfolding t written by blast
qed

end
