(* ===== verification/Time_Stats.thy ===== *)
theory Time_Stats
  imports String_Helper
begin

text \<open>
  The statistics of durations and rates (\<open>app/common/TimeHelper.hpp\<close>): the running average \<open>AvgCalculator\<close> with its
  subclass \<open>Chronometer\<close>, the window \<open>AvgCalculator2\<close>, and the rates that are calculated between two calls. Durations and times are nanoseconds;
  the samples are unbounded, the counters of the rates are words. Names of calculators and output to the console are left out.
\<close>

section \<open>The text of a duration\<close>

definition readable_duration :: "int \<Rightarrow> string" where
  "readable_duration d =
     (let a = \<bar>d\<bar>; sign = (if d < 0 then ''-'' else '''') in
      if a \<ge> 1000000000 then sign @ to_string_with_precision (of_int (a div 1000000) / 1000) 2 @ ''s''
      else if a \<ge> 1000000 then sign @ to_string_with_precision (of_int (a div 1000) / 1000) 2 @ ''ms''
      else if a \<ge> 1000 then sign @ to_string_with_precision (of_int a / 1000) 2 @ ''us''
      else int_to_string d @ ''ns'')"

section \<open>The running average\<close>

definition nanoseconds_max :: int where
  "nanoseconds_max = 2 ^ 63 - 1"

record avg_calculator =
  avg_sum :: int
  avg_n_samples :: int
  avg_min :: int
  avg_max :: int
  avg_last_log :: int

definition avg_reset :: "avg_calculator \<Rightarrow> avg_calculator" where
  "avg_reset a = a\<lparr>avg_sum := 0, avg_n_samples := 0, avg_min := nanoseconds_max, avg_max := 0\<rparr>"

definition avg_calculator_new :: avg_calculator where
  "avg_calculator_new = avg_reset \<lparr>avg_sum = 0, avg_n_samples = 0, avg_min = nanoseconds_max, avg_max = 0, avg_last_log = 0\<rparr>"

definition avg_add :: "int \<Rightarrow> avg_calculator \<Rightarrow> avg_calculator" where
  "avg_add v a =
     (if v < 0 then a
      else a\<lparr>avg_sum := avg_sum a + v, avg_n_samples := avg_n_samples a + 1,
        avg_min := (if v < avg_min a then v else avg_min a), avg_max := (if v > avg_max a then v else avg_max a)\<rparr>)"

definition get_avg :: "avg_calculator \<Rightarrow> int" where
  "get_avg a = (if avg_n_samples a = 0 then 0 else avg_sum a div avg_n_samples a)"

definition avg_readable :: "bool \<Rightarrow> avg_calculator \<Rightarrow> string" where
  "avg_readable average_only a =
     (if average_only then ''avg='' @ readable_duration (get_avg a)
      else ''min='' @ readable_duration (avg_min a) @ '' max='' @ readable_duration (avg_max a)
        @ '' avg='' @ readable_duration (get_avg a))"

definition get_avg_ms :: "avg_calculator \<Rightarrow> rat" where
  "get_avg_ms a = of_int (get_avg a div 1000) / 1000"

definition time_since_last_log :: "int \<Rightarrow> avg_calculator \<Rightarrow> int" where
  "time_since_last_log now a = now - avg_last_log a"

definition set_last_log :: "int \<Rightarrow> avg_calculator \<Rightarrow> avg_calculator" where
  "set_last_log now a = a\<lparr>avg_last_log := now\<rparr>"

text \<open>The callback gets the calculator as it is before the reset: it is the first component, if it is called.\<close>

definition recalculate_in_fixed_time_intervals ::
  "int \<Rightarrow> int \<Rightarrow> avg_calculator \<Rightarrow> avg_calculator option \<times> avg_calculator" where
  "recalculate_in_fixed_time_intervals now interval a =
     (if time_since_last_log now a > interval then (Some a, set_last_log now (avg_reset a)) else (None, a))"

definition custom_print_in_intervals ::
  "int \<Rightarrow> int \<Rightarrow> bool \<Rightarrow> avg_calculator \<Rightarrow> string option \<times> avg_calculator" where
  "custom_print_in_intervals now interval reset_samples a =
     (if time_since_last_log now a > interval
      then (Some (avg_readable False a), set_last_log now (if reset_samples then avg_reset a else a))
      else (None, a))"

record chronometer =
  chrono_avg :: avg_calculator
  startTS :: int

definition chrono_start :: "int \<Rightarrow> chronometer \<Rightarrow> chronometer" where
  "chrono_start now c = c\<lparr>startTS := now\<rparr>"

definition chrono_stop :: "int \<Rightarrow> chronometer \<Rightarrow> chronometer" where
  "chrono_stop now c = c\<lparr>chrono_avg := avg_add (now - startTS c) (chrono_avg c)\<rparr>"

section \<open>The window of samples\<close>

record avg_window =
  sampleSize :: nat
  samples :: "int list"

definition window_add :: "int \<Rightarrow> avg_window \<Rightarrow> avg_window" where
  "window_add v w =
     (if v < 0 then w
      else
        let s = samples w @ [v] in
        w\<lparr>samples := (if sampleSize w \<noteq> 0 \<and> length s > sampleSize w then tl s else s)\<rparr>)"

definition window_avg :: "avg_window \<Rightarrow> int" where
  "window_avg w = (if samples w = [] then 0 else sum_list (samples w) div int (length (samples w)))"

text \<open>The minimum and maximum of an empty window dereference the end iterator.\<close>

definition window_min :: "avg_window \<Rightarrow> int result" where
  "window_min w = (case samples w of [] \<Rightarrow> Inl Past_End | x # xs \<Rightarrow> Inr (fold min xs x))"

definition window_max :: "avg_window \<Rightarrow> int result" where
  "window_max w = (case samples w of [] \<Rightarrow> Inl Past_End | x # xs \<Rightarrow> Inr (fold max xs x))"

definition window_reset :: "avg_window \<Rightarrow> avg_window" where
  "window_reset w = w\<lparr>samples := []\<rparr>"

definition samples_sorted :: "avg_window \<Rightarrow> int list" where
  "samples_sorted w = sort (samples w)"

definition n_values_low_high :: "nat \<Rightarrow> avg_window \<Rightarrow> int list \<times> int list" where
  "n_values_low_high n w =
     (let s = samples_sorted w; k = (if n > length s div 2 then length s div 2 else n) in
      (take k s, drop (length s - k) s))"

definition one_percent_low_high :: "avg_window \<Rightarrow> int list \<times> int list" where
  "one_percent_low_high w =
     (let s = samples_sorted w; k = length s div 100 in (take k s, drop (length s - k) s))"

section \<open>Rates\<close>

record relative_calculator =
  rel_sum :: int
  sum_at_last_call :: int

definition relative_add :: "int \<Rightarrow> relative_calculator \<Rightarrow> relative_calculator" where
  "relative_add x r = r\<lparr>rel_sum := rel_sum r + x\<rparr>"

definition get_delta_since_last_call :: "relative_calculator \<Rightarrow> int \<times> relative_calculator" where
  "get_delta_since_last_call r = (rel_sum r - sum_at_last_call r, r\<lparr>sum_at_last_call := rel_sum r\<rparr>)"

definition relative_reset :: "relative_calculator \<Rightarrow> relative_calculator" where
  "relative_reset r = r\<lparr>rel_sum := 0, sum_at_last_call := 0\<rparr>"

record rate_calculator =
  count_last_time :: "64 word"
  rate_last_time :: int
  curr_rate :: "64 word"

text \<open>\<open>PacketsPerSecondCalculator\<close> has \<open>unit = 1\<close>, \<open>BitrateCalculator2\<close> has \<open>unit = 8\<close>. Microseconds are truncated.\<close>

definition recalculate_since_last :: "64 word \<Rightarrow> int \<Rightarrow> 64 word \<Rightarrow> rate_calculator \<Rightarrow> 64 word \<times> rate_calculator" where
  "recalculate_since_last unit now count c =
     (let delta = (count - count_last_time c) * unit;
          delta_us = (now - rate_last_time c) div 1000;
          c1 = c\<lparr>rate_last_time := now, count_last_time := count\<rparr>
      in (if delta_us > 0 \<and> delta > 0 then delta * 1000 * 1000 div word_of_int delta_us else 0, c1))"

definition get_last_or_recalculate ::
  "64 word \<Rightarrow> int \<Rightarrow> int \<Rightarrow> 64 word \<Rightarrow> rate_calculator \<Rightarrow> 64 word \<times> rate_calculator" where
  "get_last_or_recalculate unit now interval count c =
     (if now - rate_last_time c \<ge> interval
      then (let (r, c1) = recalculate_since_last unit now count c in (r, c1\<lparr>curr_rate := r\<rparr>))
      else (curr_rate c, c))"

definition rate_reset :: "int \<Rightarrow> rate_calculator \<Rightarrow> rate_calculator" where
  "rate_reset now c = c\<lparr>count_last_time := 0, rate_last_time := now, curr_rate := 0\<rparr>"

section \<open>What the calculators say\<close>

text \<open>The samples that count: negative ones are refused.\<close>

definition counted :: "int list \<Rightarrow> int list" where
  "counted vs = filter (\<lambda>v. v \<ge> 0) vs"

lemma avg_of_samples:
  "let a = fold avg_add vs avg_calculator_new; s = counted vs in
     avg_sum a = sum_list s \<and> avg_n_samples a = int (length s)
     \<and> avg_min a = fold min s nanoseconds_max \<and> avg_max a = fold max s 0"
proof -
  have "let a' = fold avg_add vs a; s = counted vs in
     avg_sum a' = avg_sum a + sum_list s \<and> avg_n_samples a' = avg_n_samples a + int (length s)
     \<and> avg_min a' = fold min s (avg_min a) \<and> avg_max a' = fold max s (avg_max a)" for a
  proof (induction vs arbitrary: a)
    case (Cons v vs)
    have "min v (avg_min a) = (if v < avg_min a then v else avg_min a)"
      "max v (avg_max a) = (if v > avg_max a then v else avg_max a)" by auto
    with Cons.IH [of "avg_add v a"] show ?case by (auto simp: counted_def avg_add_def Let_def)
  qed (simp add: counted_def)
  from this [of avg_calculator_new] show ?thesis
    by (simp add: avg_calculator_new_def avg_reset_def Let_def)
qed

lemma fold_min_bound: "fold min xs (a :: int) = b \<Longrightarrow> b \<le> a \<and> (\<forall>x \<in> set xs. b \<le> x) \<and> b \<in> insert a (set xs)"
  by (induction xs arbitrary: a) (fastforce simp: min_def split: if_splits)+

lemma fold_max_bound: "fold max xs (a :: int) = b \<Longrightarrow> a \<le> b \<and> (\<forall>x \<in> set xs. x \<le> b) \<and> b \<in> insert a (set xs)"
  by (induction xs arbitrary: a) (fastforce simp: max_def split: if_splits)+

lemma mean_between:
  assumes "xs \<noteq> []" and "\<forall>x \<in> set xs. (l :: int) \<le> x \<and> x \<le> u"
  shows "l \<le> sum_list xs div int (length xs) \<and> sum_list xs div int (length xs) \<le> u"
proof -
  have "l * int (length xs) \<le> sum_list xs \<and> sum_list xs \<le> u * int (length xs)"
    using assms(2) by (induction xs) (auto simp: algebra_simps)
  moreover have n: "0 < int (length xs)" using assms(1) by simp
  ultimately have "l * int (length xs) div int (length xs) \<le> sum_list xs div int (length xs)"
    "sum_list xs div int (length xs) \<le> u * int (length xs) div int (length xs)"
    using zdiv_mono1 [of _ _ "int (length xs)"] by blast+
  with n show ?thesis by simp
qed

text \<open>The window holds the newest samples.\<close>

lemma window_holds_newest:
  assumes "sampleSize w = n" and "samples w = []"
  shows "samples (fold window_add vs w)
    = (let s = counted vs in if n = 0 then s else drop (length s - n) s) \<and> sampleSize (fold window_add vs w) = n"
proof (induction vs rule: rev_induct)
  case (snoc v vs)
  let ?w = "fold window_add vs w" and ?s = "counted vs"
  show ?case
  proof (cases "v < 0")
    case True
    with snoc show ?thesis by (simp add: window_add_def counted_def)
  next
    case False
    then have c: "counted (vs @ [v]) = ?s @ [v]" by (simp add: counted_def)
    show ?thesis
    proof (cases "n = 0")
      case True
      with snoc False c show ?thesis by (simp add: window_add_def Let_def)
    next
      case n: False
      show ?thesis
      proof (cases "length ?s < n")
        case True
        with snoc False c n show ?thesis by (simp add: window_add_def Let_def)
      next
        case full: False
        then have "length ?s - n < length ?s" "Suc (length ?s) - n = Suc (length ?s - n)" using n by auto
        with snoc False c n full show ?thesis
          by (simp add: window_add_def Let_def drop_Suc tl_drop [symmetric] tl_append2)
      qed
    qed
  qed
qed (use assms in \<open>simp add: counted_def\<close>)

text \<open>The statistics against the samples they were given, of which the negative ones are refused: the running average is
  that of all of them and lies between the smallest and the largest, the window that of the newest, and as
  long as no more samples came than it has room for both agree.\<close>

theorem averages_of_samples:
  assumes "a = fold avg_add vs avg_calculator_new" and "w = fold window_add vs \<lparr>sampleSize = n, samples = []\<rparr>"
    and "s = counted vs" and "s \<noteq> []" and "\<forall>v \<in> set vs. v \<le> nanoseconds_max"
  shows "get_avg a = sum_list s div int (length s)
    \<and> avg_min a \<in> set s \<and> avg_max a \<in> set s \<and> (\<forall>v \<in> set s. avg_min a \<le> v \<and> v \<le> avg_max a)
    \<and> avg_min a \<le> get_avg a \<and> get_avg a \<le> avg_max a
    \<and> samples w = (if n = 0 then s else drop (length s - n) s)
    \<and> (n = 0 \<or> length s \<le> n \<longrightarrow> window_avg w = get_avg a \<and> window_min w = Inr (avg_min a) \<and> window_max w = Inr (avg_max a))"
proof -
  have a: "avg_sum a = sum_list s" "avg_n_samples a = int (length s)"
    "avg_min a = fold min s nanoseconds_max" "avg_max a = fold max s 0"
    using avg_of_samples [of vs] by (simp_all add: assms(1,3) Let_def)
  have s: "\<forall>v \<in> set s. 0 \<le> v \<and> v \<le> nanoseconds_max" using assms(5) by (auto simp: assms(3) counted_def)
  obtain x xs where x: "s = x # xs" using assms(4) by (cases s) auto
  have lo: "avg_min a = fold min xs x" and hi: "avg_max a = fold max xs x"
    using s a(3,4) by (auto simp: x min_def max_def dest: order_antisym)
  have mn: "avg_min a \<in> set s" "\<forall>v \<in> set s. avg_min a \<le> v"
    using fold_min_bound [OF lo [symmetric]] by (auto simp: x)
  have mx: "avg_max a \<in> set s" "\<forall>v \<in> set s. v \<le> avg_max a"
    using fold_max_bound [OF hi [symmetric]] by (auto simp: x)
  have avg: "get_avg a = sum_list s div int (length s)" using a assms(4) by (simp add: get_avg_def)
  have w: "samples w = (if n = 0 then s else drop (length s - n) s)"
    using window_holds_newest [of "\<lparr>sampleSize = n, samples = []\<rparr>" n vs] by (simp add: assms(2,3) Let_def)
  then have "n = 0 \<or> length s \<le> n \<longrightarrow> samples w = s" by auto
  then have "n = 0 \<or> length s \<le> n \<longrightarrow> window_avg w = get_avg a \<and> window_min w = Inr (avg_min a) \<and> window_max w = Inr (avg_max a)"
    using avg lo hi by (auto simp: window_avg_def window_min_def window_max_def x)
  with avg mn mx w mean_between [OF assms(4), of "avg_min a" "avg_max a"] show ?thesis by auto
qed

theorem averages_of_samples_witness:
  "get_avg (fold avg_add [40, -3, 20, 31] avg_calculator_new) = 30
     \<and> samples (fold window_add [40, -3, 20, 31] \<lparr>sampleSize = 2, samples = []\<rparr>) = [20, 31]"
  using averages_of_samples [OF refl refl refl, of "[40, -3, 20, 31]" 2]
  by (simp add: counted_def nanoseconds_max_def)

text \<open>As long as nothing wraps around, a rate is the exact quotient, rounded down.\<close>

lemma rate_exact:
  assumes "count \<ge> count_last_time c" and "rate_last_time c + 1000 \<le> now"
    and "uint (count - count_last_time c) * uint unit * 1000000 < 2 ^ 64" and "(now - rate_last_time c) div 1000 < 2 ^ 64"
  shows "uint (fst (recalculate_since_last unit now count c))
    = uint (count - count_last_time c) * uint unit * 1000000 div ((now - rate_last_time c) div 1000)"
proof -
  let ?d = "count - count_last_time c" and ?t = "(now - rate_last_time c) div 1000"
  have t: "0 < ?t" using assms(2) by simp
  let ?b = "uint ?d * uint unit"
  have b: "0 \<le> ?b" by simp
  have mult: "uint x * uint y < 2 ^ 64 \<Longrightarrow> uint (x * y) = uint x * uint y" for x y :: "64 word"
    using uint_mult_lem [of x y] by simp
  have b1: "?b < 2 ^ 64" "?b * 1000 < 2 ^ 64" using assms(3) b by linarith+
  have d0: "uint (?d * unit) = ?b" by (rule mult) (rule b1(1))
  have d1: "uint (?d * unit * 1000) = ?b * 1000" using mult [of "?d * unit" 1000] b1(2) by (simp add: d0)
  have "uint (?d * unit * 1000 * 1000) = ?b * 1000000"
    using mult [of "?d * unit * 1000" 1000] assms(3) by (simp add: d1)
  moreover have "uint (word_of_int ?t :: 64 word) = ?t"
    using t assms(4) by (simp add: uint_word_of_int)
  ultimately show ?thesis
    using t d0 by (auto simp: recalculate_since_last_def Let_def uint_div word_gt_0)
qed

end
