(* ===== verification/Object_List.thy ===== *)
theory Object_List
  imports Prelude
begin

text \<open>
  The list of objects the map shows (\<open>QmlObjectListModel\<close>, \<open>app/adsb/qmlobjectlistmodel.cpp\<close>). An object is its address;
  the objects themselves belong to the caller. The signals to the views and the connections to a signal \<open>dirtyChanged\<close> of
  the objects are left out, as is the property \<open>dirty\<close> of the objects: those of the program have none.
\<close>

section \<open>State and operations\<close>

record object_list =
  objectList :: "nat list"
  list_dirty :: bool
  externalBeginResetModel :: bool

definition object_list_new :: object_list where
  "object_list_new = \<lparr>objectList = [], list_dirty = False, externalBeginResetModel = False\<rparr>"

definition object_count :: "object_list \<Rightarrow> int" where
  "object_count l = int (length (objectList l))"

text \<open>\<open>get\<close> and \<open>operator[]\<close>: a null pointer outside the list.\<close>

definition object_get :: "int \<Rightarrow> object_list \<Rightarrow> nat option" where
  "object_get i l = (if i < 0 \<or> i \<ge> object_count l then None else Some (objectList l ! nat i))"

text \<open>The unchecked access of the template \<open>value\<close> and of \<open>removeAt\<close>.\<close>

definition object_at :: "int \<Rightarrow> object_list \<Rightarrow> nat result" where
  "object_at i l = (if i < 0 \<or> i \<ge> object_count l then Inl Over_Read else Inr (objectList l ! nat i))"

definition set_dirty :: "bool \<Rightarrow> object_list \<Rightarrow> object_list" where
  "set_dirty d l = (if list_dirty l \<noteq> d then l\<lparr>list_dirty := d\<rparr> else l)"

definition child_dirty_changed :: "bool \<Rightarrow> object_list \<Rightarrow> object_list" where
  "child_dirty_changed d l = l\<lparr>list_dirty := list_dirty l \<or> d\<rparr>"

text \<open>\<open>QList::removeAt\<close> and \<open>QList::insert\<close>: the first does nothing outside the list, the second takes an
  index before the list as its start and one behind it as its end.\<close>

definition qlist_remove_at :: "int \<Rightarrow> nat list \<Rightarrow> nat list" where
  "qlist_remove_at i xs = (if i < 0 then xs else take (nat i) xs @ drop (Suc (nat i)) xs)"

definition qlist_insert :: "int \<Rightarrow> nat \<Rightarrow> nat list \<Rightarrow> nat list" where
  "qlist_insert i x xs = take (nat i) xs @ x # drop (nat i) xs"

text \<open>\<open>removeRows\<close> warns about a range outside the list, and removes all the same.\<close>

primrec remove_object_rows :: "int \<Rightarrow> nat \<Rightarrow> nat list \<Rightarrow> nat list" where
  "remove_object_rows position 0 xs = xs"
| "remove_object_rows position (Suc rows) xs = remove_object_rows position rows (qlist_remove_at position xs)"

definition remove_at :: "int \<Rightarrow> object_list \<Rightarrow> (nat \<times> object_list) result" where
  "remove_at i l =
     rbind (object_at i l) (\<lambda>removed.
     Inr (removed, set_dirty True (l\<lparr>objectList := remove_object_rows i 1 (objectList l)\<rparr>)))"

definition index_of :: "nat \<Rightarrow> object_list \<Rightarrow> int" where
  "index_of x l =
     (case find (\<lambda>i. objectList l ! i = x) [0..<length (objectList l)] of Some i \<Rightarrow> int i | None \<Rightarrow> -1)"

definition object_contains :: "nat \<Rightarrow> object_list \<Rightarrow> bool" where
  "object_contains x l \<longleftrightarrow> index_of x l \<noteq> -1"

definition remove_one :: "nat \<Rightarrow> object_list \<Rightarrow> (nat \<times> object_list) result" where
  "remove_one x l = remove_at (index_of x l) l"

definition object_insert :: "int \<Rightarrow> nat \<Rightarrow> object_list \<Rightarrow> object_list" where
  "object_insert i x l = set_dirty True (l\<lparr>objectList := qlist_insert i x (objectList l)\<rparr>)"

text \<open>The overload for a list of objects: the index is advanced before the object is inserted.\<close>

fun insert_after :: "int \<Rightarrow> nat list \<Rightarrow> nat list \<Rightarrow> nat list" where
  "insert_after j [] xs = xs"
| "insert_after j (x # objects) xs = insert_after (j + 1) objects (qlist_insert (j + 1) x xs)"

definition object_insert_list :: "int \<Rightarrow> nat list \<Rightarrow> object_list \<Rightarrow> object_list" where
  "object_insert_list i objects l = set_dirty True (l\<lparr>objectList := insert_after i objects (objectList l)\<rparr>)"

definition object_append :: "nat \<Rightarrow> object_list \<Rightarrow> object_list" where
  "object_append x l = object_insert (object_count l) x l"

definition object_append_list :: "nat list \<Rightarrow> object_list \<Rightarrow> object_list" where
  "object_append_list objects l = object_insert_list (object_count l) objects l"

definition swap_object_list :: "nat list \<Rightarrow> object_list \<Rightarrow> nat list \<times> object_list" where
  "swap_object_list newlist l = (objectList l, l\<lparr>objectList := newlist\<rparr>)"

definition object_clear :: "object_list \<Rightarrow> object_list" where
  "object_clear l = l\<lparr>objectList := []\<rparr>"

text \<open>The objects that are deleted, and the empty list.\<close>

definition clear_and_delete_contents :: "object_list \<Rightarrow> nat list \<times> object_list" where
  "clear_and_delete_contents l = (objectList l, object_clear l)"

definition begin_reset :: "object_list \<Rightarrow> object_list" where
  "begin_reset l = l\<lparr>externalBeginResetModel := True\<rparr>"

definition end_reset :: "object_list \<Rightarrow> object_list" where
  "end_reset l = l\<lparr>externalBeginResetModel := False\<rparr>"

section \<open>What the operations do to the list\<close>

lemma objects_set_dirty [simp]: "objectList (set_dirty d l) = objectList l"
  by (simp add: set_dirty_def)

lemma qlist_insert_end [simp]: "int (length xs) \<le> i \<Longrightarrow> qlist_insert i x xs = xs @ [x]"
  by (simp add: qlist_insert_def)

lemma objects_append [simp]: "objectList (object_append x l) = objectList l @ [x]"
  by (simp add: object_append_def object_insert_def object_count_def)

text \<open>At the end of the list the overload for lists appends in order, since \<open>QList\<close> takes the index behind the end as the end.\<close>

lemma insert_after_end: "int (length xs) \<le> j \<Longrightarrow> insert_after j objects xs = xs @ objects"
  by (induction objects arbitrary: j xs) auto

lemma objects_append_list [simp]: "objectList (object_append_list xs l) = objectList l @ xs"
  by (simp add: object_append_list_def object_insert_list_def object_count_def insert_after_end)

text \<open>Inside the list it inserts one place too late.\<close>

lemma insert_list_late:
  assumes "i < length (objectList l)"
  shows "objectList (object_insert_list (int i) objects l)
    = take (Suc i) (objectList l) @ objects @ drop (Suc i) (objectList l)"
proof -
  have gen: "insert_after (int (length xs)) objects (xs @ y # ys) = xs @ y # objects @ ys" for xs y ys
  proof (induction objects arbitrary: xs y)
    case (Cons z objects)
    have "qlist_insert (int (length xs) + 1) z (xs @ y # ys) = (xs @ [y]) @ z # ys"
      by (simp add: qlist_insert_def nat_add_distrib)
    with Cons.IH [of "xs @ [y]" z] show ?case by (simp add: algebra_simps)
  qed simp
  obtain xs y ys where l: "objectList l = xs @ y # ys" "length xs = i"
    using assms id_take_nth_drop [of i "objectList l"] by (metis length_take less_or_eq_imp_le min.absorb2)
  with gen [of xs y ys] show ?thesis by (simp add: object_insert_list_def)
qed

lemma object_at_inside [simp]: "i < length (objectList l) \<Longrightarrow> object_at (int i) l = Inr (objectList l ! i)"
  by (simp add: object_at_def object_count_def)

lemma remove_at_inside:
  "i < length (objectList l) \<Longrightarrow>
     remove_at (int i) l = Inr (objectList l ! i,
       set_dirty True (l\<lparr>objectList := take i (objectList l) @ drop (Suc i) (objectList l)\<rparr>))"
  by (simp add: remove_at_def qlist_remove_at_def numeral_eq_Suc)

text \<open>An object that is not in the list is looked up at the index -1.\<close>

lemma index_of_absent: "x \<notin> set (objectList l) \<Longrightarrow> index_of x l = -1"
  by (auto simp: index_of_def in_set_conv_nth find_Some_iff split: option.split)

lemma remove_one_absent: "x \<notin> set (objectList l) \<Longrightarrow> remove_one x l = Inl Over_Read"
  by (simp add: remove_one_def index_of_absent remove_at_def object_at_def)

end
