(* ===== verification/Traffic.thy ===== *)
theory Traffic
  imports Complex_Main Object_List
begin

text \<open>
  The aircraft on the map (\<open>app/adsb/adsbvehicle.cpp\<close> and the class \<open>ADSBVehicleManager\<close> of
  \<open>app/adsb/adsbvehiclemanager.cpp\<close>). A vehicle is an object with an address; the manager reaches it by two ways, the list
  the screen shows and a map by ICAO address, and deletes it in the one that finds it old. The theory proves that the two stay
  together, so that the program implements a plain list of aircraft, and what breaks them apart.

  Clock: milliseconds. Floating-point numbers are rationals; \<open>None\<close> is NaN where the code tests for it. An object that is
  deleted later is gone when its handler returns. What a new object holds in the members its constructor does not set is
  an argument, and so is what a \<open>QElapsedTimer\<close> that was never started says. \<open>_evaluateTraffic\<close> has no effect: both of
  its warnings are commented out.
\<close>

section \<open>One vehicle\<close>

definition CallsignAvailable :: u32 where "CallsignAvailable = push_bit 1 1"
definition LocationAvailable :: u32 where "LocationAvailable = push_bit 2 1"
definition AltitudeAvailable :: u32 where "AltitudeAvailable = push_bit 3 1"
definition HeadingAvailable :: u32 where "HeadingAvailable = push_bit 4 1"
definition AlertAvailable :: u32 where "AlertAvailable = push_bit 5 1"
definition VelocityAvailable :: u32 where "VelocityAvailable = push_bit 6 1"
definition VerticalVelAvailable :: u32 where "VerticalVelAvailable = push_bit 7 1"
definition LastContactAvailable :: u32 where "LastContactAvailable = push_bit 8 1"
definition DistanceAvailable :: u32 where "DistanceAvailable = push_bit 8 1"

lemmas available_defs =
  CallsignAvailable_def LocationAvailable_def AltitudeAvailable_def HeadingAvailable_def AlertAvailable_def
  VelocityAvailable_def VerticalVelAvailable_def LastContactAvailable_def DistanceAvailable_def

record vehicle_info =
  i_icaoAddress :: u32
  i_callsign :: string
  i_lat :: rat
  i_lon :: rat
  i_altitude :: "rat option"
  i_velocity :: rat
  i_heading :: "rat option"
  i_alert :: int
  availableFlags :: u32
  i_lastContact :: int
  i_verticalVel :: rat
  i_distance :: rat

record vehicle =
  v_icaoAddress :: u32
  v_callsign :: string
  v_lat :: rat
  v_lon :: rat
  v_altitude :: "rat option"
  v_velocity :: rat
  v_heading :: "rat option"
  v_alert :: int
  v_lastContact :: int
  v_verticalVel :: rat
  v_distance :: rat
  lastUpdateTimer :: int

definition available :: "u32 \<Rightarrow> vehicle_info \<Rightarrow> bool" where
  "available flag i \<longleftrightarrow> availableFlags i AND flag \<noteq> 0"

definition fuzzy_compare :: "rat option \<Rightarrow> rat option \<Rightarrow> bool" where
  "fuzzy_compare p q =
     (case (p, q) of (Some x, Some y) \<Rightarrow> \<bar>x - y\<bar> * 10 ^ 12 \<le> min \<bar>x\<bar> \<bar>y\<bar> | _ \<Rightarrow> False)"

text \<open>A new value replaces the old one unless both are NaN or they are nearly the same.\<close>

definition nan_update :: "rat option \<Rightarrow> rat option \<Rightarrow> rat option" where
  "nan_update new old =
     (if \<not> (new = None \<and> old = None) \<and> \<not> fuzzy_compare new old then new else old)"

definition vehicle_update :: "int \<Rightarrow> vehicle_info \<Rightarrow> vehicle \<Rightarrow> vehicle" where
  "vehicle_update now i v =
     (if v_icaoAddress v \<noteq> i_icaoAddress i then v
      else
        let v1 = (if available CallsignAvailable i then v\<lparr>v_callsign := i_callsign i\<rparr> else v);
            v2 = (if available LocationAvailable i then v1\<lparr>v_lat := i_lat i, v_lon := i_lon i\<rparr> else v1);
            v3 = (if available AltitudeAvailable i
                  then v2\<lparr>v_altitude := nan_update (i_altitude i) (v_altitude v2)\<rparr> else v2);
            v4 = (if available HeadingAvailable i
                  then v3\<lparr>v_heading := nan_update (i_heading i) (v_heading v3)\<rparr> else v3);
            v5 = (if available AlertAvailable i then v4\<lparr>v_alert := i_alert i\<rparr> else v4);
            v6 = (if available VelocityAvailable i then v5\<lparr>v_velocity := i_velocity i\<rparr> else v5);
            v7 = (if available VerticalVelAvailable i then v6\<lparr>v_verticalVel := i_verticalVel i\<rparr> else v6);
            v8 = (if available LastContactAvailable i then v7\<lparr>v_lastContact := i_lastContact i\<rparr> else v7);
            v9 = (if available DistanceAvailable i then v8\<lparr>v_distance := i_distance i\<rparr> else v8)
        in v9\<lparr>lastUpdateTimer := now\<rparr>)"

definition vehicle_new :: "int \<Rightarrow> vehicle_info \<Rightarrow> vehicle \<Rightarrow> vehicle" where
  "vehicle_new now i mem =
     vehicle_update now i
       (mem\<lparr>v_icaoAddress := i_icaoAddress i, v_callsign := '''', v_altitude := None, v_heading := None, v_alert := 0\<rparr>)"

definition expirationTimeoutMs :: int where
  "expirationTimeoutMs = 25000"

definition expired :: "int \<Rightarrow> vehicle \<Rightarrow> bool" where
  "expired now v \<longleftrightarrow> now - lastUpdateTimer v > expirationTimeoutMs"

section \<open>The manager\<close>

record traffic =
  vehicle_heap :: "nat \<rightharpoonup> vehicle"
  next_address :: nat
  adsbVehicles :: object_list
  adsbICAOMap :: "u32 \<rightharpoonup> nat"
  last_update_timer :: "int option"
  traffic_status :: nat
  api_lat :: rat
  api_lon :: rat

definition traffic_new :: traffic where
  "traffic_new = \<lparr>vehicle_heap = Map.empty, next_address = 0, adsbVehicles = object_list_new,
     adsbICAOMap = Map.empty, last_update_timer = None, traffic_status = 0, api_lat = 0, api_lon = 0\<rparr>"

text \<open>Following a pointer.\<close>

definition vehicle_at :: "nat \<Rightarrow> traffic \<Rightarrow> vehicle result" where
  "vehicle_at p s = (case vehicle_heap s p of None \<Rightarrow> Inl Use_After_Free | Some v \<Rightarrow> Inr v)"

definition adsbVehicleUpdate :: "int \<Rightarrow> vehicle_info \<Rightarrow> vehicle \<Rightarrow> traffic \<Rightarrow> traffic result" where
  "adsbVehicleUpdate now i mem s =
     (if available LocationAvailable i then
        rbind (case adsbICAOMap s (i_icaoAddress i) of
            Some p \<Rightarrow> rbind (vehicle_at p s) (\<lambda>v. Inr (s\<lparr>vehicle_heap := (vehicle_heap s)(p \<mapsto> vehicle_update now i v)\<rparr>))
          | None \<Rightarrow>
              let p = next_address s in
              Inr (s\<lparr>vehicle_heap := (vehicle_heap s)(p \<mapsto> vehicle_new now i mem), next_address := p + 1,
                adsbICAOMap := (adsbICAOMap s)(i_icaoAddress i \<mapsto> p),
                adsbVehicles := object_append p (adsbVehicles s)\<rparr>))
          (\<lambda>s1. Inr (s1\<lparr>last_update_timer := Some now, traffic_status := 2\<rparr>))
      else Inr s)"

text \<open>The loop of the cleanup, from the last vehicle to the first.\<close>

primrec cleanup_loop :: "int \<Rightarrow> nat \<Rightarrow> traffic \<Rightarrow> traffic result" where
  "cleanup_loop now 0 s = Inr s"
| "cleanup_loop now (Suc i) s =
     rbind (object_at (int i) (adsbVehicles s)) (\<lambda>p.
     rbind (vehicle_at p s) (\<lambda>v.
     rbind (if expired now v
            then rbind (remove_at (int i) (adsbVehicles s)) (\<lambda>(_, l).
                 Inr (s\<lparr>adsbVehicles := l, adsbICAOMap := (adsbICAOMap s)(v_icaoAddress v := None),
                   vehicle_heap := (vehicle_heap s)(p := None)\<rparr>))
            else Inr s)
       (cleanup_loop now i)))"

definition update_status :: "int \<Rightarrow> int \<Rightarrow> traffic \<Rightarrow> traffic" where
  "update_status now junk s =
     (let elapsed = (case last_update_timer s of Some t \<Rightarrow> now - t | None \<Rightarrow> junk) in
      if elapsed > 60000 then s\<lparr>traffic_status := 0\<rparr>
      else if elapsed > 20000 then s\<lparr>traffic_status := 1\<rparr>
      else s)"

definition cleanupStaleVehicles :: "int \<Rightarrow> int \<Rightarrow> traffic \<Rightarrow> traffic result" where
  "cleanupStaleVehicles now junk s =
     rbind (cleanup_loop now (length (objectList (adsbVehicles s))) s) (\<lambda>s1. Inr (update_status now junk s1))"

text \<open>\<open>adsbClearModel\<close> empties the list and deletes the vehicles; the map by ICAO address keeps its pointers.\<close>

definition adsbClearModel :: "traffic \<Rightarrow> traffic" where
  "adsbClearModel s =
     (let (deleted, l) = clear_and_delete_contents (adsbVehicles s) in
      s\<lparr>adsbVehicles := l, vehicle_heap := vehicle_heap s |` (- set deleted)\<rparr>)"

datatype traffic_event =
    Vehicle_Update int vehicle_info vehicle
  | Cleanup_Timer int int
  | Clear_Model
  | New_Map_Lat rat
  | New_Map_Lon rat

fun traffic_step :: "traffic_event \<Rightarrow> traffic \<Rightarrow> traffic result" where
  "traffic_step (Vehicle_Update now i mem) s = adsbVehicleUpdate now i mem s"
| "traffic_step (Cleanup_Timer now junk) s = cleanupStaleVehicles now junk s"
| "traffic_step Clear_Model s = Inr (adsbClearModel s)"
| "traffic_step (New_Map_Lat x) s = Inr (s\<lparr>api_lat := x\<rparr>)"
| "traffic_step (New_Map_Lon x) s = Inr (s\<lparr>api_lon := x\<rparr>)"

section \<open>The specification: a list of aircraft\<close>

text \<open>An aircraft that is known is updated where it stands, a new one is added at the end, and the timer drops those that
  have not been heard of for 25 seconds.\<close>

definition spec_update :: "int \<Rightarrow> vehicle_info \<Rightarrow> vehicle \<Rightarrow> vehicle list \<Rightarrow> vehicle list" where
  "spec_update now i mem vs =
     (if \<not> available LocationAvailable i then vs
      else if i_icaoAddress i \<in> v_icaoAddress ` set vs then map (vehicle_update now i) vs
      else vs @ [vehicle_new now i mem])"

fun spec_step :: "traffic_event \<Rightarrow> vehicle list \<Rightarrow> vehicle list" where
  "spec_step (Vehicle_Update now i mem) vs = spec_update now i mem vs"
| "spec_step (Cleanup_Timer now junk) vs = filter (\<lambda>v. \<not> expired now v) vs"
| "spec_step _ vs = vs"

text \<open>What the screen shows, and the invariant that lets both ways reach the same vehicles.\<close>

definition shown_vehicles :: "traffic \<Rightarrow> vehicle list" where
  "shown_vehicles s = map (\<lambda>p. the (vehicle_heap s p)) (objectList (adsbVehicles s))"

definition traffic_ok :: "traffic \<Rightarrow> bool" where
  "traffic_ok s \<longleftrightarrow>
     distinct (objectList (adsbVehicles s))
     \<and> dom (vehicle_heap s) = set (objectList (adsbVehicles s))
     \<and> (\<forall>p \<in> set (objectList (adsbVehicles s)). p < next_address s)
     \<and> (\<forall>k p. adsbICAOMap s k = Some p \<longleftrightarrow> (\<exists>v. vehicle_heap s p = Some v \<and> v_icaoAddress v = k))"


section \<open>The program implements the specification\<close>

lemma icao_update [simp]: "v_icaoAddress (vehicle_update now i v) = v_icaoAddress v"
  by (simp add: vehicle_update_def Let_def)

lemma icao_new [simp]: "v_icaoAddress (vehicle_new now i mem) = i_icaoAddress i"
  by (simp add: vehicle_new_def)

lemma update_other [simp]: "v_icaoAddress v \<noteq> i_icaoAddress i \<Longrightarrow> vehicle_update now i v = v"
  by (simp add: vehicle_update_def)

lemma traffic_ok_new: "traffic_ok traffic_new \<and> shown_vehicles traffic_new = []"
  by (simp add: traffic_ok_def traffic_new_def object_list_new_def shown_vehicles_def)

lemma listed_vehicle:
  "traffic_ok s \<Longrightarrow> p \<in> set (objectList (adsbVehicles s)) \<Longrightarrow> \<exists>v. vehicle_heap s p = Some v"
  by (auto simp: traffic_ok_def)

text \<open>The map finds a vehicle exactly when it is shown.\<close>

lemma known_iff_shown:
  assumes "traffic_ok s"
  shows "k \<in> v_icaoAddress ` set (shown_vehicles s) \<longleftrightarrow> (\<exists>p. adsbICAOMap s k = Some p)"
proof -
  from assms have "set (objectList (adsbVehicles s)) = dom (vehicle_heap s)"
    by (simp add: traffic_ok_def)
  then have "v_icaoAddress ` set (shown_vehicles s) = {v_icaoAddress v | v p. vehicle_heap s p = Some v}"
    by (force simp: shown_vehicles_def)
  moreover from assms have "adsbICAOMap s k = Some p \<longleftrightarrow> (\<exists>v. vehicle_heap s p = Some v \<and> v_icaoAddress v = k)" for p
    by (simp add: traffic_ok_def)
  ultimately show ?thesis by auto
qed

lemma traffic_ok_inj:
  "traffic_ok s \<Longrightarrow> vehicle_heap s p = Some v \<Longrightarrow> vehicle_heap s q = Some w \<Longrightarrow> v_icaoAddress v = v_icaoAddress w \<Longrightarrow> p = q"
  unfolding traffic_ok_def by (metis option.inject)

lemma update_known:
  assumes "traffic_ok s" and "adsbICAOMap s (i_icaoAddress i) = Some p"
  obtains v where "vehicle_heap s p = Some v"
    and "traffic_ok (s\<lparr>vehicle_heap := (vehicle_heap s)(p \<mapsto> vehicle_update now i v)\<rparr>)"
    and "shown_vehicles (s\<lparr>vehicle_heap := (vehicle_heap s)(p \<mapsto> vehicle_update now i v)\<rparr>)
           = map (vehicle_update now i) (shown_vehicles s)"
proof -
  obtain v where v: "vehicle_heap s p = Some v" "v_icaoAddress v = i_icaoAddress i"
    using assms by (auto simp: traffic_ok_def)
  have "vehicle_update now i w = w" if "vehicle_heap s q = Some w" "q \<noteq> p" for q w
    using that v traffic_ok_inj [OF assms(1) that(1) v(1)] by (intro update_other) auto
  then have "shown_vehicles (s\<lparr>vehicle_heap := (vehicle_heap s)(p \<mapsto> vehicle_update now i v)\<rparr>)
      = map (vehicle_update now i) (shown_vehicles s)"
    using v listed_vehicle [OF assms(1)] by (fastforce simp: shown_vehicles_def)
  moreover have "traffic_ok (s\<lparr>vehicle_heap := (vehicle_heap s)(p \<mapsto> vehicle_update now i v)\<rparr>)"
    using assms(1) v by (auto simp: traffic_ok_def)
  ultimately show ?thesis using that v(1) by blast
qed

lemma update_refines:
  assumes "traffic_ok s"
  shows "\<exists>s'. adsbVehicleUpdate now i mem s = Inr s' \<and> traffic_ok s'
    \<and> shown_vehicles s' = spec_update now i mem (shown_vehicles s)"
proof (cases "available LocationAvailable i")
  case False
  with assms show ?thesis by (simp add: adsbVehicleUpdate_def spec_update_def)
next
  case True
  have rest: "traffic_ok (s1\<lparr>last_update_timer := t, traffic_status := n\<rparr>) = traffic_ok s1"
    "shown_vehicles (s1\<lparr>last_update_timer := t, traffic_status := n\<rparr>) = shown_vehicles s1" for s1 t n
    by (simp_all add: traffic_ok_def shown_vehicles_def)
  show ?thesis
  proof (cases "adsbICAOMap s (i_icaoAddress i)")
    case (Some p)
    obtain v where "vehicle_heap s p = Some v"
      "traffic_ok (s\<lparr>vehicle_heap := (vehicle_heap s)(p \<mapsto> vehicle_update now i v)\<rparr>)"
      "shown_vehicles (s\<lparr>vehicle_heap := (vehicle_heap s)(p \<mapsto> vehicle_update now i v)\<rparr>)
         = map (vehicle_update now i) (shown_vehicles s)"
      using update_known [OF assms Some] by blast
    with True Some known_iff_shown [OF assms, of "i_icaoAddress i"] show ?thesis
      by (simp add: adsbVehicleUpdate_def vehicle_at_def spec_update_def rest)
  next
    case None
    let ?p = "next_address s"
    let ?s = "s\<lparr>vehicle_heap := (vehicle_heap s)(?p \<mapsto> vehicle_new now i mem), next_address := ?p + 1,
      adsbICAOMap := (adsbICAOMap s)(i_icaoAddress i \<mapsto> ?p), adsbVehicles := object_append ?p (adsbVehicles s)\<rparr>"
    have fresh: "?p \<notin> set (objectList (adsbVehicles s))" "vehicle_heap s ?p = None"
      using assms by (auto simp: traffic_ok_def domIff)
    have absent: "v_icaoAddress v \<noteq> i_icaoAddress i" if "vehicle_heap s p = Some v" for p v
    proof -
      have "adsbICAOMap s (v_icaoAddress v) = Some p" using assms that by (auto simp: traffic_ok_def)
      with None show ?thesis by auto
    qed
    have "traffic_ok ?s"
      using assms fresh None absent by (auto simp: traffic_ok_def less_SucI)
    moreover have "shown_vehicles ?s = shown_vehicles s @ [vehicle_new now i mem]"
      using fresh by (auto simp: shown_vehicles_def)
    ultimately show ?thesis
      using True None known_iff_shown [OF assms, of "i_icaoAddress i"]
      by (simp add: adsbVehicleUpdate_def spec_update_def rest Let_def)
  qed
qed

lemma drop_vehicle:
  assumes "traffic_ok s" and "i < length (objectList (adsbVehicles s))"
    and "objectList (adsbVehicles s) ! i = p" and "vehicle_heap s p = Some v"
    and s': "s' = s\<lparr>adsbVehicles := l, adsbICAOMap := (adsbICAOMap s)(v_icaoAddress v := None),
      vehicle_heap := (vehicle_heap s)(p := None)\<rparr>"
    and l: "objectList l = take i (objectList (adsbVehicles s)) @ drop (Suc i) (objectList (adsbVehicles s))"
  shows "traffic_ok s'" and "shown_vehicles s' = take i (shown_vehicles s) @ drop (Suc i) (shown_vehicles s)"
proof -
  let ?L = "objectList (adsbVehicles s)"
  have split: "?L = take i ?L @ p # drop (Suc i) ?L"
    using id_take_nth_drop [OF assms(2)] assms(3) by simp
  have d: "distinct (take i ?L @ p # drop (Suc i) ?L)"
    using assms(1) split by (simp add: traffic_ok_def)
  have set_l: "set (objectList l) = set ?L - {p}"
    using d arg_cong [OF split, of set] by (auto simp: l)
  show "traffic_ok s'"
    unfolding traffic_ok_def
  proof (intro conjI allI)
    show "distinct (objectList (adsbVehicles s'))" using d by (simp add: s' l)
    show "dom (vehicle_heap s') = set (objectList (adsbVehicles s'))"
      using assms(1) set_l by (simp add: s' traffic_ok_def)
    show "\<forall>q \<in> set (objectList (adsbVehicles s')). q < next_address s'"
      using assms(1) set_l by (simp add: s' traffic_ok_def)
    fix k q
    have map: "adsbICAOMap s k = Some q \<longleftrightarrow> (\<exists>w. vehicle_heap s q = Some w \<and> v_icaoAddress w = k)"
      using assms(1) by (simp add: traffic_ok_def)
    show "adsbICAOMap s' k = Some q \<longleftrightarrow> (\<exists>w. vehicle_heap s' q = Some w \<and> v_icaoAddress w = k)"
    proof (cases "q = p")
      case True
      with map assms(4) show ?thesis by (auto simp: s')
    next
      case False
      with map traffic_ok_inj [OF assms(1) _ assms(4), of q] show ?thesis by (auto simp: s')
    qed
  qed
  have "q \<noteq> p" if "q \<in> set (take i ?L) \<union> set (drop (Suc i) ?L)" for q
    using d that by auto
  then show "shown_vehicles s' = take i (shown_vehicles s) @ drop (Suc i) (shown_vehicles s)"
    by (simp add: shown_vehicles_def s' l take_map drop_map)
qed

lemma cleanup_loop_filters:
  assumes "traffic_ok s" and "i \<le> length (shown_vehicles s)"
  shows "\<exists>s'. cleanup_loop now i s = Inr s' \<and> traffic_ok s'
    \<and> shown_vehicles s' = filter (\<lambda>v. \<not> expired now v) (take i (shown_vehicles s)) @ drop i (shown_vehicles s)"
  using assms
proof (induction i arbitrary: s)
  case (Suc i)
  let ?L = "objectList (adsbVehicles s)"
  have i: "i < length ?L" "i < length (shown_vehicles s)"
    using Suc.prems(2) by (simp_all add: shown_vehicles_def)
  obtain v where v: "vehicle_heap s (?L ! i) = Some v"
    using listed_vehicle [OF Suc.prems(1) nth_mem [OF i(1)]] by blast
  then have sv: "shown_vehicles s ! i = v" using i(1) by (simp add: shown_vehicles_def)
  have split: "take (Suc i) (shown_vehicles s) = take i (shown_vehicles s) @ [v]"
    "drop i (shown_vehicles s) = v # drop (Suc i) (shown_vehicles s)"
    using take_Suc_conv_app_nth [OF i(2)] Cons_nth_drop_Suc [OF i(2)] sv by simp_all
  show ?case
  proof (cases "expired now v")
    case False
    then have "cleanup_loop now (Suc i) s = cleanup_loop now i s"
      using i(1) v by (simp add: vehicle_at_def)
    with Suc.IH [OF Suc.prems(1)] i(2) False show ?thesis by (simp add: split)
  next
    case True
    define l where "l = set_dirty True ((adsbVehicles s)\<lparr>objectList := take i ?L @ drop (Suc i) ?L\<rparr>)"
    define s1 where "s1 = s\<lparr>adsbVehicles := l, adsbICAOMap := (adsbICAOMap s)(v_icaoAddress v := None),
      vehicle_heap := (vehicle_heap s)(?L ! i := None)\<rparr>"
    have s1: "traffic_ok s1" "shown_vehicles s1 = take i (shown_vehicles s) @ drop (Suc i) (shown_vehicles s)"
      using drop_vehicle [OF Suc.prems(1) i(1) refl v s1_def] by (simp_all add: l_def)
    then have "i \<le> length (shown_vehicles s1)" using i(2) by simp
    with Suc.IH [OF s1(1)] obtain s' where s': "cleanup_loop now i s1 = Inr s'" "traffic_ok s'"
      "shown_vehicles s' = filter (\<lambda>v. \<not> expired now v) (take i (shown_vehicles s1)) @ drop i (shown_vehicles s1)"
      by blast
    have "cleanup_loop now (Suc i) s = cleanup_loop now i s1"
      using True i(1) v by (simp add: vehicle_at_def remove_at_inside s1_def l_def)
    with s' s1(2) True i(2) show ?thesis by (simp add: split min_def)
  qed
qed simp

lemma status_only [simp]:
  "traffic_ok (update_status now junk s) = traffic_ok s"
  "shown_vehicles (update_status now junk s) = shown_vehicles s"
  by (simp_all add: update_status_def traffic_ok_def shown_vehicles_def Let_def)

lemma step_refines:
  assumes "traffic_ok s" and "e \<noteq> Clear_Model"
  shows "\<exists>s'. traffic_step e s = Inr s' \<and> traffic_ok s' \<and> shown_vehicles s' = spec_step e (shown_vehicles s)"
proof (cases e)
  case (Vehicle_Update now i mem)
  with update_refines [OF assms(1)] show ?thesis by simp
next
  case (Cleanup_Timer now junk)
  have "length (objectList (adsbVehicles s)) = length (shown_vehicles s)" by (simp add: shown_vehicles_def)
  with cleanup_loop_filters [OF assms(1), of "length (shown_vehicles s)" now] show ?thesis
    by (auto simp: Cleanup_Timer cleanupStaleVehicles_def)
qed (use assms in \<open>simp_all add: traffic_ok_def shown_vehicles_def\<close>)

lemma run_refines:
  assumes "traffic_ok s" and "Clear_Model \<notin> set es"
  shows "\<exists>s'. rfold traffic_step es s = Inr s' \<and> traffic_ok s' \<and> shown_vehicles s' = fold spec_step es (shown_vehicles s)"
  using assms
proof (induction es arbitrary: s)
  case (Cons e es)
  obtain s1 where "traffic_step e s = Inr s1" "traffic_ok s1" "shown_vehicles s1 = spec_step e (shown_vehicles s)"
    using step_refines [OF Cons.prems(1), of e] Cons.prems(2) by auto
  with Cons.IH [of s1] Cons.prems(2) show ?case by auto
qed simp

lemma spec_distinct:
  "distinct (map v_icaoAddress vs) \<Longrightarrow> distinct (map v_icaoAddress (spec_step e vs))"
proof (induction e vs rule: spec_step.induct)
  case (1 now i mem vs)
  have "v_icaoAddress \<circ> vehicle_update now i = v_icaoAddress" by (simp add: fun_eq_iff)
  with 1 show ?case by (auto simp: spec_update_def)
qed (auto simp: distinct_map_filter)

text \<open>C25. However updates of aircraft and the timer follow each other, the program implements the specification: it never uses
  a vehicle that was deleted, shows what the plain list of aircraft says, each aircraft once, and every vehicle in
  memory is on the screen.\<close>

theorem traffic_refines_list:
  assumes "Clear_Model \<notin> set es"
  shows "\<exists>s. rfold traffic_step es traffic_new = Inr s \<and> shown_vehicles s = fold spec_step es []
    \<and> distinct (map v_icaoAddress (shown_vehicles s)) \<and> dom (vehicle_heap s) = set (objectList (adsbVehicles s))"
proof -
  obtain s where s: "rfold traffic_step es traffic_new = Inr s" "traffic_ok s" "shown_vehicles s = fold spec_step es []"
    using run_refines [OF _ assms] traffic_ok_new by fastforce
  moreover have "distinct (map v_icaoAddress (fold spec_step es vs))" if "distinct (map v_icaoAddress vs)" for vs
    using that by (induction es arbitrary: vs) (auto intro: spec_distinct)
  ultimately show ?thesis by (auto simp: traffic_ok_def)
qed

text \<open>Two aircraft, one of which is heard of again before the timer.\<close>

definition demo_info :: "u32 \<Rightarrow> vehicle_info" where
  "demo_info k = \<lparr>i_icaoAddress = k, i_callsign = ''N/A'', i_lat = 48, i_lon = 11, i_altitude = Some 900, i_velocity = 400,
     i_heading = Some 90, i_alert = 0, availableFlags = 0x1FF, i_lastContact = 1, i_verticalVel = 0, i_distance = 7\<rparr>"

definition demo_memory :: vehicle where
  "demo_memory = \<lparr>v_icaoAddress = 0, v_callsign = '''', v_lat = 0, v_lon = 0, v_altitude = None, v_velocity = 0,
     v_heading = None, v_alert = 0, v_lastContact = 0, v_verticalVel = 0, v_distance = 0, lastUpdateTimer = 0\<rparr>"

definition demo_traffic :: "traffic_event list" where
  "demo_traffic = [Vehicle_Update 0 (demo_info 7) demo_memory, Vehicle_Update 100 (demo_info 9) demo_memory,
     Vehicle_Update 20000 (demo_info 9) demo_memory, Cleanup_Timer 27000 0]"

lemma demo_located [simp]: "available LocationAvailable (demo_info k)"
  by (simp add: available_def available_defs demo_info_def)

lemma timer_update [simp]:
  "lastUpdateTimer (vehicle_update now i v) = (if v_icaoAddress v = i_icaoAddress i then now else lastUpdateTimer v)"
  "lastUpdateTimer (vehicle_new now i mem) = now"
  by (simp_all add: vehicle_new_def vehicle_update_def Let_def)

lemma demo_icao [simp]: "i_icaoAddress (demo_info k) = k"
  by (simp add: demo_info_def)

theorem traffic_refines_list_witness:
  "\<exists>s. rfold traffic_step demo_traffic traffic_new = Inr s \<and> map v_icaoAddress (shown_vehicles s) = [9]"
proof -
  have "Clear_Model \<notin> set demo_traffic" by (simp add: demo_traffic_def)
  from traffic_refines_list [OF this] show ?thesis
    by (auto simp: demo_traffic_def spec_update_def expired_def expirationTimeoutMs_def)
qed

section \<open>Which aircraft are shown\<close>

fun event_time :: "traffic_event \<Rightarrow> int list" where
  "event_time (Vehicle_Update now i mem) = [now]"
| "event_time (Cleanup_Timer now junk) = [now]"
| "event_time _ = []"

fun heard_in :: "u32 \<Rightarrow> traffic_event \<Rightarrow> int list" where
  "heard_in k (Vehicle_Update now i mem) = (if available LocationAvailable i \<and> i_icaoAddress i = k then [now] else [])"
| "heard_in k _ = []"

definition heard_times :: "u32 \<Rightarrow> traffic_event list \<Rightarrow> int list" where
  "heard_times k es = concat (map (heard_in k) es)"

definition times_of :: "traffic_event list \<Rightarrow> int list" where
  "times_of es = concat (map event_time es)"

lemma timer_is_last_heard:
  "v \<in> set (fold spec_step es []) \<Longrightarrow>
     heard_times (v_icaoAddress v) es \<noteq> [] \<and> lastUpdateTimer v = List.last (heard_times (v_icaoAddress v) es)"
proof (induction es arbitrary: v rule: rev_induct)
  case (snoc e es)
  show ?case
  proof (cases e)
    case (Vehicle_Update now i mem)
    let ?vs = "fold spec_step es []"
    have h: "heard_times k (es @ [x]) = heard_times k es @ heard_in k x" for k x
      by (simp add: heard_times_def)
    from snoc.prems have "v \<in> set (spec_update now i mem ?vs)" by (simp add: Vehicle_Update)
    then consider "\<not> available LocationAvailable i" "v \<in> set ?vs"
      | w where "available LocationAvailable i" "w \<in> set ?vs" "v = vehicle_update now i w"
      | "available LocationAvailable i" "v = vehicle_new now i mem"
      | "available LocationAvailable i" "v \<in> set ?vs" "i_icaoAddress i \<notin> v_icaoAddress ` set ?vs"
      by (auto simp: spec_update_def split: if_splits)
    then show ?thesis
    proof cases
      case (2 w)
      with snoc.IH [OF 2(2)] show ?thesis by (auto simp: h Vehicle_Update)
    next
      case 4
      then have "i_icaoAddress i \<noteq> v_icaoAddress v" by auto
      with snoc.IH [OF 4(2)] show ?thesis by (simp add: h Vehicle_Update)
    qed (use snoc.IH [of v] in \<open>simp_all add: h Vehicle_Update\<close>)
  qed (use snoc in \<open>auto simp: heard_times_def\<close>)
qed simp

lemma heard_is_shown:
  assumes "sorted (times_of es)" and "heard_times k es \<noteq> []"
    and "\<forall>t \<in> set (times_of es). t - List.last (heard_times k es) \<le> expirationTimeoutMs"
  shows "k \<in> v_icaoAddress ` set (fold spec_step es [])"
  using assms
proof (induction es rule: rev_induct)
  case (snoc e es)
  have pre: "sorted (times_of es)" using snoc.prems(1) by (simp add: times_of_def sorted_append)
  show ?case
  proof (cases "heard_in k e = []")
    case False
    then obtain now i mem where "e = Vehicle_Update now i mem" "available LocationAvailable i" "i_icaoAddress i = k"
      by (cases "(k, e)" rule: heard_in.cases) (auto split: if_splits)
    then show ?thesis by (auto simp: spec_update_def image_image)
  next
    case True
    then have h: "heard_times k (es @ [e]) = heard_times k es" by (simp add: heard_times_def)
    have "k \<in> v_icaoAddress ` set (fold spec_step es [])"
      by (rule snoc.IH [OF pre]) (use snoc.prems(2,3) h in \<open>simp_all add: times_of_def\<close>)
    then obtain v where v: "v \<in> set (fold spec_step es [])" "v_icaoAddress v = k" by blast
    show ?thesis
    proof (cases e)
      case (Vehicle_Update now i mem)
      with v show ?thesis by (auto simp: spec_update_def image_image)
    next
      case (Cleanup_Timer now junk)
      have "now - lastUpdateTimer v \<le> expirationTimeoutMs"
        using snoc.prems(3) timer_is_last_heard [OF v(1)] v(2) h by (simp add: Cleanup_Timer times_of_def)
      with v show ?thesis by (auto simp: Cleanup_Timer expired_def)
    qed (use v in auto)
  qed
qed (simp add: heard_times_def)

text \<open>C36. On a clock that does not go back, the screen shows after each cleanup exactly the aircraft whose last
  position arrived no more than 25 seconds before.\<close>

theorem shown_aircraft:
  assumes "Clear_Model \<notin> set es" and "sorted (times_of (es @ [Cleanup_Timer now junk]))"
  shows "\<exists>s. rfold traffic_step (es @ [Cleanup_Timer now junk]) traffic_new = Inr s
    \<and> v_icaoAddress ` set (shown_vehicles s)
        = {k. heard_times k es \<noteq> [] \<and> now - List.last (heard_times k es) \<le> 25000}"
proof -
  let ?es = "es @ [Cleanup_Timer now junk]"
  obtain s where s: "rfold traffic_step ?es traffic_new = Inr s" "shown_vehicles s = fold spec_step ?es []"
    using run_refines [of traffic_new ?es] traffic_ok_new assms(1) by auto
  have h: "heard_times k ?es = heard_times k es" for k by (simp add: heard_times_def)
  have le: "\<forall>t \<in> set (times_of ?es). t \<le> now"
    using assms(2) by (auto simp: times_of_def sorted_append)
  have "k \<in> v_icaoAddress ` set (shown_vehicles s) \<longleftrightarrow> heard_times k es \<noteq> [] \<and> now - List.last (heard_times k es) \<le> 25000" for k
  proof
    assume "k \<in> v_icaoAddress ` set (shown_vehicles s)"
    then obtain v where v: "v \<in> set (fold spec_step ?es [])" "v_icaoAddress v = k" by (auto simp: s(2))
    from v(1) have "\<not> expired now v" by simp
    with timer_is_last_heard [OF v(1)] v(2) h show "heard_times k es \<noteq> [] \<and> now - List.last (heard_times k es) \<le> 25000"
      by (simp add: expired_def expirationTimeoutMs_def)
  next
    assume "heard_times k es \<noteq> [] \<and> now - List.last (heard_times k es) \<le> 25000"
    with heard_is_shown [OF assms(2), of k] le h show "k \<in> v_icaoAddress ` set (shown_vehicles s)"
      by (force simp: s(2) expirationTimeoutMs_def)
  qed
  with s(1) show ?thesis by blast
qed

theorem shown_aircraft_witness:
  "\<exists>s. rfold traffic_step demo_traffic traffic_new = Inr s \<and> 9 \<in> v_icaoAddress ` set (shown_vehicles s)
     \<and> 7 \<notin> v_icaoAddress ` set (shown_vehicles s)"
proof -
  let ?es = "[Vehicle_Update 0 (demo_info 7) demo_memory, Vehicle_Update 100 (demo_info 9) demo_memory,
     Vehicle_Update 20000 (demo_info 9) demo_memory]"
  have "\<exists>s. rfold traffic_step (?es @ [Cleanup_Timer 27000 0]) traffic_new = Inr s
    \<and> v_icaoAddress ` set (shown_vehicles s) = {k. heard_times k ?es \<noteq> [] \<and> 27000 - List.last (heard_times k ?es) \<le> 25000}"
    by (rule shown_aircraft) (simp_all add: times_of_def)
  then show ?thesis by (auto simp: demo_traffic_def heard_times_def)
qed

section \<open>Clearing the list\<close>

text \<open>Clearing the list leaves the pointers to the deleted vehicles in the map: when an aircraft that was shown is heard of
  again, the program uses the deleted vehicle.\<close>

theorem cleared_vehicle_used:
  assumes "Clear_Model \<notin> set es" and "rfold traffic_step es traffic_new = Inr s"
    and "v \<in> set (shown_vehicles s)" and "i_icaoAddress i = v_icaoAddress v" and "available LocationAvailable i"
  shows "rfold traffic_step (es @ [Clear_Model, Vehicle_Update now i mem]) traffic_new = Inl Use_After_Free"
proof -
  have ok: "traffic_ok s" using run_refines [OF _ assms(1)] traffic_ok_new assms(2) by fastforce
  have "v_icaoAddress v \<in> v_icaoAddress ` set (shown_vehicles s)" using assms(3) by blast
  with known_iff_shown [OF ok] obtain p where p: "adsbICAOMap s (v_icaoAddress v) = Some p" by blast
  then have "p \<in> set (objectList (adsbVehicles s))" using ok by (auto simp: traffic_ok_def)
  with p assms(2,4,5) show ?thesis
    by (simp add: rfold_append adsbClearModel_def clear_and_delete_contents_def adsbVehicleUpdate_def vehicle_at_def)
qed

theorem cleared_vehicle_used_witness:
  "rfold traffic_step ([Vehicle_Update 0 (demo_info 7) demo_memory] @ [Clear_Model, Vehicle_Update 100 (demo_info 7) demo_memory])
     traffic_new = Inl Use_After_Free"
proof -
  obtain s where s: "rfold traffic_step [Vehicle_Update 0 (demo_info 7) demo_memory] traffic_new = Inr s"
    "shown_vehicles s = fold spec_step [Vehicle_Update 0 (demo_info 7) demo_memory] []"
    using run_refines [of traffic_new "[Vehicle_Update 0 (demo_info 7) demo_memory]"] traffic_ok_new by auto
  show ?thesis
    by (rule cleared_vehicle_used [OF _ s(1), of "vehicle_new 0 (demo_info 7) demo_memory"])
      (simp_all add: s(2) spec_update_def)
qed

end
