(* ===== verification/Traffic_Reply.thy ===== *)
theory Traffic_Reply
  imports Traffic Rounding
begin

text \<open>
  The two sources of aircraft, the classes \<open>ADSBInternet\<close> and \<open>ADSBSdr\<close> of \<open>app/adsb/adsbvehiclemanager.cpp\<close>: what is made
  of a reply, and its way to the manager of \<open>Traffic\<close>. A JSON value is a \<open>datatype\<close> with the accessors of
  \<open>QJsonValue\<close> as Qt documents them: one that does not fit the value returns its default, and a key that is not there
  is \<open>Undefined\<close>, which is not \<open>null\<close>. The request, the parser of JSON and that of hexadecimal numbers are Qt's; the
  distance in kilometres needs trigonometry and is an argument.

  The variable of a reply's aircraft is not initialised, so the flags are added to what it holds: an argument.
\<close>

section \<open>JSON values\<close>

datatype json =
    Undefined
  | Json_Null
  | Json_Bool bool
  | Json_Double rat
  | Json_String string
  | Json_Array "json list"
  | Json_Object "(string \<times> json) list"

fun to_object :: "json \<Rightarrow> (string \<times> json) list" where
  "to_object (Json_Object kvs) = kvs"
| "to_object _ = []"

fun to_array :: "json \<Rightarrow> json list" where
  "to_array (Json_Array vs) = vs"
| "to_array _ = []"

fun to_double :: "json \<Rightarrow> rat" where
  "to_double (Json_Double x) = x"
| "to_double _ = 0"

fun to_int :: "json \<Rightarrow> int" where
  "to_int (Json_Double x) =
     (if x = of_int \<lfloor>x\<rfloor> \<and> - (2 ^ 31) \<le> \<lfloor>x\<rfloor> \<and> \<lfloor>x\<rfloor> < 2 ^ 31 then \<lfloor>x\<rfloor> else 0)"
| "to_int _ = 0"

fun to_text :: "json \<Rightarrow> string" where
  "to_text (Json_String s) = s"
| "to_text _ = ''''"

definition is_null :: "json \<Rightarrow> bool" where
  "is_null v \<longleftrightarrow> v = Json_Null"

fun is_double :: "json \<Rightarrow> bool" where
  "is_double (Json_Double x) = True"
| "is_double _ = False"

definition json_value :: "string \<Rightarrow> json \<Rightarrow> json" where
  "json_value k v = (case map_of (to_object v) k of Some x \<Rightarrow> x | None \<Rightarrow> Undefined)"

section \<open>One aircraft of a reply\<close>

record reply_config =
  m_api_lat :: rat
  m_api_lon :: rat
  max_distance :: rat
  unknown_zero_alt :: bool
  distance_km :: "rat \<Rightarrow> rat \<Rightarrow> rat \<Rightarrow> rat \<Rightarrow> rat"
  hex_to_uint :: "string \<Rightarrow> u32 option"

definition add_flag :: "u32 \<Rightarrow> vehicle_info \<Rightarrow> vehicle_info" where
  "add_flag flag i = i\<lparr>availableFlags := availableFlags i OR flag\<rparr>"

text \<open>The part both sources share: the address, the position and the distance. \<open>None\<close>: the aircraft is skipped.\<close>

definition reply_position :: "reply_config \<Rightarrow> vehicle_info \<Rightarrow> json \<Rightarrow> vehicle_info option" where
  "reply_position k junk v =
     (case hex_to_uint k (to_text (json_value ''hex'' v)) of
        None \<Rightarrow> None
      | Some icao \<Rightarrow>
          if is_null (json_value ''lat'' v) \<or> is_null (json_value ''lon'' v) then None
          else
            let la = to_double (json_value ''lat'' v);
                lo = to_double (json_value ''lon'' v);
                i1 = add_flag LocationAvailable (junk\<lparr>i_icaoAddress := icao, i_lat := la, i_lon := lo\<rparr>)
            in Some (add_flag DistanceAvailable
                 (i1\<lparr>i_distance := distance_km k (m_api_lat k) (m_api_lon k) la lo\<rparr>)))"

definition internet_altitude :: "reply_config \<Rightarrow> json \<Rightarrow> rat option" where
  "internet_altitude k v =
     (let a = to_double (json_value ''alt_baro'' v) in
      if a \<noteq> 0 then (if a < 5 \<and> \<not> unknown_zero_alt k then None else Some a)
      else if \<not> unknown_zero_alt k then None else Some (999999 / 10))"

definition internet_aircraft :: "reply_config \<Rightarrow> vehicle_info \<Rightarrow> json \<Rightarrow> vehicle_info option" where
  "internet_aircraft k junk v =
     (case reply_position k junk v of
        None \<Rightarrow> None
      | Some i0 \<Rightarrow>
          let flight = to_text (json_value ''flight'' v);
              i1 = add_flag CallsignAvailable (i0\<lparr>i_callsign := (if flight = '''' then ''N/A'' else flight)\<rparr>)
          in case internet_altitude k v of
               None \<Rightarrow> None
             | Some a \<Rightarrow>
                 let i2 = add_flag AltitudeAvailable (i1\<lparr>i_altitude := Some a\<rparr>);
                     gs = to_double (json_value ''gs'' v);
                     i3 = add_flag VelocityAvailable
                       (i2\<lparr>i_velocity := (if gs \<noteq> 0 then gs * (36 / 10) else 999999 / 10)\<rparr>);
                     i4 = add_flag HeadingAvailable (i3\<lparr>i_heading := Some (to_double (json_value ''track'' v))\<rparr>);
                     seen = json_value ''seen'' v;
                     i5 = add_flag LastContactAvailable (i4\<lparr>i_lastContact := (if is_null seen then 0 else to_int seen)\<rparr>);
                     rate = json_value ''baro_rate'' v
                 in Some (add_flag VerticalVelAvailable
                      (i5\<lparr>i_verticalVel := (if is_double rate then to_double rate else 0)\<rparr>)))"

definition sdr_altitude :: "reply_config \<Rightarrow> json \<Rightarrow> rat option" where
  "sdr_altitude k v =
     (let alt = json_value ''altitude'' v in
      if is_null alt then (if \<not> unknown_zero_alt k then None else Some (999999 / 10))
      else
        let a = of_int (to_int alt) * (3048 / 10000) in
        if a < 5 \<and> \<not> unknown_zero_alt k then None else Some a)"

definition sdr_aircraft :: "reply_config \<Rightarrow> vehicle_info \<Rightarrow> json \<Rightarrow> vehicle_info option" where
  "sdr_aircraft k junk v =
     (case reply_position k junk v of
        None \<Rightarrow> None
      | Some i0 \<Rightarrow>
          if i_distance i0 > max_distance k then None
          else
            let flight = to_text (json_value ''flight'' v);
                i1 = (if flight = '''' then i0\<lparr>i_callsign := ''N/A''\<rparr>
                      else add_flag CallsignAvailable (i0\<lparr>i_callsign := flight\<rparr>))
            in case sdr_altitude k v of
                 None \<Rightarrow> None
               | Some a \<Rightarrow>
                   let i2 = add_flag AltitudeAvailable (i1\<lparr>i_altitude := Some a\<rparr>);
                       speed = json_value ''speed'' v;
                       i3 = add_flag VelocityAvailable (i2\<lparr>i_velocity :=
                         (if is_null speed then 999999 / 10 else of_int (round_away (to_double speed * (1852 / 1000))))\<rparr>);
                       track = json_value ''track'' v;
                       i4 = add_flag HeadingAvailable (i3\<lparr>i_heading := Some (if is_null track then 0 else to_double track)\<rparr>);
                       seen = json_value ''seen_pos'' v;
                       i5 = add_flag LastContactAvailable (i4\<lparr>i_lastContact := (if is_null seen then 0 else to_int seen)\<rparr>);
                       rate = json_value ''vert_rate'' v
                   in Some (add_flag VerticalVelAvailable (i5\<lparr>i_verticalVel :=
                        (if is_null rate then 0 else of_int (round_away (to_double rate * (508 / 100000))))\<rparr>)))"

section \<open>A reply\<close>

text \<open>What the network brings: an error, or a body that is a document or is not.\<close>

datatype reply = Reply_Error | Reply_Body "json option"

text \<open>The loop over the aircraft. \<open>junk\<close> says what the variable holds for each of them.\<close>

fun emit_aircraft ::
  "(vehicle_info \<Rightarrow> json \<Rightarrow> vehicle_info option) \<Rightarrow> (nat \<Rightarrow> vehicle_info) \<Rightarrow> json list \<Rightarrow> vehicle_info list" where
  "emit_aircraft f junk [] = []"
| "emit_aircraft f junk (v # vs) =
     (case f (junk (length vs)) v of Some i \<Rightarrow> [i] | None \<Rightarrow> []) @ emit_aircraft f junk vs"

definition internet_reply :: "reply_config \<Rightarrow> (nat \<Rightarrow> vehicle_info) \<Rightarrow> reply \<Rightarrow> vehicle_info list" where
  "internet_reply k junk r =
     (case r of
        Reply_Body (Some (Json_Object kvs)) \<Rightarrow>
          if kvs = [] then []
          else emit_aircraft (internet_aircraft k) junk (to_array (json_value ''ac'' (Json_Object kvs)))
      | _ \<Rightarrow> [])"

definition sdr_reply :: "reply_config \<Rightarrow> (nat \<Rightarrow> vehicle_info) \<Rightarrow> reply \<Rightarrow> vehicle_info list" where
  "sdr_reply k junk r =
     (case r of
        Reply_Body (Some (Json_Object kvs)) \<Rightarrow>
          if kvs = [] then []
          else emit_aircraft (sdr_aircraft k) junk (to_array (json_value ''aircraft'' (Json_Object kvs)))
      | _ \<Rightarrow> [])"

text \<open>The limits the two sources read from the settings, in metres: the second turns them into kilometres.\<close>

definition internet_max_distance :: "int \<Rightarrow> rat" where
  "internet_max_distance adsb_radius = of_int adsb_radius"

definition sdr_max_distance :: "int \<Rightarrow> rat" where
  "sdr_max_distance adsb_distance_limit =
     of_int (if adsb_distance_limit < 0 then - (- adsb_distance_limit div 1000) else adsb_distance_limit div 1000)"

text \<open>The queued signal: the manager handles the aircraft of a reply one after the other.\<close>

definition handle_aircraft :: "int \<Rightarrow> (nat \<Rightarrow> vehicle) \<Rightarrow> vehicle_info list \<Rightarrow> traffic_event list" where
  "handle_aircraft now mem is = map (\<lambda>(n, i). Vehicle_Update now i (mem n)) (enumerate 0 is)"

section \<open>What passes\<close>

lemma available_bits [simp]:
  "available CallsignAvailable i \<longleftrightarrow> bit (availableFlags i) 1"
  "available LocationAvailable i \<longleftrightarrow> bit (availableFlags i) 2"
  "available AltitudeAvailable i \<longleftrightarrow> bit (availableFlags i) 3"
  "available HeadingAvailable i \<longleftrightarrow> bit (availableFlags i) 4"
  "available AlertAvailable i \<longleftrightarrow> bit (availableFlags i) 5"
  "available VelocityAvailable i \<longleftrightarrow> bit (availableFlags i) 6"
  "available VerticalVelAvailable i \<longleftrightarrow> bit (availableFlags i) 7"
  "available LastContactAvailable i \<longleftrightarrow> bit (availableFlags i) 8"
  "available DistanceAvailable i \<longleftrightarrow> bit (availableFlags i) 8"
  unfolding available_def available_defs by (simp_all only: bit_iff_and_push_bit_not_eq_0)

lemma or_flag_bit: "m < 32 \<Longrightarrow> bit ((x :: u32) OR push_bit m 1) n \<longleftrightarrow> bit x n \<or> n = m"
  by (auto simp: bit_simps)

lemma flag_sel: "availableFlags (i\<lparr>availableFlags := f\<rparr>) = f"
  by simp

lemma flag_positions: "(1 :: nat) < 32" "(2 :: nat) < 32" "(3 :: nat) < 32" "(4 :: nat) < 32" "(6 :: nat) < 32"
  "(7 :: nat) < 32" "(8 :: nat) < 32"
  by simp_all

lemma add_flag_bits [simp]:
  "bit (availableFlags (add_flag CallsignAvailable i)) n \<longleftrightarrow> bit (availableFlags i) n \<or> n = 1"
  "bit (availableFlags (add_flag LocationAvailable i)) n \<longleftrightarrow> bit (availableFlags i) n \<or> n = 2"
  "bit (availableFlags (add_flag AltitudeAvailable i)) n \<longleftrightarrow> bit (availableFlags i) n \<or> n = 3"
  "bit (availableFlags (add_flag HeadingAvailable i)) n \<longleftrightarrow> bit (availableFlags i) n \<or> n = 4"
  "bit (availableFlags (add_flag VelocityAvailable i)) n \<longleftrightarrow> bit (availableFlags i) n \<or> n = 6"
  "bit (availableFlags (add_flag VerticalVelAvailable i)) n \<longleftrightarrow> bit (availableFlags i) n \<or> n = 7"
  "bit (availableFlags (add_flag LastContactAvailable i)) n \<longleftrightarrow> bit (availableFlags i) n \<or> n = 8"
  "bit (availableFlags (add_flag DistanceAvailable i)) n \<longleftrightarrow> bit (availableFlags i) n \<or> n = 8"
  unfolding add_flag_def available_defs by (simp_all only: flag_sel or_flag_bit [of 1] or_flag_bit [of 2] or_flag_bit [of 3]
      or_flag_bit [of 4] or_flag_bit [of 6] or_flag_bit [of 7] or_flag_bit [of 8] flag_positions)

lemma add_flag_sel [simp]:
  "i_icaoAddress (add_flag f i) = i_icaoAddress i" "i_callsign (add_flag f i) = i_callsign i"
  "i_lat (add_flag f i) = i_lat i" "i_lon (add_flag f i) = i_lon i" "i_altitude (add_flag f i) = i_altitude i"
  "i_velocity (add_flag f i) = i_velocity i" "i_heading (add_flag f i) = i_heading i" "i_alert (add_flag f i) = i_alert i"
  "i_lastContact (add_flag f i) = i_lastContact i" "i_verticalVel (add_flag f i) = i_verticalVel i"
  "i_distance (add_flag f i) = i_distance i"
  by (simp_all add: add_flag_def)

lemma position_some:
  "reply_position k junk v = Some i \<longleftrightarrow>
     (\<exists>icao. hex_to_uint k (to_text (json_value ''hex'' v)) = Some icao
       \<and> \<not> is_null (json_value ''lat'' v) \<and> \<not> is_null (json_value ''lon'' v)
       \<and> i = add_flag DistanceAvailable ((add_flag LocationAvailable (junk\<lparr>i_icaoAddress := icao,
           i_lat := to_double (json_value ''lat'' v), i_lon := to_double (json_value ''lon'' v)\<rparr>))
           \<lparr>i_distance := distance_km k (m_api_lat k) (m_api_lon k)
             (to_double (json_value ''lat'' v)) (to_double (json_value ''lon'' v))\<rparr>))"
  by (auto simp: reply_position_def Let_def split: option.splits)

lemma emitted_from: "i \<in> set (emit_aircraft f junk vs) \<longleftrightarrow> (\<exists>n < length vs. f (junk (length vs - Suc n)) (vs ! n) = Some i)"
proof (induction vs)
  case (Cons v vs)
  have "(\<exists>n < length (v # vs). f (junk (length (v # vs) - Suc n)) ((v # vs) ! n) = Some i) \<longleftrightarrow>
      f (junk (length vs)) v = Some i \<or> (\<exists>n < length vs. f (junk (length vs - Suc n)) (vs ! n) = Some i)"
    by (simp add: Ex_less_Suc2)
  with Cons.IH show ?case by (auto split: option.splits)
qed simp

lemma sdr_emitted:
  assumes "sdr_aircraft k junk v = Some i"
  shows "available LocationAvailable i" and "i_distance i \<le> max_distance k"
    and "\<not> unknown_zero_alt k \<Longrightarrow> \<exists>a \<ge> 5. i_altitude i = Some a"
  using assms by (auto simp: sdr_aircraft_def position_some sdr_altitude_def Let_def split: option.splits if_splits)

text \<open>C37. Every aircraft the receiver reports and the program passes on has a position, so that it is shown, is inside the
  limit, and unless the user wants the others, too, at least five metres up.\<close>

theorem sdr_aircraft_limits:
  assumes "i \<in> set (sdr_reply k junk r)"
  shows "available LocationAvailable i \<and> i_distance i \<le> max_distance k
    \<and> (unknown_zero_alt k \<or> (\<exists>a \<ge> 5. i_altitude i = Some a))"
proof -
  from assms obtain j v where "sdr_aircraft k j v = Some i"
    by (auto simp: sdr_reply_def emitted_from split: reply.splits option.splits json.splits if_splits)
  from sdr_emitted [OF this] show ?thesis by blast
qed

text \<open>A reply with one aircraft in range, one too far, and one whose height is not known.\<close>

definition demo_reply_config :: reply_config where
  "demo_reply_config = \<lparr>m_api_lat = 40, m_api_lon = -3, max_distance = 50, unknown_zero_alt = False,
     distance_km = (\<lambda>a b c d. 111 * (\<bar>a - c\<bar> + \<bar>b - d\<bar>)), hex_to_uint = (\<lambda>s. if s = ''3c6444'' then Some 0x3C6444 else None)\<rparr>"

definition demo_aircraft :: "rat \<Rightarrow> json list \<Rightarrow> json" where
  "demo_aircraft la alt = Json_Object ([(''hex'', Json_String ''3c6444''), (''lat'', Json_Double la), (''lon'', Json_Double (-3)),
     (''flight'', Json_String ''DLH9LF''), (''seen_pos'', Json_Double (3 / 10))] @ map (Pair ''altitude'') alt)"

definition demo_reply :: reply where
  "demo_reply = Reply_Body (Some (Json_Object [(''aircraft'', Json_Array
     [demo_aircraft 40 [Json_Double 1000], demo_aircraft 45 [Json_Double 1000], demo_aircraft 40 [Json_Null]])]))"

lemma demo_reply_emits: "\<exists>i. sdr_reply demo_reply_config (\<lambda>_. demo_info 0) demo_reply = [i] \<and> i_altitude i = Some (3048 / 10)"
  by (simp add: sdr_reply_def demo_reply_def demo_reply_config_def demo_aircraft_def sdr_aircraft_def reply_position_def
      sdr_altitude_def json_value_def is_null_def add_flag_def)

theorem sdr_aircraft_limits_witness:
  "\<exists>i. sdr_reply demo_reply_config (\<lambda>_. demo_info 0) demo_reply = [i] \<and> i_distance i \<le> 50 \<and> available LocationAvailable i"
proof -
  obtain i where i: "sdr_reply demo_reply_config (\<lambda>_. demo_info 0) demo_reply = [i]" using demo_reply_emits by blast
  with sdr_aircraft_limits [of i demo_reply_config "\<lambda>_. demo_info 0" demo_reply] show ?thesis
    by (simp add: demo_reply_config_def)
qed

text \<open>The limit of the other source is read and never used.\<close>

lemma internet_limit_unused: "internet_reply (k\<lparr>max_distance := d\<rparr>) junk r = internet_reply k junk r"
proof -
  have pos: "reply_position (k\<lparr>max_distance := d\<rparr>) junk v = reply_position k junk v" for junk v
    by (simp add: reply_position_def Let_def split: option.split)
  have alt: "internet_altitude (k\<lparr>max_distance := d\<rparr>) v = internet_altitude k v" for v
    by (simp add: internet_altitude_def Let_def)
  have "internet_aircraft (k\<lparr>max_distance := d\<rparr>) = internet_aircraft k"
    by (intro ext) (simp only: internet_aircraft_def pos alt)
  then show ?thesis by (simp only: internet_reply_def)
qed

text \<open>The time since the last contact comes with fractions of a second, which the integer accessor turns into 0.\<close>

lemma fractional_contact: "x \<noteq> of_int \<lfloor>x\<rfloor> \<Longrightarrow> to_int (Json_Double x) = 0"
  by simp

text \<open>An aircraft without a position is meant to be skipped, but a key that is missing is not \<open>null\<close>: the aircraft
  reaches the map, at latitude and longitude 0.\<close>

theorem missing_position_shown:
  assumes "hex_to_uint k (to_text (json_value ''hex'' v)) = Some icao"
    and "json_value ''lat'' v = Undefined" and "json_value ''lon'' v = Undefined" and "internet_altitude k v = Some a"
  shows "\<exists>s w. rfold traffic_step (handle_aircraft now mem
        (internet_reply k junk (Reply_Body (Some (Json_Object [(''ac'', Json_Array [v])]))))) traffic_new = Inr s
      \<and> shown_vehicles s = [w] \<and> v_icaoAddress w = icao \<and> v_lat w = 0 \<and> v_lon w = 0"
proof -
  obtain i where i: "internet_aircraft k (junk 0) v = Some i" "available LocationAvailable i" "i_icaoAddress i = icao"
    "i_lat i = 0" "i_lon i = 0"
    using assms by (auto simp: internet_aircraft_def reply_position_def is_null_def Let_def)
  have "internet_reply k junk (Reply_Body (Some (Json_Object [(''ac'', Json_Array [v])]))) = [i]"
    using i(1) by (simp add: internet_reply_def json_value_def)
  moreover obtain s where "rfold traffic_step [Vehicle_Update now i (mem 0)] traffic_new = Inr s"
    "shown_vehicles s = [vehicle_new now i (mem 0)]"
    using run_refines [of traffic_new "[Vehicle_Update now i (mem 0)]"] traffic_ok_new i(2)
    by (auto simp: spec_update_def)
  moreover have "v_lat (vehicle_new now i (mem 0)) = 0" "v_lon (vehicle_new now i (mem 0)) = 0"
    using i(2,4,5) by (simp_all add: vehicle_new_def vehicle_update_def Let_def)
  ultimately show ?thesis using i(3) by (auto simp: handle_aircraft_def)
qed

theorem missing_position_shown_witness:
  "\<exists>s w. rfold traffic_step (handle_aircraft 0 (\<lambda>_. demo_memory) (internet_reply demo_reply_config (\<lambda>_. demo_info 0)
        (Reply_Body (Some (Json_Object [(''ac'', Json_Array [Json_Object [(''hex'', Json_String ''3c6444''), (''alt_baro'', Json_Double 900)]])])))))
        traffic_new = Inr s
      \<and> shown_vehicles s = [w] \<and> v_icaoAddress w = 0x3C6444 \<and> v_lat w = 0 \<and> v_lon w = 0"
  by (rule missing_position_shown [where a = 900])
    (simp_all add: demo_reply_config_def json_value_def internet_altitude_def)

section \<open>What the memory of the program adds\<close>

text \<open>An aircraft of the first source sets every member but the alert, and so does one of the receiver whose flight is named; two of
  them that were read from the same values agree.\<close>

definition complete :: "vehicle_info \<Rightarrow> bool" where
  "complete i \<longleftrightarrow> (\<forall>n \<in> {1, 2, 3, 4, 6, 7, 8}. bit (availableFlags i) n)"

definition agree :: "vehicle_info \<Rightarrow> vehicle_info \<Rightarrow> bool" where
  "agree i j \<longleftrightarrow> complete i \<and> complete j \<and> i_icaoAddress i = i_icaoAddress j \<and> i_callsign i = i_callsign j
     \<and> i_lat i = i_lat j \<and> i_lon i = i_lon j \<and> i_altitude i = i_altitude j \<and> i_velocity i = i_velocity j
     \<and> i_heading i = i_heading j \<and> i_lastContact i = i_lastContact j \<and> i_verticalVel i = i_verticalVel j
     \<and> i_distance i = i_distance j"

definition no_alert :: "vehicle \<Rightarrow> vehicle" where
  "no_alert w = w\<lparr>v_alert := 0\<rparr>"

lemma no_alert_eq:
  "no_alert u = no_alert w \<longleftrightarrow> v_icaoAddress u = v_icaoAddress w \<and> v_callsign u = v_callsign w \<and> v_lat u = v_lat w
     \<and> v_lon u = v_lon w \<and> v_altitude u = v_altitude w \<and> v_velocity u = v_velocity w \<and> v_heading u = v_heading w
     \<and> v_lastContact u = v_lastContact w \<and> v_verticalVel u = v_verticalVel w \<and> v_distance u = v_distance w
     \<and> lastUpdateTimer u = lastUpdateTimer w"
  by (cases u, cases w) (auto simp: no_alert_def)

lemma agree_update:
  "agree i j \<Longrightarrow> no_alert u = no_alert w \<Longrightarrow> no_alert (vehicle_update now i u) = no_alert (vehicle_update now j w)"
  unfolding no_alert_eq by (simp add: agree_def complete_def vehicle_update_def Let_def)

lemma nan_update_None [simp]: "nan_update x None = x"
  by (cases x) (simp_all add: nan_update_def fuzzy_compare_def)

lemma agree_new: "agree i j \<Longrightarrow> no_alert (vehicle_new now i mem) = no_alert (vehicle_new now j mem')"
  unfolding no_alert_eq by (simp add: agree_def complete_def vehicle_new_def vehicle_update_def Let_def)

lemma agree_spec_update:
  assumes "agree i j" and "map no_alert us = map no_alert ws"
  shows "map no_alert (spec_update now i mem us) = map no_alert (spec_update now j mem' ws)"
proof -
  have "map v_icaoAddress us = map v_icaoAddress ws"
    using assms(2) by (auto simp: list_eq_iff_nth_eq no_alert_eq)
  then have "v_icaoAddress ` set us = v_icaoAddress ` set ws" by (metis list.set_map)
  moreover have "map (\<lambda>u. no_alert (vehicle_update now i u)) us = map (\<lambda>w. no_alert (vehicle_update now j w)) ws"
    using assms by (auto simp: list_eq_iff_nth_eq intro: agree_update)
  ultimately show ?thesis
    using assms agree_new [OF assms(1), of now mem mem']
    by (simp add: spec_update_def agree_def complete_def comp_def)
qed

lemma internet_agree:
  "rel_option agree (internet_aircraft k junk v) (internet_aircraft k junk' v)"
proof (cases "reply_position k junk v")
  case None
  then have "reply_position k junk' v = None" by (auto simp: reply_position_def Let_def split: option.splits if_splits)
  with None show ?thesis by (simp add: internet_aircraft_def)
next
  case (Some i)
  then obtain i' where i': "reply_position k junk' v = Some i'" by (auto simp: position_some)
  have "i_icaoAddress i = i_icaoAddress i'" "i_lat i = i_lat i'" "i_lon i = i_lon i'" "i_distance i = i_distance i'"
    "bit (availableFlags i) 2" "bit (availableFlags i') 2" "bit (availableFlags i) 8" "bit (availableFlags i') 8"
    using Some i' by (auto simp: position_some)
  then show ?thesis
    by (cases "internet_altitude k v") (simp_all add: internet_aircraft_def Some i' agree_def complete_def Let_def)
qed

lemma sdr_agree:
  assumes "to_text (json_value ''flight'' v) \<noteq> ''''"
  shows "rel_option agree (sdr_aircraft k junk v) (sdr_aircraft k junk' v)"
proof (cases "reply_position k junk v")
  case None
  then have "reply_position k junk' v = None" by (auto simp: reply_position_def Let_def split: option.splits if_splits)
  with None show ?thesis by (simp add: sdr_aircraft_def)
next
  case (Some i)
  then obtain i' where i': "reply_position k junk' v = Some i'" by (auto simp: position_some)
  have "i_icaoAddress i = i_icaoAddress i'" "i_lat i = i_lat i'" "i_lon i = i_lon i'" "i_distance i = i_distance i'"
    "bit (availableFlags i) 2" "bit (availableFlags i') 2" "bit (availableFlags i) 8" "bit (availableFlags i') 8"
    using Some i' by (auto simp: position_some)
  then show ?thesis
    using assms by (cases "sdr_altitude k v") (simp_all add: sdr_aircraft_def Some i' agree_def complete_def Let_def)
qed

lemma emitted_agree:
  assumes "\<And>j j' v. v \<in> set vs \<Longrightarrow> rel_option agree (f j v) (f j' v)"
  shows "list_all2 agree (emit_aircraft f junk vs) (emit_aircraft f junk' vs)"
  using assms
proof (induction vs)
  case (Cons v vs)
  have one: "rel_option agree (f (junk (length vs)) v) (f (junk' (length vs)) v)" using Cons.prems by simp
  have "list_all2 agree (emit_aircraft f junk vs) (emit_aircraft f junk' vs)" using Cons by simp
  with one show ?case
    by (cases "f (junk (length vs)) v"; cases "f (junk' (length vs)) v") auto
qed simp

text \<open>A reply, by its source.\<close>

datatype reply_source = From_Internet | From_Sdr

fun source_reply :: "reply_source \<Rightarrow> reply_config \<Rightarrow> (nat \<Rightarrow> vehicle_info) \<Rightarrow> reply \<Rightarrow> vehicle_info list" where
  "source_reply From_Internet = internet_reply"
| "source_reply From_Sdr = sdr_reply"

text \<open>Every aircraft of a reply of the receiver has a flight.\<close>

definition flights_named :: "reply \<Rightarrow> bool" where
  "flights_named r \<longleftrightarrow>
     (case r of
        Reply_Body (Some body) \<Rightarrow> list_all (\<lambda>v. to_text (json_value ''flight'' v) \<noteq> '''') (to_array (json_value ''aircraft'' body))
      | _ \<Rightarrow> True)"

lemma reply_agree:
  assumes "src = From_Sdr \<longrightarrow> flights_named r"
  shows "list_all2 agree (source_reply src k junk r) (source_reply src k junk' r)"
proof (cases src)
  case From_Internet
  then show ?thesis
    by (auto simp: internet_reply_def intro: emitted_agree internet_agree split: reply.split option.split json.split)
next
  case From_Sdr
  with assms show ?thesis
    by (auto simp: sdr_reply_def flights_named_def list_all_iff intro!: emitted_agree sdr_agree
        split: reply.splits option.splits json.splits)
qed

lemma handled_agree:
  assumes "list_all2 agree is js" and "map no_alert us = map no_alert ws"
  shows "map no_alert (fold spec_step (map (\<lambda>(n, i). Vehicle_Update now i (mem n)) (enumerate m is)) us)
       = map no_alert (fold spec_step (map (\<lambda>(n, i). Vehicle_Update now i (mem' n)) (enumerate m js)) ws)"
  using assms
proof (induction "is" js arbitrary: m us ws rule: list_all2_induct)
  case (Cons i "is" j js)
  from Cons.IH [OF agree_spec_update [OF Cons.hyps(1) Cons.prems, of now "mem m" "mem' m"], of "Suc m"]
  show ?case by simp
qed simp

definition handle_replies ::
  "(int \<Rightarrow> nat \<Rightarrow> vehicle) \<Rightarrow> (int \<Rightarrow> nat \<Rightarrow> vehicle_info) \<Rightarrow> (int \<times> reply_source \<times> reply_config \<times> reply) list \<Rightarrow> traffic_event list" where
  "handle_replies mem junk rs =
     concat (map (\<lambda>(now, src, k, r). handle_aircraft now (mem now) (source_reply src k (junk now) r)) rs)"

lemma replies_never_clear: "Clear_Model \<notin> set (handle_replies mem junk rs)"
  by (auto simp: handle_replies_def handle_aircraft_def)

text \<open>For an aircraft of the receiver without a flight the memory decides whether its callsign becomes \<open>N/A\<close> or stays what it was.\<close>

lemma sdr_callsign_from_memory:
  assumes "sdr_aircraft k junk v = Some i" and "to_text (json_value ''flight'' v) = ''''"
  shows "available CallsignAvailable i = available CallsignAvailable junk \<and> i_callsign i = ''N/A''"
  using assms by (auto simp: sdr_aircraft_def position_some Let_def split: option.splits if_splits)

text \<open>C38. No sequence of replies of the two sources, whatever they contain, makes the program fail, and the memory it does
  not initialise reaches the screen in one place only: as long as the receiver names the flight of every aircraft
  (otherwise see \<open>sdr_callsign_from_memory\<close>), two runs that find different values there show the same aircraft
  with the same data, the alert apart.\<close>

theorem unset_memory_unseen:
  assumes "\<forall>(now, src, k, r) \<in> set rs. src = From_Sdr \<longrightarrow> flights_named r"
  shows "\<exists>s s'. rfold traffic_step (handle_replies mem junk rs) traffic_new = Inr s
     \<and> rfold traffic_step (handle_replies mem' junk' rs) traffic_new = Inr s'
     \<and> map no_alert (shown_vehicles s) = map no_alert (shown_vehicles s')"
proof -
  have "map no_alert (fold spec_step (handle_replies mem junk rs) us) = map no_alert (fold spec_step (handle_replies mem' junk' rs) ws)"
    if "map no_alert us = map no_alert ws" for us ws
    using that assms
  proof (induction rs arbitrary: us ws)
    case (Cons x rs)
    obtain now src k r where x: "x = (now, src, k, r)" by (cases x)
    then have "handle_replies mem junk (x # rs) =
        handle_aircraft now (mem now) (source_reply src k (junk now) r) @ handle_replies mem junk rs" for mem junk
      by (simp add: handle_replies_def)
    moreover have "src = From_Sdr \<longrightarrow> flights_named r" "\<forall>(now, src, k, r) \<in> set rs. src = From_Sdr \<longrightarrow> flights_named r"
      using Cons.prems(2) by (auto simp: x)
    ultimately show ?case
      using Cons.IH [OF handled_agree [OF reply_agree Cons.prems(1)]] by (simp add: handle_aircraft_def)
  qed (simp add: handle_replies_def)
  then show ?thesis
    using run_refines [OF _ replies_never_clear] traffic_ok_new by metis
qed

text \<open>The reply of the demonstration, read into memory full of zeros and of ones.\<close>

theorem unset_memory_unseen_witness:
  "\<exists>s s'. rfold traffic_step (handle_replies (\<lambda>_ _. demo_memory) (\<lambda>_ _. demo_info 0) [(5, From_Sdr, demo_reply_config, demo_reply)]) traffic_new = Inr s
     \<and> rfold traffic_step (handle_replies (\<lambda>_ _. demo_memory) (\<lambda>_ _. (demo_info 0)\<lparr>availableFlags := -1, i_alert := 7\<rparr>)
         [(5, From_Sdr, demo_reply_config, demo_reply)]) traffic_new = Inr s'
     \<and> map no_alert (shown_vehicles s) = map no_alert (shown_vehicles s')"
proof -
  have "\<forall>(now, src, k, r) \<in> set [(5 :: int, From_Sdr, demo_reply_config, demo_reply)]. src = From_Sdr \<longrightarrow> flights_named r"
    by (simp add: flights_named_def demo_reply_def demo_aircraft_def json_value_def)
  then show ?thesis by (rule unset_memory_unseen)
qed

end
