(* ===== verification/Settings_Store.thy ===== *)
theory Settings_Store
  imports Decimal
begin

text \<open>
  What the program stores for the next start (\<open>QSettings\<close>): a map from keys to values. The conversions of a value are those
  Qt documents; how a text is read as a number is left to an argument.
\<close>

datatype setting = Setting_Bool bool | Setting_Int int | Setting_Text string

type_synonym settings = "string \<rightharpoonup> setting"

definition setting_value :: "string \<Rightarrow> setting \<Rightarrow> settings \<Rightarrow> setting" where
  "setting_value key def_value store = (case store key of Some v \<Rightarrow> v | None \<Rightarrow> def_value)"

fun setting_int :: "(string \<Rightarrow> int) \<Rightarrow> setting \<Rightarrow> int" where
  "setting_int text_to_int (Setting_Bool b) = (if b then 1 else 0)"
| "setting_int text_to_int (Setting_Int i) = i"
| "setting_int text_to_int (Setting_Text s) = text_to_int s"

definition lower_char :: "char \<Rightarrow> char" where
  "lower_char c = (let n = (of_char c :: nat) in if 65 \<le> n \<and> n \<le> 90 then char_of (n + 32) else c)"

text \<open>A text is false if it is empty, \<open>0\<close> or, in any case of letters, \<open>false\<close>.\<close>

fun setting_bool :: "setting \<Rightarrow> bool" where
  "setting_bool (Setting_Bool b) = b"
| "setting_bool (Setting_Int i) = (i \<noteq> 0)"
| "setting_bool (Setting_Text s) = (s \<noteq> '''' \<and> s \<noteq> ''0'' \<and> List.map lower_char s \<noteq> ''false'')"

fun setting_text :: "setting \<Rightarrow> string" where
  "setting_text (Setting_Bool b) = (if b then ''true'' else ''false'')"
| "setting_text (Setting_Int i) = int_to_string i"
| "setting_text (Setting_Text s) = s"

lemma setting_value_upd [simp]:
  "setting_value k d (store(k' := Some v)) = (if k = k' then v else setting_value k d store)"
  by (simp add: setting_value_def)

text \<open>A number survives the file, where everything is text, if the reader inverts the printer.\<close>

lemma stored_number: "read (int_to_string i) = i \<Longrightarrow> setting_int read (Setting_Text (setting_text (Setting_Int i))) = i"
  by simp

lemma stored_bool: "setting_bool (Setting_Text (setting_text (Setting_Bool b))) = b"
proof -
  have "List.map lower_char ''true'' = ''true''" "List.map lower_char ''false'' = ''false''" by code_simp+
  then show ?thesis by (simp del: list.map)
qed

end
