(* ===== verification/Traffic_Links.thy ===== *)
theory Traffic_Links
  imports Complex_Main Settings_Store
begin

text \<open>
  The two sources of traffic, before a reply comes (\<open>ADSBapi\<close>, \<open>ADSBInternet\<close> and \<open>ADSBSdr\<close> of
  \<open>app/adsb/adsbvehiclemanager.cpp\<close>): what they know of the map and of the settings, and what they ask for. A request is its address. The
  members \<open>_adsb_enable\<close> and \<open>max_distance\<close> of a source have no initial value; what they hold is an argument. Signals of other
  threads are events at the time they are delivered. How a number becomes text is an argument, too.
\<close>

section \<open>State and operations\<close>

record adsb_link =
  adsb_enable :: bool
  adsb_show_data :: bool
  link_lat :: rat
  link_lon :: rat
  link_distance :: rat

record adsb_links =
  link_settings :: settings
  internet :: adsb_link
  sdr :: adsb_link
  groundAddress :: string
  internet_requests :: "string list"
  sdr_requests :: "string list"

record link_config =
  read_number :: "string \<Rightarrow> int"
  number_text :: "rat \<Rightarrow> string"

definition map_lat_changed :: "rat \<Rightarrow> adsb_link \<Rightarrow> adsb_link" where
  "map_lat_changed x l = l\<lparr>link_lat := x\<rparr>"

definition map_lon_changed :: "rat \<Rightarrow> adsb_link \<Rightarrow> adsb_link" where
  "map_lon_changed x l = l\<lparr>link_lon := x\<rparr>"

text \<open>\<open>init\<close>: a place to start from.\<close>

definition link_init :: "adsb_link \<Rightarrow> adsb_link" where
  "link_init l = map_lon_changed (- 33599 / 10000) (map_lat_changed (404820 / 10000) l)"

definition links_new :: "adsb_link \<Rightarrow> adsb_link \<Rightarrow> settings \<Rightarrow> adsb_links" where
  "links_new junk_internet junk_sdr store = \<lparr>link_settings = store, internet = link_init junk_internet,
     sdr = link_init junk_sdr, groundAddress = '''', internet_requests = [], sdr_requests = []\<rparr>"

definition internet_request_data :: "link_config \<Rightarrow> adsb_links \<Rightarrow> adsb_links" where
  "internet_request_data k s =
     (let l = (internet s)\<lparr>
          adsb_enable := setting_bool (setting_value ''adsb_enable'' (Setting_Text '''') (link_settings s)),
          adsb_show_data := setting_bool (setting_value ''adsb_show_internet_data'' (Setting_Text '''') (link_settings s)),
          link_distance := of_int (setting_int (read_number k) (setting_value ''adsb_radius'' (Setting_Int 0) (link_settings s)))\<rparr>;
          distance_string = number_text k (link_distance l / 1852);
          s1 = s\<lparr>internet := l\<rparr>
      in if \<not> adsb_enable l \<or> \<not> adsb_show_data l then s1
         else s1\<lparr>internet_requests := internet_requests s1
           @ [''https://api.airplanes.live/v2/point/'' @ number_text k (link_lat l) @ ''/'' @ number_text k (link_lon l)
              @ ''/'' @ distance_string]\<rparr>)"

definition sdr_request_data :: "adsb_links \<Rightarrow> adsb_links" where
  "sdr_request_data s =
     (let l = (sdr s)\<lparr>
          adsb_show_data := setting_bool (setting_value ''adsb_show_sdr_data'' (Setting_Text '''') (link_settings s))\<rparr>;
          s1 = s\<lparr>sdr := l\<rparr>
      in if \<not> adsb_enable l \<or> \<not> adsb_show_data l then s1
         else s1\<lparr>sdr_requests := sdr_requests s1 @ [''http://'' @ groundAddress s1 @ '':8080/data/aircraft.json'']\<rparr>)"

datatype link_event =
    Map_Lat rat
  | Map_Lon rat
  | Internet_Timer
  | Sdr_Timer
  | Ground_Ip string
  | Store_Link_Setting string setting

text \<open>The manager connects the centre of the map to the Internet source only.\<close>

fun link_step :: "link_config \<Rightarrow> link_event \<Rightarrow> adsb_links \<Rightarrow> adsb_links" where
  "link_step k (Map_Lat x) s = s\<lparr>internet := map_lat_changed x (internet s)\<rparr>"
| "link_step k (Map_Lon x) s = s\<lparr>internet := map_lon_changed x (internet s)\<rparr>"
| "link_step k Internet_Timer s = internet_request_data k s"
| "link_step k Sdr_Timer s = sdr_request_data s"
| "link_step k (Ground_Ip address) s = s\<lparr>groundAddress := address\<rparr>"
| "link_step k (Store_Link_Setting key v) s = s\<lparr>link_settings := (link_settings s)(key \<mapsto> v)\<rparr>"

section \<open>What the receiver's source ignores\<close>

definition sdr_relevant :: "link_event \<Rightarrow> bool" where
  "sdr_relevant e \<longleftrightarrow> (case e of
       Sdr_Timer \<Rightarrow> True | Ground_Ip a \<Rightarrow> True | Store_Link_Setting key v \<Rightarrow> key = ''adsb_show_sdr_data'' | _ \<Rightarrow> False)"

definition same_sdr :: "adsb_links \<Rightarrow> adsb_links \<Rightarrow> bool" where
  "same_sdr s t \<longleftrightarrow> sdr s = sdr t \<and> groundAddress s = groundAddress t \<and> sdr_requests s = sdr_requests t
     \<and> link_settings s ''adsb_show_sdr_data'' = link_settings t ''adsb_show_sdr_data''"

lemma same_sdr_request: "same_sdr s t \<Longrightarrow> same_sdr (sdr_request_data s) (sdr_request_data t)"
  by (simp add: same_sdr_def sdr_request_data_def setting_value_def Let_def)

lemma same_sdr_step: "same_sdr s t \<Longrightarrow> sdr_relevant e \<Longrightarrow> same_sdr (link_step k e s) (link_step k e t)"
  by (cases e) (simp_all add: same_sdr_request sdr_relevant_def, simp_all add: same_sdr_def)

lemma same_sdr_skip: "same_sdr s t \<Longrightarrow> \<not> sdr_relevant e \<Longrightarrow> same_sdr (link_step k e s) t"
  by (cases e) (simp_all add: sdr_relevant_def same_sdr_def internet_request_data_def Let_def)

lemma same_sdr_run:
  "same_sdr s t \<Longrightarrow> same_sdr (fold (link_step k) es s) (fold (link_step k) (filter sdr_relevant es) t)"
  by (induction es arbitrary: s t) (simp_all add: same_sdr_step same_sdr_skip)

lemma sdr_place_fixed:
  "link_lat (sdr (fold (link_step k) es s)) = link_lat (sdr s) \<and> link_lon (sdr (fold (link_step k) es s)) = link_lon (sdr s)
    \<and> adsb_enable (sdr (fold (link_step k) es s)) = adsb_enable (sdr s)"
proof (induction es arbitrary: s)
  case Nil
  then show ?case by simp
next
  case (Cons e es)
  then show ?case
    by (cases e) (simp_all add: internet_request_data_def sdr_request_data_def Let_def)
qed

text \<open>The source that asks the receiver knows neither where the map is nor whether the traffic display is switched on: in every
  run its place is the one it was initialised with, and its requests are those of the run without every event but its own
  timer, its address and its own switch. Whether it asks at all hangs on a member that is never set.\<close>

theorem sdr_link_blind:
  "link_lat (sdr (fold (link_step k) es (links_new ji js store))) = 404820 / 10000
   \<and> link_lon (sdr (fold (link_step k) es (links_new ji js store))) = - 33599 / 10000
   \<and> sdr_requests (fold (link_step k) es (links_new ji js store))
     = sdr_requests (fold (link_step k) (filter sdr_relevant es)
         (links_new ji' js (store(''adsb_enable'' := v, ''adsb_show_internet_data'' := w))))"
  (is "?lat \<and> ?lon \<and> sdr_requests ?s = sdr_requests ?t")
proof (intro conjI)
  have "same_sdr ?s ?t" by (rule same_sdr_run) (simp add: same_sdr_def links_new_def)
  then show "sdr_requests ?s = sdr_requests ?t" by (simp add: same_sdr_def)
  show ?lat ?lon
    using sdr_place_fixed [of k es] by (simp_all add: links_new_def link_init_def map_lat_changed_def map_lon_changed_def)
qed

lemma sdr_silent:
  assumes "\<not> adsb_enable js"
  shows "sdr_requests (fold (link_step k) es (links_new ji js store)) = []"
proof -
  have "\<not> adsb_enable (sdr s) \<Longrightarrow> sdr_requests s = [] \<Longrightarrow> sdr_requests (fold (link_step k) es s) = []" for s
  proof (induction es arbitrary: s)
    case (Cons e es)
    then show ?case
      by (cases e) (simp_all add: internet_request_data_def sdr_request_data_def Let_def)
  qed simp
  then show ?thesis
    using assms by (simp add: links_new_def link_init_def map_lat_changed_def map_lon_changed_def)
qed

end
