(* ===== verification/Video_Settings.thy ===== *)
theory Video_Settings
  imports Settings_Store
begin

text \<open>
  The settings of the video decoders (\<open>app/videostreaming/vscommon/QOpenHDVideoHelper.hpp\<close>) and how they are read from the store.
  The file with a pipeline for tests is an argument.
\<close>

section \<open>Data\<close>

definition kDefault_udp_rtp_input_ip_address :: string where
  "kDefault_udp_rtp_input_ip_address = ''127.0.0.1''"

definition kDefault_udp_rtp_input_port_primary :: int where
  "kDefault_udp_rtp_input_port_primary = 5600"

definition kDefault_udp_rtp_input_port_secondary :: int where
  "kDefault_udp_rtp_input_port_secondary = 5601"

datatype video_codec = VideoCodecH264 | VideoCodecH265 | VideoCodecMJPEG

definition intToVideoCodec :: "int \<Rightarrow> video_codec" where
  "intToVideoCodec c =
     (if c = 0 then VideoCodecH264 else if c = 1 then VideoCodecH265 else if c = 2 then VideoCodecMJPEG else VideoCodecH264)"

definition codec_name :: "video_codec \<Rightarrow> string" where
  "codec_name c = (if c = VideoCodecH264 then ''h264'' else if c = VideoCodecH265 then ''h265'' else ''mjpeg'')"

datatype video_test_mode = DISABLED | RAW_VIDEO | RAW_VIDEO_ENCODE_DECODE

definition videoTestModeFromInt :: "int \<Rightarrow> video_test_mode" where
  "videoTestModeFromInt v = (if v = 1 then RAW_VIDEO else if v = 2 then RAW_VIDEO_ENCODE_DECODE else DISABLED)"

record generic_video_settings =
  dev_test_video_mode :: video_test_mode
  dev_secondary_video_input_mode :: int
  dev_enable_custom_pipeline :: bool
  dev_custom_pipeline :: string
  dev_limit_fps_on_test_file :: int
  dev_use_low_latency_parser_when_possible :: bool
  dev_feed_incomplete_frames_to_decoder :: bool
  dev_rpi_use_external_omx_decode_service :: bool
  dev_always_use_generic_external_decode_service :: bool
  dev_disable_primary_video :: bool
  extra_screen_rotation :: int
  qopenhd_switch_primary_secondary :: bool

definition generic_video_settings_new :: generic_video_settings where
  "generic_video_settings_new = \<lparr>dev_test_video_mode = DISABLED, dev_secondary_video_input_mode = 0,
     dev_enable_custom_pipeline = False, dev_custom_pipeline = '''', dev_limit_fps_on_test_file = -1,
     dev_use_low_latency_parser_when_possible = True, dev_feed_incomplete_frames_to_decoder = False,
     dev_rpi_use_external_omx_decode_service = True, dev_always_use_generic_external_decode_service = False,
     dev_disable_primary_video = False, extra_screen_rotation = 0, qopenhd_switch_primary_secondary = False\<rparr>"

record stream_settings =
  udp_rtp_input_ip_address :: string
  udp_rtp_input_port :: int
  stream_codec :: video_codec
  enable_software_video_decoder :: bool

record video_stream_config =
  generic :: generic_video_settings
  primary_stream_config :: stream_settings
  secondary_stream_config :: stream_settings

text \<open>The comparisons the code spells out.\<close>

definition generic_settings_equal :: "generic_video_settings \<Rightarrow> generic_video_settings \<Rightarrow> bool" where
  "generic_settings_equal a b \<longleftrightarrow>
     dev_test_video_mode a = dev_test_video_mode b \<and>
     dev_secondary_video_input_mode a = dev_secondary_video_input_mode b \<and>
     dev_enable_custom_pipeline a = dev_enable_custom_pipeline b \<and>
     dev_custom_pipeline a = dev_custom_pipeline b \<and>
     dev_limit_fps_on_test_file a = dev_limit_fps_on_test_file b \<and>
     dev_use_low_latency_parser_when_possible a = dev_use_low_latency_parser_when_possible b \<and>
     dev_feed_incomplete_frames_to_decoder a = dev_feed_incomplete_frames_to_decoder b \<and>
     dev_rpi_use_external_omx_decode_service a = dev_rpi_use_external_omx_decode_service b \<and>
     dev_always_use_generic_external_decode_service a = dev_always_use_generic_external_decode_service b \<and>
     dev_disable_primary_video a = dev_disable_primary_video b \<and>
     extra_screen_rotation a = extra_screen_rotation b \<and>
     qopenhd_switch_primary_secondary a = qopenhd_switch_primary_secondary b"

definition stream_settings_equal :: "stream_settings \<Rightarrow> stream_settings \<Rightarrow> bool" where
  "stream_settings_equal a b \<longleftrightarrow>
     udp_rtp_input_port a = udp_rtp_input_port b \<and> stream_codec a = stream_codec b \<and>
     enable_software_video_decoder a = enable_software_video_decoder b \<and>
     udp_rtp_input_ip_address a = udp_rtp_input_ip_address b"

definition stream_config_equal :: "video_stream_config \<Rightarrow> video_stream_config \<Rightarrow> bool" where
  "stream_config_equal a b \<longleftrightarrow>
     generic_settings_equal (generic a) (generic b) \<and>
     stream_settings_equal (primary_stream_config a) (primary_stream_config b) \<and>
     stream_settings_equal (secondary_stream_config a) (secondary_stream_config b)"

section \<open>Reading the store\<close>

record settings_reader =
  text_to_int :: "string \<Rightarrow> int"
  custom_pipeline_file :: "string option"

definition get_int :: "settings_reader \<Rightarrow> string \<Rightarrow> int \<Rightarrow> settings \<Rightarrow> int" where
  "get_int k key d store = setting_int (text_to_int k) (setting_value key (Setting_Int d) store)"

definition get_bool :: "string \<Rightarrow> bool \<Rightarrow> settings \<Rightarrow> bool" where
  "get_bool key d store = setting_bool (setting_value key (Setting_Bool d) store)"

definition get_text :: "string \<Rightarrow> string \<Rightarrow> settings \<Rightarrow> string" where
  "get_text key d store = setting_text (setting_value key (Setting_Text d) store)"

definition read_from_settingsXX :: "settings_reader \<Rightarrow> bool \<Rightarrow> settings \<Rightarrow> stream_settings" where
  "read_from_settingsXX k is_primary store =
     (if is_primary then
        \<lparr>udp_rtp_input_ip_address = get_text ''qopenhd_primary_video_rtp_input_ip'' kDefault_udp_rtp_input_ip_address store,
         udp_rtp_input_port = get_int k ''qopenhd_primary_video_rtp_input_port'' kDefault_udp_rtp_input_port_primary store,
         stream_codec = intToVideoCodec (get_int k ''qopenhd_primary_video_codec'' 0 store),
         enable_software_video_decoder = get_bool '' qopenhd_primary_video_force_sw'' False store\<rparr>
      else
        \<lparr>udp_rtp_input_ip_address = get_text ''qopenhd_secondary_video_rtp_input_ip'' kDefault_udp_rtp_input_ip_address store,
         udp_rtp_input_port = get_int k ''qopenhd_secondary_video_rtp_input_port'' kDefault_udp_rtp_input_port_secondary store,
         stream_codec = intToVideoCodec (get_int k ''qopenhd_secondary_video_codec'' 0 store),
         enable_software_video_decoder = get_bool '' qopenhd_secondary_video_force_sw'' False store\<rparr>)"

definition get_display_rotation :: "settings_reader \<Rightarrow> settings \<Rightarrow> int" where
  "get_display_rotation k store = get_int k ''general_screen_rotation'' 0 store"

definition get_primary_video_scale_to_fit :: "settings \<Rightarrow> bool" where
  "get_primary_video_scale_to_fit store = get_bool ''primary_video_scale_to_fit'' False store"

definition read_generic_from_settings :: "settings_reader \<Rightarrow> settings \<Rightarrow> generic_video_settings" where
  "read_generic_from_settings k store =
     (let c = generic_video_settings_new\<lparr>
          dev_test_video_mode := videoTestModeFromInt (get_int k ''dev_test_video_mode'' 0 store),
          dev_secondary_video_input_mode := get_int k ''dev_secondary_video_input_mode'' 0 store,
          dev_enable_custom_pipeline := get_bool ''dev_enable_custom_pipeline'' False store,
          dev_limit_fps_on_test_file := get_int k ''dev_limit_fps_on_test_file'' (-1) store,
          dev_use_low_latency_parser_when_possible := get_bool ''dev_use_low_latency_parser_when_possible'' True store,
          dev_rpi_use_external_omx_decode_service := get_bool ''dev_rpi_use_external_omx_decode_service'' True store,
          dev_always_use_generic_external_decode_service :=
            get_bool ''dev_always_use_generic_external_decode_service'' False store,
          dev_disable_primary_video := get_bool ''dev_disable_primary_video'' False store,
          qopenhd_switch_primary_secondary := get_bool ''qopenhd_switch_primary_secondary'' False store,
          extra_screen_rotation := get_display_rotation k store\<rparr>
      in c\<lparr>dev_custom_pipeline :=
           (if dev_enable_custom_pipeline c
            then (case custom_pipeline_file k of Some s \<Rightarrow> s | None \<Rightarrow> '''') else '''')\<rparr>)"

definition read_config_from_settings :: "settings_reader \<Rightarrow> settings \<Rightarrow> video_stream_config" where
  "read_config_from_settings k store =
     \<lparr>generic = read_generic_from_settings k store,
      primary_stream_config = read_from_settingsXX k True store,
      secondary_stream_config = read_from_settingsXX k False store\<rparr>"

definition get_qopenhd_n_cameras :: "settings_reader \<Rightarrow> settings \<Rightarrow> int" where
  "get_qopenhd_n_cameras k store = get_int k ''dev_qopenhd_n_cameras'' 1 store"

definition camera_codec_key :: "bool \<Rightarrow> string" where
  "camera_codec_key secondary = (if secondary then ''qopenhd_secondary_video_codec'' else ''qopenhd_primary_video_codec'')"

definition get_qopenhd_camera_video_codec :: "settings_reader \<Rightarrow> bool \<Rightarrow> settings \<Rightarrow> int" where
  "get_qopenhd_camera_video_codec k secondary store = get_int k (camera_codec_key secondary) 0 store"

definition set_qopenhd_camera_video_codec :: "bool \<Rightarrow> int \<Rightarrow> settings \<Rightarrow> settings" where
  "set_qopenhd_camera_video_codec secondary codec store = store(camera_codec_key secondary \<mapsto> Setting_Int codec)"

definition reset_qopenhd_switch_primary_secondary :: "settings \<Rightarrow> settings" where
  "reset_qopenhd_switch_primary_secondary store = store(''qopenhd_switch_primary_secondary'' \<mapsto> Setting_Bool False)"

section \<open>Files for FFmpeg\<close>

definition get_default_openhd_test_file :: "video_codec \<Rightarrow> string" where
  "get_default_openhd_test_file c =
     ''/usr/local/share/testvideos/'' @
     (if c = VideoCodecH264 then ''rpi_1080.h264''
      else if c = VideoCodecH265 then ''jetson_test.h265'' else ''uv_640x480.mjpeg'')"

definition line_end :: string where
  "line_end = [CHR 0x0A]"

definition create_udp_rtp_sdp_file :: "stream_settings \<Rightarrow> string" where
  "create_udp_rtp_sdp_file c =
     ''c=IN IP4 '' @ udp_rtp_input_ip_address c @ line_end @
     (if stream_codec c = VideoCodecMJPEG then
        ''m=video '' @ int_to_string (udp_rtp_input_port c) @ '' RTP/UDP 26'' @ line_end @ ''a=rtpmap:26 JPEG/90000'' @ line_end
      else
        ''m=video '' @ int_to_string (udp_rtp_input_port c) @ '' RTP/UDP 96'' @ line_end @
        (if stream_codec c = VideoCodecH264 then ''a=rtpmap:96 H264/90000'' else ''a=rtpmap:96 H265/90000'') @ line_end)"

section \<open>Lemmas\<close>

text \<open>No member is forgotten in the comparisons.\<close>

lemma generic_settings_equal_iff [simp]: "generic_settings_equal a b \<longleftrightarrow> a = b"
  by (cases a; cases b) (auto simp: generic_settings_equal_def)

lemma stream_settings_equal_iff [simp]: "stream_settings_equal a b \<longleftrightarrow> a = b"
  by (cases a; cases b) (auto simp: stream_settings_equal_def)

lemma stream_config_equal_iff [simp]: "stream_config_equal a b \<longleftrightarrow> a = b"
  by (cases a; cases b) (auto simp: stream_config_equal_def)

lemmas get_defs = get_int_def get_bool_def get_text_def

lemma codec_key_inj [simp]: "camera_codec_key a = camera_codec_key b \<longleftrightarrow> a = b"
  by (simp add: camera_codec_key_def)

lemma codec_set_is_read:
  "get_qopenhd_camera_video_codec k s (set_qopenhd_camera_video_codec s' c store)
    = (if s = s' then c else get_qopenhd_camera_video_codec k s store)"
  by (simp add: get_qopenhd_camera_video_codec_def set_qopenhd_camera_video_codec_def get_defs)

text \<open>The codec that was set is the one the decoder is opened for.\<close>

lemma codec_set_is_used:
  "stream_codec (read_from_settingsXX k (\<not> s) (set_qopenhd_camera_video_codec s c store)) = intToVideoCodec c"
  by (cases s) (simp_all add: read_from_settingsXX_def set_qopenhd_camera_video_codec_def camera_codec_key_def get_defs)

text \<open>The switch to software decoding of the user interface is stored under a key without the leading space of the key
  that is read.\<close>

lemma force_sw_ignored:
  "read_config_from_settings k (store(''qopenhd_primary_video_force_sw'' \<mapsto> v, ''qopenhd_secondary_video_force_sw'' \<mapsto> w))
    = read_config_from_settings k store"
  by (simp add: read_config_from_settings_def read_from_settingsXX_def read_generic_from_settings_def
      get_display_rotation_def get_defs Let_def)

text \<open>So is the switch for incomplete frames.\<close>

lemma feed_incomplete_ignored:
  "\<not> dev_feed_incomplete_frames_to_decoder (generic (read_config_from_settings k store))"
  by (simp add: read_config_from_settings_def read_generic_from_settings_def generic_video_settings_new_def Let_def)

end
