(* ===== verification/Video_Decoder.thy ===== *)
theory Video_Decoder
  imports Video_Safety Video_Stream Video_Settings
begin

text \<open>
  The control of the decoder (\<open>AVCodecDecoder\<close>, \<open>app/videostreaming/avcodec/avcodec_decoder.cpp\<close>, and
  \<open>vscommon/ExternalDecodeService.hpp\<close>): the decoding thread, the timer that looks for changed settings, and the end of the
  program, composed with the receiver. A step of the decoding thread is what it does between two accesses to what it shares with
  the others; the events of a run are in the order in which they happen. FFmpeg is an input of each step: whether a codec
  or stream opens, what comes out of it. Its own reader (\<open>open_and_decode_until_error\<close>) is a loop of which only the
  checks for a restart are part of the model. The sleeps, the statistics and the log are left out.
\<close>

section \<open>State\<close>

datatype codec_input = Config bytes | Frame nalu

datatype decode_path = External_Service | Custom_Rtp | Ffmpeg_Reader

text \<open>One call of \<open>open_and_decode_until_error_custom_rtp\<close> with the receiver it owns. \<open>restart_checked\<close>: the loop has passed
  its two checks, and fetches data next. \<open>fed\<close> is what the codec was given.\<close>

record rtp_session =
  session_settings :: video_stream_config
  session_receiver :: rtp_receiver
  restart_checked :: bool
  has_keyframe_data :: bool
  fed :: "codec_input list"

text \<open>Where the decoding thread is.\<close>

datatype position =
    At_Head
  | Reading_Settings
  | Opening video_stream_config
  | In_Session rtp_session
  | In_Other decode_path video_stream_config int
  | Resting
  | Ended

record decoder =
  stored :: settings
  m_last_video_settings :: video_stream_config
  timer_check_settings_changed :: bool
  request_restart :: bool
  m_should_terminate :: bool
  last_frame_width :: int
  last_frame_height :: int
  service_calls :: "string list"
  position :: position

record decoder_config =
  reader :: settings_reader
  is_rpi :: bool

definition decoder_init :: "decoder_config \<Rightarrow> settings \<Rightarrow> decoder" where
  "decoder_init k store = \<lparr>stored = store, m_last_video_settings = read_config_from_settings (reader k) store,
     timer_check_settings_changed = True, request_restart = False, m_should_terminate = False,
     last_frame_width = -1, last_frame_height = -1, service_calls = [], position = At_Head\<rparr>"

section \<open>Operations\<close>

definition select_stream :: "video_stream_config \<Rightarrow> stream_settings" where
  "select_stream c =
     (if qopenhd_switch_primary_secondary (generic c) then secondary_stream_config c else primary_stream_config c)"

definition choose_path :: "decoder_config \<Rightarrow> video_stream_config \<Rightarrow> decode_path" where
  "choose_path k c =
     (let g = generic c;
          do_custom_rtp = dev_use_low_latency_parser_when_possible g;
          do_custom_rtp = (if stream_codec (select_stream c) = VideoCodecMJPEG then False else do_custom_rtp);
          use_external = (if dev_always_use_generic_external_decode_service g then True else False);
          use_external = (if is_rpi k \<and> dev_rpi_use_external_omx_decode_service g then True else use_external)
      in if use_external then External_Service
         else
           let do_custom_rtp = (if dev_test_video_mode g \<noteq> DISABLED then False else do_custom_rtp)
           in if do_custom_rtp then Custom_Rtp else Ffmpeg_Reader)"

definition bool_digit :: "bool \<Rightarrow> string" where
  "bool_digit b = (if b then ''1'' else ''0'')"

definition quote :: string where
  "quote = [CHR 0x22]"

definition service_request :: "string \<Rightarrow> stream_settings \<Rightarrow> int \<Rightarrow> bool \<Rightarrow> bool \<Rightarrow> string" where
  "service_request action c rotation scale_to_fit is_secondary =
     ''{'' @ quote @ ''type'' @ quote @ '':'' @ quote @ ''sysutil.video.request'' @ quote @ '','' @ quote @ ''action'' @ quote
     @ '':'' @ quote @ action @ quote @ '','' @ quote @ ''codec'' @ quote @ '':'' @ quote @ codec_name (stream_codec c)
     @ quote @ '','' @ quote @ ''udp_ip'' @ quote @ '':'' @ quote @ udp_rtp_input_ip_address c
     @ quote @ '','' @ quote @ ''udp_port'' @ quote @ '':'' @ int_to_string (udp_rtp_input_port c)
     @ '','' @ quote @ ''rotation'' @ quote @ '':'' @ int_to_string rotation
     @ '','' @ quote @ ''scale_to_fit'' @ quote @ '':'' @ bool_digit scale_to_fit
     @ '','' @ quote @ ''stream'' @ quote @ '':'' @ quote @ (if is_secondary then ''secondary'' else ''primary'')
     @ quote @ ''}'' @ line_end"

definition call_service :: "string \<Rightarrow> video_stream_config \<Rightarrow> int \<Rightarrow> decoder \<Rightarrow> decoder" where
  "call_service action c rotation d =
     d\<lparr>service_calls := service_calls d
        @ [service_request action (select_stream c) rotation False (qopenhd_switch_primary_secondary (generic c))]\<rparr>"

definition timer_check_settings_changed_callback :: "decoder_config \<Rightarrow> decoder \<Rightarrow> decoder" where
  "timer_check_settings_changed_callback k d =
     (let new_settings = read_config_from_settings (reader k) (stored d) in
      if \<not> stream_config_equal (m_last_video_settings d) new_settings
      then d\<lparr>request_restart := True, m_last_video_settings := new_settings\<rparr>
      else d)"

text \<open>\<open>on_new_frame\<close>: a frame of another size asks for a restart.\<close>

definition show_frame :: "int \<times> int \<Rightarrow> decoder \<Rightarrow> decoder" where
  "show_frame wh d =
     (let (w, h) = wh in
      if last_frame_width d = -1 \<or> last_frame_height d = -1
      then d\<lparr>last_frame_width := w, last_frame_height := h\<rparr>
      else if last_frame_width d \<noteq> w \<or> last_frame_height d \<noteq> h then d\<lparr>request_restart := True\<rparr>
      else d)"

definition reset_before_decode_start :: "decoder \<Rightarrow> decoder" where
  "reset_before_decode_start d = d\<lparr>last_frame_width := -1, last_frame_height := -1\<rparr>"

text \<open>What the environment contributes to a step: whether the codec opens, the frame that comes out of it, whether FFmpeg's
  reader stops, the clock, and what is in the one member the receiver does not initialise.\<close>

record decode_world =
  codec_opens :: bool
  frame_out :: "(int \<times> int) option"
  reader_ends :: bool
  clock :: int
  junk_bytes :: "64 word"

definition show_output :: "decode_world \<Rightarrow> decoder \<Rightarrow> decoder" where
  "show_output w d = (case frame_out w of Some wh \<Rightarrow> show_frame wh d | None \<Rightarrow> d)"

definition open_session :: "decode_world \<Rightarrow> video_stream_config \<Rightarrow> rtp_session" where
  "open_session w c =
     \<lparr>session_settings = c,
      session_receiver = rtp_receiver_new (junk_bytes w) (clock w)
        (stream_codec (select_stream c) = VideoCodecH265) (dev_feed_incomplete_frames_to_decoder (generic c)),
      restart_checked = False, has_keyframe_data = False, fed = []\<rparr>"

definition open_decoder :: "decoder_config \<Rightarrow> decode_world \<Rightarrow> video_stream_config \<Rightarrow> decoder \<Rightarrow> decoder" where
  "open_decoder k w c d =
     (case choose_path k c of
        External_Service \<Rightarrow>
          let rotation = get_display_rotation (reader k) (stored d)
          in call_service ''start'' c rotation (d\<lparr>position := In_Other External_Service c rotation\<rparr>)
      | Custom_Rtp \<Rightarrow>
          if codec_opens w then (reset_before_decode_start d)\<lparr>position := In_Session (open_session w c)\<rparr>
          else d\<lparr>position := Resting\<rparr>
      | Ffmpeg_Reader \<Rightarrow>
          if codec_opens w then (reset_before_decode_start d)\<lparr>position := In_Other Ffmpeg_Reader c 0\<rparr>
          else d\<lparr>position := Resting\<rparr>)"

text \<open>The second half of a pass of the loop: the configuration, then frame after frame.\<close>

definition fetch_and_feed :: "decode_world \<Rightarrow> rtp_session \<Rightarrow> decoder \<Rightarrow> decoder result" where
  "fetch_and_feed w s d =
     (let s0 = s\<lparr>restart_checked := False\<rparr> in
      if \<not> has_keyframe_data s then
        rbind (receiver_get_config_data (session_receiver s)) (\<lambda>buf.
        Inr (case buf of
            None \<Rightarrow> d\<lparr>position := In_Session s0\<rparr>
          | Some data \<Rightarrow> d\<lparr>position := In_Session (s0\<lparr>fed := fed s @ [Config data], has_keyframe_data := True\<rparr>)\<rparr>))
      else
        rbind (get_next_frame (session_receiver s)) (\<lambda>(buf, r).
        Inr (case buf of
            None \<Rightarrow> d\<lparr>position := In_Session (s0\<lparr>session_receiver := r\<rparr>)\<rparr>
          | Some n \<Rightarrow> show_output w
              (d\<lparr>position := In_Session (s0\<lparr>session_receiver := r, fed := fed s @ [Frame n]\<rparr>)\<rparr>))))"

definition session_pass :: "decode_world \<Rightarrow> rtp_session \<Rightarrow> decoder \<Rightarrow> decoder result" where
  "session_pass w s d =
     (if restart_checked s then fetch_and_feed w s d
      else if request_restart d then Inr (d\<lparr>request_restart := False, position := Resting\<rparr>)
      else if config_has_changed_during_decode (session_receiver s) then Inr (d\<lparr>position := Resting\<rparr>)
      else Inr (d\<lparr>position := In_Session (s\<lparr>restart_checked := True\<rparr>)\<rparr>))"

text \<open>A pass of the loop of the service and of the loop of FFmpeg's reader.\<close>

definition other_pass :: "decode_world \<Rightarrow> decode_path \<Rightarrow> video_stream_config \<Rightarrow> int \<Rightarrow> decoder \<Rightarrow> decoder" where
  "other_pass w p c rotation d =
     (case p of
        External_Service \<Rightarrow>
          if request_restart d then call_service ''stop'' c rotation (d\<lparr>request_restart := False, position := Resting\<rparr>)
          else d
      | _ \<Rightarrow>
          if request_restart d then d\<lparr>request_restart := False, position := Resting\<rparr>
          else if reader_ends w then d\<lparr>position := Resting\<rparr>
          else show_output w d)"

definition constant_decode_step :: "decoder_config \<Rightarrow> decode_world \<Rightarrow> decoder \<Rightarrow> decoder result" where
  "constant_decode_step k w d =
     (case position d of
        At_Head \<Rightarrow> Inr (d\<lparr>position := (if m_should_terminate d then Ended else Reading_Settings)\<rparr>)
      | Reading_Settings \<Rightarrow> Inr (d\<lparr>position := Opening (read_config_from_settings (reader k) (stored d))\<rparr>)
      | Opening c \<Rightarrow> Inr (open_decoder k w c d)
      | In_Session s \<Rightarrow> session_pass w s d
      | In_Other p c rotation \<Rightarrow> Inr (other_pass w p c rotation d)
      | Resting \<Rightarrow> Inr (d\<lparr>position := At_Head\<rparr>)
      | Ended \<Rightarrow> Inr d)"

text \<open>A datagram reaches the receiver of the running session, if there is one.\<close>

definition datagram_arrives :: "int \<Rightarrow> bytes \<Rightarrow> decoder \<Rightarrow> decoder result" where
  "datagram_arrives now pkt d =
     (case position d of
        In_Session s \<Rightarrow>
          rbind (on_udp_packet now pkt (session_receiver s)) (\<lambda>r.
          Inr (d\<lparr>position := In_Session (s\<lparr>session_receiver := r\<rparr>)\<rparr>))
      | _ \<Rightarrow> Inr d)"

text \<open>\<open>terminate\<close> stops the timer and sets its two flags one after the other.\<close>

datatype decoder_event =
    Store_Setting string setting
  | Settings_Timer
  | Terminate_Flag
  | Terminate_Request
  | Datagram int bytes
  | Decode_Step decode_world

fun decoder_step :: "decoder_config \<Rightarrow> decoder_event \<Rightarrow> decoder \<Rightarrow> decoder result" where
  "decoder_step k (Store_Setting key v) d = Inr (d\<lparr>stored := (stored d)(key \<mapsto> v)\<rparr>)"
| "decoder_step k Settings_Timer d =
     Inr (if timer_check_settings_changed d then timer_check_settings_changed_callback k d else d)"
| "decoder_step k Terminate_Flag d = Inr (d\<lparr>timer_check_settings_changed := False, m_should_terminate := True\<rparr>)"
| "decoder_step k Terminate_Request d = Inr (d\<lparr>request_restart := True\<rparr>)"
| "decoder_step k (Datagram now pkt) d = datagram_arrives now pkt d"
| "decoder_step k (Decode_Step w) d = constant_decode_step k w d"

definition decoder_run :: "decoder_config \<Rightarrow> decoder_event list \<Rightarrow> decoder \<Rightarrow> decoder result" where
  "decoder_run k = rfold (decoder_step k)"

section \<open>The invariant: no step of the thread fails\<close>

text \<open>The thread uses a receiver of its codec; a session without a configuration has been fed nothing, one with it first the
  configuration and then frames the network brought, in their order.\<close>

definition received_nalus :: "rtp_receiver \<Rightarrow> bytes list" where
  "received_nalus r = map snd (forwarded (m_rtp_decoder r))"

definition session_inv :: "rtp_session \<Rightarrow> bool" where
  "session_inv s \<longleftrightarrow>
     (let r = session_receiver s in
      receiver_inv r \<and> \<not> m_new_nalu_cb r
      \<and> is_h265 r = (stream_codec (select_stream (session_settings s)) = VideoCodecH265)
      \<and> (\<exists>ns. subseq (map nalu_data (ns @ m_data_queue r)) (received_nalus r)
          \<and> (\<forall>n \<in> set ns. nalu_ok n \<and> IS_H265_PACKET n = is_h265 r \<and> \<not> skipped_nalu n)
          \<and> (if has_keyframe_data s
             then \<exists>cfg. receiver_get_config_data r = Inr (Some cfg) \<and> fed s = Config cfg # map Frame ns
             else ns = [] \<and> fed s = [])))"

definition decoder_ok :: "decoder \<Rightarrow> bool" where
  "decoder_ok d \<longleftrightarrow> (\<forall>s. position d = In_Session s \<longrightarrow> session_inv s)"

lemma config_data_total: "\<exists>x. receiver_get_config_data r = Inr x"
proof (cases "all_config_available (is_h265 r) (m_keyframe_finder r)")
  case True
  let ?c = "m_keyframe_finder r"
  obtain s p where sp: "SPS ?c = Some s" "PPS ?c = Some p"
    using True by (auto simp: all_config_available_def split: if_splits)
  show ?thesis
  proof (cases "is_h265 r")
    case True
    then obtain v where "VPS ?c = Some v"
      using \<open>all_config_available _ _\<close> by (auto simp: all_config_available_def)
    then have "?c = \<lparr>SPS = Some s, PPS = Some p, VPS = Some v\<rparr>" using sp by simp
    with True show ?thesis by (simp add: receiver_get_config_data_def get_config_data_265)
  next
    case False
    have "?c = ?c\<lparr>SPS := Some s, PPS := Some p\<rparr>" using sp by simp
    with False show ?thesis
      using get_config_data_264 [where c = ?c and s = s and p = p] by (simp add: receiver_get_config_data_def)
  qed
qed (simp add: receiver_get_config_data_def)

text \<open>What a packet does to the queue.\<close>

lemma deliver_frame_appends:
  assumes "deliver_frame now n r = Inr r'" "\<not> m_new_nalu_cb r" "nalu_ok n"
  shows "\<not> m_new_nalu_cb r' \<and> m_data_queue r' \<in> {m_data_queue r, m_data_queue r @ [n]}"
  using assms by (auto simp: deliver_frame_def NALUBuffer_copy try_enqueue_def Let_def result_simps split: if_splits)

lemma queue_data_queue:
  assumes "queue_data now f r = Inr r'" "\<not> m_new_nalu_cb r"
  shows "\<not> m_new_nalu_cb r' \<and> (\<exists>xs. m_data_queue r' = m_data_queue r @ xs \<and> subseq (map nalu_data xs) [f])"
proof (cases "all_config_available (is_h265 r) (m_keyframe_finder r)")
  case False
  then show ?thesis
    using assms by (auto simp: queue_data_def Let_def result_simps)
next
  case True
  show ?thesis
    using assms(1) True
  proof (cases rule: queue_data_cases)
    case unchanged
    then show ?thesis using assms(2) by auto
  next
    case deliver
    let ?n = "nalu_of f (is_h265 r) now"
    have "nalu_data ?n = f" by simp
    moreover have "nalu_ok ?n" using assms(1) by (auto simp: queue_data_def result_simps NALU_Inr)
    ultimately show ?thesis using deliver_frame_appends [OF deliver(1)] assms(2) by auto
  qed
qed

lemma nalu_callback_eq: "nalu_data_callback = queue_data"
  by (simp add: fun_eq_iff nalu_data_callback_def)

lemma frames_queue:
  assumes "rfold (\<lambda>(t, f). nalu_data_callback now f) fs r = Inr r'" "\<not> m_new_nalu_cb r"
  shows "\<not> m_new_nalu_cb r' \<and> (\<exists>xs. m_data_queue r' = m_data_queue r @ xs \<and> subseq (map nalu_data xs) (map snd fs))"
  using assms
proof (induction fs arbitrary: r)
  case Nil
  then show ?case by simp
next
  case (Cons x fs)
  obtain t f where x: "x = (t, f)" by fastforce
  obtain r1 where r1: "queue_data now f r = Inr r1"
    "rfold (\<lambda>(t, f). nalu_data_callback now f) fs r1 = Inr r'"
    using Cons.prems(1) unfolding nalu_callback_eq by (auto simp: x result_simps)
  obtain xs where xs: "m_data_queue r1 = m_data_queue r @ xs" "subseq (map nalu_data xs) [f]" "\<not> m_new_nalu_cb r1"
    using queue_data_queue [OF r1(1) Cons.prems(2)] by blast
  obtain ys where ys: "m_data_queue r' = m_data_queue r1 @ ys" "subseq (map nalu_data ys) (map snd fs)" "\<not> m_new_nalu_cb r'"
    using Cons.IH [OF r1(2) xs(3)] by blast
  have "subseq (map nalu_data (xs @ ys)) ([f] @ map snd fs)"
    using list_emb_append_mono [OF xs(2) ys(2)] by simp
  with xs ys show ?case by (auto simp: x)
qed

lemma packet_queue:
  assumes "on_udp_packet now pkt r = Inr r'" "\<not> m_new_nalu_cb r" "receiver_inv r"
    "subseq (xs @ map nalu_data (m_data_queue r)) (received_nalus r)"
  shows "\<not> m_new_nalu_cb r' \<and> subseq (xs @ map nalu_data (m_data_queue r')) (received_nalus r') \<and> is_h265 r' = is_h265 r"
proof -
  obtain b stats where b: "addBytes now (length pkt) (m_rtp_bitrate r) = (b, stats)" by fastforce
  let ?r = "report stats (r\<lparr>m_rtp_bitrate := b\<rparr>)" and ?d = "m_rtp_decoder r"
  from assms(1) obtain d' r1 where
    d': "(if is_h265 r then parseRTPH265toNALU now pkt ?d else parseRTPH264toNALU now pkt ?d) = Inr d'"
    and r1: "rfold (\<lambda>(t, f). nalu_data_callback now f) (new_frames ?d d') (?r\<lparr>m_rtp_decoder := d'\<rparr>) = Inr r1"
    and r': "r' = report [Missing_Rtp_Packets (m_n_gaps (m_rtp_decoder r1))] r1"
    by (cases "is_h265 r")
      (auto simp: on_udp_packet_def udp_raw_data_callback_def b Let_def result_simps new_frames_def)
  have "extends ?d d'"
    using d' h264_parse_extends h265_parse_extends by (auto split: if_splits)
  then have all: "forwarded d' = forwarded ?d @ new_frames ?d d'"
    by (auto simp: extends_def new_frames_def prefix_def)
  obtain ys where ys: "\<not> m_new_nalu_cb r1" "m_data_queue r1 = m_data_queue r @ ys"
    "subseq (map nalu_data ys) (map snd (new_frames ?d d'))"
    using frames_queue [OF r1] assms(2) by auto
  have "receiver_inv (?r\<lparr>m_rtp_decoder := d'\<rparr>) \<and> m_rtp_decoder (?r\<lparr>m_rtp_decoder := d'\<rparr>) = d'
      \<and> is_h265 (?r\<lparr>m_rtp_decoder := d'\<rparr>) = is_h265 r"
    using d' assms(3) parseRTPH264toNALU_inv parseRTPH265toNALU_inv
    by (auto simp: receiver_inv_def split: if_splits)
  with r1 have "receiver_inv r1 \<and> m_rtp_decoder r1 = d' \<and> is_h265 r1 = is_h265 r"
    by (rule rfold_invariant) (auto simp: nalu_data_callback_def dest: queue_data_inv)
  then show ?thesis
    using list_emb_append_mono [OF assms(4) ys(3)] ys(1,2) by (simp add: r' all received_nalus_def)
qed

section \<open>The session\<close>

lemma session_inv_new: "session_inv (open_session w c)"
  by (auto simp: session_inv_def open_session_def receiver_inv_new Let_def intro!: exI [of _ "[]"])
    (simp_all add: rtp_receiver_new_def)

lemma session_inv_checked [simp]: "session_inv (s\<lparr>restart_checked := b\<rparr>) = session_inv s"
  by (simp add: session_inv_def)

lemma session_inv_packet:
  assumes "session_inv s" "on_udp_packet now pkt (session_receiver s) = Inr r"
  shows "session_inv (s\<lparr>session_receiver := r\<rparr>)"
proof -
  let ?r = "session_receiver s"
  from assms(1) obtain ns where ns: "subseq (map nalu_data ns @ map nalu_data (m_data_queue ?r)) (received_nalus ?r)"
    "\<forall>n \<in> set ns. nalu_ok n \<and> IS_H265_PACKET n = is_h265 ?r \<and> \<not> skipped_nalu n"
    "if has_keyframe_data s
     then \<exists>cfg. receiver_get_config_data ?r = Inr (Some cfg) \<and> fed s = Config cfg # map Frame ns
     else ns = [] \<and> fed s = []"
    and r: "receiver_inv ?r" "\<not> m_new_nalu_cb ?r"
      "is_h265 ?r = (stream_codec (select_stream (session_settings s)) = VideoCodecH265)"
    by (auto simp: session_inv_def Let_def)
  have "\<exists>cfg. receiver_get_config_data r = Inr (Some cfg) \<and> fed s = Config cfg # map Frame ns" if "has_keyframe_data s"
    using ns(3) that config_data_is_kept [of ?r _ "[Packet now pkt]" r] assms(2) by auto
  then show ?thesis
    using packet_queue [OF assms(2) r(2,1) ns(1)] ns(2,3) r(3) on_udp_packet_inv [OF assms(2) r(1)]
    by (auto simp: session_inv_def Let_def intro!: exI [of _ ns])
qed

lemma get_next_frame_cases:
  "get_next_frame r = Inr (case m_data_queue r of [] \<Rightarrow> (None, r) | n # q \<Rightarrow> (Some n, r\<lparr>m_data_queue := q\<rparr>))"
  by (cases "m_data_queue r") (simp_all add: get_next_frame_def)

lemma config_data_queue [simp]: "receiver_get_config_data (r\<lparr>m_data_queue := q\<rparr>) = receiver_get_config_data r"
  by (simp add: receiver_get_config_data_def)

lemma receiver_inv_rest: "receiver_inv r \<Longrightarrow> m_data_queue r = n # q \<Longrightarrow> receiver_inv (r\<lparr>m_data_queue := q\<rparr>)"
  by (simp add: receiver_inv_def)

lemma show_output_position [simp]: "position (show_output w d) = position d"
  by (auto simp: show_output_def show_frame_def split: option.splits)

lemma session_inv_config:
  assumes "session_inv s" "\<not> has_keyframe_data s" "receiver_get_config_data (session_receiver s) = Inr (Some data)"
  shows "session_inv (s\<lparr>fed := fed s @ [Config data], has_keyframe_data := True\<rparr>)"
  using assms by (auto simp: session_inv_def Let_def intro!: exI [of _ "[]"])

lemma session_inv_frame:
  assumes "session_inv s" "has_keyframe_data s" "m_data_queue (session_receiver s) = n # q"
  shows "session_inv (s\<lparr>session_receiver := (session_receiver s)\<lparr>m_data_queue := q\<rparr>, fed := fed s @ [Frame n]\<rparr>)"
proof -
  let ?r = "session_receiver s"
  from assms(1,2) obtain ns cfg where ns: "subseq (map nalu_data (ns @ m_data_queue ?r)) (received_nalus ?r)"
    "\<forall>n \<in> set ns. nalu_ok n \<and> IS_H265_PACKET n = is_h265 ?r \<and> \<not> skipped_nalu n"
    "receiver_get_config_data ?r = Inr (Some cfg)" "fed s = Config cfg # map Frame ns"
    and r: "receiver_inv ?r"
    by (auto simp: session_inv_def Let_def)
  have "nalu_ok n \<and> IS_H265_PACKET n = is_h265 ?r \<and> \<not> skipped_nalu n"
    using r assms(3) by (simp add: receiver_inv_def)
  then show ?thesis
    using assms ns receiver_inv_rest [OF r assms(3)]
    by (auto simp: session_inv_def Let_def received_nalus_def intro!: exI [of _ "ns @ [n]"])
qed

lemma fetch_and_feed_ok:
  assumes "session_inv s"
  shows "\<exists>d'. fetch_and_feed w s d = Inr d' \<and> decoder_ok d'"
proof (cases "has_keyframe_data s")
  case False
  obtain x where "receiver_get_config_data (session_receiver s) = Inr x" using config_data_total by blast
  then show ?thesis
    using False assms session_inv_config [of "s\<lparr>restart_checked := False\<rparr>"]
    by (cases x) (auto simp: fetch_and_feed_def decoder_ok_def Let_def)
next
  case True
  then show ?thesis
    using assms session_inv_frame [of "s\<lparr>restart_checked := False\<rparr>"]
    by (cases "m_data_queue (session_receiver s)")
      (auto simp: fetch_and_feed_def get_next_frame_cases decoder_ok_def Let_def)
qed

lemma open_decoder_ok: "decoder_ok (open_decoder k w c d)"
  by (auto simp: open_decoder_def decoder_ok_def call_service_def session_inv_new Let_def split: decode_path.splits)

lemma other_pass_ok: "position d = In_Other p c i \<Longrightarrow> decoder_ok (other_pass w p c i d)"
  by (auto simp: other_pass_def decoder_ok_def call_service_def split: decode_path.splits)

lemma decode_step_total:
  assumes "decoder_ok d"
  shows "\<exists>d'. constant_decode_step k w d = Inr d' \<and> decoder_ok d'"
proof (cases "position d")
  case (In_Session s)
  with assms have "session_inv s" by (simp add: decoder_ok_def)
  with fetch_and_feed_ok [OF this, of w d] show ?thesis
    by (auto simp: constant_decode_step_def In_Session session_pass_def decoder_ok_def)
qed (auto simp: constant_decode_step_def open_decoder_ok other_pass_ok decoder_ok_def [of "d\<lparr>position := p\<rparr>" for p] assms)

lemma decoder_ok_step: "decoder_ok d \<Longrightarrow> decoder_step k e d = Inr d' \<Longrightarrow> decoder_ok d'"
proof (cases e)
  case (Datagram now pkt)
  assume "decoder_ok d" "decoder_step k e d = Inr d'"
  then show ?thesis
    by (auto simp: Datagram datagram_arrives_def decoder_ok_def result_simps intro: session_inv_packet
        split: position.splits)
next
  case (Decode_Step w)
  assume "decoder_ok d" "decoder_step k e d = Inr d'"
  then show ?thesis using decode_step_total [of d k w] by (auto simp: Decode_Step)
qed (auto simp: decoder_ok_def timer_check_settings_changed_callback_def Let_def split: if_splits)

lemma decoder_ok_init: "decoder_ok (decoder_init k store)"
  by (simp add: decoder_ok_def decoder_init_def)

lemma decoder_ok_run: "decoder_run k es (decoder_init k store) = Inr d \<Longrightarrow> decoder_ok d"
  unfolding decoder_run_def by (rule rfold_invariant [where P = decoder_ok]) (auto intro: decoder_ok_step decoder_ok_init)

end
