(* ===== verification/Decoder_Runs.thy ===== *)
theory Decoder_Runs
  imports Video_Decoder
begin

text \<open>
  What holds of every run of the decoder (\<open>Video_Decoder\<close>): what the codec is given, on its own and composed with a sender;
  that the thread ends when it is told to; and which changes of the settings it takes up.
\<close>

section \<open>What the codec is given\<close>

text \<open>C4. In every run of the decoder, whatever packets arrive and however the threads interleave: the codec of a session is
  given the configuration first, that of the receiver, and then only frames of its codec, each of them reassembled from the network
  by this session's receiver, in the order of their arrival; what is still queued comes behind them in the same order.\<close>

theorem codec_fed_in_order:
  assumes "decoder_run k es (decoder_init k store) = Inr d" and "position d = In_Session s"
    and "fed s \<noteq> []"
  shows "\<exists>cfg ns. receiver_get_config_data (session_receiver s) = Inr (Some cfg) \<and> fed s = Config cfg # map Frame ns
    \<and> subseq (map nalu_data (ns @ m_data_queue (session_receiver s)))
        (map snd (forwarded (m_rtp_decoder (session_receiver s))))
    \<and> (\<forall>n \<in> set ns. nalu_ok n \<and> \<not> skipped_nalu n
        \<and> IS_H265_PACKET n = (stream_codec (select_stream (session_settings s)) = VideoCodecH265))"
  using decoder_ok_run [OF assms(1)] assms(2,3)
  by (auto simp: decoder_ok_def session_inv_def received_nalus_def Let_def split: if_splits)

text \<open>The run of a session nobody stops.\<close>

definition size_ok :: "int \<times> int \<Rightarrow> decoder \<Rightarrow> bool" where
  "size_ok wh d \<longleftrightarrow> last_frame_width d = -1 \<or> last_frame_height d = -1 \<or> (last_frame_width d, last_frame_height d) = wh"

definition session_runs :: "int \<times> int \<Rightarrow> rtp_session \<Rightarrow> decoder \<Rightarrow> bool" where
  "session_runs wh s d \<longleftrightarrow> position d = In_Session s \<and> \<not> restart_checked s \<and> \<not> request_restart d
     \<and> \<not> config_has_changed_during_decode (session_receiver s) \<and> size_ok wh d"

definition one_size :: "int \<times> int \<Rightarrow> decode_world \<Rightarrow> bool" where
  "one_size wh w \<longleftrightarrow> frame_out w \<in> {None, Some wh}"

lemma show_output_one_size:
  assumes "one_size wh w" "size_ok wh d" "\<not> request_restart d"
  shows "size_ok wh (show_output w d) \<and> \<not> request_restart (show_output w d)"
  using assms by (cases wh) (auto simp: one_size_def size_ok_def show_output_def show_frame_def split: if_splits)

lemma size_ok_position [simp]: "size_ok wh (d\<lparr>position := p\<rparr>) = size_ok wh d"
  by (simp add: size_ok_def)

lemma decoder_run_simps [simp]:
  "decoder_run k [] d = Inr d"
  "decoder_run k (e # es) d = rbind (decoder_step k e d) (decoder_run k es)"
  "decoder_run k (es @ fs) d = rbind (decoder_run k es d) (decoder_run k fs)"
  by (simp_all add: decoder_run_def rfold_append)

lemma pass_config:
  assumes "session_runs wh s d" "\<not> has_keyframe_data s"
    "receiver_get_config_data (session_receiver s) = Inr (Some data)"
  shows "\<exists>d' s'. decoder_run k [Decode_Step w1, Decode_Step w2] d = Inr d' \<and> session_runs wh s' d'
    \<and> session_receiver s' = session_receiver s \<and> fed s' = fed s @ [Config data] \<and> has_keyframe_data s'"
  using assms
  by (auto simp: session_runs_def constant_decode_step_def session_pass_def fetch_and_feed_def Let_def)

lemma pass_frame:
  assumes "session_runs wh s d" "has_keyframe_data s" "m_data_queue (session_receiver s) = n # q" "one_size wh w2"
  shows "\<exists>d' s'. decoder_run k [Decode_Step w1, Decode_Step w2] d = Inr d' \<and> session_runs wh s' d'
    \<and> m_data_queue (session_receiver s') = q \<and> fed s' = fed s @ [Frame n] \<and> has_keyframe_data s'"
  using assms show_output_one_size [OF assms(4)]
  by (auto simp: session_runs_def constant_decode_step_def session_pass_def fetch_and_feed_def get_next_frame_cases
      Let_def)

lemma pass_frames:
  assumes "session_runs wh s d" "has_keyframe_data s" "length ws = 2 * m" "m \<le> length (m_data_queue (session_receiver s))"
    "\<forall>w \<in> set ws. one_size wh w"
  shows "\<exists>d' s'. decoder_run k (map Decode_Step ws) d = Inr d' \<and> position d' = In_Session s'
    \<and> fed s' = fed s @ map Frame (take m (m_data_queue (session_receiver s)))"
  using assms
proof (induction m arbitrary: ws d s)
  case 0
  then show ?case by (auto simp: session_runs_def)
next
  case (Suc m)
  obtain w1 w2 vs where ws: "ws = w1 # w2 # vs"
    using Suc.prems(3) by (auto simp: length_Suc_conv)
  obtain n q where q: "m_data_queue (session_receiver s) = n # q"
    using Suc.prems(4) by (cases "m_data_queue (session_receiver s)") auto
  from pass_frame [OF Suc.prems(1,2) q, of w2 k w1] Suc.prems(5) obtain d1 s1 where
    d1: "decoder_run k [Decode_Step w1, Decode_Step w2] d = Inr d1" "session_runs wh s1 d1"
      "m_data_queue (session_receiver s1) = q" "fed s1 = fed s @ [Frame n]" "has_keyframe_data s1"
    by (auto simp: ws)
  from Suc.IH [OF d1(2,5), of vs] Suc.prems d1 q show ?case
    using decoder_run_simps(3) [of k "[Decode_Step w1, Decode_Step w2]" "map Decode_Step vs" d]
    by (auto simp: ws simp del: decoder_run_simps)
qed

text \<open>Datagrams that arrive while the thread waits are handled by the receiver alone.\<close>

lemma datagrams_run:
  assumes "receive_packets pkts (session_receiver s) = Inr r" "position d = In_Session s"
  shows "decoder_run k (map (\<lambda>(t, p). Datagram t p) pkts) d
    = Inr (d\<lparr>position := In_Session (s\<lparr>session_receiver := r\<rparr>)\<rparr>)"
  using assms
proof (induction pkts arbitrary: s d)
  case Nil
  then show ?case by (cases d) (simp add: receive_packets_def)
next
  case (Cons p pkts)
  obtain t b where p: "p = (t, b)" by fastforce
  from Cons.prems(1) obtain r1 where "on_udp_packet t b (session_receiver s) = Inr r1"
    "receive_packets pkts r1 = Inr r"
    by (auto simp: receive_packets_def p result_simps)
  with Cons.IH [of "s\<lparr>session_receiver := r1\<rparr>" "d\<lparr>position := In_Session (s\<lparr>session_receiver := r1\<rparr>)\<rparr>"] Cons.prems(2)
  show ?case by (simp add: p datagram_arrives_def)
qed

lemma session_opened:
  assumes "c = read_config_from_settings (reader k) store" "choose_path k c = Custom_Rtp" "codec_opens w"
  shows "\<exists>d. decoder_run k (replicate 3 (Decode_Step w)) (decoder_init k store) = Inr d
    \<and> session_runs wh (open_session w c) d"
  using assms
  by (simp add: eval_nat_numeral constant_decode_step_def decoder_init_def open_decoder_def session_runs_def
      reset_before_decode_start_def size_ok_def) (simp add: open_session_def rtp_receiver_new_def)

fun codec_bytes :: "codec_input \<Rightarrow> bytes" where
  "codec_bytes (Config b) = b"
| "codec_bytes (Frame n) = nalu_data n"

text \<open>C3. From the sender to the codec: when the decoder has opened a session for H.264 and then receives a stream of
  NALUs in any packetisation that begins with an SPS and a PPS, the codec is given these two, and then in order the
  frames of the stream, one in every second step, as far as the queue of 20 holds them.\<close>

theorem stream_reaches_codec:
  assumes "rtp_sent seq (concat (map h264_unit_payloads us)) pkts" and "list_all h264_unit_ok us"
    and "concat (map h264_unit_nalus us) = sps # pps # ns"
    and "h264_nal_type (hd sps) = 7" and "h264_nal_type (hd pps) = 8"
    and "\<forall>n \<in> set ns. (h264_nal_type (hd n) = 7 \<longrightarrow> n = sps) \<and> (h264_nal_type (hd n) = 8 \<longrightarrow> n = pps)"
    and "c = read_config_from_settings (reader k) store" and "choose_path k c = Custom_Rtp"
    and "stream_codec (select_stream c) = VideoCodecH264" and "codec_opens w"
    and "length ws = 2 * (m + 1)" and "m \<le> 20" and "m \<le> length (filter frame_nal ns)"
    and "\<forall>v \<in> set ws. one_size wh v"
  shows "\<exists>d s. decoder_run k (replicate 3 (Decode_Step w) @ map (\<lambda>(t, p). Datagram t p) pkts @ map Decode_Step ws)
        (decoder_init k store) = Inr d
    \<and> position d = In_Session s
    \<and> map codec_bytes (fed s)
        = ((start_code @ sps) @ (start_code @ pps)) # take m (map (\<lambda>n. start_code @ n) (filter frame_nal ns))"
proof -
  let ?s = "open_session w c"
  obtain d0 where d0: "decoder_run k (replicate 3 (Decode_Step w)) (decoder_init k store) = Inr d0"
    "session_runs wh ?s d0"
    using session_opened [OF assms(7,8,10), of wh] by blast
  have new: "session_receiver ?s = rtp_receiver_new (junk_bytes w) (clock w) False (dev_feed_incomplete_frames_to_decoder (generic c))"
    using assms(9) by (simp add: open_session_def)
  obtain r where r: "receive_packets pkts (session_receiver ?s) = Inr r"
    "receiver_get_config_data r = Inr (Some ((start_code @ sps) @ (start_code @ pps)))"
    "map nalu_data (m_data_queue r) = take 20 (map (\<lambda>n. start_code @ n) (filter frame_nal ns))"
    "\<not> config_has_changed_during_decode r"
    using h264_frames_reach_the_decoder [OF assms(1-6)] unfolding new by metis
  let ?d = "d0\<lparr>position := In_Session (?s\<lparr>session_receiver := r\<rparr>)\<rparr>"
  have d1: "decoder_run k (map (\<lambda>(t, p). Datagram t p) pkts) d0 = Inr ?d"
    using datagrams_run [OF r(1)] d0(2) by (simp add: session_runs_def)
  have run: "session_runs wh (?s\<lparr>session_receiver := r\<rparr>) ?d"
    using d0(2) r(4) by (simp add: session_runs_def)
  obtain w1 w2 vs where ws: "ws = w1 # w2 # vs" "length vs = 2 * m"
    using assms(11) by (auto simp: length_Suc_conv)
  obtain d2 s2 where d2: "decoder_run k [Decode_Step w1, Decode_Step w2] ?d = Inr d2" "session_runs wh s2 d2"
    "session_receiver s2 = r" "fed s2 = [Config ((start_code @ sps) @ (start_code @ pps))]" "has_keyframe_data s2"
    using pass_config [OF run, of "(start_code @ sps) @ (start_code @ pps)" k w1 w2] r(2)
    by (auto simp: open_session_def)
  have "length (m_data_queue r) = min 20 (length (filter frame_nal ns))"
    using arg_cong [OF r(3), of length] by (simp add: min.commute)
  then have "m \<le> length (m_data_queue (session_receiver s2))"
    using assms(12,13) d2(3) by simp
  then obtain d3 s3 where d3: "decoder_run k (map Decode_Step vs) d2 = Inr d3" "position d3 = In_Session s3"
    "fed s3 = fed s2 @ map Frame (take m (m_data_queue r))"
    using pass_frames [OF d2(2,5) ws(2), of k] assms(14) d2(3) ws(1) by auto
  have "map codec_bytes (map Frame (take m (m_data_queue r))) = take m (map nalu_data (m_data_queue r))"
    by (simp add: take_map)
  also have "\<dots> = take m (map (\<lambda>n. start_code @ n) (filter frame_nal ns))"
    using assms(12) by (simp add: r(3) min_def)
  finally have "map codec_bytes (fed s3)
      = ((start_code @ sps) @ (start_code @ pps)) # take m (map (\<lambda>n. start_code @ n) (filter frame_nal ns))"
    by (simp add: d3(3) d2(4))
  moreover have "decoder_run k (map Decode_Step ws) ?d = Inr d3"
    using decoder_run_simps(3) [of k "[Decode_Step w1, Decode_Step w2]" "map Decode_Step vs" ?d] d2(1) d3(1)
    by (simp add: ws(1) del: decoder_run_simps)
  ultimately show ?thesis using d0(1) d1 d3(2) by (simp del: decoder_run_simps(2))
qed

section \<open>The end of the program\<close>

text \<open>How many steps of the thread are left at most once the program is to end.\<close>

fun steps_left :: "position \<Rightarrow> nat" where
  "steps_left Ended = 0"
| "steps_left At_Head = 1"
| "steps_left Resting = 2"
| "steps_left (In_Session s) = (if restart_checked s then 4 else 3)"
| "steps_left (In_Other p c i) = 3"
| "steps_left (Opening c) = 4"
| "steps_left Reading_Settings = 5"

definition ending :: "decoder \<Rightarrow> bool" where
  "ending d \<longleftrightarrow> decoder_ok d \<and> m_should_terminate d \<and> (request_restart d \<or> steps_left (position d) \<le> 2)"

lemma show_output_keeps [simp]:
  "m_should_terminate (show_output w d) = m_should_terminate d"
  "stored (show_output w d) = stored d"
  "m_last_video_settings (show_output w d) = m_last_video_settings d"
  "timer_check_settings_changed (show_output w d) = timer_check_settings_changed d"
  "request_restart d \<Longrightarrow> request_restart (show_output w d)"
  by (auto simp: show_output_def show_frame_def split: option.splits)

lemma ending_decode:
  assumes "ending d" "constant_decode_step k w d = Inr d'"
  shows "ending d' \<and> steps_left (position d') \<le> steps_left (position d) - 1"
proof -
  have ok: "decoder_ok d'" using decode_step_total [of d k w] assms by (auto simp: ending_def)
  show ?thesis
    using assms ok
    by (cases "position d")
      (auto simp: ending_def constant_decode_step_def session_pass_def fetch_and_feed_def other_pass_def open_decoder_def
        open_session_def call_service_def reset_before_decode_start_def get_next_frame_cases Let_def result_simps
        split: if_splits decode_path.splits option.splits list.splits)
qed

fun is_decode :: "decoder_event \<Rightarrow> bool" where
  "is_decode (Decode_Step w) = True"
| "is_decode _ = False"

fun is_datagram :: "decoder_event \<Rightarrow> bool" where
  "is_datagram (Datagram t p) = True"
| "is_datagram _ = False"

lemma ending_other:
  assumes "ending d" "decoder_step k e d = Inr d'" "\<not> is_decode e"
  shows "ending d' \<and> steps_left (position d') = steps_left (position d)"
proof -
  have ok: "decoder_ok d'" using decoder_ok_step assms(1,2) by (auto simp: ending_def)
  show ?thesis
    using assms ok
    by (cases e) (auto simp: ending_def timer_check_settings_changed_callback_def datagram_arrives_def Let_def result_simps
        split: if_splits position.splits)
qed

lemma step_total: "decoder_ok d \<Longrightarrow> \<not> is_datagram e \<Longrightarrow> \<exists>d'. decoder_step k e d = Inr d'"
  using decode_step_total [of d] by (cases e) auto

lemma ending_run:
  assumes "ending d"
  shows "(\<exists>d'. decoder_run k es d = Inr d' \<and> steps_left (position d') \<le> steps_left (position d) - length (filter is_decode es))
    \<or> (\<exists>e \<in> set es. is_datagram e) \<and> isl (decoder_run k es d)"
  using assms
proof (induction es arbitrary: d)
  case Nil
  then show ?case by simp
next
  case (Cons e es)
  show ?case
  proof (cases "decoder_step k e d")
    case (Inl f)
    then show ?thesis using step_total [of d e k] Cons.prems by (auto simp: ending_def)
  next
    case (Inr d1)
    show ?thesis
    proof (cases e)
      case (Decode_Step w)
      then have "ending d1 \<and> steps_left (position d1) \<le> steps_left (position d) - 1"
        using ending_decode [OF Cons.prems, of k w d1] Inr by simp
      with Cons.IH [of d1] Inr Decode_Step show ?thesis by auto
    next
    qed (use Cons.IH [of d1] Inr ending_other [OF Cons.prems Inr] in auto)
  qed
qed

text \<open>C14. \<open>terminate\<close> always ends the decoding thread, so that waiting for it returns: after its two flags are set, five steps of
  the thread are enough, whatever the thread did before and whatever happens in between, unless a packet aborts the program.\<close>

theorem terminate_ends_thread:
  assumes "decoder_run k (es @ Terminate_Flag # es' @ [Terminate_Request]) (decoder_init k store) = Inr d"
    and "5 \<le> length (filter is_decode fs)"
  shows "(\<exists>d'. decoder_run k fs d = Inr d' \<and> position d' = Ended)
    \<or> (\<exists>now pkt. Datagram now pkt \<in> set fs) \<and> isl (decoder_run k fs d)"
proof -
  have "decoder_ok d" using assms(1) by (rule decoder_ok_run)
  obtain d1 d2 d3 where d: "decoder_step k Terminate_Flag d1 = Inr d2" "decoder_run k es' d2 = Inr d3"
    "decoder_step k Terminate_Request d3 = Inr d"
    using assms(1) by (auto simp: result_simps simp del: decoder_step.simps)
  have "m_should_terminate d3"
    using d(2) unfolding decoder_run_def
  proof (rule rfold_invariant [where P = m_should_terminate])
    show "m_should_terminate d2" using d(1) by auto
    show "m_should_terminate t" if "m_should_terminate u" "decoder_step k e u = Inr t" for e u t
      using that
      by (cases e; cases "position u")
        (auto simp: timer_check_settings_changed_callback_def datagram_arrives_def constant_decode_step_def
          session_pass_def fetch_and_feed_def other_pass_def open_decoder_def call_service_def
          reset_before_decode_start_def get_next_frame_cases Let_def result_simps
          split: if_splits decode_path.splits option.splits list.splits)
  qed
  then have "ending d" using d(3) \<open>decoder_ok d\<close> by (auto simp: ending_def)
  have "steps_left p = 0 \<longleftrightarrow> p = Ended" "steps_left p \<le> 5" for p by (cases p; simp)+
  with ending_run [OF \<open>ending d\<close>, of k fs] assms(2) show ?thesis
    by (metis diff_is_0_eq le_zero_eq le_trans is_datagram.elims(2))
qed

section \<open>Changed settings\<close>

fun settings_used :: "position \<Rightarrow> video_stream_config option" where
  "settings_used (Opening c) = Some c"
| "settings_used (In_Session s) = Some (session_settings s)"
| "settings_used (In_Other p c i) = Some c"
| "settings_used _ = None"

definition settings_current :: "decoder_config \<Rightarrow> decoder \<Rightarrow> bool" where
  "settings_current k d \<longleftrightarrow> settings_used (position d) \<in> {None, Some (read_config_from_settings (reader k) (stored d))}"

text \<open>How long the thread may go on with settings it has read before.\<close>

fun stale_steps :: "position \<Rightarrow> nat" where
  "stale_steps (In_Session s) = (if restart_checked s then 2 else 1)"
| "stale_steps (In_Other p c i) = 1"
| "stale_steps (Opening c) = 2"
| "stale_steps _ = 0"

definition will_apply :: "decoder_config \<Rightarrow> nat \<Rightarrow> decoder \<Rightarrow> bool" where
  "will_apply k n d \<longleftrightarrow> settings_current k d \<or> request_restart d \<and> stale_steps (position d) \<le> n"

fun is_store :: "decoder_event \<Rightarrow> bool" where
  "is_store (Store_Setting key v) = True"
| "is_store _ = False"

lemma will_apply_decode:
  "will_apply k n d \<Longrightarrow> constant_decode_step k w d = Inr d' \<Longrightarrow> will_apply k (n - 1) d' \<and> stored d' = stored d"
  by (cases "position d")
    (auto simp: will_apply_def settings_current_def constant_decode_step_def session_pass_def fetch_and_feed_def
      other_pass_def open_decoder_def open_session_def call_service_def reset_before_decode_start_def
      get_next_frame_cases Let_def result_simps
      split: if_splits decode_path.splits option.splits list.splits)

lemma will_apply_other:
  "will_apply k n d \<Longrightarrow> decoder_step k e d = Inr d' \<Longrightarrow> \<not> is_decode e \<Longrightarrow> \<not> is_store e \<Longrightarrow>
    will_apply k n d' \<and> stored d' = stored d"
  by (cases e) (auto simp: will_apply_def settings_current_def timer_check_settings_changed_callback_def
      datagram_arrives_def Let_def result_simps split: if_splits position.splits)

lemma will_apply_run:
  "will_apply k n d \<Longrightarrow> decoder_run k es d = Inr d' \<Longrightarrow> \<forall>e \<in> set es. \<not> is_store e \<Longrightarrow>
    will_apply k (n - length (filter is_decode es)) d' \<and> stored d' = stored d"
proof (induction es arbitrary: n d)
  case Nil
  then show ?case by simp
next
  case (Cons e es)
  then obtain d1 where d1: "decoder_step k e d = Inr d1" "decoder_run k es d1 = Inr d'"
    by (auto simp: result_simps)
  show ?case
  proof (cases "is_decode e")
    case True
    then obtain w where "e = Decode_Step w" by (cases e) auto
    with will_apply_decode [OF Cons.prems(1), of w d1] d1(1)
    have "will_apply k (n - 1) d1 \<and> stored d1 = stored d" by simp
    with Cons.IH [of "n - 1" d1] d1(2) Cons.prems(3) True show ?thesis by simp
  next
    case False
    with will_apply_other [OF Cons.prems(1) d1(1)] Cons.IH [of n d1] d1(2) Cons.prems(3) show ?thesis by simp
  qed
qed

lemma run_outcome:
  assumes "decoder_ok d"
  shows "(\<exists>d'. decoder_run k es d = Inr d') \<or> (\<exists>now pkt. Datagram now pkt \<in> set es) \<and> isl (decoder_run k es d)"
  using assms
proof (induction es arbitrary: d)
  case Nil
  then show ?case by simp
next
  case (Cons e es)
  show ?case
  proof (cases "decoder_step k e d")
    case (Inl f)
    then show ?thesis using step_total [OF Cons.prems, of e k] by (cases e) auto
  next
    case (Inr d1)
    then show ?thesis using Cons.IH [OF decoder_ok_step [OF Cons.prems Inr]] by auto
  qed
qed

text \<open>C15. A change of the settings the timer notices is taken up: two steps of the thread later it works with no other
  settings than the stored ones, as long as these stay, whatever it was doing before and whatever happens in between, unless a packet
  aborts the program.\<close>

theorem settings_change_applied:
  assumes "decoder_run k es (decoder_init k store) = Inr d" and "timer_check_settings_changed d"
    and "m_last_video_settings d \<noteq> read_config_from_settings (reader k) (stored d)"
    and "\<forall>e \<in> set fs. \<not> is_store e" and "2 \<le> length (filter is_decode fs)"
  shows "(\<exists>d'. decoder_run k (Settings_Timer # fs) d = Inr d' \<and> stored d' = stored d \<and> settings_current k d')
    \<or> (\<exists>now pkt. Datagram now pkt \<in> set fs) \<and> isl (decoder_run k (Settings_Timer # fs) d)"
proof -
  let ?d = "timer_check_settings_changed_callback k d"
  have run: "decoder_run k (Settings_Timer # fs) d = decoder_run k fs ?d"
    using assms(2) by simp
  have ok: "decoder_ok ?d"
    using decoder_ok_step [OF decoder_ok_run [OF assms(1)], of k Settings_Timer ?d] assms(2) by simp
  have "stale_steps p \<le> 2" "stale_steps p = 0 \<Longrightarrow> settings_used p = None" for p
    by (cases p; simp split: if_splits)+
  moreover have "request_restart ?d" "stored ?d = stored d"
    using assms(3) by (simp_all add: timer_check_settings_changed_callback_def Let_def)
  ultimately have "will_apply k 2 ?d" by (simp add: will_apply_def)
  then have "decoder_run k fs ?d = Inr d' \<Longrightarrow> settings_current k d' \<and> stored d' = stored d" for d'
    using will_apply_run [of k 2 ?d fs d'] assms(4,5) \<open>\<And>p. stale_steps p = 0 \<Longrightarrow> settings_used p = None\<close>
      \<open>stored ?d = stored d\<close>
    by (auto simp: will_apply_def settings_current_def)
  then show ?thesis using run_outcome [OF ok, of k fs] run by auto
qed

text \<open>What the timer does not notice is a change that is taken back before it looks, while a session was opened with it.\<close>

definition desktop :: decoder_config where
  "desktop = \<lparr>reader = \<lparr>text_to_int = string_to_int, custom_pipeline_file = None\<rparr>, is_rpi = False\<rparr>"

definition demo_world :: decode_world where
  "demo_world = \<lparr>codec_opens = True, frame_out = Some (1920, 1080), reader_ends = False, clock = 0, junk_bytes = 0\<rparr>"

definition set_codec :: "int \<Rightarrow> decoder_event" where
  "set_codec c = Store_Setting ''qopenhd_primary_video_codec'' (Setting_Int c)"

lemma demo_codec:
  "stream_codec (select_stream (read_config_from_settings (reader desktop) [''qopenhd_primary_video_codec'' \<mapsto> Setting_Int c]))
    = intToVideoCodec c"
  "stream_codec (select_stream (read_config_from_settings (reader desktop) Map.empty)) = VideoCodecH264"
  by (simp_all add: read_config_from_settings_def select_stream_def read_from_settingsXX_def read_generic_from_settings_def
      get_defs setting_value_def Let_def intToVideoCodec_def desktop_def)

lemma demo_config_default:
  "read_config_from_settings (reader desktop) [''qopenhd_primary_video_codec'' \<mapsto> Setting_Int 0]
    = read_config_from_settings (reader desktop) Map.empty"
  by (simp add: read_config_from_settings_def read_from_settingsXX_def read_generic_from_settings_def
      get_display_rotation_def get_defs setting_value_def Let_def desktop_def)

lemma demo_path:
  "choose_path desktop (read_config_from_settings (reader desktop) [''qopenhd_primary_video_codec'' \<mapsto> Setting_Int 1]) = Custom_Rtp"
  "choose_path desktop (read_config_from_settings (reader desktop) Map.empty) = Custom_Rtp"
  by (simp_all add: choose_path_def demo_codec Let_def intToVideoCodec_def)
    (simp_all add: read_config_from_settings_def read_generic_from_settings_def generic_video_settings_new_def
      get_defs setting_value_def Let_def desktop_def videoTestModeFromInt_def)

lemma demo_differs:
  "read_config_from_settings (reader desktop) [''qopenhd_primary_video_codec'' \<mapsto> Setting_Int 1]
    \<noteq> read_config_from_settings (reader desktop) Map.empty"
proof
  assume "read_config_from_settings (reader desktop) [''qopenhd_primary_video_codec'' \<mapsto> Setting_Int 1]
    = read_config_from_settings (reader desktop) Map.empty"
  then have "intToVideoCodec 1 = VideoCodecH264" using demo_codec(1) [of 1] demo_codec(2) by simp
  then show False by (simp add: intToVideoCodec_def)
qed

lemma stale_settings_kept:
  "\<exists>d. decoder_run desktop (([set_codec 1] @ replicate 3 (Decode_Step demo_world) @ [set_codec 0]) @ replicate n Settings_Timer)
        (decoder_init desktop Map.empty) = Inr d
    \<and> \<not> settings_current desktop d \<and> \<not> request_restart d"
proof -
  obtain d where d: "decoder_run desktop ([set_codec 1] @ replicate 3 (Decode_Step demo_world) @ [set_codec 0])
      (decoder_init desktop Map.empty) = Inr d"
    "\<not> settings_current desktop d" "\<not> request_restart d"
    "timer_check_settings_changed_callback desktop d = d"
    using demo_path(1) demo_differs
    by (simp add: set_codec_def decoder_init_def eval_nat_numeral constant_decode_step_def open_decoder_def open_session_def
        demo_world_def settings_current_def timer_check_settings_changed_callback_def reset_before_decode_start_def
        demo_config_default Let_def)
  have "decoder_run desktop (replicate n Settings_Timer) d = Inr d"
    by (induction n) (simp_all add: d(4))
  then show ?thesis
    unfolding decoder_run_simps(3) [where fs = "replicate n Settings_Timer"] d(1) using d(2,3) by simp
qed

theorem settings_change_applied_witness:
  "\<exists>d d'. decoder_run desktop (replicate 3 (Decode_Step demo_world) @ [set_codec 1]) (decoder_init desktop Map.empty) = Inr d
    \<and> decoder_run desktop [Settings_Timer, Decode_Step demo_world, Decode_Step demo_world] d = Inr d'
    \<and> settings_current desktop d'"
proof -
  let ?es = "replicate 3 (Decode_Step demo_world) @ [set_codec 1]"
  obtain d where d: "decoder_run desktop ?es (decoder_init desktop Map.empty) = Inr d"
    "timer_check_settings_changed d" "m_last_video_settings d \<noteq> read_config_from_settings (reader desktop) (stored d)"
    using demo_path(2) demo_differs
    by (simp add: set_codec_def decoder_init_def eval_nat_numeral constant_decode_step_def open_decoder_def open_session_def
        demo_world_def reset_before_decode_start_def Let_def)
  show ?thesis
    using d(1) settings_change_applied [OF d, of "[Decode_Step demo_world, Decode_Step demo_world]"] by auto
qed

theorem terminate_ends_thread_witness:
  "\<exists>d d'. decoder_run desktop (replicate 4 (Decode_Step demo_world) @ Terminate_Flag # [] @ [Terminate_Request])
        (decoder_init desktop Map.empty) = Inr d
    \<and> decoder_run desktop (replicate 5 (Decode_Step demo_world)) d = Inr d' \<and> position d' = Ended"
proof -
  let ?es = "replicate 4 (Decode_Step demo_world)"
  obtain d where d: "decoder_run desktop (?es @ Terminate_Flag # [] @ [Terminate_Request]) (decoder_init desktop Map.empty) = Inr d"
    using run_outcome [OF decoder_ok_init, of desktop "?es @ Terminate_Flag # [] @ [Terminate_Request]" desktop Map.empty]
    by (auto simp del: decoder_run_simps append.simps)
  show ?thesis
    using d terminate_ends_thread [OF d, of "replicate 5 (Decode_Step demo_world)"]
    by (auto simp del: decoder_run_simps replicate.simps append.simps)
qed

lemma demo_stream:
  "rtp_sent 1 (concat (map h264_unit_payloads demo_video_units)) demo_video_packets"
  "list_all h264_unit_ok demo_video_units"
  "concat (map h264_unit_nalus demo_video_units)
    = [0x67, 1, 2] # [0x68, 5] # [[0x65, 7, 8, 9], [0x09, 0xF0], [0x41, 3]]"
  "h264_nal_type (hd [0x67, 1, 2]) = 7" "h264_nal_type (hd [0x68, 5]) = 8"
  "\<forall>n \<in> set [[0x65, 7, 8, 9], [0x09, 0xF0], [0x41, 3]].
    (h264_nal_type (hd n) = 7 \<longrightarrow> n = [0x67, 1, 2]) \<and> (h264_nal_type (hd n) = 8 \<longrightarrow> n = [0x68, 5])"
  by (simp_all add: demo_video_units_def demo_video_packets_def rtp_hdr_ok_def be16_def fu_indicator_def
      fu_header_byte_def NALU_MAXLEN_def h264_nal_type_def bitfield_def mask_eq_exp_minus_1)

lemma demo_video_frames: "filter frame_nal [[0x65, 7, 8, 9], [0x09, 0xF0], [0x41, 3]] = [[0x65, 7, 8, 9], [0x41, 3]]"
  by (simp add: frame_nal_def h264_nal_type_def bitfield_def mask_eq_exp_minus_1)

theorem stream_reaches_codec_witness:
  "\<exists>d s. decoder_run desktop (replicate 3 (Decode_Step demo_world) @ map (\<lambda>(t, p). Datagram t p) demo_video_packets
        @ map Decode_Step (replicate 6 demo_world)) (decoder_init desktop Map.empty) = Inr d
    \<and> position d = In_Session s
    \<and> map codec_bytes (fed s) = [start_code @ [0x67, 1, 2] @ start_code @ [0x68, 5], start_code @ [0x65, 7, 8, 9],
        start_code @ [0x41, 3]]"
proof -
  have "\<forall>v \<in> set (replicate 6 demo_world). one_size (1920, 1080) v"
    by (simp add: one_size_def demo_world_def)
  then show ?thesis
    using stream_reaches_codec [OF demo_stream refl demo_path(2) demo_codec(2), of demo_world "replicate 6 demo_world" 2]
      demo_video_frames
    by (simp add: demo_world_def del: decoder_run_simps replicate.simps)
qed

theorem codec_fed_in_order_witness:
  "\<exists>d s cfg. decoder_run desktop ((replicate 3 (Decode_Step demo_world) @ map (\<lambda>(t, p). Datagram t p) demo_video_packets)
        @ [Decode_Step demo_world, Decode_Step demo_world]) (decoder_init desktop Map.empty) = Inr d
    \<and> position d = In_Session s \<and> receiver_get_config_data (session_receiver s) = Inr (Some cfg) \<and> hd (fed s) = Config cfg"
proof -
  let ?c = "read_config_from_settings (reader desktop) Map.empty" and ?w = demo_world
  let ?s = "open_session ?w ?c"
  obtain d0 where d0: "decoder_run desktop (replicate 3 (Decode_Step ?w)) (decoder_init desktop Map.empty) = Inr d0"
    "session_runs (1920, 1080) ?s d0"
    using session_opened [OF refl demo_path(2), of ?w "(1920, 1080)"] by (auto simp: demo_world_def)
  obtain r data where r: "receive_packets demo_video_packets (session_receiver ?s) = Inr r"
    "receiver_get_config_data r = Inr (Some data)" "\<not> config_has_changed_during_decode r"
    using h264_frames_reach_the_decoder [OF demo_stream, of 0 0 "dev_feed_incomplete_frames_to_decoder (generic ?c)"] demo_codec(2)
    by (auto simp: open_session_def demo_world_def)
  let ?d = "d0\<lparr>position := In_Session (?s\<lparr>session_receiver := r\<rparr>)\<rparr>"
  have d1: "decoder_run desktop (map (\<lambda>(t, p). Datagram t p) demo_video_packets) d0 = Inr ?d"
    using datagrams_run [OF r(1)] d0(2) by (simp add: session_runs_def)
  have "session_runs (1920, 1080) (?s\<lparr>session_receiver := r\<rparr>) ?d"
    using d0(2) r(3) by (simp add: session_runs_def)
  from pass_config [OF this, of data desktop ?w ?w] r(2) obtain d s where
    d: "decoder_run desktop [Decode_Step ?w, Decode_Step ?w] ?d = Inr d" "position d = In_Session s" "fed s \<noteq> []"
    by (auto simp: open_session_def session_runs_def)
  have run: "decoder_run desktop ((replicate 3 (Decode_Step ?w) @ map (\<lambda>(t, p). Datagram t p) demo_video_packets)
        @ [Decode_Step ?w, Decode_Step ?w]) (decoder_init desktop Map.empty) = Inr d"
    unfolding decoder_run_simps(3) d0(1) rbind.simps d1 d(1) ..
  from codec_fed_in_order [OF this d(2,3)] run d(2) show ?thesis by auto
qed

end
