(* ===== verification/Low_Lag_Decoder.thy ===== *)
theory Low_Lag_Decoder
  imports Codec_Config Time_Stats
begin

text \<open>
  The decoder of Android (\<open>LowLagDecoder\<close>, \<open>app/videostreaming/android/lowlagdecoder.cpp\<close>). The \<open>AMediaCodec\<close> interface of Android
  is an input: whether a codec is created, what each call for a buffer returns; a number stands for a window. The calls that change a codec are recorded.
  Operations under the mutex are atomic towards each other; what the output thread does in between is a step of its own, and while
  a codec is released it may run beside it. Texts for the log are
  left out, and so is the copy of the statistics for the screen.
\<close>

section \<open>State\<close>

record media_format =
  mf_width :: int
  mf_height :: int
  csd_0 :: bytes
  csd_1 :: "bytes option"

datatype codec_call =
    Create_Codec bool
  | Configure_Codec media_format
  | Start_Codec
  | Queue_Input nalu
  | Release_Output bool
  | Stop_Codec
  | Delete_Codec

datatype output_thread = No_Thread | Thread_Running | Thread_Exited

record low_lag_decoder =
  ll_configured :: bool
  ll_codec :: bool
  ll_window :: "nat option"
  mCheckOutputThread :: output_thread
  inputPipeClosed :: bool
  mKeyFrameFinder :: codec_config
  IS_H265 :: bool
  nNALU :: int
  nNALUSFeeded :: int
  nNALUBytesFed :: relative_calculator
  nDecodedFrames :: relative_calculator
  parsingTime :: avg_calculator
  waitForInputB :: avg_calculator
  decodingTime :: avg_calculator
  ratio_calls :: "(int \<times> int) list"
  codec_calls :: "codec_call list"

definition resetStatistics :: "low_lag_decoder \<Rightarrow> low_lag_decoder" where
  "resetStatistics s = s\<lparr>nDecodedFrames := relative_reset (nDecodedFrames s), nNALUBytesFed := relative_reset (nNALUBytesFed s),
     parsingTime := avg_reset (parsingTime s), waitForInputB := avg_reset (waitForInputB s),
     decodingTime := avg_reset (decodingTime s), nNALU := 0, nNALUSFeeded := 0\<rparr>"

definition low_lag_new :: low_lag_decoder where
  "low_lag_new = resetStatistics \<lparr>ll_configured = False, ll_codec = False, ll_window = None,
     mCheckOutputThread = No_Thread, inputPipeClosed = True, mKeyFrameFinder = codec_config_new, IS_H265 = False,
     nNALU = 0, nNALUSFeeded = 0, nNALUBytesFed = \<lparr>rel_sum = 0, sum_at_last_call = 0\<rparr>,
     nDecodedFrames = \<lparr>rel_sum = 0, sum_at_last_call = 0\<rparr>, parsingTime = avg_calculator_new,
     waitForInputB = avg_calculator_new, decodingTime = avg_calculator_new, ratio_calls = [], codec_calls = []\<rparr>"

abbreviation record_call :: "codec_call \<Rightarrow> low_lag_decoder \<Rightarrow> low_lag_decoder" where
  "record_call c s \<equiv> s\<lparr>codec_calls := codec_calls s @ [c]\<rparr>"

section \<open>Configuration\<close>

definition h264_configureAMediaFormat ::
  "(bytes \<Rightarrow> (int \<times> int) option) \<Rightarrow> codec_config \<Rightarrow> media_format result" where
  "h264_configureAMediaFormat parse_sps c =
     rbind (getCSD0 c) (\<lambda>sps.
     rbind (getCSD1 c) (\<lambda>pps.
     rbind (sps_get_width_height parse_sps sps) (\<lambda>(w, h).
     Inr \<lparr>mf_width = w, mf_height = h, csd_0 = nalu_data sps, csd_1 = Some (nalu_data pps)\<rparr>)))"

definition h265_configureAMediaFormat :: "codec_config \<Rightarrow> media_format result" where
  "h265_configureAMediaFormat c =
     rbind (getCSD0 c) (\<lambda>sps.
     rbind (getCSD1 c) (\<lambda>pps.
     rbind (getVPS c) (\<lambda>vps.
     let buff = appendNaluData [] vps;
         buff = appendNaluData buff sps;
         buff = appendNaluData buff pps
     in Inr \<lparr>mf_width = 1280, mf_height = 720, csd_0 = buff, csd_1 = None\<rparr>)))"

text \<open>\<open>created\<close>: whether Android has a codec to give.\<close>

definition configureStartDecoder ::
  "(bytes \<Rightarrow> (int \<times> int) option) \<Rightarrow> bool \<Rightarrow> low_lag_decoder \<Rightarrow> low_lag_decoder result" where
  "configureStartDecoder parse_sps created s =
     (if \<not> created then Inr (s\<lparr>ll_codec := False, mKeyFrameFinder := codec_config_reset (mKeyFrameFinder s)\<rparr>)
      else
        let s1 = record_call (Create_Codec (IS_H265 s)) (s\<lparr>ll_codec := True\<rparr>) in
        rbind (if IS_H265 s1 then h265_configureAMediaFormat (mKeyFrameFinder s1)
               else h264_configureAMediaFormat parse_sps (mKeyFrameFinder s1)) (\<lambda>format.
        let s2 = record_call Start_Codec (record_call (Configure_Codec format) s1) in
        Inr (s2\<lparr>mCheckOutputThread := Thread_Running, ll_configured := True\<rparr>)))"

section \<open>The output thread\<close>

datatype output_buffer =
    Output_Frame nat int bool
  | Output_Format int int
  | Output_Buffers_Changed
  | Output_Try_Again
  | Output_Unknown

text \<open>One pass of \<open>checkOutputLoop\<close>. Every pass begins with a call on the codec.\<close>

definition check_output :: "int \<Rightarrow> output_buffer \<Rightarrow> low_lag_decoder \<Rightarrow> low_lag_decoder result" where
  "check_output now_us out s =
     (if mCheckOutputThread s \<noteq> Thread_Running then Inr s
      else if \<not> ll_codec s then Inl Use_After_Free
      else Inr (case out of
          Output_Frame size_ pts eos \<Rightarrow>
            let s1 = record_call (Release_Output (size_ > 0 \<and> ll_window s \<noteq> None)) s;
                s2 = s1\<lparr>decodingTime := avg_add ((now_us - pts) * 1000) (decodingTime s1),
                  nDecodedFrames := relative_add 1 (nDecodedFrames s1)\<rparr>
            in if eos then s2\<lparr>mCheckOutputThread := Thread_Exited\<rparr> else s2
        | Output_Format width height \<Rightarrow>
            if width \<noteq> 0 \<and> height \<noteq> 0 then s\<lparr>ratio_calls := ratio_calls s @ [(width, height)]\<rparr> else s
        | Output_Unknown \<Rightarrow> s\<lparr>mCheckOutputThread := Thread_Exited\<rparr>
        | _ \<Rightarrow> s))"

section \<open>Release\<close>

text \<open>The release runs beside the output thread: it stops and deletes the codec before it waits for the thread to leave its loop.
  The stop ends the call the thread is in. \<open>late\<close> are the calls for output the thread begins in spite of it, after the codec
  is gone.\<close>

type_synonym late_calls = "(int \<times> output_buffer) list"

definition stop_and_delete :: "low_lag_decoder \<Rightarrow> low_lag_decoder" where
  "stop_and_delete s =
     (let s1 = (if ll_codec s then (record_call Delete_Codec (record_call Stop_Codec s))\<lparr>ll_codec := False\<rparr> else s) in
      s1\<lparr>mKeyFrameFinder := codec_config_reset (mKeyFrameFinder s1), ll_configured := False\<rparr>)"

definition join_output :: "low_lag_decoder \<Rightarrow> low_lag_decoder" where
  "join_output s = s\<lparr>mCheckOutputThread := No_Thread\<rparr>"

definition releaseDecoderResourcesLocked :: "late_calls \<Rightarrow> bool \<Rightarrow> low_lag_decoder \<Rightarrow> low_lag_decoder result" where
  "releaseDecoderResourcesLocked late releaseWindow s =
     (let s1 = s\<lparr>inputPipeClosed := True\<rparr> in
      rbind (if ll_configured s1
             then rbind (rfold (\<lambda>(now_us, out). check_output now_us out) late (stop_and_delete s1)) (\<lambda>t. Inr (join_output t))
             else Inr s1) (\<lambda>s2.
      let s3 = (if releaseWindow \<and> ll_window s2 \<noteq> None then s2\<lparr>ll_window := None\<rparr> else s2);
          s4 = resetStatistics s3
      in Inr (if \<not> releaseWindow \<and> ll_window s4 \<noteq> None then s4\<lparr>inputPipeClosed := False\<rparr> else s4)))"

definition setOutputSurface :: "late_calls \<Rightarrow> nat option \<Rightarrow> low_lag_decoder \<Rightarrow> low_lag_decoder result" where
  "setOutputSurface late surface s =
     (case surface of
        None \<Rightarrow> (if ll_window s = None then Inr s else releaseDecoderResourcesLocked late True s)
      | Some w \<Rightarrow>
          rbind (if ll_window s \<noteq> None then releaseDecoderResourcesLocked late True s else Inr s) (\<lambda>s1.
          Inr (s1\<lparr>ll_window := Some w, inputPipeClosed := False\<rparr>)))"

section \<open>Feeding\<close>

text \<open>What one call for an input buffer returns, and the clock after it.\<close>

datatype input_buffer =
    Input_Buffer nat int
  | Input_Try_Again int
  | Input_Error

fun feed_loop :: "int \<Rightarrow> nalu \<Rightarrow> input_buffer list \<Rightarrow> low_lag_decoder \<Rightarrow> low_lag_decoder result" where
  "feed_loop now n [] s = Inl Not_Returning"
| "feed_loop now n (Input_Buffer inputBufferSize later # bs) s =
     (if getSize n > inputBufferSize then Inr s
      else Inr ((record_call (Queue_Input n) s)\<lparr>waitForInputB := avg_add (later - now) (waitForInputB s),
        parsingTime := avg_add (now - creationTime n) (parsingTime s)\<rparr>))"
| "feed_loop now n (Input_Try_Again later # bs) s =
     (if later - now > 1000000000 then Inr s else feed_loop now n bs s)"
| "feed_loop now n (Input_Error # bs) s = Inr s"

definition feedDecoder :: "int \<Rightarrow> input_buffer list \<Rightarrow> nalu \<Rightarrow> low_lag_decoder \<Rightarrow> low_lag_decoder result" where
  "feedDecoder now buffers n s =
     rbind (if IS_H265 s
            then (if isSPS n \<or> isPPS n then Inr True else isVPS n) else Inr False) (\<lambda>skip.
     if skip then Inr s else feed_loop now n buffers s)"

record nalu_world =
  nalu_now :: int
  input_buffers :: "input_buffer list"
  codec_created :: bool

definition interpretNALU ::
  "late_calls \<Rightarrow> (bytes \<Rightarrow> (int \<times> int) option) \<Rightarrow> nalu_world \<Rightarrow> nalu \<Rightarrow> low_lag_decoder \<Rightarrow> low_lag_decoder result" where
  "interpretNALU late parse_sps w n s =
     rbind (if ll_configured s \<and> IS_H265_PACKET n \<noteq> IS_H265 s then releaseDecoderResourcesLocked late False s else Inr s) (\<lambda>s1.
     let s2 = s1\<lparr>IS_H265 := IS_H265_PACKET n, nNALU := nNALU s1 + 1\<rparr>
     in if getSize n \<le> 4 then Inr s2
        else
          let s3 = s2\<lparr>nNALUBytesFed := relative_add (int (getSize n)) (nNALUBytesFed s2)\<rparr> in
          if inputPipeClosed s3 then
            rbind (save_if_config n (mKeyFrameFinder s3)) (\<lambda>(c, _). Inr (s3\<lparr>mKeyFrameFinder := c\<rparr>))
          else if ll_configured s3 then
            rbind (feedDecoder (nalu_now w) (input_buffers w) n s3) (\<lambda>s4.
            Inr (s4\<lparr>nNALUSFeeded := nNALUSFeeded s4 + 1\<rparr>))
          else
            rbind (save_if_config n (mKeyFrameFinder s3)) (\<lambda>(c, _).
            let s4 = s3\<lparr>mKeyFrameFinder := c\<rparr> in
            if all_config_available (IS_H265 s4) (mKeyFrameFinder s4)
            then configureStartDecoder parse_sps (codec_created w) s4 else Inr s4))"

section \<open>Runs\<close>

datatype low_lag_event =
    Surface "nat option"
  | Interpret nalu_world nalu
  | Output int output_buffer

fun low_lag_step ::
  "(bytes \<Rightarrow> (int \<times> int) option) \<Rightarrow> late_calls \<Rightarrow> low_lag_event \<Rightarrow> low_lag_decoder \<Rightarrow> low_lag_decoder result" where
  "low_lag_step parse_sps late (Surface b) s = setOutputSurface late b s"
| "low_lag_step parse_sps late (Interpret w n) s = interpretNALU late parse_sps w n s"
| "low_lag_step parse_sps late (Output t out) s = check_output t out s"

text \<open>A run in which the output thread always leaves its loop in time.\<close>

definition low_lag_run ::
  "(bytes \<Rightarrow> (int \<times> int) option) \<Rightarrow> low_lag_event list \<Rightarrow> low_lag_decoder \<Rightarrow> low_lag_decoder result" where
  "low_lag_run parse_sps = rfold (low_lag_step parse_sps [])"

section \<open>The race\<close>

text \<open>With late calls an operation does what it does without them, or it ends with a call on a deleted codec.\<close>

definition same_or_race :: "late_calls \<Rightarrow> 'a result \<Rightarrow> 'a result \<Rightarrow> bool" where
  "same_or_race late r quiet \<longleftrightarrow> r = quiet \<or> (r = Inl Use_After_Free \<and> late \<noteq> [])"

lemma same_or_race_refl [simp]: "same_or_race late r r"
  by (simp add: same_or_race_def)

lemma same_or_race_bind:
  "same_or_race late r q \<Longrightarrow> (\<And>x. same_or_race late (f x) (g x)) \<Longrightarrow> same_or_race late (rbind r f) (rbind q g)"
  by (cases q) (metis same_or_race_def rbind.simps)+

lemma late_output:
  "\<not> ll_codec s \<Longrightarrow> same_or_race late (rfold (\<lambda>(t, out). check_output t out) late s) (Inr s)"
proof (induction late)
  case (Cons c late)
  obtain t out where c: "c = (t, out)" by fastforce
  show ?case
  proof (cases "mCheckOutputThread s = Thread_Running")
    case True
    with Cons.prems show ?thesis by (simp add: c check_output_def same_or_race_def)
  next
    case False
    with Cons show ?thesis by (auto simp: c check_output_def same_or_race_def)
  qed
qed simp

lemma release_late:
  "same_or_race late (releaseDecoderResourcesLocked late b s) (releaseDecoderResourcesLocked [] b s)"
proof -
  have "same_or_race late (rfold (\<lambda>(t, out). check_output t out) late (stop_and_delete (s\<lparr>inputPipeClosed := True\<rparr>)))
      (Inr (stop_and_delete (s\<lparr>inputPipeClosed := True\<rparr>)))"
    by (rule late_output) (simp add: stop_and_delete_def Let_def)
  then have "same_or_race late (rbind (rfold (\<lambda>(t, out). check_output t out) late (stop_and_delete (s\<lparr>inputPipeClosed := True\<rparr>)))
        (\<lambda>t. Inr (join_output t)))
      (rbind (Inr (stop_and_delete (s\<lparr>inputPipeClosed := True\<rparr>))) (\<lambda>t. Inr (join_output t)))"
    by (rule same_or_race_bind) simp
  then show ?thesis
    unfolding releaseDecoderResourcesLocked_def Let_def
    by (intro same_or_race_bind) simp_all
qed

lemma surface_late: "same_or_race late (setOutputSurface late w s) (setOutputSurface [] w s)"
  by (cases w) (auto simp: setOutputSurface_def intro: release_late same_or_race_bind)

lemma interpret_late: "same_or_race late (interpretNALU late ps w n s) (interpretNALU [] ps w n s)"
  unfolding interpretNALU_def by (intro same_or_race_bind) (simp_all add: release_late)

text \<open>The race exists: a codec that is deleted while its output thread begins another call.\<close>

lemma release_races:
  assumes "ll_configured s" "mCheckOutputThread s = Thread_Running"
  shows "releaseDecoderResourcesLocked [(now_us, out)] b s = Inl Use_After_Free"
  using assms by (simp add: releaseDecoderResourcesLocked_def check_output_def stop_and_delete_def Let_def)

text \<open>Without late calls a release always returns.\<close>

lemma release_returns: "\<exists>s'. releaseDecoderResourcesLocked [] b s = Inr s'"
  by (simp add: releaseDecoderResourcesLocked_def Let_def)

lemma release_if_returns: "\<exists>s'. (if c then releaseDecoderResourcesLocked [] b s else Inr s) = Inr s'"
  using release_returns [of b s] by simp

lemma surface_returns: "\<exists>s'. setOutputSurface [] w s = Inr s'"
  using release_returns [of True s] by (cases w) (auto simp: setOutputSurface_def)

section \<open>The life of a codec\<close>

text \<open>What Android demands of the calls on a codec: created, configured, started, fed with NALUs of its format, stopped and deleted, and
  one codec at a time.\<close>

datatype codec_life = No_Codec | Created bool | Configured bool | Live bool | Stopped bool

fun life_step :: "codec_life \<Rightarrow> codec_call \<Rightarrow> codec_life option" where
  "life_step No_Codec (Create_Codec h) = Some (Created h)"
| "life_step (Created h) (Configure_Codec f) = Some (Configured h)"
| "life_step (Configured h) Start_Codec = Some (Live h)"
| "life_step (Live h) (Queue_Input n) =
     (if IS_H265_PACKET n = h \<and> \<not> (h \<and> (isSPS n \<or> isPPS n)) then Some (Live h) else None)"
| "life_step (Live h) (Release_Output b) = Some (Live h)"
| "life_step (Live h) Stop_Codec = Some (Stopped h)"
| "life_step (Stopped h) Delete_Codec = Some No_Codec"
| "life_step _ _ = None"

fun codec_life_of :: "codec_life \<Rightarrow> codec_call list \<Rightarrow> codec_life option" where
  "codec_life_of l [] = Some l"
| "codec_life_of l (c # cs) = (case life_step l c of None \<Rightarrow> None | Some l' \<Rightarrow> codec_life_of l' cs)"

lemma codec_life_append:
  "codec_life_of l (cs @ ds) = (case codec_life_of l cs of None \<Rightarrow> None | Some l' \<Rightarrow> codec_life_of l' ds)"
  by (induction cs arbitrary: l) (auto split: option.splits)

definition low_lag_inv :: "low_lag_decoder \<Rightarrow> bool" where
  "low_lag_inv s \<longleftrightarrow>
     codec_life_of No_Codec (codec_calls s) = Some (if ll_configured s then Live (IS_H265 s) else No_Codec)
     \<and> ll_codec s = ll_configured s
     \<and> (mCheckOutputThread s = No_Thread) = (\<not> ll_configured s)
     \<and> inputPipeClosed s = (ll_window s = None)
     \<and> (ll_configured s \<longrightarrow> ll_window s \<noteq> None \<and> all_config_available (IS_H265 s) (mKeyFrameFinder s))"


lemma low_lag_new_sel [simp]:
  "ll_configured low_lag_new = False" "ll_codec low_lag_new = False" "ll_window low_lag_new = None"
  "mCheckOutputThread low_lag_new = No_Thread" "inputPipeClosed low_lag_new = True" "codec_calls low_lag_new = []"
  "mKeyFrameFinder low_lag_new = codec_config_new"
  by (simp_all add: low_lag_new_def resetStatistics_def)

lemma statistics_sel [simp]:
  "ll_configured (resetStatistics s) = ll_configured s" "ll_codec (resetStatistics s) = ll_codec s"
  "ll_window (resetStatistics s) = ll_window s" "mCheckOutputThread (resetStatistics s) = mCheckOutputThread s"
  "inputPipeClosed (resetStatistics s) = inputPipeClosed s" "codec_calls (resetStatistics s) = codec_calls s"
  "mKeyFrameFinder (resetStatistics s) = mKeyFrameFinder s" "IS_H265 (resetStatistics s) = IS_H265 s"
  by (simp_all add: resetStatistics_def)

lemma low_lag_inv_new: "low_lag_inv low_lag_new"
  by (simp add: low_lag_inv_def)

text \<open>After a release nothing is configured, and the window is kept if it was to be kept.\<close>

lemma release_inv:
  assumes "low_lag_inv s" "releaseDecoderResourcesLocked [] b s = Inr s'"
  shows "low_lag_inv s' \<and> \<not> ll_configured s' \<and> ll_window s' = (if b then None else ll_window s)"
  using assms
  by (auto simp: releaseDecoderResourcesLocked_def low_lag_inv_def stop_and_delete_def join_output_def Let_def
      codec_life_append split: if_splits)

lemma surface_inv: "low_lag_inv s \<Longrightarrow> setOutputSurface [] w s = Inr s' \<Longrightarrow> low_lag_inv s' \<and> ll_window s' = w"
proof (cases w)
  case (Some v)
  assume s: "low_lag_inv s" "setOutputSurface [] w s = Inr s'"
  obtain s1 where s1: "(if ll_window s \<noteq> None then releaseDecoderResourcesLocked [] True s else Inr s) = Inr s1"
    using release_if_returns by blast
  then have "low_lag_inv s1" "\<not> ll_configured s1" using s(1) release_inv [OF s(1), of True s1]
    by (auto simp: low_lag_inv_def split: if_splits)
  moreover have "s' = s1\<lparr>ll_window := Some v, inputPipeClosed := False\<rparr>" using s(2) s1 by (simp add: setOutputSurface_def Some)
  ultimately show ?thesis by (simp add: low_lag_inv_def Some)
next
  case None
  assume "low_lag_inv s" "setOutputSurface [] w s = Inr s'"
  with release_inv [of s True s'] show ?thesis by (auto simp: setOutputSurface_def None split: if_splits)
qed

lemma feed_loop_inv:
  assumes "low_lag_inv s" "ll_configured s" "IS_H265_PACKET n = IS_H265 s" "\<not> (IS_H265 s \<and> (isSPS n \<or> isPPS n))"
    "feed_loop now n bs s = Inr s'"
  shows "low_lag_inv s'"
  using assms
  by (induction now n bs s rule: feed_loop.induct)
    (auto simp: low_lag_inv_def codec_life_append split: if_splits)

lemma configure_inv:
  assumes "low_lag_inv s" "\<not> ll_configured s" "ll_window s \<noteq> None" "all_config_available (IS_H265 s) (mKeyFrameFinder s)"
    "configureStartDecoder ps created s = Inr s'"
  shows "low_lag_inv s'"
  using assms
  by (auto simp: configureStartDecoder_def low_lag_inv_def codec_life_append Let_def result_simps split: if_splits)

lemma interpret_inv:
  assumes "low_lag_inv s" "interpretNALU [] ps w n s = Inr s'"
  shows "low_lag_inv s'"
proof -
  obtain s1 where s1: "(if ll_configured s \<and> IS_H265_PACKET n \<noteq> IS_H265 s then releaseDecoderResourcesLocked [] False s else Inr s)
      = Inr s1"
    using release_if_returns by blast
  then have 1: "low_lag_inv s1" "ll_configured s1 \<Longrightarrow> IS_H265_PACKET n = IS_H265 s1"
    using assms(1) release_inv [OF assms(1), of False s1] by (auto split: if_splits)
  define s2 where "s2 = s1\<lparr>IS_H265 := IS_H265_PACKET n, nNALU := nNALU s1 + 1\<rparr>"
  have 2: "low_lag_inv s2" "IS_H265 s2 = IS_H265_PACKET n"
    using 1 by (auto simp: s2_def low_lag_inv_def)
  define s3 where "s3 = s2\<lparr>nNALUBytesFed := relative_add (int (getSize n)) (nNALUBytesFed s2)\<rparr>"
  have 3: "low_lag_inv s3" "IS_H265 s3 = IS_H265_PACKET n"
    using 2 by (auto simp: s3_def low_lag_inv_def)
  consider "getSize n \<le> 4" "s' = s2"
    | c where "inputPipeClosed s3" "s' = s3\<lparr>mKeyFrameFinder := c\<rparr>"
    | s4 where "ll_configured s3" "feedDecoder (nalu_now w) (input_buffers w) n s3 = Inr s4" "s' = s4\<lparr>nNALUSFeeded := nNALUSFeeded s4 + 1\<rparr>"
    | c where "\<not> inputPipeClosed s3" "\<not> ll_configured s3" "all_config_available (IS_H265 s3) c"
        "configureStartDecoder ps (codec_created w) (s3\<lparr>mKeyFrameFinder := c\<rparr>) = Inr s'"
    | c where "\<not> ll_configured s3" "s' = s3\<lparr>mKeyFrameFinder := c\<rparr>"
    using assms(2)
    unfolding interpretNALU_def s1 rbind.simps Let_def s2_def [symmetric] s3_def [symmetric]
    by (auto simp: result_simps split: if_splits)
  then show ?thesis
  proof cases
    case 1
    with 2 show ?thesis by simp
  next
    case (2 c)
    with 3 show ?thesis by (auto simp: low_lag_inv_def)
  next
    case (3 s4)
    have "low_lag_inv s4"
      using 3(1,2) \<open>low_lag_inv s3\<close> \<open>IS_H265 s3 = _\<close>
      by (auto simp: feedDecoder_def result_simps split: if_splits intro: feed_loop_inv)
    with 3(3) show ?thesis by (simp add: low_lag_inv_def)
  next
    case (4 c)
    have "low_lag_inv (s3\<lparr>mKeyFrameFinder := c\<rparr>)" "ll_window s3 \<noteq> None"
      using 4(1,2) 3(1) by (auto simp: low_lag_inv_def)
    with 4(2-4) show ?thesis
      using configure_inv [of "s3\<lparr>mKeyFrameFinder := c\<rparr>" ps "codec_created w" s'] by simp
  next
    case (5 c)
    with 3 show ?thesis by (auto simp: low_lag_inv_def)
  qed
qed

lemma output_inv: "low_lag_inv s \<Longrightarrow> \<exists>s'. check_output t out s = Inr s' \<and> low_lag_inv s'"
  by (cases out) (auto simp: check_output_def low_lag_inv_def codec_life_append Let_def)

lemma low_lag_step_inv: "low_lag_inv s \<Longrightarrow> low_lag_step ps [] e s = Inr s' \<Longrightarrow> low_lag_inv s'"
proof (cases e)
  case (Output t out)
  assume "low_lag_inv s" "low_lag_step ps [] e s = Inr s'"
  with output_inv [of s t out] show ?thesis by (auto simp: Output)
qed (auto dest: surface_inv intro: interpret_inv)

text \<open>In every run in which the output thread leaves its loop in time whenever a codec is stopped, Android's rules
  for a codec are kept: it is created, configured, started, fed, stopped and deleted in this order, one at a time, with NALUs of its
  format only and no parameter sets of H.265; it runs exactly while the decoder counts as configured, which needs a
  surface; and the output thread never calls a codec that is gone.\<close>

theorem codec_life_respected:
  assumes "low_lag_run parse_sps es low_lag_new = Inr s"
  shows "codec_life_of No_Codec (codec_calls s) = Some (if ll_configured s then Live (IS_H265 s) else No_Codec)
    \<and> (ll_configured s \<longrightarrow> ll_window s \<noteq> None)
    \<and> (\<exists>s'. check_output now_us out s = Inr s')"
proof -
  have "low_lag_inv s"
    using assms unfolding low_lag_run_def
    by (rule rfold_invariant [where P = low_lag_inv]) (auto intro: low_lag_inv_new low_lag_step_inv)
  then show ?thesis
    using output_inv [of s now_us out] by (auto simp: low_lag_inv_def)
qed

text \<open>The parameter sets of H.265 are each put before the others, so that they end up in the order PPS, SPS, VPS.\<close>

lemma h265_format_reversed:
  assumes "h265_configureAMediaFormat \<lparr>SPS = Some s, PPS = Some p, VPS = Some v\<rparr> = Inr f"
  shows "csd_0 f = nalu_data p @ nalu_data s @ nalu_data v"
  using assms by (auto simp: h265_configureAMediaFormat_def getCSD0_def getCSD1_def getVPS_def appendNaluData_def)

section \<open>A change of the codec\<close>

lemma closed_saves:
  assumes "nalu_ok n" "\<not> ll_configured s" "inputPipeClosed s" "4 < getSize n"
  shows "\<exists>s'. interpretNALU [] ps w n s = Inr s' \<and> mKeyFrameFinder s' = config_save n (mKeyFrameFinder s)
    \<and> \<not> ll_configured s' \<and> inputPipeClosed s' \<and> ll_window s' = ll_window s"
  using assms by (simp add: interpretNALU_def save_if_config_ok Let_def)

text \<open>When H.265 was received before there was a surface, and the air unit then changes to H.264, the first NALU of the new
  format other than an SPS aborts the program: the parameter sets of H.265 are taken for those of H.264, and asking them for the size
  of the picture fails an assertion.\<close>

theorem codec_switch_aborts:
  assumes "nalu_ok sps" "IS_H265_PACKET sps" "isSPS sps" and "nalu_ok pps" "IS_H265_PACKET pps" "isPPS pps"
    and "nalu_ok n" "\<not> IS_H265_PACKET n" "\<not> isSPS n" and "codec_created w"
  shows "low_lag_run parse_sps [Interpret w1 sps, Interpret w2 pps, Surface (Some 5), Interpret w n] low_lag_new = Inl Assert_Failed"
proof -
  have size: "4 < getSize m" if "nalu_ok m" for m
    using that by (auto simp: nalu_ok_def NALU_Inr nalu_bytes_ok_def getSize_def getMinimumNaluSize_def split: if_splits)
  obtain s1 where s1: "interpretNALU [] parse_sps w1 sps low_lag_new = Inr s1"
    "mKeyFrameFinder s1 = \<lparr>SPS = Some sps, PPS = None, VPS = None\<rparr>" "\<not> ll_configured s1" "inputPipeClosed s1" "ll_window s1 = None"
    using closed_saves [OF assms(1) _ _ size [OF assms(1)], of low_lag_new parse_sps w1] assms(3)
    by (auto simp: config_save_def codec_config_new_def)
  have "\<not> isSPS pps" using classes_disjoint(1) assms(6) by blast
  then have save: "config_save pps (mKeyFrameFinder s1) = \<lparr>SPS = Some sps, PPS = Some pps, VPS = None\<rparr>"
    using assms(6) s1(2) by (simp add: config_save_def)
  obtain s2 where s2: "interpretNALU [] parse_sps w2 pps s1 = Inr s2"
    "mKeyFrameFinder s2 = \<lparr>SPS = Some sps, PPS = Some pps, VPS = None\<rparr>" "\<not> ll_configured s2" "ll_window s2 = None"
    using closed_saves [OF assms(4) s1(3,4) size [OF assms(4)], of parse_sps w2] s1 save by auto
  let ?s = "s2\<lparr>ll_window := Some 5, inputPipeClosed := False\<rparr>" and ?c = "config_save n (mKeyFrameFinder s2)"
  have surface: "setOutputSurface [] (Some 5) s2 = Inr ?s" using s2(4) by (simp add: setOutputSurface_def)
  have c: "SPS ?c = Some sps" "all_config_available False ?c"
    using assms(8,9) s2(2) by (auto simp: config_save_def all_config_available_def isVPS_class_def)
  have "h264_configureAMediaFormat parse_sps ?c = Inl Assert_Failed"
    using c assms(2,3)
    by (auto simp: h264_configureAMediaFormat_def getCSD0_def getCSD1_def all_config_available_def sps_get_width_height_def)
  then have "interpretNALU [] parse_sps w n ?s = Inl Assert_Failed"
    using s2(3) size [OF assms(7)] assms(7,8,10) c(2)
    by (simp add: interpretNALU_def Let_def save_if_config_ok configureStartDecoder_def)
  then show ?thesis
    by (simp add: low_lag_run_def s1(1) s2(1) surface)
qed

definition demo_nalu_265 :: "u8 \<Rightarrow> nalu" where
  "demo_nalu_265 header = nalu_of [0, 0, 0, 1, header, 1, 7] True 0"

theorem codec_switch_aborts_witness:
  "low_lag_run (\<lambda>_. None) [Interpret \<lparr>nalu_now = 0, input_buffers = [], codec_created = True\<rparr> (demo_nalu_265 0x42),
      Interpret \<lparr>nalu_now = 0, input_buffers = [], codec_created = True\<rparr> (demo_nalu_265 0x44), Surface (Some 5),
      Interpret \<lparr>nalu_now = 0, input_buffers = [], codec_created = True\<rparr> (demo_nalu 0x41 1)] low_lag_new = Inl Assert_Failed"
proof (rule codec_switch_aborts)
  show "nalu_ok (demo_nalu_265 0x42)" "nalu_ok (demo_nalu_265 0x44)" "nalu_ok (demo_nalu 0x41 1)"
    by (simp_all add: demo_nalu_ok demo_nalu_265_def nalu_bytes_ok_def getMinimumNaluSize_def eval_nat_numeral)
  show "IS_H265_PACKET (demo_nalu_265 0x42)" "IS_H265_PACKET (demo_nalu_265 0x44)" "\<not> IS_H265_PACKET (demo_nalu 0x41 1)"
    by (simp_all add: demo_nalu_265_def demo_nalu_def)
  show "isSPS (demo_nalu_265 0x42)" by code_simp
  show "isPPS (demo_nalu_265 0x44)" by code_simp
  show "\<not> isSPS (demo_nalu 0x41 1)" by code_simp
qed simp

theorem codec_life_respected_witness:
  "\<exists>s. low_lag_run (\<lambda>_. None) [Surface (Some 5), Interpret \<lparr>nalu_now = 0, input_buffers = [], codec_created = True\<rparr> (demo_nalu 0x67 1),
      Interpret \<lparr>nalu_now = 0, input_buffers = [], codec_created = True\<rparr> (demo_nalu 0x68 2),
      Interpret \<lparr>nalu_now = 0, input_buffers = [Input_Buffer 100 0], codec_created = True\<rparr> (demo_nalu 0x41 3)] low_lag_new = Inr s
    \<and> length (codec_calls s) = 4 \<and> codec_life_of No_Codec (codec_calls s) = Some (Live False)"
proof -
  let ?es = "[Surface (Some 5), Interpret \<lparr>nalu_now = 0, input_buffers = [], codec_created = True\<rparr> (demo_nalu 0x67 1),
      Interpret \<lparr>nalu_now = 0, input_buffers = [], codec_created = True\<rparr> (demo_nalu 0x68 2),
      Interpret \<lparr>nalu_now = 0, input_buffers = [Input_Buffer 100 0], codec_created = True\<rparr> (demo_nalu 0x41 3)]"
  have "case low_lag_run (\<lambda>_. None) ?es low_lag_new of Inl f \<Rightarrow> False
    | Inr s \<Rightarrow> length (codec_calls s) = 4 \<and> ll_configured s \<and> \<not> IS_H265 s"
    by code_simp
  then obtain s where s: "low_lag_run (\<lambda>_. None) ?es low_lag_new = Inr s" "length (codec_calls s) = 4" "ll_configured s" "\<not> IS_H265 s"
    by (auto split: sum.splits)
  with codec_life_respected [OF s(1)] show ?thesis by auto
qed

end
