(* ===== verification/Android_Players.thy ===== *)
theory Android_Players
  imports Low_Lag_Decoder Video_Settings
begin

text \<open>
  The players of Android (\<open>app/videostreaming/android/qandroidsecondarymediaplayer.cpp\<close>, \<open>qandroidmediaplayer.cpp\<close>) with the
  receiver they use (\<open>app/videostreaming/gstreamer/gstrtpreceiver.cpp\<close>). GStreamer is an input: whether it could be
  initialised, what launching a pipeline gives, the samples it delivers. Numbers stand for the outputs of the user interface and for the
  textures of Android. An operation of the user interface, a task given to the thread of Android and a callback are one step each;
  only the release of a codec is taken apart, which waits for the output thread: a step takes the late calls of that thread.
\<close>

section \<open>The receiver\<close>

datatype pipeline_codec = H264 | H265 | MJPEG

definition conv_codec :: "video_codec \<Rightarrow> pipeline_codec" where
  "conv_codec c = (if c = VideoCodecH264 then H264 else if c = VideoCodecH265 then H265 else MJPEG)"

definition gst_create_rtp_caps :: "pipeline_codec \<Rightarrow> string" where
  "gst_create_rtp_caps c =
     (if c = H264 then ''caps='' @ [CHR 0x22] @ ''application/x-rtp, media=(string)video, encoding-name=(string)H264, payload=(int)96'' @ [CHR 0x22]
      else if c = H265 then ''caps='' @ [CHR 0x22] @ ''application/x-rtp, media=(string)video, encoding-name=(string)H265'' @ [CHR 0x22]
      else ''caps='' @ [CHR 0x22] @ ''application/x-rtp, media=(string)video, encoding-name=(string)mjpeg'' @ [CHR 0x22])"

definition create_rtp_depacketize_for_codec :: "pipeline_codec \<Rightarrow> string" where
  "create_rtp_depacketize_for_codec c =
     (case c of H264 \<Rightarrow> ''rtph264depay ! '' | H265 \<Rightarrow> ''rtph265depay ! '' | MJPEG \<Rightarrow> ''rtpjpegdepay ! '')"

definition create_parse_for_codec :: "pipeline_codec \<Rightarrow> string" where
  "create_parse_for_codec c =
     (case c of H264 \<Rightarrow> ''h264parse config-interval=-1 ! '' | H265 \<Rightarrow> ''h265parse config-interval=-1  ! '' | MJPEG \<Rightarrow> ''jpegparse ! '')"

definition create_out_caps :: "pipeline_codec \<Rightarrow> string" where
  "create_out_caps c =
     (if c = H264 then ''video/x-h264'' @ '', stream-format='' @ [CHR 0x22] @ ''byte-stream'' @ [CHR 0x22] @ '' ! ''
      else if c = H265 then ''video/x-h265'' @ '', stream-format='' @ [CHR 0x22] @ ''byte-stream'' @ [CHR 0x22] @ '' ! ''
      else ''todo'')"

record gst_rtp_receiver =
  receiver_port :: int
  receiver_codec :: video_codec
  receiver_initialized :: bool
  gst_pipeline :: bool
  pulling_samples :: bool

definition gst_rtp_receiver_new :: "bool \<Rightarrow> int \<Rightarrow> video_codec \<Rightarrow> gst_rtp_receiver" where
  "gst_rtp_receiver_new gst_ok port codec = \<lparr>receiver_port = port, receiver_codec = codec, receiver_initialized = gst_ok,
     gst_pipeline = False, pulling_samples = False\<rparr>"

definition construct_gstreamer_pipeline :: "gst_rtp_receiver \<Rightarrow> string" where
  "construct_gstreamer_pipeline r =
     (let codec = conv_codec (receiver_codec r) in
      ''udpsrc port='' @ int_to_string (receiver_port r) @ '' '' @ gst_create_rtp_caps codec @ '' ! ''
      @ create_rtp_depacketize_for_codec codec @ create_parse_for_codec codec @ create_out_caps codec
      @ '' appsink drop=true name=out_appsink'')"

text \<open>What launching the pipeline gives: an error, maybe with a pipeline nevertheless; none; one without the sink; or all.\<close>

datatype launch =
    Parse_Error bool
  | No_Pipeline
  | No_Sink
  | Launched

definition stop_receiving :: "gst_rtp_receiver \<Rightarrow> gst_rtp_receiver" where
  "stop_receiving r = r\<lparr>pulling_samples := False, gst_pipeline := False\<rparr>"

definition start_receiving :: "(string \<Rightarrow> launch) \<Rightarrow> gst_rtp_receiver \<Rightarrow> gst_rtp_receiver" where
  "start_receiving launch r =
     (if \<not> receiver_initialized r then r
      else
        let r1 = (if gst_pipeline r then stop_receiving r else r) in
        case launch (construct_gstreamer_pipeline r1) of
          Parse_Error pipe \<Rightarrow> r1\<lparr>gst_pipeline := pipe\<rparr>
        | No_Pipeline \<Rightarrow> r1\<lparr>gst_pipeline := False\<rparr>
        | No_Sink \<Rightarrow> stop_receiving (r1\<lparr>gst_pipeline := True\<rparr>)
        | Launched \<Rightarrow> r1\<lparr>gst_pipeline := True, pulling_samples := True\<rparr>)"

section \<open>The secondary player\<close>

text \<open>\<open>old_decoders\<close> records the decoders when they are destroyed.\<close>

record android_player =
  video_out :: "nat option"
  pendingPlayback :: bool
  playbackRunning :: bool
  activeConfig :: "stream_settings option"
  player_decoder :: "low_lag_decoder option"
  player_receiver :: "gst_rtp_receiver option"
  android_tasks :: "nat list"
  old_decoders :: "low_lag_decoder list"

definition android_player_new :: android_player where
  "android_player_new = \<lparr>video_out = None, pendingPlayback = False, playbackRunning = False, activeConfig = None,
     player_decoder = None, player_receiver = None, android_tasks = [], old_decoders = []\<rparr>"

text \<open>What the player finds when it tries to start: the settings, the texture of its output if it is valid, and GStreamer.\<close>

record player_env =
  env_reader :: settings_reader
  env_settings :: settings
  env_texture :: "nat option"
  env_gst :: bool

definition resolveStreamConfig :: "settings_reader \<Rightarrow> settings \<Rightarrow> stream_settings option" where
  "resolveStreamConfig k store =
     (let s = read_config_from_settings k store;
          mode = dev_secondary_video_input_mode (generic s);
          config = (if mode = 1 then Some (primary_stream_config s)
                    else if mode = 2 then None
                    else if qopenhd_switch_primary_secondary (generic s) then Some (primary_stream_config s)
                    else Some (secondary_stream_config s))
      in case config of
           None \<Rightarrow> None
         | Some c \<Rightarrow> if stream_codec c = VideoCodecMJPEG then None else Some c)"

definition stopPlayback :: "late_calls \<Rightarrow> android_player \<Rightarrow> android_player result" where
  "stopPlayback late p =
     (let p1 = p\<lparr>player_receiver := None\<rparr> in
      rbind (case player_decoder p1 of None \<Rightarrow> Inr p1
             | Some d \<Rightarrow> rbind (setOutputSurface late None d) (\<lambda>d'.
                 Inr (p1\<lparr>old_decoders := old_decoders p1 @ [d'], player_decoder := None\<rparr>))) (\<lambda>p2.
      Inr (p2\<lparr>activeConfig := None, pendingPlayback := False, playbackRunning := False\<rparr>)))"

definition startPlaybackOnAndroidThread :: "nat \<Rightarrow> android_player \<Rightarrow> android_player" where
  "startPlaybackOnAndroidThread texture p =
     (if activeConfig p = None \<or> player_decoder p = None \<or> player_receiver p = None then p
      else p\<lparr>android_tasks := android_tasks p @ [texture]\<rparr>)"

definition use_config :: "late_calls \<Rightarrow> stream_settings \<Rightarrow> android_player \<Rightarrow> android_player result" where
  "use_config late c p =
     (if (case activeConfig p of None \<Rightarrow> True | Some a \<Rightarrow> \<not> stream_settings_equal a c)
      then rbind (stopPlayback late p) (\<lambda>p1. Inr (p1\<lparr>activeConfig := Some c\<rparr>)) else Inr p)"

definition create_decoder :: "android_player \<Rightarrow> android_player" where
  "create_decoder p = (if player_decoder p = None then p\<lparr>player_decoder := Some low_lag_new\<rparr> else p)"

definition create_receiver :: "bool \<Rightarrow> android_player \<Rightarrow> android_player" where
  "create_receiver gst_ok p =
     (case (player_receiver p, activeConfig p) of
        (None, Some c) \<Rightarrow> p\<lparr>player_receiver := Some (gst_rtp_receiver_new gst_ok (udp_rtp_input_port c) (stream_codec c))\<rparr>
      | _ \<Rightarrow> p)"

definition tryStartPlayback :: "late_calls \<Rightarrow> player_env \<Rightarrow> android_player \<Rightarrow> android_player result" where
  "tryStartPlayback late e p =
     (if \<not> pendingPlayback p then Inr p
      else if video_out p = None then Inr p
      else if playbackRunning p then Inr (p\<lparr>pendingPlayback := False\<rparr>)
      else case resolveStreamConfig (env_reader e) (env_settings e) of
        None \<Rightarrow> Inr p
      | Some c \<Rightarrow>
          (case env_texture e of
             None \<Rightarrow> Inr p
           | Some texture \<Rightarrow>
               rbind (use_config late c p) (\<lambda>p0.
               let p1 = create_receiver (env_gst e) (create_decoder p0) in
               Inr (if player_receiver p1 = None \<or> player_decoder p1 = None then p1
                    else startPlaybackOnAndroidThread texture p1))))"

definition setVideoOut :: "late_calls \<Rightarrow> player_env \<Rightarrow> nat option \<Rightarrow> android_player \<Rightarrow> android_player result" where
  "setVideoOut late e out p =
     (if video_out p = out then Inr p
      else
        rbind (if video_out p \<noteq> None then stopPlayback late p else Inr p) (\<lambda>p1.
        let p2 = p1\<lparr>video_out := out\<rparr>
        in if out = None then stopPlayback late p2 else tryStartPlayback late e (p2\<lparr>pendingPlayback := True\<rparr>)))"

definition surface_texture_changed :: "late_calls \<Rightarrow> player_env \<Rightarrow> android_player \<Rightarrow> android_player result" where
  "surface_texture_changed late e p =
     (if video_out p = None then Inr p
      else rbind (stopPlayback late p) (\<lambda>p1. tryStartPlayback late e (p1\<lparr>pendingPlayback := True\<rparr>)))"

definition playDebugLoop :: "late_calls \<Rightarrow> player_env \<Rightarrow> android_player \<Rightarrow> android_player result" where
  "playDebugLoop late e p = tryStartPlayback late e (p\<lparr>pendingPlayback := True\<rparr>)"

text \<open>The first task waiting for the thread of Android. \<open>created\<close>: whether the surface could be created.\<close>

definition run_android_task :: "late_calls \<Rightarrow> bool \<Rightarrow> (string \<Rightarrow> launch) \<Rightarrow> android_player \<Rightarrow> android_player result" where
  "run_android_task late created launch p =
     (case android_tasks p of
        [] \<Rightarrow> Inr p
      | texture # ts \<Rightarrow>
          let p1 = p\<lparr>android_tasks := ts\<rparr> in
          (case (activeConfig p1, player_decoder p1, player_receiver p1) of
             (Some c, Some d, Some r) \<Rightarrow>
               if \<not> created then Inr p1
               else
                 rbind (setOutputSurface late (Some texture) d) (\<lambda>d'.
                 Inr (p1\<lparr>player_decoder := Some d',
                   player_receiver := Some (start_receiving launch r),
                   pendingPlayback := False, playbackRunning := True\<rparr>))
           | _ \<Rightarrow> Inr p1))"

definition on_new_sample ::
  "late_calls \<Rightarrow> (bytes \<Rightarrow> (int \<times> int) option) \<Rightarrow> nalu_world \<Rightarrow> bytes \<Rightarrow> android_player \<Rightarrow> android_player result" where
  "on_new_sample late parse_sps w sample p =
     (case (player_receiver p, player_decoder p) of
        (Some r, Some d) \<Rightarrow>
          if \<not> pulling_samples r then Inr p
          else
            rbind (NALU sample (receiver_codec r = VideoCodecH265) (nalu_now w)) (\<lambda>n.
            rbind (interpretNALU late parse_sps w n d) (\<lambda>d'. Inr (p\<lparr>player_decoder := Some d'\<rparr>)))
      | _ \<Rightarrow> Inr p)"

text \<open>An output that is destroyed only empties the guarded pointer to it.\<close>

datatype player_event =
    Set_Video_Out player_env "nat option"
  | Texture_Changed player_env
  | Play_Debug_Loop player_env
  | Output_Destroyed
  | Run_Task bool "string \<Rightarrow> launch"
  | New_Sample nalu_world bytes
  | Codec_Output int output_buffer
  | Player_Destroyed

fun player_step ::
  "(bytes \<Rightarrow> (int \<times> int) option) \<Rightarrow> late_calls \<Rightarrow> player_event \<Rightarrow> android_player \<Rightarrow> android_player result" where
  "player_step ps late (Set_Video_Out e out) p = setVideoOut late e out p"
| "player_step ps late (Texture_Changed e) p = surface_texture_changed late e p"
| "player_step ps late (Play_Debug_Loop e) p = playDebugLoop late e p"
| "player_step ps late Output_Destroyed p = Inr (p\<lparr>video_out := None\<rparr>)"
| "player_step ps late (Run_Task created launch) p = run_android_task late created launch p"
| "player_step ps late (New_Sample w sample) p = on_new_sample late ps w sample p"
| "player_step ps late (Codec_Output t out) p =
     (case player_decoder p of None \<Rightarrow> Inr p
      | Some d \<Rightarrow> rbind (check_output t out d) (\<lambda>d'. Inr (p\<lparr>player_decoder := Some d'\<rparr>)))"
| "player_step ps late Player_Destroyed p = stopPlayback late p"

text \<open>Any run, with what the output thread does in each step beside the release, and a run in which it always leaves its loop in time.\<close>

definition raced_run ::
  "(bytes \<Rightarrow> (int \<times> int) option) \<Rightarrow> (player_event \<times> late_calls) list \<Rightarrow> android_player \<Rightarrow> android_player result" where
  "raced_run ps = rfold (\<lambda>(e, late). player_step ps late e)"

definition player_run ::
  "(bytes \<Rightarrow> (int \<times> int) option) \<Rightarrow> player_event list \<Rightarrow> android_player \<Rightarrow> android_player result" where
  "player_run ps = rfold (player_step ps [])"

lemma stop_late: "same_or_race late (stopPlayback late p) (stopPlayback [] p)"
  unfolding stopPlayback_def Let_def
  by (auto intro!: same_or_race_bind surface_late split: option.split)

lemma try_late: "same_or_race late (tryStartPlayback late e p) (tryStartPlayback [] e p)"
  unfolding tryStartPlayback_def use_config_def Let_def
  by (auto intro!: same_or_race_bind stop_late split: option.split)

text \<open>A step with late calls does what it does without, or calls a deleted codec.\<close>

lemma step_late: "same_or_race late (player_step ps late e p) (player_step ps [] e p)"
proof (cases e)
  case (Set_Video_Out env out)
  have "same_or_race late (if video_out p \<noteq> None then stopPlayback late p else Inr p) (if video_out p \<noteq> None then stopPlayback [] p else Inr p)"
    by (simp add: stop_late)
  then show ?thesis
    unfolding Set_Video_Out player_step.simps setVideoOut_def Let_def
    by (auto intro!: same_or_race_bind simp: stop_late try_late)
next
  case (Texture_Changed env)
  then show ?thesis by (auto simp: surface_texture_changed_def intro!: same_or_race_bind stop_late try_late)
next
  case (Run_Task created l)
  then show ?thesis
    by (auto simp: run_android_task_def Let_def intro!: same_or_race_bind surface_late split: list.split option.split)
next
  case (New_Sample w sample)
  then show ?thesis
    by (auto simp: on_new_sample_def intro!: same_or_race_bind interpret_late split: option.split)
qed (simp_all add: playDebugLoop_def try_late stop_late)

section \<open>What holds in every run\<close>

text \<open>A decoder that has only seen NALUs of one format.\<close>

definition decoder_of :: "bool \<Rightarrow> low_lag_decoder \<Rightarrow> bool" where
  "decoder_of h265 d \<longleftrightarrow>
     low_lag_inv d \<and> (ll_configured d \<longrightarrow> IS_H265 d = h265)
     \<and> (\<forall>n. SPS (mKeyFrameFinder d) = Some n \<longrightarrow> isSPS n \<and> IS_H265_PACKET n = h265)"

text \<open>The codec gives a buffer, fails, or lets a second pass.\<close>

definition feeding_ends :: "int \<Rightarrow> input_buffer list \<Rightarrow> bool" where
  "feeding_ends now bs \<longleftrightarrow>
     (\<exists>b \<in> set bs. case b of Input_Try_Again later \<Rightarrow> later - now > 1000000000 | _ \<Rightarrow> True)"

lemma feed_loop_returns:
  "feeding_ends now bs \<Longrightarrow> \<exists>s'. feed_loop now n bs s = Inr s'"
  by (induction now n bs s rule: feed_loop.induct) (auto simp: feeding_ends_def)

lemma feed_loop_keeps:
  "feed_loop now n bs s = Inr s' \<Longrightarrow> ll_window s' = ll_window s \<and> mKeyFrameFinder s' = mKeyFrameFinder s
    \<and> ll_configured s' = ll_configured s \<and> IS_H265 s' = IS_H265 s"
  by (induction now n bs s rule: feed_loop.induct) (auto split: if_splits)

lemma decoder_of_new: "decoder_of h low_lag_new"
  using low_lag_inv_new by (simp add: decoder_of_def codec_config_new_def)

lemma surface_keeps:
  assumes "decoder_of h d"
  shows "\<exists>d'. setOutputSurface [] w d = Inr d' \<and> decoder_of h d' \<and> ll_window d' = w
    \<and> (w = None \<longrightarrow> codec_life_of No_Codec (codec_calls d') = Some No_Codec)"
proof -
  obtain d' where d': "setOutputSurface [] w d = Inr d'" using surface_returns by blast
  have "low_lag_inv d'" "ll_window d' = w" using surface_inv [OF _ d'] assms by (simp_all add: decoder_of_def)
  moreover have "(ll_configured d' \<longrightarrow> IS_H265 d' = h) \<and> (\<forall>n. SPS (mKeyFrameFinder d') = Some n \<longrightarrow> isSPS n \<and> IS_H265_PACKET n = h)"
    using assms d'
    by (auto simp: decoder_of_def setOutputSurface_def releaseDecoderResourcesLocked_def stop_and_delete_def join_output_def
        codec_config_reset_def codec_config_new_def Let_def split: option.splits if_splits)
  ultimately show ?thesis using d' by (auto simp: decoder_of_def low_lag_inv_def)
qed

lemma output_keeps:
  assumes "decoder_of h d"
  shows "\<exists>d'. check_output t out d = Inr d' \<and> decoder_of h d' \<and> ll_window d' = ll_window d"
proof -
  obtain d' where d': "check_output t out d = Inr d'" "low_lag_inv d'"
    using assms output_inv [of d t out] by (auto simp: decoder_of_def)
  moreover have "ll_configured d' = ll_configured d \<and> IS_H265 d' = IS_H265 d \<and> mKeyFrameFinder d' = mKeyFrameFinder d
    \<and> ll_window d' = ll_window d"
    using d'(1) by (auto simp: check_output_def Let_def split: if_splits output_buffer.splits)
  ultimately show ?thesis using assms by (auto simp: decoder_of_def)
qed

lemma interpret_keeps:
  assumes d: "decoder_of (IS_H265_PACKET n) d" and n: "nalu_ok n" and "feeding_ends (nalu_now w) (input_buffers w)"
  shows "\<exists>d'. interpretNALU [] ps w n d = Inr d' \<and> decoder_of (IS_H265_PACKET n) d' \<and> ll_window d' = ll_window d"
proof -
  let ?h = "IS_H265_PACKET n"
  define s3 where "s3 = d\<lparr>IS_H265 := ?h, nNALU := nNALU d + 1, nNALUBytesFed := relative_add (int (getSize n)) (nNALUBytesFed d)\<rparr>"
  define c where "c = config_save n (mKeyFrameFinder d)"
  have size: "4 < getSize n"
    using n by (auto simp: nalu_ok_def NALU_Inr nalu_bytes_ok_def getSize_def getMinimumNaluSize_def split: if_splits)
  have c_sps: "isSPS m \<and> IS_H265_PACKET m = ?h" if "SPS c = Some m" for m
    using that d by (auto simp: c_def config_save_def decoder_of_def split: if_splits)
  have s3: "decoder_of ?h s3" "decoder_of ?h (s3\<lparr>mKeyFrameFinder := c\<rparr>)" if "\<not> ll_configured d"
    using that d c_sps by (auto simp: s3_def decoder_of_def low_lag_inv_def)
  have quiet: "(if ll_configured d \<and> IS_H265_PACKET n \<noteq> IS_H265 d then releaseDecoderResourcesLocked [] False d else Inr d) = Inr d"
    using d by (auto simp: decoder_of_def)
  have run: "interpretNALU [] ps w n d =
    (if inputPipeClosed d then Inr (s3\<lparr>mKeyFrameFinder := c\<rparr>)
     else if ll_configured d then rbind (feedDecoder (nalu_now w) (input_buffers w) n s3) (\<lambda>s4. Inr (s4\<lparr>nNALUSFeeded := nNALUSFeeded s4 + 1\<rparr>))
     else if all_config_available ?h c then configureStartDecoder ps (codec_created w) (s3\<lparr>mKeyFrameFinder := c\<rparr>)
     else Inr (s3\<lparr>mKeyFrameFinder := c\<rparr>))"
    unfolding interpretNALU_def quiet rbind.simps
    using size by (simp add: Let_def save_if_config_ok [OF n] s3_def c_def)
  have ret: "\<exists>d'. interpretNALU [] ps w n d = Inr d'"
  proof -
    have "\<exists>s'. feedDecoder (nalu_now w) (input_buffers w) n s3 = Inr s'"
      using feed_loop_returns [OF assms(3), of n s3] by (auto simp: feedDecoder_def isVPS_def s3_def rassert_def)
    moreover have "\<exists>s'. configureStartDecoder ps (codec_created w) (s3\<lparr>mKeyFrameFinder := c\<rparr>) = Inr s'" if "all_config_available ?h c"
    proof (cases ?h)
      case True
      with that show ?thesis
        by (auto simp: configureStartDecoder_def h265_configureAMediaFormat_def all_config_available_def getCSD0_def getCSD1_def
            getVPS_def s3_def Let_def)
    next
      case False
      obtain m p where m: "SPS c = Some m" "PPS c = Some p" using \<open>all_config_available ?h c\<close> False by (auto simp: all_config_available_def)
      with c_sps [OF m(1)] False show ?thesis
        by (auto simp: configureStartDecoder_def h264_configureAMediaFormat_def sps_get_width_height_def getCSD0_def getCSD1_def
            s3_def Let_def split: option.splits)
    qed
    ultimately show ?thesis unfolding run by auto
  qed
  then obtain d' where d': "interpretNALU [] ps w n d = Inr d'" by blast
  have inv: "low_lag_inv d'" using d d' interpret_inv by (auto simp: decoder_of_def)
  have "ll_window d' = ll_window d \<and> (ll_configured d' \<longrightarrow> IS_H265 d' = ?h)
    \<and> (\<forall>m. SPS (mKeyFrameFinder d') = Some m \<longrightarrow> isSPS m \<and> IS_H265_PACKET m = ?h)"
    using d' d c_sps unfolding run
    by (auto simp: s3_def decoder_of_def feedDecoder_def configureStartDecoder_def Let_def result_simps codec_config_reset_def
        codec_config_new_def dest!: feed_loop_keeps split: if_splits)
  with inv d' show ?thesis by (auto simp: decoder_of_def)
qed

text \<open>A player that is prepared has its settings, a receiver for them and a decoder of their format.\<close>

definition prepared :: "stream_settings \<Rightarrow> gst_rtp_receiver \<Rightarrow> low_lag_decoder \<Rightarrow> bool" where
  "prepared c r d \<longleftrightarrow>
     stream_codec c \<noteq> VideoCodecMJPEG \<and> receiver_port r = udp_rtp_input_port c \<and> receiver_codec r = stream_codec c
     \<and> decoder_of (stream_codec c = VideoCodecH265) d \<and> (pulling_samples r \<longrightarrow> ll_window d \<noteq> None)"

definition player_ok :: "android_player \<Rightarrow> bool" where
  "player_ok p \<longleftrightarrow>
     (case (activeConfig p, player_receiver p, player_decoder p) of
        (Some c, Some r, Some d) \<Rightarrow> prepared c r d \<and> (playbackRunning p \<longrightarrow> ll_window d \<noteq> None)
      | (None, None, None) \<Rightarrow> \<not> playbackRunning p
      | _ \<Rightarrow> False)
     \<and> (\<forall>d \<in> set (old_decoders p). codec_life_of No_Codec (codec_calls d) = Some No_Codec)"

fun event_ok :: "player_event \<Rightarrow> bool" where
  "event_ok (New_Sample w sample) \<longleftrightarrow>
     nalu_bytes_ok False sample \<and> nalu_bytes_ok True sample \<and> feeding_ends (nalu_now w) (input_buffers w)"
| "event_ok _ \<longleftrightarrow> True"

lemma player_cases:
  assumes "player_ok p"
  obtains (idle) "activeConfig p = None" "player_receiver p = None" "player_decoder p = None" "\<not> playbackRunning p"
  | (prepared) c r d where "activeConfig p = Some c" "player_receiver p = Some r" "player_decoder p = Some d" "prepared c r d"
      "playbackRunning p \<Longrightarrow> ll_window d \<noteq> None"
  using assms by (auto simp: player_ok_def split: option.splits)

lemma stopPlayback_sel:
  "stopPlayback [] p = Inr p' \<Longrightarrow> activeConfig p' = None \<and> player_receiver p' = None \<and> player_decoder p' = None
    \<and> \<not> playbackRunning p' \<and> \<not> pendingPlayback p' \<and> video_out p' = video_out p \<and> android_tasks p' = android_tasks p"
  by (auto simp: stopPlayback_def Let_def result_simps split: option.splits)

lemma stop_returns: "\<exists>p'. stopPlayback [] p = Inr p'"
proof (cases "player_decoder p")
  case (Some d)
  with surface_returns [of None d] show ?thesis by (auto simp: stopPlayback_def Let_def)
qed (simp add: stopPlayback_def Let_def)

lemma player_ok_upd [simp]:
  "player_ok (p\<lparr>pendingPlayback := b\<rparr>) = player_ok p" "player_ok (p\<lparr>video_out := x\<rparr>) = player_ok p"
  "player_ok (p\<lparr>video_out := x, pendingPlayback := b\<rparr>) = player_ok p" "player_ok (p\<lparr>android_tasks := ts\<rparr>) = player_ok p"
  by (simp_all add: player_ok_def cong: option.case_cong)

lemma player_ok_old: "player_ok p \<Longrightarrow> \<forall>d \<in> set (old_decoders p). codec_life_of No_Codec (codec_calls d) = Some No_Codec"
  by (simp add: player_ok_def)

lemma stop_ok:
  assumes "player_ok p"
  shows "\<exists>p'. stopPlayback [] p = Inr p' \<and> player_ok p' \<and> activeConfig p' = None \<and> player_receiver p' = None \<and> player_decoder p' = None
    \<and> \<not> playbackRunning p'"
proof -
  obtain p' where p': "stopPlayback [] p = Inr p'" using stop_returns by blast
  note sel = stopPlayback_sel [OF p']
  have "\<forall>d \<in> set (old_decoders p'). codec_life_of No_Codec (codec_calls d) = Some No_Codec"
    using assms
  proof (cases rule: player_cases)
    case (prepared c r d)
    then obtain d' where "setOutputSurface [] None d = Inr d'" "codec_life_of No_Codec (codec_calls d') = Some No_Codec"
      using surface_keeps [of _ d None] by (auto simp: prepared_def)
    with prepared player_ok_old [OF assms] p' show ?thesis by (auto simp: stopPlayback_def Let_def)
  qed (use player_ok_old [OF assms] p' in \<open>auto simp: stopPlayback_def Let_def\<close>)
  with p' sel show ?thesis by (simp add: player_ok_def)
qed

lemma try_ok:
  assumes "player_ok p"
  shows "\<exists>p'. tryStartPlayback [] e p = Inr p' \<and> player_ok p'"
proof -
  have use: "\<exists>p0. use_config [] c p = Inr p0 \<and> player_ok (create_receiver g (create_decoder p0))" if "stream_codec c \<noteq> VideoCodecMJPEG" for c g
  proof -
    obtain q where q: "stopPlayback [] p = Inr q" "player_ok q" "activeConfig q = None" "player_receiver q = None"
      "player_decoder q = None" "\<not> playbackRunning q" using stop_ok [OF assms] by blast
    have new: "player_ok (create_receiver g (create_decoder (q\<lparr>activeConfig := Some c\<rparr>)))"
      using that q player_ok_old [OF q(2)]
      by (simp add: create_decoder_def create_receiver_def player_ok_def prepared_def gst_rtp_receiver_new_def decoder_of_new)
    from assms show ?thesis
    proof (cases rule: player_cases)
      case idle
      with q(1) new show ?thesis by (simp add: use_config_def)
    next
      case (prepared a r d)
      show ?thesis
      proof (cases "a = c")
        case True
        with assms prepared show ?thesis by (simp add: use_config_def create_decoder_def create_receiver_def)
      next
        case False
        with prepared q(1) new show ?thesis by (simp add: use_config_def)
      qed
    qed
  qed
  have mjpeg: "stream_codec c \<noteq> VideoCodecMJPEG" if "resolveStreamConfig k st = Some c" for k st c
    using that by (auto simp: resolveStreamConfig_def Let_def split: if_splits option.splits)
  show ?thesis
  proof (cases "resolveStreamConfig (env_reader e) (env_settings e)")
    case (Some c)
    from use [OF mjpeg [OF Some], of "env_gst e"] obtain p0 where "use_config [] c p = Inr p0"
      "player_ok (create_receiver (env_gst e) (create_decoder p0))" by blast
    with assms Some show ?thesis
      by (auto simp: tryStartPlayback_def startPlaybackOnAndroidThread_def Let_def split: option.splits)
  qed (use assms in \<open>simp add: tryStartPlayback_def\<close>)
qed

lemma start_receiving_sel [simp]:
  "receiver_port (start_receiving l r) = receiver_port r" "receiver_codec (start_receiving l r) = receiver_codec r"
  by (auto simp: start_receiving_def stop_receiving_def Let_def split: launch.splits)

lemma task_ok:
  assumes "player_ok p"
  shows "\<exists>p'. run_android_task [] created l p = Inr p' \<and> player_ok p'"
proof (cases "android_tasks p")
  case (Cons t ts)
  from assms show ?thesis
  proof (cases rule: player_cases)
    case (prepared c r d)
    then obtain d' where "setOutputSurface [] (Some t) d = Inr d'" "decoder_of (stream_codec c = VideoCodecH265) d'" "ll_window d' = Some t"
      using surface_keeps [of _ d "Some t"] by (auto simp: prepared_def)
    moreover have "player_ok (p\<lparr>android_tasks := ts\<rparr>)" using assms by simp
    ultimately show ?thesis
      using prepared player_ok_old [OF assms]
      by (cases created) (simp_all add: run_android_task_def Cons Let_def player_ok_def prepared_def)
  qed (use assms in \<open>simp add: run_android_task_def Cons\<close>)
qed (use assms in \<open>simp add: run_android_task_def\<close>)

lemma decoder_ok:
  assumes "player_ok p" "activeConfig p = Some c" "player_decoder p = Some d"
    and "decoder_of (stream_codec c = VideoCodecH265) d'" "ll_window d' = ll_window d"
  shows "player_ok (p\<lparr>player_decoder := Some d'\<rparr>)"
  using assms by (auto simp: player_ok_def prepared_def split: option.splits)

lemma player_step_ok:
  assumes p: "player_ok p" and e: "event_ok e"
  shows "\<exists>p'. player_step ps [] e p = Inr p' \<and> player_ok p'"
proof (cases e)
  case (Set_Video_Out env out)
  have "\<exists>p1. (if video_out p \<noteq> None then stopPlayback [] p else Inr p) = Inr p1 \<and> player_ok p1"
    using stop_ok [OF p] p by auto
  then obtain p1 where "(if video_out p \<noteq> None then stopPlayback [] p else Inr p) = Inr p1" "player_ok p1" by blast
  moreover from \<open>player_ok p1\<close> have "player_ok (p1\<lparr>video_out := out\<rparr>)" "player_ok (p1\<lparr>video_out := out, pendingPlayback := True\<rparr>)"
    by simp_all
  ultimately show ?thesis
    using p stop_ok [of "p1\<lparr>video_out := out\<rparr>"] try_ok [of "p1\<lparr>video_out := out, pendingPlayback := True\<rparr>" env]
    by (auto simp: Set_Video_Out setVideoOut_def Let_def)
next
  case (Texture_Changed env)
  obtain p1 where "stopPlayback [] p = Inr p1" "player_ok p1" using stop_ok [OF p] by blast
  with p try_ok [of "p1\<lparr>pendingPlayback := True\<rparr>" env] show ?thesis by (auto simp: Texture_Changed surface_texture_changed_def)
next
  case (Play_Debug_Loop env)
  with p try_ok [of "p\<lparr>pendingPlayback := True\<rparr>" env] show ?thesis by (simp add: Play_Debug_Loop playDebugLoop_def)
next
  case (New_Sample w sample)
  from p show ?thesis
  proof (cases rule: player_cases)
    case (prepared c r d)
    let ?n = "nalu_of sample (stream_codec c = VideoCodecH265) (nalu_now w)"
    have bytes: "nalu_bytes_ok (stream_codec c = VideoCodecH265) sample"
      using e by (cases "stream_codec c = VideoCodecH265") (auto simp: New_Sample)
    then have n: "nalu_ok ?n" "NALU sample (stream_codec c = VideoCodecH265) (nalu_now w) = Inr ?n"
      by (simp_all add: NALU_ok)
    moreover have "IS_H265_PACKET ?n = (stream_codec c = VideoCodecH265)" by (simp add: nalu_of_def)
    ultimately obtain d' where "interpretNALU [] ps w ?n d = Inr d'" "decoder_of (stream_codec c = VideoCodecH265) d'"
      "ll_window d' = ll_window d"
      using interpret_keeps [of ?n d w ps] prepared e by (auto simp: prepared_def New_Sample)
    with prepared p n decoder_ok [OF p prepared(1,3), of d'] show ?thesis
      by (simp add: New_Sample on_new_sample_def prepared_def)
  qed (use p in \<open>simp add: New_Sample on_new_sample_def\<close>)
next
  case (Codec_Output t out)
  from p show ?thesis
  proof (cases rule: player_cases)
    case (prepared c r d)
    then obtain d' where "check_output t out d = Inr d'" "decoder_of (stream_codec c = VideoCodecH265) d'" "ll_window d' = ll_window d"
      using output_keeps [of _ d t out] by (auto simp: prepared_def)
    with prepared decoder_ok [OF p prepared(1,3), of d'] show ?thesis by (simp add: Codec_Output)
  qed (use p in \<open>simp add: Codec_Output\<close>)
next
  case Player_Destroyed
  with stop_ok [OF p] show ?thesis by auto
qed (use p task_ok in simp_all)

text \<open>Every run keeps the player in order or ends with a call on a deleted codec, in a step with late calls.\<close>

lemma raced_run_ok:
  assumes "\<forall>(e, late) \<in> set es. event_ok e" "player_ok p"
  shows "(\<exists>p'. raced_run ps es p = Inr p' \<and> player_ok p')
    \<or> (raced_run ps es p = Inl Use_After_Free \<and> (\<exists>(e, late) \<in> set es. late \<noteq> []))"
  using assms
proof (induction es arbitrary: p)
  case (Cons x es)
  obtain e late where x: "x = (e, late)" by fastforce
  obtain p1 where p1: "player_step ps [] e p = Inr p1" "player_ok p1"
    using player_step_ok [of p e ps] Cons.prems by (auto simp: x)
  from step_late [of late ps e p] consider "player_step ps late e p = Inr p1" | "player_step ps late e p = Inl Use_After_Free" "late \<noteq> []"
    by (auto simp: same_or_race_def p1)
  then show ?case
  proof cases
    case 1
    with Cons.IH [OF _ p1(2)] Cons.prems show ?thesis by (auto simp: raced_run_def x)
  next
    case 2
    then show ?thesis by (auto simp: raced_run_def x)
  qed
qed (simp add: raced_run_def)

text \<open>C16. The secondary player with its receiver and its decoder, in every sequence of steps of the user interface, the thread of
  Android, the samples and the codec, each of them as a whole, as long as the samples are NALUs and the codec answers. The only way for the program to fail is
  the race of the release: the output thread calls the codec after it was deleted, in a step with late calls. Otherwise the run goes
  on, and then a player that is prepared has a receiver on the port and with the format of its settings, which is never MJPEG; samples are
  only received, and playback only counts as running, while the decoder has a window; the calls on a codec keep Android's
  rules, with one codec at a time and only for the format of the receiver; and each decoder that was given up has stopped and
  deleted its codec.\<close>

theorem secondary_player_runs:
  assumes "\<forall>(e, late) \<in> set es. event_ok e"
  shows "(raced_run ps es android_player_new = Inl Use_After_Free \<and> (\<exists>(e, late) \<in> set es. late \<noteq> []))
    \<or> (\<exists>p. raced_run ps es android_player_new = Inr p
      \<and> (\<forall>c. activeConfig p = Some c \<longrightarrow>
          (\<exists>r d. player_receiver p = Some r \<and> player_decoder p = Some d
            \<and> receiver_port r = udp_rtp_input_port c \<and> receiver_codec r = stream_codec c \<and> stream_codec c \<noteq> VideoCodecMJPEG
            \<and> (pulling_samples r \<or> playbackRunning p \<longrightarrow> ll_window d \<noteq> None)
            \<and> codec_life_of No_Codec (codec_calls d)
                = Some (if ll_configured d then Live (stream_codec c = VideoCodecH265) else No_Codec)))
      \<and> (activeConfig p = None \<longrightarrow> player_receiver p = None \<and> player_decoder p = None \<and> \<not> playbackRunning p)
      \<and> (\<forall>d \<in> set (old_decoders p). codec_life_of No_Codec (codec_calls d) = Some No_Codec))"
proof -
  have "player_ok android_player_new" by (simp add: player_ok_def android_player_new_def)
  from raced_run_ok [OF assms this, of ps] show ?thesis
  proof
    assume "\<exists>p. raced_run ps es android_player_new = Inr p \<and> player_ok p"
    then obtain p where p: "raced_run ps es android_player_new = Inr p" "player_ok p" by blast
    from p(2) show ?thesis
    proof (cases rule: player_cases)
      case idle
      with p(1) player_ok_old [OF p(2)] show ?thesis by simp
    next
      case (prepared c r d)
      with p(1) player_ok_old [OF p(2)] show ?thesis
        by (auto simp: prepared_def decoder_of_def low_lag_inv_def)
    qed
  qed simp
qed

text \<open>C17. When the texture of the output changes, the player is stopped and started again with the settings of that moment; once the
  tasks given to the thread of Android have run, older ones for former textures among them, it plays on the
  newest texture and receives from the port and in the format of these settings. The output thread of a released codec leaves its
  loop in time here; otherwise C16 says what happens.\<close>

theorem texture_change_applied:
  assumes "video_out p \<noteq> None" and "env_texture e = Some t" and "env_gst e"
    and "resolveStreamConfig (env_reader e) (env_settings e) = Some c" and "\<forall>pipe. launch pipe = Launched"
  shows "\<exists>p' r d. player_run ps (Texture_Changed e # replicate (Suc (length (android_tasks p))) (Run_Task True launch)) p = Inr p'
    \<and> playbackRunning p' \<and> activeConfig p' = Some c
    \<and> player_decoder p' = Some d \<and> ll_window d = Some t
    \<and> player_receiver p' = Some r \<and> pulling_samples r
    \<and> receiver_port r = udp_rtp_input_port c \<and> receiver_codec r = stream_codec c"
proof -
  have window: "\<exists>d'. setOutputSurface [] (Some w) d = Inr d' \<and> ll_window d' = Some w" for w d
    using surface_returns [of "Some w" d] by (auto simp: setOutputSurface_def result_simps)
  have start: "\<exists>r'. start_receiving launch r = r' \<and> receiver_initialized r' \<and> pulling_samples r'" if "receiver_initialized r" for r
    using that assms(5) by (simp add: start_receiving_def stop_receiving_def Let_def)
  have tasks: "\<exists>p' r d. player_run ps (replicate (length (android_tasks q)) (Run_Task True launch)) q = Inr p'
    \<and> playbackRunning p' \<and> activeConfig p' = Some c \<and> player_decoder p' = Some d \<and> ll_window d = Some t
    \<and> player_receiver p' = Some r \<and> pulling_samples r
    \<and> receiver_port r = udp_rtp_input_port c \<and> receiver_codec r = stream_codec c"
    if "android_tasks q = ts @ [t]" "activeConfig q = Some c" "player_decoder q = Some d" "player_receiver q = Some r"
      "receiver_initialized r" "receiver_port r = udp_rtp_input_port c" "receiver_codec r = stream_codec c" for q ts r d
    using that
  proof (induction ts arbitrary: q r d)
    case Nil
    with start [OF Nil(5)] window [of t d] show ?case by (auto simp: player_run_def run_android_task_def)
  next
    case (Cons w ts)
    obtain d' where d': "setOutputSurface [] (Some w) d = Inr d'" using window by blast
    obtain q' where q: "run_android_task [] True launch q = Inr q'" "android_tasks q' = ts @ [t]" "activeConfig q' = Some c"
      "player_decoder q' = Some d'" "player_receiver q' = Some (start_receiving launch r)"
      using Cons.prems d' by (simp add: run_android_task_def)
    from Cons.IH [OF q(2-5)] start [OF Cons.prems(5)] Cons.prems q(1,2) show ?case by (simp add: player_run_def)
  qed
  obtain p1 where p1: "stopPlayback [] p = Inr p1" using stop_returns by blast
  note sel = stopPlayback_sel [OF p1]
  obtain q where q: "stopPlayback [] (p1\<lparr>pendingPlayback := True\<rparr>) = Inr q" using stop_returns by blast
  note q_sel = stopPlayback_sel [OF q]
  obtain p' where "surface_texture_changed [] e p = Inr p'" "android_tasks p' = android_tasks p @ [t]" "activeConfig p' = Some c"
    "player_decoder p' = Some low_lag_new"
    "player_receiver p' = Some (gst_rtp_receiver_new True (udp_rtp_input_port c) (stream_codec c))"
    using assms(1-4) p1 sel q q_sel
    by (auto simp: surface_texture_changed_def tryStartPlayback_def use_config_def create_decoder_def create_receiver_def
        startPlaybackOnAndroidThread_def Let_def)
  from tasks [OF this(2-5)] this(1,2) show ?thesis
    by (simp add: player_run_def gst_rtp_receiver_new_def)
qed

section \<open>Examples\<close>

definition demo_env :: player_env where
  "demo_env = \<lparr>env_reader = \<lparr>text_to_int = (\<lambda>_. 0), custom_pipeline_file = None\<rparr>, env_settings = Map.empty,
     env_texture = Some 5, env_gst = True\<rparr>"

definition demo_stream_settings :: stream_settings where
  "demo_stream_settings = \<lparr>udp_rtp_input_ip_address = ''127.0.0.1'', udp_rtp_input_port = 5601, stream_codec = VideoCodecH264,
     enable_software_video_decoder = False\<rparr>"

lemma demo_resolved:
  "resolveStreamConfig (env_reader demo_env) (env_settings demo_env) = Some demo_stream_settings"
  by code_simp

definition demo_samples :: "player_event list" where
  "demo_samples = map (\<lambda>x. New_Sample \<lparr>nalu_now = 0, input_buffers = [Input_Buffer 100 0], codec_created = True\<rparr> [0, 0, 0, 1, x, 1, 2])
     [0x67, 0x68, 0x41]"

theorem secondary_player_runs_witness:
  "(\<exists>p d. raced_run (\<lambda>_. None) (map (\<lambda>e. (e, [])) (Set_Video_Out demo_env (Some 1) # Run_Task True (\<lambda>_. Launched) # demo_samples)
        @ [(Set_Video_Out demo_env None, [])]) android_player_new = Inr p
      \<and> old_decoders p = [d] \<and> codec_life_of No_Codec (codec_calls d) = Some No_Codec \<and> length (codec_calls d) = 6)
    \<and> raced_run (\<lambda>_. None) (map (\<lambda>e. (e, [])) (Set_Video_Out demo_env (Some 1) # Run_Task True (\<lambda>_. Launched) # demo_samples)
        @ [(Set_Video_Out demo_env None, [(0, Output_Try_Again)])]) android_player_new = Inl Use_After_Free"
proof -
  let ?es = "map (\<lambda>e. (e, [] :: late_calls)) (Set_Video_Out demo_env (Some 1) # Run_Task True (\<lambda>_. Launched) # demo_samples)
    @ [(Set_Video_Out demo_env None, [])]"
  have "\<forall>(e, late) \<in> set ?es. event_ok e" "\<not> (\<exists>(e, late) \<in> set ?es. late \<noteq> [])" by code_simp+
  with secondary_player_runs [of ?es "\<lambda>_. None"] obtain p where p: "raced_run (\<lambda>_. None) ?es android_player_new = Inr p"
    "\<forall>d \<in> set (old_decoders p). codec_life_of No_Codec (codec_calls d) = Some No_Codec" by auto
  have "case raced_run (\<lambda>_. None) ?es android_player_new of Inl f \<Rightarrow> False
    | Inr p \<Rightarrow> map (\<lambda>d. length (codec_calls d)) (old_decoders p) = [6]"
    by code_simp
  then obtain d where d: "old_decoders p = [d]" "length (codec_calls d) = 6" using p(1) by auto
  have "case raced_run (\<lambda>_. None) (map (\<lambda>e. (e, [])) (Set_Video_Out demo_env (Some 1) # Run_Task True (\<lambda>_. Launched) # demo_samples)
        @ [(Set_Video_Out demo_env None, [(0, Output_Try_Again)])]) android_player_new of
      Inl f \<Rightarrow> f = Use_After_Free | Inr p \<Rightarrow> False"
    by code_simp
  then show ?thesis using p d by (auto split: sum.splits)
qed

theorem texture_change_applied_witness:
  "\<exists>p' r d. player_run (\<lambda>_. None) [Texture_Changed demo_env, Run_Task True (\<lambda>_. Launched), Run_Task True (\<lambda>_. Launched)]
      (android_player_new\<lparr>video_out := Some 1, android_tasks := [4]\<rparr>) = Inr p'
    \<and> player_decoder p' = Some d \<and> ll_window d = Some 5 \<and> player_receiver p' = Some r \<and> receiver_port r = 5601"
  using texture_change_applied [of "android_player_new\<lparr>video_out := Some 1, android_tasks := [4]\<rparr>" demo_env 5 demo_stream_settings
      "\<lambda>_. Launched" "\<lambda>_. None"] demo_resolved
  by (auto simp: demo_env_def demo_stream_settings_def numeral_2_eq_2)

section \<open>What the players do not do\<close>

text \<open>Other settings are not looked at while playback runs.\<close>

lemma running_ignores_settings:
  assumes "playbackRunning p" "video_out p \<noteq> None"
  shows "playDebugLoop late e p = Inr (p\<lparr>pendingPlayback := False\<rparr>)"
  using assms by (auto simp: playDebugLoop_def tryStartPlayback_def)

text \<open>When the output was destroyed and there is a new one, playback goes on with the texture of the old one.\<close>

lemma new_output_ignored:
  assumes "playbackRunning p"
  shows "player_run ps [Output_Destroyed, Set_Video_Out e (Some out)] p = Inr (p\<lparr>video_out := Some out, pendingPlayback := False\<rparr>)"
  using assms by (simp add: player_run_def setVideoOut_def tryStartPlayback_def)

text \<open>Playback counts as running although the receiver could not be started.\<close>

lemma failed_receiver_runs:
  assumes "android_tasks p = [t]" "activeConfig p = Some c" "player_decoder p = Some d" "player_receiver p = Some r" "\<not> gst_pipeline r"
    "\<not> pulling_samples r"
  shows "\<exists>p' r'. run_android_task [] True (\<lambda>_. No_Pipeline) p = Inr p' \<and> player_receiver p' = Some r' \<and> \<not> pulling_samples r'
    \<and> playbackRunning p'"
  using assms surface_returns [of "Some t" d] by (auto simp: run_android_task_def start_receiving_def Let_def)

text \<open>The pipeline for MJPEG ends in a placeholder.\<close>

lemma mjpeg_pipeline:
  "receiver_codec r = VideoCodecMJPEG \<Longrightarrow> \<exists>s. construct_gstreamer_pipeline r = s @ ''jpegparse ! todo appsink drop=true name=out_appsink''"
  by (simp add: construct_gstreamer_pipeline_def conv_codec_def create_out_caps_def create_parse_for_codec_def Let_def)

section \<open>The primary player\<close>

record primary_player =
  primary_enabled :: bool
  primary_out :: "nat option"
  primary_decoder :: "low_lag_decoder option"
  primary_receiver :: "gst_rtp_receiver option"

definition setup_start_video_decoder_display :: "bool \<Rightarrow> video_stream_config \<Rightarrow> primary_player \<Rightarrow> primary_player result" where
  "setup_start_video_decoder_display gst_ok config p =
     rbind (rassert (primary_decoder p = None)) (\<lambda>_.
     rbind (rassert (primary_receiver p = None)) (\<lambda>_.
     let codec = stream_codec (primary_stream_config config);
         port = (if qopenhd_switch_primary_secondary (generic config) then 5601 else 5600)
     in Inr (p\<lparr>primary_decoder := Some low_lag_new, primary_receiver := Some (gst_rtp_receiver_new gst_ok port codec)\<rparr>)))"

definition primary_player_new :: "settings_reader \<Rightarrow> settings \<Rightarrow> bool \<Rightarrow> primary_player result" where
  "primary_player_new k store gst_ok =
     (let config = read_config_from_settings k store;
          p = \<lparr>primary_enabled = \<not> dev_disable_primary_video (generic config), primary_out = None, primary_decoder = None,
            primary_receiver = None\<rparr>
      in if \<not> primary_enabled p then Inr p else setup_start_video_decoder_display gst_ok config p)"

definition set_surface_texture :: "late_calls \<Rightarrow> nat \<Rightarrow> (string \<Rightarrow> launch) \<Rightarrow> primary_player \<Rightarrow> primary_player result" where
  "set_surface_texture late texture launch p =
     rbind (case primary_decoder p of None \<Rightarrow> Inl Bad_Optional | Some d \<Rightarrow> Inr d) (\<lambda>d.
     rbind (setOutputSurface late (Some texture) d) (\<lambda>d.
     let p = p\<lparr>primary_decoder := Some d\<rparr> in
     (case primary_receiver p of
        None \<Rightarrow> Inr p
      | Some r \<Rightarrow> Inr (p\<lparr>primary_receiver := Some (start_receiving launch r)\<rparr>))))"

text \<open>\<open>texture\<close>: that of the new output, if it is valid; otherwise a later change calls \<open>set_surface_texture\<close>.\<close>

definition primary_setVideoOut :: "late_calls \<Rightarrow> nat option \<Rightarrow> nat option \<Rightarrow> (string \<Rightarrow> launch) \<Rightarrow> primary_player \<Rightarrow> primary_player result" where
  "primary_setVideoOut late out texture launch p =
     (if primary_out p = out then Inr p
      else
        let p1 = p\<lparr>primary_out := out\<rparr> in
        if \<not> primary_enabled p1 then Inr p1
        else (case out of
            None \<Rightarrow> Inl Bad_Optional
          | Some _ \<Rightarrow> (case texture of None \<Rightarrow> Inr p1 | Some t \<Rightarrow> set_surface_texture late t launch p1)))"

definition stop_cleanup_decoder_display :: "primary_player \<Rightarrow> primary_player" where
  "stop_cleanup_decoder_display p = p\<lparr>primary_receiver := None, primary_decoder := None\<rparr>"

definition switch_primary_secondary :: "late_calls \<Rightarrow> primary_player \<Rightarrow> primary_player result" where
  "switch_primary_secondary late p =
     (case (primary_receiver p, primary_decoder p) of
        (Some r, Some d) \<Rightarrow>
          rbind (setOutputSurface late None d) (\<lambda>d'.
          Inr (p\<lparr>primary_receiver := Some (stop_receiving r), primary_decoder := Some d'\<rparr>))
      | _ \<Rightarrow> Inl Bad_Optional)"

text \<open>After a clean-up the player can be set up again.\<close>

lemma set_up_again: "\<exists>p'. setup_start_video_decoder_display g config (stop_cleanup_decoder_display p) = Inr p'"
  by (simp add: setup_start_video_decoder_display_def stop_cleanup_decoder_display_def Let_def)

text \<open>With the streams exchanged the primary player has the port of the secondary stream but the codec of the primary one; taking the output
  away dereferences a null pointer; and after the switch nothing is received.\<close>

lemma switched_codec:
  assumes "qopenhd_switch_primary_secondary (generic (read_config_from_settings k store))" "primary_player_new k store True = Inr p"
    "primary_enabled p"
  shows "\<exists>r. primary_receiver p = Some r \<and> receiver_port r = 5601
    \<and> receiver_codec r = stream_codec (primary_stream_config (read_config_from_settings k store))"
  using assms
  by (auto simp: primary_player_new_def setup_start_video_decoder_display_def gst_rtp_receiver_new_def rassert_def Let_def
      split: if_splits)

lemma output_removed_faults:
  "primary_out p \<noteq> None \<Longrightarrow> primary_enabled p \<Longrightarrow> primary_setVideoOut late None texture launch p = Inl Bad_Optional"
  by (auto simp: primary_setVideoOut_def Let_def)

lemma switch_stops:
  assumes "switch_primary_secondary [] p = Inr p'"
  shows "\<exists>r d. primary_receiver p' = Some r \<and> \<not> pulling_samples r \<and> primary_decoder p' = Some d \<and> ll_window d = None"
  using assms
  by (auto simp: switch_primary_secondary_def stop_receiving_def setOutputSurface_def releaseDecoderResourcesLocked_def
      stop_and_delete_def join_output_def Let_def result_simps split: option.splits if_splits)

end
