(* ===== verification/Viewport.thy ===== *)
theory Viewport
  imports Rounding "HOL-Library.Signed_Division"
begin

text \<open>
  The part of the surface the video is drawn to (\<open>app/videostreaming/vscommon/video_ratio_helper.hpp\<close>). Floating-point
  numbers are exact; \<open>None\<close> is a division by zero, whose result \<open>lround\<close> does not define.
\<close>

record viewport =
  vp_x :: int
  vp_y :: int
  vp_width :: int
  vp_height :: int

definition calculate_viewport_video_fullscreen :: "int \<Rightarrow> int \<Rightarrow> int \<Rightarrow> int \<Rightarrow> viewport option" where
  "calculate_viewport_video_fullscreen surface_width surface_height texture_width texture_height =
     (let surface_ratio = of_int surface_width / of_int surface_height;
          texture_ratio = of_int texture_width / of_int texture_height
      in if surface_height = 0 \<or> texture_height = 0 then None
         else if surface_ratio > texture_ratio then
           (let w = round_away (of_int surface_height * texture_ratio) in
            Some \<lparr>vp_x = (surface_width - w) sdiv 2, vp_y = 0, vp_width = w, vp_height = surface_height\<rparr>)
         else if texture_ratio = 0 then None
         else
           (let h = round_away (of_int surface_width * (1 / texture_ratio)) in
            Some \<lparr>vp_x = 0, vp_y = (surface_height - h) sdiv 2, vp_width = surface_width, vp_height = h\<rparr>))"

definition calculate_viewport :: "int \<Rightarrow> int \<Rightarrow> int \<Rightarrow> int \<Rightarrow> bool \<Rightarrow> viewport option" where
  "calculate_viewport surface_width surface_height texture_width texture_height scale_to_fit =
     (if scale_to_fit then Some \<lparr>vp_x = 0, vp_y = 0, vp_width = surface_width, vp_height = surface_height\<rparr>
      else calculate_viewport_video_fullscreen surface_width surface_height texture_width texture_height)"

text \<open>Both branches compute one side from the other: \<open>side\<close> is the whole, \<open>n / d\<close> the ratio of the video.\<close>

lemma rounded_side:
  fixes side n d other :: int
  assumes "side > 0" "n > 0" "d > 0" "side * n \<le> other * d"
  defines "w \<equiv> round_away (of_int side * (of_int n / of_int d))"
  shows "0 \<le> w" "w \<le> other" "2 * \<bar>w * d - side * n\<bar> \<le> d"
proof -
  define x :: rat where "x = of_int side * (of_int n / of_int d)"
  have "of_int side * of_int n \<le> (of_int other :: rat) * of_int d"
    using assms(4) by (metis of_int_le_iff of_int_mult)
  then have "x \<le> of_int other" using assms(3) by (simp add: x_def pos_divide_le_eq)
  then have "round_away x \<le> round_away (of_int other)" by (rule round_away_mono)
  then show "w \<le> other" by (simp add: w_def x_def)
  have "0 \<le> x" using assms by (simp add: x_def)
  then have "round_away (of_int 0) \<le> round_away x" by (intro round_away_mono) simp
  then show "0 \<le> w" unfolding round_away_of_int by (simp add: w_def x_def)
  have d: "(0 :: rat) < of_int d" using assms(3) by simp
  have xd: "x * of_int d = of_int (side * n)" using assms(3) by (simp add: x_def)
  have "2 * of_int w * of_int d \<le> (2 * x + 1) * (of_int d :: rat)"
    "(2 * x - 1) * of_int d \<le> 2 * of_int w * (of_int d :: rat)"
    using round_away_error [of x] d unfolding w_def x_def by (simp_all only: mult_right_mono less_imp_le)
  then have "of_int (2 * w * d) \<le> (of_int (2 * (side * n) + d) :: rat)"
    "(of_int (2 * (side * n) - d) :: rat) \<le> of_int (2 * w * d)"
    using xd by (simp_all add: algebra_simps)
  then show "2 * \<bar>w * d - side * n\<bar> \<le> d" unfolding of_int_le_iff by (simp add: abs_if algebra_simps)
qed

lemma wider_ratio:
  assumes "(0 :: int) < b" "0 < d"
  shows "(of_int a / of_int b :: rat) > of_int c / of_int d \<longleftrightarrow> a * d > b * c"
proof -
  have "(of_int a / of_int b :: rat) > of_int c / of_int d \<longleftrightarrow> (of_int (a * d) :: rat) > of_int (b * c)"
    using assms by (simp add: divide_less_eq pos_less_divide_eq field_simps)
  then show ?thesis by (simp only: of_int_less_iff)
qed

lemma half_inside: "0 \<le> (w :: int) \<Longrightarrow> w \<le> s \<Longrightarrow> 0 \<le> (s - w) sdiv 2 \<and> s - w - 2 * ((s - w) sdiv 2) \<in> {0, 1}"
  by (auto simp: signed_divide_int_def sgn_if)

text \<open>C40. The video is drawn inside the surface and in its middle, to half a pixel. When the user has it scaled to fit it
  covers the whole surface, whatever its ratio. Otherwise it fills the full height of a surface wider than the video and
  the full width of any other, and the other side is the one that keeps the ratio of the frame, rounded to the nearest
  pixel.\<close>

theorem viewport_fits:
  assumes "0 < surface_width" "0 < surface_height" "0 < texture_width" "0 < texture_height"
  shows "\<exists>v. calculate_viewport surface_width surface_height texture_width texture_height scale_to_fit = Some v
    \<and> 0 \<le> vp_x v \<and> 0 \<le> vp_y v
    \<and> surface_width - vp_width v - 2 * vp_x v \<in> {0, 1} \<and> surface_height - vp_height v - 2 * vp_y v \<in> {0, 1}
    \<and> vp_width v \<le> surface_width \<and> vp_height v \<le> surface_height
    \<and> (if scale_to_fit then vp_width v = surface_width \<and> vp_height v = surface_height
       else if surface_width * texture_height > surface_height * texture_width
         then vp_height v = surface_height
           \<and> 2 * \<bar>vp_width v * texture_height - surface_height * texture_width\<bar> \<le> texture_height
         else vp_width v = surface_width
           \<and> 2 * \<bar>vp_height v * texture_width - surface_width * texture_height\<bar> \<le> texture_width)"
proof (cases scale_to_fit)
  case True
  then show ?thesis using assms by (simp add: calculate_viewport_def)
next
  case fits: False
  have wider: "(of_int surface_width / of_int surface_height :: rat) > of_int texture_width / of_int texture_height
      \<longleftrightarrow> surface_width * texture_height > surface_height * texture_width"
    using wider_ratio [OF assms(2,4)] .
  show ?thesis
  proof (cases "surface_width * texture_height > surface_height * texture_width")
    case True
    then have "surface_height * texture_width \<le> surface_width * texture_height" by simp
    note w = rounded_side [OF assms(2,3,4) this]
    show ?thesis
      using fits True wider assms w half_inside [OF w(1,2)]
      by (auto simp: calculate_viewport_def calculate_viewport_video_fullscreen_def Let_def)
  next
    case False
    then have "surface_width * texture_height \<le> surface_height * texture_width" by simp
    note h = rounded_side [OF assms(1,4,3) this]
    show ?thesis
      using fits False wider assms h half_inside [OF h(1,2)]
      by (auto simp: calculate_viewport_def calculate_viewport_video_fullscreen_def Let_def)
  qed
qed

theorem viewport_fits_witness:
  "(\<exists>v. calculate_viewport 1920 1080 640 480 False = Some v \<and> 0 \<le> vp_x v \<and> vp_height v = 1080)
    \<and> calculate_viewport 1920 1080 640 480 False
      = Some \<lparr>vp_x = 240, vp_y = 0, vp_width = 1440, vp_height = 1080\<rparr>
    \<and> (\<exists>v. calculate_viewport 1920 1080 640 480 True = Some v \<and> vp_width v = 1920)"
proof -
  have "calculate_viewport 1920 1080 640 480 False = Some \<lparr>vp_x = 240, vp_y = 0, vp_width = 1440, vp_height = 1080\<rparr>"
    by code_simp
  then show ?thesis
    using viewport_fits [of 1920 1080 640 480 False] viewport_fits [of 1920 1080 640 480 True] by auto
qed

end
