(* ===== verification/Color_Wheel.thy ===== *)
theory Color_Wheel
  imports Complex_Main Decimal
begin

text \<open>
  The colour picker of the settings, \<open>qml/ui/elements/colorwheel/ColorUtils.js\<close> and
  \<open>mathUtils.js\<close>. Numbers are rationals: the model has no rounding errors, and a quotient that is
  not finite in JavaScript is \<open>None\<close>. \<open>Qt.vector4d\<close> is the record of its four components, and
  \<open>Qt.hsla\<close> is third-party code, so \<open>hsba\<close> yields its arguments.
\<close>

section \<open>Numbers\<close>

record vector4d =
  v_x :: rat
  v_y :: rat
  v_z :: rat
  v_w :: rat

text \<open>The remainder of JavaScript has the sign of the dividend.\<close>

definition js_mod :: "rat \<Rightarrow> rat \<Rightarrow> rat" where
  "js_mod a b = (let q = a / b in a - b * of_int (if q \<ge> 0 then \<lfloor>q\<rfloor> else - \<lfloor>- q\<rfloor>))"

definition js_div :: "rat \<Rightarrow> rat \<Rightarrow> rat option" where
  "js_div a b = (if b = 0 then None else Some (a / b))"

definition js_round :: "rat \<Rightarrow> int" where
  "js_round a = \<lfloor>a + 1 / 2\<rfloor>"

definition clamp :: "rat \<Rightarrow> rat \<Rightarrow> rat \<Rightarrow> rat" where
  "clamp val lo hi = max lo (min hi val)"

definition mix :: "rat \<Rightarrow> rat \<Rightarrow> rat \<Rightarrow> rat" where
  "mix x y a = x * (1 - a) + y * a"

definition math_clamp :: "rat \<Rightarrow> rat \<Rightarrow> rat \<Rightarrow> rat" where
  "math_clamp x lo hi = max lo (min x hi)"

definition lerp :: "rat \<Rightarrow> rat \<Rightarrow> rat \<Rightarrow> rat" where
  "lerp x a b = (1 - x) * a + x * b"

definition projectValue :: "rat \<Rightarrow> rat \<Rightarrow> rat \<Rightarrow> rat \<Rightarrow> rat \<Rightarrow> rat option" where
  "projectValue x xmin xmax ymin ymax =
     js_div ((x - xmin) * ymax - (x - xmax) * ymin) (xmax - xmin)"

definition clampAndProject :: "rat \<Rightarrow> rat \<Rightarrow> rat \<Rightarrow> rat \<Rightarrow> rat \<Rightarrow> rat option" where
  "clampAndProject x xmin xmax ymin ymax = projectValue (math_clamp x xmin xmax) xmin xmax ymin ymax"

section \<open>Colours\<close>

definition hsba :: "rat \<Rightarrow> rat \<Rightarrow> rat \<Rightarrow> rat \<Rightarrow> rat \<times> rat option \<times> rat \<times> rat" where
  "hsba h s b a =
     (let lightness = (2 - s) * b;
          satHSL = js_div (s * b) (if lightness \<le> 1 then lightness else 2 - lightness)
      in (h, satHSL, lightness / 2, a))"

definition hsva2rgba :: "vector4d \<Rightarrow> vector4d" where
  "hsva2rgba hsva =
     (let c = v_z hsva * v_y hsva;
          x = c * (1 - \<bar>js_mod (v_x hsva * 6) 2 - 1\<bar>);
          m = v_z hsva - c in
      if v_x hsva < 1 / 6 then \<lparr>v_x = c + m, v_y = x + m, v_z = m, v_w = v_w hsva\<rparr>
      else if v_x hsva < 1 / 3 then \<lparr>v_x = x + m, v_y = c + m, v_z = m, v_w = v_w hsva\<rparr>
      else if v_x hsva < 1 / 2 then \<lparr>v_x = m, v_y = c + m, v_z = x + m, v_w = v_w hsva\<rparr>
      else if v_x hsva < 2 / 3 then \<lparr>v_x = m, v_y = x + m, v_z = c + m, v_w = v_w hsva\<rparr>
      else if v_x hsva < 5 / 6 then \<lparr>v_x = x + m, v_y = m, v_z = c + m, v_w = v_w hsva\<rparr>
      else \<lparr>v_x = c + m, v_y = m, v_z = x + m, v_w = v_w hsva\<rparr>)"

definition rgba2hsva :: "vector4d \<Rightarrow> vector4d" where
  "rgba2hsva rgba =
     (let r = v_x rgba; g = v_y rgba; b = v_z rgba;
          mx = max (max r g) b; mn = min (min r g) b;
          v = mx; d = mx - mn;
          s = (if mx = 0 then 0 else d / mx);
          h = (if mx = mn then 0
               else (if mx = r then (g - b) / d + (if g < b then 6 else 0)
                     else if mx = g then (b - r) / d + 2
                     else (r - g) / d + 4) / 6)
      in \<lparr>v_x = h, v_y = s, v_z = v, v_w = v_w rgba\<rparr>)"

section \<open>Texts\<close>

definition hex_char :: "nat \<Rightarrow> char" where
  "hex_char d = (if d < 10 then char_of (48 + d) else char_of (87 + d))"

function nat_to_hex :: "nat \<Rightarrow> string" where
  "nat_to_hex n = (if n < 16 then [hex_char n] else nat_to_hex (n div 16) @ [hex_char (n mod 16)])"
  by pat_completeness auto
termination
  by (relation "measure id") auto

declare nat_to_hex.simps [simp del]

definition int_to_hex :: "int \<Rightarrow> string" where
  "int_to_hex i = (if i < 0 then CHR ''-'' # nat_to_hex (nat (- i)) else nat_to_hex (nat i))"

definition intToHexa :: "int \<Rightarrow> nat \<Rightarrow> string" where
  "intToHexa val nb = (let hexaTmp = int_to_hex val in replicate (nb - length hexaTmp) CHR ''0'' @ hexaTmp)"

definition hexaFromRGBA :: "rat \<Rightarrow> rat \<Rightarrow> rat \<Rightarrow> rat \<Rightarrow> string" where
  "hexaFromRGBA red green blue alpha =
     CHR ''#'' # intToHexa (js_round (alpha * 255)) 2 @ intToHexa (js_round (red * 255)) 2 @
       intToHexa (js_round (green * 255)) 2 @ intToHexa (js_round (blue * 255)) 2"

text \<open>\<open>parseInt\<close> with base 16 reads the hexadecimal digits at the beginning; without any the
  result is not a number.\<close>

definition hex_value :: "char \<Rightarrow> nat option" where
  "hex_value c =
     (let n = of_char c :: nat in
      if 48 \<le> n \<and> n \<le> 57 then Some (n - 48)
      else if 65 \<le> n \<and> n \<le> 70 then Some (n - 55)
      else if 97 \<le> n \<and> n \<le> 102 then Some (n - 87) else None)"

definition parse_hex :: "string \<Rightarrow> nat option" where
  "parse_hex s =
     (case takeWhile (\<lambda>c. hex_value c \<noteq> None) s of
        [] \<Rightarrow> None
      | ds \<Rightarrow> Some (foldl (\<lambda>n c. 16 * n + the (hex_value c)) 0 ds))"

definition getChannelStr :: "string \<Rightarrow> nat \<Rightarrow> nat option" where
  "getChannelStr clr channelIdx = parse_hex (take 2 (drop (channelIdx * 2 + 1) clr))"

section \<open>The two colour spaces\<close>

lemma js_mod_sector:
  assumes "of_int k * 2 \<le> a" and "a < of_int k * 2 + 2" and "0 \<le> k"
  shows "js_mod a 2 = a - 2 * of_int k"
proof -
  have "0 \<le> a / 2" using assms by (meson divide_nonneg_pos mult_nonneg_nonneg of_int_nonneg order_trans zero_le_numeral zero_less_numeral)
  moreover have "\<lfloor>a / 2\<rfloor> = k" using assms by (simp add: floor_eq_iff)
  ultimately show ?thesis by (simp add: js_mod_def Let_def)
qed

lemma hsva2rgba_sector:
  assumes "v_x p * 6 = of_int k + f" and "0 \<le> f" and "f < 1" and "k \<in> {0, 1, 2, 3, 4, 5}"
    and "c = v_z p * v_y p" and "m = v_z p - c"
  shows "hsva2rgba p =
    (if k = 0 then \<lparr>v_x = c + m, v_y = c * f + m, v_z = m, v_w = v_w p\<rparr>
     else if k = 1 then \<lparr>v_x = c * (1 - f) + m, v_y = c + m, v_z = m, v_w = v_w p\<rparr>
     else if k = 2 then \<lparr>v_x = m, v_y = c + m, v_z = c * f + m, v_w = v_w p\<rparr>
     else if k = 3 then \<lparr>v_x = m, v_y = c * (1 - f) + m, v_z = c + m, v_w = v_w p\<rparr>
     else if k = 4 then \<lparr>v_x = c * f + m, v_y = m, v_z = c + m, v_w = v_w p\<rparr>
     else \<lparr>v_x = c + m, v_y = m, v_z = c * (1 - f) + m, v_w = v_w p\<rparr>)"
proof -
  have x: "v_x p = (of_int k + f) / 6" using assms(1) by simp
  have j: "js_mod (of_int k + f) 2 = of_int k + f - 2 * of_int (k div 2)"
    using assms(2-4) by (intro js_mod_sector) auto
  have a: "1 - \<bar>js_mod (v_x p * 6) 2 - 1\<bar> = (if even k then f else 1 - f)"
    unfolding assms(1) j using assms(2-4) by auto
  show ?thesis
    unfolding hsva2rgba_def Let_def a assms(5,6)
    unfolding x using assms(2-4) by auto
qed

text \<open>The largest and the smallest component, and the hue in sixths of the circle.\<close>

definition cmax :: "vector4d \<Rightarrow> rat" where
  "cmax p = max (max (v_x p) (v_y p)) (v_z p)"

definition cmin :: "vector4d \<Rightarrow> rat" where
  "cmin p = min (min (v_x p) (v_y p)) (v_z p)"

definition hue6 :: "vector4d \<Rightarrow> rat" where
  "hue6 p = (let d = cmax p - cmin p in
     if cmax p = cmin p then 0
     else if cmax p = v_x p then (v_y p - v_z p) / d + (if v_y p < v_z p then 6 else 0)
     else if cmax p = v_y p then (v_z p - v_x p) / d + 2
     else (v_x p - v_y p) / d + 4)"

lemma rgba2hsva_hue6:
  "rgba2hsva p = \<lparr>v_x = hue6 p / 6, v_y = (if cmax p = 0 then 0 else (cmax p - cmin p) / cmax p),
     v_z = cmax p, v_w = v_w p\<rparr>"
  by (simp add: rgba2hsva_def hue6_def cmax_def cmin_def Let_def)

text \<open>A colour in sector \<open>k\<close> comes back.\<close>

lemma colour_back:
  assumes "hue6 p = of_int k + f" and "0 \<le> f" and "f < 1" and "k \<in> {0, 1, 2, 3, 4, 5}"
    and "0 \<le> cmin p" and "d = cmax p - cmin p"
    and "(v_x p, v_y p, v_z p) =
      (if k = 0 then (cmax p, d * f + cmin p, cmin p)
       else if k = 1 then (d * (1 - f) + cmin p, cmax p, cmin p)
       else if k = 2 then (cmin p, cmax p, d * f + cmin p)
       else if k = 3 then (cmin p, d * (1 - f) + cmin p, cmax p)
       else if k = 4 then (d * f + cmin p, cmin p, cmax p)
       else (cmax p, cmin p, d * (1 - f) + cmin p))"
  shows "hsva2rgba (rgba2hsva p) = p"
proof -
  have c: "d = v_z (rgba2hsva p) * v_y (rgba2hsva p)"
    using assms(5,6) by (auto simp: rgba2hsva_hue6 cmax_def cmin_def max_def min_def split: if_splits)
  have m: "cmin p = v_z (rgba2hsva p) - d" and x: "v_x (rgba2hsva p) * 6 = of_int k + f"
    using assms(1,6) by (simp_all add: rgba2hsva_hue6)
  have p: "p = \<lparr>v_x = v_x p, v_y = v_y p, v_z = v_z p, v_w = v_w p\<rparr>" by simp
  have w: "v_w (rgba2hsva p) = v_w p" and dm: "d + cmin p = cmax p"
    using assms(6) by (simp_all add: rgba2hsva_hue6)
  show ?thesis
    unfolding hsva2rgba_sector [OF x assms(2-4) c m] w dm
    using assms(4,7) by (subst p) (auto split: if_splits)
qed

lemma colour_back_all:
  assumes "0 \<le> v_x p" and "0 \<le> v_y p" and "0 \<le> v_z p"
  shows "hsva2rgba (rgba2hsva p) = p"
proof -
  obtain r g b w where p: "p = \<lparr>v_x = r, v_y = g, v_z = b, v_w = w\<rparr>" by (cases p)
  have mn: "0 \<le> cmin p" using assms by (simp add: cmin_def)
  note hues = hue6_def cmax_def cmin_def p Let_def
  consider (grey) "r = g" "g = b" | (gb) "r \<ge> g" "g \<ge> b" "g < r" | (yellow) "r = g" "g > b"
    | (rb) "r \<ge> b" "g < b" | (gr) "g > r" "b < r" | (bg) "g > r" "r \<le> b" "b < g"
    | (cyan) "g = b" "r < g" | (br) "b > g" "r < g" | (violet) "b > r" "g \<le> r"
    by linarith
  then show ?thesis
  proof cases
    case grey
    show ?thesis by (rule colour_back [OF _ _ _ _ mn refl, of 0 0]) (auto simp: hues grey)
  next
    case gb
    show ?thesis
      by (rule colour_back [OF _ _ _ _ mn refl, of 0 "(g - b) / (r - b)"])
        (use gb in \<open>auto simp: hues field_simps max_def min_def\<close>)
  next
    case yellow
    show ?thesis
      by (rule colour_back [OF _ _ _ _ mn refl, of 1 0])
        (use yellow in \<open>auto simp: hues field_simps max_def min_def\<close>)
  next
    case rb
    show ?thesis
      by (rule colour_back [OF _ _ _ _ mn refl, of 5 "1 - (b - g) / (r - g)"])
        (use rb in \<open>auto simp: hues field_simps max_def min_def\<close>)
  next
    case gr
    show ?thesis
      by (rule colour_back [OF _ _ _ _ mn refl, of 1 "1 - (r - b) / (g - b)"])
        (use gr in \<open>auto simp: hues field_simps max_def min_def\<close>)
  next
    case bg
    show ?thesis
      by (rule colour_back [OF _ _ _ _ mn refl, of 2 "(b - r) / (g - r)"])
        (use bg in \<open>auto simp: hues field_simps max_def min_def\<close>)
  next
    case cyan
    show ?thesis
      by (rule colour_back [OF _ _ _ _ mn refl, of 3 0])
        (use cyan in \<open>auto simp: hues field_simps max_def min_def\<close>)
  next
    case br
    show ?thesis
      by (rule colour_back [OF _ _ _ _ mn refl, of 3 "1 - (g - r) / (b - r)"])
        (use br in \<open>auto simp: hues field_simps max_def min_def\<close>)
  next
    case violet
    show ?thesis
      by (rule colour_back [OF _ _ _ _ mn refl, of 4 "(r - g) / (b - g)"])
        (use violet in \<open>auto simp: hues field_simps max_def min_def\<close>)
  qed
qed

text \<open>C27. Showing a colour on the wheel and reading it back does not change it: for red, green
  and blue in any order, equal or not, and any alpha, converting to hue, saturation and value and
  back yields the same colour (in exact arithmetic).\<close>

theorem colour_roundtrip:
  assumes "0 \<le> v_x p" and "0 \<le> v_y p" and "0 \<le> v_z p"
  shows "hsva2rgba (rgba2hsva p) = p"
  using assms by (rule colour_back_all)

theorem colour_roundtrip_witness:
  "hsva2rgba (rgba2hsva \<lparr>v_x = 1 / 4, v_y = 1, v_z = 3 / 4, v_w = 1\<rparr>)
     = \<lparr>v_x = 1 / 4, v_y = 1, v_z = 3 / 4, v_w = 1\<rparr>"
  by (rule colour_roundtrip) simp_all

section \<open>Colours as texts\<close>

lemma hex_value_char: "d < 16 \<Longrightarrow> hex_value (hex_char d) = Some d"
  by (cases "d < 10") (simp_all add: hex_value_def hex_char_def Let_def)

lemma intToHexa_byte:
  assumes "0 \<le> i" and "i < 256"
  shows "intToHexa i 2 = [hex_char (nat i div 16), hex_char (nat i mod 16)]"
proof (cases "nat i < 16")
  case True
  have zero: "CHR ''0'' = hex_char 0" by code_simp
  have "nat_to_hex (nat i) = [hex_char (nat i)]"
    using True by (subst nat_to_hex.simps) simp
  then show ?thesis
    using assms(1) True zero by (simp add: intToHexa_def int_to_hex_def Let_def)
next
  case False
  have "nat i div 16 < 16" using assms(2) by simp
  then have "nat_to_hex (nat i) = [hex_char (nat i div 16), hex_char (nat i mod 16)]"
    using False by (simp add: nat_to_hex.simps [of "nat i"] nat_to_hex.simps [of "nat i div 16"])
  then show ?thesis
    using assms(1) by (simp add: intToHexa_def int_to_hex_def Let_def)
qed

lemma parse_hex_byte:
  assumes "n < 256"
  shows "parse_hex [hex_char (n div 16), hex_char (n mod 16)] = Some n"
proof -
  have "n div 16 < 16" "n mod 16 < 16" using assms by simp_all
  then show ?thesis by (simp add: parse_hex_def hex_value_char)
qed

lemma js_round_byte: "0 \<le> x \<Longrightarrow> x \<le> 1 \<Longrightarrow> 0 \<le> js_round (x * 255) \<and> js_round (x * 255) < 256"
  by (simp add: js_round_def floor_less_iff)

text \<open>Every channel of a colour can be read back from the text the wheel produces: channel 0
  is alpha, 1 to 3 are red, green and blue, each rounded to a value from 0 to 255; small values
  keep their leading zero.\<close>

theorem colour_text_channels:
  assumes "0 \<le> red" "red \<le> 1" and "0 \<le> green" "green \<le> 1" and "0 \<le> blue" "blue \<le> 1"
    and "0 \<le> alpha" "alpha \<le> 1"
  shows "map (getChannelStr (hexaFromRGBA red green blue alpha)) [0, 1, 2, 3] =
    map (\<lambda>x. Some (nat (js_round (x * 255)))) [alpha, red, green, blue]"
proof -
  have hexa: "intToHexa (js_round (x * 255)) 2
      = [hex_char (nat (js_round (x * 255)) div 16), hex_char (nat (js_round (x * 255)) mod 16)]"
    and parse: "parse_hex [hex_char (nat (js_round (x * 255)) div 16), hex_char (nat (js_round (x * 255)) mod 16)]
      = Some (nat (js_round (x * 255)))"
    if "0 \<le> x" "x \<le> 1" for x
  proof -
    have "0 \<le> js_round (x * 255)" "js_round (x * 255) < 256"
      using js_round_byte [OF that] by simp_all
    then show "intToHexa (js_round (x * 255)) 2
        = [hex_char (nat (js_round (x * 255)) div 16), hex_char (nat (js_round (x * 255)) mod 16)]"
      and "parse_hex [hex_char (nat (js_round (x * 255)) div 16), hex_char (nat (js_round (x * 255)) mod 16)]
        = Some (nat (js_round (x * 255)))"
      using intToHexa_byte parse_hex_byte [of "nat (js_round (x * 255))"] by simp_all
  qed
  show ?thesis
    using assms by (simp add: getChannelStr_def hexaFromRGBA_def hexa parse)
qed

theorem colour_text_channels_witness:
  "map (getChannelStr (hexaFromRGBA (1 / 2) 0 1 (1 / 51))) [0, 1, 2, 3]
     = [Some 5, Some 128, Some 0, Some 255]"
proof -
  have "\<lfloor>11 / 2 :: rat\<rfloor> = 5" "\<lfloor>511 / 2 :: rat\<rfloor> = 255"
    by (simp_all add: floor_eq_iff)
  then show ?thesis
    using colour_text_channels [of "1 / 2" 0 1 "1 / 51"] by (simp add: js_round_def)
qed

end
