(* ===== verification/Color_Picker.thy ===== *)
theory Color_Picker
  imports Color_Wheel
begin

text \<open>
  The colour picker built on the functions of \<open>Color_Wheel\<close>: \<open>ColorWheel.qml\<close>, \<open>VerticalSlider.qml\<close>
  and \<open>NumberBox.qml\<close> of \<open>qml/ui/elements/colorwheel\<close>.

  The property \<open>m.colorRGBA\<close> is a binding and so always the conversion of \<open>colorHSVA\<close>. A number that is
  not a number is \<open>None\<close>. The two properties of the picker change together in each handler, the
  signal \<open>colorChanged\<close> follows every change and is not modelled.
\<close>

section \<open>Ranges and the way back\<close>

lemma js_mod_range: "0 \<le> a \<Longrightarrow> 0 \<le> js_mod a 2 \<and> js_mod a 2 < 2"
proof -
  assume a: "0 \<le> a"
  then have "js_mod a 2 = a - 2 * of_int \<lfloor>a / 2\<rfloor>" by (simp add: js_mod_def Let_def)
  moreover have "of_int \<lfloor>a / 2\<rfloor> \<le> a / 2" "a / 2 < of_int \<lfloor>a / 2\<rfloor> + 1" by linarith+
  ultimately show ?thesis by simp
qed

definition unit_rgb :: "vector4d \<Rightarrow> bool" where
  "unit_rgb p \<longleftrightarrow> 0 \<le> v_x p \<and> v_x p \<le> 1 \<and> 0 \<le> v_y p \<and> v_y p \<le> 1 \<and> 0 \<le> v_z p \<and> v_z p \<le> 1"

lemma hsva2rgba_unit:
  assumes "unit_rgb p"
  shows "unit_rgb (hsva2rgba p) \<and> v_w (hsva2rgba p) = v_w p"
proof -
  define c where "c = v_z p * v_y p"
  define x where "x = c * (1 - \<bar>js_mod (v_x p * 6) 2 - 1\<bar>)"
  have c: "0 \<le> c" "c \<le> v_z p"
    using assms by (auto simp: c_def unit_rgb_def mult_left_le)
  have "0 \<le> js_mod (v_x p * 6) 2" "js_mod (v_x p * 6) 2 < 2"
    using js_mod_range [of "v_x p * 6"] assms by (auto simp: unit_rgb_def)
  then have "0 \<le> 1 - \<bar>js_mod (v_x p * 6) 2 - 1\<bar>" "1 - \<bar>js_mod (v_x p * 6) 2 - 1\<bar> \<le> 1"
    by (auto simp: abs_le_iff)
  then have x: "0 \<le> x" "x \<le> c"
    using c(1) by (auto simp: x_def mult_left_le)
  have eq: "hsva2rgba p = (let m = v_z p - c in
      if v_x p < 1 / 6 then \<lparr>v_x = c + m, v_y = x + m, v_z = m, v_w = v_w p\<rparr>
      else if v_x p < 1 / 3 then \<lparr>v_x = x + m, v_y = c + m, v_z = m, v_w = v_w p\<rparr>
      else if v_x p < 1 / 2 then \<lparr>v_x = m, v_y = c + m, v_z = x + m, v_w = v_w p\<rparr>
      else if v_x p < 2 / 3 then \<lparr>v_x = m, v_y = x + m, v_z = c + m, v_w = v_w p\<rparr>
      else if v_x p < 5 / 6 then \<lparr>v_x = x + m, v_y = m, v_z = c + m, v_w = v_w p\<rparr>
      else \<lparr>v_x = c + m, v_y = m, v_z = x + m, v_w = v_w p\<rparr>)"
    by (simp add: hsva2rgba_def Let_def c_def x_def)
  have "0 \<le> v_z p" "v_z p \<le> 1" using assms by (simp_all add: unit_rgb_def)
  then show ?thesis
    using c x unfolding eq Let_def unit_rgb_def by (auto split: if_split)
qed

lemma hue6_range: "0 \<le> hue6 p \<and> hue6 p < 6"
proof (cases "cmax p = cmin p")
  case False
  let ?d = "cmax p - cmin p"
  have d: "0 < ?d" using False by (auto simp: cmax_def cmin_def)
  have q: "-1 \<le> (a - b) / ?d \<and> (a - b) / ?d \<le> 1" if "a \<le> cmax p" "cmin p \<le> a" "b \<le> cmax p" "cmin p \<le> b" for a b
    using d that by (simp add: pos_le_divide_eq pos_divide_le_eq)
  have bounds: "v_x p \<le> cmax p" "v_y p \<le> cmax p" "v_z p \<le> cmax p"
    "cmin p \<le> v_x p" "cmin p \<le> v_y p" "cmin p \<le> v_z p"
    by (auto simp: cmax_def cmin_def)
  consider (red) "cmax p = v_x p" "v_y p \<ge> v_z p" | (pink) "cmax p = v_x p" "v_y p < v_z p"
    | (green) "cmax p \<noteq> v_x p" "cmax p = v_y p" | (blue) "cmax p \<noteq> v_x p" "cmax p \<noteq> v_y p"
    by linarith
  then show ?thesis
  proof cases
    case red
    then have "hue6 p = (v_y p - v_z p) / ?d" using False by (simp add: hue6_def Let_def)
    moreover have "0 \<le> (v_y p - v_z p) / ?d" using red d by (simp add: divide_nonneg_pos)
    ultimately show ?thesis using q [of "v_y p" "v_z p"] bounds by linarith
  next
    case pink
    then have "hue6 p = (v_y p - v_z p) / ?d + 6" using False by (simp add: hue6_def Let_def)
    moreover have "(v_y p - v_z p) / ?d < 0" using pink d by (simp add: divide_neg_pos)
    ultimately show ?thesis using q [of "v_y p" "v_z p"] bounds by linarith
  next
    case green
    then have "hue6 p = (v_z p - v_x p) / ?d + 2" using False by (simp add: hue6_def Let_def)
    then show ?thesis using q [of "v_z p" "v_x p"] bounds by linarith
  next
    case blue
    then have "hue6 p = (v_x p - v_y p) / ?d + 4" using False by (simp add: hue6_def Let_def)
    then show ?thesis using q [of "v_x p" "v_y p"] bounds by linarith
  qed
qed (simp add: hue6_def Let_def)

lemma rgba2hsva_unit:
  assumes "unit_rgb p"
  shows "unit_rgb (rgba2hsva p) \<and> v_x (rgba2hsva p) < 1 \<and> v_w (rgba2hsva p) = v_w p"
proof -
  have "0 \<le> cmin p" "cmin p \<le> cmax p" "cmax p \<le> 1"
    using assms by (auto simp: unit_rgb_def cmax_def cmin_def)
  moreover have "(cmax p - cmin p) / cmax p \<le> 1" if "cmax p \<noteq> 0"
    using calculation that by (simp add: divide_le_eq)
  ultimately show ?thesis
    using hue6_range [of p] by (auto simp: unit_rgb_def rgba2hsva_hue6)
qed

text \<open>Both conversions stay in range: a colour with components between 0 and 1 has hue, saturation and value
  between 0 and 1, the hue below 1, and hue, saturation and value between 0 and 1 give
  a colour with components between 0 and 1; alpha is passed on unchanged.\<close>

theorem colour_ranges:
  assumes "unit_rgb p"
  shows "unit_rgb (rgba2hsva p) \<and> v_x (rgba2hsva p) < 1 \<and> v_w (rgba2hsva p) = v_w p
    \<and> unit_rgb (hsva2rgba p) \<and> v_w (hsva2rgba p) = v_w p"
  using rgba2hsva_unit [OF assms] hsva2rgba_unit [OF assms] by simp

theorem colour_ranges_witness:
  "v_x (rgba2hsva \<lparr>v_x = 1, v_y = 0, v_z = 1 / 2, v_w = 1\<rparr>) < 1"
  using colour_ranges [of "\<lparr>v_x = 1, v_y = 0, v_z = 1 / 2, v_w = 1\<rparr>"] by (simp add: unit_rgb_def)

lemma wheel_back:
  assumes "v_x p * 6 = of_int k + f" and "0 \<le> f" and "f < 1" and "k \<in> {0, 1, 2, 3, 4, 5}"
    and "0 < v_y p" and "v_y p \<le> 1" and "0 < v_z p"
  shows "rgba2hsva (hsva2rgba p) = p"
proof -
  define c where "c = v_z p * v_y p"
  define w where "w = v_z p"
  have c: "0 < c" using assms(5,7) by (simp add: c_def)
  have cf: "0 \<le> c * f" "c * f < c" "c * (1 - f) \<le> c" "0 < c * (1 - f)"
    using c assms(2,3) by (simp_all add: mult_left_le)
  have s: "v_y p = c / w" and w: "w \<noteq> 0" using assms(7) by (simp_all add: c_def w_def)
  have h: "v_x p = (of_int k + f) / 6" using assms(1) by simp
  have p: "p = \<lparr>v_x = (of_int k + f) / 6, v_y = c / w, v_z = w, v_w = v_w p\<rparr>"
    using h s w_def by simp
  have from_hue: "rgba2hsva q = \<lparr>v_x = (of_int k + f) / 6, v_y = c / w, v_z = w, v_w = v_w q\<rparr>"
    if "cmax q = w" and "cmin q = w - c" and "hue6 q = of_int k + f" for q
    using that w by (simp add: rgba2hsva_hue6)
  note sector = hsva2rgba_sector [OF assms(1-4) c_def refl]
  have "cmax (hsva2rgba p) = w" "cmin (hsva2rgba p) = w - c" "hue6 (hsva2rgba p) = of_int k + f"
    "v_w (hsva2rgba p) = v_w p"
    unfolding sector w_def [symmetric]
    using assms(2-4) c cf
    by (auto simp: hue6_def cmax_def cmin_def max_def min_def Let_def field_simps)
  then show ?thesis using from_hue [of "hsva2rgba p"] p by simp
qed

text \<open>The position on the wheel and the slider survives the conversion to red, green and blue and back:
  hue, saturation and value of every colour that is neither black nor grey, with a hue below 1.\<close>

theorem wheel_roundtrip:
  assumes "0 \<le> v_x p" and "v_x p < 1" and "0 < v_y p" and "v_y p \<le> 1" and "0 < v_z p"
  shows "rgba2hsva (hsva2rgba p) = p"
proof (rule wheel_back [OF _ _ _ _ assms(3-5)])
  let ?k = "\<lfloor>v_x p * 6\<rfloor>"
  show "v_x p * 6 = of_int ?k + (v_x p * 6 - of_int ?k)" by simp
  show "0 \<le> v_x p * 6 - of_int ?k" "v_x p * 6 - of_int ?k < 1" by linarith+
  have "0 \<le> ?k" "?k < 6" using assms(1,2) by (simp_all add: floor_less_iff)
  moreover have "k \<in> {0, 1, 2, 3, 4, 5}" if "0 \<le> k" "k < 6" for k :: int
    using that by auto
  ultimately show "?k \<in> {0, 1, 2, 3, 4, 5}" by blast
qed

theorem wheel_roundtrip_witness:
  "rgba2hsva (hsva2rgba \<lparr>v_x = 2 / 5, v_y = 1 / 2, v_z = 3 / 4, v_w = 1\<rparr>)
     = \<lparr>v_x = 2 / 5, v_y = 1 / 2, v_z = 3 / 4, v_w = 1\<rparr>"
  by (rule wheel_roundtrip) simp_all

section \<open>The sliders\<close>

definition sliderHandleMouse :: "rat \<Rightarrow> rat \<Rightarrow> rat option" where
  "sliderHandleMouse mouse_y height = clampAndProject mouse_y 0 height 1 0"

definition slider_cursor_y :: "rat \<Rightarrow> rat \<Rightarrow> rat" where
  "slider_cursor_y value height = math_clamp (height * (1 - value)) 0 height"

text \<open>A click on a slider gives a value between 0 and 1, full at the top and zero at the bottom, and the
  cursor is drawn where the mouse is, or at the end of the slider the mouse is beyond.\<close>

theorem slider_value:
  assumes "0 < height"
  shows "\<exists>v. sliderHandleMouse y height = Some v \<and> 0 \<le> v \<and> v \<le> 1
    \<and> v = 1 - math_clamp y 0 height / height \<and> slider_cursor_y v height = math_clamp y 0 height"
proof -
  define t where "t = math_clamp y 0 height"
  have t: "0 \<le> t" "t \<le> height" using assms by (auto simp: t_def math_clamp_def)
  have "sliderHandleMouse y height = Some (1 - t / height)"
    using assms by (simp add: sliderHandleMouse_def clampAndProject_def projectValue_def js_div_def t_def
        [symmetric] field_simps)
  moreover have "height * (1 - (1 - t / height)) = t" using assms by (simp add: field_simps)
  ultimately show ?thesis
    using assms t unfolding t_def [symmetric] slider_cursor_y_def
    by (intro exI [of _ "1 - t / height"]) (simp add: math_clamp_def field_simps)
qed

theorem slider_value_witness: "sliderHandleMouse 50 200 = Some (3 / 4)"
  using slider_value [of 200 50] by (auto simp: math_clamp_def)

section \<open>The number boxes\<close>

text \<open>\<open>number_box_finish\<close> is what happens when the text of a box is confirmed: the text as a number,
  the value shown before and the limits.\<close>

datatype box_event = Accepted "rat option" | Refreshed

definition number_box_finish :: "rat option \<Rightarrow> rat \<Rightarrow> rat \<Rightarrow> rat \<Rightarrow> box_event" where
  "number_box_finish parsed lo hi value =
     (case parsed of
        None \<Rightarrow> Accepted None
      | Some x \<Rightarrow> if clamp x lo hi \<noteq> value then Accepted (Some (clamp x lo hi)) else Refreshed)"

record picker =
  colorHSVA :: vector4d
  color :: string

definition colorRGBA :: "picker \<Rightarrow> vector4d" where
  "colorRGBA p = hsva2rgba (colorHSVA p)"

definition hexa_of :: "vector4d \<Rightarrow> string" where
  "hexa_of c = hexaFromRGBA (v_x c) (v_y c) (v_z c) (v_w c)"

definition set_hsva :: "vector4d \<Rightarrow> picker \<Rightarrow> picker" where
  "set_hsva hsva p = (let p1 = p\<lparr>colorHSVA := hsva\<rparr> in p1\<lparr>color := hexa_of (colorRGBA p1)\<rparr>)"

definition wheel_updateHS :: "rat \<Rightarrow> rat \<Rightarrow> picker \<Rightarrow> picker" where
  "wheel_updateHS h s p = set_hsva ((colorHSVA p)\<lparr>v_x := h, v_y := s\<rparr>) p"

definition brightness_changed :: "rat \<Rightarrow> picker \<Rightarrow> picker" where
  "brightness_changed value p = set_hsva ((colorHSVA p)\<lparr>v_z := value\<rparr>) p"

definition alpha_changed :: "rat \<Rightarrow> picker \<Rightarrow> picker" where
  "alpha_changed value p = set_hsva ((colorHSVA p)\<lparr>v_w := value\<rparr>) p"

definition red_accepted :: "rat \<Rightarrow> picker \<Rightarrow> picker" where
  "red_accepted boxValue p =
     set_hsva (rgba2hsva ((colorRGBA p)\<lparr>v_x := boxValue / 255, v_w := v_w (colorHSVA p)\<rparr>)) p"

definition green_accepted :: "rat \<Rightarrow> picker \<Rightarrow> picker" where
  "green_accepted boxValue p =
     set_hsva (rgba2hsva ((colorRGBA p)\<lparr>v_y := boxValue / 255, v_w := v_w (colorHSVA p)\<rparr>)) p"

definition blue_accepted :: "rat \<Rightarrow> picker \<Rightarrow> picker" where
  "blue_accepted boxValue p =
     set_hsva (rgba2hsva ((colorRGBA p)\<lparr>v_z := boxValue / 255, v_w := v_w (colorHSVA p)\<rparr>)) p"

definition alpha_accepted :: "rat \<Rightarrow> picker \<Rightarrow> picker" where
  "alpha_accepted boxValue p = set_hsva ((colorHSVA p)\<lparr>v_w := boxValue / 255\<rparr>) p"

definition unit_colour :: "vector4d \<Rightarrow> bool" where
  "unit_colour p \<longleftrightarrow> unit_rgb p \<and> 0 \<le> v_w p \<and> v_w p \<le> 1"

text \<open>The four numbers in the text of the colour: alpha, red, green, blue.\<close>

definition channels :: "picker \<Rightarrow> nat option list" where
  "channels p = map (getChannelStr (color p)) [0, 1, 2, 3]"

definition channel_of :: "rat \<Rightarrow> nat option" where
  "channel_of x = Some (nat (js_round (x * 255)))"

lemma channels_set_hsva:
  assumes "unit_colour (hsva2rgba hsva)"
  shows "channels (set_hsva hsva p) =
    map channel_of [v_w (hsva2rgba hsva), v_x (hsva2rgba hsva), v_y (hsva2rgba hsva), v_z (hsva2rgba hsva)]"
  using assms colour_text_channels [of "v_x (hsva2rgba hsva)" "v_y (hsva2rgba hsva)" "v_z (hsva2rgba hsva)"
      "v_w (hsva2rgba hsva)"]
  by (simp add: channels_def set_hsva_def colorRGBA_def hexa_of_def unit_colour_def unit_rgb_def channel_of_def Let_def)

lemma channels_set_rgba:
  assumes "unit_colour c"
  shows "channels (set_hsva (rgba2hsva c) p) = map channel_of [v_w c, v_x c, v_y c, v_z c]"
proof -
  have "hsva2rgba (rgba2hsva c) = c"
    using assms colour_back_all [of c] by (simp add: unit_colour_def unit_rgb_def)
  then show ?thesis using channels_set_hsva [of "rgba2hsva c" p] assms by simp
qed

lemma clamp_byte: "0 \<le> clamp x 0 255 / 255" "clamp x 0 255 / 255 \<le> 1"
  by (auto simp: clamp_def)

text \<open>A number typed into the box of a channel arrives: cut to 0..255 and rounded it is the value of that
  channel in the text of the colour, and the three other channels keep the values of the colour
  before.\<close>

theorem number_box_channel:
  assumes "unit_colour (colorHSVA p)" and "v = clamp x 0 255"
    and "c = colorRGBA p"
  shows "channels (red_accepted v p) = map channel_of [v_w c, v / 255, v_y c, v_z c]
    \<and> channels (green_accepted v p) = map channel_of [v_w c, v_x c, v / 255, v_z c]
    \<and> channels (blue_accepted v p) = map channel_of [v_w c, v_x c, v_y c, v / 255]
    \<and> channels (alpha_accepted v p) = map channel_of [v / 255, v_x c, v_y c, v_z c]"
proof -
  have hsva: "unit_rgb (colorHSVA p)" using assms(1) by (simp add: unit_colour_def)
  have unit: "unit_colour c" and w: "v_w (colorHSVA p) = v_w c"
    using hsva2rgba_unit [OF hsva] assms(1) by (simp_all add: assms(3) colorRGBA_def unit_colour_def)
  have v: "0 \<le> v / 255" "v / 255 \<le> 1" using clamp_byte by (simp_all add: assms(2))
  have alpha: "hsva2rgba ((colorHSVA p)\<lparr>v_w := v / 255\<rparr>) = c\<lparr>v_w := v / 255\<rparr>"
    by (simp add: assms(3) colorRGBA_def hsva2rgba_def Let_def)
  have units: "unit_colour (c\<lparr>v_x := v / 255, v_w := v_w c\<rparr>)" "unit_colour (c\<lparr>v_y := v / 255, v_w := v_w c\<rparr>)"
    "unit_colour (c\<lparr>v_z := v / 255, v_w := v_w c\<rparr>)" "unit_colour (c\<lparr>v_w := v / 255\<rparr>)"
    using unit v by (simp_all add: unit_colour_def unit_rgb_def)
  show ?thesis
    using channels_set_rgba [OF units(1)] channels_set_rgba [OF units(2)] channels_set_rgba [OF units(3)]
      channels_set_hsva [of "(colorHSVA p)\<lparr>v_w := v / 255\<rparr>" p] units(4)
    by (simp add: red_accepted_def green_accepted_def blue_accepted_def alpha_accepted_def
        assms(3) [symmetric] w alpha)
qed

theorem number_box_channel_witness:
  "channels (red_accepted 51 \<lparr>colorHSVA = \<lparr>v_x = 0, v_y = 0, v_z = 1, v_w = 1\<rparr>, color = []\<rparr>)
     = [Some 255, Some 51, Some 255, Some 255]"
proof -
  let ?p = "\<lparr>colorHSVA = \<lparr>v_x = 0, v_y = 0, v_z = 1, v_w = 1\<rparr>, color = []\<rparr>"
  have rgba: "colorRGBA ?p = \<lparr>v_x = 1, v_y = 1, v_z = 1, v_w = 1\<rparr>"
    by (simp add: colorRGBA_def hsva2rgba_def js_mod_def Let_def)
  have "\<lfloor>103 / 2 :: rat\<rfloor> = 51" "\<lfloor>511 / 2 :: rat\<rfloor> = 255"
    by (simp_all add: floor_eq_iff)
  then show ?thesis
    using number_box_channel [of ?p 51 51 "colorRGBA ?p"]
    by (simp add: rgba unit_colour_def unit_rgb_def clamp_def channel_of_def js_round_def)
qed

text \<open>A text that is not a number is accepted as one: the limits do not catch it.\<close>

lemma number_box_nan: "number_box_finish None lo hi value = Accepted None"
  by (simp add: number_box_finish_def)

text \<open>The conversion to hue, saturation and lightness divides by zero exactly for black and for white.\<close>

lemma hsba_undefined_iff:
  assumes "0 \<le> s" and "s \<le> 1" and "0 \<le> b" and "b \<le> 1"
  shows "fst (snd (hsba h s b a)) = None \<longleftrightarrow> b = 0 \<or> s = 0 \<and> b = 1"
proof -
  have zero: "(2 - s) * b = 0 \<longleftrightarrow> b = 0" using assms(2) by auto
  have "(2 - s) * b \<le> 2 - s" using assms by (simp add: mult_left_le)
  then have two: "(2 - s) * b = 2 \<longleftrightarrow> s = 0 \<and> b = 1" using assms(1) by auto
  show ?thesis
    using zero two by (auto simp: hsba_def js_div_def Let_def)
qed

end
