(* ===== verification/Localization.thy ===== *)
theory Localization
  imports Prelude
begin

text \<open>
  Switching the language of the program: \<open>loadTranslator\<close>, \<open>installTranslatorForLanguage\<close> and
  \<open>switchToLanguage\<close> of \<open>app/util/qopenhd.cpp\<close>.

  \<open>QTranslator::load\<close> is third-party code: the parameter \<open>load\<close> tells for a resource whether it can be
  loaded. A translator holds the catalogue it loaded last.
\<close>

section \<open>Switching the language\<close>

record app_language =
  engine_set :: bool
  default_locale :: string
  loaded_catalogue :: "string option"
  translator_installed :: bool

type_synonym settings = "string \<rightharpoonup> string"

definition qm_file :: "string \<Rightarrow> string" where
  "qm_file language = '':/translations/QOpenHD_'' @ language @ ''.qm''"

definition load_catalogue :: "(string \<Rightarrow> bool) \<Rightarrow> string \<Rightarrow> app_language \<Rightarrow> app_language \<times> bool" where
  "load_catalogue load file a =
     (a\<lparr>loaded_catalogue := (if load file then Some file else None)\<rparr>, load file)"

text \<open>The settings are \<open>None\<close> when the pointer is null.\<close>

definition loadTranslator ::
  "(string \<Rightarrow> bool) \<Rightarrow> string \<Rightarrow> app_language \<Rightarrow> settings option \<Rightarrow>
     app_language \<times> settings option \<times> bool" where
  "loadTranslator load language a s =
     (let a1 = a\<lparr>default_locale := language\<rparr>;
          (a2, ok) = load_catalogue load (qm_file language) a1 in
      if \<not> ok then
        let a3 = a2\<lparr>default_locale := ''en''\<rparr>;
            s1 = map_option (\<lambda>m. m(''locale'' \<mapsto> ''en'')) s;
            (a4, ok') = load_catalogue load (qm_file ''en'') a3
        in (a4, s1, ok')
      else (a2, map_option (\<lambda>m. m(''locale'' \<mapsto> language)) s, True))"

definition installTranslatorForLanguage ::
  "(string \<Rightarrow> bool) \<Rightarrow> string \<Rightarrow> app_language \<Rightarrow> settings option \<Rightarrow>
     app_language \<times> settings option \<times> bool" where
  "installTranslatorForLanguage load language a s =
     (let a1 = a\<lparr>translator_installed := False\<rparr>;
          (a2, s2, success) = loadTranslator load language a1 s
      in (a2\<lparr>translator_installed := True\<rparr>, s2, success))"

definition switchToLanguage ::
  "(string \<Rightarrow> bool) \<Rightarrow> string \<Rightarrow> app_language \<Rightarrow> settings \<Rightarrow> app_language \<times> settings" where
  "switchToLanguage load language a s =
     (if \<not> engine_set a then (a, s)
      else
        let (a1, s1, _) = installTranslatorForLanguage load language a (Some s) in (a1, the s1))"

text \<open>Switching the language leaves the program consistent: the locale, the stored setting and
  the installed catalogue name the same language, which is the one asked for when its catalogue
  can be loaded and English otherwise, provided the English catalogue can be loaded.\<close>

theorem switch_language_consistent:
  assumes "engine_set a" and "load (qm_file ''en'')"
    and "switchToLanguage load language a s = (a', s')"
  shows "default_locale a' = (if load (qm_file language) then language else ''en'')
    \<and> s' ''locale'' = Some (default_locale a')
    \<and> loaded_catalogue a' = Some (qm_file (default_locale a')) \<and> translator_installed a'"
  using assms
  by (auto simp: switchToLanguage_def installTranslatorForLanguage_def loadTranslator_def
      load_catalogue_def Let_def split: if_splits)

theorem switch_language_consistent_witness:
  "\<exists>a' s'. switchToLanguage (\<lambda>f. f = qm_file ''en'') ''xx''
      \<lparr>engine_set = True, default_locale = ''de'', loaded_catalogue = None, translator_installed = False\<rparr>
      (\<lambda>_. None) = (a', s') \<and> default_locale a' = ''en'' \<and> s' ''locale'' = Some (default_locale a')"
proof -
  let ?a = "\<lparr>engine_set = True, default_locale = ''de'', loaded_catalogue = None, translator_installed = False\<rparr>"
  obtain a' s' where sw: "switchToLanguage (\<lambda>f. f = qm_file ''en'') ''xx'' ?a (\<lambda>_. None) = (a', s')"
    by fastforce
  have "qm_file ''xx'' \<noteq> qm_file ''en''" by (simp add: qm_file_def)
  with switch_language_consistent [OF _ _ sw] sw show ?thesis by auto
qed

end
