(* ===== verification/Spec2Isabelle.thy ===== *)
theory Spec2Isabelle
  imports Rtp_Loss Raw_Receiver Cmd_Sender Xparam Message_Intervals Mission_Handler Wb_Link
    Settings_Shown Param_Queries Mavlink_Connection Unit_Status Stream_Status Mavlink_Telemetry Fc_Telemetry
    Message_Stats Time_Stats Traffic_Reply Traffic_Links Decoder_Runs Android_Players Viewport
    Color_Picker Localization
begin

text \<open>
  A verification library for QOpenHD, the ground station application of OpenHD: it receives a video
  stream and telemetry over a lossy digital link, shows both on the screen, and sends commands and
  parameters back. All paths below are relative to \<open>src\<close>; where a theory says \<open>app/\<close> or \<open>qml/\<close>, the same.

  \<^bold>\<open>The program and its languages.\<close> The logic is written in C++ (\<open>app/\<close>) and, for the user interface, QML with
  a little JavaScript (\<open>qml/\<close>). The files ending in \<open>.ts\<close> are not TypeScript but translation catalogues
  of Qt Linguist: data the program loads, and no part of the library. The library models the parts that decide something:

    \<^item> The video path: datagrams are parsed as RTP packets, reassembled to NAL units (NALUs), sorted into parameter
      sets and frames, and queued for the decoder thread.
    \<^item> The telemetry path: commands, parameters, message rates and missions are asked for with
      acknowledgements, time-outs and retransmission.
    \<^item> The settings: Wifi channels, the results of scans, the parameters of the link.
    \<^item> The user interface: the conversions behind the colour picker, and the language switch.

  \<^bold>\<open>Conventions\<close> (theory \<open>Prelude\<close>). Machine integers whose wrap-around matters are words, other integers are
  unbounded, with the reason stated where it is used. A class is a record, a member function takes and
  returns it. What ends the defined behaviour of a C++ function is a value: \<open>Inl\<close> of a
  \<open>cpp_fault\<close> (failed assertion, access outside a buffer, increment of an end iterator, dereference of an empty
  optional, use of a deleted object, exception, a wait that never ends). The assertions are part of the model because the build
  files do not define \<open>NDEBUG\<close>. Callbacks and messages handed to a library are recorded in lists of the
  state. The clock is a parameter of every operation that reads it. Debug output is left out.

  \<^bold>\<open>Video path\<close> (\<open>app/videostreaming/vscommon\<close>).
    \<^item> \<open>Rtp_Header\<close>: the bit-fields and assertions of \<open>rtp/RTP.hpp\<close>.
    \<^item> \<open>Rtp_Decoder\<close>: \<open>RTPDecoder\<close> of \<open>rtp/ParseRTP.cpp\<close>: sequence check, the H.264 and H.265 parse functions, the
      NALU buffer of 1 MiB, forwarding.
    \<^item> \<open>Rtp_Streams\<close>, \<open>Rtp_H264\<close>, \<open>Rtp_H265\<close>: the payload formats of RFC 6184 and RFC 7798 as a sender. The locales
      \<open>fragment_parser\<close> and \<open>unit_parser\<close> state what a depacketiser owes a sender; both parse functions
      interpret them, and the round trips of the two codecs follow.
    \<^item> \<open>Rtp_Safety\<close>: arbitrary packets. The invariant of the decoder, the exact packets that end in a fault, and what H.265
      forwards after a loss. \<open>Rtp_Loss\<close>: what H.264 forwards of a stream of which any packets are lost.
    \<^item> \<open>Nalu_Types\<close>, \<open>Nalu\<close>, \<open>Codec_Config\<close>: \<open>nalu/NALUnitType.hpp\<close>, \<open>nalu/NALU.hpp\<close>, \<open>nalu/CodecConfigFinder.hpp\<close>.
    \<^item> \<open>Frame_Queue\<close>: \<open>app/common/ThreadsafeQueue.hpp\<close> as a step relation, one step per critical section
      of one thread. The locale \<open>bounded_fifo\<close> is the contract the receiver relies on; its
      interpretation is the queue of the code with its bound of 20 frames.
    \<^item> \<open>Video_Receiver\<close>, \<open>Video_Stream\<close>, \<open>Video_Safety\<close>: \<open>RTPReceiver\<close>. The handlers from datagram to queue implement
      \<open>video_step\<close>, the specification on NALUs; composed with the round trip this
      says which frames of a sender reach the decoder. The invariant holds under every
      interleaving of the receiving and the decoding thread.
    \<^item> \<open>Raw_Receiver\<close>: the start-code scanner of \<open>custom/rawreceiver.cpp\<close>: its round trip, and the byte sequences
      that make it write outside its array.
    \<^item> \<open>Settings_Store\<close>, \<open>Video_Settings\<close>, \<open>Viewport\<close>: the stored settings, those of the decoders
      (\<open>QOpenHDVideoHelper.hpp\<close>), and the part of the surface the video fills (\<open>video_ratio_helper.hpp\<close>).
    \<^item> \<open>Video_Decoder\<close>, \<open>Decoder_Runs\<close>: the control of \<open>app/videostreaming/avcodec/avcodec_decoder.cpp\<close>, with the receiver
      above inside its session. A run interleaves the decoding thread, the packets, the timer for the settings and the end of the
      program. The codec gets the configuration and then the frames in order, also composed with a sender; the thread
      ends when it is told to, and takes up changed settings.
    \<^item> \<open>Low_Lag_Decoder\<close>, \<open>Android_Players\<close>: the decoder and the players of \<open>app/videostreaming/android\<close>, with the receiver of
      \<open>app/videostreaming/gstreamer/gstrtpreceiver.cpp\<close>. What the players ask of a codec of Android keeps its rules, and a new texture
      is the one the video is shown on. What GStreamer and the codec return is an input. A release is one step but for its race: the
      calls the output thread makes after the codec was deleted are an argument of it (\<open>late_calls\<close>), and a fault.
      The task for the thread of Android is one step, as is every handler.

  \<^bold>\<open>Telemetry\<close> (\<open>app/telemetry\<close>).
    \<^item> \<open>Retransmission\<close>: the time-out loop that three functions of the code share, and the locale
      \<open>retry_request\<close>: the life of one request between its first transmission and its answer or last time-out.
    \<^item> \<open>Cmd_Sender\<close>, \<open>Xparam\<close>: \<open>action/impl/cmdsender.cpp\<close> and \<open>action/impl/xparam.cpp\<close>. Each request kind interprets
      \<open>retry_request\<close>. At most five commands are pending, a request is answered at most once, a
      fetch of all parameters completes with every value in its place.
    \<^item> \<open>Message_Intervals\<close>: \<open>action/fcmsgintervalhandler.cpp\<close> composed with the command sender it uses.
    \<^item> \<open>Mission_Handler\<close>: \<open>action/fcmissionhandler.cpp\<close> with the list model the screen shows. The signals of the thread of
      telemetry wait in a queue until the user interface takes them, the user's own are delivered at once.
    \<^item> \<open>Wifi_Frequency\<close>, \<open>Pollution\<close>, \<open>Wb_Link\<close>: \<open>settings/wifi_channel.h\<close>, \<open>settings/frequencyhelper.cpp\<close>,
      \<open>settings/pollutionhelper.cpp\<close> and \<open>settings/wblinksettingshelper.cpp\<close>, which writes the data of the other two.
    \<^item> \<open>Documented_Param\<close>, \<open>Param_Queries\<close>: \<open>settings/documentedparam.cpp\<close>, \<open>settings/improvedintsetting.cpp\<close> and
      \<open>settings/improvedstringsetting.cpp\<close>: the table of all parameters with the choices and ranges of each (its
      descriptions left out), and what the user interface asks of it.
    \<^item> \<open>Settings_Model\<close>, \<open>Settings_Shown\<close>: \<open>settings/mavlinksettingsmodel.cpp\<close>. The four models of the program share
      one parameter client, that of \<open>Xparam\<close>; the callbacks they give it are values, and \<open>settings_step\<close> is one
      step of the composed system. Each model has one request at most, the blocking changes included
      (\<open>model_step\<close>), and what the screen shows is what the unit has sent.
    \<^item> \<open>Mavlink_Connection\<close>: \<open>connection/udp_connection.cpp\<close>, \<open>connection/tcp_connection.cpp\<close> and their
      management in \<open>MavlinkTelemetry.cpp\<close>: which of the four connections runs, and where a message goes. What a
      socket reports is an event.
    \<^item> \<open>Log_Models\<close>: the messages on the display and in the log (\<open>app/logging\<close>).
    \<^item> \<open>Ohd_System\<close>, \<open>Unit_Status\<close>, \<open>Auto_Fetch\<close>: \<open>models/aohdsystem.cpp\<close> and \<open>models/wificard.cpp\<close>, the air and the
      ground unit with the link settings, the logs and the settings models they write; whether a unit is shown as
      connected, and how the parameters are fetched without the user.
    \<^item> \<open>Camera\<close>: \<open>models/openhd_core/camera.hpp\<close>: the names and resolutions of the cameras, the choice for each platform, and the
      parser of a resolution, with its regular expression as a function. \<open>String_Helper\<close>: the texts of
      \<open>app/common/StringHelper.hpp\<close>. \<open>Camera_Stream\<close>, \<open>Stream_Status\<close>: \<open>models/camerastreammodel.cpp\<close>, what is shown of
      a camera and its stream, and, inside the runs of \<open>Ohd_System\<close> and with the user's page of settings, the codec the decoder is
      set to.
    \<^item> \<open>Fc_Action\<close>: \<open>action/fcaction.cpp\<close> and \<open>action/ohdaction.cpp\<close>: arming, flight modes by number and by name, and the
      commands that wait, on a command sender others use, too. Every mode that can be asked for has a text but one (\<open>auto_rtl_unknown\<close>).
    \<^item> \<open>Fc_Model\<close>, \<open>Fc_Shown\<close>: \<open>models/fcmavlinksystem.cpp\<close> and \<open>models/rcchannelsmodel.cpp\<close>: what is shown of the flight
      controller, with the actions above; its connection, the warning about a quiet one, the flight distance, the course home, and
      that the mode asked for is the mode shown.
    \<^item> \<open>Mavlink_Telemetry\<close>: \<open>process_mavlink_message\<close> of \<open>MavlinkTelemetry.cpp\<close>, the way of every message to its handler. Its
      state \<open>telemetry\<close> composes all of the above; a run is a list of \<open>telemetry_event\<close>, in which messages and timers occur, but
      no commands of the user. \<open>Fc_Telemetry\<close>: such a run refines the model of the flight controller on what a reference reads off
      the events, so what holds of that model alone holds in the program.
    \<^item> \<open>Mavlink_Enums\<close>, \<open>Telemetry_Util\<close>: \<open>tutil/mavlink_enum_to_string.h\<close> and \<open>tutil/telemetryutil.hpp\<close>.
    \<^item> \<open>Decimal\<close>: decimal texts as \<open>std::to_string\<close> and \<open>QString::number\<close> print them.

  \<^bold>\<open>Traffic\<close> (\<open>app/adsb\<close>).
    \<^item> \<open>Object_List\<close>: the list model of \<open>qmlobjectlistmodel.cpp\<close>, on addresses.
    \<^item> \<open>Traffic\<close>: \<open>adsbvehicle.cpp\<close> and the manager of \<open>adsbvehiclemanager.cpp\<close>, with an explicit heap of aircraft: a run
      refines a plain list and never follows a dangling pointer, and after a clean-up exactly the aircraft heard of
      lately are shown. \<open>Traffic_Reply\<close>: the readers of the replies of both sources, on parsed JSON values; which aircraft they
      let through, and where the fields they leave unset are not seen. \<open>Traffic_Links\<close>: what the sources ask for.

  \<^bold>\<open>Statistics.\<close>
    \<^item> \<open>Message_Stats\<close>: \<open>app/telemetry/models/mavlinkmessagestatsmodel.cpp\<close>, the table of the messages received and the
      decoding of their fields from the wire format. The table equals a reference on the history.
    \<^item> \<open>Time_Stats\<close>: the averages and rates of \<open>app/common/TimeHelper.hpp\<close>.

  \<^bold>\<open>User interface.\<close>
    \<^item> \<open>Color_Wheel\<close>: every function of \<open>ColorUtils.js\<close> and \<open>mathUtils.js\<close> (\<open>qml/ui/elements/colorwheel\<close>), over
      rational numbers. \<open>Color_Picker\<close>: the QML handlers built on them, ranges and round trips.
    \<^item> \<open>Localization\<close>: the language switch of \<open>app/util/qopenhd.cpp\<close>.

  \<^bold>\<open>Loops.\<close> No definition uses fuel. The loops over packets, lists and bytes are structural or have a measure:
  the aggregation loops of the parsers shorten the rest of the packet, the time-out loop shortens the
  list, decimal printing divides. A run of the program is a list of operations or, where two
  threads meet, a step relation with its reachable states.

  \<^bold>\<open>Not modelled.\<close> The calls to sockets and threads; FFmpeg (an input of the decoding thread), GStreamer, OpenGL and Android; encoding
  and decoding of whole MAVLink messages and the MAVSDK (third-party; the model starts and ends at
  the message structures, and the numbers of MAVLink enumerators that are not in the repository are
  parameters); fields of messages that are copied to the screen unchanged; painting; the network and the JSON parser of the traffic display; declarative QML without handlers. Floating-point rounding: where the code uses \<open>float\<close> or
  \<open>double\<close> the model uses exact rationals, and functions that need the trigonometric functions are left out
  (\<open>Wheel.qml\<close>, conversions from radians, the estimates of motion and wind in \<open>fcmavlinksystem.cpp\<close>) or enter as an
  argument (the bearing home); so do the distances of two points, by GeographicLib and by the formula of the traffic display.
\<close>

end
